(* ===== verification/Flyte_Prelude.thy ===== *)
theory Flyte_Prelude
  imports Main "HOL-Library.Word" "HOL-Library.Sublist" "HOL-Library.Multiset"
    "HOL-Library.Char_ord" "HOL-Library.List_Lexorder" "HOL-Library.Product_Lexorder"
begin

section \<open>Shared types, collections and generic lemmas\<close>

text \<open>
  Everything the component theories share: the machine-integer types of the Go
  sources, the collection of simplification rules each component
  contributes to, and generic facts on lists, options and maps.
\<close>

unbundle bit_operations_syntax

subsection \<open>Go types\<close>

type_synonym uint32 = "32 word"
type_synonym uint64 = "64 word"

text \<open>
  A Go \<open>(T, error)\<close> result or a call that may panic is a sum: \<open>Inl\<close> carries the
  error or the panic, \<open>Inr\<close> the value.
\<close>

definition is_ok :: "'e + 'a \<Rightarrow> bool" where
  "is_ok r = (case r of Inl _ \<Rightarrow> False | Inr _ \<Rightarrow> True)"

lemma is_ok_simps [simp]: "is_ok (Inr x)" "\<not> is_ok (Inl e)"
  by (simp_all add: is_ok_def)

lemma is_ok_iff: "is_ok r \<longleftrightarrow> (\<exists>x. r = Inr x)"
  by (cases r) auto

subsection \<open>Go strings\<close>

text \<open>
  \<open>strings.Join\<close>, the decimal text of a natural number, and the byte-wise order of
  strings, which the library's lexicographic order on lists of characters gives.
\<close>

fun strings_Join :: "string list \<Rightarrow> string \<Rightarrow> string" where
  "strings_Join [] sep = []"
| "strings_Join [x] sep = x"
| "strings_Join (x # y # xs) sep = x @ sep @ strings_Join (y # xs) sep"

definition digit_char :: "nat \<Rightarrow> char" where
  "digit_char d = char_of (48 + d)"

fun itoa :: "nat \<Rightarrow> string" where
  "itoa n = (if n < 10 then [digit_char n] else itoa (n div 10) @ [digit_char (n mod 10)])"

declare itoa.simps [simp del]

text \<open>\<open>strings.ToLower\<close>, on ASCII.\<close>

definition lower_char :: "char \<Rightarrow> char" where
  "lower_char c = (if CHR ''A'' \<le> c \<and> c \<le> CHR ''Z'' then char_of (of_char c + 32 :: nat) else c)"

definition strings_ToLower :: "string \<Rightarrow> string" where "strings_ToLower = map lower_char"

subsection \<open>Powers of two\<close>

text \<open>The exact value of \<open>math.Ceil(math.Log2(n))\<close>.\<close>

fun ceil_log2 :: "nat \<Rightarrow> nat" where
  "ceil_log2 n = (if n \<le> 1 then 0 else Suc (ceil_log2 ((n + 1) div 2)))"

declare ceil_log2.simps [simp del]

lemma ceil_log2_le: "n \<le> 2 ^ ceil_log2 n"
proof (induction n rule: ceil_log2.induct)
  case (1 n)
  show ?case
  proof (cases "n \<le> 1")
    case False
    with "1.IH" have "(n + 1) div 2 \<le> 2 ^ ceil_log2 ((n + 1) div 2)" by simp
    with False show ?thesis by (subst ceil_log2.simps) simp
  qed (simp add: ceil_log2.simps)
qed

lemma ceil_log2_least: "n \<le> 2 ^ k \<Longrightarrow> ceil_log2 n \<le> k"
proof (induction n arbitrary: k rule: ceil_log2.induct)
  case (1 n)
  show ?case
  proof (cases "n \<le> 1")
    case False
    then obtain k' where k: "k = Suc k'" using "1.prems" by (cases k) auto
    with "1.prems" have "(n + 1) div 2 \<le> 2 ^ k'" by simp
    then have "ceil_log2 ((n + 1) div 2) \<le> k'" using "1.IH" False by simp
    then show ?thesis using False k by (subst ceil_log2.simps) simp
  qed (simp add: ceil_log2.simps)
qed

end
