(* ===== verification/Bit_Set.thy ===== *)
theory Bit_Set
  imports Flyte_Prelude
begin

section \<open>Growable bit sets (flytestdlib/bitarray/bitset.go)\<close>

text \<open>
  A \<open>BitSet\<close> is a slice of 32-bit blocks. An index is a Go \<open>uint\<close>; it is a
  natural number here, and no arithmetic of this file can wrap for indices below \<open>2 ^ 64\<close>:
  an index is only divided by and reduced modulo the block size. The pointer receiver is
  state passing: an operation that writes returns the new slice.

  The interface \<open>bit_store\<close> states what a client may rely on: what \<open>IsSet\<close> returns
  after \<open>Set\<close> and \<open>Clear\<close>. Its one derived law, on a whole sequence of writes, is what
  the compact array is built on.
\<close>

unbundle bit_operations_syntax

type_synonym Block = uint32
type_synonym BitSet = "Block list"

definition blockSize :: nat where
  "blockSize = 32"

definition BitSet_Set :: "BitSet \<Rightarrow> nat \<Rightarrow> BitSet" where
  "BitSet_Set s i =
     (let s' = (if length s < i div blockSize + 1
                then s @ replicate (i div blockSize + 1) 0 else s)
      in s'[i div blockSize := s' ! (i div blockSize) OR push_bit (i mod blockSize) 1])"

definition BitSet_Clear :: "BitSet \<Rightarrow> nat \<Rightarrow> BitSet" where
  "BitSet_Clear s i =
     (if i div blockSize + 1 \<le> length s
      then s[i div blockSize := s ! (i div blockSize) AND NOT (push_bit (i mod blockSize) 1)]
      else s)"

definition BitSet_IsSet :: "BitSet \<Rightarrow> nat \<Rightarrow> bool" where
  "BitSet_IsSet s i =
     (if length s < i div blockSize + 1 then False
      else s ! (i div blockSize) AND push_bit (i mod blockSize) 1 \<noteq> 0)"

definition BitSet_BlockCount :: "BitSet \<Rightarrow> nat" where
  "BitSet_BlockCount s = length s"

definition BitSet_Cap :: "BitSet \<Rightarrow> nat" where
  "BitSet_Cap s = BitSet_BlockCount s * blockSize"

definition NewBitSet :: "nat \<Rightarrow> BitSet" where
  "NewBitSet desiredCap =
     (let size = desiredCap div blockSize;
          size = (if desiredCap mod blockSize \<noteq> 0 then size + 1 else size)
      in replicate size 0)"

subsection \<open>The interface of a bit store\<close>

locale bit_store =
  fixes put :: "'s \<Rightarrow> nat \<Rightarrow> 's"
    and clr :: "'s \<Rightarrow> nat \<Rightarrow> 's"
    and get :: "'s \<Rightarrow> nat \<Rightarrow> bool"
  assumes get_put: "get (put s i) j \<longleftrightarrow> j = i \<or> get s j"
    and get_clr: "get (clr s i) j \<longleftrightarrow> j \<noteq> i \<and> get s j"
begin

text \<open>
  After any sequence of writes, a bit has the value of the last write to its index, and
  its old value when no write touches it.
\<close>

lemma get_writes:
  "get (fold (\<lambda>(k, b) s. if b then put s k else clr s k) ws s) j =
     (case map_of (rev ws) j of None \<Rightarrow> get s j | Some b \<Rightarrow> b)"
proof (induction ws arbitrary: s)
  case Nil
  then show ?case by simp
next
  case (Cons w ws)
  obtain k b where w: "w = (k, b)" by (cases w)
  show ?case
    by (simp add: Cons.IH w get_put get_clr map_add_def split: option.split)
qed

end

subsection \<open>The slice implements the interface\<close>

lemma bit_shifted_one: "bit (2 ^ n :: uint32) m \<longleftrightarrow> m = n \<and> n < 32"
  by (auto simp: bit_exp_iff)

lemma and_shifted_one_iff: "x AND 2 ^ n \<noteq> 0 \<longleftrightarrow> bit x n"
  if "n < 32" for x :: uint32
proof
  assume "x AND 2 ^ n \<noteq> 0"
  then obtain m where "bit (x AND 2 ^ n) m"
    using bit_eqI [of "x AND 2 ^ n" 0] by auto
  then show "bit x n"
    by (auto simp: bit_and_iff bit_shifted_one)
next
  assume "bit x n"
  with that have "bit (x AND 2 ^ n) n"
    by (simp add: bit_and_iff bit_shifted_one)
  then show "x AND 2 ^ n \<noteq> 0" by auto
qed

text \<open>Reading a bit as a bit of its block: the form every proof below works with.\<close>

lemma BitSet_IsSet_bit:
  "BitSet_IsSet s i \<longleftrightarrow> i div 32 < length s \<and> bit (s ! (i div 32)) (i mod 32)"
  by (auto simp: BitSet_IsSet_def blockSize_def and_shifted_one_iff)

lemma same_block_other_bit: "(i::nat) div 32 = j div 32 \<Longrightarrow> i \<noteq> j \<Longrightarrow> i mod 32 \<noteq> j mod 32"
  by (metis div_mult_mod_eq)

lemma BitSet_IsSet_Set: "BitSet_IsSet (BitSet_Set s i) j \<longleftrightarrow> j = i \<or> BitSet_IsSet s j"
proof (cases "j div 32 = i div 32")
  case True
  then show ?thesis
    using same_block_other_bit [OF True]
    by (auto simp: BitSet_IsSet_bit BitSet_Set_def blockSize_def Let_def nth_append
        bit_or_iff bit_shifted_one nth_replicate
        simp del: replicate.simps)
next
  case False
  then have "j \<noteq> i" by auto
  with False show ?thesis
    by (auto simp: BitSet_IsSet_bit BitSet_Set_def blockSize_def Let_def nth_append nth_replicate
        simp del: replicate.simps)
qed

lemma BitSet_IsSet_Clear: "BitSet_IsSet (BitSet_Clear s i) j \<longleftrightarrow> j \<noteq> i \<and> BitSet_IsSet s j"
proof (cases "j div 32 = i div 32")
  case True
  then show ?thesis
    using same_block_other_bit [OF True]
    by (auto simp: BitSet_IsSet_bit BitSet_Clear_def blockSize_def
        bit_and_iff bit_not_iff bit_shifted_one)
next
  case False
  then have "j \<noteq> i" by auto
  with False show ?thesis
    by (auto simp: BitSet_IsSet_bit BitSet_Clear_def blockSize_def)
qed

interpretation bitset: bit_store BitSet_Set BitSet_Clear BitSet_IsSet
  by unfold_locales (rule BitSet_IsSet_Set, rule BitSet_IsSet_Clear)

text \<open>The set of indices a bit set holds: its abstract value.\<close>

definition bits_of :: "BitSet \<Rightarrow> nat set" where
  "bits_of s = {i. BitSet_IsSet s i}"

lemma bits_of_bound: "bits_of s \<subseteq> {..<BitSet_Cap s}"
  by (auto simp: bits_of_def BitSet_IsSet_bit BitSet_Cap_def BitSet_BlockCount_def blockSize_def
      div_less_iff_less_mult)

lemma BitSet_IsSet_NewBitSet: "\<not> BitSet_IsSet (NewBitSet n) i"
  by (simp add: NewBitSet_def BitSet_IsSet_bit Let_def nth_replicate del: replicate.simps)

text \<open>
  Property C23. A bit set is a set of indices: \<open>Set\<close> inserts, \<open>Clear\<close> removes, \<open>NewBitSet\<close>
  is empty, and every index ever held lies below \<open>Cap\<close>, whatever the capacity asked for.
\<close>

theorem bitset_refines_set:
  "bits_of (BitSet_Set s i) = insert i (bits_of s)
   \<and> bits_of (BitSet_Clear s i) = bits_of s - {i}
   \<and> bits_of (NewBitSet n) = {}
   \<and> bits_of s \<subseteq> {..<BitSet_Cap s}"
  using bits_of_bound [of s]
  by (auto simp: bits_of_def bitset.get_put bitset.get_clr BitSet_IsSet_NewBitSet)

lemma BitSet_Cap_NewBitSet:
  "n \<le> BitSet_Cap (NewBitSet n)" "BitSet_Cap (NewBitSet n) < n + blockSize"
  by (simp_all add: BitSet_Cap_def BitSet_BlockCount_def NewBitSet_def blockSize_def Let_def)
    presburger+

text \<open>
  Capacity: \<open>NewBitSet n\<close> has room for \<open>n\<close> bits with less than one block to
  spare, \<open>Set\<close> never shrinks the slice and always makes room for the index it sets, and
  \<open>Clear\<close> leaves the number of blocks alone.
\<close>

lemma bitset_capacity:
  "n \<le> BitSet_Cap (NewBitSet n) \<and> BitSet_Cap (NewBitSet n) < n + blockSize
   \<and> i < BitSet_Cap (BitSet_Set s i)
   \<and> BitSet_BlockCount s \<le> BitSet_BlockCount (BitSet_Set s i)
   \<and> BitSet_BlockCount (BitSet_Clear s i) = BitSet_BlockCount s"
  using BitSet_Cap_NewBitSet [of n]
  by (auto simp: BitSet_Cap_def BitSet_BlockCount_def BitSet_Set_def
      BitSet_Clear_def blockSize_def Let_def)

end
