(* ===== verification/Compact_Array.thy ===== *)
theory Compact_Array
  imports Bit_Set
begin

section \<open>Compact arrays (flytestdlib/bitarray/compact\_array.go)\<close>

text \<open>
  A \<open>CompactArray\<close> stores \<open>ItemsCount\<close> items of \<open>ItemSize\<close> bits each in one bit set,
  most significant bit first. Counts and sizes are Go \<open>uint\<close> values, natural numbers here
  with the wrap-around of their sums and products written out (\<open>wrap64\<close>); items are
  64-bit words. A failed validation panics, and so does a read through a nil \<open>BitSet\<close>
  pointer: both are values of \<open>panic\<close>.
\<close>

unbundle bit_operations_syntax

datatype panic = IndexOutOfRange int nat | ValueTooBig uint64 uint64 | NilDereference

record CompactArray =
  CA_BitSet :: "BitSet option"
  ItemSize :: nat
  ItemsCount :: nat

definition wrap64 :: "nat \<Rightarrow> nat" where
  "wrap64 n = n mod 2 ^ 64"

text \<open>
  \<open>bitsNeeded\<close> is \<open>uint(math.Ceil(math.Log2(float64(maxValue + 1))))\<close>. \<open>ceil_log2\<close> is
  the exact ceiling of the logarithm; Go computes it in \<open>float64\<close>, whose result is the
  exact one for \<open>maxValue + 1 \<le> 2 ^ 48\<close> (beyond that, the rounding of the
  sum in \<open>math.Log2\<close> loses the distance of \<open>2 ^ k + 1\<close> from \<open>2 ^ k\<close>). For
  \<open>maxValue = 2 ^ 64 - 1\<close> the sum wraps to 0 and the logarithm is \<open>-Inf\<close>, whose conversion to
  \<open>uint\<close> Go leaves to the platform: it is the parameter \<open>neg_inf\<close>.
\<close>

definition bitsNeeded :: "nat \<Rightarrow> uint64 \<Rightarrow> nat" where
  "bitsNeeded neg_inf maxValue =
     (if maxValue + 1 = 0 then neg_inf else ceil_log2 (unat (maxValue + 1)))"

definition validateIndex :: "CompactArray \<Rightarrow> int \<Rightarrow> panic + unit" where
  "validateIndex a index =
     (if index < 0 \<or> nat index \<ge> ItemsCount a then Inl (IndexOutOfRange index (ItemsCount a))
      else Inr ())"

definition validateValue :: "CompactArray \<Rightarrow> uint64 \<Rightarrow> panic + unit" where
  "validateValue a value =
     (let maxValue = push_bit (ItemSize a) 1 - 1
      in if value > maxValue then Inl (ValueTooBig value maxValue) else Inr ())"

text \<open>
  The loops of \<open>SetItem\<close> and \<open>GetItem\<close> run \<open>i\<close> from \<open>int(ItemSize - 1)\<close> down to 0
  and double the mask \<open>x\<close>. \<open>loop_count\<close> is their number of iterations: \<open>ItemSize - 1\<close>
  wraps for \<open>ItemSize = 0\<close> and the conversion to \<open>int\<close> is negative from \<open>2 ^ 63\<close> on, and
  in both cases the loop does not run.
\<close>

definition loop_count :: "nat \<Rightarrow> nat" where
  "loop_count itemSize = (if itemSize = 0 \<or> itemSize - 1 \<ge> 2 ^ 63 then 0 else itemSize)"

fun SetItem_loop :: "BitSet option \<Rightarrow> nat \<Rightarrow> nat \<Rightarrow> uint64 \<Rightarrow> uint64 \<Rightarrow> panic + BitSet option" where
  "SetItem_loop bs bitIndex 0 x value = Inr bs"
| "SetItem_loop bs bitIndex (Suc i) x value =
     (case bs of
        None \<Rightarrow> Inl NilDereference
      | Some s \<Rightarrow>
          SetItem_loop
            (Some (if x AND value \<noteq> 0 then BitSet_Set s (wrap64 (bitIndex + i))
                   else BitSet_Clear s (wrap64 (bitIndex + i))))
            bitIndex i (push_bit 1 x) value)"

definition SetItem :: "CompactArray \<Rightarrow> int \<Rightarrow> uint64 \<Rightarrow> panic + CompactArray" where
  "SetItem a index value =
     (case validateIndex a index of
        Inl p \<Rightarrow> Inl p
      | Inr _ \<Rightarrow> (case validateValue a value of
          Inl p \<Rightarrow> Inl p
        | Inr _ \<Rightarrow>
            (case SetItem_loop (CA_BitSet a) (wrap64 (nat index * ItemSize a))
                    (loop_count (ItemSize a)) 1 value of
               Inl p \<Rightarrow> Inl p
             | Inr bs \<Rightarrow> Inr (a\<lparr>CA_BitSet := bs\<rparr>))))"

fun GetItem_loop :: "BitSet option \<Rightarrow> nat \<Rightarrow> nat \<Rightarrow> uint64 \<Rightarrow> uint64 \<Rightarrow> panic + uint64" where
  "GetItem_loop bs bitIndex 0 x res = Inr res"
| "GetItem_loop bs bitIndex (Suc i) x res =
     (case bs of
        None \<Rightarrow> Inl NilDereference
      | Some s \<Rightarrow>
          GetItem_loop bs bitIndex i (push_bit 1 x)
            (if BitSet_IsSet s (wrap64 (bitIndex + i)) then res OR x else res))"

definition GetItem :: "CompactArray \<Rightarrow> int \<Rightarrow> panic + uint64" where
  "GetItem a index =
     (case validateIndex a index of
        Inl p \<Rightarrow> Inl p
      | Inr _ \<Rightarrow> GetItem_loop (CA_BitSet a) (wrap64 (nat index * ItemSize a))
                   (loop_count (ItemSize a)) 1 0)"

fun GetItems_from :: "CompactArray \<Rightarrow> nat list \<Rightarrow> panic + uint64 list" where
  "GetItems_from a [] = Inr []"
| "GetItems_from a (i # is) =
     (case GetItem a (int i) of
        Inl p \<Rightarrow> Inl p
      | Inr v \<Rightarrow> map_sum id (Cons v) (GetItems_from a is))"

definition GetItems :: "CompactArray \<Rightarrow> panic + uint64 list" where
  "GetItems a = GetItems_from a [0..<ItemsCount a]"

definition NewCompactArray :: "nat \<Rightarrow> nat \<Rightarrow> uint64 \<Rightarrow> string + CompactArray" where
  "NewCompactArray neg_inf n maxValue =
     (let itemSize = bitsNeeded neg_inf maxValue
      in if itemSize \<ge> 64 then Inl ''invalid itemSize, must be less than the size of Item''
         else Inr \<lparr>CA_BitSet = Some (NewBitSet n), ItemSize = itemSize, ItemsCount = n\<rparr>)"

subsection \<open>The layout: which bit of which item lives where\<close>

text \<open>
  The invariant of an array: it has a bit set, items of at most 64 bits, and all its bit
  positions are addressable by a \<open>uint\<close>.
\<close>

definition array_wf :: "CompactArray \<Rightarrow> bool" where
  "array_wf a \<longleftrightarrow> CA_BitSet a \<noteq> None \<and> ItemSize a \<le> 64 \<and> ItemsCount a * ItemSize a < 2 ^ 64"

text \<open>Bit \<open>k\<close> of item \<open>i\<close>, in arrays whose items have \<open>n\<close> bits.\<close>

definition bit_pos :: "nat \<Rightarrow> nat \<Rightarrow> nat \<Rightarrow> nat" where
  "bit_pos n i k = i * n + (n - 1 - k)"

definition item_bits :: "BitSet \<Rightarrow> nat \<Rightarrow> nat \<Rightarrow> nat \<Rightarrow> bool" where
  "item_bits s n i k \<longleftrightarrow> k < n \<and> BitSet_IsSet s (bit_pos n i k)"

lemma item_slots_fit: "(i::nat) < c \<Longrightarrow> i * n + n \<le> c * n"
  by (metis Suc_leI add.commute mult_Suc mult_le_mono1)

lemma bit_pos_inj:
  assumes "bit_pos n i k = bit_pos n j l" "k < n" "l < n"
  shows "i = j \<and> k = l"
proof -
  from assms(2,3) have n: "n - 1 - k < n" "n - 1 - l < n" by auto
  have "(i * n + (n - 1 - k)) div n = (j * n + (n - 1 - l)) div n"
    using assms(1) by (simp add: bit_pos_def)
  with n have "i = j" by (simp del: diff_diff_left)
  with assms show ?thesis by (auto simp: bit_pos_def)
qed

lemma and_mask_iff: "2 ^ k AND v \<noteq> 0 \<longleftrightarrow> bit v k" for v :: uint64
proof (cases "k < 64")
  case True
  then have "2 ^ k AND v \<noteq> 0 \<longleftrightarrow> (\<exists>m. bit (2 ^ k AND v) m)"
    using bit_eq_iff [of "2 ^ k AND v" 0] by auto
  also have "\<dots> \<longleftrightarrow> bit v k"
    using True by (auto simp: bit_and_iff bit_exp_iff)
  finally show ?thesis .
next
  case False
  then have zero: "(2 ^ k :: uint64) = 0" by simp
  show ?thesis using False unfolding zero by (auto dest: bit_imp_le_length)
qed

text \<open>The writing loop is a sequence of single-bit writes, one per bit of the value.\<close>

lemma SetItem_loop_writes:
  assumes "b + n < 2 ^ 64"
  shows "SetItem_loop (Some s) b n (2 ^ k) v =
     Inr (Some (fold (\<lambda>(p, c) s. if c then BitSet_Set s p else BitSet_Clear s p)
       (map (\<lambda>j. (b + (n - 1 - j), bit v (k + j))) [0..<n]) s))"
  using assms
proof (induction n arbitrary: s k)
  case 0
  then show ?case by simp
next
  case (Suc n)
  have upt: "[0..<Suc n] = 0 # map Suc [0..<n]"
    by (simp add: upt_conv_Cons map_Suc_upt del: upt_Suc)
  show ?case
    using Suc.prems Suc.IH [where k = "Suc k"]
    by (simp add: upt and_mask_iff wrap64_def comp_def push_bit_eq_mult mult.commute del: upt_Suc)
qed

lemma GetItem_loop_bits:
  assumes "b + n < 2 ^ 64"
  shows "\<exists>r. GetItem_loop (Some s) b n (2 ^ k) res = Inr r \<and>
    (\<forall>m. bit r m \<longleftrightarrow> bit res m \<or>
       (k \<le> m \<and> m < k + n \<and> m < 64 \<and> BitSet_IsSet s (b + (n - 1 - (m - k)))))"
  using assms
proof (induction n arbitrary: k res)
  case 0
  then show ?case by auto
next
  case (Suc n)
  let ?res = "if BitSet_IsSet s (b + n) then res OR 2 ^ k else res"
  obtain r where r: "GetItem_loop (Some s) b n (2 ^ Suc k) ?res = Inr r"
    and bits: "\<And>m. bit r m \<longleftrightarrow> bit ?res m \<or>
       (Suc k \<le> m \<and> m < Suc k + n \<and> m < 64 \<and> BitSet_IsSet s (b + (n - 1 - (m - Suc k))))"
    using Suc.IH [of "Suc k" ?res] Suc.prems by auto
  have shift: "n - Suc (m - Suc k) = n - (m - k)" if "Suc k \<le> m" for m
    using that by simp
  have "bit r m \<longleftrightarrow> bit res m \<or>
       (k \<le> m \<and> m < k + Suc n \<and> m < 64 \<and> BitSet_IsSet s (b + (Suc n - 1 - (m - k))))" for m
    using bits [of m] shift [of m]
    by (cases "m = k") (auto simp: bit_or_iff bit_exp_iff split: if_splits)
  with r Suc.prems show ?case
    by (auto simp: wrap64_def push_bit_eq_mult mult.commute)
qed

text \<open>The bit positions of a valid item neither wrap nor run into the next item.\<close>

lemma valid_item:
  assumes "array_wf a" "i < ItemsCount a"
  shows "validateIndex a (int i) = Inr ()" "loop_count (ItemSize a) = ItemSize a"
    "wrap64 (i * ItemSize a) = i * ItemSize a" "i * ItemSize a + ItemSize a < 2 ^ 64"
proof -
  have fits: "i * ItemSize a + ItemSize a \<le> ItemsCount a * ItemSize a"
    using assms(2) by (rule item_slots_fit)
  with assms(1) show room: "i * ItemSize a + ItemSize a < 2 ^ 64"
    by (simp add: array_wf_def)
  from room show "wrap64 (i * ItemSize a) = i * ItemSize a" by (simp add: wrap64_def)
  show "validateIndex a (int i) = Inr ()" using assms(2) by (simp add: validateIndex_def)
  show "loop_count (ItemSize a) = ItemSize a"
    using assms(1) by (auto simp: loop_count_def array_wf_def)
qed

lemma GetItem_bits:
  assumes "array_wf a" "i < ItemsCount a" "CA_BitSet a = Some s"
  shows "\<exists>r. GetItem a (int i) = Inr r \<and> (\<forall>m. bit r m \<longleftrightarrow> item_bits s (ItemSize a) i m)"
proof -
  note v = valid_item [OF assms(1,2)]
  obtain r where r: "GetItem_loop (Some s) (i * ItemSize a) (ItemSize a) 1 0 = Inr r"
    and bits: "\<And>m. bit r m \<longleftrightarrow> m < ItemSize a \<and> m < 64 \<and>
       BitSet_IsSet s (i * ItemSize a + (ItemSize a - 1 - m))"
    using GetItem_loop_bits [OF v(4), of s 0 0] by auto
  have "bit r m \<longleftrightarrow> item_bits s (ItemSize a) i m" for m
    using bits [of m] assms(1) by (auto simp: item_bits_def bit_pos_def array_wf_def)
  with r v assms(3) show ?thesis by (simp add: GetItem_def)
qed

lemma map_of_item_writes:
  assumes "k < n"
  shows "map_of (rev (map (\<lambda>j. (i * n + (n - 1 - j), P j)) [0..<n])) (bit_pos n i' k) =
    (if i' = i then Some (P k) else None)"
proof (cases "i' = i")
  case True
  have "distinct (map (\<lambda>j. i * n + (n - 1 - j)) [0..<n])"
    by (auto simp: distinct_map inj_on_def)
  then have "distinct (map fst (rev (map (\<lambda>j. (i * n + (n - 1 - j), P j)) [0..<n])))"
    by (simp add: rev_map comp_def distinct_rev flip: rev_map)
  moreover have "(bit_pos n i k, P k) \<in> set (rev (map (\<lambda>j. (i * n + (n - 1 - j), P j)) [0..<n]))"
    using assms by (auto simp: bit_pos_def)
  ultimately show ?thesis using True by (metis map_of_is_SomeI)
next
  case False
  then have "bit_pos n i' k \<noteq> bit_pos n i j" if "j < n" for j
    using bit_pos_inj [of n i' k i j] assms that by blast
  then have "bit_pos n i' k \<notin> fst ` set (rev (map (\<lambda>j. (i * n + (n - 1 - j), P j)) [0..<n]))"
    by (force simp: bit_pos_def)
  with False show ?thesis by (metis map_of_eq_None_iff)
qed

lemma SetItem_bits:
  assumes "array_wf a" "i < ItemsCount a" "CA_BitSet a = Some s"
    and "v \<le> push_bit (ItemSize a) 1 - 1"
  shows "\<exists>s'. SetItem a (int i) v = Inr (a\<lparr>CA_BitSet := Some s'\<rparr>) \<and>
    (\<forall>j k. item_bits s' (ItemSize a) j k \<longleftrightarrow>
       k < ItemSize a \<and> (if j = i then bit v k else item_bits s (ItemSize a) j k))"
proof -
  note v = valid_item [OF assms(1,2)]
  let ?n = "ItemSize a"
  let ?ws = "map (\<lambda>j. (i * ?n + (?n - 1 - j), bit v j)) [0..<?n]"
  let ?s' = "fold (\<lambda>(p, c) s. if c then BitSet_Set s p else BitSet_Clear s p) ?ws s"
  have loop: "SetItem_loop (Some s) (i * ?n) ?n 1 v = Inr (Some ?s')"
    using SetItem_loop_writes [OF v(4), of s 0 v] by simp
  have set: "SetItem a (int i) v = Inr (a\<lparr>CA_BitSet := Some ?s'\<rparr>)"
    using assms(3,4) v loop by (simp add: SetItem_def validateValue_def not_less Let_def)
  have "item_bits ?s' ?n j k \<longleftrightarrow>
      k < ?n \<and> (if j = i then bit v k else item_bits s ?n j k)" for j k
    using map_of_item_writes [of k ?n i "bit v" j]
    by (auto simp: item_bits_def bitset.get_writes simp del: rev_map)
  with set show ?thesis by blast
qed

subsection \<open>Properties\<close>

lemma GetItem_unique:
  assumes "array_wf a" "i < ItemsCount a" "CA_BitSet a = Some s"
    and "\<And>m. bit r m \<longleftrightarrow> item_bits s (ItemSize a) i m"
  shows "GetItem a (int i) = Inr r"
proof -
  obtain r' where "GetItem a (int i) = Inr r'" "\<And>m. bit r' m \<longleftrightarrow> item_bits s (ItemSize a) i m"
    using GetItem_bits [OF assms(1-3)] by blast
  moreover from this assms(4) have "r' = r" by (simp add: bit_eq_iff)
  ultimately show ?thesis by simp
qed

lemma unat_mask64: "unat (mask n :: uint64) = mask (min 64 n)"
  by (rule bit_eqI) (auto simp: bit_unsigned_iff bit_mask_iff)

lemma small_value_bits: "k < n" if "v \<le> push_bit n 1 - 1" "bit v k" for v :: uint64
proof -
  have "v \<le> mask n" using that(1) by (simp add: mask_eq_exp_minus_1)
  then have "unat v \<le> mask (min 64 n)" by (simp add: word_le_nat_alt unat_mask64)
  also have "mask (min 64 n) < (2::nat) ^ min 64 n"
    unfolding mask_eq_exp_minus_1 by (rule diff_less) simp_all
  finally have "unat v < 2 ^ min 64 n" .
  then have "take_bit (min 64 n) (unat v) = unat v" by (simp add: take_bit_nat_eq_self_iff)
  moreover have "bit (unat v) k" using that(2) by (simp add: bit_unsigned_iff)
  ultimately have "bit (take_bit (min 64 n) (unat v)) k" by simp
  then show ?thesis by (simp add: bit_take_bit_iff)
qed

text \<open>
  Storing a value and reading it back: on a well-formed array a valid index and a
  value of at most \<open>ItemSize\<close> bits are accepted, the array stays well formed with the same
  shape, reading the index gives the value, and every other item reads as before.
\<close>

lemma SetItem_GetItem:
  assumes "array_wf a" "i < ItemsCount a" "v \<le> push_bit (ItemSize a) 1 - 1"
  shows "\<exists>a'. SetItem a (int i) v = Inr a' \<and> array_wf a' \<and>
    ItemsCount a' = ItemsCount a \<and> ItemSize a' = ItemSize a \<and>
    GetItem a' (int i) = Inr v \<and>
    (\<forall>j < ItemsCount a. j \<noteq> i \<longrightarrow> GetItem a' (int j) = GetItem a (int j))"
proof -
  obtain s where s: "CA_BitSet a = Some s"
    using assms(1) by (auto simp: array_wf_def)
  obtain s' where set: "SetItem a (int i) v = Inr (a\<lparr>CA_BitSet := Some s'\<rparr>)"
    and bits: "\<And>j k. item_bits s' (ItemSize a) j k \<longleftrightarrow>
       k < ItemSize a \<and> (if j = i then bit v k else item_bits s (ItemSize a) j k)"
    using SetItem_bits [OF assms(1,2) s assms(3)] by blast
  let ?a' = "a\<lparr>CA_BitSet := Some s'\<rparr>"
  have wf: "array_wf ?a'" using assms(1) by (simp add: array_wf_def)
  have "GetItem ?a' (int i) = Inr v"
    using small_value_bits [OF assms(3)] assms(2)
    by (intro GetItem_unique [OF wf, of i s']) (auto simp: bits)
  moreover have "GetItem ?a' (int j) = GetItem a (int j)" if "j < ItemsCount a" "j \<noteq> i" for j
    using GetItem_bits [OF assms(1) that(1) s] that
    by (auto intro!: GetItem_unique [OF wf, of j s'] simp: bits) (auto simp: item_bits_def)
  ultimately show ?thesis using set wf by simp
qed

lemma GetItems_from_ok:
  "\<forall>i \<in> set is. \<exists>v. GetItem a (int i) = Inr v \<Longrightarrow>
   \<exists>xs. GetItems_from a is = Inr xs \<and> length xs = length is \<and>
     (\<forall>k < length is. GetItem a (int (is ! k)) = Inr (xs ! k))"
  by (induction "is") (auto simp: nth_Cons' split: nat.split)

lemma GetItems_ok:
  assumes "array_wf a"
  shows "\<exists>xs. GetItems a = Inr xs \<and> length xs = ItemsCount a \<and>
    (\<forall>k < ItemsCount a. GetItem a (int k) = Inr (xs ! k))"
proof -
  obtain s where "CA_BitSet a = Some s" using assms by (auto simp: array_wf_def)
  then have "\<exists>v. GetItem a (int i) = Inr v" if "i < ItemsCount a" for i
    using GetItem_bits [OF assms that] by blast
  then show ?thesis
    using GetItems_from_ok [of "[0..<ItemsCount a]" a] by (auto simp: GetItems_def)
qed

text \<open>
  Property C24. The array refines a list: \<open>GetItems\<close> of a well-formed array returns its
  \<open>ItemsCount\<close> items, and storing a value at an index is the list update at that index.
\<close>

theorem array_refines_list:
  assumes "array_wf a" "i < ItemsCount a" "v \<le> push_bit (ItemSize a) 1 - 1"
  shows "\<exists>xs a'. GetItems a = Inr xs \<and> length xs = ItemsCount a \<and>
    SetItem a (int i) v = Inr a' \<and> GetItems a' = Inr (xs[i := v])"
proof -
  obtain xs where xs: "GetItems a = Inr xs" "length xs = ItemsCount a"
    "\<And>k. k < ItemsCount a \<Longrightarrow> GetItem a (int k) = Inr (xs ! k)"
    using GetItems_ok [OF assms(1)] by blast
  obtain a' where a': "SetItem a (int i) v = Inr a'" "array_wf a'" "ItemsCount a' = ItemsCount a"
    "GetItem a' (int i) = Inr v"
    "\<And>j. j < ItemsCount a \<Longrightarrow> j \<noteq> i \<Longrightarrow> GetItem a' (int j) = GetItem a (int j)"
    using SetItem_GetItem [OF assms] by blast
  obtain ys where ys: "GetItems a' = Inr ys" "length ys = ItemsCount a"
    "\<And>k. k < ItemsCount a \<Longrightarrow> GetItem a' (int k) = Inr (ys ! k)"
    using GetItems_ok [OF a'(2)] a'(3) by auto
  have "ys = xs[i := v]"
  proof (rule nth_equalityI)
    show "length ys = length (xs[i := v])" using xs(2) ys(2) by simp
    show "ys ! k = xs[i := v] ! k" if "k < length ys" for k
      using that xs(2,3) ys(2,3) a'(4,5) assms(2) by (cases "k = i") fastforce+
  qed
  with xs a'(1) ys(1) show ?thesis by blast
qed

lemma unat_succ: "unat (x + 1 :: uint64) = unat x + 1" if "unat x < 2 ^ 48"
  using that by (simp add: unat_word_ariths)

lemma bitsNeeded_small:
  assumes "unat maxValue < 2 ^ 48"
  shows "bitsNeeded neg_inf maxValue = ceil_log2 (unat maxValue + 1)"
    and "bitsNeeded neg_inf maxValue \<le> 48"
proof -
  have "maxValue + 1 \<noteq> 0" using unat_succ [OF assms] by (metis add_is_0 unat_0 zero_neq_one)
  then show eq: "bitsNeeded neg_inf maxValue = ceil_log2 (unat maxValue + 1)"
    by (simp add: bitsNeeded_def unat_succ [OF assms])
  show "bitsNeeded neg_inf maxValue \<le> 48"
    unfolding eq using assms by (intro ceil_log2_least) simp
qed

lemma fits_item_size:
  fixes maxValue :: uint64
  assumes "unat maxValue < 2 ^ 48" "v \<le> maxValue"
  shows "v \<le> push_bit (ceil_log2 (unat maxValue + 1)) 1 - 1"
proof -
  let ?k = "ceil_log2 (unat maxValue + 1)"
  have "unat maxValue + 1 \<le> 2 ^ ?k" by (rule ceil_log2_le)
  moreover have "min 64 ?k = ?k" using ceil_log2_least [of "unat maxValue + 1" 48] assms(1) by simp
  ultimately have "unat maxValue \<le> unat (mask ?k :: uint64)"
    by (simp only: unat_mask64) (simp add: mask_eq_exp_minus_1)
  with assms(2) have "v \<le> mask ?k" unfolding word_le_nat_alt by linarith
  then show ?thesis by (simp add: mask_eq_exp_minus_1)
qed

lemma GetItems_new:
  assumes "array_wf a" "CA_BitSet a = Some (NewBitSet m)"
  shows "GetItems a = Inr (replicate (ItemsCount a) 0)"
proof -
  have "GetItem a (int k) = Inr 0" if "k < ItemsCount a" for k
    using that by (intro GetItem_unique [OF assms(1) _ assms(2)])
      (simp_all add: item_bits_def BitSet_IsSet_NewBitSet)
  with GetItems_ok [OF assms(1)] show ?thesis
    by (auto intro!: nth_equalityI)
qed

text \<open>
  A new array for values up to \<open>maxValue < 2 ^ 48\<close>: it is created, well formed
  (when its bits are addressable), holds \<open>n\<close> zeros, and accepts every value up to \<open>maxValue\<close>,
  with no more bits per item than the least number that can hold \<open>maxValue\<close>.
\<close>

lemma new_compact_array:
  assumes "unat maxValue < 2 ^ 48" "n * 48 < 2 ^ 64"
  shows "\<exists>a. NewCompactArray neg_inf n maxValue = Inr a \<and> array_wf a \<and>
    GetItems a = Inr (replicate n 0) \<and>
    (\<forall>v \<le> maxValue. \<forall>i < n. is_ok (SetItem a (int i) v)) \<and>
    (\<forall>k. unat maxValue < 2 ^ k \<longrightarrow> ItemSize a \<le> k)"
proof -
  let ?a = "\<lparr>CA_BitSet = Some (NewBitSet n), ItemSize = ceil_log2 (unat maxValue + 1), ItemsCount = n\<rparr>"
  note b = bitsNeeded_small [OF assms(1), of neg_inf]
  have new: "NewCompactArray neg_inf n maxValue = Inr ?a"
    using b by (simp add: NewCompactArray_def)
  have "ceil_log2 (unat maxValue + 1) \<le> 48" using b by simp
  then have "n * ceil_log2 (unat maxValue + 1) \<le> n * 48" by (rule mult_le_mono2)
  also note assms(2)
  finally have "n * ceil_log2 (unat maxValue + 1) < 2 ^ 64" .
  with b have wf: "array_wf ?a" by (simp add: array_wf_def)
  have "is_ok (SetItem ?a (int i) v)" if "v \<le> maxValue" "i < n" for v i
    using SetItem_GetItem [OF wf, of i v] fits_item_size [OF assms(1) that(1)] that(2)
    by (auto simp: is_ok_iff)
  moreover have "ItemSize ?a \<le> k" if "unat maxValue < 2 ^ k" for k
    using that by (simp add: ceil_log2_least)
  ultimately show ?thesis using new wf GetItems_new [OF wf] by simp
qed

text \<open>
  Out-of-range accesses panic and nothing else does: on a well-formed array
  \<open>SetItem\<close> succeeds exactly for an index within \<open>ItemsCount\<close> and a value that fits, and
  \<open>GetItem\<close> exactly for an index within \<open>ItemsCount\<close>.
\<close>

lemma compact_array_panics:
  assumes "array_wf a"
  shows "(is_ok (SetItem a i v) \<longleftrightarrow>
      0 \<le> i \<and> i < int (ItemsCount a) \<and> v \<le> push_bit (ItemSize a) 1 - 1)
    \<and> (is_ok (GetItem a i) \<longleftrightarrow> 0 \<le> i \<and> i < int (ItemsCount a))"
proof (cases "0 \<le> i \<and> i < int (ItemsCount a)")
  case True
  then obtain k where k: "i = int k" "k < ItemsCount a" by (metis nat_int_comparison(2) zero_le_imp_eq_int)
  obtain s where "CA_BitSet a = Some s" using assms by (auto simp: array_wf_def)
  then have "is_ok (GetItem a i)"
    using GetItem_bits [OF assms k(2)] k(1) by (auto simp: is_ok_iff)
  moreover have "is_ok (SetItem a i v)" if "v \<le> push_bit (ItemSize a) 1 - 1"
    using SetItem_GetItem [OF assms k(2) that] k(1) by (auto simp: is_ok_iff)
  moreover have "\<not> is_ok (SetItem a i v)" if "\<not> v \<le> push_bit (ItemSize a) 1 - 1"
    using that True by (simp add: SetItem_def validateIndex_def validateValue_def Let_def is_ok_def not_le)
  ultimately show ?thesis using True by blast
next
  case False
  then show ?thesis
    by (auto simp: SetItem_def GetItem_def validateIndex_def is_ok_def)
qed

subsection \<open>Witnesses\<close>

definition sample_array :: CompactArray where
  "sample_array = \<lparr>CA_BitSet = Some (NewBitSet 4), ItemSize = 3, ItemsCount = 4\<rparr>"

lemma sample_array_wf: "array_wf sample_array"
  by (simp add: array_wf_def sample_array_def)

theorem array_refines_list_witness:
  "\<exists>xs a'. GetItems sample_array = Inr xs \<and> length xs = ItemsCount sample_array \<and>
     SetItem sample_array (int 2) 5 = Inr a' \<and> GetItems a' = Inr (xs[2 := 5])"
  by (rule array_refines_list [OF sample_array_wf]) (simp_all add: sample_array_def)


lemma compact_array_panics_witness:
  "is_ok (SetItem sample_array 3 7) \<and> \<not> is_ok (SetItem sample_array 3 8)
   \<and> \<not> is_ok (GetItem sample_array 4)"
  using compact_array_panics [OF sample_array_wf, of 3 7]
    compact_array_panics [OF sample_array_wf, of 3 8]
    compact_array_panics [OF sample_array_wf, of 4 8]
  by (simp add: sample_array_def)

end
