(* ===== verification/Literal_Types.thy ===== *)
theory Literal_Types
  imports Flyte_Prelude
begin

section \<open>Literal types and casts (flytepropeller/pkg/compiler/validators/typing.go)\<close>

text \<open>
  The type language of Flyte (\<open>core.LiteralType\<close>) and the compiler's decision whether an
  upstream type can be bound to a downstream one.

  A protobuf message reached through a pointer is an \<open>option\<close>, \<open>None\<close> for nil, and the
  getters follow the generated ones: on nil, and on another alternative of the
  \<open>oneof\<close>, they return the zero value. The one place where the code dereferences a pointer
  without a getter, \<open>*upstreamType\<close> and \<open>*t.literalType\<close> of the trivial checker,
  panics on nil: a cast check returns \<open>bool option\<close>, and \<open>None\<close> is that panic.

  Code outside the repository (JSON marshalling of a \<open>structpb.Struct\<close>, the JSON
  diff, the JSON schema compiler and comparer, the text form of a message) is the parameter
  record \<open>typing_lib\<close>.
\<close>

datatype simple_type =
  NONE | INTEGER | FLOAT | STRING | BOOLEAN | DATETIME | DURATION | BINARY | ERROR | STRUCT

datatype schema_column_type =
  SC_INTEGER | SC_FLOAT | SC_STRING | SC_BOOLEAN | SC_DATETIME | SC_DURATION

text \<open>A \<open>structpb.Struct\<close> as its fields, each with the JSON text of its value.\<close>

type_synonym pb_struct = "(string \<times> string) list"
type_synonym schema_column = "string \<times> schema_column_type"

datatype dimensionality = SINGLE | MULTIPART

record blob_type =
  blob_format :: string
  blob_dimensionality :: dimensionality

datatype literal_type =
    LiteralType (lt_type: "lt_kind option") (lt_metadata: "pb_struct option")
      (lt_annotation: "pb_struct option") (lt_structure: "type_structure option")
and lt_kind =
    LT_Simple simple_type
  | LT_Schema "schema_column list option"
  | LT_CollectionType "literal_type option"
  | LT_MapValueType "literal_type option"
  | LT_Blob "blob_type option"
  | LT_EnumType "string list option"
  | LT_StructuredDatasetType "dataset_type option"
  | LT_UnionType "literal_type option list option"
and dataset_type =
    DatasetType (sd_columns: "(string \<times> literal_type option) list") (sd_format: string)
and type_structure =
    TypeStructure (ts_tag: string) (ts_dataclass_type: "(string \<times> literal_type option) list")

type_synonym lt_ptr = "literal_type option"

text \<open>A type given by its \<open>oneof\<close> alternative alone.\<close>

abbreviation lt_of :: "lt_kind \<Rightarrow> lt_ptr" where
  "lt_of k \<equiv> Some (LiteralType (Some k) None None None)"

record ('c, 's) typing_lib =
  Marshal :: "pb_struct \<Rightarrow> string option"
  CompareJSON :: "string \<Rightarrow> string \<Rightarrow> nat option"
  NewCompiler :: 'c
  AddResource :: "'c \<Rightarrow> string \<Rightarrow> string \<Rightarrow> 'c option"
  Compile :: "'c \<Rightarrow> string \<Rightarrow> 's option"
  CompareSchemas :: "'s \<Rightarrow> 's \<Rightarrow> string list"
  TypeString :: "literal_type \<Rightarrow> string"
  NilTypeString :: string

subsection \<open>Getters\<close>

definition GetType :: "lt_ptr \<Rightarrow> lt_kind option" where
  "GetType t = Option.bind t lt_type"

definition GetSimple :: "lt_ptr \<Rightarrow> simple_type" where
  "GetSimple t = (case GetType t of Some (LT_Simple s) \<Rightarrow> s | _ \<Rightarrow> NONE)"

definition GetSchema :: "lt_ptr \<Rightarrow> schema_column list option" where
  "GetSchema t = (case GetType t of Some (LT_Schema s) \<Rightarrow> s | _ \<Rightarrow> None)"

definition GetCollectionType :: "lt_ptr \<Rightarrow> lt_ptr" where
  "GetCollectionType t = (case GetType t of Some (LT_CollectionType c) \<Rightarrow> c | _ \<Rightarrow> None)"

definition GetMapValueType :: "lt_ptr \<Rightarrow> lt_ptr" where
  "GetMapValueType t = (case GetType t of Some (LT_MapValueType c) \<Rightarrow> c | _ \<Rightarrow> None)"

definition GetBlob :: "lt_ptr \<Rightarrow> blob_type option" where
  "GetBlob t = (case GetType t of Some (LT_Blob b) \<Rightarrow> b | _ \<Rightarrow> None)"

definition GetEnumType :: "lt_ptr \<Rightarrow> string list option" where
  "GetEnumType t = (case GetType t of Some (LT_EnumType e) \<Rightarrow> e | _ \<Rightarrow> None)"

definition GetStructuredDatasetType :: "lt_ptr \<Rightarrow> dataset_type option" where
  "GetStructuredDatasetType t =
     (case GetType t of Some (LT_StructuredDatasetType d) \<Rightarrow> d | _ \<Rightarrow> None)"

definition GetUnionType :: "lt_ptr \<Rightarrow> lt_ptr list option" where
  "GetUnionType t = (case GetType t of Some (LT_UnionType u) \<Rightarrow> u | _ \<Rightarrow> None)"

definition nil_list :: "'a list option \<Rightarrow> 'a list" where
  "nil_list xs = (case xs of None \<Rightarrow> [] | Some ys \<Rightarrow> ys)"

definition sd_GetColumns :: "dataset_type option \<Rightarrow> (string \<times> lt_ptr) list" where
  "sd_GetColumns d = (case d of None \<Rightarrow> [] | Some t \<Rightarrow> sd_columns t)"

definition sd_GetFormat :: "dataset_type option \<Rightarrow> string" where
  "sd_GetFormat d = (case d of None \<Rightarrow> [] | Some t \<Rightarrow> sd_format t)"

definition GetFormat :: "blob_type option \<Rightarrow> string" where
  "GetFormat b = (case b of None \<Rightarrow> [] | Some t \<Rightarrow> blob_format t)"

lemmas getter_defs =
  GetType_def GetSimple_def GetSchema_def GetCollectionType_def GetMapValueType_def GetBlob_def
  GetEnumType_def GetStructuredDatasetType_def GetUnionType_def

definition GetTagForType :: "lt_ptr \<Rightarrow> string" where
  "GetTagForType x =
     (case x of
        None \<Rightarrow> []
      | Some t \<Rightarrow> (case lt_structure t of None \<Rightarrow> [] | Some s \<Rightarrow> ts_tag s))"

text \<open>The text form of a type behind a pointer; \<open>String\<close> is defined on nil.\<close>

definition type_text :: "('c, 's) typing_lib \<Rightarrow> lt_ptr \<Rightarrow> string" where
  "type_text L t = (case t of None \<Rightarrow> NilTypeString L | Some x \<Rightarrow> TypeString L x)"

definition isNoneType :: "lt_ptr \<Rightarrow> bool" where
  "isNoneType t = (case GetType t of Some (LT_Simple _) \<Rightarrow> GetSimple t = NONE | _ \<Rightarrow> False)"

subsection \<open>Standard-library string functions\<close>

text \<open>\<open>strings.Contains\<close>, and \<open>strings.EqualFold\<close> on the ASCII format names.\<close>

fun strings_HasPrefix :: "string \<Rightarrow> string \<Rightarrow> bool" where
  "strings_HasPrefix s [] = True"
| "strings_HasPrefix [] (p # ps) = False"
| "strings_HasPrefix (c # s) (p # ps) = (c = p \<and> strings_HasPrefix s ps)"

fun strings_Contains :: "string \<Rightarrow> string \<Rightarrow> bool" where
  "strings_Contains [] sub = strings_HasPrefix [] sub"
| "strings_Contains (c # s) sub = (strings_HasPrefix (c # s) sub \<or> strings_Contains s sub)"

definition strings_EqualFold :: "string \<Rightarrow> string \<Rightarrow> bool" where
  "strings_EqualFold s t = (strings_ToLower s = strings_ToLower t)"

lemma strings_EqualFold_refl [simp]: "strings_EqualFold s s"
  by (simp add: strings_EqualFold_def)

subsection \<open>Comparing JSON schemas\<close>

definition isSuperTypeInJSON :: "('c, 's) typing_lib \<Rightarrow> pb_struct \<Rightarrow> pb_struct \<Rightarrow> bool" where
  "isSuperTypeInJSON L sourceMetaData targetMetaData =
     (case Marshal L sourceMetaData of None \<Rightarrow> False | Some srcSchemaBytes \<Rightarrow>
      (case Marshal L targetMetaData of None \<Rightarrow> False | Some tgtSchemaBytes \<Rightarrow>
      (case AddResource L (NewCompiler L) ''src'' srcSchemaBytes of None \<Rightarrow> False | Some c1 \<Rightarrow>
      (case AddResource L c1 ''tgt'' tgtSchemaBytes of None \<Rightarrow> False | Some c2 \<Rightarrow>
      (case Compile L c2 ''src'' of None \<Rightarrow> False | Some srcSchema \<Rightarrow>
      (case Compile L c2 ''tgt'' of None \<Rightarrow> False | Some tgtSchema \<Rightarrow>
       list_all (\<lambda>err. strings_Contains err ''not implemented'')
         (CompareSchemas L tgtSchema srcSchema)))))))"

definition isSameTypeInJSON :: "('c, 's) typing_lib \<Rightarrow> pb_struct \<Rightarrow> pb_struct \<Rightarrow> bool" where
  "isSameTypeInJSON L sourceMetaData targetMetaData =
     (case Marshal L sourceMetaData of None \<Rightarrow> False | Some srcSchemaBytes \<Rightarrow>
      (case Marshal L targetMetaData of None \<Rightarrow> False | Some tgtSchemaBytes \<Rightarrow>
      (case CompareJSON L srcSchemaBytes tgtSchemaBytes of None \<Rightarrow> False | Some n \<Rightarrow> n = 0)))"

subsection \<open>The non-recursive checkers\<close>

text \<open>
  The final comparison of the trivial checker: the text forms of the two messages with
  their structure, metadata and annotation replaced by empty messages.
\<close>

definition strip_type :: "literal_type \<Rightarrow> literal_type" where
  "strip_type t = LiteralType (lt_type t) (Some []) (Some []) (Some (TypeStructure [] []))"

definition trivialChecker_CastsFrom :: "('c, 's) typing_lib \<Rightarrow> lt_ptr \<Rightarrow> lt_ptr \<Rightarrow> bool option" where
  "trivialChecker_CastsFrom L literalType upstreamType =
     (if GetEnumType upstreamType \<noteq> None \<and> GetSimple literalType = STRING then Some True
      else if GetEnumType literalType \<noteq> None \<and> GetSimple upstreamType = STRING then Some True
      else if GetTagForType upstreamType \<noteq> [] \<and>
              GetTagForType literalType \<noteq> GetTagForType upstreamType then Some False
      else if GetSimple upstreamType = STRUCT \<and> GetSimple literalType = STRUCT then
        (case (Option.bind upstreamType lt_metadata, Option.bind literalType lt_metadata) of
           (Some upstreamMetaData, Some downstreamMetaData) \<Rightarrow>
             Some (isSameTypeInJSON L upstreamMetaData downstreamMetaData
                   \<or> isSuperTypeInJSON L upstreamMetaData downstreamMetaData)
         | _ \<Rightarrow> Some True)
      else
        (case (upstreamType, literalType) of
           (Some u, Some d) \<Rightarrow> Some (TypeString L (strip_type u) = TypeString L (strip_type d))
         | _ \<Rightarrow> None))"

definition blobTypeChecker_CastsFrom :: "lt_ptr \<Rightarrow> lt_ptr \<Rightarrow> bool" where
  "blobTypeChecker_CastsFrom literalType upstreamType =
     (case GetBlob upstreamType of
        None \<Rightarrow> False
      | Some blobType \<Rightarrow>
          if blob_format blobType = [] \<or> GetFormat (GetBlob literalType) = [] then True
          else blob_format blobType = GetFormat (GetBlob literalType))"

definition schemaTypeIsMatchStructuredDatasetType :: "schema_column_type \<Rightarrow> simple_type \<Rightarrow> bool" where
  "schemaTypeIsMatchStructuredDatasetType schemaType structuredDatasetType =
     (case schemaType of
        SC_INTEGER \<Rightarrow> structuredDatasetType = INTEGER
      | SC_FLOAT \<Rightarrow> structuredDatasetType = FLOAT
      | SC_STRING \<Rightarrow> structuredDatasetType = STRING
      | SC_BOOLEAN \<Rightarrow> structuredDatasetType = BOOLEAN
      | SC_DATETIME \<Rightarrow> structuredDatasetType = DATETIME
      | SC_DURATION \<Rightarrow> structuredDatasetType = DURATION)"

text \<open>
  \<open>nameToTypeMap\<close> is filled in the order of the columns, so the last column of a name wins.
\<close>

definition nameToTypeMap :: "(string \<times> 'a) list \<Rightarrow> string \<rightharpoonup> 'a" where
  "nameToTypeMap columns = map_of (rev columns)"

definition schemaCastFromSchema :: "schema_column list option \<Rightarrow> schema_column list option \<Rightarrow> bool" where
  "schemaCastFromSchema upstream downstream =
     (if nil_list upstream = [] \<or> nil_list downstream = [] then True
      else list_all (\<lambda>(name, ty). nameToTypeMap (nil_list upstream) name = Some ty)
             (nil_list downstream))"

definition schemaCastFromStructuredDataset ::
    "dataset_type option \<Rightarrow> schema_column list option \<Rightarrow> bool" where
  "schemaCastFromStructuredDataset upstream downstream =
     (if sd_GetColumns upstream = [] \<or> nil_list downstream = [] then True
      else list_all (\<lambda>(name, ty).
               case nameToTypeMap (map (\<lambda>(n, t). (n, GetSimple t)) (sd_GetColumns upstream)) name of
                 None \<Rightarrow> False
               | Some upstreamType \<Rightarrow> schemaTypeIsMatchStructuredDatasetType ty upstreamType)
             (nil_list downstream))"

definition structuredDatasetCastFromSchema ::
    "schema_column list option \<Rightarrow> dataset_type option \<Rightarrow> bool" where
  "structuredDatasetCastFromSchema upstream downstream =
     (if nil_list upstream = [] \<or> sd_GetColumns downstream = [] then True
      else list_all (\<lambda>(name, ty).
               case nameToTypeMap (nil_list upstream) name of
                 None \<Rightarrow> False
               | Some upstreamType \<Rightarrow>
                   schemaTypeIsMatchStructuredDatasetType upstreamType (GetSimple ty))
             (sd_GetColumns downstream))"

definition schemaTypeChecker_CastsFrom :: "lt_ptr \<Rightarrow> lt_ptr \<Rightarrow> bool" where
  "schemaTypeChecker_CastsFrom literalType upstreamType =
     (let schemaType = GetSchema upstreamType;
          structuredDatasetType = GetStructuredDatasetType upstreamType
      in if structuredDatasetType = None \<and> schemaType = None then False
         else if schemaType \<noteq> None then schemaCastFromSchema schemaType (GetSchema literalType)
         else if sd_GetFormat structuredDatasetType \<noteq> [] \<and>
                 \<not> strings_EqualFold (sd_GetFormat structuredDatasetType) ''parquet'' then False
         else schemaCastFromStructuredDataset structuredDatasetType (GetSchema literalType))"

subsection \<open>The recursive checkers\<close>

text \<open>
  The three loops of the union and dataset checkers over the verdicts of an inner check:
  stop at the first success, stop at the first failure, and count up to the second success.
  A panic of the inner check ends the loop.
\<close>

fun any_castable :: "('a \<Rightarrow> bool option) \<Rightarrow> 'a list \<Rightarrow> bool option" where
  "any_castable f [] = Some False"
| "any_castable f (d # ds) =
     (case f d of None \<Rightarrow> None | Some b \<Rightarrow> if b then Some True else any_castable f ds)"

fun all_castable :: "('a \<Rightarrow> bool option) \<Rightarrow> 'a list \<Rightarrow> bool option" where
  "all_castable f [] = Some True"
| "all_castable f (u # us) =
     (case f u of None \<Rightarrow> None | Some b \<Rightarrow> if b then all_castable f us else Some False)"

fun one_castable :: "('a \<Rightarrow> bool option) \<Rightarrow> bool \<Rightarrow> 'a list \<Rightarrow> bool option" where
  "one_castable f foundOne [] = Some foundOne"
| "one_castable f foundOne (x # xs) =
     (case f x of
        None \<Rightarrow> None
      | Some b \<Rightarrow>
          if b then (if foundOne then Some False else one_castable f True xs)
          else one_castable f foundOne xs)"

lemma loop_cong [fundef_cong]:
  "xs = ys \<Longrightarrow> (\<And>x. x \<in> set ys \<Longrightarrow> f x = g x) \<Longrightarrow> any_castable f xs = any_castable g ys"
  "xs = ys \<Longrightarrow> (\<And>x. x \<in> set ys \<Longrightarrow> f x = g x) \<Longrightarrow> all_castable f xs = all_castable g ys"
proof (induction ys arbitrary: xs)
  case Nil
  { case 1 then show ?case by simp }
  { case 2 then show ?case by simp }
next
  case (Cons y ys)
  { case 1 then show ?case using Cons.IH(1) [of ys] by (auto split: option.split) }
  { case 2 then show ?case using Cons.IH(2) [of ys] by (auto split: option.split) }
qed

lemma one_castable_cong [fundef_cong]:
  "xs = ys \<Longrightarrow> b = c \<Longrightarrow> (\<And>x. x \<in> set ys \<Longrightarrow> f x = g x) \<Longrightarrow>
   one_castable f b xs = one_castable g c ys"
proof (induction ys arbitrary: xs b c)
  case Nil
  then show ?case by simp
next
  case (Cons y ys)
  then show ?case using Cons.IH [of ys] by (auto split: option.split)
qed

text \<open>
  Each recursive checker takes the recursive check as an argument: \<open>casts t u\<close> for
  \<open>getTypeChecker(t).CastsFrom(u)\<close>, \<open>castable u t\<close> for \<open>AreTypesCastable(u, t)\<close>.
\<close>

definition mapTypeChecker_CastsFrom ::
    "(lt_ptr \<Rightarrow> lt_ptr \<Rightarrow> bool option) \<Rightarrow> lt_ptr \<Rightarrow> lt_ptr \<Rightarrow> bool option" where
  "mapTypeChecker_CastsFrom casts literalType upstreamType =
     (let mapLiteralType = GetMapValueType upstreamType
      in if isNoneType mapLiteralType then Some True
         else if mapLiteralType \<noteq> None then casts (GetMapValueType literalType) mapLiteralType
         else Some False)"

definition collectionTypeChecker_CastsFrom ::
    "(lt_ptr \<Rightarrow> lt_ptr \<Rightarrow> bool option) \<Rightarrow> lt_ptr \<Rightarrow> lt_ptr \<Rightarrow> bool option" where
  "collectionTypeChecker_CastsFrom casts literalType upstreamType =
     (let collectionType = GetCollectionType upstreamType
      in if isNoneType collectionType then Some True
         else if collectionType \<noteq> None then casts (GetCollectionType literalType) collectionType
         else Some False)"

definition unionTypeChecker_CastsFrom ::
    "(lt_ptr \<Rightarrow> lt_ptr \<Rightarrow> bool option) \<Rightarrow> lt_ptr \<Rightarrow> lt_ptr \<Rightarrow> bool option" where
  "unionTypeChecker_CastsFrom castable literalType upstreamType =
     (let unionType = GetUnionType literalType
      in (case GetUnionType upstreamType of
            Some upstreamVariants \<Rightarrow>
              all_castable (\<lambda>u. any_castable (\<lambda>d. castable u d) (nil_list unionType)) upstreamVariants
          | None \<Rightarrow> one_castable (\<lambda>x. castable upstreamType x) False (nil_list unionType)))"

definition structuredDatasetCastFromStructuredDataset ::
    "(lt_ptr \<Rightarrow> lt_ptr \<Rightarrow> bool option) \<Rightarrow> dataset_type option \<Rightarrow> dataset_type option \<Rightarrow> bool option" where
  "structuredDatasetCastFromStructuredDataset casts upstream downstream =
     (if sd_GetFormat upstream \<noteq> [] \<and> sd_GetFormat downstream \<noteq> [] \<and>
         \<not> strings_EqualFold (sd_GetFormat upstream) (sd_GetFormat downstream) then Some False
      else if sd_GetColumns upstream = [] \<or> sd_GetColumns downstream = [] then Some True
      else all_castable
             (\<lambda>(name, ty). case nameToTypeMap (sd_GetColumns upstream) name of
                None \<Rightarrow> Some False
              | Some upstreamType \<Rightarrow> casts ty upstreamType)
             (sd_GetColumns downstream))"

definition structuredDatasetChecker_CastsFrom ::
    "(lt_ptr \<Rightarrow> lt_ptr \<Rightarrow> bool option) \<Rightarrow> lt_ptr \<Rightarrow> lt_ptr \<Rightarrow> bool option" where
  "structuredDatasetChecker_CastsFrom casts literalType upstreamType =
     (if isNoneType upstreamType then Some True
      else
        (let structuredDatasetType = GetStructuredDatasetType upstreamType;
             schemaType = GetSchema upstreamType
         in if structuredDatasetType = None \<and> schemaType = None then Some False
            else if schemaType \<noteq> None then
              (let format = sd_GetFormat (GetStructuredDatasetType literalType)
               in if format \<noteq> [] \<and> \<not> strings_EqualFold format ''parquet'' then Some False
                  else Some (structuredDatasetCastFromSchema schemaType
                               (GetStructuredDatasetType literalType)))
            else structuredDatasetCastFromStructuredDataset casts structuredDatasetType
                   (GetStructuredDatasetType literalType)))"

lemma checker_cong [fundef_cong]:
  "t = t' \<Longrightarrow> u = u' \<Longrightarrow>
   f (GetMapValueType t') (GetMapValueType u') = g (GetMapValueType t') (GetMapValueType u') \<Longrightarrow>
   mapTypeChecker_CastsFrom f t u = mapTypeChecker_CastsFrom g t' u'"
  "t = t' \<Longrightarrow> u = u' \<Longrightarrow>
   f (GetCollectionType t') (GetCollectionType u') = g (GetCollectionType t') (GetCollectionType u') \<Longrightarrow>
   collectionTypeChecker_CastsFrom f t u = collectionTypeChecker_CastsFrom g t' u'"
  by (simp_all add: mapTypeChecker_CastsFrom_def collectionTypeChecker_CastsFrom_def Let_def)

lemma unionTypeChecker_cong [fundef_cong]:
  assumes "t = t'" "u = u'"
    and "\<And>x d. d \<in> set (nil_list (GetUnionType t')) \<Longrightarrow> f x d = g x d"
  shows "unionTypeChecker_CastsFrom f t u = unionTypeChecker_CastsFrom g t' u'"
  unfolding unionTypeChecker_CastsFrom_def Let_def assms(1,2)
  by (intro option.case_cong loop_cong one_castable_cong refl) (use assms(3) in auto)

lemma structuredDatasetChecker_cong [fundef_cong]:
  assumes "t = t'" "u = u'"
    and "\<And>n d x. (n, d) \<in> set (sd_GetColumns (GetStructuredDatasetType t')) \<Longrightarrow> f d x = g d x"
  shows "structuredDatasetChecker_CastsFrom f t u = structuredDatasetChecker_CastsFrom g t' u'"
  unfolding structuredDatasetChecker_CastsFrom_def structuredDatasetCastFromStructuredDataset_def
    Let_def assms(1,2)
  by (intro if_cong loop_cong refl) (use assms(3) in \<open>auto split: option.split\<close>)

lemma size_pair_list:
  "(n, t) \<in> set cs \<Longrightarrow> size_option size t < Suc (size_list (size_prod (\<lambda>_. 0) (size_option size)) cs)"
  by (induction cs) auto

lemma size_dataset_column: "(n, t) \<in> set (sd_columns d) \<Longrightarrow> size_option size t < size d"
  by (cases d) (auto dest: size_pair_list)

lemma size_list_mem: "t \<in> set ts \<Longrightarrow> f t < Suc (size_list f ts)"
  by (induction ts) auto

abbreviation ptr_size :: "lt_ptr \<Rightarrow> nat" where
  "ptr_size \<equiv> size_option size"

lemma child_type_smaller:
  "GetType t = Some (LT_CollectionType c) \<Longrightarrow> ptr_size (GetCollectionType t) < ptr_size t"
  "GetType t = Some (LT_MapValueType c) \<Longrightarrow> ptr_size (GetMapValueType t) < ptr_size t"
  "x \<in> set (nil_list (GetUnionType t)) \<Longrightarrow> ptr_size x < ptr_size t"
  "(n, d) \<in> set (sd_GetColumns (GetStructuredDatasetType t)) \<Longrightarrow> ptr_size d < ptr_size t"
  "GetUnionType t = Some [x] \<Longrightarrow> ptr_size x < ptr_size t"
  subgoal by (cases t; cases "the t") (auto simp: getter_defs)
  subgoal by (cases t; cases "the t") (auto simp: getter_defs)
  subgoal by (cases t; cases "the t") (auto simp: getter_defs nil_list_def
      split: option.splits lt_kind.splits dest!: size_list_mem [where f = ptr_size])
  subgoal by (cases t; cases "the t") (auto simp: getter_defs sd_GetColumns_def
      split: option.splits lt_kind.splits dest!: size_dataset_column)
  subgoal by (cases t; cases "the t") (auto simp: getter_defs split: option.splits lt_kind.splits)
  done

text \<open>
  \<open>CastsFrom\<close> is \<open>getTypeChecker(t).CastsFrom(upstreamType)\<close>: the checker chosen by the
  downstream type, applied to the upstream one. The downstream type shrinks in every
  recursive call but the one for a union of a single variant, where the upstream type does.
\<close>

function CastsFrom :: "('c, 's) typing_lib \<Rightarrow> lt_ptr \<Rightarrow> lt_ptr \<Rightarrow> bool option"
  and AreTypesCastable :: "('c, 's) typing_lib \<Rightarrow> lt_ptr \<Rightarrow> lt_ptr \<Rightarrow> bool option"
where
  "CastsFrom L t upstreamType =
     (case GetType t of
        Some (LT_CollectionType _) \<Rightarrow>
          collectionTypeChecker_CastsFrom (\<lambda>c u. CastsFrom L c u) t upstreamType
      | Some (LT_MapValueType _) \<Rightarrow>
          mapTypeChecker_CastsFrom (\<lambda>c u. CastsFrom L c u) t upstreamType
      | Some (LT_Blob _) \<Rightarrow> Some (blobTypeChecker_CastsFrom t upstreamType)
      | Some (LT_Schema _) \<Rightarrow> Some (schemaTypeChecker_CastsFrom t upstreamType)
      | Some (LT_UnionType _) \<Rightarrow>
          unionTypeChecker_CastsFrom (\<lambda>u d. AreTypesCastable L u d) t upstreamType
      | Some (LT_StructuredDatasetType _) \<Rightarrow>
          structuredDatasetChecker_CastsFrom (\<lambda>c u. CastsFrom L c u) t upstreamType
      | _ \<Rightarrow>
          (if isNoneType t then Some (isNoneType upstreamType)
           else trivialChecker_CastsFrom L t upstreamType))"
| "AreTypesCastable L upstreamType downstreamType =
     (case GetUnionType upstreamType of
        Some [variant] \<Rightarrow>
          (case CastsFrom L downstreamType variant of
             None \<Rightarrow> None
           | Some b \<Rightarrow> if b then Some True else CastsFrom L downstreamType upstreamType)
      | _ \<Rightarrow> CastsFrom L downstreamType upstreamType)"
  by pat_completeness auto
termination
  by (relation "measures [
      case_sum (\<lambda>(L, t, u). ptr_size t) (\<lambda>(L, u, t). ptr_size t),
      case_sum (\<lambda>(L, t, u). ptr_size u) (\<lambda>(L, u, t). ptr_size u),
      case_sum (\<lambda>_. 0) (\<lambda>_. 1)]")
    (auto simp: child_type_smaller)

declare CastsFrom.simps [simp del] AreTypesCastable.simps [simp del]

subsection \<open>Well-formed types\<close>

text \<open>
  A type as it comes from a decoded specification: every pointer under a chosen
  \<open>oneof\<close> alternative is set and column names are unique.
\<close>

lemma child_size:
  "lt_type t = Some (LT_CollectionType (Some c)) \<Longrightarrow> size c < size t"
  "lt_type t = Some (LT_MapValueType (Some c)) \<Longrightarrow> size c < size t"
  "lt_type t = Some (LT_UnionType (Some vs)) \<Longrightarrow> Some c \<in> set vs \<Longrightarrow> size c < size t"
  "lt_type t = Some (LT_StructuredDatasetType (Some d)) \<Longrightarrow> Some c \<in> snd ` set (sd_columns d) \<Longrightarrow>
     size c < size t"
  using child_type_smaller(1-2) [of "Some t"] child_type_smaller(3) [of "Some c" "Some t"]
    child_type_smaller(4) [of _ "Some c" "Some t"]
  by (fastforce simp: getter_defs nil_list_def sd_GetColumns_def)+

function wf_type :: "literal_type \<Rightarrow> bool" where
  "wf_type t =
     (case lt_type t of
        Some (LT_CollectionType (Some c)) \<Rightarrow> wf_type c
      | Some (LT_MapValueType (Some c)) \<Rightarrow> wf_type c
      | Some (LT_Schema (Some cs)) \<Rightarrow> distinct (map fst cs)
      | Some (LT_Blob (Some _)) \<Rightarrow> True
      | Some (LT_EnumType (Some _)) \<Rightarrow> True
      | Some (LT_UnionType (Some vs)) \<Rightarrow>
          (\<forall>v \<in> set vs. case v of None \<Rightarrow> False | Some w \<Rightarrow> wf_type w)
      | Some (LT_StructuredDatasetType (Some d)) \<Rightarrow>
          distinct (map fst (sd_columns d)) \<and>
          (\<forall>c \<in> snd ` set (sd_columns d). case c of None \<Rightarrow> False | Some w \<Rightarrow> wf_type w)
      | Some (LT_Simple _) \<Rightarrow> True
      | _ \<Rightarrow> False)"
  by pat_completeness auto
termination
  by (relation "measure size") (auto simp: child_size)

declare wf_type.simps [simp del]

definition wf_ptr :: "lt_ptr \<Rightarrow> bool" where
  "wf_ptr p = (case p of None \<Rightarrow> False | Some t \<Rightarrow> wf_type t)"

lemma wf_ptr_iff: "wf_ptr p \<longleftrightarrow> (\<exists>t. p = Some t \<and> wf_type t)"
  by (cases p) (auto simp: wf_ptr_def)

lemma wf_typeD:
  "wf_type t \<Longrightarrow> lt_type t = Some (LT_CollectionType c) \<Longrightarrow> wf_ptr c"
  "wf_type t \<Longrightarrow> lt_type t = Some (LT_MapValueType c) \<Longrightarrow> wf_ptr c"
  "wf_type t \<Longrightarrow> lt_type t = Some (LT_UnionType vs) \<Longrightarrow> \<exists>ws. vs = Some ws \<and> (\<forall>v \<in> set ws. wf_ptr v)"
  "wf_type t \<Longrightarrow> lt_type t = Some (LT_StructuredDatasetType sd) \<Longrightarrow>
     \<exists>d. sd = Some d \<and> distinct (map fst (sd_columns d)) \<and> (\<forall>(n, c) \<in> set (sd_columns d). wf_ptr c)"
  "wf_type t \<Longrightarrow> lt_type t = Some (LT_Schema cs) \<Longrightarrow> \<exists>ds. cs = Some ds \<and> distinct (map fst ds)"
  "wf_type t \<Longrightarrow> lt_type t = Some (LT_Blob b) \<Longrightarrow> b \<noteq> None"
  "wf_type t \<Longrightarrow> lt_type t \<noteq> None"
  by (auto simp: wf_ptr_def wf_type.simps [of t] split: option.splits)

lemma wf_children:
  "wf_ptr t \<Longrightarrow> GetCollectionType t = Some c \<Longrightarrow> wf_ptr (Some c)"
  "wf_ptr t \<Longrightarrow> GetMapValueType t = Some c \<Longrightarrow> wf_ptr (Some c)"
  "wf_ptr t \<Longrightarrow> x \<in> set (nil_list (GetUnionType t)) \<Longrightarrow> wf_ptr x"
  "wf_ptr t \<Longrightarrow> (n, x) \<in> set (sd_GetColumns (GetStructuredDatasetType t)) \<Longrightarrow> wf_ptr x"
  "wf_ptr t \<Longrightarrow> GetUnionType t = Some [x] \<Longrightarrow> wf_ptr x"
proof -
  show "wf_ptr t \<Longrightarrow> GetCollectionType t = Some c \<Longrightarrow> wf_ptr (Some c)"
    by (auto simp: wf_ptr_def [of t] getter_defs split: option.splits lt_kind.splits
        dest: wf_typeD(1))
  show "wf_ptr t \<Longrightarrow> GetMapValueType t = Some c \<Longrightarrow> wf_ptr (Some c)"
    by (auto simp: wf_ptr_def [of t] getter_defs split: option.splits lt_kind.splits
        dest: wf_typeD(2))
  show "wf_ptr t \<Longrightarrow> x \<in> set (nil_list (GetUnionType t)) \<Longrightarrow> wf_ptr x"
    by (auto simp: wf_ptr_def [of t] getter_defs nil_list_def split: option.splits lt_kind.splits
        dest: wf_typeD(3))
  then show "wf_ptr t \<Longrightarrow> GetUnionType t = Some [x] \<Longrightarrow> wf_ptr x"
    by (simp add: nil_list_def)
  show "wf_ptr t \<Longrightarrow> (n, x) \<in> set (sd_GetColumns (GetStructuredDatasetType t)) \<Longrightarrow> wf_ptr x"
    by (auto simp: wf_ptr_def [of t] getter_defs sd_GetColumns_def
        split: option.splits lt_kind.splits dest: wf_typeD(4))
qed

lemma wf_kinds:
  "wf_ptr t \<Longrightarrow> GetType t = Some (LT_CollectionType c) \<Longrightarrow> wf_ptr c"
  "wf_ptr t \<Longrightarrow> GetType t = Some (LT_MapValueType c) \<Longrightarrow> wf_ptr c"
  by (auto simp: wf_ptr_def [of t] GetType_def split: option.splits dest: wf_typeD(1,2))

subsection \<open>Cast checks on well-formed types do not panic\<close>

lemma loops_defined:
  "\<forall>x \<in> set xs. f x \<noteq> None \<Longrightarrow> any_castable f xs \<noteq> None"
  "\<forall>x \<in> set xs. f x \<noteq> None \<Longrightarrow> all_castable f xs \<noteq> None"
  "\<forall>x \<in> set xs. f x \<noteq> None \<Longrightarrow> one_castable f b xs \<noteq> None"
  by (induction xs arbitrary: b) (auto split: option.splits)

lemma nameToTypeMap_mem: "nameToTypeMap cs n = Some x \<Longrightarrow> (n, x) \<in> set cs"
  by (auto simp: nameToTypeMap_def dest: map_of_SomeD)

lemma trivial_defined: "wf_ptr t \<Longrightarrow> wf_ptr u \<Longrightarrow> trivialChecker_CastsFrom L t u \<noteq> None"
  by (auto simp: trivialChecker_CastsFrom_def wf_ptr_def split: option.splits)

lemma structuredDatasetChecker_defined:
  assumes "\<And>n ty x. (n, ty) \<in> set (sd_GetColumns (GetStructuredDatasetType t)) \<Longrightarrow>
      nameToTypeMap (sd_GetColumns (GetStructuredDatasetType u)) n = Some x \<Longrightarrow> f ty x \<noteq> None"
  shows "structuredDatasetChecker_CastsFrom f t u \<noteq> None"
proof -
  have "all_castable (\<lambda>(name, ty).
      case nameToTypeMap (sd_GetColumns (GetStructuredDatasetType u)) name of
        None \<Rightarrow> Some False | Some x \<Rightarrow> f ty x) (sd_GetColumns (GetStructuredDatasetType t)) \<noteq> None"
  proof (rule loops_defined(2), rule ballI)
    fix c assume c: "c \<in> set (sd_GetColumns (GetStructuredDatasetType t))"
    obtain n ty where "c = (n, ty)" by (cases c)
    with c show "(case c of (name, ty) \<Rightarrow>
        case nameToTypeMap (sd_GetColumns (GetStructuredDatasetType u)) name of
          None \<Rightarrow> Some False | Some x \<Rightarrow> f ty x) \<noteq> None"
      using assms [of n ty] by (auto split: option.split)
  qed
  then show ?thesis
    by (auto simp: structuredDatasetChecker_CastsFrom_def Let_def
        structuredDatasetCastFromStructuredDataset_def)
qed

lemma unionTypeChecker_defined:
  assumes "\<And>d x. d \<in> set (nil_list (GetUnionType t)) \<Longrightarrow>
      x = u \<or> x \<in> set (nil_list (GetUnionType u)) \<Longrightarrow> f x d \<noteq> None"
  shows "unionTypeChecker_CastsFrom f t u \<noteq> None"
proof (cases "GetUnionType u")
  case None
  have "one_castable (f u) False (nil_list (GetUnionType t)) \<noteq> None"
    by (rule loops_defined(3), rule ballI, rule assms) simp_all
  with None show ?thesis by (simp add: unionTypeChecker_CastsFrom_def Let_def)
next
  case (Some us)
  have "any_castable (\<lambda>d. f x d) (nil_list (GetUnionType t)) \<noteq> None" if "x \<in> set us" for x
    by (rule loops_defined(1), rule ballI, rule assms) (use that Some in \<open>simp_all add: nil_list_def\<close>)
  then have "all_castable (\<lambda>u. any_castable (\<lambda>d. f u d) (nil_list (GetUnionType t))) us \<noteq> None"
    by (intro loops_defined(2)) blast
  with Some show ?thesis by (simp add: unionTypeChecker_CastsFrom_def Let_def)
qed

lemma casts_defined:
  "wf_ptr t \<Longrightarrow> wf_ptr u \<Longrightarrow> CastsFrom L t u \<noteq> None"
  "wf_ptr u' \<Longrightarrow> wf_ptr t' \<Longrightarrow> AreTypesCastable L u' t' \<noteq> None"
proof (induction L t u and L u' t' rule: CastsFrom_AreTypesCastable.induct)
  case (1 L t u)
  note wf = "1.prems"
  show ?case
  proof (cases "GetType t")
    case None
    then show ?thesis using wf trivial_defined [of t u L] by (simp add: CastsFrom.simps)
  next
    case (Some k)
    show ?thesis
    proof (cases k)
      case (LT_Simple s)
      then show ?thesis using Some wf trivial_defined [of t u L] by (simp add: CastsFrom.simps)
    next
      case (LT_Schema s)
      then show ?thesis using Some by (simp add: CastsFrom.simps)
    next
      case (LT_CollectionType c)
      then have "wf_ptr (GetCollectionType t)"
        using wf_kinds(1) [OF wf(1)] Some by (simp add: GetCollectionType_def)
      then show ?thesis
        using Some LT_CollectionType "1.IH"(1) wf_children(1) [OF wf(2)]
        by (auto simp: CastsFrom.simps [of L t] collectionTypeChecker_CastsFrom_def Let_def wf_ptr_def)
    next
      case (LT_MapValueType c)
      then have "wf_ptr (GetMapValueType t)"
        using wf_kinds(2) [OF wf(1)] Some by (simp add: GetMapValueType_def)
      then show ?thesis
        using Some LT_MapValueType "1.IH"(2) wf_children(2) [OF wf(2)]
        by (auto simp: CastsFrom.simps [of L t] mapTypeChecker_CastsFrom_def Let_def wf_ptr_def)
    next
      case (LT_Blob b)
      then show ?thesis using Some by (simp add: CastsFrom.simps)
    next
      case (LT_EnumType e)
      then show ?thesis using Some wf trivial_defined [of t u L]
        by (simp add: CastsFrom.simps isNoneType_def)
    next
      case (LT_StructuredDatasetType d)
      have "structuredDatasetChecker_CastsFrom (CastsFrom L) t u \<noteq> None"
        using wf Some LT_StructuredDatasetType
        by (intro structuredDatasetChecker_defined "1.IH"(3))
          (auto dest!: nameToTypeMap_mem intro: wf_children(4))
      then show ?thesis using Some LT_StructuredDatasetType by (simp add: CastsFrom.simps [of L t])
    next
      case (LT_UnionType vs)
      have "unionTypeChecker_CastsFrom (AreTypesCastable L) t u \<noteq> None"
        using wf Some LT_UnionType
        by (intro unionTypeChecker_defined "1.IH"(4)) (auto intro: wf_children(3))
      then show ?thesis using Some LT_UnionType by (simp add: CastsFrom.simps [of L t])
    qed
  qed
next
  case (2 L u t)
  show ?case
  proof (cases "\<exists>v. GetUnionType u = Some [v]")
    case True
    then obtain v where v: "GetUnionType u = Some [v]" by blast
    then have "CastsFrom L t v \<noteq> None"
      using "2.IH"(3) "2.prems" wf_children(5) by blast
    then obtain b where b: "CastsFrom L t v = Some b" by blast
    show ?thesis
      using "2.IH"(4) [OF v refl refl b] "2.prems" v b
      by (auto simp: AreTypesCastable.simps [of L u])
  next
    case False
    have "CastsFrom L t u \<noteq> None"
      using "2.IH"(1,2,5) "2.prems" False by (metis list.exhaust option.exhaust)
    then show ?thesis
      using False by (auto simp: AreTypesCastable.simps [of L u] split: option.split list.split)
  qed
qed

subsection \<open>Every well-formed type casts to itself\<close>

lemma any_castable_hit:
  "d \<in> set ds \<Longrightarrow> f d = Some True \<Longrightarrow> \<forall>x \<in> set ds. f x \<noteq> None \<Longrightarrow> any_castable f ds = Some True"
  by (induction ds) auto

lemma all_castable_iff:
  "\<forall>x \<in> set xs. f x \<noteq> None \<Longrightarrow> all_castable f xs = Some True \<longleftrightarrow> (\<forall>x \<in> set xs. f x = Some True)"
  by (induction xs) (auto split: if_splits)

lemma all_castable_hit: "\<forall>x \<in> set xs. f x = Some True \<Longrightarrow> all_castable f xs = Some True"
  by (induction xs) auto

lemma nameToTypeMap_distinct:
  "distinct (map fst cs) \<Longrightarrow> nameToTypeMap cs n = Some x \<longleftrightarrow> (n, x) \<in> set cs"
  using map_of_eq_Some_iff [of "rev cs" n x] by (simp add: nameToTypeMap_def flip: rev_map)

definition json_reflexive :: "('c, 's) typing_lib \<Rightarrow> bool" where
  "json_reflexive L \<longleftrightarrow> (\<forall>m. \<exists>b. Marshal L m = Some b) \<and> (\<forall>b. CompareJSON L b b = Some 0)"

lemma trivial_refl:
  "json_reflexive L \<Longrightarrow> trivialChecker_CastsFrom L (Some t) (Some t) = Some True"
  by (auto simp: trivialChecker_CastsFrom_def json_reflexive_def isSameTypeInJSON_def
      split: option.splits) (metis option.distinct(1))+

lemma AreTypesCastable_refl_if:
  assumes "CastsFrom L (Some t) (Some t) = Some True" "wf_type t"
  shows "AreTypesCastable L (Some t) (Some t) = Some True"
proof (cases "\<exists>v. GetUnionType (Some t) = Some [v]")
  case True
  then obtain v where v: "GetUnionType (Some t) = Some [v]" by blast
  have self: "wf_ptr (Some t)" using assms(2) by (simp add: wf_ptr_def)
  have "CastsFrom L (Some t) v \<noteq> None"
    by (rule casts_defined(1) [OF self wf_children(5) [OF self v]])
  then obtain b where "CastsFrom L (Some t) v = Some b" by blast
  with v assms(1) show ?thesis by (simp add: AreTypesCastable.simps [of L "Some t"])
next
  case False
  then show ?thesis
    using assms(1) by (auto simp: AreTypesCastable.simps [of L "Some t"] split: option.split list.split)
qed

lemma schema_refl: "distinct (map fst cs) \<Longrightarrow> schemaCastFromSchema (Some cs) (Some cs)"
  by (auto simp: schemaCastFromSchema_def nil_list_def nameToTypeMap_distinct list_all_iff)

lemma CastsFrom_refl:
  assumes "json_reflexive L"
  shows "wf_type t \<Longrightarrow> CastsFrom L (Some t) (Some t) = Some True"
proof (induction t rule: measure_induct_rule [of size])
  case (less t)
  note IH = less.IH and wf = less.prems
  have self: "wf_ptr (Some t)" using wf by (simp add: wf_ptr_def)
  have GT: "GetType (Some t) = lt_type t" by (simp add: GetType_def)
  obtain k where k: "lt_type t = Some k" using wf_typeD(7) [OF wf] by blast
  show ?case
  proof (cases k)
    case (LT_CollectionType c)
    with wf_typeD(1) [OF wf] k obtain s where s: "c = Some s" "wf_type s"
      by (fastforce simp: wf_ptr_iff)
    with IH [of s] child_size(1) [of t s] k LT_CollectionType show ?thesis
      by (simp add: CastsFrom.simps [of L "Some t"] GT collectionTypeChecker_CastsFrom_def
          getter_defs Let_def)
  next
    case (LT_MapValueType c)
    with wf_typeD(2) [OF wf] k obtain s where s: "c = Some s" "wf_type s"
      by (fastforce simp: wf_ptr_iff)
    with IH [of s] child_size(2) [of t s] k LT_MapValueType show ?thesis
      by (simp add: CastsFrom.simps [of L "Some t"] GT mapTypeChecker_CastsFrom_def
          getter_defs Let_def)
  next
    case (LT_Schema s)
    with wf_typeD(5) [OF wf] k obtain cs where "s = Some cs" "distinct (map fst cs)" by blast
    with k LT_Schema show ?thesis
      by (simp add: CastsFrom.simps [of L "Some t"] GT schemaTypeChecker_CastsFrom_def
          GetSchema_def schema_refl)
  next
    case (LT_Blob b)
    with wf_typeD(6) [OF wf] k show ?thesis
      by (auto simp: CastsFrom.simps [of L "Some t"] GT blobTypeChecker_CastsFrom_def GetBlob_def
          GetFormat_def)
  next
    case (LT_UnionType u)
    with wf_typeD(3) [OF wf] k obtain vs where vs: "u = Some vs" "\<forall>v \<in> set vs. wf_ptr v" by blast
    have "any_castable (AreTypesCastable L v) vs = Some True" if v: "v \<in> set vs" for v
    proof (rule any_castable_hit [OF v])
      obtain w where w: "v = Some w" "wf_type w"
        using vs(2) v wf_ptr_iff by blast
      then show "AreTypesCastable L v v = Some True"
        using IH [of w] child_size(3) [of t vs w] k LT_UnionType vs(1) v
        by (simp add: AreTypesCastable_refl_if)
      show "\<forall>x \<in> set vs. AreTypesCastable L v x \<noteq> None"
        using vs(2) v casts_defined(2) by blast
    qed
    then show ?thesis
      using k LT_UnionType vs(1) GT
      by (simp add: CastsFrom.simps [of L "Some t"] unionTypeChecker_CastsFrom_def nil_list_def
          GetUnionType_def all_castable_hit)
  next
    case (LT_StructuredDatasetType sd)
    with wf_typeD(4) [OF wf] k obtain d where d: "sd = Some d" "distinct (map fst (sd_columns d))"
      "\<forall>(n, c) \<in> set (sd_columns d). wf_ptr c" by blast
    have "CastsFrom L c c = Some True" if c: "(n, c) \<in> set (sd_columns d)" for n c
    proof -
      obtain w where w: "c = Some w" "wf_type w"
        using d(3) c wf_ptr_iff by blast
      then show ?thesis
        using IH [of w] child_size(4) [of t d w] k LT_StructuredDatasetType d(1) c by force
    qed
    then have "all_castable (\<lambda>(name, ty). case nameToTypeMap (sd_columns d) name of
        None \<Rightarrow> Some False | Some x \<Rightarrow> CastsFrom L ty x) (sd_columns d) = Some True"
      using d(2) by (intro all_castable_hit) (auto split: option.split
          simp: nameToTypeMap_distinct dest: nameToTypeMap_distinct [THEN iffD2])
    then show ?thesis
      using k LT_StructuredDatasetType d(1) GT
      by (simp add: CastsFrom.simps [of L "Some t"] structuredDatasetChecker_CastsFrom_def
          structuredDatasetCastFromStructuredDataset_def GetSchema_def sd_GetColumns_def
          GetStructuredDatasetType_def isNoneType_def Let_def)
  qed (use k GT assms in \<open>simp_all add: CastsFrom.simps [of L "Some t"] trivial_refl\<close>)
qed

subsection \<open>Properties of the cast check\<close>

lemma one_castable_count:
  assumes "\<forall>x \<in> set xs. f x \<noteq> None"
  shows "one_castable f b xs =
    Some (length (filter (\<lambda>x. f x = Some True) xs) + (if b then 1 else 0) = 1)"
  using assms
proof (induction xs arbitrary: b)
  case Nil
  then show ?case by simp
next
  case (Cons x xs)
  then obtain c where c: "f x = Some c" by auto
  show ?case
  proof (cases c)
    case True
    with c Cons show ?thesis by (cases b) auto
  next
    case False
    with c Cons show ?thesis by simp
  qed
qed

lemma any_castable_verdict:
  "\<forall>x \<in> set xs. f x \<noteq> None \<Longrightarrow> any_castable f xs = Some (\<exists>x \<in> set xs. f x = Some True)"
  by (induction xs) auto

lemma all_castable_verdict:
  "\<forall>x \<in> set xs. f x \<noteq> None \<Longrightarrow> all_castable f xs = Some (\<forall>x \<in> set xs. f x = Some True)"
  by (induction xs) auto

text \<open>
  The check is defined on every pair of well-formed types: whatever their shape,
  \<open>AreTypesCastable\<close> returns a verdict and never dereferences a nil type.
\<close>

lemma castable_never_panics:
  assumes "wf_type u" "wf_type t"
  shows "\<exists>b. AreTypesCastable L (Some u) (Some t) = Some b"
  using casts_defined(2) [of "Some u" "Some t" L] assms by (auto simp: wf_ptr_def)

text \<open>
  A well-formed type can be bound to itself, provided the JSON
  library marshals every schema and finds no difference between a document and itself.
\<close>

lemma castable_reflexive:
  assumes "json_reflexive L" "wf_type t"
  shows "AreTypesCastable L (Some t) (Some t) = Some True"
  using assms by (intro AreTypesCastable_refl_if CastsFrom_refl)

text \<open>
  Property C22. Binding to a union: a type that is not itself a union is accepted by a
  downstream union exactly when one variant, and no second one, accepts it; an upstream
  union is accepted exactly when every one of its variants is accepted by some downstream variant.
\<close>

theorem union_cast:
  assumes "wf_type u" "wf_type t" "lt_type t = Some (LT_UnionType (Some ds))"
  shows "CastsFrom L (Some t) (Some u) = Some
    (case GetUnionType (Some u) of
       None \<Rightarrow> length (filter (\<lambda>d. AreTypesCastable L (Some u) d = Some True) ds) = 1
     | Some us \<Rightarrow> \<forall>x \<in> set us. \<exists>d \<in> set ds. AreTypesCastable L x d = Some True)"
proof -
  have wfu: "wf_ptr (Some u)" using assms(1) by (simp add: wf_ptr_def)
  have wfd: "wf_ptr d" if "d \<in> set ds" for d using wf_typeD(3) [OF assms(2,3)] that by auto
  have GT: "GetType (Some t) = Some (LT_UnionType (Some ds))" "nil_list (GetUnionType (Some t)) = ds"
    using assms(3) by (simp_all add: getter_defs nil_list_def)
  show ?thesis
  proof (cases "GetUnionType (Some u)")
    case None
    have "\<forall>d \<in> set ds. AreTypesCastable L (Some u) d \<noteq> None"
      using casts_defined(2) wfu wfd by blast
    with None GT show ?thesis
      by (simp add: CastsFrom.simps [of L "Some t"] unionTypeChecker_CastsFrom_def Let_def
          one_castable_count)
  next
    case (Some us)
    have defined: "\<forall>d \<in> set ds. AreTypesCastable L x d \<noteq> None" if "x \<in> set us" for x
    proof -
      have "wf_ptr x" using wf_children(3) [OF wfu] Some that by (simp add: nil_list_def)
      then show ?thesis using casts_defined(2) wfd by blast
    qed
    have any: "any_castable (AreTypesCastable L x) ds =
        Some (\<exists>d \<in> set ds. AreTypesCastable L x d = Some True)" if "x \<in> set us" for x
      by (rule any_castable_verdict [OF defined [OF that]])
    have "all_castable (\<lambda>x. any_castable (AreTypesCastable L x) ds) us =
        Some (\<forall>x \<in> set us. \<exists>d \<in> set ds. AreTypesCastable L x d = Some True)"
      by (subst all_castable_verdict) (auto simp: any)
    with Some GT show ?thesis
      by (simp add: CastsFrom.simps [of L "Some t"] unionTypeChecker_CastsFrom_def Let_def)
  qed
qed

text \<open>
  Schemas: between two schemas with columns and unique column names, the
  downstream schema accepts the upstream one exactly when its columns, with their types, are a
  subset of the upstream columns; a schema without columns accepts and is accepted by every schema.
\<close>

lemma schema_cast:
  assumes "lt_type u = Some (LT_Schema (Some cs))" "lt_type t = Some (LT_Schema (Some ds))"
    and "distinct (map fst cs)"
  shows "CastsFrom L (Some t) (Some u) = Some (cs = [] \<or> ds = [] \<or> set ds \<subseteq> set cs)"
  using assms nameToTypeMap_distinct [OF assms(3)]
  by (auto simp: CastsFrom.simps [of L "Some t"] getter_defs schemaTypeChecker_CastsFrom_def Let_def
      schemaCastFromSchema_def nil_list_def list_all_iff)

subsection \<open>Witnesses\<close>

definition sample_lib :: "(unit, unit) typing_lib" where
  "sample_lib = \<lparr>Marshal = (\<lambda>m. Some (concat (map fst m))),
     CompareJSON = (\<lambda>a b. Some (if a = b then 0 else 1)), NewCompiler = (),
     AddResource = (\<lambda>c n b. Some ()), Compile = (\<lambda>c n. Some ()), CompareSchemas = (\<lambda>s t. []),
     TypeString = (\<lambda>t. case lt_type t of Some (LT_Simple INTEGER) \<Rightarrow> ''simple:INTEGER''
                     | Some (LT_Simple STRING) \<Rightarrow> ''simple:STRING'' | _ \<Rightarrow> ''other''),
     NilTypeString = ''<nil>''\<rparr>"

definition int_type :: literal_type where
  "int_type = LiteralType (Some (LT_Simple INTEGER)) None None None"

definition string_type :: literal_type where
  "string_type = LiteralType (Some (LT_Simple STRING)) None None None"

definition int_or_string :: literal_type where
  "int_or_string = LiteralType (Some (LT_UnionType (Some [Some int_type, Some string_type]))) None None None"

lemmas sample_types = int_type_def string_type_def int_or_string_def

lemma sample_wf: "wf_type int_type" "wf_type string_type" "wf_type int_or_string"
  by (simp_all add: wf_type.simps sample_types)



theorem union_cast_witness:
  "CastsFrom sample_lib (Some int_or_string) (Some int_type) = Some True"
  using union_cast [OF sample_wf(1,3), of "[Some int_type, Some string_type]" sample_lib]
  by (simp add: sample_types getter_defs AreTypesCastable.simps CastsFrom.simps sample_lib_def
      isNoneType_def trivialChecker_CastsFrom_def GetTagForType_def strip_type_def)

theorem schema_cast_witness:
  "CastsFrom sample_lib
     (Some (LiteralType (Some (LT_Schema (Some [(''a'', SC_STRING)]))) None None None))
     (Some (LiteralType (Some (LT_Schema (Some [(''b'', SC_FLOAT), (''a'', SC_STRING)]))) None None None))
   = Some True"
proof -
  have "distinct (map fst [(''b'', SC_FLOAT), (''a'', SC_STRING)])" by simp
  then show ?thesis by (simp add: schema_cast)
qed

end
