(* ===== verification/Core_Model.thy ===== *)
theory Core_Model
  imports Complex_Main Literal_Types
begin

section \<open>Literals, bindings and interfaces (messages of flyteidl/core)\<close>

text \<open>
  The messages that the compiler and the executor read. A message behind a pointer is an
  \<open>option\<close>; an unset \<open>oneof\<close> is \<open>None\<close>. Where the code only looks at a
  message through a chain of generated getters that ends in one field, the chain is one
  \<open>option\<close>: \<open>scalar.GetBlob().GetMetadata()\<close> is nil when the blob or its metadata is.
  A nil slice differs from an empty one (\<open>None\<close> and \<open>Some []\<close>) where the code tests it.
  Maps are association lists in the order of one iteration.

  A \<open>float64\<close> is NaN, an infinity or a finite value; the two zeros compare
  equal and are one value.
\<close>

datatype float64 = NaN | NegInf | Finite rat | PosInf

record pb_time =
  Seconds :: int
  Nanos :: int

datatype primitive_value =
    Primitive_Integer int
  | Primitive_FloatValue float64
  | Primitive_StringValue string
  | Primitive_Boolean bool
  | Primitive_Datetime "pb_time option"
  | Primitive_Duration "pb_time option"

text \<open>A \<open>core.Primitive\<close> message is its \<open>oneof\<close>; a pointer to one is \<open>prim_ptr\<close>.\<close>

type_synonym primitive = "primitive_value option"
type_synonym prim_ptr = "primitive option"

text \<open>A value of a protobuf struct.\<close>

datatype pb_value =
    Pb_Null | Pb_Number float64 | Pb_String string | Pb_Bool bool
  | Pb_Struct "(string \<times> pb_value) list" | Pb_List "pb_value list"

text \<open>
  A binary has bytes and a tag, an error a message and the node that failed, and a generic scalar holds a protobuf struct.
\<close>

datatype literal = Literal (lit_value: "literal_value option")
and literal_value =
    Literal_Scalar "scalar option"
  | Literal_Collection "literal option list option"
  | Literal_Map "(string \<times> literal option) list"
  | Literal_OffloadedMetadata lt_ptr
and scalar = Scalar (scalar_value: "scalar_value option")
and scalar_value =
    Scalar_Primitive prim_ptr
  | Scalar_Blob "blob_type option option"
  | Scalar_Binary "8 word list" string
  | Scalar_Schema "schema_column list option"
  | Scalar_NoneType
  | Scalar_Error string string
  | Scalar_Generic "(string \<times> pb_value) list option"
  | Scalar_StructuredDataset "dataset_type option option"
  | Scalar_Union "literal option" lt_ptr

type_synonym lit_ptr = "literal option"

subsection \<open>Getters\<close>

definition lit_GetValue :: "lit_ptr \<Rightarrow> literal_value option" where
  "lit_GetValue l = Option.bind l lit_value"

definition GetScalar :: "lit_ptr \<Rightarrow> scalar option" where
  "GetScalar l = (case lit_GetValue l of Some (Literal_Scalar s) \<Rightarrow> s | _ \<Rightarrow> None)"

definition GetPrimitive :: "scalar option \<Rightarrow> prim_ptr" where
  "GetPrimitive s = (case Option.bind s scalar_value of Some (Scalar_Primitive p) \<Rightarrow> p | _ \<Rightarrow> None)"

definition GetStringValue :: "prim_ptr \<Rightarrow> string" where
  "GetStringValue p = (case p of Some (Some (Primitive_StringValue s)) \<Rightarrow> s | _ \<Rightarrow> [])"

subsection \<open>Variables and interfaces\<close>

text \<open>
  A \<open>core.Variable\<close> is the pointer to its type (its description plays no part). A
  \<open>core.VariableMap\<close> is a map, nil or not; reading a nil map finds nothing.
\<close>

type_synonym variable = lt_ptr
type_synonym variable_map = "(string \<times> variable) list"

record typed_interface =
  iface_Inputs :: "variable_map option"
  iface_Outputs :: "variable_map option"

definition GetVariables :: "variable_map option \<Rightarrow> variable_map" where
  "GetVariables m = (case m of None \<Rightarrow> [] | Some vs \<Rightarrow> vs)"

subsection \<open>Bindings\<close>

text \<open>
  The validator writes the node id of a promise. The id is therefore kept in a store, and the promise
  holds its address.
\<close>

type_synonym addr = nat
type_synonym promise_store = "addr \<Rightarrow> string"

datatype attr_path = Attr_StringValue string | Attr_IntValue int

record promise =
  promise_addr :: addr
  promise_Var :: string
  promise_AttrPath :: "attr_path list"

datatype binding_data = BindingData (bd_value: "binding_value option")
and binding_value =
    BindingData_Scalar "scalar option"
  | BindingData_Collection "binding_data option list option"
  | BindingData_Promise "promise option"
  | BindingData_Map "(string \<times> binding_data option) list option"

type_synonym bd_ptr = "binding_data option"

record binding =
  binding_Var :: string
  binding_Binding :: bd_ptr

subsection \<open>Conditions\<close>

text \<open>An operator that is none of the six named values is \<open>Op_Unsupported\<close>.\<close>

datatype comparison_operator = Op_EQ | Op_NEQ | Op_GT | Op_GTE | Op_LT | Op_LTE | Op_Unsupported
datatype logical_operator = Conj_AND | Conj_OR

text \<open>An operand is a primitive or the name of a variable.\<close>

datatype operand = Operand_Primitive prim_ptr | Operand_Var string | Operand_Unset

record comparison_expression =
  cmp_Operator :: comparison_operator
  cmp_LeftValue :: "operand option"
  cmp_RightValue :: "operand option"

datatype boolean_expression =
    BoolExpr_Comparison "comparison_expression option"
  | BoolExpr_Conjunction "(logical_operator \<times> boolean_expression option \<times> boolean_expression option) option"
  | BoolExpr_Unset

definition op_GetPrimitive :: "operand option \<Rightarrow> prim_ptr" where
  "op_GetPrimitive x = (case x of Some (Operand_Primitive p) \<Rightarrow> p | _ \<Rightarrow> None)"

definition op_GetVar :: "operand option \<Rightarrow> string" where
  "op_GetVar x = (case x of Some (Operand_Var v) \<Rightarrow> v | _ \<Rightarrow> [])"

subsection \<open>Values of a map\<close>

lemma size_in_list [termination_simp]: "x \<in> set xs \<Longrightarrow> size x \<le> size_list size xs"
  by (simp add: size_list_estimation')

end
