(* ===== verification/Literal_Inference.thy ===== *)
theory Literal_Inference
  imports Core_Model
begin

section \<open>Types of literals (flytepropeller/pkg/compiler/validators/utils.go)\<close>

text \<open>
  The type the compiler and the executor infer for a literal, and the small helpers on variable maps.
  \<open>literalTypeForLiterals\<close> removes repeated types by their text form and sorts by
  it; the text forms are the parameters of \<open>typing_lib\<close>.
\<close>

definition containsBindingByVariableName :: "binding list \<Rightarrow> string \<Rightarrow> bool" where
  "containsBindingByVariableName bindings name = list_ex (\<lambda>b. binding_Var b = name) bindings"

definition findVariableByName :: "variable_map option \<Rightarrow> string \<Rightarrow> variable option" where
  "findVariableByName vars name = (case vars of None \<Rightarrow> None | Some vs \<Rightarrow> map_of vs name)"

definition literalTypeForPrimitive :: "prim_ptr \<Rightarrow> lt_ptr" where
  "literalTypeForPrimitive primitive =
     lt_of (LT_Simple
       (case Option.bind primitive id of
          None \<Rightarrow> NONE
        | Some (Primitive_Integer _) \<Rightarrow> INTEGER
        | Some (Primitive_FloatValue _) \<Rightarrow> FLOAT
        | Some (Primitive_StringValue _) \<Rightarrow> STRING
        | Some (Primitive_Boolean _) \<Rightarrow> BOOLEAN
        | Some (Primitive_Datetime _) \<Rightarrow> DATETIME
        | Some (Primitive_Duration _) \<Rightarrow> DURATION))"

definition MESSAGEPACK :: string where
  "MESSAGEPACK = ''msgpack''"

definition literalTypeForScalar :: "scalar option \<Rightarrow> lt_ptr" where
  "literalTypeForScalar scalar =
     (case Option.bind scalar scalar_value of
        None \<Rightarrow> None
      | Some (Scalar_Primitive p) \<Rightarrow> literalTypeForPrimitive p
      | Some (Scalar_Blob metadata) \<Rightarrow>
          (case metadata of None \<Rightarrow> None | Some t \<Rightarrow> lt_of (LT_Blob t))
      | Some (Scalar_Binary _ tag) \<Rightarrow>
          (if tag = MESSAGEPACK then lt_of (LT_Simple STRUCT) else lt_of (LT_Simple BINARY))
      | Some (Scalar_Schema t) \<Rightarrow> lt_of (LT_Schema t)
      | Some (Scalar_StructuredDataset metadata) \<Rightarrow>
          (case metadata of
             None \<Rightarrow> lt_of (LT_StructuredDatasetType None)
           | Some t \<Rightarrow> lt_of (LT_StructuredDatasetType t))
      | Some Scalar_NoneType \<Rightarrow> lt_of (LT_Simple NONE)
      | Some (Scalar_Error _ _) \<Rightarrow> lt_of (LT_Simple ERROR)
      | Some (Scalar_Generic _) \<Rightarrow> lt_of (LT_Simple STRUCT)
      | Some (Scalar_Union _ t) \<Rightarrow> lt_of (LT_UnionType (Some [t])))"

definition buildVariablesIndex :: "variable_map option \<Rightarrow> (string \<rightharpoonup> variable) \<times> string set" where
  "buildVariablesIndex params =
     fold (\<lambda>(name, param) (paramMap, paramSet). (paramMap(name \<mapsto> param), insert name paramSet))
       (GetVariables params) (Map.empty, {})"

definition filterVariables :: "variable_map option \<Rightarrow> string set \<Rightarrow> variable_map" where
  "filterVariables vars varNames = filter (\<lambda>(name, _). name \<in> varNames) (GetVariables vars)"

text \<open>The loop over the second map stops with an error at the first clash.\<close>

fun union_loop ::
    "('c, 's) typing_lib \<Rightarrow> (string \<rightharpoonup> variable) \<Rightarrow> variable_map \<Rightarrow> string + (string \<rightharpoonup> variable)" where
  "union_loop L res [] = Inr res"
| "union_loop L res ((k, v) # m2) =
     (case res k of
        Some existingV \<Rightarrow>
          if type_text L v \<noteq> type_text L existingV then Inl k else union_loop L (res(k \<mapsto> v)) m2
      | None \<Rightarrow> union_loop L (res(k \<mapsto> v)) m2)"

definition UnionDistinctVariableMaps ::
    "('c, 's) typing_lib \<Rightarrow> variable_map \<Rightarrow> variable_map \<Rightarrow> string + (string \<rightharpoonup> variable)" where
  "UnionDistinctVariableMaps L m1 m2 = union_loop L (fold (\<lambda>(k, v) m. m(k \<mapsto> v)) m1 Map.empty) m2"

subsection \<open>Collections and maps of literals\<close>

definition union_variants :: "lt_ptr \<Rightarrow> lt_ptr list" where
  "union_variants x =
     (case GetUnionType (GetCollectionType x) of Some variants \<Rightarrow> variants | None \<Rightarrow> [x])"

definition buildMultipleTypeUnion :: "lt_ptr list \<Rightarrow> lt_ptr" where
  "buildMultipleTypeUnion innerType =
     (let isNested = list_ex (\<lambda>x. GetUnionType (GetCollectionType x) \<noteq> None) innerType;
          unionLiteralType = lt_of (LT_UnionType (Some (concat (map union_variants innerType))))
      in if isNested then lt_of (LT_CollectionType unionLiteralType) else unionLiteralType)"

text \<open>
  One element of the loop: an empty collection only sets \<open>noneType\<close>; another type is
  appended when its text is new. The state is (innerType, noneType); the set of texts is that of innerType.
\<close>

definition is_empty_collection :: "lit_ptr \<Rightarrow> bool" where
  "is_empty_collection x = (lit_GetValue x = Some (Literal_Collection None))"

definition literals_step ::
    "('c, 's) typing_lib \<Rightarrow> lit_ptr \<times> lt_ptr \<Rightarrow> lt_ptr list \<times> lt_ptr \<Rightarrow> lt_ptr list \<times> lt_ptr" where
  "literals_step L = (\<lambda>(x, otherType) (innerType, noneType).
     if is_empty_collection x then (innerType, otherType)
     else if type_text L otherType \<in> set (map (type_text L) innerType) then (innerType, noneType)
     else (innerType @ [otherType], noneType))"

definition literals_type ::
    "('c, 's) typing_lib \<Rightarrow> (lit_ptr \<times> lt_ptr) list \<Rightarrow> lt_ptr" where
  "literals_type L xs =
     (let (innerType0, noneType) = fold (literals_step L) xs ([], None);
          innerType = (if innerType0 = [] \<and> noneType \<noteq> None then [noneType] else innerType0)
      in case innerType of
           [] \<Rightarrow> lt_of (LT_Simple NONE)
         | [t] \<Rightarrow> t
         | _ \<Rightarrow> buildMultipleTypeUnion (sort_key (type_text L) innerType))"

lemma size_option_estimation: "x \<in> set xs \<Longrightarrow> size_option size x \<le> size_list (size_option size) xs"
  by (simp add: size_list_estimation')

lemma literal_child_size:
  "lit_GetValue l = Some (Literal_Collection ls) \<Longrightarrow> x \<in> set (nil_list ls) \<Longrightarrow>
     size_option size x < size_option size l"
  "lit_GetValue l = Some (Literal_Map m) \<Longrightarrow> x \<in> snd ` set m \<Longrightarrow>
     size_option size x < size_option size l"
proof -
  assume a: "lit_GetValue l = Some (Literal_Collection ls)" "x \<in> set (nil_list ls)"
  then obtain xs where xs: "ls = Some xs" "x \<in> set xs" by (cases ls) (auto simp: nil_list_def)
  have "l = Some (Literal (Some (Literal_Collection (Some xs))))"
    using a(1) xs(1) by (cases l) (auto simp: lit_GetValue_def intro: literal.expand)
  with size_option_estimation [OF xs(2)] show "size_option size x < size_option size l" by simp
next
  assume a: "lit_GetValue l = Some (Literal_Map m)" "x \<in> snd ` set m"
  then obtain k where k: "(k, x) \<in> set m" by auto
  have "l = Some (Literal (Some (Literal_Map m)))"
    using a(1) by (cases l) (auto simp: lit_GetValue_def intro: literal.expand)
  moreover have "size_prod (\<lambda>_. 0) (size_option size) (k, x) \<le> size_list (size_prod (\<lambda>_. 0) (size_option size)) m"
    using k by (rule size_list_estimation') simp
  ultimately show "size_option size x < size_option size l" by simp
qed

function LiteralTypeForLiteral :: "('c, 's) typing_lib \<Rightarrow> lit_ptr \<Rightarrow> lt_ptr" where
  "LiteralTypeForLiteral L l =
     (case lit_GetValue l of
        None \<Rightarrow> None
      | Some (Literal_Scalar s) \<Rightarrow> literalTypeForScalar s
      | Some (Literal_Collection literals) \<Rightarrow>
          lt_of (LT_CollectionType
            (literals_type L (map (\<lambda>x. (x, LiteralTypeForLiteral L x)) (nil_list literals))))
      | Some (Literal_Map literals) \<Rightarrow>
          lt_of (LT_MapValueType
            (literals_type L (map (\<lambda>x. (x, LiteralTypeForLiteral L x)) (map snd literals))))
      | Some (Literal_OffloadedMetadata t) \<Rightarrow> t)"
  by pat_completeness auto
termination
  by (relation "measure (\<lambda>(L, l). size_option size l)") (auto dest: literal_child_size)

declare LiteralTypeForLiteral.simps [simp del]

definition literalTypeForLiterals :: "('c, 's) typing_lib \<Rightarrow> lit_ptr list \<Rightarrow> lt_ptr" where
  "literalTypeForLiterals L literals =
     literals_type L (map (\<lambda>x. (x, LiteralTypeForLiteral L x)) literals)"

lemma element_type_size:
  "GetCollectionType (Some t) = Some c \<Longrightarrow> size c < size t"
  "GetMapValueType (Some t) = Some c \<Longrightarrow> size c < size t"
  by (cases t; auto simp: getter_defs split: option.splits lt_kind.splits)+

function ValidateLiteralType :: "lt_ptr \<Rightarrow> string option" where
  "ValidateLiteralType lt =
     (if lt = None then Some ''got unknown literal type''
      else if GetCollectionType lt \<noteq> None then ValidateLiteralType (GetCollectionType lt)
      else if GetMapValueType lt \<noteq> None then ValidateLiteralType (GetMapValueType lt)
      else None)"
  by pat_completeness auto
termination
  by (relation "measure (size_option size)") (auto dest: element_type_size)

declare ValidateLiteralType.simps [simp del]


subsection \<open>The loop over the elements\<close>

definition element_types :: "(lit_ptr \<times> lt_ptr) list \<Rightarrow> lt_ptr set" where
  "element_types xs = snd ` {p \<in> set xs. \<not> is_empty_collection (fst p)}"

lemma literals_fold:
  assumes "fold (literals_step L) xs (inner, none) = (inner', none')"
    and "distinct (map (type_text L) inner)"
  shows "distinct (map (type_text L) inner') \<and> set inner' \<subseteq> set inner \<union> element_types xs \<and>
    type_text L ` set inner' = type_text L ` (set inner \<union> element_types xs) \<and>
    none' = (if \<exists>p \<in> set xs. is_empty_collection (fst p)
             then snd (last (filter (\<lambda>p. is_empty_collection (fst p)) xs)) else none)"
  using assms
proof (induction xs arbitrary: inner none)
  case (Cons a xs)
  obtain x t where a [simp]: "a = (x, t)" by (cases a)
  consider "is_empty_collection x"
    | "\<not> is_empty_collection x" "type_text L t \<in> set (map (type_text L) inner)"
    | "\<not> is_empty_collection x" "type_text L t \<notin> set (map (type_text L) inner)" by blast
  then show ?case
  proof cases
    case 1
    have e: "element_types (a # xs) = element_types xs" using 1 by (auto simp: element_types_def)
    have step: "fold (literals_step L) xs (inner, t) = (inner', none')"
      using Cons.prems(1) 1 by (simp add: literals_step_def)
    show ?thesis
      using Cons.IH [OF step Cons.prems(2)] 1 unfolding e
      by (auto simp: filter_empty_conv)
  next
    case 2
    have e: "element_types (a # xs) = insert t (element_types xs)" using 2 by (auto simp: element_types_def image_iff)
    have step: "fold (literals_step L) xs (inner, none) = (inner', none')"
      using Cons.prems(1) 2 by (auto simp add: literals_step_def)
    show ?thesis
      using Cons.IH [OF step Cons.prems(2)] 2 unfolding e by auto
  next
    case 3
    have e: "element_types (a # xs) = insert t (element_types xs)" using 3 by (auto simp: element_types_def image_iff)
    have step: "fold (literals_step L) xs (inner @ [t], none) = (inner', none')"
      using Cons.prems(1) 3 by (auto simp add: literals_step_def)
    show ?thesis
      using Cons.IH [OF step] Cons.prems(2) 3 unfolding e by auto
  qed
qed (auto simp: element_types_def)

text \<open>The text form tells the types of a set apart.\<close>

definition text_injective :: "('c, 's) typing_lib \<Rightarrow> lt_ptr set \<Rightarrow> bool" where
  "text_injective L T \<longleftrightarrow> inj_on (type_text L) T"

lemma literals_fold_inj:
  assumes "text_injective L (element_types xs)" "fold (literals_step L) xs ([], None) = (inner, none)"
  shows "distinct inner" "set inner = element_types xs"
proof -
  have "distinct (map (type_text L) inner) \<and> set inner \<subseteq> element_types xs \<and>
      type_text L ` set inner = type_text L ` element_types xs"
    using literals_fold [OF assms(2)] by simp
  then show "distinct inner" "set inner = element_types xs"
    using inj_on_image_eq_iff [OF assms(1) [unfolded text_injective_def]]
    by (auto simp: distinct_map)
qed

lemma sort_key_unique:
  assumes "inj_on f (set xs)" "distinct xs" "distinct ys" "set xs = set ys"
  shows "sort_key (f :: 'a \<Rightarrow> 'b :: linorder) xs = sort_key f ys"
proof (rule map_inj_on [of f])
  have "mset xs = mset ys" using assms by (simp add: set_eq_iff_mset_eq_distinct)
  then have "sort (map f xs) = sort (map f ys)"
    by (metis mset_map sorted_list_of_multiset_mset)
  moreover have "map f (sort_key f zs) = sort (map f zs)" for zs :: "'a list"
    by (rule properties_for_sort [symmetric]) simp_all
  ultimately show "map f (sort_key f xs) = map f (sort_key f ys)" by simp
qed (use assms in \<open>auto intro: inj_on_subset\<close>)

text \<open>The types the inference of a list of literals works on; every empty collection has one type.\<close>

abbreviation typed_literals :: "('c, 's) typing_lib \<Rightarrow> lit_ptr list \<Rightarrow> (lit_ptr \<times> lt_ptr) list" where
  "typed_literals L xs \<equiv> map (\<lambda>x. (x, LiteralTypeForLiteral L x)) xs"

definition empty_type :: lt_ptr where
  "empty_type = lt_of (LT_CollectionType (lt_of (LT_Simple NONE)))"

lemma type_of_empty_collection:
  "is_empty_collection x \<Longrightarrow> LiteralTypeForLiteral L x = empty_type"
  by (subst LiteralTypeForLiteral.simps)
    (simp add: is_empty_collection_def nil_list_def literals_type_def empty_type_def)

lemma none_type:
  assumes "fold (literals_step L) (typed_literals L xs) ([], None) = (inner, none)"
  shows "none = (if \<exists>x \<in> set xs. is_empty_collection x then empty_type else None)"
proof -
  have "snd (last (filter (\<lambda>p. is_empty_collection (fst p)) (typed_literals L xs))) = empty_type"
    if "\<exists>x \<in> set xs. is_empty_collection x"
  proof -
    have "filter (\<lambda>p. is_empty_collection (fst p)) (typed_literals L xs) \<noteq> []"
      using that by (auto simp: filter_empty_conv)
    then have "last (filter (\<lambda>p. is_empty_collection (fst p)) (typed_literals L xs)) \<in>
        set (filter (\<lambda>p. is_empty_collection (fst p)) (typed_literals L xs))"
      by (rule last_in_set)
    then show ?thesis using type_of_empty_collection by auto
  qed
  moreover have "none = (if \<exists>p \<in> set (typed_literals L xs). is_empty_collection (fst p)
      then snd (last (filter (\<lambda>p. is_empty_collection (fst p)) (typed_literals L xs))) else None)"
    using literals_fold [OF assms] by simp
  moreover have "(\<exists>p \<in> set (typed_literals L xs). is_empty_collection (fst p)) \<longleftrightarrow>
      (\<exists>x \<in> set xs. is_empty_collection x)" by auto
  ultimately show ?thesis by (metis (no_types, lifting))
qed

text \<open>The types the elements contribute: those of the elements that are not empty collections.\<close>

definition member_types :: "('c, 's) typing_lib \<Rightarrow> lit_ptr list \<Rightarrow> lt_ptr set" where
  "member_types L xs = LiteralTypeForLiteral L ` {x \<in> set xs. \<not> is_empty_collection x}"

lemma element_types_typed: "element_types (typed_literals L xs) = member_types L xs"
  by (auto simp: element_types_def member_types_def image_iff)

lemma literalTypeForLiterals_cases:
  assumes "text_injective L (member_types L xs)"
  obtains inner where "distinct inner" "set inner = member_types L xs"
    "literalTypeForLiterals L xs =
       (case inner of
          [] \<Rightarrow> if \<exists>x \<in> set xs. is_empty_collection x then empty_type else lt_of (LT_Simple NONE)
        | [t] \<Rightarrow> t
        | _ \<Rightarrow> buildMultipleTypeUnion (sort_key (type_text L) inner))"
proof -
  obtain inner none where f: "fold (literals_step L) (typed_literals L xs) ([], None) = (inner, none)"
    by fastforce
  have "empty_type \<noteq> None" by (simp add: empty_type_def)
  then have "literalTypeForLiterals L xs =
       (case inner of
          [] \<Rightarrow> if \<exists>x \<in> set xs. is_empty_collection x then empty_type else lt_of (LT_Simple NONE)
        | [t] \<Rightarrow> t
        | _ \<Rightarrow> buildMultipleTypeUnion (sort_key (type_text L) inner))"
    using none_type [OF f]
    by (simp add: literalTypeForLiterals_def literals_type_def f split: list.split)
  moreover have "distinct inner" "set inner = member_types L xs"
    using literals_fold_inj [OF _ f] assms unfolding element_types_typed by blast+
  ultimately show ?thesis using that by blast
qed

lemma literalTypeForLiterals_set:
  assumes inj: "text_injective L (member_types L xs)" and "set xs = set ys"
  shows "literalTypeForLiterals L xs = literalTypeForLiterals L ys"
proof -
  obtain i where i: "distinct i" "set i = member_types L xs" "literalTypeForLiterals L xs =
       (case i of
          [] \<Rightarrow> if \<exists>x \<in> set xs. is_empty_collection x then empty_type else lt_of (LT_Simple NONE)
        | [t] \<Rightarrow> t
        | _ \<Rightarrow> buildMultipleTypeUnion (sort_key (type_text L) i))"
    by (rule literalTypeForLiterals_cases [OF inj])
  have same: "member_types L ys = member_types L xs" using assms(2) by (simp add: member_types_def)
  have inj': "text_injective L (member_types L ys)" using inj same by simp
  obtain j where j: "distinct j" "set j = member_types L ys" "literalTypeForLiterals L ys =
       (case j of
          [] \<Rightarrow> if \<exists>x \<in> set ys. is_empty_collection x then empty_type else lt_of (LT_Simple NONE)
        | [t] \<Rightarrow> t
        | _ \<Rightarrow> buildMultipleTypeUnion (sort_key (type_text L) j))"
    by (rule literalTypeForLiterals_cases [OF inj'])
  have eq: "set i = set j" using i(2) j(2) same by simp
  then have len: "length i = length j" using i(1) j(1) by (metis distinct_card)
  have srt: "sort_key (type_text L) i = sort_key (type_text L) j"
    using sort_key_unique [OF _ i(1) j(1) eq] inj i(2) by (simp add: text_injective_def)
  consider "i = []" "j = []" | t where "i = [t]" "j = [t]"
    | a b as c d bs where "i = a # b # as" "j = c # d # bs"
    using len eq by (cases i; cases j; cases "tl i"; cases "tl j") auto
  then show ?thesis by cases (use srt i(3) j(3) assms(2) in simp_all)
qed

text \<open>
  The inferred type of a map literal does not depend on the order in which Go happens to iterate the
  map: two lists of the same entries give the same type. The hypothesis on the text form, by which the code
  compares and sorts types, is that it tells different types apart.
\<close>

lemma map_inference_deterministic:
  assumes "text_injective L (member_types L (map snd m))" "set m = set m'"
  shows "LiteralTypeForLiteral L (Some (Literal (Some (Literal_Map m)))) =
         LiteralTypeForLiteral L (Some (Literal (Some (Literal_Map m'))))"
proof -
  have "literalTypeForLiterals L (map snd m) = literalTypeForLiterals L (map snd m')"
    using assms by (intro literalTypeForLiterals_set) auto
  then show ?thesis
    by (simp add: LiteralTypeForLiteral.simps [of L "Some _"] lit_GetValue_def literalTypeForLiterals_def)
qed


lemma ValidateLiteralType_non_nil: "t \<noteq> None \<Longrightarrow> ValidateLiteralType t = None"
  by (induction t rule: ValidateLiteralType.induct)
    (subst ValidateLiteralType.simps, use not_None_eq in \<open>auto split: if_splits\<close>)

text \<open>
  \<open>ValidateLiteralType\<close> rejects a nil type and nothing else: its recursion into element
  types only enters those that are not nil, so a collection or map whose element type is unknown,
  which is what inference gives for a literal with an unknown element, is accepted.
\<close>

lemma validate_literal_type_iff:
  "ValidateLiteralType t \<noteq> None \<longleftrightarrow> t = None"
proof (cases t)
  case None
  then show ?thesis by (simp add: ValidateLiteralType.simps [of None])
next
  case (Some x)
  then show ?thesis using ValidateLiteralType_non_nil [of t] by simp
qed

subsection \<open>Witnesses\<close>

text \<open>A map and a list with an integer and a string.\<close>

definition int_lit :: "int \<Rightarrow> lit_ptr" where
  "int_lit n = Some (Literal (Some (Literal_Scalar (Some (Scalar (Some (Scalar_Primitive
     (Some (Some (Primitive_Integer n))))))))))"

definition str_lit :: "string \<Rightarrow> lit_ptr" where
  "str_lit s = Some (Literal (Some (Literal_Scalar (Some (Scalar (Some (Scalar_Primitive
     (Some (Some (Primitive_StringValue s))))))))))"

lemma sample_literal_types:
  "LiteralTypeForLiteral L (int_lit n) = Some int_type"
  "LiteralTypeForLiteral L (str_lit s) = Some string_type"
  by (subst LiteralTypeForLiteral.simps, simp add: int_lit_def str_lit_def lit_GetValue_def literalTypeForScalar_def literalTypeForPrimitive_def sample_types)+

lemma sample_members:
  "member_types L [int_lit 1, str_lit ''a'', int_lit 2] = {Some int_type, Some string_type}"
proof -
  have "{x \<in> set [int_lit 1, str_lit ''a'', int_lit 2]. \<not> is_empty_collection x} =
      {int_lit 1, str_lit ''a'', int_lit 2}"
    by (auto simp: is_empty_collection_def lit_GetValue_def int_lit_def str_lit_def)
  then show ?thesis by (simp add: member_types_def sample_literal_types insert_commute)
qed

lemma sample_injective: "text_injective sample_lib {Some int_type, Some string_type}"
  by (simp add: text_injective_def type_text_def sample_lib_def sample_types)



end
