(* ===== verification/Var_Names.thy ===== *)
theory Var_Names
  imports Flyte_Prelude
begin

section \<open>Names of bound variables (compiler/typing/variable.go, controller/nodes/var_name_parser.go)\<close>

text \<open>
  A promise names an output \<open>x\<close> or an element \<open>[3].x\<close> of a list output. The code
  finds all matches of \<open>(\[(\d+)\]\.)?(\w+)\<close> and insists on exactly one. The matcher below is
  that expression: at each position the optional index group is tried first, then the name alone; a match
  consumes the longest run of word characters, and a position with no match is skipped.
  A match is the pair of its two named groups. Word characters and digits are the ASCII ones.
\<close>

definition is_digit :: "char \<Rightarrow> bool" where
  "is_digit c = (48 \<le> (of_char c :: nat) \<and> (of_char c :: nat) \<le> 57)"

definition is_word :: "char \<Rightarrow> bool" where
  "is_word c =
     (let n = (of_char c :: nat)
      in is_digit c \<or> (65 \<le> n \<and> n \<le> 90) \<or> (97 \<le> n \<and> n \<le> 122) \<or> n = 95)"

text \<open>The index group \<open>[digits].\<close> at the head of a string: its digits and what follows.\<close>

definition match_index :: "string \<Rightarrow> (string \<times> string) option" where
  "match_index s =
     (case s of
        [] \<Rightarrow> None
      | c # cs \<Rightarrow>
          if c = CHR ''['' \<and> takeWhile is_digit cs \<noteq> [] \<and>
             take 2 (dropWhile is_digit cs) = ''].''
          then Some (takeWhile is_digit cs, drop 2 (dropWhile is_digit cs))
          else None)"

definition match_here :: "string \<Rightarrow> ((string \<times> string) \<times> string) option" where
  "match_here s =
     (case match_index s of
        Some (idx, rest) \<Rightarrow>
          if takeWhile is_word rest \<noteq> []
          then Some ((idx, takeWhile is_word rest), dropWhile is_word rest)
          else None
      | None \<Rightarrow>
          if takeWhile is_word s \<noteq> [] then Some (([], takeWhile is_word s), dropWhile is_word s)
          else None)"

lemma match_index_shorter: "match_index s = Some (i, r) \<Longrightarrow> length r < length s"
  using length_dropWhile_le [of is_digit "tl s"]
  by (auto simp: match_index_def split: list.splits if_splits)

lemma match_here_shorter: "match_here s = Some (m, r) \<Longrightarrow> length r < length s"
proof (cases "match_index s")
  case None
  assume m: "match_here s = Some (m, r)"
  with None have w: "takeWhile is_word s \<noteq> []" "r = dropWhile is_word s"
    by (auto simp: match_here_def split: if_splits)
  have "length (takeWhile is_word s @ dropWhile is_word s) = length s"
    by (simp only: takeWhile_dropWhile_id)
  with w show ?thesis by (cases "takeWhile is_word s") auto
next
  case (Some p)
  assume "match_here s = Some (m, r)"
  with Some show ?thesis
    using match_index_shorter [of s "fst p" "snd p"] length_dropWhile_le [of is_word "snd p"]
    by (cases p) (auto simp: match_here_def split: if_splits)
qed

function FindAllStringSubmatch :: "string \<Rightarrow> (string \<times> string) list" where
  "FindAllStringSubmatch s =
     (case match_here s of
        Some (m, rest) \<Rightarrow> m # FindAllStringSubmatch rest
      | None \<Rightarrow> (case s of [] \<Rightarrow> [] | _ # cs \<Rightarrow> FindAllStringSubmatch cs))"
  by pat_completeness auto
termination
  by (relation "measure length") (auto dest: match_here_shorter)

declare FindAllStringSubmatch.simps [simp del]

text \<open>\<open>strconv.Atoi\<close> on digits: the value, or an error (with the largest int) beyond 63 bits.\<close>

definition atoi_value :: "string \<Rightarrow> nat" where
  "atoi_value ds = foldl (\<lambda>n d. 10 * n + (of_char d - 48)) 0 ds"

definition Atoi :: "string \<Rightarrow> nat \<times> string option" where
  "Atoi ds =
     (if atoi_value ds < 2 ^ 63 then (atoi_value ds, None) else (2 ^ 63 - 1, Some ''value out of range''))"

record Variable =
  var_Name :: string
  var_Index :: "nat option"

definition ParseVarName :: "string \<Rightarrow> string + Variable" where
  "ParseVarName varName =
     (case FindAllStringSubmatch varName of
        [(idx, name)] \<Rightarrow>
          if idx \<noteq> [] then
            (case Atoi idx of
               (index, None) \<Rightarrow> Inr \<lparr>var_Name = name, var_Index = Some index\<rparr>
             | (_, Some err) \<Rightarrow> Inl err)
          else Inr \<lparr>var_Name = name, var_Index = None\<rparr>
      | allMatches \<Rightarrow> Inl (''unexpected number of matches ['' @ itoa (length allMatches) @ '']''))"

text \<open>The executor's copy of the parser returns the same parts as a triple.\<close>

definition nodes_ParseVarName :: "string \<Rightarrow> string + (nat option \<times> string)" where
  "nodes_ParseVarName varName =
     (case FindAllStringSubmatch varName of
        [(idx, name)] \<Rightarrow>
          if idx \<noteq> [] then
            (case Atoi idx of (index, None) \<Rightarrow> Inr (Some index, name) | (_, Some err) \<Rightarrow> Inl err)
          else Inr (None, name)
      | allMatches \<Rightarrow> Inl (''unexpected number of matches ['' @ itoa (length allMatches) @ '']''))"

subsection \<open>Decimal text\<close>

lemma digit_char_code: "d < 10 \<Longrightarrow> (of_char (digit_char d) :: nat) = 48 + d"
  by (simp add: digit_char_def)

lemma itoa_digits: "list_all is_digit (itoa n) \<and> itoa n \<noteq> []"
proof (induction n rule: itoa.induct)
  case (1 n)
  have "is_digit (digit_char d)" if "d < 10" for d
    using digit_char_code [OF that] that by (simp add: is_digit_def)
  with 1 show ?case by (subst (1 2) itoa.simps) auto
qed

lemma atoi_append: "atoi_value (ds @ [d]) = 10 * atoi_value ds + (of_char d - 48)"
  by (simp add: atoi_value_def)

lemma atoi_itoa: "atoi_value (itoa n) = n"
proof (induction n rule: itoa.induct)
  case (1 n)
  show ?case
  proof (cases "n < 10")
    case True
    then show ?thesis
      by (subst itoa.simps) (simp add: atoi_value_def digit_char_code)
  next
    case False
    with 1 show ?thesis
      by (subst itoa.simps) (simp add: atoi_append digit_char_code)
  qed
qed

lemma itoa_inj: "inj itoa"
  by (metis atoi_itoa injI)

lemmas itoa_eq_iff [simp] = inj_eq [OF itoa_inj]

subsection \<open>Printing and parsing\<close>

definition print_var :: "Variable \<Rightarrow> string" where
  "print_var v =
     (case var_Index v of None \<Rightarrow> var_Name v | Some i \<Rightarrow> ''['' @ itoa i @ ''].'' @ var_Name v)"

definition is_name :: "string \<Rightarrow> bool" where
  "is_name s = (s \<noteq> [] \<and> list_all is_word s)"

lemma name_runs:
  "list_all P s \<Longrightarrow> takeWhile P s = s" "list_all P s \<Longrightarrow> dropWhile P s = []"
  by (induction s) auto

lemma digit_run:
  "list_all P ds \<Longrightarrow> \<not> P c \<Longrightarrow> takeWhile P (ds @ c # r) = ds"
  "list_all P ds \<Longrightarrow> \<not> P c \<Longrightarrow> dropWhile P (ds @ c # r) = c # r"
  by (induction ds) auto

lemma match_index_word: "s \<noteq> [] \<Longrightarrow> is_word (hd s) \<Longrightarrow> match_index s = None"
  by (cases s) (auto simp: match_index_def is_word_def is_digit_def)

lemma FindAll_Nil [simp]: "FindAllStringSubmatch [] = []"
  by (subst FindAllStringSubmatch.simps) (simp add: match_here_def match_index_def)

lemma FindAll_name: "is_name s \<Longrightarrow> FindAllStringSubmatch s = [([], s)]"
  by (subst FindAllStringSubmatch.simps, cases s)
    (simp_all add: is_name_def match_here_def match_index_word name_runs)

lemma match_index_print:
  "match_index (''['' @ itoa i @ ''].'' @ name) = Some (itoa i, name)"
proof -
  have "\<not> is_digit (CHR '']'')" by (simp add: is_digit_def)
  with itoa_digits [of i] show ?thesis
    by (auto simp: match_index_def digit_run)
qed

lemma FindAll_indexed:
  "is_name name \<Longrightarrow> FindAllStringSubmatch (''['' @ itoa i @ ''].'' @ name) = [(itoa i, name)]"
  by (subst FindAllStringSubmatch.simps, subst match_here_def, subst match_index_print)
    (simp add: is_name_def name_runs)

text \<open>
  Property C26. Parsing a printed variable gives it back, for every name of word characters and every index
  that fits a Go int; the compiler's and the executor's parser agree on every string.
\<close>

theorem var_name_roundtrip:
  assumes "is_name (var_Name v)" "\<forall>i. var_Index v = Some i \<longrightarrow> i < 2 ^ 63"
  shows "ParseVarName (print_var v) = Inr v \<and>
    (\<forall>s. nodes_ParseVarName s = map_sum id (\<lambda>p. (var_Index p, var_Name p)) (ParseVarName s))"
proof
  show "ParseVarName (print_var v) = Inr v"
    using assms itoa_digits
    by (cases "var_Index v")
      (auto simp: print_var_def ParseVarName_def FindAll_name FindAll_indexed [simplified] Atoi_def atoi_itoa)
  show "\<forall>s. nodes_ParseVarName s = map_sum id (\<lambda>p. (var_Index p, var_Name p)) (ParseVarName s)"
    by (auto simp: nodes_ParseVarName_def ParseVarName_def split: list.split option.split prod.split)
qed

theorem var_name_roundtrip_witness:
  "ParseVarName ''[12].x_1'' = Inr \<lparr>var_Name = ''x_1'', var_Index = Some 12\<rparr>"
proof -
  have "is_name ''x_1''" by (simp add: is_name_def is_word_def is_digit_def)
  moreover have "itoa 12 = ''12''" by (simp add: itoa.simps digit_char_def) (simp add: char_of_def bit_simps numeral_2_eq_2)
  ultimately show ?thesis
    using var_name_roundtrip [of "\<lparr>var_Name = ''x_1'', var_Index = Some 12\<rparr>"]
    by (simp add: print_var_def)
qed

end
