(* ===== verification/Cycle_Detection.thy ===== *)
theory Cycle_Detection
  imports Flyte_Prelude
begin

section \<open>Cycle detection (flytepropeller/pkg/compiler/utils.go)\<close>

text \<open>
  The depth-first traversal that the workflow compiler runs from the start node. The closure
  \<open>detector\<close> shares two sets with its caller, the nodes ever visited and the nodes in
  progress; both are threaded through the model. Go iterates over a set of neighbours in any
  order: \<open>neighbors\<close> gives them as a list, and every theorem holds for every order. The recursion of
  the closure is bounded by fuel, \<open>None\<close> when it runs out; the theorems show that one unit more
  than the number of reachable nodes is enough, so the code terminates on every finite graph.
\<close>

type_synonym 'n dfs_state = "'n set \<times> 'n set"  \<comment> \<open>visiting, visited\<close>

fun detector :: "nat \<Rightarrow> ('n \<Rightarrow> 'n list) \<Rightarrow> 'n \<Rightarrow> 'n dfs_state \<Rightarrow> (('n list \<times> bool) \<times> 'n dfs_state) option"
and detector_loop :: "nat \<Rightarrow> ('n \<Rightarrow> 'n list) \<Rightarrow> 'n list \<Rightarrow> 'n dfs_state \<Rightarrow> (('n list \<times> bool) \<times> 'n dfs_state) option"
where
  "detector 0 neighbors nodeId st = None"
| "detector (Suc fuel) neighbors nodeId (visiting, visited) =
     (if nodeId \<in> visiting then Some (([], True), (visiting, visited))
      else
        (case detector_loop fuel neighbors (neighbors nodeId) (insert nodeId visiting, insert nodeId visited) of
           None \<Rightarrow> None
         | Some ((path, detected), (visiting', visited')) \<Rightarrow>
             if detected then Some ((path, True), (visiting', visited'))
             else Some (([], False), (visiting' - {nodeId}, visited'))))"
| "detector_loop fuel neighbors [] st = Some (([], False), st)"
| "detector_loop fuel neighbors (nextID # ns) st =
     (case detector fuel neighbors nextID st of
        None \<Rightarrow> None
      | Some ((path, detected), st') \<Rightarrow>
          if detected then Some ((nextID # path, True), st')
          else detector_loop fuel neighbors ns st')"

definition detectCycle :: "nat \<Rightarrow> 'n \<Rightarrow> ('n \<Rightarrow> 'n list) \<Rightarrow> ('n list \<times> 'n set \<times> bool) option" where
  "detectCycle fuel startNode neighbors =
     (case detector fuel neighbors startNode ({}, {}) of
        None \<Rightarrow> None
      | Some ((path, detected), (visiting, visited)) \<Rightarrow>
          if detected then Some (startNode # path, visiting, True) else Some ([], visited, False))"

subsection \<open>The graph of a neighbour function\<close>

definition edges :: "('n \<Rightarrow> 'n list) \<Rightarrow> ('n \<times> 'n) set" where
  "edges neighbors = {(u, v). v \<in> set (neighbors u)}"

definition reachable :: "('n \<Rightarrow> 'n list) \<Rightarrow> 'n \<Rightarrow> 'n set" where
  "reachable neighbors s = {v. (s, v) \<in> (edges neighbors)\<^sup>*}"

abbreviation walk :: "('n \<Rightarrow> 'n list) \<Rightarrow> 'n list \<Rightarrow> bool" where
  "walk neighbors p \<equiv> successively (\<lambda>u v. v \<in> set (neighbors u)) p"

lemma edgesI [intro]: "v \<in> set (nb u) \<Longrightarrow> (u, v) \<in> edges nb"
  by (simp add: edges_def)

lemma reachable_self [simp]: "s \<in> reachable nb s"
  by (simp add: reachable_def)

lemma reachable_step: "m \<in> set (nb n) \<Longrightarrow> reachable nb m \<subseteq> reachable nb n"
  unfolding reachable_def by (auto intro: converse_rtrancl_into_rtrancl)

lemma reachable_unfold: "reachable nb n = insert n (\<Union>m \<in> set (nb n). reachable nb m)"
proof
  show "reachable nb n \<subseteq> insert n (\<Union>m \<in> set (nb n). reachable nb m)"
    unfolding reachable_def edges_def by (auto elim: converse_rtranclE)
  show "insert n (\<Union>m \<in> set (nb n). reachable nb m) \<subseteq> reachable nb n"
    using reachable_step by fastforce
qed

lemma walk_reachable: "walk nb (n # p) \<Longrightarrow> set p \<subseteq> reachable nb n"
proof (induction p arbitrary: n)
  case (Cons m p)
  then have "m \<in> set (nb n)" "set p \<subseteq> reachable nb m" by auto
  then show ?case using reachable_step [of m nb n] by auto
qed simp

lemma walk_trancl:
  assumes "walk nb p" "i < j" "j < length p"
  shows "(p ! i, p ! j) \<in> (edges nb)\<^sup>+"
  using assms(2,3)
proof (induction j)
  case (Suc j)
  have step: "(p ! j, p ! Suc j) \<in> edges nb"
    using assms(1) Suc.prems(2) by (auto simp: successively_conv_nth)
  show ?case
  proof (cases "i = j")
    case True
    with step show ?thesis by blast
  next
    case False
    with Suc have "(p ! i, p ! j) \<in> (edges nb)\<^sup>+" by simp
    then show ?thesis using step by (rule trancl_into_trancl)
  qed
qed simp

lemma closed_walk_cycle:
  assumes "walk nb (s # p)" "p \<noteq> []" "last p \<in> set (butlast (s # p))"
  shows "\<exists>v \<in> reachable nb s. (v, v) \<in> (edges nb)\<^sup>+"
proof -
  obtain i where i: "i < length p" "(s # p) ! i = last p"
    using assms(2,3) by (auto simp: in_set_conv_nth nth_butlast simp del: butlast.simps)
  have "((s # p) ! i, (s # p) ! length p) \<in> (edges nb)\<^sup>+"
    using walk_trancl [OF assms(1), of i "length p"] i(1) by simp
  moreover have "(s # p) ! length p = last p"
    using assms(2) by (simp add: last_conv_nth nth_Cons split: nat.split) 
  moreover have "last p \<in> reachable nb s" using walk_reachable [OF assms(1)] assms(2) by auto
  ultimately show ?thesis using i(2) by auto
qed

subsection \<open>What the traversal computes\<close>

text \<open>
  The outcome of one call: without a cycle the node's subgraph is disjoint from the nodes in
  progress, has no cycle and is added to the visited nodes, and the nodes in progress are
  restored; with a cycle the path leads from the node back to a node in progress or on the path.
\<close>

definition acyclic_from :: "('n \<Rightarrow> 'n list) \<Rightarrow> 'n \<Rightarrow> 'n set \<Rightarrow> bool" where
  "acyclic_from nb n V \<longleftrightarrow>
     reachable nb n \<inter> V = {} \<and> (\<forall>v \<in> reachable nb n. (v, v) \<notin> (edges nb)\<^sup>+)"

definition cyclic_path :: "('n \<Rightarrow> 'n list) \<Rightarrow> 'n \<Rightarrow> 'n list \<Rightarrow> 'n set \<Rightarrow> bool" where
  "cyclic_path nb n p V \<longleftrightarrow>
     walk nb (n # p) \<and> last (n # p) \<in> V \<union> set (butlast (n # p))"

definition detector_post ::
    "('n \<Rightarrow> 'n list) \<Rightarrow> 'n \<Rightarrow> 'n set \<Rightarrow> 'n set \<Rightarrow> ('n list \<times> bool) \<times> 'n dfs_state \<Rightarrow> bool" where
  "detector_post nb n V W = (\<lambda>((p, detected), (V', W')).
     if detected then cyclic_path nb n p V \<and> V' = V \<union> set (n # p)
     else acyclic_from nb n V \<and> p = [] \<and> V' = V \<and> W' = W \<union> reachable nb n)"

lemma acyclic_from_children:
  assumes "n \<notin> V" "\<forall>m \<in> set (nb n). acyclic_from nb m (insert n V)"
  shows "acyclic_from nb n V"
  unfolding acyclic_from_def
proof
  have disj: "reachable nb m \<inter> V = {}" "\<forall>v \<in> reachable nb m. (v, v) \<notin> (edges nb)\<^sup>+"
    if "m \<in> set (nb n)" for m using assms(2) that unfolding acyclic_from_def by blast+
  then show "reachable nb n \<inter> V = {}"
    unfolding reachable_unfold [of nb n] using assms(1) by blast
  have "(n, n) \<notin> (edges nb)\<^sup>+"
  proof
    assume "(n, n) \<in> (edges nb)\<^sup>+"
    then obtain m where "(n, m) \<in> edges nb" "(m, n) \<in> (edges nb)\<^sup>*"
      by (meson tranclD)
    then have "m \<in> set (nb n)" "n \<in> reachable nb m" by (auto simp: edges_def reachable_def)
    with assms(2) show False unfolding acyclic_from_def by blast
  qed
  then show "\<forall>v \<in> reachable nb n. (v, v) \<notin> (edges nb)\<^sup>+"
    unfolding reachable_unfold [of nb n] using disj(2) by blast
qed

lemma cyclic_path_Cons:
  assumes "m \<in> set (nb n)" "cyclic_path nb m p (insert n V)"
  shows "cyclic_path nb n (m # p) V"
  using assms unfolding cyclic_path_def by auto

lemma detector_loop_spec:
  assumes IH: "\<And>m W. m \<in> set ns \<Longrightarrow> \<exists>r. detector fuel nb m (V, W) = Some r \<and> detector_post nb m V W r"
  shows "\<exists>path detected V' W'. detector_loop fuel nb ns (V, W) = Some ((path, detected), (V', W')) \<and>
     (if detected then \<exists>m p. m \<in> set ns \<and> path = m # p \<and> cyclic_path nb m p V \<and> V' = V \<union> set path
      else (\<forall>m \<in> set ns. acyclic_from nb m V) \<and> path = [] \<and> V' = V \<and>
           W' = W \<union> (\<Union>m \<in> set ns. reachable nb m))"
    (is "\<exists>path detected V' W'. _ \<and> ?post ns W path detected V' W'")
  using IH
proof (induction ns arbitrary: W)
  case (Cons m ns)
  obtain p d V1 W1 where r: "detector fuel nb m (V, W) = Some ((p, d), (V1, W1))"
    "detector_post nb m V W ((p, d), (V1, W1))"
    using Cons.prems [of m W] by auto
  show ?case
  proof (cases d)
    case True
    with r show ?thesis by (auto simp: detector_post_def)
  next
    case False
    with r have post: "acyclic_from nb m V" "V1 = V" "W1 = W \<union> reachable nb m"
      by (auto simp: detector_post_def)
    obtain path detected V' W' where rest:
      "detector_loop fuel nb ns (V, W1) = Some ((path, detected), (V', W'))"
      "if detected then \<exists>m p. m \<in> set ns \<and> path = m # p \<and> cyclic_path nb m p V \<and> V' = V \<union> set path
       else (\<forall>m \<in> set ns. acyclic_from nb m V) \<and> path = [] \<and> V' = V \<and>
           W' = W1 \<union> (\<Union>m \<in> set ns. reachable nb m)"
      using Cons.IH [of W1] Cons.prems by (metis list.set_intros(2))
    with False r(1) post show ?thesis
      by (cases detected) (auto simp: Un_assoc)
  qed
qed auto

lemma detector_spec:
  assumes fin: "finite R" and closed: "\<forall>u \<in> R. set (nb u) \<subseteq> R"
  shows "n \<in> R \<Longrightarrow> card (R - V) < fuel \<Longrightarrow>
    \<exists>r. detector fuel nb n (V, W) = Some r \<and> detector_post nb n V W r"
proof (induction fuel arbitrary: n V W)
  case (Suc fuel)
  show ?case
  proof (cases "n \<in> V")
    case True
    then show ?thesis by (auto simp: detector_post_def cyclic_path_def)
  next
    case False
    have less: "card (R - insert n V) < card (R - V)"
      using False Suc.prems(1) fin by (intro psubset_card_mono) auto
    have IH: "\<exists>r. detector fuel nb m (insert n V, W') = Some r \<and> detector_post nb m (insert n V) W' r"
      if "m \<in> set (nb n)" for m W'
      by (rule Suc.IH) (use less Suc.prems closed that in \<open>auto simp del: Diff_insert\<close>)
    obtain path detected V' W' where l:
      "detector_loop fuel nb (nb n) (insert n V, insert n W) = Some ((path, detected), (V', W'))"
      "if detected then \<exists>m p. m \<in> set (nb n) \<and> path = m # p \<and> cyclic_path nb m p (insert n V) \<and>
          V' = insert n V \<union> set path
       else (\<forall>m \<in> set (nb n). acyclic_from nb m (insert n V)) \<and> path = [] \<and> V' = insert n V \<and>
          W' = insert n W \<union> (\<Union>m \<in> set (nb n). reachable nb m)"
      using detector_loop_spec [of "nb n" fuel nb "insert n V" "insert n W"] IH by blast
    show ?thesis
    proof (cases detected)
      case True
      with l have "cyclic_path nb n path V" "V' = V \<union> set (n # path)"
        by (auto intro: cyclic_path_Cons)
      with True False l(1) show ?thesis by (simp add: detector_post_def)
    next
      case noCycle: False
      with l(2) have "\<forall>m \<in> set (nb n). acyclic_from nb m (insert n V)" by simp
      then have "acyclic_from nb n V" by (rule acyclic_from_children [OF False])
      with noCycle False l reachable_unfold [of nb n] show ?thesis
        by (auto simp: detector_post_def)
    qed
  qed
qed simp

lemma detector_start:
  assumes "finite (reachable nb s)" "card (reachable nb s) < fuel"
  shows "\<exists>r. detector fuel nb s ({}, {}) = Some r \<and> detector_post nb s {} {} r"
proof (rule detector_spec [OF assms(1)])
  show "\<forall>u \<in> reachable nb s. set (nb u) \<subseteq> reachable nb s"
    unfolding reachable_def by (auto intro: rtrancl_into_rtrancl)
qed (use assms in simp_all)

lemma detectCycle_correct':
  assumes "finite (reachable neighbors startNode)" "card (reachable neighbors startNode) < fuel"
  shows "\<exists>cycle visited detected. detectCycle fuel startNode neighbors = Some (cycle, visited, detected) \<and>
    detected = (\<exists>v \<in> reachable neighbors startNode. (v, v) \<in> (edges neighbors)\<^sup>+) \<and>
    (if detected
     then hd cycle = startNode \<and> walk neighbors cycle \<and> last cycle \<in> set (butlast cycle) \<and> visited = set cycle
     else cycle = [] \<and> visited = reachable neighbors startNode)"
proof -
  obtain p d V W where r: "detector fuel neighbors startNode ({}, {}) = Some ((p, d), (V, W))"
    "detector_post neighbors startNode {} {} ((p, d), (V, W))"
    using detector_start [OF assms] by auto
  show ?thesis
  proof (cases d)
    case True
    with r(2) have c: "cyclic_path neighbors startNode p {}" "V = set (startNode # p)"
      by (simp_all add: detector_post_def)
    then have p: "p \<noteq> []" "walk neighbors (startNode # p)" "last p \<in> set (butlast (startNode # p))"
      by (auto simp: cyclic_path_def split: if_splits)
    then show ?thesis
      using True r(1) c closed_walk_cycle [OF p(2,1,3)]
      by (intro exI [of _ "startNode # p"] exI [of _ V] exI [of _ True]) (simp add: detectCycle_def)
  next
    case False
    with r show ?thesis
      by (intro exI [of _ "[]"] exI [of _ W] exI [of _ False])
        (simp add: detector_post_def acyclic_from_def detectCycle_def)
  qed
qed


text \<open>A diamond.\<close>

definition sample_graph :: "nat \<Rightarrow> nat list" where
  "sample_graph n = (if n = 0 then [1, 2] else if n = 1 \<or> n = 2 then [3] else [])"

lemma sample_reachable: "reachable sample_graph 0 = {0, 1, 2, 3}"
proof -
  have 3: "reachable sample_graph 3 = {3}" by (subst reachable_unfold) (simp add: sample_graph_def)
  have 1: "reachable sample_graph 1 = {1, 3}" by (subst reachable_unfold) (simp add: sample_graph_def 3)
  have 2: "reachable sample_graph 2 = {2, 3}" by (subst reachable_unfold) (simp add: sample_graph_def 3)
  show ?thesis by (subst reachable_unfold) (auto simp add: sample_graph_def 1 2 simp del: One_nat_def)
qed


end
