(* ===== verification/Compile_Errors.thy ===== *)
theory Compile_Errors
  imports Flyte_Prelude
begin

section \<open>Compile errors (flytepropeller/pkg/compiler/errors)\<close>

text \<open>
  The errors the compiler reports, their constructors with the texts they produce, and the tree of scopes that
  collects them. The package configuration is the default one (\<open>PanicOnError\<close> and
  \<open>IncludeSource\<close> off), so the source of an error is empty and collecting never panics.

  A scope is a pointer with a fixed parent. It is modelled by its path in the tree: \<open>[]\<close> is the root
  that \<open>NewCompileErrors\<close> returns and \<open>k # p\<close> the k-th scope that \<open>NewScope\<close>
  made below \<open>p\<close>. The error set, which only the root owns, and the counter of every scope
  form the store \<open>error_store\<close>.
\<close>

type_synonym ErrorCode = string

record CompileError =
  ce_code :: ErrorCode
  ce_nodeID :: string
  ce_description :: string
  ce_source :: string

subsection \<open>Codes and constructors\<close>

abbreviation CycleDetected :: ErrorCode where
  "CycleDetected \<equiv> ''CycleDetected''"
abbreviation BranchNodeIDNotFound :: ErrorCode where
  "BranchNodeIDNotFound \<equiv> ''BranchNodeIdNotFound''"
abbreviation BranchNodeHasNoCondition :: ErrorCode where
  "BranchNodeHasNoCondition \<equiv> ''BranchNodeHasNoCondition''"
abbreviation BranchNodeHasNoDefault :: ErrorCode where
  "BranchNodeHasNoDefault \<equiv> ''BranchNodeHasNoDefault''"
abbreviation ValueRequired :: ErrorCode where
  "ValueRequired \<equiv> ''ValueRequired''"
abbreviation InvalidValue :: ErrorCode where
  "InvalidValue \<equiv> ''InvalidValue''"
abbreviation NodeReferenceNotFound :: ErrorCode where
  "NodeReferenceNotFound \<equiv> ''NodeReferenceNotFound''"
abbreviation TaskReferenceNotFound :: ErrorCode where
  "TaskReferenceNotFound \<equiv> ''TaskReferenceNotFound''"
abbreviation WorkflowReferenceNotFound :: ErrorCode where
  "WorkflowReferenceNotFound \<equiv> ''WorkflowReferenceNotFound''"
abbreviation VariableNameNotFound :: ErrorCode where
  "VariableNameNotFound \<equiv> ''VariableNameNotFound''"
abbreviation DuplicateAlias :: ErrorCode where
  "DuplicateAlias \<equiv> ''DuplicateAlias''"
abbreviation DuplicateNodeID :: ErrorCode where
  "DuplicateNodeID \<equiv> ''DuplicateId''"
abbreviation MismatchingTypes :: ErrorCode where
  "MismatchingTypes \<equiv> ''MismatchingTypes''"
abbreviation MismatchingBindings :: ErrorCode where
  "MismatchingBindings \<equiv> ''MismatchingBindings''"
abbreviation MismatchingInterfaces :: ErrorCode where
  "MismatchingInterfaces \<equiv> ''MismatchingInterfaces''"
abbreviation InconsistentTypes :: ErrorCode where
  "InconsistentTypes \<equiv> ''InconsistentTypes''"
abbreviation ParameterBoundMoreThanOnce :: ErrorCode where
  "ParameterBoundMoreThanOnce \<equiv> ''ParameterBoundMoreThanOnce''"
abbreviation ParameterNotBound :: ErrorCode where
  "ParameterNotBound \<equiv> ''ParameterNotBound''"
abbreviation NoEntryNodeFound :: ErrorCode where
  "NoEntryNodeFound \<equiv> ''NoEntryNodeFound''"
abbreviation UnreachableNodes :: ErrorCode where
  "UnreachableNodes \<equiv> ''UnreachableNodes''"
abbreviation UnrecognizedValue :: ErrorCode where
  "UnrecognizedValue \<equiv> ''UnrecognizedValue''"
abbreviation WorkflowBuildError :: ErrorCode where
  "WorkflowBuildError \<equiv> ''WorkflowBuildError''"
abbreviation ValueCollision :: ErrorCode where
  "ValueCollision \<equiv> ''ValueCollision''"
abbreviation SyntaxError :: ErrorCode where
  "SyntaxError \<equiv> ''SyntaxError''"
abbreviation NoNodesFound :: ErrorCode where
  "NoNodesFound \<equiv> ''NoNodesFound''"
abbreviation IllegalEnumValue :: ErrorCode where
  "IllegalEnumValue \<equiv> ''IllegalEnumValue''"
abbreviation AmbiguousBindingUnionValue :: ErrorCode where
  "AmbiguousBindingUnionValue \<equiv> ''AmbiguousBindingUnionValue''"
abbreviation IncompatibleBindingUnionValue :: ErrorCode where
  "IncompatibleBindingUnionValue \<equiv> ''IncompatibleBindingUnionValue''"
abbreviation NoConditionFound :: ErrorCode where
  "NoConditionFound \<equiv> ''NoConditionFound''"
abbreviation FieldNotFoundError :: ErrorCode where
  "FieldNotFoundError \<equiv> ''FieldNotFound''"
abbreviation InvalidLiteralTypeError :: ErrorCode where
  "InvalidLiteralTypeError \<equiv> ''InvalidLiteralType''"

definition newError :: "ErrorCode \<Rightarrow> string \<Rightarrow> string \<Rightarrow> CompileError" where
  "newError code description nodeID =
     \<lparr>ce_code = code, ce_nodeID = nodeID, ce_description = description, ce_source = []\<rparr>"

definition NewBranchNodeNotSpecified :: "string \<Rightarrow> CompileError" where
  "NewBranchNodeNotSpecified branchNodeID =
     newError BranchNodeIDNotFound (''BranchNode not assigned'') branchNodeID"

definition NewBranchNodeHasNoCondition :: "string \<Rightarrow> CompileError" where
  "NewBranchNodeHasNoCondition branchNodeID =
     newError BranchNodeHasNoCondition (''One of the branches on the node doesn'' @ [CHR 0x27] @
       ''t have a condition.'') branchNodeID"

definition NewBranchNodeHasNoDefault :: "string \<Rightarrow> CompileError" where
  "NewBranchNodeHasNoDefault branchNodeID =
     newError BranchNodeHasNoDefault (''Branch Node must have either the else case set or a default error.'') branchNodeID"

definition NewValueRequiredErr :: "string \<Rightarrow> string \<Rightarrow> CompileError" where
  "NewValueRequiredErr nodeID paramName =
     newError ValueRequired (''Value required ['' @ paramName @ ''].'') nodeID"

definition NewInvalidValueErr :: "string \<Rightarrow> string \<Rightarrow> CompileError" where
  "NewInvalidValueErr nodeID paramName =
     newError InvalidValue (''Invalid value ['' @ paramName @ ''].'') nodeID"

definition NewParameterNotBoundErr :: "string \<Rightarrow> string \<Rightarrow> CompileError" where
  "NewParameterNotBoundErr nodeID paramName =
     newError ParameterNotBound (''Parameter not bound ['' @ paramName @ ''].'') nodeID"

definition NewNodeReferenceNotFoundErr :: "string \<Rightarrow> string \<Rightarrow> CompileError" where
  "NewNodeReferenceNotFoundErr nodeID referenceID =
     newError NodeReferenceNotFound (''Referenced node ['' @ referenceID @ ''] not found.'') nodeID"

definition NewWorkflowReferenceNotFoundErr :: "string \<Rightarrow> string \<Rightarrow> CompileError" where
  "NewWorkflowReferenceNotFoundErr nodeID referenceID =
     newError WorkflowReferenceNotFound (''Referenced Workflow ['' @ referenceID @
       ''] not found.'') nodeID"

definition NewTaskReferenceNotFoundErr :: "string \<Rightarrow> string \<Rightarrow> CompileError" where
  "NewTaskReferenceNotFoundErr nodeID referenceID =
     newError TaskReferenceNotFound (''Referenced Task ['' @ referenceID @ ''] not found.'') nodeID"

definition NewVariableNameNotFoundErr :: "string \<Rightarrow> string \<Rightarrow> string \<Rightarrow> CompileError" where
  "NewVariableNameNotFoundErr nodeID referenceID variableName =
     newError VariableNameNotFound (''Variable ['' @ variableName @ ''] not found on node ['' @
       referenceID @ ''].'') nodeID"

definition NewParameterBoundMoreThanOnceErr :: "string \<Rightarrow> string \<Rightarrow> CompileError" where
  "NewParameterBoundMoreThanOnceErr nodeID paramName =
     newError ParameterBoundMoreThanOnce (''Input ['' @ paramName @
       ''] is bound more than once.'') nodeID"

definition NewDuplicateAliasErr :: "string \<Rightarrow> string \<Rightarrow> CompileError" where
  "NewDuplicateAliasErr nodeID alias =
     newError DuplicateAlias (''Duplicate alias ['' @ alias @
       ''] found. An output alias can only be used once in the Workflow.'') nodeID"

definition NewDuplicateIDFoundErr :: "string \<Rightarrow> CompileError" where
  "NewDuplicateIDFoundErr nodeID =
     newError DuplicateNodeID (''Trying to insert two nodes with the same id.'') nodeID"

definition NewMismatchingTypesErr :: "string \<Rightarrow> string \<Rightarrow> string \<Rightarrow> string \<Rightarrow> CompileError" where
  "NewMismatchingTypesErr nodeID fromVar fromType toType =
     newError MismatchingTypes (''Variable ['' @ fromVar @ ''] (type ['' @ fromType @
       '']) doesn'' @ [CHR 0x27] @ ''t match expected type ['' @ toType @ ''].'') nodeID"

definition NewMismatchingVariablesErr :: "string \<Rightarrow> string \<Rightarrow> string \<Rightarrow> string \<Rightarrow> string \<Rightarrow> CompileError" where
  "NewMismatchingVariablesErr nodeID fromVar fromType toVar toType =
     newError MismatchingTypes (''The output variable '' @ [CHR 0x27] @ fromVar @ [CHR 0x27] @
       '' has type ['' @ fromType @ ''], but it'' @ [CHR 0x27] @
       ''s assigned to the input variable '' @ [CHR 0x27] @ toVar @ [CHR 0x27] @
       '' which has type type ['' @ toType @ ''].'') nodeID"

definition NewInvalidLiteralTypeErr :: "string \<Rightarrow> string \<Rightarrow> string \<Rightarrow> CompileError" where
  "NewInvalidLiteralTypeErr nodeID inputVar err =
     newError InvalidLiteralTypeError (''Failed to validate literal type for ['' @ inputVar @
       ''] with err: '' @ err) nodeID"

definition NewMismatchingBindingsErr :: "string \<Rightarrow> string \<Rightarrow> string \<Rightarrow> string \<Rightarrow> CompileError" where
  "NewMismatchingBindingsErr nodeID sinkParam expectedType receivedType =
     newError MismatchingBindings (''Input ['' @ sinkParam @ ''] on node ['' @ nodeID @
       ''] expects bindings of type ['' @ expectedType @ ''].  Received ['' @ receivedType @
       '']'') nodeID"

definition NewFieldNotFoundErr :: "string \<Rightarrow> string \<Rightarrow> string \<Rightarrow> string \<Rightarrow> CompileError" where
  "NewFieldNotFoundErr nodeID fromVar fromType key =
     newError FieldNotFoundError (''Variable ['' @ fromVar @ ''] (type ['' @ fromType @
       '']) doesn'' @ [CHR 0x27] @ ''t have field ['' @ key @ ''].'') nodeID"

definition NewIllegalEnumValueError :: "string \<Rightarrow> string \<Rightarrow> string \<Rightarrow> string list \<Rightarrow> CompileError" where
  "NewIllegalEnumValueError nodeID sinkParam receivedVal expectedVals =
     newError IllegalEnumValue (''Input ['' @ sinkParam @ ''] on node ['' @ nodeID @
       ''] is an Enum and expects value to be one of [['' @ strings_Join expectedVals '' '' @
       '']].  Received ['' @ receivedVal @ '']'') nodeID"

definition NewMismatchingInterfacesErr :: "string \<Rightarrow> string \<Rightarrow> CompileError" where
  "NewMismatchingInterfacesErr nodeID1 nodeID2 =
     newError MismatchingInterfaces (''Interfaces of nodes ['' @ nodeID1 @ ''] and ['' @
       nodeID2 @ ''] do not match.'') nodeID1"

definition NewInconsistentTypesErr :: "string \<Rightarrow> string \<Rightarrow> string \<Rightarrow> CompileError" where
  "NewInconsistentTypesErr nodeID expectedType actualType =
     newError InconsistentTypes (''Expected type: '' @ expectedType @ '' but found '' @
       actualType) nodeID"

definition NewWorkflowHasNoEntryNodeErr :: "string \<Rightarrow> CompileError" where
  "NewWorkflowHasNoEntryNodeErr graphID =
     newError NoEntryNodeFound (''Can'' @ [CHR 0x27] @
       ''t find a node to start executing Workflow ['' @ graphID @ ''].'') graphID"

definition NewCycleDetectedInWorkflowErr :: "string \<Rightarrow> string \<Rightarrow> CompileError" where
  "NewCycleDetectedInWorkflowErr nodeID cycle =
     newError CycleDetected (''A cycle has been detected while traversing the Workflow ['' @
       cycle @ ''].'') nodeID"

definition NewUnreachableNodesErr :: "string \<Rightarrow> string \<Rightarrow> CompileError" where
  "NewUnreachableNodesErr nodeID nodes =
     newError UnreachableNodes (''The Workflow contain unreachable nodes ['' @ nodes @
       ''].'') nodeID"

definition NewUnrecognizedValueErr :: "string \<Rightarrow> string \<Rightarrow> CompileError" where
  "NewUnrecognizedValueErr nodeID value =
     newError UnrecognizedValue (''Unrecognized value ['' @ value @ ''].'') nodeID"

definition NewWorkflowBuildError :: "string \<Rightarrow> CompileError" where
  "NewWorkflowBuildError err =
     newError WorkflowBuildError (err) []"

definition NewValueCollisionError :: "string \<Rightarrow> string \<Rightarrow> string \<Rightarrow> CompileError" where
  "NewValueCollisionError nodeID valueName value =
     newError ValueCollision (valueName @ '' is expected to be unique. '' @ value @
       '' already exists.'') nodeID"

definition NewSyntaxError :: "string \<Rightarrow> string \<Rightarrow> string \<Rightarrow> CompileError" where
  "NewSyntaxError nodeID element err =
     newError SyntaxError (''Failed to parse element ['' @ element @ ''].'') nodeID"

definition NewNoNodesFoundErr :: "string \<Rightarrow> CompileError" where
  "NewNoNodesFoundErr graphID =
     newError NoNodesFound (''Can'' @ [CHR 0x27] @ ''t find any nodes in workflow ['' @ graphID @
       ''].'') graphID"

definition NewAmbiguousBindingUnionValue :: "string \<Rightarrow> string \<Rightarrow> string \<Rightarrow> string \<Rightarrow> string \<Rightarrow> string \<Rightarrow> CompileError" where
  "NewAmbiguousBindingUnionValue nodeID sinkParam expectedType binding match1 match2 =
     newError AmbiguousBindingUnionValue (''Input ['' @ sinkParam @ ''] on node ['' @ nodeID @
       ''] expects bindings of union type ['' @ expectedType @ ''].  Received ['' @ binding @
       ''] which is ambiguous as both variants ['' @ match1 @ ''] and ['' @ match2 @
       ''] match.'') nodeID"

definition NewIncompatibleBindingUnionValue :: "string \<Rightarrow> string \<Rightarrow> string \<Rightarrow> string \<Rightarrow> CompileError" where
  "NewIncompatibleBindingUnionValue nodeID sinkParam expectedType binding =
     newError IncompatibleBindingUnionValue (''Input ['' @ sinkParam @ ''] on node ['' @ nodeID @
       ''] expects bindings of union type ['' @ expectedType @ ''].  Received ['' @ binding @
       ''] which does not match any of the variants.'') nodeID"

definition NewNoConditionFound :: "string \<Rightarrow> CompileError" where
  "NewNoConditionFound nodeID =
     newError NoConditionFound (''Can'' @ [CHR 0x27] @ ''t find any condition in gate node ['' @
       nodeID @ ''].'') nodeID"

subsection \<open>The text of an error\<close>

definition CompileError_Error :: "CompileError \<Rightarrow> string" where
  "CompileError_Error err =
     (if ce_source err \<noteq> [] then ''['' @ ce_source err @ ''] '' else []) @ ''Code: '' @ ce_code err
     @ '', Node Id: '' @ ce_nodeID err @ '', Description: '' @ ce_description err"

text \<open>\<open>CompileErrorWithCause\<close>: the cause is an error given by its text.\<close>

record CompileErrorWithCause =
  cause_of :: CompileError
  cause :: "string option"

definition CompileErrorWithCause_Error :: "CompileErrorWithCause \<Rightarrow> string" where
  "CompileErrorWithCause_Error err =
     CompileError_Error (cause_of err) @
     (case cause err of None \<Rightarrow> [] | Some c \<Rightarrow> '', Cause: '' @ c)"

subsection \<open>The error set\<close>

text \<open>
  A Go map used as a set. Its keys are kept in a list without repetitions, which is the order of one
  iteration over it; nothing that is proved depends on that order.
\<close>

type_synonym compileErrorSet = "CompileError list"

definition compileErrorSet_Put :: "CompileError \<Rightarrow> compileErrorSet \<Rightarrow> compileErrorSet" where
  "compileErrorSet_Put key s = (if key \<in> set s then s else s @ [key])"

definition compileErrorSet_Contains :: "CompileError \<Rightarrow> compileErrorSet \<Rightarrow> bool" where
  "compileErrorSet_Contains key s = (key \<in> set s)"

definition compileErrorSet_Remove :: "CompileError \<Rightarrow> compileErrorSet \<Rightarrow> compileErrorSet" where
  "compileErrorSet_Remove key s = filter (\<lambda>k. k \<noteq> key) s"

text \<open>
  \<open>sort.SliceStable\<close> with a comparison by code and then by text is a stable sort by that pair.
\<close>

definition compileErrorSet_List :: "compileErrorSet \<Rightarrow> CompileError list" where
  "compileErrorSet_List s = sort_key (\<lambda>e. (ce_code e, CompileError_Error e)) s"

subsection \<open>Scopes\<close>

type_synonym scope = "nat list"

record error_store =
  errorSet :: compileErrorSet
  errorCountInScope :: "scope \<Rightarrow> nat"
  childScopes :: "scope \<Rightarrow> nat"

definition NewCompileErrors :: error_store where
  "NewCompileErrors = \<lparr>errorSet = [], errorCountInScope = (\<lambda>_. 0), childScopes = (\<lambda>_. 0)\<rparr>"

definition NewScope :: "scope \<Rightarrow> error_store \<Rightarrow> scope \<times> error_store" where
  "NewScope errs st =
     (childScopes st errs # errs,
      st\<lparr>childScopes := (childScopes st)(errs := Suc (childScopes st errs))\<rparr>)"

definition bump :: "scope \<Rightarrow> nat \<Rightarrow> error_store \<Rightarrow> error_store" where
  "bump errs n st =
     st\<lparr>errorCountInScope := (errorCountInScope st)(errs := errorCountInScope st errs + n)\<rparr>"

definition collect_root :: "CompileError option \<Rightarrow> error_store \<Rightarrow> error_store" where
  "collect_root err st =
     (case err of
        None \<Rightarrow> st
      | Some e \<Rightarrow> bump [] 1 (st\<lparr>errorSet := compileErrorSet_Put e (errorSet st)\<rparr>))"

fun errs_Collect :: "scope \<Rightarrow> CompileError option list \<Rightarrow> error_store \<Rightarrow> error_store" where
  "errs_Collect [] e st = fold collect_root e st"
| "errs_Collect (k # parent) e st = bump (k # parent) (length e) (errs_Collect parent e st)"

definition HasErrors :: "scope \<Rightarrow> error_store \<Rightarrow> bool" where
  "HasErrors errs st = (errorCountInScope st errs > 0)"

definition ErrorCount :: "scope \<Rightarrow> error_store \<Rightarrow> nat" where
  "ErrorCount errs st = errorCountInScope st errs"

fun error_lines :: "nat \<Rightarrow> CompileError list \<Rightarrow> string" where
  "error_lines i [] = []"
| "error_lines i (e # es) =
     [CHR 0x09] @ ''Error '' @ itoa i @ '': '' @ CompileError_Error e @ [CHR 0x0A] @ error_lines (Suc i) es"

text \<open>Every scope delegates to its parent, so the text is that of the root's set.\<close>

definition compileErrors_Error :: "scope \<Rightarrow> error_store \<Rightarrow> string" where
  "compileErrors_Error errs st =
     ''Collected Errors: '' @ itoa (length (errorSet st)) @ [CHR 0x0A]
     @ error_lines 0 (compileErrorSet_List (errorSet st))"

subsection \<open>What collecting does\<close>

lemma set_Put [simp]: "set (compileErrorSet_Put e s) = insert e (set s)"
  by (auto simp: compileErrorSet_Put_def)

lemma distinct_Put [simp]: "distinct s \<Longrightarrow> distinct (compileErrorSet_Put e s)"
  by (simp add: compileErrorSet_Put_def)

lemma bump_sels [simp]:
  "errorSet (bump p n st) = errorSet st"
  "childScopes (bump p n st) = childScopes st"
  "errorCountInScope (bump p n st) q = errorCountInScope st q + (if q = p then n else 0)"
  by (simp_all add: bump_def)

lemma collect_root_fold:
  "set (errorSet (fold collect_root (map Some es) st)) = set (errorSet st) \<union> set es"
  "errorCountInScope (fold collect_root (map Some es) st) q =
     errorCountInScope st q + (if q = [] then length es else 0)"
  "distinct (errorSet st) \<Longrightarrow> distinct (errorSet (fold collect_root (map Some es) st))"
  by (induction es arbitrary: st) (auto simp: collect_root_def)

lemma errs_Collect_effect:
  "set (errorSet (errs_Collect p (map Some es) st)) = set (errorSet st) \<union> set es"
  "errorCountInScope (errs_Collect p (map Some es) st) q =
     errorCountInScope st q + (if suffix q p then length es else 0)"
  "distinct (errorSet st) \<Longrightarrow> distinct (errorSet (errs_Collect p (map Some es) st))"
  by (induction p) (auto simp: collect_root_fold suffix_Cons dest: suffix_length_le)

text \<open>A run of the compiler, seen from its errors: it opens scopes and reports errors in them.\<close>

datatype err_op = OpNewScope scope | OpCollect scope "CompileError list"

fun err_step :: "err_op \<Rightarrow> error_store \<Rightarrow> error_store" where
  "err_step (OpNewScope p) st = snd (NewScope p st)"
| "err_step (OpCollect p es) st = errs_Collect p (map Some es) st"

fun reported :: "scope \<Rightarrow> err_op \<Rightarrow> CompileError list" where
  "reported p (OpNewScope q) = []"
| "reported p (OpCollect q es) = (if suffix p q then es else [])"

lemma err_run:
  "errorCountInScope (fold err_step ops st) p =
     errorCountInScope st p + length (concat (map (reported p) ops))"
  "set (errorSet (fold err_step ops st)) = set (errorSet st) \<union> set (concat (map (reported []) ops))"
  "distinct (errorSet st) \<Longrightarrow> distinct (errorSet (fold err_step ops st))"
proof (induction ops arbitrary: st)
  case (Cons x xs)
  {
    case 1
    show ?case using Cons(1) by (cases x) (simp_all add: errs_Collect_effect NewScope_def)
  next
    case 2
    show ?case using Cons(2) by (cases x) (auto simp add: errs_Collect_effect NewScope_def)
  next
    case 3
    then show ?case using Cons(3) by (cases x) (simp_all add: errs_Collect_effect NewScope_def)
  }
qed simp_all

text \<open>
  Whatever scopes a run opens and in whatever order it reports errors: a scope counts the errors
  reported in it and in all of its descendants, so \<open>HasErrors\<close> tells whether one was; and the
  root's set holds every error reported anywhere, once.
\<close>

lemma scopes_account_errors:
  "ErrorCount p (fold err_step ops NewCompileErrors) = length (concat (map (reported p) ops)) \<and>
   (HasErrors p (fold err_step ops NewCompileErrors) \<longleftrightarrow> concat (map (reported p) ops) \<noteq> []) \<and>
   set (errorSet (fold err_step ops NewCompileErrors)) = set (concat (map (reported []) ops)) \<and>
   distinct (errorSet (fold err_step ops NewCompileErrors))"
  using err_run(1,2) [of ops NewCompileErrors] err_run(3) [of NewCompileErrors ops]
  by (auto simp: ErrorCount_def HasErrors_def NewCompileErrors_def)

lemma map_sort_key: "map f (sort_key f xs) = sort (map f xs)"
  by (rule properties_for_sort [symmetric]) simp_all

lemma error_lines_text:
  "map CompileError_Error xs = map CompileError_Error ys \<Longrightarrow> error_lines i xs = error_lines i ys"
proof (induction xs arbitrary: ys i)
  case (Cons x xs)
  then obtain y zs where "ys = y # zs" "CompileError_Error x = CompileError_Error y"
    "map CompileError_Error xs = map CompileError_Error zs" by auto
  with Cons.IH [of zs "Suc i"] show ?case by simp
qed simp

text \<open>
  The report is deterministic: two error sets with the same elements, whatever the order the map
  iterates them in, give the same text, and the listed errors are exactly those elements in
  the order of code and text.
\<close>

lemma error_report_deterministic:
  assumes "set (errorSet st) = set (errorSet st')" "distinct (errorSet st)" "distinct (errorSet st')"
  shows "compileErrors_Error p st = compileErrors_Error q st' \<and>
    set (compileErrorSet_List (errorSet st)) = set (errorSet st) \<and>
    sorted (map (\<lambda>e. (ce_code e, CompileError_Error e)) (compileErrorSet_List (errorSet st)))"
proof -
  let ?key = "\<lambda>e. (ce_code e, CompileError_Error e)"
  have m: "mset (errorSet st) = mset (errorSet st')"
    using assms by (simp add: set_eq_iff_mset_eq_distinct)
  then have "length (errorSet st) = length (errorSet st')" by (rule mset_eq_length)
  moreover have "map ?key (compileErrorSet_List (errorSet st)) = map ?key (compileErrorSet_List (errorSet st'))"
    using m by (simp add: compileErrorSet_List_def map_sort_key sorted_list_of_multiset_mset [symmetric])
  then have "map (snd \<circ> ?key) (compileErrorSet_List (errorSet st)) =
      map (snd \<circ> ?key) (compileErrorSet_List (errorSet st'))"
    by (simp only: map_map [symmetric])
  then have "error_lines 0 (compileErrorSet_List (errorSet st)) =
      error_lines 0 (compileErrorSet_List (errorSet st'))"
    by (intro error_lines_text) (simp add: comp_def)
  ultimately show ?thesis by (simp add: compileErrors_Error_def compileErrorSet_List_def)
qed


end
