(* ===== verification/Workflow_Graph.thy ===== *)
theory Workflow_Graph
  imports Cycle_Detection Compile_Errors
begin

section \<open>The workflow graph (flytepropeller/pkg/compiler/workflow_compiler.go, builders.go)\<close>

text \<open>
  The part of \<open>workflowBuilder\<close> that the compiler mutates while it builds a workflow: the
  node index, the nodes of the template, the two adjacency lists and the connection set that is written
  out. A \<open>sets.String\<close> is a set, and its \<open>List\<close> the sorted list of its
  elements. The node index is an association list in the order of insertion.
\<close>

definition StartNodeID :: string where "StartNodeID = ''start-node''"
definition EndNodeID :: string where "EndNodeID = ''end-node''"

datatype EdgeDirection = EdgeDirectionBidirectional | EdgeDirectionDownstream | EdgeDirectionUpstream

record 'n workflowBuilder =
  Nodes :: "(string \<times> 'n) list"
  TemplateNodes :: "'n list"
  downstreamNodes :: "string \<rightharpoonup> string set"
  upstreamNodes :: "string \<rightharpoonup> string set"
  Connections_Downstream :: "string \<rightharpoonup> string list"
  Connections_Upstream :: "string \<rightharpoonup> string list"

definition sets_List :: "string set \<Rightarrow> string list" where
  "sets_List s = sorted_list_of_set s"

definition or_empty :: "string set option \<Rightarrow> string set" where
  "or_empty s = (case s of None \<Rightarrow> {} | Some x \<Rightarrow> x)"

subsection \<open>Operations\<close>

definition GetNode :: "'n workflowBuilder \<Rightarrow> string \<Rightarrow> 'n option" where
  "GetNode w nodeId = map_of (Nodes w) nodeId"

definition AddNode :: "string \<Rightarrow> 'n \<Rightarrow> 'n workflowBuilder \<Rightarrow> 'n workflowBuilder" where
  "AddNode nodeId n w =
     (case map_of (Nodes w) nodeId of
        Some _ \<Rightarrow> w
      | None \<Rightarrow> w\<lparr>Nodes := Nodes w @ [(nodeId, n)], TemplateNodes := TemplateNodes w @ [n]\<rparr>)"

definition provider_id :: "string \<Rightarrow> string" where
  "provider_id nodeProvider = (if nodeProvider = [] then StartNodeID else nodeProvider)"

definition AddUpstreamEdge :: "string \<Rightarrow> string \<Rightarrow> 'n workflowBuilder \<Rightarrow> 'n workflowBuilder" where
  "AddUpstreamEdge nodeProvider nodeDependent w =
     (let p = provider_id nodeProvider;
          ids = insert p (or_empty (upstreamNodes w nodeDependent))
      in w\<lparr>upstreamNodes := (upstreamNodes w)(nodeDependent \<mapsto> ids),
           Connections_Upstream := (Connections_Upstream w)(nodeDependent \<mapsto> sets_List ids)\<rparr>)"

definition AddDownstreamEdge :: "string \<Rightarrow> string \<Rightarrow> 'n workflowBuilder \<Rightarrow> 'n workflowBuilder" where
  "AddDownstreamEdge nodeProvider nodeDependent w =
     (let p = provider_id nodeProvider;
          ids = insert nodeDependent (or_empty (downstreamNodes w p))
      in w\<lparr>downstreamNodes := (downstreamNodes w)(p \<mapsto> ids),
           Connections_Downstream := (Connections_Downstream w)(p \<mapsto> sets_List ids)\<rparr>)"

definition AddExecutionEdge :: "string \<Rightarrow> string \<Rightarrow> 'n workflowBuilder \<Rightarrow> 'n workflowBuilder" where
  "AddExecutionEdge nodeFrom nodeTo w = AddUpstreamEdge nodeFrom nodeTo (AddDownstreamEdge nodeFrom nodeTo w)"

definition neighbors_of :: "'n workflowBuilder \<Rightarrow> string \<Rightarrow> string list" where
  "neighbors_of w nodeId = sets_List (or_empty (downstreamNodes w nodeId))"

definition toNodeIdsSet :: "(string \<times> 'n) list \<Rightarrow> string set" where
  "toNodeIdsSet nodes = fst ` set nodes"

text \<open>The errors a call reports; \<open>None\<close> only when the fuel of the traversal runs out.\<close>

definition validateReachable :: "nat \<Rightarrow> 'n workflowBuilder \<Rightarrow> CompileError list option" where
  "validateReachable fuel w =
     (case detectCycle fuel StartNodeID (neighbors_of w) of
        None \<Rightarrow> None
      | Some (cycle, visited, detected) \<Rightarrow>
          if detected then Some [NewCycleDetectedInWorkflowErr StartNodeID (strings_Join cycle ''>'')]
          else if card visited \<noteq> length (Nodes w) then
            (let unreachableNodes = toNodeIdsSet (Nodes w) - visited - {EndNodeID}
             in if unreachableNodes \<noteq> {}
                then Some [NewUnreachableNodesErr StartNodeID (strings_Join (sets_List unreachableNodes) '','')]
                else Some [])
          else Some [])"

text \<open>
  The loop of \<open>ValidateWorkflow\<close> that ties nodes without edges to the start and end node, over the
  node index in any order.
\<close>

definition tie_node :: "string set \<Rightarrow> string \<Rightarrow> 'n workflowBuilder \<Rightarrow> 'n workflowBuilder" where
  "tie_node topLevelNodes nodeID wb =
     (if nodeID = StartNodeID \<or> nodeID = EndNodeID then wb
      else
        (let wb1 = (if nodeID \<in> topLevelNodes \<and> upstreamNodes wb nodeID = None
                    then AddExecutionEdge StartNodeID nodeID wb else wb)
         in if nodeID \<in> topLevelNodes \<and> downstreamNodes wb1 nodeID = None
            then AddExecutionEdge nodeID EndNodeID wb1 else wb1))"

definition tie_orphans :: "string set \<Rightarrow> string list \<Rightarrow> 'n workflowBuilder \<Rightarrow> 'n workflowBuilder" where
  "tie_orphans topLevelNodes ids wb = fold (tie_node topLevelNodes) ids wb"

subsection \<open>The interface to the validators\<close>

text \<open>
  What the binding validator relies on: three ways to add an edge to a graph that is observed through its two
  relations. Adding edges never removes one, and a batch of them adds exactly the batch.
\<close>

locale edge_store =
  fixes add_down add_up :: "string \<Rightarrow> string \<Rightarrow> 'g \<Rightarrow> 'g"
    and down_rel up_rel :: "'g \<Rightarrow> (string \<times> string) set"
    and norm :: "string \<Rightarrow> string"
  assumes down_down: "down_rel (add_down u v g) = insert (norm u, v) (down_rel g)"
    and up_down: "up_rel (add_down u v g) = up_rel g"
    and up_up: "up_rel (add_up u v g) = insert (norm u, v) (up_rel g)"
    and down_up: "down_rel (add_up u v g) = down_rel g"
begin

definition add_both :: "string \<Rightarrow> string \<Rightarrow> 'g \<Rightarrow> 'g" where
  "add_both u v g = add_up u v (add_down u v g)"

lemma batch_down:
  "down_rel (fold (\<lambda>u. add_down u v) us g) = down_rel g \<union> (\<lambda>u. (norm u, v)) ` set us"
  "up_rel (fold (\<lambda>u. add_down u v) us g) = up_rel g"
  by (induction us arbitrary: g) (auto simp: down_down up_down)

lemma batch_up:
  "up_rel (fold (\<lambda>u. add_up u v) us g) = up_rel g \<union> (\<lambda>u. (norm u, v)) ` set us"
  "down_rel (fold (\<lambda>u. add_up u v) us g) = down_rel g"
  by (induction us arbitrary: g) (auto simp: up_up down_up)

lemma both_rel:
  "down_rel (add_both u v g) = insert (norm u, v) (down_rel g)"
  "up_rel (add_both u v g) = insert (norm u, v) (up_rel g)"
  by (simp_all add: add_both_def down_down up_down up_up down_up)

lemma both_keeps_symmetry: "down_rel g = up_rel g \<Longrightarrow> down_rel (add_both u v g) = up_rel (add_both u v g)"
  by (simp add: both_rel)

lemma batch_both:
  "down_rel (fold (\<lambda>u. add_both u v) us g) = down_rel g \<union> (\<lambda>u. (norm u, v)) ` set us"
  "up_rel (fold (\<lambda>u. add_both u v) us g) = up_rel g \<union> (\<lambda>u. (norm u, v)) ` set us"
  by (induction us arbitrary: g) (auto simp: both_rel)

end

definition down_edges :: "'n workflowBuilder \<Rightarrow> (string \<times> string) set" where
  "down_edges w = {(u, v). v \<in> or_empty (downstreamNodes w u)}"

definition up_edges :: "'n workflowBuilder \<Rightarrow> (string \<times> string) set" where
  "up_edges w = {(u, v). u \<in> or_empty (upstreamNodes w v)}"

lemma or_empty_simps [simp]: "or_empty (Some s) = s" "or_empty None = {}"
  by (simp_all add: or_empty_def)

lemma edge_op_rel:
  "down_edges (AddDownstreamEdge u v w) = insert (provider_id u, v) (down_edges w)"
  "up_edges (AddDownstreamEdge u v w) = up_edges w"
  "up_edges (AddUpstreamEdge u v w) = insert (provider_id u, v) (up_edges w)"
  "down_edges (AddUpstreamEdge u v w) = down_edges w"
  by (auto simp: down_edges_def up_edges_def AddDownstreamEdge_def AddUpstreamEdge_def Let_def
      split: if_splits)

interpretation wg: edge_store AddDownstreamEdge AddUpstreamEdge down_edges up_edges provider_id
  by unfold_locales (rule edge_op_rel)+

lemma AddExecutionEdge_both: "wg.add_both = AddExecutionEdge"
  by (simp add: fun_eq_iff wg.add_both_def AddExecutionEdge_def)

lemmas edge_both_rel = wg.both_rel [unfolded AddExecutionEdge_both]
lemmas edge_batch_both = wg.batch_both [unfolded AddExecutionEdge_both]

subsection \<open>The adjacency lists and the written connections\<close>

definition graph_wf :: "'n workflowBuilder \<Rightarrow> bool" where
  "graph_wf w \<longleftrightarrow>
     (\<forall>u. Connections_Downstream w u = map_option sets_List (downstreamNodes w u)) \<and>
     (\<forall>u. Connections_Upstream w u = map_option sets_List (upstreamNodes w u)) \<and>
     (\<forall>u s. downstreamNodes w u = Some s \<longrightarrow> finite s \<and> s \<noteq> {}) \<and>
     (\<forall>u s. upstreamNodes w u = Some s \<longrightarrow> finite s \<and> s \<noteq> {})"

definition newGraph :: "'n workflowBuilder" where
  "newGraph = \<lparr>Nodes = [], TemplateNodes = [], downstreamNodes = Map.empty, upstreamNodes = Map.empty,
     Connections_Downstream = Map.empty, Connections_Upstream = Map.empty\<rparr>"

datatype edge_op = Op_Down string string | Op_Up string string | Op_Exec string string

fun edge_step :: "edge_op \<Rightarrow> 'n workflowBuilder \<Rightarrow> 'n workflowBuilder" where
  "edge_step (Op_Down u v) = AddDownstreamEdge u v"
| "edge_step (Op_Up u v) = AddUpstreamEdge u v"
| "edge_step (Op_Exec u v) = AddExecutionEdge u v"

fun down_of :: "edge_op \<Rightarrow> (string \<times> string) set" where
  "down_of (Op_Down u v) = {(provider_id u, v)}"
| "down_of (Op_Up u v) = {}"
| "down_of (Op_Exec u v) = {(provider_id u, v)}"

fun up_of :: "edge_op \<Rightarrow> (string \<times> string) set" where
  "up_of (Op_Down u v) = {}"
| "up_of (Op_Up u v) = {(provider_id u, v)}"
| "up_of (Op_Exec u v) = {(provider_id u, v)}"

lemma graph_wf_down: "graph_wf w \<Longrightarrow> graph_wf (AddDownstreamEdge u v w)"
  by (auto simp: graph_wf_def AddDownstreamEdge_def Let_def or_empty_def split: option.split)

lemma graph_wf_up: "graph_wf w \<Longrightarrow> graph_wf (AddUpstreamEdge u v w)"
  by (auto simp: graph_wf_def AddUpstreamEdge_def Let_def or_empty_def split: option.split)

lemma graph_wf_edge: "graph_wf w \<Longrightarrow> graph_wf (edge_step op w)"
  by (cases op) (simp_all add: graph_wf_down graph_wf_up AddExecutionEdge_def)

lemma edge_step_rel:
  "down_edges (edge_step op w) = down_edges w \<union> down_of op"
  "up_edges (edge_step op w) = up_edges w \<union> up_of op"
  by (cases op; simp add: edge_op_rel AddExecutionEdge_def)+

lemma edge_step_Nodes [simp]: "Nodes (edge_step op w) = Nodes w"
  by (cases op) (simp_all add: AddExecutionEdge_def AddUpstreamEdge_def AddDownstreamEdge_def Let_def)

lemma edge_run_Nodes [simp]: "Nodes (fold edge_step ops w) = Nodes w"
  by (induction ops arbitrary: w) simp_all

lemma edge_run:
  "graph_wf w \<Longrightarrow> graph_wf (fold edge_step ops w)"
  "down_edges (fold edge_step ops w) = down_edges w \<union> \<Union> (down_of ` set ops)"
  "up_edges (fold edge_step ops w) = up_edges w \<union> \<Union> (up_of ` set ops)"
  by (induction ops arbitrary: w) (auto simp: graph_wf_edge edge_step_rel)

lemma newGraph_rel [simp]: "graph_wf newGraph" "down_edges newGraph = {}" "up_edges newGraph = {}"
  by (simp_all add: graph_wf_def newGraph_def down_edges_def up_edges_def)

text \<open>
  Property C27. The adjacency lists hold exactly the edges that were added, with the empty provider standing for the
  start node, and the connection set that is written out lists the same neighbours, sorted and without
  repetition. When only execution edges are added the two directions agree.
\<close>

theorem graph_refines_relation:
  fixes ops :: "edge_op list"
  defines "w \<equiv> fold edge_step ops (newGraph :: 'n workflowBuilder)"
  shows "down_edges w = \<Union> (down_of ` set ops) \<and> up_edges w = \<Union> (up_of ` set ops) \<and>
    (\<forall>u. case Connections_Downstream w u of
        None \<Rightarrow> \<forall>v. (u, v) \<notin> down_edges w
      | Some vs \<Rightarrow> sorted vs \<and> distinct vs \<and> set vs = {v. (u, v) \<in> down_edges w}) \<and>
    (\<forall>v. case Connections_Upstream w v of
        None \<Rightarrow> \<forall>u. (u, v) \<notin> up_edges w
      | Some us \<Rightarrow> sorted us \<and> distinct us \<and> set us = {u. (u, v) \<in> up_edges w}) \<and>
    ((\<forall>op \<in> set ops. \<exists>u v. op = Op_Exec u v) \<longrightarrow> down_edges w = up_edges w)"
proof -
  have wf: "graph_wf w" by (simp add: w_def edge_run(1))
  have rel: "down_edges w = \<Union> (down_of ` set ops)" "up_edges w = \<Union> (up_of ` set ops)"
    by (simp_all add: w_def edge_run)
  have "down_of op = up_of op" if "\<exists>u v. op = Op_Exec u v" for op using that by auto
  then have "(\<forall>op \<in> set ops. \<exists>u v. op = Op_Exec u v) \<longrightarrow> down_edges w = up_edges w"
    unfolding rel by (metis (no_types, lifting) SUP_cong)
  moreover have "case Connections_Downstream w u of
        None \<Rightarrow> \<forall>v. (u, v) \<notin> down_edges w
      | Some vs \<Rightarrow> sorted vs \<and> distinct vs \<and> set vs = {v. (u, v) \<in> down_edges w}" for u
    using wf by (auto simp: graph_wf_def down_edges_def sets_List_def split: option.split)
  moreover have "case Connections_Upstream w v of
        None \<Rightarrow> \<forall>u. (u, v) \<notin> up_edges w
      | Some us \<Rightarrow> sorted us \<and> distinct us \<and> set us = {u. (u, v) \<in> up_edges w}" for v
    using wf by (auto simp: graph_wf_def up_edges_def sets_List_def split: option.split)
  ultimately show ?thesis using rel by simp
qed

theorem graph_refines_relation_witness:
  "down_edges (fold edge_step [Op_Exec [] ''a'', Op_Exec ''a'' ''b''] (newGraph :: unit workflowBuilder)) =
   up_edges (fold edge_step [Op_Exec [] ''a'', Op_Exec ''a'' ''b''] (newGraph :: unit workflowBuilder))"
proof -
  have "\<forall>op \<in> set [Op_Exec [] ''a'', Op_Exec ''a'' ''b'']. \<exists>u v. op = Op_Exec u v" by simp
  then show ?thesis
    using graph_refines_relation [of "[Op_Exec [] ''a'', Op_Exec ''a'' ''b'']", where 'n = unit] by blast
qed

subsection \<open>Tying nodes to the start and the end\<close>

lemma tie_node_keeps:
  assumes "graph_wf w"
  shows "graph_wf (tie_node T n w)" "down_edges w \<subseteq> down_edges (tie_node T n w)"
    "up_edges w \<subseteq> up_edges (tie_node T n w)"
  using assms by (auto simp: tie_node_def Let_def AddExecutionEdge_def graph_wf_down graph_wf_up edge_op_rel)

lemma tie_orphans_keeps:
  "graph_wf w \<Longrightarrow> graph_wf (tie_orphans T ids w) \<and> down_edges w \<subseteq> down_edges (tie_orphans T ids w) \<and>
     up_edges w \<subseteq> up_edges (tie_orphans T ids w)"
proof (induction ids arbitrary: w)
  case (Cons n ids)
  have "tie_orphans T (n # ids) w = tie_orphans T ids (tie_node T n w)" by (simp add: tie_orphans_def)
  then show ?case
    using Cons.IH [OF tie_node_keeps(1) [OF Cons.prems]] tie_node_keeps(2,3) [OF Cons.prems, of T n]
    by (metis order_trans)
qed (simp add: tie_orphans_def)

lemma has_edges:
  "graph_wf w \<Longrightarrow> upstreamNodes w n \<noteq> None \<Longrightarrow> \<exists>u. (u, n) \<in> up_edges w"
  "graph_wf w \<Longrightarrow> downstreamNodes w n \<noteq> None \<Longrightarrow> \<exists>v. (n, v) \<in> down_edges w"
  by (fastforce simp: graph_wf_def up_edges_def down_edges_def)+

lemma tie_node_ties:
  assumes "graph_wf w" "n \<in> T" "n \<noteq> StartNodeID" "n \<noteq> EndNodeID" "n \<noteq> []"
  shows "(\<exists>u. (u, n) \<in> up_edges (tie_node T n w)) \<and> (\<exists>v. (n, v) \<in> down_edges (tie_node T n w))"
proof -
  define w1 where "w1 = (if upstreamNodes w n = None then AddExecutionEdge StartNodeID n w else w)"
  have wf1: "graph_wf w1" using assms(1) by (simp add: w1_def AddExecutionEdge_def graph_wf_down graph_wf_up)
  have up1: "\<exists>u. (u, n) \<in> up_edges w1"
    using has_edges(1) [OF assms(1), of n] by (auto simp: w1_def edge_both_rel)
  have t: "tie_node T n w = (if downstreamNodes w1 n = None then AddExecutionEdge n EndNodeID w1 else w1)"
    using assms by (simp add: tie_node_def w1_def Let_def)
  show ?thesis
    unfolding t using up1 has_edges(2) [OF wf1, of n] assms(5)
    by (auto simp: edge_both_rel provider_id_def)
qed

text \<open>
  Property C28. After the loop over the nodes every top-level node has an inward and an outward edge, so that
  execution starts it and waits for it; no edge is lost.
\<close>

theorem orphans_tied:
  assumes "graph_wf w" "n \<in> topLevelNodes" "n \<in> set ids" "n \<noteq> StartNodeID" "n \<noteq> EndNodeID" "n \<noteq> []"
  shows "(\<exists>u. (u, n) \<in> up_edges (tie_orphans topLevelNodes ids w)) \<and>
    (\<exists>v. (n, v) \<in> down_edges (tie_orphans topLevelNodes ids w)) \<and>
    down_edges w \<subseteq> down_edges (tie_orphans topLevelNodes ids w) \<and>
    up_edges w \<subseteq> up_edges (tie_orphans topLevelNodes ids w)"
proof -
  obtain xs ys where ids: "ids = xs @ n # ys" using assms(3) by (meson split_list)
  define w1 where "w1 = tie_orphans topLevelNodes xs w"
  have w1: "graph_wf w1" using tie_orphans_keeps [OF assms(1)] unfolding w1_def by blast
  have run: "tie_orphans topLevelNodes ids w = tie_orphans topLevelNodes ys (tie_node topLevelNodes n w1)"
    by (simp add: tie_orphans_def ids w1_def)
  show ?thesis
    using tie_node_ties [OF w1 assms(2,4-6)] tie_orphans_keeps [OF assms(1), of topLevelNodes ids]
      tie_orphans_keeps [OF tie_node_keeps(1) [OF w1], of topLevelNodes ys topLevelNodes n]
    unfolding run by blast
qed

theorem orphans_tied_witness:
  "\<exists>v. (''a'', v) \<in> down_edges (tie_orphans {''a''} [''a''] (newGraph :: unit workflowBuilder))"
proof -
  have "''a'' \<noteq> StartNodeID" "''a'' \<noteq> EndNodeID" by (simp_all add: StartNodeID_def EndNodeID_def)
  then show ?thesis
    using orphans_tied [of "newGraph :: unit workflowBuilder" "''a''" "{''a''}" "[''a'']"] by simp
qed

subsection \<open>The final check of the graph\<close>

lemma neighbors_edges: "graph_wf w \<Longrightarrow> edges (neighbors_of w) = down_edges w"
  by (auto simp: edges_def neighbors_of_def down_edges_def graph_wf_def sets_List_def or_empty_def
      split: option.splits)

definition node_ids :: "'n workflowBuilder \<Rightarrow> string set" where
  "node_ids w = toNodeIdsSet (Nodes w)"

definition reach :: "'n workflowBuilder \<Rightarrow> string set" where
  "reach w = {v. (StartNodeID, v) \<in> (down_edges w)\<^sup>*}"

lemma reach_eq: "graph_wf w \<Longrightarrow> reachable (neighbors_of w) StartNodeID = reach w"
  by (simp add: reachable_def reach_def neighbors_edges)

lemma card_node_ids: "distinct (map fst (Nodes w)) \<Longrightarrow> card (node_ids w) = length (Nodes w)"
  using distinct_card [of "map fst (Nodes w)"] by (simp add: node_ids_def toNodeIdsSet_def)

lemma finite_node_ids [simp]: "finite (node_ids w)"
  by (simp add: node_ids_def toNodeIdsSet_def)

text \<open>
  Property C13. The final check ends and accepts a graph, whose edges stay among its nodes, exactly when no
  cycle can be reached from the start node and every node but the end node can be. Otherwise it
  reports one error: the cycle, or the set of unreachable nodes.
\<close>

theorem reachability_check:
  assumes "graph_wf w" "distinct (map fst (Nodes w))" "reach w \<subseteq> node_ids w"
    and "length (Nodes w) < fuel"
  shows "\<exists>errs. validateReachable fuel w = Some errs \<and> length errs \<le> 1 \<and>
    (errs = [] \<longleftrightarrow> (\<forall>v \<in> reach w. (v, v) \<notin> (down_edges w)\<^sup>+) \<and> node_ids w \<subseteq> reach w \<union> {EndNodeID}) \<and>
    (\<forall>e \<in> set errs. ce_code e = CycleDetected \<longleftrightarrow> (\<exists>v \<in> reach w. (v, v) \<in> (down_edges w)\<^sup>+))"
proof -
  note [simp] = reach_eq [OF assms(1)] neighbors_edges [OF assms(1)]
  have len: "length (Nodes w) = card (node_ids w)" using card_node_ids [OF assms(2)] by simp
  have fin: "finite (reach w)" using assms(3) by (rule finite_subset) simp
  have "card (reach w) < fuel"
    using card_mono [OF finite_node_ids assms(3)] assms(4) len by linarith
  then obtain cycle visited detected where d:
    "detectCycle fuel StartNodeID (neighbors_of w) = Some (cycle, visited, detected)"
    "detected = (\<exists>v \<in> reach w. (v, v) \<in> (down_edges w)\<^sup>+)"
    "\<not> detected \<Longrightarrow> visited = reach w"
    using detectCycle_correct' [of "neighbors_of w" StartNodeID fuel] fin by auto
  have eq: "card (reach w) = card (node_ids w) \<longleftrightarrow> reach w = node_ids w"
    using card_subset_eq [OF finite_node_ids assms(3)] by auto
  show ?thesis
  proof (cases detected)
    case True
    define e where "e = NewCycleDetectedInWorkflowErr StartNodeID (strings_Join cycle ''>'')"
    have "validateReachable fuel w = Some [e]" using d(1) True by (simp add: validateReachable_def e_def)
    moreover have "ce_code e = CycleDetected"
      by (simp add: e_def NewCycleDetectedInWorkflowErr_def newError_def)
    moreover have "\<exists>v \<in> reach w. (v, v) \<in> (down_edges w)\<^sup>+" using d(2) True by simp
    ultimately show ?thesis by (intro exI [of _ "[e]"]) auto
  next
    case False
    with d(3) have v: "visited = reach w" by simp
    have acyclic: "\<forall>v \<in> reach w. (v, v) \<notin> (down_edges w)\<^sup>+" using d(2) False by blast
    show ?thesis
    proof (cases "toNodeIdsSet (Nodes w) - reach w - {EndNodeID} = {}")
      case True
      then have "node_ids w \<subseteq> reach w \<union> {EndNodeID}" by (auto simp: node_ids_def)
      moreover have "validateReachable fuel w = Some []"
        using d(1) False True v by (simp add: validateReachable_def Let_def)
      ultimately show ?thesis using acyclic by simp
    next
      case unreachable: False
      then have n: "\<not> node_ids w \<subseteq> reach w \<union> {EndNodeID}" by (auto simp: node_ids_def)
      define e where "e = NewUnreachableNodesErr StartNodeID
          (strings_Join (sets_List (toNodeIdsSet (Nodes w) - reach w - {EndNodeID})) '','')"
      have "card (reach w) \<noteq> card (node_ids w)" using n eq by auto
      then have "validateReachable fuel w = Some [e]"
        using d(1) False unreachable v len by (simp add: validateReachable_def Let_def e_def)
      moreover have "ce_code e \<noteq> CycleDetected"
        by (simp add: e_def NewUnreachableNodesErr_def newError_def)
      ultimately show ?thesis using n acyclic
        by (intro exI [of _ "[e]"]) auto
    qed
  qed
qed

text \<open>A start node, one task and the end node in a row.\<close>

definition sample_wf_graph :: "unit workflowBuilder" where
  "sample_wf_graph =
     fold edge_step [Op_Exec [] ''a'', Op_Exec ''a'' EndNodeID]
       (AddNode ''a'' () (AddNode EndNodeID () (AddNode StartNodeID () newGraph)))"

lemma sample_wf_graph_facts:
  "graph_wf sample_wf_graph" "distinct (map fst (Nodes sample_wf_graph))"
  "node_ids sample_wf_graph = {StartNodeID, ''a'', EndNodeID}"
  "length (Nodes sample_wf_graph) < 4"
  "down_edges sample_wf_graph = {(StartNodeID, ''a''), (''a'', EndNodeID)}"
proof -
  have base: "graph_wf (AddNode ''a'' () (AddNode EndNodeID () (AddNode StartNodeID () newGraph)))"
    "down_edges (AddNode ''a'' () (AddNode EndNodeID () (AddNode StartNodeID () newGraph))) = {}"
    by (simp_all add: AddNode_def newGraph_def graph_wf_def down_edges_def StartNodeID_def EndNodeID_def)
  show "graph_wf sample_wf_graph" unfolding sample_wf_graph_def by (rule edge_run(1) [OF base(1)])
  show "down_edges sample_wf_graph = {(StartNodeID, ''a''), (''a'', EndNodeID)}"
    unfolding sample_wf_graph_def edge_run(2) base(2) by (auto simp: provider_id_def)
  have n: "Nodes sample_wf_graph = [(StartNodeID, ()), (EndNodeID, ()), (''a'', ())]"
    unfolding sample_wf_graph_def edge_run_Nodes
    by (simp add: AddNode_def newGraph_def StartNodeID_def EndNodeID_def)
  show "distinct (map fst (Nodes sample_wf_graph))" unfolding n by (simp add: StartNodeID_def EndNodeID_def)
  show "node_ids sample_wf_graph = {StartNodeID, ''a'', EndNodeID}"
    unfolding node_ids_def toNodeIdsSet_def n by auto
  show "length (Nodes sample_wf_graph) < 4" unfolding n by simp
qed

lemma sample_trancl:
  "(down_edges sample_wf_graph)\<^sup>+ = {(StartNodeID, ''a''), (''a'', EndNodeID), (StartNodeID, EndNodeID)}"
proof
  show "(down_edges sample_wf_graph)\<^sup>+ \<subseteq> {(StartNodeID, ''a''), (''a'', EndNodeID), (StartNodeID, EndNodeID)}"
  proof (intro subrelI)
    fix x y assume "(x, y) \<in> (down_edges sample_wf_graph)\<^sup>+"
    then show "(x, y) \<in> {(StartNodeID, ''a''), (''a'', EndNodeID), (StartNodeID, EndNodeID)}"
      unfolding sample_wf_graph_facts(5)
      by (induction x y rule: trancl.induct) (auto simp: StartNodeID_def EndNodeID_def)
  qed
  have e: "(StartNodeID, ''a'') \<in> down_edges sample_wf_graph" "(''a'', EndNodeID) \<in> down_edges sample_wf_graph"
    by (simp_all add: sample_wf_graph_facts(5))
  then show "{(StartNodeID, ''a''), (''a'', EndNodeID), (StartNodeID, EndNodeID)} \<subseteq> (down_edges sample_wf_graph)\<^sup>+"
    by (auto intro: trancl_into_trancl)
qed

lemma sample_reach: "reach sample_wf_graph = {StartNodeID, ''a'', EndNodeID}"
  by (auto simp: reach_def rtrancl_eq_or_trancl sample_trancl StartNodeID_def)

theorem reachability_check_witness:
  "validateReachable 4 sample_wf_graph = Some []"
proof -
  have "(v, v) \<notin> (down_edges sample_wf_graph)\<^sup>+" for v
    by (auto simp: sample_trancl StartNodeID_def EndNodeID_def)
  then show ?thesis
    using reachability_check [OF sample_wf_graph_facts(1,2) _ sample_wf_graph_facts(4)]
      sample_reach sample_wf_graph_facts(3) by auto
qed

end
