(* ===== verification/Bindings.thy ===== *)
theory Bindings
  imports Literal_Inference Var_Names Workflow_Graph
begin

section \<open>Binding validation (compiler/validators: bindings.go, vars.go, node.go)\<close>

text \<open>
  The validators report errors into a scope that every caller makes afresh, so a validator
  is modelled by the list of errors it reports, in order, and its check \<open>!errs.HasErrors()\<close> by the emptiness of
  that list (the accounting of scopes is the subject of \<open>Compile_Errors\<close>). The errors of a
  discarded set, as in the trial of the variants of a union, are dropped.

  A call may panic: on a nil type in the cast check, on a missing start node and on the
  reflected name of an unset scalar value. The result is then \<open>None\<close>. The node id of a promise,
  which the validator overwrites, lives in the promise store.

  Text forms of messages and the copy of a variable through its wire format are parameters.
\<close>

record ('c, 's) compile_lib =
  Typing :: "('c, 's) typing_lib"
  CloneVariable :: "variable \<Rightarrow> variable option"
  BindingString :: "promise_store \<Rightarrow> bd_ptr \<Rightarrow> string"
  ValueString :: "promise_store \<Rightarrow> binding_value \<Rightarrow> string"
  ScalarTypeName :: "scalar_value \<Rightarrow> string"

text \<open>What the validators read of a node builder.\<close>

record nodeBuilder =
  nb_Id :: string
  nb_Metadata :: "string option"
  nb_Inputs :: "binding list"
  nb_OutputAliases :: "(string \<times> string) list"
  nb_UpstreamNodeIds :: "string list"
  nb_Iface :: "typed_interface option"

subsection \<open>Text of a type in error messages\<close>

definition dataclass_fields :: "lt_ptr \<Rightarrow> (string \<times> lt_ptr) list" where
  "dataclass_fields lt =
     (case lt of
        None \<Rightarrow> []
      | Some t \<Rightarrow> (case lt_structure t of None \<Rightarrow> [] | Some s \<Rightarrow> ts_dataclass_type s))"

lemma dataclass_field_size:
  "x \<in> set (dataclass_fields (Some t)) \<Longrightarrow> size_option size (snd x) < Suc (size t)"
proof -
  assume x: "x \<in> set (dataclass_fields (Some t))"
  then obtain s where s: "lt_structure t = Some s" "x \<in> set (ts_dataclass_type s)"
    by (cases "lt_structure t") (auto simp: dataclass_fields_def)
  have "size_prod (\<lambda>_. 0) (size_option size) x \<le> size_list (size_prod (\<lambda>_. 0) (size_option size)) (ts_dataclass_type s)"
    using s(2) by (rule size_list_estimation') simp
  with s(1) show ?thesis by (cases t; cases s; cases x) auto
qed

function LiteralTypeToStr :: "('c, 's) typing_lib \<Rightarrow> lt_ptr \<Rightarrow> string" where
  "LiteralTypeToStr L lt =
     (case lt of
        None \<Rightarrow> ''None''
      | Some t \<Rightarrow>
          if GetSimple lt = STRUCT then
            ''simple: STRUCT structure{''
            @ strings_Join (map (\<lambda>x. ''dataclass_type:{key:'' @ fst x @ '' value:{''
                  @ LiteralTypeToStr L (snd x) @ ''}'') (dataclass_fields lt)) '', ''
            @ ''}''
          else type_text L lt)"
  by pat_completeness auto
termination
  by (relation "measure (\<lambda>(L, t). size_option size t)") (auto dest: dataclass_field_size)

declare LiteralTypeToStr.simps [simp del]

subsection \<open>Output variables\<close>

text \<open>Writing a key of a Go map kept as an association list.\<close>

fun put :: "'k \<Rightarrow> 'v \<Rightarrow> ('k \<times> 'v) list \<Rightarrow> ('k \<times> 'v) list" where
  "put k v [] = [(k, v)]"
| "put k v ((k', v') # m) = (if k = k' then (k, v) # m else (k', v') # put k v m)"

lemma map_of_put [simp]: "map_of (put k v m) = (map_of m)(k \<mapsto> v)"
  by (induction m) (auto simp: fun_eq_iff)

definition alias_step ::
    "string \<Rightarrow> string \<times> string \<Rightarrow> (string \<times> string) list \<times> CompileError list \<Rightarrow>
     (string \<times> string) list \<times> CompileError list" where
  "alias_step nodeId = (\<lambda>(var, alias) (aliases, errs).
     if map_of aliases var \<noteq> None then (aliases, errs @ [NewDuplicateAliasErr nodeId alias])
     else (aliases @ [(var, alias)], errs))"

definition output_step ::
    "('c, 's) compile_lib \<Rightarrow> string \<Rightarrow> string \<times> variable \<Rightarrow>
     variable_map \<times> (string \<times> string) list \<times> CompileError list \<Rightarrow>
     variable_map \<times> (string \<times> string) list \<times> CompileError list" where
  "output_step C nodeId = (\<lambda>(paramName, param) (params, aliases, errs).
     case map_of aliases paramName of
       Some alias \<Rightarrow>
         (let rest = filter (\<lambda>(v, _). v \<noteq> paramName) aliases
          in case CloneVariable C param of
               Some newParam \<Rightarrow> (put alias newParam params, rest, errs)
             | None \<Rightarrow> (params, rest, errs @ [NewParameterNotBoundErr nodeId alias]))
     | None \<Rightarrow> (put paramName param params, aliases, errs))"

definition validateEffectiveOutputParameters ::
    "('c, 's) compile_lib \<Rightarrow> nodeBuilder \<Rightarrow> variable_map option \<times> CompileError list" where
  "validateEffectiveOutputParameters C n =
     (let (aliases, errs) = fold (alias_step (nb_Id n)) (nb_OutputAliases n) ([], [])
      in case nb_Iface n of
           None \<Rightarrow> (None, errs)
         | Some iface \<Rightarrow>
             (let (params, rest, errs') =
                    fold (output_step C (nb_Id n)) (GetVariables (iface_Outputs iface)) ([], aliases, errs)
              in (Some params, errs' @ map (\<lambda>(_, alias). NewParameterNotBoundErr (nb_Id n) alias) rest)))"

definition validateOutputVar ::
    "('c, 's) compile_lib \<Rightarrow> nodeBuilder \<Rightarrow> string \<Rightarrow> variable option \<times> CompileError list" where
  "validateOutputVar C n paramName =
     (let (outputs, errs) = validateEffectiveOutputParameters C n
      in if errs = [] then
           (case findVariableByName outputs paramName of
              None \<Rightarrow> (None, [NewVariableNameNotFoundErr (nb_Id n) (nb_Id n) paramName])
            | Some param \<Rightarrow> (Some param, []))
         else (None, errs))"

text \<open>\<open>validateInputVar\<close> returns its parameter and its own \<open>ok\<close>, not that of the scope.\<close>

definition validateInputVar ::
    "nodeBuilder \<Rightarrow> string \<Rightarrow> bool \<Rightarrow> (variable option \<times> bool) \<times> CompileError list" where
  "validateInputVar n paramName requireParamType =
     (case nb_Iface n of
        None \<Rightarrow> ((None, False), [])
      | Some iface \<Rightarrow>
          (case findVariableByName (iface_Inputs iface) paramName of
             Some param \<Rightarrow> ((Some param, True), [])
           | None \<Rightarrow>
               if \<not> requireParamType \<and> containsBindingByVariableName (nb_Inputs n) paramName
               then ((None, False), [])
               else ((None, False), [NewVariableNameNotFoundErr (nb_Id n) (nb_Id n) paramName])))"

definition validateVarType ::
    "('c, 's) typing_lib \<Rightarrow> string \<Rightarrow> string \<Rightarrow> variable \<Rightarrow> lt_ptr \<Rightarrow> CompileError list" where
  "validateVarType L nodeID paramName param expectedType =
     (if type_text L param \<noteq> type_text L expectedType
      then [NewMismatchingTypesErr nodeID paramName (LiteralTypeToStr L param) (LiteralTypeToStr L expectedType)]
      else [])"

definition validateVariables :: "string \<Rightarrow> variable_map option \<Rightarrow> CompileError list" where
  "validateVariables nodeID params =
     concat (map (\<lambda>(paramName, param).
         (if paramName = [] then [NewValueRequiredErr nodeID ''paramName''] else [])
         @ (if param = None then [NewValueRequiredErr nodeID ''param.Type''] else []))
       (GetVariables params))"

definition validateNodeID ::
    "nodeBuilder workflowBuilder \<Rightarrow> string \<Rightarrow> nodeBuilder option \<times> CompileError list" where
  "validateNodeID w nodeID =
     (if nodeID = [] then (GetNode w StartNodeID, [])
      else
        (case GetNode w nodeID of
           None \<Rightarrow> (None, [NewNodeReferenceNotFoundErr nodeID nodeID])
         | Some n \<Rightarrow> (Some n, [])))"

subsection \<open>One binding\<close>

record vb =
  vb_type :: lt_ptr
  vb_nodes :: "string list"
  vb_ok :: bool
  vb_errs :: "CompileError list"

type_synonym vb_result = "(vb \<times> promise_store) option"

definition vb_fail :: "CompileError list \<Rightarrow> promise_store \<Rightarrow> vb_result" where
  "vb_fail errs st = Some (\<lparr>vb_type = None, vb_nodes = [], vb_ok = (errs = []), vb_errs = errs\<rparr>, st)"

text \<open>
  Following an attribute path through a type: the type reached, or the missing field. The dataclass map
  of a decoded message is nil when it is empty.
\<close>

fun attr_type :: "attr_path list \<Rightarrow> lt_ptr \<Rightarrow> (lt_ptr \<times> string) + lt_ptr" where
  "attr_type [] sourceType = Inr sourceType"
| "attr_type (attr # attrs) sourceType =
     (if GetCollectionType sourceType \<noteq> None then attr_type attrs (GetCollectionType sourceType)
      else if GetMapValueType sourceType \<noteq> None then attr_type attrs (GetMapValueType sourceType)
      else if dataclass_fields sourceType \<noteq> [] then
        (let key = (case attr of Attr_StringValue s \<Rightarrow> s | Attr_IntValue _ \<Rightarrow> [])
         in case map_of (dataclass_fields sourceType) key of
              None \<Rightarrow> Inl (sourceType, key)
            | Some tmpType \<Rightarrow> attr_type attrs tmpType)
      else attr_type attrs sourceType)"

definition qualified_var :: "string option \<Rightarrow> string \<Rightarrow> string" where
  "qualified_var metadata v = (case metadata of None \<Rightarrow> v | Some name \<Rightarrow> name @ ''.'' @ v)"

definition promise_source ::
    "('c, 's) typing_lib \<Rightarrow> nodeBuilder \<Rightarrow> string \<Rightarrow> nodeBuilder \<Rightarrow> promise \<Rightarrow> Variable \<Rightarrow> variable \<Rightarrow> lt_ptr \<Rightarrow>
     CompileError list \<times> lt_ptr" where
  "promise_source L node nodeParam upNode val v param expectedType =
     (if var_Index v = None then ([], param)
      else
        (case GetCollectionType param of
           None \<Rightarrow> ([NewMismatchingVariablesErr (nb_Id node) (qualified_var (nb_Metadata upNode) (promise_Var val))
                       (LiteralTypeToStr L param) (qualified_var (nb_Metadata node) nodeParam)
                       (LiteralTypeToStr L expectedType)], param)
         | Some cType \<Rightarrow> ([], Some cType)))"

definition validate_promise ::
    "('c, 's) compile_lib \<Rightarrow> nodeBuilder workflowBuilder \<Rightarrow> nodeBuilder \<Rightarrow> string \<Rightarrow> promise \<Rightarrow> lt_ptr \<Rightarrow>
     bool \<Rightarrow> promise_store \<Rightarrow> vb_result" where
  "validate_promise C w node nodeParam val expectedType validateParamTypes st =
     (let (up, errs) = validateNodeID w (st (promise_addr val))
      in if errs \<noteq> [] then vb_fail (errs @ [NewParameterNotBoundErr (nb_Id node) nodeParam]) st
         else
           (case ParseVarName (promise_Var val) of
              Inl err \<Rightarrow> vb_fail [NewSyntaxError (nb_Id node) (promise_Var val) err] st
            | Inr v \<Rightarrow>
                (case up of
                   None \<Rightarrow> None
                 | Some upNode \<Rightarrow>
                     (case validateOutputVar C upNode (var_Name v) of
                        (None, perrs) \<Rightarrow> vb_fail (perrs @ [NewParameterNotBoundErr (nb_Id node) nodeParam]) st
                      | (Some param, _) \<Rightarrow>
                          (let (errs1, sourceType0) =
                                 promise_source (Typing C) node nodeParam upNode val v param expectedType
                           in case attr_type (promise_AttrPath val) sourceType0 of
                                Inl (t, key) \<Rightarrow>
                                  vb_fail (errs1 @ [NewFieldNotFoundErr (nb_Id node) (promise_Var val)
                                    (type_text (Typing C) t) key]) st
                              | Inr sourceType \<Rightarrow>
                                  (case (if validateParamTypes
                                         then AreTypesCastable (Typing C) sourceType expectedType
                                         else Some True) of
                                     None \<Rightarrow> None
                                   | Some True \<Rightarrow>
                                       Some (\<lparr>vb_type = param, vb_nodes = [nb_Id upNode], vb_ok = True,
                                              vb_errs = errs1\<rparr>,
                                             st(promise_addr val := nb_Id upNode))
                                   | Some False \<Rightarrow>
                                       vb_fail (errs1 @ [NewMismatchingVariablesErr (nb_Id node)
                                         (qualified_var (nb_Metadata upNode) (promise_Var val))
                                         (LiteralTypeToStr (Typing C) sourceType)
                                         (qualified_var (nb_Metadata node) nodeParam)
                                         (LiteralTypeToStr (Typing C) expectedType)]) st))))))"

definition validate_scalar ::
    "('c, 's) compile_lib \<Rightarrow> nodeBuilder \<Rightarrow> string \<Rightarrow> scalar \<Rightarrow> lt_ptr \<Rightarrow> bool \<Rightarrow> promise_store \<Rightarrow> vb_result" where
  "validate_scalar C node nodeParam val expectedType validateParamTypes st =
     (let literalType = literalTypeForScalar (Some val);
          type_errs =
            (if literalType = None then
               map_option (\<lambda>v. [NewUnrecognizedValueErr (nb_Id node) (ScalarTypeName C v)]) (scalar_value val)
             else if validateParamTypes then
               map_option (\<lambda>ok. if ok then []
                   else [NewMismatchingTypesErr (nb_Id node) nodeParam (LiteralTypeToStr (Typing C) literalType)
                           (LiteralTypeToStr (Typing C) expectedType)])
                 (AreTypesCastable (Typing C) literalType expectedType)
             else Some []);
          enum_errs =
            (case GetEnumType expectedType of
               None \<Rightarrow> []
             | Some values \<Rightarrow>
                 (let v = GetStringValue (GetPrimitive (Some val))
                  in if v \<in> set values then [] else [NewIllegalEnumValueError (nb_Id node) nodeParam v values]))
      in case type_errs of
           None \<Rightarrow> None
         | Some errs \<Rightarrow>
             Some (\<lparr>vb_type = literalType, vb_nodes = [], vb_ok = (errs @ enum_errs = []),
                    vb_errs = errs @ enum_errs\<rparr>, st))"

abbreviation opt_size :: "('a :: size) option \<Rightarrow> nat" where "opt_size \<equiv> size_option size"

lemma binding_child_size:
  "Option.bind b bd_value = Some (BindingData_Collection (Some bs)) \<Longrightarrow> size_list opt_size bs < opt_size b"
  "Option.bind b bd_value = Some (BindingData_Map (Some m)) \<Longrightarrow> size_list (opt_size \<circ> snd) m < opt_size b"
proof -
  assume "Option.bind b bd_value = Some (BindingData_Collection (Some bs))"
  then have "b = Some (BindingData (Some (BindingData_Collection (Some bs))))"
    by (cases b) (auto intro: binding_data.expand)
  then show "size_list opt_size bs < opt_size b" by simp
next
  assume "Option.bind b bd_value = Some (BindingData_Map (Some m))"
  then have b: "b = Some (BindingData (Some (BindingData_Map (Some m))))"
    by (cases b) (auto intro: binding_data.expand)
  have "size_list (opt_size \<circ> snd) m \<le> size_list (size_prod (\<lambda>_. 0) opt_size) m"
    by (induction m) auto
  then show "size_list (opt_size \<circ> snd) m < opt_size b" unfolding b by simp
qed

lemma variants_size:
  "GetUnionType e = Some vs \<Longrightarrow> size_list opt_size vs < opt_size e"
proof -
  assume "GetUnionType e = Some vs"
  then obtain t where t: "e = Some t" "lt_type t = Some (LT_UnionType (Some vs))"
    by (cases e) (auto simp: GetUnionType_def GetType_def split: option.splits lt_kind.splits)
  then show ?thesis by (cases t) auto
qed

function validateBinding ::
    "('c, 's) compile_lib \<Rightarrow> nodeBuilder workflowBuilder \<Rightarrow> nodeBuilder \<Rightarrow> string \<Rightarrow> bd_ptr \<Rightarrow> lt_ptr \<Rightarrow>
     bool \<Rightarrow> promise_store \<Rightarrow> vb_result"
and validate_variants ::
    "('c, 's) compile_lib \<Rightarrow> nodeBuilder workflowBuilder \<Rightarrow> nodeBuilder \<Rightarrow> string \<Rightarrow> bd_ptr \<Rightarrow> lt_ptr list \<Rightarrow>
     lt_ptr \<Rightarrow> (lt_ptr \<times> vb) option \<Rightarrow> bool \<Rightarrow> promise_store \<Rightarrow> vb_result"
and validate_elements ::
    "('c, 's) compile_lib \<Rightarrow> nodeBuilder workflowBuilder \<Rightarrow> nodeBuilder \<Rightarrow> string \<Rightarrow> bd_ptr list \<Rightarrow> lt_ptr \<Rightarrow>
     vb \<Rightarrow> bool \<Rightarrow> promise_store \<Rightarrow> vb_result"
where
  "validateBinding C w node nodeParam binding expectedType validateParamTypes st =
     (case Option.bind binding bd_value of
        Some (BindingData_Scalar None) \<Rightarrow> vb_fail [NewParameterNotBoundErr (nb_Id node) nodeParam] st
      | Some (BindingData_Scalar (Some val)) \<Rightarrow>
          validate_scalar C node nodeParam val expectedType validateParamTypes st
      | Some (BindingData_Promise None) \<Rightarrow> vb_fail [NewParameterNotBoundErr (nb_Id node) nodeParam] st
      | Some (BindingData_Promise (Some val)) \<Rightarrow>
          validate_promise C w node nodeParam val expectedType validateParamTypes st
      | value \<Rightarrow>
          (case GetUnionType expectedType of
             Some variants \<Rightarrow>
               validate_variants C w node nodeParam binding variants expectedType None validateParamTypes st
           | None \<Rightarrow>
               (case value of
                  Some (BindingData_Collection None) \<Rightarrow> vb_fail [NewParameterNotBoundErr (nb_Id node) nodeParam] st
                | Some (BindingData_Collection (Some bs)) \<Rightarrow>
                    (case GetCollectionType expectedType of
                       Some t \<Rightarrow>
                         map_option (map_prod (\<lambda>r. r\<lparr>vb_type := lt_of (LT_CollectionType (vb_type r)),
                             vb_ok := (vb_errs r = [])\<rparr>) (\<lambda>s. s))
                           (validate_elements C w node nodeParam bs (Some t)
                             \<lparr>vb_type = None, vb_nodes = [], vb_ok = True, vb_errs = []\<rparr> validateParamTypes st)
                     | None \<Rightarrow>
                         vb_fail [NewMismatchingBindingsErr (nb_Id node) nodeParam
                           (type_text (Typing C) expectedType) (ValueString C st (BindingData_Collection (Some bs)))] st)
                | Some (BindingData_Map None) \<Rightarrow> vb_fail [NewParameterNotBoundErr (nb_Id node) nodeParam] st
                | Some (BindingData_Map (Some m)) \<Rightarrow>
                    (case GetMapValueType expectedType of
                       Some t \<Rightarrow>
                         map_option (map_prod (\<lambda>r. r\<lparr>vb_type := lt_of (LT_MapValueType (vb_type r)),
                             vb_ok := (vb_errs r = [])\<rparr>) (\<lambda>s. s))
                           (validate_elements C w node nodeParam (map snd m) (Some t)
                             \<lparr>vb_type = None, vb_nodes = [], vb_ok = True, vb_errs = []\<rparr> validateParamTypes st)
                     | None \<Rightarrow>
                         vb_fail [NewMismatchingBindingsErr (nb_Id node) nodeParam
                           (type_text (Typing C) expectedType) (ValueString C st (BindingData_Map (Some m)))] st)
                | _ \<Rightarrow> vb_fail [NewMismatchingBindingsErr (nb_Id node) nodeParam
                       (type_text (Typing C) expectedType) []] st)))"
| "validate_variants C w node nodeParam binding [] expectedType found validateParamTypes st =
     (case found of
        Some (_, r) \<Rightarrow> Some (r\<lparr>vb_errs := []\<rparr>, st)
      | None \<Rightarrow>
          vb_fail [NewIncompatibleBindingUnionValue (nb_Id node) nodeParam (type_text (Typing C) expectedType)
            (BindingString C st binding)] st)"
| "validate_variants C w node nodeParam binding (t # ts) expectedType found validateParamTypes st =
     (case validateBinding C w node nodeParam binding t validateParamTypes st of
        None \<Rightarrow> None
      | Some (r, st') \<Rightarrow>
          if vb_ok r then
            (case found of
               Some (matchingType, _) \<Rightarrow>
                 vb_fail [NewAmbiguousBindingUnionValue (nb_Id node) nodeParam (type_text (Typing C) expectedType)
                   (BindingString C st' binding) (type_text (Typing C) matchingType) (type_text (Typing C) t)] st'
             | None \<Rightarrow> validate_variants C w node nodeParam binding ts expectedType (Some (t, r)) validateParamTypes st')
          else validate_variants C w node nodeParam binding ts expectedType found validateParamTypes st')"
| "validate_elements C w node nodeParam [] elementType acc validateParamTypes st = Some (acc, st)"
| "validate_elements C w node nodeParam (b # bs) elementType acc validateParamTypes st =
     (case validateBinding C w node nodeParam b elementType validateParamTypes st of
        None \<Rightarrow> None
      | Some (r, st') \<Rightarrow>
          (let acc1 = acc\<lparr>vb_errs := vb_errs acc @ vb_errs r\<rparr>;
               acc2 = (if vb_ok r then acc1\<lparr>vb_nodes := vb_nodes acc @ vb_nodes r, vb_type := vb_type r\<rparr> else acc1)
           in validate_elements C w node nodeParam bs elementType acc2 validateParamTypes st'))"
  by pat_completeness auto
termination
  by (relation "measures [
      case_sum (\<lambda>(C, w, n, p, b, t, v, st). opt_size b)
        (case_sum (\<lambda>(C, w, n, p, b, ts, e, f, v, st). opt_size b) (\<lambda>(C, w, n, p, bs, t, a, v, st). size_list opt_size bs)),
      case_sum (\<lambda>(C, w, n, p, b, t, v, st). opt_size t)
        (case_sum (\<lambda>(C, w, n, p, b, ts, e, f, v, st). size_list opt_size ts) (\<lambda>_. 0))]")
    (auto simp: variants_size binding_child_size)

declare validateBinding.simps [simp del]

subsection \<open>All bindings of a node\<close>

text \<open>\<open>IsOptionalType\<close> asks each variant for its simple type, which is the zero value for every other kind.\<close>

definition IsOptionalType :: "variable \<Rightarrow> bool" where
  "IsOptionalType v =
     (case GetUnionType v of None \<Rightarrow> False | Some variants \<Rightarrow> list_ex (\<lambda>t. GetSimple t = NONE) variants)"

definition add_edge ::
    "EdgeDirection \<Rightarrow> string \<Rightarrow> string \<Rightarrow> 'n workflowBuilder \<Rightarrow> 'n workflowBuilder" where
  "add_edge edgeDirection nodeId upNode w =
     (case edgeDirection of
        EdgeDirectionBidirectional \<Rightarrow> AddExecutionEdge upNode nodeId w
      | EdgeDirectionDownstream \<Rightarrow> AddDownstreamEdge upNode nodeId w
      | EdgeDirectionUpstream \<Rightarrow> AddUpstreamEdge upNode nodeId w)"

record bind_state =
  bs_provided :: "string list"
  bs_resolved :: variable_map
  bs_errs :: "CompileError list"
  bs_w :: "nodeBuilder workflowBuilder"
  bs_store :: promise_store

definition bind_step ::
    "('c, 's) compile_lib \<Rightarrow> nodeBuilder \<Rightarrow> variable_map option \<Rightarrow> bool \<Rightarrow> EdgeDirection \<Rightarrow> binding \<Rightarrow>
     bind_state \<Rightarrow> bind_state option" where
  "bind_step C node params validateParamTypes edgeDirection b s =
     (let nodeId = nb_Id node; param = findVariableByName params (binding_Var b)
      in if param = None \<and> validateParamTypes then
           Some (s\<lparr>bs_errs := bs_errs s @ [NewVariableNameNotFoundErr nodeId nodeId (binding_Var b)]\<rparr>)
         else if binding_Binding b = None then
           Some (s\<lparr>bs_errs := bs_errs s @ [NewValueRequiredErr nodeId ''Binding'']\<rparr>)
         else if binding_Var b \<in> set (bs_provided s) then
           Some (s\<lparr>bs_errs := bs_errs s @ [NewParameterBoundMoreThanOnceErr nodeId (binding_Var b)]\<rparr>)
         else
           (let paramType = (case param of None \<Rightarrow> lt_of (LT_Simple NONE) | Some t \<Rightarrow> t)
            in case validateBinding C (bs_w s) node (binding_Var b) (binding_Binding b) paramType
                      validateParamTypes (bs_store s) of
                 None \<Rightarrow> None
               | Some (r, st) \<Rightarrow>
                   (let s1 = s\<lparr>bs_provided := binding_Var b # bs_provided s,
                               bs_errs := bs_errs s @ vb_errs r, bs_store := st\<rparr>
                    in if vb_ok r then
                         Some (s1\<lparr>bs_w := fold (add_edge edgeDirection nodeId) (vb_nodes r) (bs_w s),
                                  bs_resolved := put (binding_Var b) (vb_type r) (bs_resolved s)\<rparr>)
                       else Some s1)))"

fun bind_loop ::
    "('c, 's) compile_lib \<Rightarrow> nodeBuilder \<Rightarrow> variable_map option \<Rightarrow> bool \<Rightarrow> EdgeDirection \<Rightarrow> binding list \<Rightarrow>
     bind_state \<Rightarrow> bind_state option" where
  "bind_loop C node params validateParamTypes edgeDirection [] s = Some s"
| "bind_loop C node params validateParamTypes edgeDirection (b # bs) s =
     Option.bind (bind_step C node params validateParamTypes edgeDirection b s)
       (bind_loop C node params validateParamTypes edgeDirection bs)"

definition unbound_errs :: "string \<Rightarrow> variable_map option \<Rightarrow> string list \<Rightarrow> CompileError list" where
  "unbound_errs nodeId params provided =
     concat (map (\<lambda>(paramName, v).
         if paramName \<notin> set provided \<and> \<not> IsOptionalType v then [NewParameterNotBoundErr nodeId paramName] else [])
       (GetVariables params))"

definition ValidateBindings ::
    "('c, 's) compile_lib \<Rightarrow> nodeBuilder workflowBuilder \<Rightarrow> nodeBuilder \<Rightarrow> binding list \<Rightarrow> variable_map option \<Rightarrow>
     bool \<Rightarrow> EdgeDirection \<Rightarrow> promise_store \<Rightarrow> bind_state option" where
  "ValidateBindings C w node bindings params validateParamTypes edgeDirection st =
     map_option (\<lambda>s. s\<lparr>bs_errs := bs_errs s @ unbound_errs (nb_Id node) params (bs_provided s)\<rparr>)
       (bind_loop C node params validateParamTypes edgeDirection bindings
         \<lparr>bs_provided = [], bs_resolved = [], bs_errs = [], bs_w = w, bs_store = st\<rparr>)"

subsection \<open>The upstream nodes of a binding\<close>

text \<open>The node index files every node under its own id, the ids are not empty, and the start node is there.\<close>

definition index_ok :: "nodeBuilder workflowBuilder \<Rightarrow> bool" where
  "index_ok w \<longleftrightarrow>
     (\<forall>(i, n) \<in> set (Nodes w). nb_Id n = i \<and> i \<noteq> []) \<and> StartNodeID \<in> node_ids w"

lemma GetNode_id: "index_ok w \<Longrightarrow> GetNode w i = Some n \<Longrightarrow> nb_Id n \<in> node_ids w"
  by (auto simp: index_ok_def GetNode_def node_ids_def toNodeIdsSet_def dest!: map_of_SomeD)
    (metis (mono_tags, lifting) case_prodD fst_conv image_eqI)

lemma validateNodeID_id:
  "index_ok w \<Longrightarrow> validateNodeID w i = (Some n, errs) \<Longrightarrow> nb_Id n \<in> node_ids w"
  by (auto simp: validateNodeID_def GetNode_id split: if_splits option.splits)

lemma vb_fail_nodes: "vb_fail errs st = Some (r, st') \<Longrightarrow> vb_nodes r = []"
  by (auto simp: vb_fail_def)

lemma validate_scalar_nodes:
  "validate_scalar C node p val e v st = Some (r, st') \<Longrightarrow> vb_nodes r = []"
  by (auto simp: validate_scalar_def Let_def split: option.splits)

lemma validate_promise_nodes:
  assumes "index_ok w" "validate_promise C w node p val e v st = Some (r, st')"
  shows "set (vb_nodes r) \<subseteq> node_ids w"
proof (cases "vb_nodes r = []")
  case False
  then obtain up errs where up: "validateNodeID w (st (promise_addr val)) = (Some up, errs)" "vb_nodes r = [nb_Id up]"
    using assms(2)
    by (auto simp: validate_promise_def Let_def vb_fail_nodes split: if_splits option.splits sum.splits
        prod.splits bool.splits dest: vb_fail_nodes)
  then show ?thesis using validateNodeID_id [OF assms(1) up(1)] by simp
qed simp

lemma binding_nodes:
  assumes w: "index_ok w"
  shows "validateBinding C w node p b e v st = Some (r, st') \<Longrightarrow> set (vb_nodes r) \<subseteq> node_ids w"
    and "validate_variants C w node p b ts e found v st = Some (r, st') \<Longrightarrow>
      (\<forall>t r0. found = Some (t, r0) \<longrightarrow> set (vb_nodes r0) \<subseteq> node_ids w) \<Longrightarrow> set (vb_nodes r) \<subseteq> node_ids w"
    and "validate_elements C w node p bs e acc v st = Some (r, st') \<Longrightarrow> set (vb_nodes acc) \<subseteq> node_ids w \<Longrightarrow>
      set (vb_nodes r) \<subseteq> node_ids w"
  using w
proof (induction C w node p b e v st and C w node p b ts e found v st and C w node p bs e acc v st
    arbitrary: r st' and r st' and r st' rule: validateBinding_validate_variants_validate_elements.induct)
  case (1 C w node p b e v st)
  show ?case
    using "1.prems" "1.IH" 
    by (subst (asm) validateBinding.simps)
      (auto split: option.splits binding_value.splits dest: vb_fail_nodes validate_scalar_nodes
        validate_promise_nodes [THEN subsetD], blast+)
next
  case (2 C w node p b e found v st)
  then show ?case by (auto split: option.splits dest: vb_fail_nodes)
next
  case (3 C w node p b t ts e found v st)
  then show ?case
    by (auto split: option.splits prod.splits if_splits dest: vb_fail_nodes)
next
  case (4 C w node p e acc v st)
  then show ?case by auto
next
  case (5 C w node p b bs e acc v st)
  then show ?case by (auto simp: Let_def split: option.splits prod.splits if_splits)
qed

subsection \<open>What acceptance means\<close>

lemma add_edge_nodes [simp]: "Nodes (add_edge d i u w) = Nodes w"
  by (cases d) (simp_all add: add_edge_def AddExecutionEdge_def AddUpstreamEdge_def AddDownstreamEdge_def Let_def)

lemma fold_add_edge_nodes [simp]: "Nodes (fold (add_edge d i) us w) = Nodes w"
  by (induction us arbitrary: w) simp_all

lemma node_ids_cong: "Nodes w = Nodes w' \<Longrightarrow> node_ids w = node_ids w'"
  by (simp add: node_ids_def)

lemma index_ok_cong: "Nodes w = Nodes w' \<Longrightarrow> index_ok w = index_ok w'"
  by (simp add: index_ok_def node_ids_def)

lemma add_edge_step_rel:
  "down_edges (add_edge d i u w) \<subseteq> insert (provider_id u, i) (down_edges w)"
  "up_edges (add_edge d i u w) \<subseteq> insert (provider_id u, i) (up_edges w)"
  by (cases d; simp add: add_edge_def edge_op_rel edge_both_rel subset_insertI)+

lemma add_edge_rel:
  "down_edges (fold (add_edge d i) us w) \<subseteq> down_edges w \<union> {(provider_id u, i) |u. u \<in> set us}"
  "up_edges (fold (add_edge d i) us w) \<subseteq> up_edges w \<union> {(provider_id u, i) |u. u \<in> set us}"
proof (induction us arbitrary: w)
  case (Cons u us)
  {
    case 1
    show ?case using Cons.IH(1) [of "add_edge d i u w"] add_edge_step_rel(1) [of d i u w] by fastforce
  next
    case 2
    show ?case using Cons.IH(2) [of "add_edge d i u w"] add_edge_step_rel(2) [of d i u w] by fastforce
  }
qed simp_all

lemma provider_in_index: "index_ok w \<Longrightarrow> u \<in> node_ids w \<Longrightarrow> provider_id u \<in> node_ids w"
  by (simp add: provider_id_def index_ok_def)

definition new_edges_ok :: "nodeBuilder workflowBuilder \<Rightarrow> string \<Rightarrow> nodeBuilder workflowBuilder \<Rightarrow> bool" where
  "new_edges_ok w i w' \<longleftrightarrow> Nodes w' = Nodes w \<and>
     (\<forall>(u, v) \<in> (down_edges w' - down_edges w) \<union> (up_edges w' - up_edges w). v = i \<and> u \<in> node_ids w)"

lemma bind_step_edges:
  assumes "bind_step C node params vpt d b s = Some s'" "index_ok (bs_w s)"
  shows "new_edges_ok (bs_w s) (nb_Id node) (bs_w s')"
proof (cases "bs_w s' = bs_w s")
  case False
  then obtain p e r st where r:
    "validateBinding C (bs_w s) node p (binding_Binding b) e vpt (bs_store s) = Some (r, st)"
    "bs_w s' = fold (add_edge d (nb_Id node)) (vb_nodes r) (bs_w s)"
    using assms(1) by (auto simp: bind_step_def Let_def split: if_splits option.splits)
  have n: "provider_id u \<in> node_ids (bs_w s)" if "u \<in> set (vb_nodes r)" for u
    using binding_nodes(1) [OF assms(2) r(1)] that provider_in_index [OF assms(2)] by blast
  show ?thesis
    unfolding new_edges_ok_def r(2)
    using add_edge_rel [of d "nb_Id node" "vb_nodes r" "bs_w s"] n by auto
qed (simp add: new_edges_ok_def)

lemma new_edges_ok_trans:
  "new_edges_ok w i w' \<Longrightarrow> new_edges_ok w' i w'' \<Longrightarrow> new_edges_ok w i w''"
  using node_ids_cong [of w' w] unfolding new_edges_ok_def by fastforce

lemma bind_loop_edges:
  "bind_loop C node params vpt d bs s = Some s' \<Longrightarrow> index_ok (bs_w s) \<Longrightarrow>
     new_edges_ok (bs_w s) (nb_Id node) (bs_w s')"
proof (induction bs arbitrary: s)
  case (Cons b bs)
  from Cons.prems(1) obtain s1 where s1: "bind_step C node params vpt d b s = Some s1"
    "bind_loop C node params vpt d bs s1 = Some s'" by (auto simp: bind_eq_Some_conv)
  have step: "new_edges_ok (bs_w s) (nb_Id node) (bs_w s1)"
    by (rule bind_step_edges [OF s1(1) Cons.prems(2)])
  then have "index_ok (bs_w s1)" using Cons.prems(2) index_ok_cong by (simp add: new_edges_ok_def index_ok_def node_ids_def)
  then show ?case using Cons.IH [OF s1(2)] new_edges_ok_trans [OF step] by blast
qed (auto simp: new_edges_ok_def)

text \<open>
  Property C29. Validating the bindings of a node changes the graph only by edges into that node, and every
  new edge starts at a node of the index, the empty reference standing for the start node.
\<close>

theorem bindings_add_known_edges:
  assumes "index_ok w" "ValidateBindings C w node bindings params vpt d st = Some s"
    and "(u, v) \<in> (down_edges (bs_w s) - down_edges w) \<union> (up_edges (bs_w s) - up_edges w)"
  shows "v = nb_Id node \<and> u \<in> node_ids w \<and> Nodes (bs_w s) = Nodes w"
proof -
  obtain s0 where "bind_loop C node params vpt d bindings
      \<lparr>bs_provided = [], bs_resolved = [], bs_errs = [], bs_w = w, bs_store = st\<rparr> = Some s0" "bs_w s = bs_w s0"
    using assms(2) by (auto simp: ValidateBindings_def)
  from bind_loop_edges [OF this(1)] this(2) assms(1,3) show ?thesis
    unfolding new_edges_ok_def by auto
qed

lemma bind_step_errs:
  assumes "bind_step C node params vpt d b s = Some s'"
  shows "\<exists>es. bs_errs s' = bs_errs s @ es" and "set (bs_provided s) \<subseteq> set (bs_provided s')"
    and "bs_errs s' = [] \<Longrightarrow> binding_Var b \<notin> set (bs_provided s) \<and>
      bs_provided s' = binding_Var b # bs_provided s \<and>
      (vpt \<longrightarrow> findVariableByName params (binding_Var b) \<noteq> None) \<and> binding_Binding b \<noteq> None"
  using assms by (auto simp: bind_step_def Let_def split: if_splits option.splits)

lemma bind_loop_errs:
  "bind_loop C node params vpt d bs s = Some s' \<Longrightarrow>
     (\<exists>es. bs_errs s' = bs_errs s @ es) \<and>
     (bs_errs s' = [] \<longrightarrow>
        set (bs_provided s') = set (bs_provided s) \<union> set (map binding_Var bs) \<and>
        distinct (map binding_Var bs) \<and> set (map binding_Var bs) \<inter> set (bs_provided s) = {} \<and>
        (\<forall>b \<in> set bs. (vpt \<longrightarrow> findVariableByName params (binding_Var b) \<noteq> None) \<and> binding_Binding b \<noteq> None))"
proof (induction bs arbitrary: s)
  case (Cons b bs)
  from Cons.prems obtain s1 where s1: "bind_step C node params vpt d b s = Some s1"
    "bind_loop C node params vpt d bs s1 = Some s'" by (auto simp: bind_eq_Some_conv)
  note IH = Cons.IH [OF s1(2)]
  obtain es1 es2 where es: "bs_errs s1 = bs_errs s @ es1" "bs_errs s' = bs_errs s1 @ es2"
    using bind_step_errs(1) [OF s1(1)] IH by auto
  show ?case
  proof (cases "bs_errs s' = []")
    case True
    then have "bs_errs s1 = []" using es by simp
    then show ?thesis
      using bind_step_errs(3) [OF s1(1)] IH True es by auto
  qed (use es in auto)
qed auto

lemma unbound_errs_empty:
  "unbound_errs i params provided = [] \<longleftrightarrow>
     (\<forall>(name, v) \<in> set (GetVariables params). name \<in> set provided \<or> IsOptionalType v)"
  by (fastforce simp: unbound_errs_def split: if_splits)


text \<open>
  What the code takes for an optional type: a union with a none variant, but also every union with a
  variant that is not a simple type at all, such as a list or a blob.
\<close>

lemma optional_type_iff:
  "IsOptionalType v \<longleftrightarrow>
     (\<exists>variants. GetUnionType v = Some variants \<and>
        (\<exists>t \<in> set variants. isNoneType t \<or> (\<forall>s. GetType t \<noteq> Some (LT_Simple s))))"
proof -
  have "GetSimple t = NONE \<longleftrightarrow> isNoneType t \<or> (\<forall>s. GetType t \<noteq> Some (LT_Simple s))" for t
    by (auto simp: isNoneType_def GetSimple_def split: option.split lt_kind.split)
  then show ?thesis by (auto simp: IsOptionalType_def list_ex_iff split: option.split)
qed

text \<open>
  A scalar binding whose value is not set brings the compiler down, whatever type is expected: the code
  asks for the name of the reflected type of a nil value instead of reporting an unrecognized value.
\<close>

lemma unset_scalar_panics:
  "validateBinding C w node nodeParam (Some (BindingData (Some (BindingData_Scalar (Some (Scalar None))))))
     expectedType validateParamTypes st = None"
  by (simp add: validateBinding.simps [of C w node nodeParam "Some _"] validate_scalar_def
      literalTypeForScalar_def Let_def)

subsection \<open>Witnesses\<close>

text \<open>A node with one integer input, bound to an integer input of the workflow.\<close>

definition sample_clib :: "(unit, unit) compile_lib" where
  "sample_clib = \<lparr>Typing = sample_lib, CloneVariable = Some, BindingString = (\<lambda>_ _. []),
     ValueString = (\<lambda>_ _. []), ScalarTypeName = (\<lambda>_. [])\<rparr>"

definition sample_start :: nodeBuilder where
  "sample_start = \<lparr>nb_Id = StartNodeID, nb_Metadata = None, nb_Inputs = [], nb_OutputAliases = [],
     nb_UpstreamNodeIds = [],
     nb_Iface = Some \<lparr>iface_Inputs = None, iface_Outputs = Some [(''x'', Some int_type)]\<rparr>\<rparr>"

definition sample_inputs :: "binding list" where
  "sample_inputs = [\<lparr>binding_Var = ''y'', binding_Binding = Some (BindingData (Some (BindingData_Promise
     (Some \<lparr>promise_addr = 0, promise_Var = ''x'', promise_AttrPath = []\<rparr>))))\<rparr>]"

definition sample_node :: nodeBuilder where
  "sample_node = \<lparr>nb_Id = ''n'', nb_Metadata = None, nb_Inputs = sample_inputs, nb_OutputAliases = [],
     nb_UpstreamNodeIds = [],
     nb_Iface = Some \<lparr>iface_Inputs = Some [(''y'', Some int_type)], iface_Outputs = None\<rparr>\<rparr>"

definition sample_builder :: "nodeBuilder workflowBuilder" where
  "sample_builder = AddNode ''n'' sample_node (AddNode StartNodeID sample_start newGraph)"

lemma sample_int_castable: "AreTypesCastable sample_lib (Some int_type) (Some int_type) = Some True"
  by (intro AreTypesCastable_refl_if CastsFrom_refl sample_wf)
    (simp add: json_reflexive_def sample_lib_def)

lemma ParseVarName_name: "is_name s \<Longrightarrow> ParseVarName s = Inr \<lparr>var_Name = s, var_Index = None\<rparr>"
  by (simp add: ParseVarName_def FindAll_name)

lemma sample_builder_facts:
  "index_ok sample_builder" "GetNode sample_builder StartNodeID = Some sample_start"
  "graph_wf sample_builder" "down_edges sample_builder = {}"
  by (auto simp: sample_builder_def AddNode_def newGraph_def index_ok_def node_ids_def toNodeIdsSet_def
      sample_start_def sample_node_def GetNode_def StartNodeID_def graph_wf_def down_edges_def)

lemma sample_validate:
  "\<exists>s. ValidateBindings sample_clib sample_builder sample_node sample_inputs (Some [(''y'', Some int_type)]) True
      EdgeDirectionBidirectional (\<lambda>_. []) = Some s \<and> bs_errs s = [] \<and>
     bs_w s = AddExecutionEdge StartNodeID ''n'' sample_builder"
proof -
  have "is_name ''x''" by (simp add: is_name_def is_word_def)
  then show ?thesis
    by (simp add: ValidateBindings_def sample_inputs_def bind_step_def findVariableByName_def
        validateBinding.simps [of _ _ _ _ "Some _"] validate_promise_def validateNodeID_def
        sample_builder_facts ParseVarName_name validateOutputVar_def validateEffectiveOutputParameters_def
        sample_start_def sample_node_def sample_clib_def sample_int_castable output_step_def GetVariables_def
        promise_source_def unbound_errs_def add_edge_def Let_def)
qed


theorem bindings_add_known_edges_witness:
  "StartNodeID \<in> node_ids sample_builder"
proof -
  obtain s where s: "ValidateBindings sample_clib sample_builder sample_node sample_inputs
      (Some [(''y'', Some int_type)]) True EdgeDirectionBidirectional (\<lambda>_. []) = Some s"
    "bs_w s = AddExecutionEdge StartNodeID ''n'' sample_builder"
    using sample_validate by blast
  have "(StartNodeID, ''n'') \<in> (down_edges (bs_w s) - down_edges sample_builder) \<union>
      (up_edges (bs_w s) - up_edges sample_builder)"
    by (simp add: s(2) edge_both_rel sample_builder_facts provider_id_def StartNodeID_def)
  from bindings_add_known_edges [OF sample_builder_facts(1) s(1) this] show ?thesis by blast
qed

end
