(* ===== verification/Node_Substatus.thy ===== *)
theory Node_Substatus
  imports Compact_Array
begin

section \<open>Per-kind node statuses (v1alpha1/node\_status.go, error.go)\<close>

text \<open>
  The records in which a node keeps the state of its kind: branch, dynamic, workflow, gate, array and
  task. Each embeds a dirty flag that its setters raise when the record has to be written back.

  The code compares some fields as pointers. An execution error and a finalized node id
  carry the address they live at, pointer comparison is comparison of addresses, and content
  comparison ignores them. A \<open>CompactArray\<close> holds its bits behind a pointer: the struct comparison of
  the setters compares the address and the two sizes, \<open>reflect.DeepEqual\<close> the contents. What lives at an
  address is not changed in place: the state manager hands out deep copies.
\<close>

type_synonym addr = nat
type_synonym time = nat  \<comment> \<open>0 is the zero time\<close>

subsection \<open>Execution errors\<close>

datatype error_kind = Kind_UNKNOWN | Kind_USER | Kind_SYSTEM

record ExecutionError =
  ee_addr :: addr
  ee_Code :: string
  ee_Message :: string
  ee_ErrorUri :: string
  ee_Kind :: error_kind

definition error_content :: "ExecutionError \<Rightarrow> string \<times> string \<times> string \<times> error_kind" where
  "error_content e = (ee_Code e, ee_Message e, ee_ErrorUri e, ee_Kind e)"

text \<open>Both as pointers and by \<open>proto.Equal\<close>, with the nil cases of the \<open>Equals\<close> methods.\<close>

definition same_pointer :: "ExecutionError option \<Rightarrow> ExecutionError option \<Rightarrow> bool" where
  "same_pointer a b = (map_option ee_addr a = map_option ee_addr b)"

definition ExecutionError_Equals :: "ExecutionError option \<Rightarrow> ExecutionError option \<Rightarrow> bool" where
  "ExecutionError_Equals a b =
     (case (a, b) of
        (None, None) \<Rightarrow> True
      | (Some x, Some y) \<Rightarrow> error_content x = error_content y
      | _ \<Rightarrow> False)"

subsection \<open>Dirty tracking\<close>

text \<open>
  The contract of a mutable status: once raised the flag stays up, and an operation that changes what is
  written back raises it. A run of operations then cannot lose a change.
\<close>

locale tracked =
  fixes dirty :: "'s \<Rightarrow> bool" and content :: "'s \<Rightarrow> 'c" and step :: "'o \<Rightarrow> 's \<Rightarrow> 's"
  assumes dirty_stays: "dirty s \<Longrightarrow> dirty (step op s)"
    and change_dirties: "content (step op s) \<noteq> content s \<Longrightarrow> dirty (step op s)"
begin

lemma run_dirty_stays: "dirty s \<Longrightarrow> dirty (fold step ops s)"
  by (induction ops arbitrary: s) (simp_all add: dirty_stays)

lemma run_change_dirties: "content (fold step ops s) \<noteq> content s \<Longrightarrow> dirty (fold step ops s)"
proof (induction ops arbitrary: s)
  case (Cons op ops)
  show ?case
  proof (cases "content (step op s) = content s")
    case True
    with Cons show ?thesis by simp
  next
    case False
    then show ?thesis using run_dirty_stays [OF change_dirties] by simp
  qed
qed simp

end

subsection \<open>Branch nodes\<close>

datatype BranchNodePhase = BranchNodeNotYetEvaluated | BranchNodeSuccess | BranchNodeError

record BranchNodeStatus =
  br_isDirty :: bool
  br_Phase :: BranchNodePhase
  br_FinalizedNodeID :: "string option"

definition new_BranchNodeStatus :: BranchNodeStatus where
  "new_BranchNodeStatus = \<lparr>br_isDirty = False, br_Phase = BranchNodeNotYetEvaluated, br_FinalizedNodeID = None\<rparr>"

definition SetBranchNodeError :: "BranchNodeStatus \<Rightarrow> BranchNodeStatus" where
  "SetBranchNodeError s = s\<lparr>br_isDirty := True, br_Phase := BranchNodeError\<rparr>"

definition SetBranchNodeSuccess :: "string \<Rightarrow> BranchNodeStatus \<Rightarrow> BranchNodeStatus" where
  "SetBranchNodeSuccess nodeId s =
     s\<lparr>br_isDirty := True, br_Phase := BranchNodeSuccess, br_FinalizedNodeID := Some nodeId\<rparr>"

definition BranchNodeStatus_Equals :: "BranchNodeStatus option \<Rightarrow> BranchNodeStatus option \<Rightarrow> bool" where
  "BranchNodeStatus_Equals a b =
     (case (a, b) of
        (None, None) \<Rightarrow> True
      | (Some x, Some y) \<Rightarrow>
          if br_Phase x = br_Phase y then
            (case (br_FinalizedNodeID x, br_FinalizedNodeID y) of
               (None, None) \<Rightarrow> True
             | (Some i, Some j) \<Rightarrow> i = j
             | _ \<Rightarrow> False)
          else False
      | _ \<Rightarrow> False)"

datatype branch_op = Op_SetBranchNodeError | Op_SetBranchNodeSuccess string

fun branch_step :: "branch_op \<Rightarrow> BranchNodeStatus \<Rightarrow> BranchNodeStatus" where
  "branch_step Op_SetBranchNodeError = SetBranchNodeError"
| "branch_step (Op_SetBranchNodeSuccess i) = SetBranchNodeSuccess i"

interpretation branch_status: tracked br_isDirty "\<lambda>s. s\<lparr>br_isDirty := False\<rparr>" branch_step
  by (unfold_locales; case_tac op) (simp_all add: SetBranchNodeError_def SetBranchNodeSuccess_def)

subsection \<open>Dynamic nodes\<close>

datatype DynamicNodePhase =
  DynamicNodePhaseNone | DynamicNodePhaseExecuting | DynamicNodePhaseFailing
  | DynamicNodePhaseParentFinalizing | DynamicNodePhaseParentFinalized

record DynamicNodeStatus =
  dn_isDirty :: bool
  dn_Phase :: DynamicNodePhase
  dn_Reason :: string
  dn_Error :: "ExecutionError option"
  dn_IsFailurePermanent :: bool

definition new_DynamicNodeStatus :: DynamicNodeStatus where
  "new_DynamicNodeStatus = \<lparr>dn_isDirty = False, dn_Phase = DynamicNodePhaseNone, dn_Reason = [],
     dn_Error = None, dn_IsFailurePermanent = False\<rparr>"

definition SetDynamicNodeReason :: "string \<Rightarrow> DynamicNodeStatus \<Rightarrow> DynamicNodeStatus" where
  "SetDynamicNodeReason reason s =
     (if dn_Reason s \<noteq> reason then s\<lparr>dn_isDirty := True, dn_Reason := reason\<rparr> else s)"

definition SetDynamicNodePhase :: "DynamicNodePhase \<Rightarrow> DynamicNodeStatus \<Rightarrow> DynamicNodeStatus" where
  "SetDynamicNodePhase phase s =
     (if dn_Phase s \<noteq> phase then s\<lparr>dn_isDirty := True, dn_Phase := phase\<rparr> else s)"

definition dn_SetExecutionError :: "ExecutionError option \<Rightarrow> DynamicNodeStatus \<Rightarrow> DynamicNodeStatus" where
  "dn_SetExecutionError err s = s\<lparr>dn_Error := err\<rparr>"

definition SetIsFailurePermanent :: "bool \<Rightarrow> DynamicNodeStatus \<Rightarrow> DynamicNodeStatus" where
  "SetIsFailurePermanent isFailurePermanent s =
     (if dn_IsFailurePermanent s \<noteq> isFailurePermanent
      then s\<lparr>dn_isDirty := True, dn_IsFailurePermanent := isFailurePermanent\<rparr> else s)"

definition DynamicNodeStatus_Equals :: "DynamicNodeStatus option \<Rightarrow> DynamicNodeStatus option \<Rightarrow> bool" where
  "DynamicNodeStatus_Equals a b =
     (case (a, b) of
        (None, None) \<Rightarrow> True
      | (Some x, Some y) \<Rightarrow>
          dn_Phase x = dn_Phase y \<and> dn_Reason x = dn_Reason y
          \<and> dn_IsFailurePermanent x = dn_IsFailurePermanent y \<and> ExecutionError_Equals (dn_Error x) (dn_Error y)
      | _ \<Rightarrow> False)"

datatype dynamic_op = Op_SetDynamicNodeReason string | Op_SetDynamicNodePhase DynamicNodePhase
  | Op_SetIsFailurePermanent bool

fun dynamic_step :: "dynamic_op \<Rightarrow> DynamicNodeStatus \<Rightarrow> DynamicNodeStatus" where
  "dynamic_step (Op_SetDynamicNodeReason r) = SetDynamicNodeReason r"
| "dynamic_step (Op_SetDynamicNodePhase p) = SetDynamicNodePhase p"
| "dynamic_step (Op_SetIsFailurePermanent b) = SetIsFailurePermanent b"

interpretation dynamic_status: tracked dn_isDirty
  "\<lambda>s. s\<lparr>dn_isDirty := False\<rparr>" dynamic_step
  by (unfold_locales; case_tac op)
    (simp_all add: SetDynamicNodeReason_def SetDynamicNodePhase_def SetIsFailurePermanent_def split: if_splits)

subsection \<open>Workflow nodes\<close>

datatype WorkflowNodePhase =
  WorkflowNodePhaseUndefined | WorkflowNodePhaseExecuting | WorkflowNodePhaseFailing

record WorkflowNodeStatus =
  wn_isDirty :: bool
  wn_Phase :: WorkflowNodePhase
  wn_ExecutionError :: "ExecutionError option"

definition new_WorkflowNodeStatus :: WorkflowNodeStatus where
  "new_WorkflowNodeStatus =
     \<lparr>wn_isDirty = False, wn_Phase = WorkflowNodePhaseUndefined, wn_ExecutionError = None\<rparr>"

definition wn_SetExecutionError :: "ExecutionError option \<Rightarrow> WorkflowNodeStatus \<Rightarrow> WorkflowNodeStatus" where
  "wn_SetExecutionError executionError s =
     (if \<not> same_pointer (wn_ExecutionError s) executionError
      then s\<lparr>wn_isDirty := True, wn_ExecutionError := executionError\<rparr> else s)"

definition SetWorkflowNodePhase :: "WorkflowNodePhase \<Rightarrow> WorkflowNodeStatus \<Rightarrow> WorkflowNodeStatus" where
  "SetWorkflowNodePhase phase s =
     (if wn_Phase s \<noteq> phase then s\<lparr>wn_isDirty := True, wn_Phase := phase\<rparr> else s)"

definition WorkflowNodeStatus_Equals :: "WorkflowNodeStatus option \<Rightarrow> WorkflowNodeStatus option \<Rightarrow> bool" where
  "WorkflowNodeStatus_Equals a b =
     (case (a, b) of
        (None, None) \<Rightarrow> True
      | (Some x, Some y) \<Rightarrow>
          ExecutionError_Equals (wn_ExecutionError x) (wn_ExecutionError y) \<and> wn_Phase x = wn_Phase y
      | _ \<Rightarrow> False)"

datatype workflow_node_op = Op_wn_SetExecutionError "ExecutionError option"
  | Op_SetWorkflowNodePhase WorkflowNodePhase

fun workflow_node_step :: "workflow_node_op \<Rightarrow> WorkflowNodeStatus \<Rightarrow> WorkflowNodeStatus" where
  "workflow_node_step (Op_wn_SetExecutionError e) = wn_SetExecutionError e"
| "workflow_node_step (Op_SetWorkflowNodePhase p) = SetWorkflowNodePhase p"

interpretation workflow_node_status: tracked wn_isDirty
  "\<lambda>s. s\<lparr>wn_isDirty := False\<rparr>" workflow_node_step
  by (unfold_locales; case_tac op)
    (simp_all add: wn_SetExecutionError_def SetWorkflowNodePhase_def split: if_splits)

subsection \<open>Gate nodes\<close>

datatype GateNodePhase = GateNodePhaseUndefined | GateNodePhaseExecuting

record GateNodeStatus =
  gn_isDirty :: bool
  gn_Phase :: GateNodePhase

definition new_GateNodeStatus :: GateNodeStatus where
  "new_GateNodeStatus = \<lparr>gn_isDirty = False, gn_Phase = GateNodePhaseUndefined\<rparr>"

definition SetGateNodePhase :: "GateNodePhase \<Rightarrow> GateNodeStatus \<Rightarrow> GateNodeStatus" where
  "SetGateNodePhase phase s =
     (if gn_Phase s \<noteq> phase then s\<lparr>gn_isDirty := True, gn_Phase := phase\<rparr> else s)"

definition GateNodeStatus_Equals :: "GateNodeStatus option \<Rightarrow> GateNodeStatus option \<Rightarrow> bool" where
  "GateNodeStatus_Equals a b =
     (case (a, b) of
        (None, None) \<Rightarrow> True
      | (Some x, Some y) \<Rightarrow> gn_Phase x = gn_Phase y
      | _ \<Rightarrow> False)"

interpretation gate_status: tracked gn_isDirty "\<lambda>s. s\<lparr>gn_isDirty := False\<rparr>" SetGateNodePhase
  by unfold_locales (simp_all add: SetGateNodePhase_def split: if_splits)

subsection \<open>Array nodes\<close>

datatype ArrayNodePhase =
  ArrayNodePhaseNone | ArrayNodePhaseExecuting | ArrayNodePhaseFailing | ArrayNodePhaseSucceeding

type_synonym array_ref = "addr \<times> CompactArray"

definition same_struct :: "array_ref \<Rightarrow> array_ref \<Rightarrow> bool" where
  "same_struct a b =
     (fst a = fst b \<and> ItemSize (snd a) = ItemSize (snd b) \<and> ItemsCount (snd a) = ItemsCount (snd b))"

record ArrayNodeStatus =
  an_isDirty :: bool
  an_Phase :: ArrayNodePhase
  an_ExecutionError :: "ExecutionError option"
  an_SubNodePhases :: array_ref
  an_SubNodeTaskPhases :: array_ref
  an_SubNodeRetryAttempts :: array_ref
  an_SubNodeSystemFailures :: array_ref
  an_SubNodeDeltaTimestamps :: array_ref
  an_TaskPhaseVersion :: uint32

definition nil_array :: array_ref where
  "nil_array = (0, \<lparr>CA_BitSet = None, ItemSize = 0, ItemsCount = 0\<rparr>)"

definition new_ArrayNodeStatus :: ArrayNodeStatus where
  "new_ArrayNodeStatus = \<lparr>an_isDirty = False, an_Phase = ArrayNodePhaseNone, an_ExecutionError = None,
     an_SubNodePhases = nil_array, an_SubNodeTaskPhases = nil_array, an_SubNodeRetryAttempts = nil_array,
     an_SubNodeSystemFailures = nil_array, an_SubNodeDeltaTimestamps = nil_array, an_TaskPhaseVersion = 0\<rparr>"

definition SetArrayNodePhase :: "ArrayNodePhase \<Rightarrow> ArrayNodeStatus \<Rightarrow> ArrayNodeStatus" where
  "SetArrayNodePhase phase s =
     (if an_Phase s \<noteq> phase then s\<lparr>an_isDirty := True, an_Phase := phase\<rparr> else s)"

definition an_SetExecutionError :: "ExecutionError option \<Rightarrow> ArrayNodeStatus \<Rightarrow> ArrayNodeStatus" where
  "an_SetExecutionError executionError s =
     (if \<not> same_pointer (an_ExecutionError s) executionError
      then s\<lparr>an_isDirty := True, an_ExecutionError := executionError\<rparr> else s)"

definition SetSubNodePhases :: "array_ref \<Rightarrow> ArrayNodeStatus \<Rightarrow> ArrayNodeStatus" where
  "SetSubNodePhases subNodePhases s =
     (if \<not> same_struct (an_SubNodePhases s) subNodePhases
      then s\<lparr>an_isDirty := True, an_SubNodePhases := subNodePhases\<rparr> else s)"

definition SetSubNodeTaskPhases :: "array_ref \<Rightarrow> ArrayNodeStatus \<Rightarrow> ArrayNodeStatus" where
  "SetSubNodeTaskPhases subNodeTaskPhases s =
     (if \<not> same_struct (an_SubNodeTaskPhases s) subNodeTaskPhases
      then s\<lparr>an_isDirty := True, an_SubNodeTaskPhases := subNodeTaskPhases\<rparr> else s)"

definition SetSubNodeRetryAttempts :: "array_ref \<Rightarrow> ArrayNodeStatus \<Rightarrow> ArrayNodeStatus" where
  "SetSubNodeRetryAttempts subNodeRetryAttempts s =
     (if \<not> same_struct (an_SubNodeRetryAttempts s) subNodeRetryAttempts
      then s\<lparr>an_isDirty := True, an_SubNodeRetryAttempts := subNodeRetryAttempts\<rparr> else s)"

definition SetSubNodeSystemFailures :: "array_ref \<Rightarrow> ArrayNodeStatus \<Rightarrow> ArrayNodeStatus" where
  "SetSubNodeSystemFailures subNodeSystemFailures s =
     (if \<not> same_struct (an_SubNodeSystemFailures s) subNodeSystemFailures
      then s\<lparr>an_isDirty := True, an_SubNodeSystemFailures := subNodeSystemFailures\<rparr> else s)"

definition SetSubNodeDeltaTimestamps :: "array_ref \<Rightarrow> ArrayNodeStatus \<Rightarrow> ArrayNodeStatus" where
  "SetSubNodeDeltaTimestamps subNodeDeltaTimestamps s =
     (if \<not> same_struct (an_SubNodeDeltaTimestamps s) subNodeDeltaTimestamps
      then s\<lparr>an_isDirty := True, an_SubNodeDeltaTimestamps := subNodeDeltaTimestamps\<rparr> else s)"

definition SetTaskPhaseVersion :: "uint32 \<Rightarrow> ArrayNodeStatus \<Rightarrow> ArrayNodeStatus" where
  "SetTaskPhaseVersion taskPhaseVersion s =
     (if an_TaskPhaseVersion s \<noteq> taskPhaseVersion
      then s\<lparr>an_isDirty := True, an_TaskPhaseVersion := taskPhaseVersion\<rparr> else s)"

definition ArrayNodeStatus_Equals :: "ArrayNodeStatus option \<Rightarrow> ArrayNodeStatus option \<Rightarrow> bool" where
  "ArrayNodeStatus_Equals a b =
     (case (a, b) of
        (None, None) \<Rightarrow> True
      | (Some x, Some y) \<Rightarrow>
          ExecutionError_Equals (an_ExecutionError x) (an_ExecutionError y) \<and> an_Phase x = an_Phase y
          \<and> snd (an_SubNodePhases x) = snd (an_SubNodePhases y)
          \<and> snd (an_SubNodeTaskPhases x) = snd (an_SubNodeTaskPhases y)
          \<and> snd (an_SubNodeRetryAttempts x) = snd (an_SubNodeRetryAttempts y)
          \<and> snd (an_SubNodeSystemFailures x) = snd (an_SubNodeSystemFailures y)
          \<and> snd (an_SubNodeDeltaTimestamps x) = snd (an_SubNodeDeltaTimestamps y)
          \<and> an_TaskPhaseVersion x = an_TaskPhaseVersion y
      | _ \<Rightarrow> False)"

datatype array_op = Op_SetArrayNodePhase ArrayNodePhase | Op_an_SetExecutionError "ExecutionError option"
  | Op_SetSubNodePhases array_ref | Op_SetSubNodeTaskPhases array_ref | Op_SetSubNodeRetryAttempts array_ref
  | Op_SetSubNodeSystemFailures array_ref | Op_SetSubNodeDeltaTimestamps array_ref
  | Op_SetTaskPhaseVersion uint32

fun array_step :: "array_op \<Rightarrow> ArrayNodeStatus \<Rightarrow> ArrayNodeStatus" where
  "array_step (Op_SetArrayNodePhase p) = SetArrayNodePhase p"
| "array_step (Op_an_SetExecutionError e) = an_SetExecutionError e"
| "array_step (Op_SetSubNodePhases a) = SetSubNodePhases a"
| "array_step (Op_SetSubNodeTaskPhases a) = SetSubNodeTaskPhases a"
| "array_step (Op_SetSubNodeRetryAttempts a) = SetSubNodeRetryAttempts a"
| "array_step (Op_SetSubNodeSystemFailures a) = SetSubNodeSystemFailures a"
| "array_step (Op_SetSubNodeDeltaTimestamps a) = SetSubNodeDeltaTimestamps a"
| "array_step (Op_SetTaskPhaseVersion v) = SetTaskPhaseVersion v"

lemmas array_step_defs = SetArrayNodePhase_def an_SetExecutionError_def SetSubNodePhases_def
  SetSubNodeTaskPhases_def SetSubNodeRetryAttempts_def SetSubNodeSystemFailures_def
  SetSubNodeDeltaTimestamps_def SetTaskPhaseVersion_def

interpretation array_status: tracked an_isDirty "\<lambda>s. s\<lparr>an_isDirty := False\<rparr>" array_step
  by (unfold_locales; case_tac op) (simp_all add: array_step_defs split: if_splits)

subsection \<open>Task nodes\<close>

record TaskNodeStatus =
  tn_isDirty :: bool
  tn_Phase :: int
  tn_PhaseVersion :: uint32
  tn_PluginState :: "8 word list"
  tn_PluginStateVersion :: uint32
  tn_BarrierClockTick :: uint32
  tn_LastPhaseUpdatedAt :: time
  tn_PreviousNodeExecutionCheckpointPath :: string
  tn_CleanupOnFailure :: bool

definition new_TaskNodeStatus :: TaskNodeStatus where
  "new_TaskNodeStatus = \<lparr>tn_isDirty = False, tn_Phase = 0, tn_PhaseVersion = 0, tn_PluginState = [],
     tn_PluginStateVersion = 0, tn_BarrierClockTick = 0, tn_LastPhaseUpdatedAt = 0,
     tn_PreviousNodeExecutionCheckpointPath = [], tn_CleanupOnFailure = False\<rparr>"

definition SetBarrierClockTick :: "uint32 \<Rightarrow> TaskNodeStatus \<Rightarrow> TaskNodeStatus" where
  "SetBarrierClockTick tick s = s\<lparr>tn_BarrierClockTick := tick, tn_isDirty := True\<rparr>"

definition SetPreviousNodeExecutionCheckpointPath :: "string \<Rightarrow> TaskNodeStatus \<Rightarrow> TaskNodeStatus" where
  "SetPreviousNodeExecutionCheckpointPath path s =
     s\<lparr>tn_PreviousNodeExecutionCheckpointPath := path, tn_isDirty := True\<rparr>"

definition SetPluginState :: "8 word list \<Rightarrow> TaskNodeStatus \<Rightarrow> TaskNodeStatus" where
  "SetPluginState p s = s\<lparr>tn_PluginState := p, tn_isDirty := True\<rparr>"

definition SetLastPhaseUpdatedAt :: "time \<Rightarrow> TaskNodeStatus \<Rightarrow> TaskNodeStatus" where
  "SetLastPhaseUpdatedAt updatedAt s = s\<lparr>tn_LastPhaseUpdatedAt := updatedAt\<rparr>"

definition SetPluginStateVersion :: "uint32 \<Rightarrow> TaskNodeStatus \<Rightarrow> TaskNodeStatus" where
  "SetPluginStateVersion v s = s\<lparr>tn_PluginStateVersion := v, tn_isDirty := True\<rparr>"

definition SetCleanupOnFailure :: "bool \<Rightarrow> TaskNodeStatus \<Rightarrow> TaskNodeStatus" where
  "SetCleanupOnFailure cleanupOnFailure s = s\<lparr>tn_CleanupOnFailure := cleanupOnFailure, tn_isDirty := True\<rparr>"

definition tn_SetPhase :: "int \<Rightarrow> TaskNodeStatus \<Rightarrow> TaskNodeStatus" where
  "tn_SetPhase phase s = s\<lparr>tn_Phase := phase, tn_isDirty := True\<rparr>"

definition SetPhaseVersion :: "uint32 \<Rightarrow> TaskNodeStatus \<Rightarrow> TaskNodeStatus" where
  "SetPhaseVersion version s = s\<lparr>tn_PhaseVersion := version, tn_isDirty := True\<rparr>"

definition tn_UpdatePhase :: "int \<Rightarrow> uint32 \<Rightarrow> TaskNodeStatus \<Rightarrow> TaskNodeStatus" where
  "tn_UpdatePhase phase phaseVersion s =
     (let s1 = (if tn_Phase s \<noteq> phase \<or> tn_PhaseVersion s \<noteq> phaseVersion then s\<lparr>tn_isDirty := True\<rparr> else s)
      in s1\<lparr>tn_Phase := phase, tn_PhaseVersion := phaseVersion\<rparr>)"

definition TaskNodeStatus_Equals :: "TaskNodeStatus option \<Rightarrow> TaskNodeStatus option \<Rightarrow> bool" where
  "TaskNodeStatus_Equals a b =
     (case (a, b) of
        (None, None) \<Rightarrow> True
      | (Some x, Some y) \<Rightarrow>
          tn_Phase x = tn_Phase y \<and> tn_PhaseVersion x = tn_PhaseVersion y
          \<and> tn_PluginState x = tn_PluginState y \<and> tn_PluginStateVersion x = tn_PluginStateVersion y
          \<and> tn_BarrierClockTick x = tn_BarrierClockTick y
          \<and> tn_LastPhaseUpdatedAt x = tn_LastPhaseUpdatedAt y
          \<and> tn_PreviousNodeExecutionCheckpointPath x = tn_PreviousNodeExecutionCheckpointPath y
          \<and> tn_CleanupOnFailure x = tn_CleanupOnFailure y
      | _ \<Rightarrow> False)"

datatype task_op = Op_SetBarrierClockTick uint32 | Op_SetPreviousNodeExecutionCheckpointPath string
  | Op_SetPluginState "8 word list" | Op_SetPluginStateVersion uint32 | Op_SetCleanupOnFailure bool
  | Op_SetPhase int | Op_SetPhaseVersion uint32 | Op_tn_UpdatePhase int uint32

fun task_step :: "task_op \<Rightarrow> TaskNodeStatus \<Rightarrow> TaskNodeStatus" where
  "task_step (Op_SetBarrierClockTick t) = SetBarrierClockTick t"
| "task_step (Op_SetPreviousNodeExecutionCheckpointPath p) = SetPreviousNodeExecutionCheckpointPath p"
| "task_step (Op_SetPluginState p) = SetPluginState p"
| "task_step (Op_SetPluginStateVersion v) = SetPluginStateVersion v"
| "task_step (Op_SetCleanupOnFailure c) = SetCleanupOnFailure c"
| "task_step (Op_SetPhase p) = tn_SetPhase p"
| "task_step (Op_SetPhaseVersion v) = SetPhaseVersion v"
| "task_step (Op_tn_UpdatePhase p v) = tn_UpdatePhase p v"

lemmas task_step_defs = SetBarrierClockTick_def SetPreviousNodeExecutionCheckpointPath_def SetPluginState_def
  SetPluginStateVersion_def SetCleanupOnFailure_def tn_SetPhase_def SetPhaseVersion_def tn_UpdatePhase_def

interpretation task_status: tracked tn_isDirty "\<lambda>s. s\<lparr>tn_isDirty := False\<rparr>" task_step
  by (unfold_locales; case_tac op) (auto simp add: task_step_defs Let_def)

subsection \<open>Equality\<close>

lemma sub_Equals_refl [simp]:
  "ExecutionError_Equals a a" "BranchNodeStatus_Equals b b" "DynamicNodeStatus_Equals d d"
  "WorkflowNodeStatus_Equals w w" "GateNodeStatus_Equals g g" "ArrayNodeStatus_Equals r r"
  "TaskNodeStatus_Equals t t"
  by (simp_all add: ExecutionError_Equals_def BranchNodeStatus_Equals_def DynamicNodeStatus_Equals_def
      WorkflowNodeStatus_Equals_def GateNodeStatus_Equals_def ArrayNodeStatus_Equals_def
      TaskNodeStatus_Equals_def split: option.split)

lemma sub_Equals_sym:
  "ExecutionError_Equals a a' \<Longrightarrow> ExecutionError_Equals a' a"
  "BranchNodeStatus_Equals b b' \<Longrightarrow> BranchNodeStatus_Equals b' b"
  "DynamicNodeStatus_Equals d d' \<Longrightarrow> DynamicNodeStatus_Equals d' d"
  "WorkflowNodeStatus_Equals w w' \<Longrightarrow> WorkflowNodeStatus_Equals w' w"
  "GateNodeStatus_Equals g g' \<Longrightarrow> GateNodeStatus_Equals g' g"
  "ArrayNodeStatus_Equals r r' \<Longrightarrow> ArrayNodeStatus_Equals r' r"
  "TaskNodeStatus_Equals t t' \<Longrightarrow> TaskNodeStatus_Equals t' t"
  by (auto simp: ExecutionError_Equals_def BranchNodeStatus_Equals_def DynamicNodeStatus_Equals_def
      WorkflowNodeStatus_Equals_def GateNodeStatus_Equals_def ArrayNodeStatus_Equals_def
      TaskNodeStatus_Equals_def split: option.splits if_splits)

end
