(* ===== verification/Node_Status.thy ===== *)
theory Node_Status
  imports Node_Substatus
begin

section \<open>Node status (v1alpha1/node\_status.go, iface.go)\<close>

text \<open>
  The status of a node as the executor keeps it in the workflow resource: its flat fields are the record
  \<open>NodeFields\<close>, and \<open>SubNodeStatus\<close> holds the statuses of the nodes below it
  (\<open>None\<close> for the nil map). The parent node id is compared as a pointer and carries its address. The current
  time that \<open>metav1.Now\<close> reads is an argument. The constructor of data references, which the storage layer
  supplies, is an argument that may fail.
\<close>

datatype NodePhase =
    NodePhaseNotYetStarted | NodePhaseQueued | NodePhaseRunning | NodePhaseFailing | NodePhaseSucceeding
  | NodePhaseSucceeded | NodePhaseFailed | NodePhaseSkipped | NodePhaseRetryableFailure | NodePhaseTimingOut
  | NodePhaseTimedOut | NodePhaseDynamicRunning | NodePhaseRecovered

definition NodePhase_String :: "NodePhase \<Rightarrow> string" where
  "NodePhase_String p =
     (case p of
        NodePhaseNotYetStarted \<Rightarrow> ''NotYetStarted''
      | NodePhaseQueued \<Rightarrow> ''Queued''
      | NodePhaseRunning \<Rightarrow> ''Running''
      | NodePhaseTimingOut \<Rightarrow> ''NodePhaseTimingOut''
      | NodePhaseTimedOut \<Rightarrow> ''NodePhaseTimedOut''
      | NodePhaseSucceeding \<Rightarrow> ''Succeeding''
      | NodePhaseSucceeded \<Rightarrow> ''Succeeded''
      | NodePhaseFailed \<Rightarrow> ''Failed''
      | NodePhaseFailing \<Rightarrow> ''Failing''
      | NodePhaseSkipped \<Rightarrow> ''Skipped''
      | NodePhaseRetryableFailure \<Rightarrow> ''RetryableFailure''
      | NodePhaseDynamicRunning \<Rightarrow> ''DynamicRunning''
      | NodePhaseRecovered \<Rightarrow> ''NodePhaseRecovered'')"

record NodeFields =
  ns_isDirty :: bool
  ns_Phase :: NodePhase
  ns_QueuedAt :: "time option"
  ns_StartedAt :: "time option"
  ns_StoppedAt :: "time option"
  ns_LastUpdatedAt :: "time option"
  ns_LastAttemptStartedAt :: "time option"
  ns_Message :: string
  ns_Attempts :: uint32
  ns_SystemFailures :: uint32
  ns_Cached :: bool
  ns_ParentNode :: "(addr \<times> string) option"
  ns_BranchStatus :: "BranchNodeStatus option"
  ns_WorkflowNodeStatus :: "WorkflowNodeStatus option"
  ns_TaskNodeStatus :: "TaskNodeStatus option"
  ns_DynamicNodeStatus :: "DynamicNodeStatus option"
  ns_GateNodeStatus :: "GateNodeStatus option"
  ns_ArrayNodeStatus :: "ArrayNodeStatus option"
  ns_Error :: "ExecutionError option"
  ns_DataDir :: string
  ns_OutputDir :: string
  ns_ParentTask :: "string option"

datatype NodeStatus = NodeStatus (ns: NodeFields) (SubNodeStatus: "(string \<times> NodeStatus) list option")

definition new_NodeFields :: NodeFields where
  "new_NodeFields = \<lparr>ns_isDirty = False, ns_Phase = NodePhaseNotYetStarted, ns_QueuedAt = None,
     ns_StartedAt = None, ns_StoppedAt = None, ns_LastUpdatedAt = None, ns_LastAttemptStartedAt = None,
     ns_Message = [], ns_Attempts = 0, ns_SystemFailures = 0, ns_Cached = False, ns_ParentNode = None,
     ns_BranchStatus = None, ns_WorkflowNodeStatus = None, ns_TaskNodeStatus = None,
     ns_DynamicNodeStatus = None, ns_GateNodeStatus = None, ns_ArrayNodeStatus = None, ns_Error = None,
     ns_DataDir = [], ns_OutputDir = [], ns_ParentTask = None\<rparr>"

definition new_NodeStatus :: NodeStatus where
  "new_NodeStatus = NodeStatus new_NodeFields None"

abbreviation nil_map :: "'a list option \<Rightarrow> 'a list" where
  "nil_map m \<equiv> case m of None \<Rightarrow> [] | Some xs \<Rightarrow> xs"

lemma sub_status_size [termination_simp]:
  "(k, s) \<in> set m \<Longrightarrow> size s < Suc (size_option (size_list (size_prod (\<lambda>_. 0) size)) (Some m))"
proof -
  assume "(k, s) \<in> set m"
  then have "size_prod (\<lambda>_. 0) size (k, s) \<le> size_list (size_prod (\<lambda>_. 0) size) m"
    by (rule size_list_estimation') simp
  then show ?thesis by simp
qed

subsection \<open>Dirty flags\<close>

definition fields_dirty :: "NodeFields \<Rightarrow> bool" where
  "fields_dirty f \<longleftrightarrow> ns_isDirty f
     \<or> (\<exists>t \<in> set_option (ns_TaskNodeStatus f). tn_isDirty t)
     \<or> (\<exists>d \<in> set_option (ns_DynamicNodeStatus f). dn_isDirty d)
     \<or> (\<exists>w \<in> set_option (ns_WorkflowNodeStatus f). wn_isDirty w)
     \<or> (\<exists>b \<in> set_option (ns_BranchStatus f). br_isDirty b)
     \<or> (\<exists>g \<in> set_option (ns_GateNodeStatus f). gn_isDirty g)
     \<or> (\<exists>a \<in> set_option (ns_ArrayNodeStatus f). an_isDirty a)"

fun IsDirty :: "NodeStatus \<Rightarrow> bool" where
  "IsDirty (NodeStatus f None) = fields_dirty f"
| "IsDirty (NodeStatus f (Some m)) = (fields_dirty f \<or> list_ex (\<lambda>(k, s). IsDirty s) m)"

text \<open>\<open>ResetDirty\<close>, meant for tests, leaves the flags of gate and array statuses alone.\<close>

definition reset_fields :: "NodeFields \<Rightarrow> NodeFields" where
  "reset_fields f = f\<lparr>ns_isDirty := False,
     ns_TaskNodeStatus := map_option (\<lambda>t. t\<lparr>tn_isDirty := False\<rparr>) (ns_TaskNodeStatus f),
     ns_DynamicNodeStatus := map_option (\<lambda>d. d\<lparr>dn_isDirty := False\<rparr>) (ns_DynamicNodeStatus f),
     ns_WorkflowNodeStatus := map_option (\<lambda>w. w\<lparr>wn_isDirty := False\<rparr>) (ns_WorkflowNodeStatus f),
     ns_BranchStatus := map_option (\<lambda>b. b\<lparr>br_isDirty := False\<rparr>) (ns_BranchStatus f)\<rparr>"

fun ResetDirty :: "NodeStatus \<Rightarrow> NodeStatus" where
  "ResetDirty (NodeStatus f None) = NodeStatus (reset_fields f) None"
| "ResetDirty (NodeStatus f (Some m)) = NodeStatus (reset_fields f) (Some (map (\<lambda>(k, s). (k, ResetDirty s)) m))"

subsection \<open>Setters\<close>

definition upd :: "(NodeFields \<Rightarrow> NodeFields) \<Rightarrow> NodeStatus \<Rightarrow> NodeStatus" where
  "upd g s = NodeStatus (g (ns s)) (SubNodeStatus s)"

lemma upd_sels [simp]: "ns (upd g s) = g (ns s)" "SubNodeStatus (upd g s) = SubNodeStatus s"
  by (simp_all add: upd_def)

definition ClearWorkflowStatus :: "NodeStatus \<Rightarrow> NodeStatus" where
  "ClearWorkflowStatus = upd (\<lambda>f. f\<lparr>ns_WorkflowNodeStatus := None, ns_isDirty := True\<rparr>)"

definition ClearTaskStatus :: "NodeStatus \<Rightarrow> NodeStatus" where
  "ClearTaskStatus = upd (\<lambda>f. f\<lparr>ns_TaskNodeStatus := None, ns_isDirty := True\<rparr>)"

definition ClearLastAttemptStartedAt :: "NodeStatus \<Rightarrow> NodeStatus" where
  "ClearLastAttemptStartedAt = upd (\<lambda>f. f\<lparr>ns_LastAttemptStartedAt := None, ns_isDirty := True\<rparr>)"

definition ClearSubNodeStatus :: "NodeStatus \<Rightarrow> NodeStatus" where
  "ClearSubNodeStatus s = NodeStatus ((ns s)\<lparr>ns_isDirty := True\<rparr>) None"

definition ClearGateNodeStatus :: "NodeStatus \<Rightarrow> NodeStatus" where
  "ClearGateNodeStatus = upd (\<lambda>f. f\<lparr>ns_GateNodeStatus := None, ns_isDirty := True\<rparr>)"

definition ClearArrayNodeStatus :: "NodeStatus \<Rightarrow> NodeStatus" where
  "ClearArrayNodeStatus = upd (\<lambda>f. f\<lparr>ns_ArrayNodeStatus := None, ns_isDirty := True\<rparr>)"

definition ClearDynamicNodeStatus :: "NodeStatus \<Rightarrow> NodeStatus" where
  "ClearDynamicNodeStatus = upd (\<lambda>f. f\<lparr>ns_DynamicNodeStatus := None, ns_isDirty := True\<rparr>)"

definition SetCached :: "NodeStatus \<Rightarrow> NodeStatus" where
  "SetCached = upd (\<lambda>f. f\<lparr>ns_Cached := True, ns_isDirty := True\<rparr>)"

definition IncrementAttempts :: "NodeStatus \<Rightarrow> uint32 \<times> NodeStatus" where
  "IncrementAttempts s =
     (ns_Attempts (ns s) + 1, upd (\<lambda>f. f\<lparr>ns_Attempts := ns_Attempts f + 1, ns_isDirty := True\<rparr>) s)"

definition IncrementSystemFailures :: "NodeStatus \<Rightarrow> uint32 \<times> NodeStatus" where
  "IncrementSystemFailures s =
     (ns_SystemFailures (ns s) + 1,
      upd (\<lambda>f. f\<lparr>ns_SystemFailures := ns_SystemFailures f + 1, ns_isDirty := True\<rparr>) s)"

text \<open>
  The \<open>GetOrCreate\<close> methods return a pointer into the status; the caller's writes through it are the function
  argument.
\<close>

definition with_task :: "(TaskNodeStatus \<Rightarrow> TaskNodeStatus) \<Rightarrow> NodeStatus \<Rightarrow> NodeStatus" where
  "with_task g = upd (\<lambda>f. case ns_TaskNodeStatus f of
       None \<Rightarrow> f\<lparr>ns_isDirty := True, ns_TaskNodeStatus := Some (g new_TaskNodeStatus)\<rparr>
     | Some t \<Rightarrow> f\<lparr>ns_TaskNodeStatus := Some (g t)\<rparr>)"

definition with_dynamic :: "(DynamicNodeStatus \<Rightarrow> DynamicNodeStatus) \<Rightarrow> NodeStatus \<Rightarrow> NodeStatus" where
  "with_dynamic g = upd (\<lambda>f. case ns_DynamicNodeStatus f of
       None \<Rightarrow> f\<lparr>ns_isDirty := True, ns_DynamicNodeStatus := Some (g new_DynamicNodeStatus)\<rparr>
     | Some d \<Rightarrow> f\<lparr>ns_DynamicNodeStatus := Some (g d)\<rparr>)"

definition with_branch :: "(BranchNodeStatus \<Rightarrow> BranchNodeStatus) \<Rightarrow> NodeStatus \<Rightarrow> NodeStatus" where
  "with_branch g = upd (\<lambda>f. case ns_BranchStatus f of
       None \<Rightarrow> f\<lparr>ns_isDirty := True, ns_BranchStatus := Some (g new_BranchNodeStatus)\<rparr>
     | Some b \<Rightarrow> f\<lparr>ns_BranchStatus := Some (g b)\<rparr>)"

definition with_workflow :: "(WorkflowNodeStatus \<Rightarrow> WorkflowNodeStatus) \<Rightarrow> NodeStatus \<Rightarrow> NodeStatus" where
  "with_workflow g = upd (\<lambda>f. case ns_WorkflowNodeStatus f of
       None \<Rightarrow> f\<lparr>ns_isDirty := True, ns_WorkflowNodeStatus := Some (g new_WorkflowNodeStatus)\<rparr>
     | Some w \<Rightarrow> f\<lparr>ns_WorkflowNodeStatus := Some (g w)\<rparr>)"

definition with_gate :: "(GateNodeStatus \<Rightarrow> GateNodeStatus) \<Rightarrow> NodeStatus \<Rightarrow> NodeStatus" where
  "with_gate g = upd (\<lambda>f. case ns_GateNodeStatus f of
       None \<Rightarrow> f\<lparr>ns_isDirty := True, ns_GateNodeStatus := Some (g new_GateNodeStatus)\<rparr>
     | Some w \<Rightarrow> f\<lparr>ns_GateNodeStatus := Some (g w)\<rparr>)"

definition with_array :: "(ArrayNodeStatus \<Rightarrow> ArrayNodeStatus) \<Rightarrow> NodeStatus \<Rightarrow> NodeStatus" where
  "with_array g = upd (\<lambda>f. case ns_ArrayNodeStatus f of
       None \<Rightarrow> f\<lparr>ns_isDirty := True, ns_ArrayNodeStatus := Some (g new_ArrayNodeStatus)\<rparr>
     | Some a \<Rightarrow> f\<lparr>ns_ArrayNodeStatus := Some (g a)\<rparr>)"

definition SetParentNodeID :: "(addr \<times> string) option \<Rightarrow> NodeStatus \<Rightarrow> NodeStatus" where
  "SetParentNodeID n = upd (\<lambda>f.
     if ns_ParentNode f = None \<or> map_option fst (ns_ParentNode f) \<noteq> map_option fst n
     then f\<lparr>ns_ParentNode := n, ns_isDirty := True\<rparr> else f)"

definition SetParentTaskID :: "string option \<Rightarrow> NodeStatus \<Rightarrow> NodeStatus" where
  "SetParentTaskID t = upd (\<lambda>f. f\<lparr>ns_ParentTask := t\<rparr>)"

definition SetDataDir :: "string \<Rightarrow> NodeStatus \<Rightarrow> NodeStatus" where
  "SetDataDir d = upd (\<lambda>f. f\<lparr>ns_DataDir := d\<rparr>)"

definition SetOutputDir :: "string \<Rightarrow> NodeStatus \<Rightarrow> NodeStatus" where
  "SetOutputDir d = upd (\<lambda>f. f\<lparr>ns_OutputDir := d\<rparr>)"

subsection \<open>Phases\<close>

definition IsPhaseTerminal :: "NodePhase \<Rightarrow> bool" where
  "IsPhaseTerminal phase \<longleftrightarrow>
     phase = NodePhaseSucceeded \<or> phase = NodePhaseFailed \<or> phase = NodePhaseSkipped
     \<or> phase = NodePhaseTimedOut \<or> phase = NodePhaseRecovered"

definition IsTerminated :: "NodeStatus \<Rightarrow> bool" where
  "IsTerminated s \<longleftrightarrow>
     ns_Phase (ns s) = NodePhaseFailed \<or> ns_Phase (ns s) = NodePhaseSkipped
     \<or> ns_Phase (ns s) = NodePhaseSucceeded \<or> ns_Phase (ns s) = NodePhaseRecovered"

definition maxMessageSize :: nat where "maxMessageSize = 1024"

definition or_now :: "time option \<Rightarrow> time \<Rightarrow> time option" where
  "or_now t n = (if t = None then Some n else t)"

text \<open>
  \<open>UpdatePhase\<close>: all the times written point to one variable \<open>n\<close>, which becomes the current time when
  the given one is zero, also where it was stored before that assignment.
\<close>

definition UpdatePhase ::
    "time \<Rightarrow> NodePhase \<Rightarrow> time \<Rightarrow> string \<Rightarrow> bool \<Rightarrow> ExecutionError option \<Rightarrow> NodeStatus \<Rightarrow> NodeStatus" where
  "UpdatePhase now p occurredAt reason enableCRDebugMetadata err s =
     (if ns_Phase (ns s) = p \<and> ns_Message (ns s) = reason then s
      else
        (let n = (if occurredAt = 0 then now else occurredAt);
             f1 = (ns s)\<lparr>ns_Phase := p, ns_Message := take maxMessageSize reason, ns_LastUpdatedAt := Some n\<rparr>;
             f2 = (if err \<noteq> None then f1\<lparr>ns_Error := err\<rparr> else f1)
         in if p = NodePhaseQueued \<and> ns_QueuedAt f2 = None then
              NodeStatus (f2\<lparr>ns_QueuedAt := Some n, ns_isDirty := True\<rparr>) (SubNodeStatus s)
            else if p = NodePhaseRunning then
              NodeStatus (f2\<lparr>ns_StartedAt := or_now (ns_StartedAt f2) n,
                ns_LastAttemptStartedAt := or_now (ns_LastAttemptStartedAt f2) n, ns_isDirty := True\<rparr>)
                (SubNodeStatus s)
            else if IsPhaseTerminal p then
              (let f3 = f2\<lparr>ns_StoppedAt := or_now (ns_StoppedAt f2) n\<rparr>
               in if p = NodePhaseSucceeded \<or> p = NodePhaseSkipped \<or> \<not> enableCRDebugMetadata then
                    NodeStatus (f3\<lparr>ns_Message := [], ns_QueuedAt := None, ns_StartedAt := None,
                      ns_LastUpdatedAt := None, ns_LastAttemptStartedAt := None, ns_DynamicNodeStatus := None,
                      ns_BranchStatus := None, ns_TaskNodeStatus := None, ns_WorkflowNodeStatus := None,
                      ns_isDirty := True\<rparr>) None
                  else
                    NodeStatus (f3\<lparr>ns_StartedAt := or_now (ns_StartedAt f3) n,
                      ns_LastAttemptStartedAt := or_now (ns_LastAttemptStartedAt f3) n, ns_isDirty := True\<rparr>)
                      (SubNodeStatus s))
            else NodeStatus (f2\<lparr>ns_isDirty := True\<rparr>) (SubNodeStatus s)))"

subsection \<open>Statuses below a node\<close>

text \<open>The constructor of references, and the attributes set on a status that is handed out.\<close>

type_synonym ref_constructor = "string \<Rightarrow> string list \<Rightarrow> string option"

definition setEphemeralNodeExecutionStatusAttributes ::
    "ref_constructor \<Rightarrow> (uint32 \<Rightarrow> string) \<Rightarrow> NodeStatus \<Rightarrow> string \<Rightarrow> NodeStatus \<Rightarrow> bool \<times> NodeStatus" where
  "setEphemeralNodeExecutionStatusAttributes construct format_uint inn nodeId n =
     (let n1 = SetParentTaskID (ns_ParentTask (ns inn)) n;
          r = (if ns_DataDir (ns n1) = [] then
                 map_option (\<lambda>d. SetDataDir d n1) (construct (ns_OutputDir (ns inn)) [nodeId])
               else Some n1)
      in case r of
           None \<Rightarrow> (False, n1)
         | Some n2 \<Rightarrow>
             if ns_OutputDir (ns n2) = [] then
               (case construct (ns_DataDir (ns n2)) [format_uint (ns_Attempts (ns n2))] of
                  None \<Rightarrow> (False, n2)
                | Some d \<Rightarrow> (True, SetOutputDir d n2))
             else (True, n2))"

fun put_status :: "string \<Rightarrow> NodeStatus \<Rightarrow> (string \<times> NodeStatus) list \<Rightarrow> (string \<times> NodeStatus) list" where
  "put_status k v [] = [(k, v)]"
| "put_status k v ((k', v') # m) = (if k = k' then (k, v) # m else (k', v') # put_status k v m)"

definition GetNodeExecutionStatus ::
    "ref_constructor \<Rightarrow> (uint32 \<Rightarrow> string) \<Rightarrow> string \<Rightarrow> NodeStatus \<Rightarrow> NodeStatus \<times> NodeStatus" where
  "GetNodeExecutionStatus construct format_uint nodeId s =
     (case map_of (nil_map (SubNodeStatus s)) nodeId of
        Some n \<Rightarrow>
          (let n' = snd (setEphemeralNodeExecutionStatusAttributes construct format_uint s nodeId n)
           in (n', NodeStatus (ns s) (Some (put_status nodeId n' (nil_map (SubNodeStatus s))))))
      | None \<Rightarrow>
          (let s1 = NodeStatus ((ns s)\<lparr>ns_isDirty := True\<rparr>) (SubNodeStatus s);
               n' = snd (setEphemeralNodeExecutionStatusAttributes construct format_uint s1 nodeId new_NodeStatus)
           in (n', NodeStatus (ns s1) (Some (put_status nodeId n' (nil_map (SubNodeStatus s)))))))"

subsection \<open>Comparison\<close>

definition fields_Equals :: "NodeFields \<Rightarrow> NodeFields \<Rightarrow> bool" where
  "fields_Equals a b \<longleftrightarrow>
     ns_QueuedAt a = ns_QueuedAt b \<and> ns_StartedAt a = ns_StartedAt b \<and> ns_StoppedAt a = ns_StoppedAt b
     \<and> ns_LastUpdatedAt a = ns_LastUpdatedAt b \<and> ns_LastAttemptStartedAt a = ns_LastAttemptStartedAt b
     \<and> ns_Message a = ns_Message b \<and> ns_Attempts a = ns_Attempts b
     \<and> ns_SystemFailures a = ns_SystemFailures b \<and> ns_Cached a = ns_Cached b
     \<and> map_option snd (ns_ParentNode a) = map_option snd (ns_ParentNode b)
     \<and> WorkflowNodeStatus_Equals (ns_WorkflowNodeStatus a) (ns_WorkflowNodeStatus b)
     \<and> ExecutionError_Equals (ns_Error a) (ns_Error b)
     \<and> BranchNodeStatus_Equals (ns_BranchStatus a) (ns_BranchStatus b)
     \<and> TaskNodeStatus_Equals (ns_TaskNodeStatus a) (ns_TaskNodeStatus b)
     \<and> DynamicNodeStatus_Equals (ns_DynamicNodeStatus a) (ns_DynamicNodeStatus b)
     \<and> GateNodeStatus_Equals (ns_GateNodeStatus a) (ns_GateNodeStatus b)
     \<and> ArrayNodeStatus_Equals (ns_ArrayNodeStatus a) (ns_ArrayNodeStatus b)"

fun NodeStatus_Equals :: "NodeStatus \<Rightarrow> NodeStatus \<Rightarrow> bool" where
  "NodeStatus_Equals (NodeStatus a subs) (NodeStatus b subs') \<longleftrightarrow>
     ns_Phase a = ns_Phase b \<and>
     (ns_Phase a = NodePhaseSucceeded \<or> ns_Phase a = NodePhaseFailed \<or>
      fields_Equals a b \<and> length (nil_map subs) = length (nil_map subs') \<and>
      (case subs of
         None \<Rightarrow> True
       | Some m \<Rightarrow>
           list_all (\<lambda>(k, v). case map_of (nil_map subs') k of None \<Rightarrow> False | Some v' \<Rightarrow> NodeStatus_Equals v v') m))"

subsection \<open>No change is lost\<close>

text \<open>What is written back: the status without its flags and without the fields that are not serialized.\<close>

definition clean_fields :: "NodeFields \<Rightarrow> NodeFields" where
  "clean_fields f = f\<lparr>ns_isDirty := False,
     ns_TaskNodeStatus := map_option (\<lambda>t. t\<lparr>tn_isDirty := False\<rparr>) (ns_TaskNodeStatus f),
     ns_DynamicNodeStatus := map_option (\<lambda>d. d\<lparr>dn_isDirty := False\<rparr>) (ns_DynamicNodeStatus f),
     ns_WorkflowNodeStatus := map_option (\<lambda>w. w\<lparr>wn_isDirty := False\<rparr>) (ns_WorkflowNodeStatus f),
     ns_BranchStatus := map_option (\<lambda>b. b\<lparr>br_isDirty := False\<rparr>) (ns_BranchStatus f),
     ns_GateNodeStatus := map_option (\<lambda>g. g\<lparr>gn_isDirty := False\<rparr>) (ns_GateNodeStatus f),
     ns_ArrayNodeStatus := map_option (\<lambda>a. a\<lparr>an_isDirty := False\<rparr>) (ns_ArrayNodeStatus f),
     ns_DataDir := [], ns_OutputDir := [], ns_ParentTask := None\<rparr>"

fun clean :: "NodeStatus \<Rightarrow> NodeStatus" where
  "clean (NodeStatus f None) = NodeStatus (clean_fields f) None"
| "clean (NodeStatus f (Some m)) = NodeStatus (clean_fields f) (Some (map (\<lambda>(k, s). (k, clean s)) m))"

datatype node_op =
    Op_ClearWorkflowStatus | Op_ClearTaskStatus | Op_ClearLastAttemptStartedAt | Op_ClearSubNodeStatus
  | Op_ClearGateNodeStatus | Op_ClearArrayNodeStatus | Op_ClearDynamicNodeStatus | Op_SetCached
  | Op_IncrementAttempts | Op_IncrementSystemFailures
  | Op_Task task_op | Op_Dynamic dynamic_op | Op_Branch branch_op | Op_Workflow workflow_node_op
  | Op_Gate GateNodePhase | Op_Array array_op
  | Op_SetParentNodeID "(addr \<times> string) option" | Op_SetParentTaskID "string option"
  | Op_SetDataDir string | Op_SetOutputDir string
  | Op_UpdatePhase time NodePhase time string bool "ExecutionError option"
  | Op_GetNodeExecutionStatus ref_constructor "uint32 \<Rightarrow> string" string
  | Op_Child string node_op

fun node_step :: "node_op \<Rightarrow> NodeStatus \<Rightarrow> NodeStatus" where
  "node_step Op_ClearWorkflowStatus s = ClearWorkflowStatus s"
| "node_step Op_ClearTaskStatus s = ClearTaskStatus s"
| "node_step Op_ClearLastAttemptStartedAt s = ClearLastAttemptStartedAt s"
| "node_step Op_ClearSubNodeStatus s = ClearSubNodeStatus s"
| "node_step Op_ClearGateNodeStatus s = ClearGateNodeStatus s"
| "node_step Op_ClearArrayNodeStatus s = ClearArrayNodeStatus s"
| "node_step Op_ClearDynamicNodeStatus s = ClearDynamicNodeStatus s"
| "node_step Op_SetCached s = SetCached s"
| "node_step Op_IncrementAttempts s = snd (IncrementAttempts s)"
| "node_step Op_IncrementSystemFailures s = snd (IncrementSystemFailures s)"
| "node_step (Op_Task op) s = with_task (task_step op) s"
| "node_step (Op_Dynamic op) s = with_dynamic (dynamic_step op) s"
| "node_step (Op_Branch op) s = with_branch (branch_step op) s"
| "node_step (Op_Workflow op) s = with_workflow (workflow_node_step op) s"
| "node_step (Op_Gate p) s = with_gate (SetGateNodePhase p) s"
| "node_step (Op_Array op) s = with_array (array_step op) s"
| "node_step (Op_SetParentNodeID n) s = SetParentNodeID n s"
| "node_step (Op_SetParentTaskID t) s = SetParentTaskID t s"
| "node_step (Op_SetDataDir d) s = SetDataDir d s"
| "node_step (Op_SetOutputDir d) s = SetOutputDir d s"
| "node_step (Op_UpdatePhase now p t r dbg e) s = UpdatePhase now p t r dbg e s"
| "node_step (Op_GetNodeExecutionStatus construct fmt i) s = snd (GetNodeExecutionStatus construct fmt i s)"
| "node_step (Op_Child i op) s =
     (case map_of (nil_map (SubNodeStatus s)) i of
        None \<Rightarrow> s
      | Some c \<Rightarrow> NodeStatus (ns s) (Some (put_status i (node_step op c) (nil_map (SubNodeStatus s)))))"

lemma IsDirty_iff:
  "IsDirty (NodeStatus f subs) \<longleftrightarrow> fields_dirty f \<or> (\<exists>(k, c) \<in> set (nil_map subs). IsDirty c)"
  by (cases subs) (auto simp: list_ex_iff)

lemma clean_iff:
  "clean (NodeStatus f subs) = NodeStatus (clean_fields f) (map_option (map (\<lambda>(k, c). (k, clean c))) subs)"
  by (cases subs) auto

lemma fields_flag [simp]: "ns_isDirty f \<Longrightarrow> fields_dirty f"
  by (simp add: fields_dirty_def)

lemma own_flag_dirty: "ns_isDirty (ns s) \<Longrightarrow> IsDirty s"
  by (cases s) (auto simp: IsDirty_iff fields_dirty_def)

text \<open>A write to the fields keeps the contract if it does so on the fields alone.\<close>

definition field_ok :: "(NodeFields \<Rightarrow> NodeFields) \<Rightarrow> bool" where
  "field_ok g \<longleftrightarrow> (\<forall>f. (fields_dirty f \<longrightarrow> fields_dirty (g f)) \<and>
     (clean_fields (g f) \<noteq> clean_fields f \<longrightarrow> fields_dirty (g f)))"

lemma field_ok_upd:
  "field_ok g \<Longrightarrow> IsDirty s \<Longrightarrow> IsDirty (upd g s)"
  "field_ok g \<Longrightarrow> clean (upd g s) \<noteq> clean s \<Longrightarrow> IsDirty (upd g s)"
  by (cases s; auto simp: upd_def IsDirty_iff clean_iff field_ok_def)+

lemma field_ok_flag: "(\<And>f. ns_isDirty (g f)) \<Longrightarrow> field_ok g"
  by (simp add: field_ok_def fields_dirty_def)

lemma sub_ok_tools:
  "fields_dirty f \<Longrightarrow> ns_TaskNodeStatus f = Some t \<Longrightarrow> (tn_isDirty t \<Longrightarrow> tn_isDirty t') \<Longrightarrow>
     fields_dirty (f\<lparr>ns_TaskNodeStatus := Some t'\<rparr>)"
  "fields_dirty f \<Longrightarrow> ns_DynamicNodeStatus f = Some d \<Longrightarrow> (dn_isDirty d \<Longrightarrow> dn_isDirty d') \<Longrightarrow>
     fields_dirty (f\<lparr>ns_DynamicNodeStatus := Some d'\<rparr>)"
  "fields_dirty f \<Longrightarrow> ns_BranchStatus f = Some b \<Longrightarrow> (br_isDirty b \<Longrightarrow> br_isDirty b') \<Longrightarrow>
     fields_dirty (f\<lparr>ns_BranchStatus := Some b'\<rparr>)"
  "fields_dirty f \<Longrightarrow> ns_WorkflowNodeStatus f = Some w \<Longrightarrow> (wn_isDirty w \<Longrightarrow> wn_isDirty w') \<Longrightarrow>
     fields_dirty (f\<lparr>ns_WorkflowNodeStatus := Some w'\<rparr>)"
  "fields_dirty f \<Longrightarrow> ns_GateNodeStatus f = Some g \<Longrightarrow> (gn_isDirty g \<Longrightarrow> gn_isDirty g') \<Longrightarrow>
     fields_dirty (f\<lparr>ns_GateNodeStatus := Some g'\<rparr>)"
  "fields_dirty f \<Longrightarrow> ns_ArrayNodeStatus f = Some a \<Longrightarrow> (an_isDirty a \<Longrightarrow> an_isDirty a') \<Longrightarrow>
     fields_dirty (f\<lparr>ns_ArrayNodeStatus := Some a'\<rparr>)"
  by (auto simp: fields_dirty_def)

text \<open>A tracked operation on a per-kind status is one on the fields.\<close>

lemma sub_ok_task:
  assumes "\<And>t. tn_isDirty t \<Longrightarrow> tn_isDirty (h t)"
    and "\<And>t. (h t)\<lparr>tn_isDirty := False\<rparr> \<noteq> t\<lparr>tn_isDirty := False\<rparr> \<Longrightarrow> tn_isDirty (h t)"
  shows "field_ok (\<lambda>f. case ns_TaskNodeStatus f of None \<Rightarrow> f\<lparr>ns_isDirty := True, ns_TaskNodeStatus := Some (h n)\<rparr>
     | Some t \<Rightarrow> f\<lparr>ns_TaskNodeStatus := Some (h t)\<rparr>)"
  unfolding field_ok_def
proof
  fix f
  show "(fields_dirty f \<longrightarrow> fields_dirty (case ns_TaskNodeStatus f of None \<Rightarrow> f\<lparr>ns_isDirty := True, ns_TaskNodeStatus := Some (h n)\<rparr>
       | Some t \<Rightarrow> f\<lparr>ns_TaskNodeStatus := Some (h t)\<rparr>)) \<and>
     (clean_fields (case ns_TaskNodeStatus f of None \<Rightarrow> f\<lparr>ns_isDirty := True, ns_TaskNodeStatus := Some (h n)\<rparr>
       | Some t \<Rightarrow> f\<lparr>ns_TaskNodeStatus := Some (h t)\<rparr>) \<noteq> clean_fields f \<longrightarrow>
      fields_dirty (case ns_TaskNodeStatus f of None \<Rightarrow> f\<lparr>ns_isDirty := True, ns_TaskNodeStatus := Some (h n)\<rparr>
       | Some t \<Rightarrow> f\<lparr>ns_TaskNodeStatus := Some (h t)\<rparr>))"
  proof (cases "ns_TaskNodeStatus f")
    case (Some t)
    have "clean_fields (f\<lparr>ns_TaskNodeStatus := Some (h t)\<rparr>) = clean_fields f" if "\<not> tn_isDirty (h t)"
    proof -
      have "(h t)\<lparr>tn_isDirty := False\<rparr> = t\<lparr>tn_isDirty := False\<rparr>" using assms(2) that by blast
      with Some show ?thesis by (simp add: clean_fields_def)
    qed
    moreover have "fields_dirty (f\<lparr>ns_TaskNodeStatus := Some (h t)\<rparr>)" if "tn_isDirty (h t)"
      using that by (simp add: fields_dirty_def)
    ultimately show ?thesis using Some assms(1) [of t] sub_ok_tools(1) [of f t "h t"] by auto
  qed (simp add: fields_dirty_def)
qed

lemma sub_ok_dynamic:
  assumes "\<And>t. dn_isDirty t \<Longrightarrow> dn_isDirty (h t)"
    and "\<And>t. (h t)\<lparr>dn_isDirty := False\<rparr> \<noteq> t\<lparr>dn_isDirty := False\<rparr> \<Longrightarrow> dn_isDirty (h t)"
  shows "field_ok (\<lambda>f. case ns_DynamicNodeStatus f of None \<Rightarrow> f\<lparr>ns_isDirty := True, ns_DynamicNodeStatus := Some (h n)\<rparr>
     | Some t \<Rightarrow> f\<lparr>ns_DynamicNodeStatus := Some (h t)\<rparr>)"
  unfolding field_ok_def
proof
  fix f
  show "(fields_dirty f \<longrightarrow> fields_dirty (case ns_DynamicNodeStatus f of None \<Rightarrow> f\<lparr>ns_isDirty := True, ns_DynamicNodeStatus := Some (h n)\<rparr>
       | Some t \<Rightarrow> f\<lparr>ns_DynamicNodeStatus := Some (h t)\<rparr>)) \<and>
     (clean_fields (case ns_DynamicNodeStatus f of None \<Rightarrow> f\<lparr>ns_isDirty := True, ns_DynamicNodeStatus := Some (h n)\<rparr>
       | Some t \<Rightarrow> f\<lparr>ns_DynamicNodeStatus := Some (h t)\<rparr>) \<noteq> clean_fields f \<longrightarrow>
      fields_dirty (case ns_DynamicNodeStatus f of None \<Rightarrow> f\<lparr>ns_isDirty := True, ns_DynamicNodeStatus := Some (h n)\<rparr>
       | Some t \<Rightarrow> f\<lparr>ns_DynamicNodeStatus := Some (h t)\<rparr>))"
  proof (cases "ns_DynamicNodeStatus f")
    case (Some t)
    have "clean_fields (f\<lparr>ns_DynamicNodeStatus := Some (h t)\<rparr>) = clean_fields f" if "\<not> dn_isDirty (h t)"
    proof -
      have "(h t)\<lparr>dn_isDirty := False\<rparr> = t\<lparr>dn_isDirty := False\<rparr>" using assms(2) that by blast
      with Some show ?thesis by (simp add: clean_fields_def)
    qed
    moreover have "fields_dirty (f\<lparr>ns_DynamicNodeStatus := Some (h t)\<rparr>)" if "dn_isDirty (h t)"
      using that by (simp add: fields_dirty_def)
    ultimately show ?thesis using Some assms(1) [of t] sub_ok_tools(2) [of f t "h t"] by auto
  qed (simp add: fields_dirty_def)
qed

lemma sub_ok_branch:
  assumes "\<And>t. br_isDirty t \<Longrightarrow> br_isDirty (h t)"
    and "\<And>t. (h t)\<lparr>br_isDirty := False\<rparr> \<noteq> t\<lparr>br_isDirty := False\<rparr> \<Longrightarrow> br_isDirty (h t)"
  shows "field_ok (\<lambda>f. case ns_BranchStatus f of None \<Rightarrow> f\<lparr>ns_isDirty := True, ns_BranchStatus := Some (h n)\<rparr>
     | Some t \<Rightarrow> f\<lparr>ns_BranchStatus := Some (h t)\<rparr>)"
  unfolding field_ok_def
proof
  fix f
  show "(fields_dirty f \<longrightarrow> fields_dirty (case ns_BranchStatus f of None \<Rightarrow> f\<lparr>ns_isDirty := True, ns_BranchStatus := Some (h n)\<rparr>
       | Some t \<Rightarrow> f\<lparr>ns_BranchStatus := Some (h t)\<rparr>)) \<and>
     (clean_fields (case ns_BranchStatus f of None \<Rightarrow> f\<lparr>ns_isDirty := True, ns_BranchStatus := Some (h n)\<rparr>
       | Some t \<Rightarrow> f\<lparr>ns_BranchStatus := Some (h t)\<rparr>) \<noteq> clean_fields f \<longrightarrow>
      fields_dirty (case ns_BranchStatus f of None \<Rightarrow> f\<lparr>ns_isDirty := True, ns_BranchStatus := Some (h n)\<rparr>
       | Some t \<Rightarrow> f\<lparr>ns_BranchStatus := Some (h t)\<rparr>))"
  proof (cases "ns_BranchStatus f")
    case (Some t)
    have "clean_fields (f\<lparr>ns_BranchStatus := Some (h t)\<rparr>) = clean_fields f" if "\<not> br_isDirty (h t)"
    proof -
      have "(h t)\<lparr>br_isDirty := False\<rparr> = t\<lparr>br_isDirty := False\<rparr>" using assms(2) that by blast
      with Some show ?thesis by (simp add: clean_fields_def)
    qed
    moreover have "fields_dirty (f\<lparr>ns_BranchStatus := Some (h t)\<rparr>)" if "br_isDirty (h t)"
      using that by (simp add: fields_dirty_def)
    ultimately show ?thesis using Some assms(1) [of t] sub_ok_tools(3) [of f t "h t"] by auto
  qed (simp add: fields_dirty_def)
qed

lemma sub_ok_workflow:
  assumes "\<And>t. wn_isDirty t \<Longrightarrow> wn_isDirty (h t)"
    and "\<And>t. (h t)\<lparr>wn_isDirty := False\<rparr> \<noteq> t\<lparr>wn_isDirty := False\<rparr> \<Longrightarrow> wn_isDirty (h t)"
  shows "field_ok (\<lambda>f. case ns_WorkflowNodeStatus f of None \<Rightarrow> f\<lparr>ns_isDirty := True, ns_WorkflowNodeStatus := Some (h n)\<rparr>
     | Some t \<Rightarrow> f\<lparr>ns_WorkflowNodeStatus := Some (h t)\<rparr>)"
  unfolding field_ok_def
proof
  fix f
  show "(fields_dirty f \<longrightarrow> fields_dirty (case ns_WorkflowNodeStatus f of None \<Rightarrow> f\<lparr>ns_isDirty := True, ns_WorkflowNodeStatus := Some (h n)\<rparr>
       | Some t \<Rightarrow> f\<lparr>ns_WorkflowNodeStatus := Some (h t)\<rparr>)) \<and>
     (clean_fields (case ns_WorkflowNodeStatus f of None \<Rightarrow> f\<lparr>ns_isDirty := True, ns_WorkflowNodeStatus := Some (h n)\<rparr>
       | Some t \<Rightarrow> f\<lparr>ns_WorkflowNodeStatus := Some (h t)\<rparr>) \<noteq> clean_fields f \<longrightarrow>
      fields_dirty (case ns_WorkflowNodeStatus f of None \<Rightarrow> f\<lparr>ns_isDirty := True, ns_WorkflowNodeStatus := Some (h n)\<rparr>
       | Some t \<Rightarrow> f\<lparr>ns_WorkflowNodeStatus := Some (h t)\<rparr>))"
  proof (cases "ns_WorkflowNodeStatus f")
    case (Some t)
    have "clean_fields (f\<lparr>ns_WorkflowNodeStatus := Some (h t)\<rparr>) = clean_fields f" if "\<not> wn_isDirty (h t)"
    proof -
      have "(h t)\<lparr>wn_isDirty := False\<rparr> = t\<lparr>wn_isDirty := False\<rparr>" using assms(2) that by blast
      with Some show ?thesis by (simp add: clean_fields_def)
    qed
    moreover have "fields_dirty (f\<lparr>ns_WorkflowNodeStatus := Some (h t)\<rparr>)" if "wn_isDirty (h t)"
      using that by (simp add: fields_dirty_def)
    ultimately show ?thesis using Some assms(1) [of t] sub_ok_tools(4) [of f t "h t"] by auto
  qed (simp add: fields_dirty_def)
qed

lemma sub_ok_gate:
  assumes "\<And>t. gn_isDirty t \<Longrightarrow> gn_isDirty (h t)"
    and "\<And>t. (h t)\<lparr>gn_isDirty := False\<rparr> \<noteq> t\<lparr>gn_isDirty := False\<rparr> \<Longrightarrow> gn_isDirty (h t)"
  shows "field_ok (\<lambda>f. case ns_GateNodeStatus f of None \<Rightarrow> f\<lparr>ns_isDirty := True, ns_GateNodeStatus := Some (h n)\<rparr>
     | Some t \<Rightarrow> f\<lparr>ns_GateNodeStatus := Some (h t)\<rparr>)"
  unfolding field_ok_def
proof
  fix f
  show "(fields_dirty f \<longrightarrow> fields_dirty (case ns_GateNodeStatus f of None \<Rightarrow> f\<lparr>ns_isDirty := True, ns_GateNodeStatus := Some (h n)\<rparr>
       | Some t \<Rightarrow> f\<lparr>ns_GateNodeStatus := Some (h t)\<rparr>)) \<and>
     (clean_fields (case ns_GateNodeStatus f of None \<Rightarrow> f\<lparr>ns_isDirty := True, ns_GateNodeStatus := Some (h n)\<rparr>
       | Some t \<Rightarrow> f\<lparr>ns_GateNodeStatus := Some (h t)\<rparr>) \<noteq> clean_fields f \<longrightarrow>
      fields_dirty (case ns_GateNodeStatus f of None \<Rightarrow> f\<lparr>ns_isDirty := True, ns_GateNodeStatus := Some (h n)\<rparr>
       | Some t \<Rightarrow> f\<lparr>ns_GateNodeStatus := Some (h t)\<rparr>))"
  proof (cases "ns_GateNodeStatus f")
    case (Some t)
    have "clean_fields (f\<lparr>ns_GateNodeStatus := Some (h t)\<rparr>) = clean_fields f" if "\<not> gn_isDirty (h t)"
    proof -
      have "(h t)\<lparr>gn_isDirty := False\<rparr> = t\<lparr>gn_isDirty := False\<rparr>" using assms(2) that by blast
      with Some show ?thesis by (simp add: clean_fields_def)
    qed
    moreover have "fields_dirty (f\<lparr>ns_GateNodeStatus := Some (h t)\<rparr>)" if "gn_isDirty (h t)"
      using that by (simp add: fields_dirty_def)
    ultimately show ?thesis using Some assms(1) [of t] sub_ok_tools(5) [of f t "h t"] by auto
  qed (simp add: fields_dirty_def)
qed

lemma sub_ok_array:
  assumes "\<And>t. an_isDirty t \<Longrightarrow> an_isDirty (h t)"
    and "\<And>t. (h t)\<lparr>an_isDirty := False\<rparr> \<noteq> t\<lparr>an_isDirty := False\<rparr> \<Longrightarrow> an_isDirty (h t)"
  shows "field_ok (\<lambda>f. case ns_ArrayNodeStatus f of None \<Rightarrow> f\<lparr>ns_isDirty := True, ns_ArrayNodeStatus := Some (h n)\<rparr>
     | Some t \<Rightarrow> f\<lparr>ns_ArrayNodeStatus := Some (h t)\<rparr>)"
  unfolding field_ok_def
proof
  fix f
  show "(fields_dirty f \<longrightarrow> fields_dirty (case ns_ArrayNodeStatus f of None \<Rightarrow> f\<lparr>ns_isDirty := True, ns_ArrayNodeStatus := Some (h n)\<rparr>
       | Some t \<Rightarrow> f\<lparr>ns_ArrayNodeStatus := Some (h t)\<rparr>)) \<and>
     (clean_fields (case ns_ArrayNodeStatus f of None \<Rightarrow> f\<lparr>ns_isDirty := True, ns_ArrayNodeStatus := Some (h n)\<rparr>
       | Some t \<Rightarrow> f\<lparr>ns_ArrayNodeStatus := Some (h t)\<rparr>) \<noteq> clean_fields f \<longrightarrow>
      fields_dirty (case ns_ArrayNodeStatus f of None \<Rightarrow> f\<lparr>ns_isDirty := True, ns_ArrayNodeStatus := Some (h n)\<rparr>
       | Some t \<Rightarrow> f\<lparr>ns_ArrayNodeStatus := Some (h t)\<rparr>))"
  proof (cases "ns_ArrayNodeStatus f")
    case (Some t)
    have "clean_fields (f\<lparr>ns_ArrayNodeStatus := Some (h t)\<rparr>) = clean_fields f" if "\<not> an_isDirty (h t)"
    proof -
      have "(h t)\<lparr>an_isDirty := False\<rparr> = t\<lparr>an_isDirty := False\<rparr>" using assms(2) that by blast
      with Some show ?thesis by (simp add: clean_fields_def)
    qed
    moreover have "fields_dirty (f\<lparr>ns_ArrayNodeStatus := Some (h t)\<rparr>)" if "an_isDirty (h t)"
      using that by (simp add: fields_dirty_def)
    ultimately show ?thesis using Some assms(1) [of t] sub_ok_tools(6) [of f t "h t"] by auto
  qed (simp add: fields_dirty_def)
qed

lemma with_task_ok: "field_ok (\<lambda>f. case ns_TaskNodeStatus f of
       None \<Rightarrow> f\<lparr>ns_isDirty := True, ns_TaskNodeStatus := Some (task_step op new_TaskNodeStatus)\<rparr>
     | Some t \<Rightarrow> f\<lparr>ns_TaskNodeStatus := Some (task_step op t)\<rparr>)"
  by (rule sub_ok_task [OF task_status.dirty_stays task_status.change_dirties])

lemma with_dynamic_ok: "field_ok (\<lambda>f. case ns_DynamicNodeStatus f of
       None \<Rightarrow> f\<lparr>ns_isDirty := True, ns_DynamicNodeStatus := Some (dynamic_step op new_DynamicNodeStatus)\<rparr>
     | Some t \<Rightarrow> f\<lparr>ns_DynamicNodeStatus := Some (dynamic_step op t)\<rparr>)"
  by (rule sub_ok_dynamic [OF dynamic_status.dirty_stays dynamic_status.change_dirties])

lemma with_branch_ok: "field_ok (\<lambda>f. case ns_BranchStatus f of
       None \<Rightarrow> f\<lparr>ns_isDirty := True, ns_BranchStatus := Some (branch_step op new_BranchNodeStatus)\<rparr>
     | Some t \<Rightarrow> f\<lparr>ns_BranchStatus := Some (branch_step op t)\<rparr>)"
  by (rule sub_ok_branch [OF branch_status.dirty_stays branch_status.change_dirties])

lemma with_workflow_ok: "field_ok (\<lambda>f. case ns_WorkflowNodeStatus f of
       None \<Rightarrow> f\<lparr>ns_isDirty := True, ns_WorkflowNodeStatus := Some (workflow_node_step op new_WorkflowNodeStatus)\<rparr>
     | Some t \<Rightarrow> f\<lparr>ns_WorkflowNodeStatus := Some (workflow_node_step op t)\<rparr>)"
  by (rule sub_ok_workflow [OF workflow_node_status.dirty_stays workflow_node_status.change_dirties])

lemma with_gate_ok: "field_ok (\<lambda>f. case ns_GateNodeStatus f of
       None \<Rightarrow> f\<lparr>ns_isDirty := True, ns_GateNodeStatus := Some (SetGateNodePhase op new_GateNodeStatus)\<rparr>
     | Some t \<Rightarrow> f\<lparr>ns_GateNodeStatus := Some (SetGateNodePhase op t)\<rparr>)"
  by (rule sub_ok_gate [OF gate_status.dirty_stays gate_status.change_dirties])

lemma with_array_ok: "field_ok (\<lambda>f. case ns_ArrayNodeStatus f of
       None \<Rightarrow> f\<lparr>ns_isDirty := True, ns_ArrayNodeStatus := Some (array_step op new_ArrayNodeStatus)\<rparr>
     | Some t \<Rightarrow> f\<lparr>ns_ArrayNodeStatus := Some (array_step op t)\<rparr>)"
  by (rule sub_ok_array [OF array_status.dirty_stays array_status.change_dirties])

lemma ephemeral_ok:
  "field_ok (\<lambda>f. f\<lparr>ns_ParentTask := t\<rparr>)" "field_ok (\<lambda>f. f\<lparr>ns_DataDir := d\<rparr>)"
  "field_ok (\<lambda>f. f\<lparr>ns_OutputDir := d\<rparr>)"
  by (simp_all add: field_ok_def fields_dirty_def clean_fields_def)

lemma parent_ok: "field_ok (\<lambda>f.
     if ns_ParentNode f = None \<or> map_option fst (ns_ParentNode f) \<noteq> map_option fst n
     then f\<lparr>ns_ParentNode := n, ns_isDirty := True\<rparr> else f)"
  by (auto simp: field_ok_def fields_dirty_def)

text \<open>The attributes set on a status that is handed out are not written back.\<close>

lemma ephemeral_attributes:
  "clean (snd (setEphemeralNodeExecutionStatusAttributes c fmt inn i n)) = clean n"
  "IsDirty (snd (setEphemeralNodeExecutionStatusAttributes c fmt inn i n)) = IsDirty n"
  by (cases n; auto simp: setEphemeralNodeExecutionStatusAttributes_def SetParentTaskID_def SetDataDir_def
      SetOutputDir_def upd_def clean_iff IsDirty_iff fields_dirty_def clean_fields_def Let_def split: option.split)+

lemma put_status_clean:
  "map_of m i = Some c \<Longrightarrow> clean c' = clean c \<Longrightarrow>
     map (\<lambda>(k, s). (k, clean s)) (put_status i c' m) = map (\<lambda>(k, s). (k, clean s)) m"
  by (induction m) (auto split: if_splits)

lemma put_status_dirty:
  "map_of m i = Some c \<Longrightarrow> (IsDirty c \<Longrightarrow> IsDirty c') \<Longrightarrow> (\<exists>(k, s) \<in> set m. IsDirty s) \<Longrightarrow>
     (\<exists>(k, s) \<in> set (put_status i c' m). IsDirty s)"
proof (induction m)
  case (Cons x m)
  obtain k v where [simp]: "x = (k, v)" by (cases x)
  show ?case
  proof (cases "k = i")
    case True
    with Cons.prems show ?thesis by auto
  next
    case False
    with Cons.prems have "map_of m i = Some c" by (simp split: if_splits)
    with Cons.IH [OF _ Cons.prems(2)] Cons.prems(3) False show ?thesis by auto
  qed
qed simp

lemma put_status_member: "(i, c) \<in> set (put_status i c m)"
  by (induction m) auto

lemma replace_child:
  assumes "map_of (nil_map subs) i = Some c"
    and "IsDirty c \<Longrightarrow> IsDirty c'" "clean c' \<noteq> clean c \<Longrightarrow> IsDirty c'"
  shows "IsDirty (NodeStatus f subs) \<Longrightarrow> IsDirty (NodeStatus f (Some (put_status i c' (nil_map subs))))"
    and "clean (NodeStatus f (Some (put_status i c' (nil_map subs)))) \<noteq> clean (NodeStatus f subs) \<Longrightarrow>
      IsDirty (NodeStatus f (Some (put_status i c' (nil_map subs))))"
proof -
  obtain m where m: "subs = Some m" using assms(1) by (cases subs) auto
  show "IsDirty (NodeStatus f subs) \<Longrightarrow> IsDirty (NodeStatus f (Some (put_status i c' (nil_map subs))))"
    using assms(1,2) put_status_dirty [of m i c c'] unfolding IsDirty_iff m by auto
  show "clean (NodeStatus f (Some (put_status i c' (nil_map subs)))) \<noteq> clean (NodeStatus f subs) \<Longrightarrow>
      IsDirty (NodeStatus f (Some (put_status i c' (nil_map subs))))"
    using assms(1,3) put_status_clean [of m i c c'] put_status_member [of i c' m]
    unfolding IsDirty_iff clean_iff m by auto
qed

lemma status_child: "s = NodeStatus (ns s) (SubNodeStatus s)"
  by simp

lemma GetNodeExecutionStatus_tracked:
  "(IsDirty s \<longrightarrow> IsDirty (snd (GetNodeExecutionStatus c fmt i s))) \<and>
   (clean (snd (GetNodeExecutionStatus c fmt i s)) \<noteq> clean s \<longrightarrow> IsDirty (snd (GetNodeExecutionStatus c fmt i s)))"
proof (cases "map_of (nil_map (SubNodeStatus s)) i")
  case None
  then show ?thesis by (simp add: GetNodeExecutionStatus_def Let_def own_flag_dirty)
next
  case (Some n)
  let ?n = "snd (setEphemeralNodeExecutionStatusAttributes c fmt s i n)"
  have eq: "snd (GetNodeExecutionStatus c fmt i s) =
      NodeStatus (ns s) (Some (put_status i ?n (nil_map (SubNodeStatus s))))"
    using Some by (simp add: GetNodeExecutionStatus_def Let_def)
  show ?thesis
    using replace_child [OF Some, of ?n "ns s"] ephemeral_attributes [of c fmt s i n]
    unfolding eq by (metis NodeStatus.collapse)
qed

lemma UpdatePhase_cases:
  "UpdatePhase now p t r dbg e s = s \<or> ns_isDirty (ns (UpdatePhase now p t r dbg e s))"
  by (simp add: UpdatePhase_def Let_def)

lemma UpdatePhase_tracked:
  "IsDirty s \<Longrightarrow> IsDirty (UpdatePhase now p t r dbg e s)"
  "clean (UpdatePhase now p t r dbg e s) \<noteq> clean s \<Longrightarrow> IsDirty (UpdatePhase now p t r dbg e s)"
  using UpdatePhase_cases [of now p t r dbg e s] own_flag_dirty by metis+

lemmas flag_setters = ClearWorkflowStatus_def ClearTaskStatus_def ClearLastAttemptStartedAt_def
  ClearSubNodeStatus_def ClearGateNodeStatus_def ClearArrayNodeStatus_def ClearDynamicNodeStatus_def
  SetCached_def IncrementAttempts_def IncrementSystemFailures_def

lemma node_step_tracked:
  "(IsDirty s \<longrightarrow> IsDirty (node_step op s)) \<and> (clean (node_step op s) \<noteq> clean s \<longrightarrow> IsDirty (node_step op s))"
proof (induction op arbitrary: s)
  case (Op_Child i op)
  show ?case
  proof (cases "map_of (nil_map (SubNodeStatus s)) i")
    case (Some c)
    then show ?thesis
      using replace_child [OF Some, of "node_step op c" "ns s"] Op_Child [of c] by simp
  qed simp
next
  case (Op_Task op)
  then show ?case using field_ok_upd [OF with_task_ok] by (simp add: with_task_def)
next
  case (Op_Dynamic op)
  then show ?case using field_ok_upd [OF with_dynamic_ok] by (simp add: with_dynamic_def)
next
  case (Op_Branch op)
  then show ?case using field_ok_upd [OF with_branch_ok] by (simp add: with_branch_def)
next
  case (Op_Workflow op)
  then show ?case using field_ok_upd [OF with_workflow_ok] by (simp add: with_workflow_def)
next
  case (Op_Gate op)
  then show ?case using field_ok_upd [OF with_gate_ok] by (simp add: with_gate_def)
next
  case (Op_Array op)
  then show ?case using field_ok_upd [OF with_array_ok] by (simp add: with_array_def)
next
  case (Op_SetParentNodeID n)
  then show ?case using field_ok_upd [OF parent_ok] by (simp add: SetParentNodeID_def)
next
  case (Op_UpdatePhase now p t r dbg e)
  then show ?case using UpdatePhase_tracked by simp
next
  case (Op_GetNodeExecutionStatus c fmt i)
  then show ?case using GetNodeExecutionStatus_tracked by simp
qed (simp_all add: flag_setters own_flag_dirty SetParentTaskID_def SetDataDir_def SetOutputDir_def
    field_ok_upd [OF ephemeral_ok(1)] field_ok_upd [OF ephemeral_ok(2)] field_ok_upd [OF ephemeral_ok(3)])

interpretation node_status: tracked IsDirty clean node_step
  using node_step_tracked by unfold_locales blast+


text \<open>
  Two setters write a serialized field without raising the dirty flag: the execution error of a dynamic
  node and the time of the last phase update of a task node.
\<close>

lemma silent_setters:
  "dn_isDirty (dn_SetExecutionError err d) = dn_isDirty d \<and> dn_Error (dn_SetExecutionError err d) = err \<and>
   tn_isDirty (SetLastPhaseUpdatedAt at t) = tn_isDirty t \<and>
   tn_LastPhaseUpdatedAt (SetLastPhaseUpdatedAt at t) = at"
  by (simp add: dn_SetExecutionError_def SetLastPhaseUpdatedAt_def)

subsection \<open>Phase updates\<close>

text \<open>
  Updating the phase: afterwards the status has the phase asked for and a message of at most the
  maximal size. A node that reaches a terminal phase has a stop time, which no later update changes, and an end in success or
  by skipping drops the message, the times and the per-kind and nested statuses.
\<close>

lemma update_phase_effect:
  fixes s :: NodeStatus and now t :: time and p :: NodePhase and reason :: string and dbg :: bool
    and err :: "ExecutionError option"
  assumes "length (ns_Message (ns s)) \<le> maxMessageSize"
  defines "s' \<equiv> UpdatePhase now p t reason dbg err s"
  shows "ns_Phase (ns s') = p \<and> length (ns_Message (ns s')) \<le> maxMessageSize \<and>
    (ns_StoppedAt (ns s) \<noteq> None \<longrightarrow> ns_StoppedAt (ns s') = ns_StoppedAt (ns s)) \<and>
    ((ns_Phase (ns s), ns_Message (ns s)) \<noteq> (p, reason) \<longrightarrow> IsPhaseTerminal p \<longrightarrow> ns_StoppedAt (ns s') \<noteq> None) \<and>
    ((ns_Phase (ns s), ns_Message (ns s)) \<noteq> (p, reason) \<longrightarrow> p = NodePhaseSucceeded \<or> p = NodePhaseSkipped \<longrightarrow>
       ns_Message (ns s') = [] \<and> ns_QueuedAt (ns s') = None \<and> ns_StartedAt (ns s') = None \<and>
       ns_TaskNodeStatus (ns s') = None \<and> ns_DynamicNodeStatus (ns s') = None \<and>
       ns_BranchStatus (ns s') = None \<and> ns_WorkflowNodeStatus (ns s') = None \<and> SubNodeStatus s' = None) \<and>
    (err \<noteq> None \<longrightarrow> (ns_Phase (ns s), ns_Message (ns s)) \<noteq> (p, reason) \<longrightarrow> ns_Error (ns s') = err)"
  using assms(1) unfolding s'_def
  by (cases p; cases "ns_Phase (ns s) = p \<and> ns_Message (ns s) = reason";
      simp add: UpdatePhase_def Let_def or_now_def IsPhaseTerminal_def; blast)


subsection \<open>Comparison\<close>

fun keys_distinct :: "NodeStatus \<Rightarrow> bool" where
  "keys_distinct (NodeStatus f None) = True"
| "keys_distinct (NodeStatus f (Some m)) = (distinct (map fst m) \<and> list_all (\<lambda>(k, s). keys_distinct s) m)"

lemma NodeStatus_Equals_refl: "keys_distinct s \<Longrightarrow> NodeStatus_Equals s s"
proof (induction s rule: IsDirty.induct)
  case (1 f)
  then show ?case by (simp add: fields_Equals_def)
next
  case (2 f m)
  then have "map_of m k = Some v" "keys_distinct v" if "(k, v) \<in> set m" for k v
    using that by (auto simp: list_all_iff)
  with 2 show ?case by (fastforce simp: fields_Equals_def list_all_iff)
qed

lemma fields_Equals_sym: "fields_Equals a b \<Longrightarrow> fields_Equals b a"
  by (auto simp: fields_Equals_def dest: sub_Equals_sym)

lemma same_keys:
  assumes "distinct (map fst m)" "distinct (map fst m')" "length m = length m'" "fst ` set m \<subseteq> fst ` set m'"
  shows "fst ` set m' = fst ` set m"
proof -
  have "card (fst ` set m) = length m" "card (fst ` set m') = length m'"
    using distinct_card [OF assms(1)] distinct_card [OF assms(2)] by simp_all
  then show ?thesis using card_subset_eq [OF _ assms(4)] assms(3) by simp
qed

text \<open>
  Comparison of statuses is reflexive and symmetric (nested maps have each key once), and it
  treats any two statuses that both succeeded, or both failed, as equal.
\<close>

lemma status_equals:
  assumes "keys_distinct s" "keys_distinct s'"
  shows "NodeStatus_Equals s s \<and> (NodeStatus_Equals s s' \<longrightarrow> NodeStatus_Equals s' s) \<and>
    (ns_Phase (ns s) = ns_Phase (ns s') \<and> ns_Phase (ns s) \<in> {NodePhaseSucceeded, NodePhaseFailed} \<longrightarrow>
       NodeStatus_Equals s s')"
proof (intro conjI impI)
  show "NodeStatus_Equals s s" by (rule NodeStatus_Equals_refl [OF assms(1)])
  show "NodeStatus_Equals s' s" if "NodeStatus_Equals s s'"
    using that assms
  proof (induction s s' rule: NodeStatus_Equals.induct)
    case (1 a subs b subs')
    show ?case
    proof (cases "ns_Phase a = NodePhaseSucceeded \<or> ns_Phase a = NodePhaseFailed")
      case True
      with "1.prems" show ?thesis by auto
    next
      case live: False
      with "1.prems"(1) have eq: "ns_Phase a = ns_Phase b" "fields_Equals a b"
        "length (nil_map subs) = length (nil_map subs')"
        and all: "\<And>k v. (k, v) \<in> set (nil_map subs) \<Longrightarrow> \<exists>v'. map_of (nil_map subs') k = Some v' \<and> NodeStatus_Equals v v'"
        by (auto simp: list_all_iff split: option.splits)
      have d: "distinct (map fst (nil_map subs))" "distinct (map fst (nil_map subs'))"
        "\<And>k v. (k, v) \<in> set (nil_map subs) \<Longrightarrow> keys_distinct v"
        "\<And>k v. (k, v) \<in> set (nil_map subs') \<Longrightarrow> keys_distinct v"
        using "1.prems"(2,3) by (cases subs; cases subs'; auto simp: list_all_iff)+
      have "fst ` set (nil_map subs) \<subseteq> fst ` set (nil_map subs')"
        using all by (force dest: map_of_SomeD)
      then have keys: "fst ` set (nil_map subs') = fst ` set (nil_map subs)"
        using same_keys [OF d(1,2) eq(3)] by blast
      have converse: "\<exists>v. map_of (nil_map subs) k = Some v \<and> NodeStatus_Equals v' v" if kv: "(k, v') \<in> set (nil_map subs')" for k v'
      proof -
        from kv keys obtain v where v: "(k, v) \<in> set (nil_map subs)" by force
        have look: "map_of (nil_map subs') k = Some v'" using d(2) kv by simp
        from all [OF v] look have "NodeStatus_Equals v v'" by simp
        moreover obtain m where m: "subs = Some m" "(k, v) \<in> set m" using v by (cases subs) auto
        ultimately have "NodeStatus_Equals v' v"
          using "1.IH" [of m "(k, v)" k v v'] look d(3) [OF v] d(4) [OF kv] live eq by auto
        then show ?thesis using d(1) v by auto
      qed
      have "list_all (\<lambda>(k, v'). case map_of (nil_map subs) k of None \<Rightarrow> False | Some v \<Rightarrow> NodeStatus_Equals v' v)
          (nil_map subs')"
        unfolding list_all_iff using converse by fastforce
      with live eq show ?thesis by (cases subs') (auto simp: fields_Equals_sym)
    qed
  qed
  show "NodeStatus_Equals s s'"
    if "ns_Phase (ns s) = ns_Phase (ns s') \<and> ns_Phase (ns s) \<in> {NodePhaseSucceeded, NodePhaseFailed}"
    using that by (cases s; cases s') auto
qed


end
