(* ===== verification/Node_State.thy ===== *)
theory Node_State
  imports Core_Model Node_Status
begin

section \<open>Handler transitions and node state (controller/nodes/handler, node\_state\_manager.go, transformers.go)\<close>

text \<open>
  What a node handler hands to the executor: a transition with phase information, and the
  per-kind state that it put into the state manager. \<open>UpdateNodeStatus\<close> writes both into the status of
  the node, from which the next round reads the state back.

  The clock (\<open>time.Now\<close>) and the address of a newly allocated error are arguments. A node phase of a
  plugin is an 8-bit integer.
\<close>

subsection \<open>Phase information\<close>

datatype EPhase =
    EPhaseUndefined | EPhaseNotReady | EPhaseQueued | EPhaseRunning | EPhaseSkip | EPhaseFailed
  | EPhaseRetryableFailure | EPhaseSuccess | EPhaseTimedout | EPhaseFailing | EPhaseDynamicRunning
  | EPhaseRecovered

definition EPhase_IsTerminal :: "EPhase \<Rightarrow> bool" where
  "EPhase_IsTerminal p \<longleftrightarrow>
     p = EPhaseFailed \<or> p = EPhaseSuccess \<or> p = EPhaseSkip \<or> p = EPhaseTimedout \<or> p = EPhaseRecovered"

record OutputInfo =
  OutputURI :: string
  DeckURI :: "string option"

text \<open>The metadata of a task that is reported in events. Of a dynamic workflow and of a catalog key only a text is kept.\<close>

datatype CatalogCacheStatus =
    CACHE_DISABLED | CACHE_MISS | CACHE_HIT | CACHE_POPULATED | CACHE_LOOKUP_FAILURE | CACHE_PUT_FAILURE
  | CACHE_SKIPPED | CACHE_EVICTED

datatype ReservationStatus =
    RESERVATION_DISABLED | RESERVATION_ACQUIRED | RESERVATION_EXISTS | RESERVATION_RELEASED | RESERVATION_FAILURE

record TaskNodeMetadata =
  tm_CacheStatus :: CatalogCacheStatus
  tm_CatalogKey :: "string option"
  tm_ReservationStatus :: ReservationStatus
  tm_DynamicWorkflow :: "string option"
  tm_CheckpointUri :: string

record ExecutionInfo =
  ei_WorkflowNodeInfo :: "(string \<times> string \<times> string) option option"
  ei_Inputs :: "(string \<times> lit_ptr) list option"
  ei_OutputInfo :: "OutputInfo option"
  ei_TaskNodeInfo :: "TaskNodeMetadata option option"

definition empty_info :: ExecutionInfo where
  "empty_info = \<lparr>ei_WorkflowNodeInfo = None, ei_Inputs = None, ei_OutputInfo = None, ei_TaskNodeInfo = None\<rparr>"

record PhaseInfo =
  pi_p :: EPhase
  pi_occurredAt :: time
  pi_err :: "ExecutionError option"
  pi_info :: "ExecutionInfo option"
  pi_reason :: string

definition WithInfo :: "PhaseInfo \<Rightarrow> ExecutionInfo option \<Rightarrow> PhaseInfo" where
  "WithInfo p i = p\<lparr>pi_info := i\<rparr>"

definition WithOccuredAt :: "PhaseInfo \<Rightarrow> time \<Rightarrow> PhaseInfo" where
  "WithOccuredAt p t = p\<lparr>pi_occurredAt := t\<rparr>"

definition PhaseInfoUndefined :: PhaseInfo where
  "PhaseInfoUndefined = \<lparr>pi_p = EPhaseUndefined, pi_occurredAt = 0, pi_err = None, pi_info = None, pi_reason = []\<rparr>"

definition phaseInfo ::
    "time \<Rightarrow> EPhase \<Rightarrow> ExecutionError option \<Rightarrow> ExecutionInfo option \<Rightarrow> string \<Rightarrow> PhaseInfo" where
  "phaseInfo now p err info reason =
     \<lparr>pi_p = p, pi_occurredAt = now, pi_err = err, pi_info = info, pi_reason = reason\<rparr>"

definition PhaseInfoNotReady :: "time \<Rightarrow> string \<Rightarrow> PhaseInfo" where
  "PhaseInfoNotReady now reason = phaseInfo now EPhaseNotReady None None reason"

definition PhaseInfoQueued :: "time \<Rightarrow> string \<Rightarrow> (string \<times> lit_ptr) list option \<Rightarrow> PhaseInfo" where
  "PhaseInfoQueued now reason inputs =
     phaseInfo now EPhaseQueued None (Some (empty_info\<lparr>ei_Inputs := inputs\<rparr>)) reason"

definition PhaseInfoRunning :: "time \<Rightarrow> ExecutionInfo option \<Rightarrow> PhaseInfo" where
  "PhaseInfoRunning now info = phaseInfo now EPhaseRunning None info ''running''"

definition PhaseInfoDynamicRunning :: "time \<Rightarrow> ExecutionInfo option \<Rightarrow> PhaseInfo" where
  "PhaseInfoDynamicRunning now info = phaseInfo now EPhaseDynamicRunning None info ''dynamic workflow running''"

definition PhaseInfoSuccess :: "time \<Rightarrow> ExecutionInfo option \<Rightarrow> PhaseInfo" where
  "PhaseInfoSuccess now info = phaseInfo now EPhaseSuccess None info ''successfully completed''"

definition PhaseInfoSkip :: "time \<Rightarrow> ExecutionInfo option \<Rightarrow> string \<Rightarrow> PhaseInfo" where
  "PhaseInfoSkip now info reason = phaseInfo now EPhaseSkip None info reason"

definition PhaseInfoTimedOut :: "time \<Rightarrow> ExecutionInfo option \<Rightarrow> string \<Rightarrow> PhaseInfo" where
  "PhaseInfoTimedOut now info reason = phaseInfo now EPhaseTimedout None info reason"

definition PhaseInfoRecovered :: "time \<Rightarrow> ExecutionInfo option \<Rightarrow> PhaseInfo" where
  "PhaseInfoRecovered now info = phaseInfo now EPhaseRecovered None info ''successfully recovered''"

definition phaseInfoFailed ::
    "time \<Rightarrow> addr \<Rightarrow> EPhase \<Rightarrow> ExecutionError option \<Rightarrow> ExecutionInfo option \<Rightarrow> PhaseInfo" where
  "phaseInfoFailed now a p err info =
     (let e = (case err of
                 Some e \<Rightarrow> e
               | None \<Rightarrow> \<lparr>ee_addr = a, ee_Code = ''Unknown'', ee_Message = ''Unknown error message'',
                          ee_ErrorUri = [], ee_Kind = Kind_UNKNOWN\<rparr>)
      in phaseInfo now p (Some e) info (ee_Message e))"

definition new_error :: "addr \<Rightarrow> error_kind \<Rightarrow> string \<Rightarrow> string \<Rightarrow> ExecutionError" where
  "new_error a kind code reason =
     \<lparr>ee_addr = a, ee_Code = code, ee_Message = reason, ee_ErrorUri = [], ee_Kind = kind\<rparr>"

definition PhaseInfoFailure ::
    "time \<Rightarrow> addr \<Rightarrow> error_kind \<Rightarrow> string \<Rightarrow> string \<Rightarrow> ExecutionInfo option \<Rightarrow> PhaseInfo" where
  "PhaseInfoFailure now a kind code reason info =
     phaseInfoFailed now a EPhaseFailed (Some (new_error a kind code reason)) info"

definition PhaseInfoFailureErr ::
    "time \<Rightarrow> addr \<Rightarrow> ExecutionError option \<Rightarrow> ExecutionInfo option \<Rightarrow> PhaseInfo" where
  "PhaseInfoFailureErr now a err info = phaseInfoFailed now a EPhaseFailed err info"

definition PhaseInfoFailingErr ::
    "time \<Rightarrow> addr \<Rightarrow> ExecutionError option \<Rightarrow> ExecutionInfo option \<Rightarrow> PhaseInfo" where
  "PhaseInfoFailingErr now a err info = phaseInfoFailed now a EPhaseFailing err info"

definition PhaseInfoRetryableFailure ::
    "time \<Rightarrow> addr \<Rightarrow> error_kind \<Rightarrow> string \<Rightarrow> string \<Rightarrow> ExecutionInfo option \<Rightarrow> PhaseInfo" where
  "PhaseInfoRetryableFailure now a kind code reason info =
     phaseInfoFailed now a EPhaseRetryableFailure (Some (new_error a kind code reason)) info"

definition PhaseInfoRetryableFailureErr ::
    "time \<Rightarrow> addr \<Rightarrow> ExecutionError option \<Rightarrow> ExecutionInfo option \<Rightarrow> PhaseInfo" where
  "PhaseInfoRetryableFailureErr now a err info = phaseInfoFailed now a EPhaseRetryableFailure err info"

datatype TransitionType = TransitionTypeEphemeral | TransitionTypeBarrier

record Transition =
  tr_ttype :: TransitionType
  tr_info :: PhaseInfo

definition UnknownTransition :: Transition where
  "UnknownTransition = \<lparr>tr_ttype = TransitionTypeEphemeral, tr_info = PhaseInfoUndefined\<rparr>"

definition DoTransition :: "TransitionType \<Rightarrow> PhaseInfo \<Rightarrow> Transition" where
  "DoTransition ttype info = \<lparr>tr_ttype = ttype, tr_info = info\<rparr>"

subsection \<open>Node phases of handler phases\<close>

definition ToNodePhase :: "EPhase \<Rightarrow> NodePhase option" where
  "ToNodePhase p =
     (case p of
        EPhaseNotReady \<Rightarrow> Some NodePhaseNotYetStarted
      | EPhaseQueued \<Rightarrow> Some NodePhaseQueued
      | EPhaseRunning \<Rightarrow> Some NodePhaseRunning
      | EPhaseDynamicRunning \<Rightarrow> Some NodePhaseDynamicRunning
      | EPhaseRetryableFailure \<Rightarrow> Some NodePhaseRetryableFailure
      | EPhaseSkip \<Rightarrow> Some NodePhaseSkipped
      | EPhaseSuccess \<Rightarrow> Some NodePhaseSucceeding
      | EPhaseFailed \<Rightarrow> Some NodePhaseFailing
      | EPhaseTimedout \<Rightarrow> Some NodePhaseTimingOut
      | EPhaseRecovered \<Rightarrow> Some NodePhaseRecovered
      | _ \<Rightarrow> None)"

datatype event_phase =
    Event_UNDEFINED | Event_QUEUED | Event_RUNNING | Event_SUCCEEDED | Event_FAILING | Event_FAILED
  | Event_SKIPPED | Event_TIMED_OUT | Event_DYNAMIC_RUNNING | Event_RECOVERED | Event_ABORTED

definition ToNodeExecEventPhase :: "EPhase \<Rightarrow> event_phase" where
  "ToNodeExecEventPhase p =
     (case p of
        EPhaseQueued \<Rightarrow> Event_QUEUED
      | EPhaseRunning \<Rightarrow> Event_RUNNING
      | EPhaseRetryableFailure \<Rightarrow> Event_RUNNING
      | EPhaseDynamicRunning \<Rightarrow> Event_DYNAMIC_RUNNING
      | EPhaseSkip \<Rightarrow> Event_SKIPPED
      | EPhaseSuccess \<Rightarrow> Event_SUCCEEDED
      | EPhaseFailed \<Rightarrow> Event_FAILED
      | EPhaseRecovered \<Rightarrow> Event_RECOVERED
      | EPhaseTimedout \<Rightarrow> Event_TIMED_OUT
      | _ \<Rightarrow> Event_UNDEFINED)"

subsection \<open>The state manager\<close>

record TaskNodeState =
  ts_PluginPhase :: "8 word"
  ts_PluginPhaseVersion :: uint32
  ts_PluginState :: "8 word list"
  ts_PluginStateVersion :: uint32
  ts_LastPhaseUpdatedAt :: time
  ts_PreviousNodeExecutionCheckpointURI :: string
  ts_CleanupOnFailure :: bool

record BranchNodeState =
  bst_FinalizedNodeID :: "string option"
  bst_Phase :: BranchNodePhase

record DynamicNodeState =
  dst_Phase :: DynamicNodePhase
  dst_Reason :: string
  dst_Error :: "ExecutionError option"
  dst_IsFailurePermanent :: bool

record WorkflowNodeState =
  wst_Phase :: WorkflowNodePhase
  wst_Error :: "ExecutionError option"

record GateNodeState =
  gst_Phase :: GateNodePhase
  gst_StartedAt :: time

record ArrayNodeState =
  ast_Phase :: ArrayNodePhase
  ast_TaskPhaseVersion :: uint32
  ast_Error :: "ExecutionError option"
  ast_SubNodePhases :: array_ref
  ast_SubNodeTaskPhases :: array_ref
  ast_SubNodeRetryAttempts :: array_ref
  ast_SubNodeSystemFailures :: array_ref
  ast_SubNodeDeltaTimestamps :: array_ref

record nodeStateManager =
  nsm_nodeStatus :: NodeStatus
  nsm_t :: "TaskNodeState option"
  nsm_b :: "BranchNodeState option"
  nsm_d :: "DynamicNodeState option"
  nsm_w :: "WorkflowNodeState option"
  nsm_g :: "GateNodeState option"
  nsm_a :: "ArrayNodeState option"

definition newNodeStateManager :: "NodeStatus \<Rightarrow> nodeStateManager" where
  "newNodeStateManager status = \<lparr>nsm_nodeStatus = status, nsm_t = None, nsm_b = None, nsm_d = None,
     nsm_w = None, nsm_g = None, nsm_a = None\<rparr>"

definition PutTaskNodeState :: "TaskNodeState \<Rightarrow> nodeStateManager \<Rightarrow> nodeStateManager" where
  "PutTaskNodeState s n = n\<lparr>nsm_t := Some s\<rparr>"

definition PutBranchNode :: "BranchNodeState \<Rightarrow> nodeStateManager \<Rightarrow> nodeStateManager" where
  "PutBranchNode s n = n\<lparr>nsm_b := Some s\<rparr>"

definition PutDynamicNodeState :: "DynamicNodeState \<Rightarrow> nodeStateManager \<Rightarrow> nodeStateManager" where
  "PutDynamicNodeState s n = n\<lparr>nsm_d := Some s\<rparr>"

definition PutWorkflowNodeState :: "WorkflowNodeState \<Rightarrow> nodeStateManager \<Rightarrow> nodeStateManager" where
  "PutWorkflowNodeState s n = n\<lparr>nsm_w := Some s\<rparr>"

definition PutGateNodeState :: "GateNodeState \<Rightarrow> nodeStateManager \<Rightarrow> nodeStateManager" where
  "PutGateNodeState s n = n\<lparr>nsm_g := Some s\<rparr>"

definition PutArrayNodeState :: "ArrayNodeState \<Rightarrow> nodeStateManager \<Rightarrow> nodeStateManager" where
  "PutArrayNodeState s n = n\<lparr>nsm_a := Some s\<rparr>"

definition GetTaskNodeState :: "nodeStateManager \<Rightarrow> TaskNodeState" where
  "GetTaskNodeState n =
     (case nsm_t n of
        Some t \<Rightarrow> t
      | None \<Rightarrow>
          (case ns_TaskNodeStatus (ns (nsm_nodeStatus n)) of
             Some tn \<Rightarrow>
               \<lparr>ts_PluginPhase = word_of_int (tn_Phase tn), ts_PluginPhaseVersion = tn_PhaseVersion tn,
                ts_PluginState = tn_PluginState tn, ts_PluginStateVersion = tn_PluginStateVersion tn,
                ts_LastPhaseUpdatedAt = tn_LastPhaseUpdatedAt tn,
                ts_PreviousNodeExecutionCheckpointURI = tn_PreviousNodeExecutionCheckpointPath tn,
                ts_CleanupOnFailure = tn_CleanupOnFailure tn\<rparr>
           | None \<Rightarrow>
               \<lparr>ts_PluginPhase = 0, ts_PluginPhaseVersion = 0, ts_PluginState = [], ts_PluginStateVersion = 0,
                ts_LastPhaseUpdatedAt = 0, ts_PreviousNodeExecutionCheckpointURI = [],
                ts_CleanupOnFailure = False\<rparr>))"

definition GetBranchNodeState :: "nodeStateManager \<Rightarrow> BranchNodeState" where
  "GetBranchNodeState n =
     (case nsm_b n of
        Some b \<Rightarrow> b
      | None \<Rightarrow>
          (case ns_BranchStatus (ns (nsm_nodeStatus n)) of
             Some bn \<Rightarrow> \<lparr>bst_FinalizedNodeID = br_FinalizedNodeID bn, bst_Phase = br_Phase bn\<rparr>
           | None \<Rightarrow> \<lparr>bst_FinalizedNodeID = None, bst_Phase = BranchNodeNotYetEvaluated\<rparr>))"

definition GetDynamicNodeState :: "nodeStateManager \<Rightarrow> DynamicNodeState" where
  "GetDynamicNodeState n =
     (case nsm_d n of
        Some d \<Rightarrow> d
      | None \<Rightarrow>
          (case ns_DynamicNodeStatus (ns (nsm_nodeStatus n)) of
             Some dn \<Rightarrow> \<lparr>dst_Phase = dn_Phase dn, dst_Reason = dn_Reason dn, dst_Error = dn_Error dn,
                         dst_IsFailurePermanent = dn_IsFailurePermanent dn\<rparr>
           | None \<Rightarrow> \<lparr>dst_Phase = DynamicNodePhaseNone, dst_Reason = [], dst_Error = None,
                       dst_IsFailurePermanent = False\<rparr>))"

definition GetWorkflowNodeState :: "nodeStateManager \<Rightarrow> WorkflowNodeState" where
  "GetWorkflowNodeState n =
     (case nsm_w n of
        Some w \<Rightarrow> w
      | None \<Rightarrow>
          (case ns_WorkflowNodeStatus (ns (nsm_nodeStatus n)) of
             Some wn \<Rightarrow> \<lparr>wst_Phase = wn_Phase wn, wst_Error = wn_ExecutionError wn\<rparr>
           | None \<Rightarrow> \<lparr>wst_Phase = WorkflowNodePhaseUndefined, wst_Error = None\<rparr>))"

definition GetGateNodeState :: "nodeStateManager \<Rightarrow> GateNodeState" where
  "GetGateNodeState n =
     (case nsm_g n of
        Some g \<Rightarrow> g
      | None \<Rightarrow>
          (case ns_GateNodeStatus (ns (nsm_nodeStatus n)) of
             Some gn \<Rightarrow> \<lparr>gst_Phase = gn_Phase gn, gst_StartedAt = 0\<rparr>
           | None \<Rightarrow> \<lparr>gst_Phase = GateNodePhaseUndefined, gst_StartedAt = 0\<rparr>))"

text \<open>The arrays are copied to new addresses, given by \<open>alloc\<close>.\<close>

definition DeepCopy :: "addr \<Rightarrow> array_ref \<Rightarrow> array_ref" where
  "DeepCopy a r = (a, snd r)"

definition GetArrayNodeState :: "(nat \<Rightarrow> addr) \<Rightarrow> nodeStateManager \<Rightarrow> ArrayNodeState" where
  "GetArrayNodeState alloc n =
     (case nsm_a n of
        Some a \<Rightarrow> a
      | None \<Rightarrow>
          (case ns_ArrayNodeStatus (ns (nsm_nodeStatus n)) of
             Some an \<Rightarrow>
               \<lparr>ast_Phase = an_Phase an, ast_TaskPhaseVersion = an_TaskPhaseVersion an,
                ast_Error = an_ExecutionError an,
                ast_SubNodePhases = DeepCopy (alloc 0) (an_SubNodePhases an),
                ast_SubNodeTaskPhases = DeepCopy (alloc 1) (an_SubNodeTaskPhases an),
                ast_SubNodeRetryAttempts = DeepCopy (alloc 2) (an_SubNodeRetryAttempts an),
                ast_SubNodeSystemFailures = DeepCopy (alloc 3) (an_SubNodeSystemFailures an),
                ast_SubNodeDeltaTimestamps = DeepCopy (alloc 4) (an_SubNodeDeltaTimestamps an)\<rparr>
           | None \<Rightarrow>
               \<lparr>ast_Phase = ArrayNodePhaseNone, ast_TaskPhaseVersion = 0, ast_Error = None,
                ast_SubNodePhases = nil_array, ast_SubNodeTaskPhases = nil_array,
                ast_SubNodeRetryAttempts = nil_array, ast_SubNodeSystemFailures = nil_array,
                ast_SubNodeDeltaTimestamps = nil_array\<rparr>))"

definition ClearNodeStatus :: "nodeStateManager \<Rightarrow> nodeStateManager" where
  "ClearNodeStatus n = n\<lparr>nsm_t := None, nsm_b := None, nsm_d := None, nsm_w := None, nsm_g := None,
     nsm_a := None, nsm_nodeStatus := ClearLastAttemptStartedAt (nsm_nodeStatus n)\<rparr>"

subsection \<open>Writing the state back\<close>

definition write_task :: "TaskNodeState \<Rightarrow> TaskNodeStatus \<Rightarrow> TaskNodeStatus" where
  "write_task nt t =
     SetCleanupOnFailure (ts_CleanupOnFailure nt)
       (SetPreviousNodeExecutionCheckpointPath (ts_PreviousNodeExecutionCheckpointURI nt)
         (SetPluginStateVersion (ts_PluginStateVersion nt)
           (SetPluginState (ts_PluginState nt)
             (SetLastPhaseUpdatedAt (ts_LastPhaseUpdatedAt nt)
               (tn_SetPhase (sint (ts_PluginPhase nt))
                 (SetPhaseVersion (ts_PluginPhaseVersion nt) t))))))"

definition write_dynamic :: "DynamicNodeState \<Rightarrow> DynamicNodeStatus \<Rightarrow> DynamicNodeStatus" where
  "write_dynamic nd t =
     SetIsFailurePermanent (dst_IsFailurePermanent nd)
       (dn_SetExecutionError (dst_Error nd)
         (SetDynamicNodeReason (dst_Reason nd) (SetDynamicNodePhase (dst_Phase nd) t)))"

definition write_branch :: "BranchNodeState \<Rightarrow> BranchNodeStatus \<Rightarrow> BranchNodeStatus" where
  "write_branch nb t =
     (if bst_Phase nb = BranchNodeError then SetBranchNodeError t
      else (case bst_FinalizedNodeID nb of Some i \<Rightarrow> SetBranchNodeSuccess i t | None \<Rightarrow> t))"

definition write_workflow :: "WorkflowNodeState \<Rightarrow> WorkflowNodeStatus \<Rightarrow> WorkflowNodeStatus" where
  "write_workflow nw t = wn_SetExecutionError (wst_Error nw) (SetWorkflowNodePhase (wst_Phase nw) t)"

definition write_array :: "ArrayNodeState \<Rightarrow> ArrayNodeStatus \<Rightarrow> ArrayNodeStatus" where
  "write_array na t =
     SetTaskPhaseVersion (ast_TaskPhaseVersion na)
       (SetSubNodeDeltaTimestamps (ast_SubNodeDeltaTimestamps na)
         (SetSubNodeSystemFailures (ast_SubNodeSystemFailures na)
           (SetSubNodeRetryAttempts (ast_SubNodeRetryAttempts na)
             (SetSubNodeTaskPhases (ast_SubNodeTaskPhases na)
               (SetSubNodePhases (ast_SubNodePhases na)
                 (an_SetExecutionError (ast_Error na) (SetArrayNodePhase (ast_Phase na) t)))))))"

definition opt_apply :: "('a \<Rightarrow> 's \<Rightarrow> 's) \<Rightarrow> 'a option \<Rightarrow> 's \<Rightarrow> 's" where
  "opt_apply f x s = (case x of None \<Rightarrow> s | Some a \<Rightarrow> f a s)"

definition UpdateNodeStatus ::
    "time \<Rightarrow> NodePhase \<Rightarrow> PhaseInfo \<Rightarrow> nodeStateManager \<Rightarrow> bool \<Rightarrow> NodeStatus \<Rightarrow> NodeStatus" where
  "UpdateNodeStatus now np p n enableCRDebugMetadata s =
     (let s0 = (if np \<noteq> ns_Phase (ns s) \<or> pi_reason p \<noteq> ns_Message (ns s)
                then UpdatePhase now np (pi_occurredAt p) (pi_reason p) enableCRDebugMetadata (pi_err p) s else s)
      in opt_apply (\<lambda>a. with_array (write_array a)) (nsm_a n)
          (opt_apply (\<lambda>g. with_gate (SetGateNodePhase (gst_Phase g))) (nsm_g n)
            (opt_apply (\<lambda>w. with_workflow (write_workflow w)) (nsm_w n)
              (opt_apply (\<lambda>b. with_branch (write_branch b)) (nsm_b n)
                (opt_apply (\<lambda>d. with_dynamic (write_dynamic d)) (nsm_d n)
                  (opt_apply (\<lambda>t. with_task (write_task t)) (nsm_t n) s0))))))"

subsection \<open>What is read back\<close>

lemma write_task_read:
  "write_task nt t = t\<lparr>tn_isDirty := True, tn_Phase := sint (ts_PluginPhase nt),
     tn_PhaseVersion := ts_PluginPhaseVersion nt, tn_PluginState := ts_PluginState nt,
     tn_PluginStateVersion := ts_PluginStateVersion nt, tn_LastPhaseUpdatedAt := ts_LastPhaseUpdatedAt nt,
     tn_PreviousNodeExecutionCheckpointPath := ts_PreviousNodeExecutionCheckpointURI nt,
     tn_CleanupOnFailure := ts_CleanupOnFailure nt\<rparr>"
  by (simp add: write_task_def task_step_defs SetLastPhaseUpdatedAt_def)

lemma write_dynamic_read:
  "dn_Phase (write_dynamic nd t) = dst_Phase nd" "dn_Reason (write_dynamic nd t) = dst_Reason nd"
  "dn_Error (write_dynamic nd t) = dst_Error nd"
  "dn_IsFailurePermanent (write_dynamic nd t) = dst_IsFailurePermanent nd"
  by (simp_all add: write_dynamic_def SetIsFailurePermanent_def dn_SetExecutionError_def SetDynamicNodeReason_def
      SetDynamicNodePhase_def)

text \<open>
  What is stored at an address is one value: an error or array that the status holds and one
  with the same address in the state to write are the same.
\<close>

definition errors_coherent :: "ExecutionError option \<Rightarrow> ExecutionError option \<Rightarrow> bool" where
  "errors_coherent old new \<longleftrightarrow> (same_pointer old new \<longrightarrow> old = new)"

definition arrays_coherent :: "array_ref \<Rightarrow> array_ref \<Rightarrow> bool" where
  "arrays_coherent old new \<longleftrightarrow> (same_struct old new \<longrightarrow> old = new)"

lemma write_workflow_read:
  "wn_Phase (write_workflow nw t) = wst_Phase nw"
  "errors_coherent (wn_ExecutionError t) (wst_Error nw) \<Longrightarrow> wn_ExecutionError (write_workflow nw t) = wst_Error nw"
  by (auto simp: write_workflow_def wn_SetExecutionError_def SetWorkflowNodePhase_def errors_coherent_def)

definition array_coherent :: "ArrayNodeStatus \<Rightarrow> ArrayNodeState \<Rightarrow> bool" where
  "array_coherent t na \<longleftrightarrow>
     errors_coherent (an_ExecutionError t) (ast_Error na)
     \<and> arrays_coherent (an_SubNodePhases t) (ast_SubNodePhases na)
     \<and> arrays_coherent (an_SubNodeTaskPhases t) (ast_SubNodeTaskPhases na)
     \<and> arrays_coherent (an_SubNodeRetryAttempts t) (ast_SubNodeRetryAttempts na)
     \<and> arrays_coherent (an_SubNodeSystemFailures t) (ast_SubNodeSystemFailures na)
     \<and> arrays_coherent (an_SubNodeDeltaTimestamps t) (ast_SubNodeDeltaTimestamps na)"

lemma array_setters_read:
  "an_Phase (SetArrayNodePhase p t) = p"
  "an_TaskPhaseVersion (SetTaskPhaseVersion v t) = v"
  "errors_coherent (an_ExecutionError t) e \<Longrightarrow> an_ExecutionError (an_SetExecutionError e t) = e"
  "arrays_coherent (an_SubNodePhases t) a \<Longrightarrow> an_SubNodePhases (SetSubNodePhases a t) = a"
  "arrays_coherent (an_SubNodeTaskPhases t) a \<Longrightarrow> an_SubNodeTaskPhases (SetSubNodeTaskPhases a t) = a"
  "arrays_coherent (an_SubNodeRetryAttempts t) a \<Longrightarrow> an_SubNodeRetryAttempts (SetSubNodeRetryAttempts a t) = a"
  "arrays_coherent (an_SubNodeSystemFailures t) a \<Longrightarrow> an_SubNodeSystemFailures (SetSubNodeSystemFailures a t) = a"
  "arrays_coherent (an_SubNodeDeltaTimestamps t) a \<Longrightarrow> an_SubNodeDeltaTimestamps (SetSubNodeDeltaTimestamps a t) = a"
  by (auto simp: array_step_defs errors_coherent_def arrays_coherent_def)

lemma array_setters_other:
  "an_ExecutionError (SetArrayNodePhase p t) = an_ExecutionError t"
  "an_SubNodePhases (SetArrayNodePhase p t) = an_SubNodePhases t"
  "an_SubNodeTaskPhases (SetArrayNodePhase p t) = an_SubNodeTaskPhases t"
  "an_SubNodeRetryAttempts (SetArrayNodePhase p t) = an_SubNodeRetryAttempts t"
  "an_SubNodeSystemFailures (SetArrayNodePhase p t) = an_SubNodeSystemFailures t"
  "an_SubNodeDeltaTimestamps (SetArrayNodePhase p t) = an_SubNodeDeltaTimestamps t"
  "an_Phase (an_SetExecutionError e t) = an_Phase t"
  "an_SubNodePhases (an_SetExecutionError e t) = an_SubNodePhases t"
  "an_SubNodeTaskPhases (an_SetExecutionError e t) = an_SubNodeTaskPhases t"
  "an_SubNodeRetryAttempts (an_SetExecutionError e t) = an_SubNodeRetryAttempts t"
  "an_SubNodeSystemFailures (an_SetExecutionError e t) = an_SubNodeSystemFailures t"
  "an_SubNodeDeltaTimestamps (an_SetExecutionError e t) = an_SubNodeDeltaTimestamps t"
  "an_Phase (SetSubNodePhases a t) = an_Phase t"
  "an_ExecutionError (SetSubNodePhases a t) = an_ExecutionError t"
  "an_SubNodeTaskPhases (SetSubNodePhases a t) = an_SubNodeTaskPhases t"
  "an_SubNodeRetryAttempts (SetSubNodePhases a t) = an_SubNodeRetryAttempts t"
  "an_SubNodeSystemFailures (SetSubNodePhases a t) = an_SubNodeSystemFailures t"
  "an_SubNodeDeltaTimestamps (SetSubNodePhases a t) = an_SubNodeDeltaTimestamps t"
  "an_Phase (SetSubNodeTaskPhases a t) = an_Phase t"
  "an_ExecutionError (SetSubNodeTaskPhases a t) = an_ExecutionError t"
  "an_SubNodePhases (SetSubNodeTaskPhases a t) = an_SubNodePhases t"
  "an_SubNodeRetryAttempts (SetSubNodeTaskPhases a t) = an_SubNodeRetryAttempts t"
  "an_SubNodeSystemFailures (SetSubNodeTaskPhases a t) = an_SubNodeSystemFailures t"
  "an_SubNodeDeltaTimestamps (SetSubNodeTaskPhases a t) = an_SubNodeDeltaTimestamps t"
  "an_Phase (SetSubNodeRetryAttempts a t) = an_Phase t"
  "an_ExecutionError (SetSubNodeRetryAttempts a t) = an_ExecutionError t"
  "an_SubNodePhases (SetSubNodeRetryAttempts a t) = an_SubNodePhases t"
  "an_SubNodeTaskPhases (SetSubNodeRetryAttempts a t) = an_SubNodeTaskPhases t"
  "an_SubNodeSystemFailures (SetSubNodeRetryAttempts a t) = an_SubNodeSystemFailures t"
  "an_SubNodeDeltaTimestamps (SetSubNodeRetryAttempts a t) = an_SubNodeDeltaTimestamps t"
  "an_Phase (SetSubNodeSystemFailures a t) = an_Phase t"
  "an_ExecutionError (SetSubNodeSystemFailures a t) = an_ExecutionError t"
  "an_SubNodePhases (SetSubNodeSystemFailures a t) = an_SubNodePhases t"
  "an_SubNodeTaskPhases (SetSubNodeSystemFailures a t) = an_SubNodeTaskPhases t"
  "an_SubNodeRetryAttempts (SetSubNodeSystemFailures a t) = an_SubNodeRetryAttempts t"
  "an_SubNodeDeltaTimestamps (SetSubNodeSystemFailures a t) = an_SubNodeDeltaTimestamps t"
  "an_Phase (SetSubNodeDeltaTimestamps a t) = an_Phase t"
  "an_ExecutionError (SetSubNodeDeltaTimestamps a t) = an_ExecutionError t"
  "an_SubNodePhases (SetSubNodeDeltaTimestamps a t) = an_SubNodePhases t"
  "an_SubNodeTaskPhases (SetSubNodeDeltaTimestamps a t) = an_SubNodeTaskPhases t"
  "an_SubNodeRetryAttempts (SetSubNodeDeltaTimestamps a t) = an_SubNodeRetryAttempts t"
  "an_SubNodeSystemFailures (SetSubNodeDeltaTimestamps a t) = an_SubNodeSystemFailures t"
  "an_Phase (SetTaskPhaseVersion v t) = an_Phase t"
  "an_ExecutionError (SetTaskPhaseVersion v t) = an_ExecutionError t"
  "an_SubNodePhases (SetTaskPhaseVersion v t) = an_SubNodePhases t"
  "an_SubNodeTaskPhases (SetTaskPhaseVersion v t) = an_SubNodeTaskPhases t"
  "an_SubNodeRetryAttempts (SetTaskPhaseVersion v t) = an_SubNodeRetryAttempts t"
  "an_SubNodeSystemFailures (SetTaskPhaseVersion v t) = an_SubNodeSystemFailures t"
  "an_SubNodeDeltaTimestamps (SetTaskPhaseVersion v t) = an_SubNodeDeltaTimestamps t"
  by (simp_all add: array_step_defs)

lemma write_array_read:
  assumes "array_coherent t na"
  shows "an_Phase (write_array na t) = ast_Phase na" "an_TaskPhaseVersion (write_array na t) = ast_TaskPhaseVersion na"
    "an_ExecutionError (write_array na t) = ast_Error na"
    "an_SubNodePhases (write_array na t) = ast_SubNodePhases na"
    "an_SubNodeTaskPhases (write_array na t) = ast_SubNodeTaskPhases na"
    "an_SubNodeRetryAttempts (write_array na t) = ast_SubNodeRetryAttempts na"
    "an_SubNodeSystemFailures (write_array na t) = ast_SubNodeSystemFailures na"
    "an_SubNodeDeltaTimestamps (write_array na t) = ast_SubNodeDeltaTimestamps na"
  using assms by (simp_all add: write_array_def array_coherent_def array_setters_read array_setters_other)

text \<open>The per-kind statuses after the pointer of a \<open>GetOrCreate\<close> method was written through.\<close>

abbreviation or_new :: "'a \<Rightarrow> 'a option \<Rightarrow> 'a" where
  "or_new d x \<equiv> case x of None \<Rightarrow> d | Some y \<Rightarrow> y"

lemma with_read:
  "ns_TaskNodeStatus (ns (with_task g1 s)) = Some (g1 (or_new new_TaskNodeStatus (ns_TaskNodeStatus (ns s))))"
  "ns_DynamicNodeStatus (ns (with_dynamic g2 s)) = Some (g2 (or_new new_DynamicNodeStatus (ns_DynamicNodeStatus (ns s))))"
  "ns_BranchStatus (ns (with_branch g3 s)) = Some (g3 (or_new new_BranchNodeStatus (ns_BranchStatus (ns s))))"
  "ns_WorkflowNodeStatus (ns (with_workflow g4 s)) = Some (g4 (or_new new_WorkflowNodeStatus (ns_WorkflowNodeStatus (ns s))))"
  "ns_GateNodeStatus (ns (with_gate g5 s)) = Some (g5 (or_new new_GateNodeStatus (ns_GateNodeStatus (ns s))))"
  "ns_ArrayNodeStatus (ns (with_array g6 s)) = Some (g6 (or_new new_ArrayNodeStatus (ns_ArrayNodeStatus (ns s))))"
  by (simp_all add: with_task_def with_dynamic_def with_branch_def with_workflow_def with_gate_def with_array_def
      split: option.split)

lemma with_other:
  "ns_DynamicNodeStatus (ns (with_task g1 s)) = ns_DynamicNodeStatus (ns s)"
  "ns_BranchStatus (ns (with_task g1 s)) = ns_BranchStatus (ns s)"
  "ns_WorkflowNodeStatus (ns (with_task g1 s)) = ns_WorkflowNodeStatus (ns s)"
  "ns_GateNodeStatus (ns (with_task g1 s)) = ns_GateNodeStatus (ns s)"
  "ns_ArrayNodeStatus (ns (with_task g1 s)) = ns_ArrayNodeStatus (ns s)"
  "ns_TaskNodeStatus (ns (with_dynamic g2 s)) = ns_TaskNodeStatus (ns s)"
  "ns_BranchStatus (ns (with_dynamic g2 s)) = ns_BranchStatus (ns s)"
  "ns_WorkflowNodeStatus (ns (with_dynamic g2 s)) = ns_WorkflowNodeStatus (ns s)"
  "ns_GateNodeStatus (ns (with_dynamic g2 s)) = ns_GateNodeStatus (ns s)"
  "ns_ArrayNodeStatus (ns (with_dynamic g2 s)) = ns_ArrayNodeStatus (ns s)"
  "ns_TaskNodeStatus (ns (with_branch g3 s)) = ns_TaskNodeStatus (ns s)"
  "ns_DynamicNodeStatus (ns (with_branch g3 s)) = ns_DynamicNodeStatus (ns s)"
  "ns_WorkflowNodeStatus (ns (with_branch g3 s)) = ns_WorkflowNodeStatus (ns s)"
  "ns_GateNodeStatus (ns (with_branch g3 s)) = ns_GateNodeStatus (ns s)"
  "ns_ArrayNodeStatus (ns (with_branch g3 s)) = ns_ArrayNodeStatus (ns s)"
  "ns_TaskNodeStatus (ns (with_workflow g4 s)) = ns_TaskNodeStatus (ns s)"
  "ns_DynamicNodeStatus (ns (with_workflow g4 s)) = ns_DynamicNodeStatus (ns s)"
  "ns_BranchStatus (ns (with_workflow g4 s)) = ns_BranchStatus (ns s)"
  "ns_GateNodeStatus (ns (with_workflow g4 s)) = ns_GateNodeStatus (ns s)"
  "ns_ArrayNodeStatus (ns (with_workflow g4 s)) = ns_ArrayNodeStatus (ns s)"
  "ns_TaskNodeStatus (ns (with_gate g5 s)) = ns_TaskNodeStatus (ns s)"
  "ns_DynamicNodeStatus (ns (with_gate g5 s)) = ns_DynamicNodeStatus (ns s)"
  "ns_BranchStatus (ns (with_gate g5 s)) = ns_BranchStatus (ns s)"
  "ns_WorkflowNodeStatus (ns (with_gate g5 s)) = ns_WorkflowNodeStatus (ns s)"
  "ns_ArrayNodeStatus (ns (with_gate g5 s)) = ns_ArrayNodeStatus (ns s)"
  "ns_TaskNodeStatus (ns (with_array g6 s)) = ns_TaskNodeStatus (ns s)"
  "ns_DynamicNodeStatus (ns (with_array g6 s)) = ns_DynamicNodeStatus (ns s)"
  "ns_BranchStatus (ns (with_array g6 s)) = ns_BranchStatus (ns s)"
  "ns_WorkflowNodeStatus (ns (with_array g6 s)) = ns_WorkflowNodeStatus (ns s)"
  "ns_GateNodeStatus (ns (with_array g6 s)) = ns_GateNodeStatus (ns s)"
  by (simp_all add: with_task_def with_dynamic_def with_branch_def with_workflow_def with_gate_def with_array_def
      split: option.split)

lemma UpdatePhase_keeps:
  "ns_ArrayNodeStatus (ns (UpdatePhase now np t r dbg e s)) = ns_ArrayNodeStatus (ns s)"
  "ns_WorkflowNodeStatus (ns (UpdatePhase now np t r dbg e s)) \<in> {ns_WorkflowNodeStatus (ns s), None}"
  by (simp_all add: UpdatePhase_def Let_def)

definition old_workflow_error :: "NodeStatus \<Rightarrow> ExecutionError option" where
  "old_workflow_error s = wn_ExecutionError (or_new new_WorkflowNodeStatus (ns_WorkflowNodeStatus (ns s)))"

definition old_array :: "NodeStatus \<Rightarrow> ArrayNodeStatus" where
  "old_array s = or_new new_ArrayNodeStatus (ns_ArrayNodeStatus (ns s))"

text \<open>The manager's pointers agree with those of the status it is written to.\<close>

definition manager_coherent :: "nodeStateManager \<Rightarrow> NodeStatus \<Rightarrow> bool" where
  "manager_coherent n s \<longleftrightarrow>
     (\<forall>w \<in> set_option (nsm_w n). errors_coherent (old_workflow_error s) (wst_Error w)) \<and>
     (\<forall>a \<in> set_option (nsm_a n). array_coherent (old_array s) a)"

lemma none_coherent: "errors_coherent None e"
  by (auto simp: errors_coherent_def same_pointer_def)

lemma UpdateNodeStatus_read:
  fixes now np p dbg
  defines "s0 s \<equiv> (if np \<noteq> ns_Phase (ns s) \<or> pi_reason p \<noteq> ns_Message (ns s)
      then UpdatePhase now np (pi_occurredAt p) (pi_reason p) dbg (pi_err p) s else s)"
  shows "nsm_t n = Some t \<Longrightarrow> ns_TaskNodeStatus (ns (UpdateNodeStatus now np p n dbg s)) =
      Some (write_task t (or_new new_TaskNodeStatus (ns_TaskNodeStatus (ns (s0 s)))))"
    and "nsm_d n = Some d \<Longrightarrow> ns_DynamicNodeStatus (ns (UpdateNodeStatus now np p n dbg s)) =
      Some (write_dynamic d (or_new new_DynamicNodeStatus (ns_DynamicNodeStatus (ns (s0 s)))))"
    and "nsm_b n = Some b \<Longrightarrow> ns_BranchStatus (ns (UpdateNodeStatus now np p n dbg s)) =
      Some (write_branch b (or_new new_BranchNodeStatus (ns_BranchStatus (ns (s0 s)))))"
    and "nsm_w n = Some w \<Longrightarrow> ns_WorkflowNodeStatus (ns (UpdateNodeStatus now np p n dbg s)) =
      Some (write_workflow w (or_new new_WorkflowNodeStatus (ns_WorkflowNodeStatus (ns (s0 s)))))"
    and "nsm_g n = Some g \<Longrightarrow> ns_GateNodeStatus (ns (UpdateNodeStatus now np p n dbg s)) =
      Some (SetGateNodePhase (gst_Phase g) (or_new new_GateNodeStatus (ns_GateNodeStatus (ns (s0 s)))))"
    and "nsm_a n = Some a \<Longrightarrow> ns_ArrayNodeStatus (ns (UpdateNodeStatus now np p n dbg s)) =
      Some (write_array a (or_new new_ArrayNodeStatus (ns_ArrayNodeStatus (ns (s0 s)))))"
  unfolding UpdateNodeStatus_def opt_apply_def Let_def s0_def [symmetric]
  by (simp_all add: with_read with_other split: option.split)

lemma phase_part_keeps:
  "ns_ArrayNodeStatus (ns (if c then UpdatePhase now np t r dbg e s else s)) = ns_ArrayNodeStatus (ns s)"
  "errors_coherent (old_workflow_error s) x \<Longrightarrow>
     errors_coherent (old_workflow_error (if c then UpdatePhase now np t r dbg e s else s)) x"
  using UpdatePhase_keeps [of now np t r dbg e s] none_coherent
  by (auto simp: old_workflow_error_def new_WorkflowNodeStatus_def)



end
