(* ===== verification/Exec_Errors.thy ===== *)
theory Exec_Errors
  imports Flyte_Prelude
begin

section \<open>Errors of the executor (flytestdlib/errors, controller/nodes/errors)\<close>

text \<open>
  Errors are values of one datatype: those of the standard library of Flyte, with a code and perhaps a cause,
  those of a node, of the event sink and of a workflow, an error that wraps another one (\<open>fmt.Errorf\<close> with
  \<open>%w\<close>), a collection of errors, and every other error, of which only the text is known and which has neither code nor cause.
  A nil error is \<open>None\<close>. A call that may panic or return an error has the result type \<open>go\<close>.
\<close>

datatype go_error =
    Plain_Error string
  | Std_Err string string
  | Std_ErrWithCause string string "go_error option"
  | NodeError string string string
  | NodeErrorWithCause "go_error option" "go_error option"
  | EventError string string "go_error option"
  | WorkflowError string string string
  | WorkflowErrorWithCause string string string "go_error option"
  | Wrapping_Error string go_error
  | ErrorCollection "go_error list"

datatype 'a go = Go_Ok (the_ok: 'a) | Go_Err go_error | Go_Panic

fun go_bind :: "'a go \<Rightarrow> ('a \<Rightarrow> 'b go) \<Rightarrow> 'b go" where
  "go_bind (Go_Ok x) f = f x"
| "go_bind (Go_Err e) f = Go_Err e"
| "go_bind Go_Panic f = Go_Panic"

lemma go_bind_Ok: "go_bind r f = Go_Ok y \<longleftrightarrow> (\<exists>x. r = Go_Ok x \<and> f x = Go_Ok y)"
  by (cases r) auto

lemma go_bind_Panic: "go_bind r f = Go_Panic \<longleftrightarrow> r = Go_Panic \<or> (\<exists>x. r = Go_Ok x \<and> f x = Go_Panic)"
  by (cases r) auto

lemma go_bind_Err: "go_bind r f = Go_Err e \<longleftrightarrow> r = Go_Err e \<or> (\<exists>x. r = Go_Ok x \<and> f x = Go_Err e)"
  by (cases r) auto

subsection \<open>Calls that also change a state\<close>

type_synonym ('a, 's) grun = "'s \<Rightarrow> 'a go \<times> 's"

definition run_ok :: "'a \<Rightarrow> ('a, 's) grun" where "run_ok x = (\<lambda>r. (Go_Ok x, r))"
definition run_err :: "go_error \<Rightarrow> ('a, 's) grun" where "run_err e = (\<lambda>r. (Go_Err e, r))"
definition run_panic :: "('a, 's) grun" where "run_panic = (\<lambda>r. (Go_Panic, r))"

definition run_bind :: "('a, 's) grun \<Rightarrow> ('a \<Rightarrow> ('b, 's) grun) \<Rightarrow> ('b, 's) grun" where
  "run_bind m f = (\<lambda>r. case m r of
     (Go_Ok x, r') \<Rightarrow> f x r' | (Go_Err e, r') \<Rightarrow> (Go_Err e, r') | (Go_Panic, r') \<Rightarrow> (Go_Panic, r'))"

lemma run_bind_Ok:
  "run_bind m f r = (Go_Ok y, r'') \<longleftrightarrow> (\<exists>x r'. m r = (Go_Ok x, r') \<and> f x r' = (Go_Ok y, r''))"
  by (cases "m r"; cases "fst (m r)") (auto simp: run_bind_def)

subsection \<open>Errors with a code (flytestdlib/errors/error.go)\<close>

definition std_Errorf :: "string \<Rightarrow> string \<Rightarrow> go_error" where
  "std_Errorf code message = Std_Err code message"

definition std_Wrapf :: "string \<Rightarrow> go_error option \<Rightarrow> string \<Rightarrow> go_error" where
  "std_Wrapf code cause message = Std_ErrWithCause code message cause"

text \<open>The text of an error.\<close>

fun Error :: "go_error \<Rightarrow> string" where
  "Error (Plain_Error msg) = msg"
| "Error (Std_Err code message) = ''['' @ code @ ''] '' @ message"
| "Error (Std_ErrWithCause code message cause) =
     ''['' @ code @ ''] '' @ message @ '', caused by: '' @ (case cause of None \<Rightarrow> ''<nil>'' | Some e \<Rightarrow> Error e)"
| "Error (NodeError code message node) = ''failed at Node['' @ node @ '']. '' @ code @ '': '' @ message"
| "Error (NodeErrorWithCause n cause) =
     (case n of None \<Rightarrow> [] | Some e \<Rightarrow> Error e) @ '', caused by: '' @ (case cause of None \<Rightarrow> [] | Some e \<Rightarrow> Error e)"
| "Error (EventError code message cause) =
     code @ '': '' @ message @ '', caused by ['' @ (case cause of None \<Rightarrow> [] | Some e \<Rightarrow> Error e) @ '']''"
| "Error (WorkflowError code message w) = ''Workflow['' @ w @ ''] failed. '' @ code @ '': '' @ message"
| "Error (WorkflowErrorWithCause code message w cause) =
     ''Workflow['' @ w @ ''] failed. '' @ code @ '': '' @ message @ '', caused by: '' @
     (case cause of None \<Rightarrow> ''<nil>'' | Some e \<Rightarrow> Error e)"
| "Error (Wrapping_Error text e) = text @ Error e"
| "Error (ErrorCollection errs) =
     concat (map (\<lambda>(idx, err). itoa idx @ '': '' @ err @ [CHR 0x0D, CHR 0x0A]) (enumerate 0 (map Error errs)))"

text \<open>\<open>GetErrorCode\<close> asks for a method \<open>Code\<close>, which the errors of the library and of nodes have.\<close>

definition NodeErrorWithCause_Code :: "go_error option \<Rightarrow> string" where
  "NodeErrorWithCause_Code n = (case n of Some (NodeError code _ _) \<Rightarrow> code | _ \<Rightarrow> [])"

fun std_GetErrorCode :: "go_error option \<Rightarrow> string option" where
  "std_GetErrorCode (Some (Std_Err code _)) = Some code"
| "std_GetErrorCode (Some (Std_ErrWithCause code _ _)) = Some code"
| "std_GetErrorCode (Some (NodeError code _ _)) = Some code"
| "std_GetErrorCode (Some (NodeErrorWithCause n _)) = Some (NodeErrorWithCause_Code n)"
| "std_GetErrorCode _ = None"

definition std_Is :: "go_error \<Rightarrow> go_error option \<Rightarrow> bool" where
  "std_Is e target = (case std_GetErrorCode target of
     None \<Rightarrow> False | Some code \<Rightarrow> std_GetErrorCode (Some e) = Some code)"

fun cause_of :: "go_error \<Rightarrow> go_error option option" where
  "cause_of (Std_ErrWithCause _ _ c) = Some c"
| "cause_of (NodeErrorWithCause _ c) = Some c"
| "cause_of (EventError _ _ c) = Some c"
| "cause_of (WorkflowErrorWithCause _ _ _ c) = Some c"
| "cause_of (Wrapping_Error _ e) = Some (Some e)"
| "cause_of _ = None"

lemma cause_of_size [termination_simp]: "cause_of e = Some c \<Longrightarrow> size_option size c < Suc (size e)"
  by (cases e) auto

function IsCausedBy :: "go_error option \<Rightarrow> string \<Rightarrow> bool" where
  "IsCausedBy None code = False"
| "IsCausedBy (Some e) code =
     (if std_GetErrorCode (Some e) = Some code then True
      else (case cause_of e of None \<Rightarrow> False | Some c \<Rightarrow> IsCausedBy c code))"
  by pat_completeness auto
termination
  by (relation "measure (\<lambda>(e, _). size_option size e)") (auto simp: cause_of_size)

subsection \<open>Errors of a node (controller/nodes/errors/errors.go)\<close>

definition node_Errorf :: "string \<Rightarrow> string \<Rightarrow> string \<Rightarrow> go_error" where
  "node_Errorf c n message = NodeError c message n"

definition node_Wrapf :: "string \<Rightarrow> string \<Rightarrow> go_error option \<Rightarrow> string \<Rightarrow> go_error" where
  "node_Wrapf c n cause message = NodeErrorWithCause (Some (node_Errorf c n message)) cause"

definition node_GetErrorCode :: "go_error option \<Rightarrow> string option" where
  "node_GetErrorCode err =
     (case err of
        Some (NodeError code _ _) \<Rightarrow> Some code
      | Some (NodeErrorWithCause (Some (NodeError code _ _)) _) \<Rightarrow> Some code
      | _ \<Rightarrow> None)"

definition Matches :: "go_error option \<Rightarrow> string \<Rightarrow> bool" where
  "Matches err code = (case node_GetErrorCode err of Some errCode \<Rightarrow> code = errCode | None \<Rightarrow> False)"

text \<open>A node error is one that the target describes: an empty message or node of the target matches any.\<close>

fun NodeError_Is :: "go_error \<Rightarrow> go_error option \<Rightarrow> bool" where
  "NodeError_Is (NodeError code message node) (Some (NodeError code' message' node')) \<longleftrightarrow>
     code = code' \<and> (message = message' \<or> message' = []) \<and> (node = node' \<or> node' = [])"
| "NodeError_Is _ _ = False"

text \<open>
  The corresponding method of a node error with a cause. The receiver and the target may be nil pointers; its last
  line calls the method itself. The value \<open>None\<close> is a call that does not return.
\<close>

datatype error_ptr = Nil_NodeErrorWithCause | Err_Ptr go_error

definition is_NodeErrorWithCause :: "error_ptr \<Rightarrow> bool" where
  "is_NodeErrorWithCause t =
     (case t of Nil_NodeErrorWithCause \<Rightarrow> True | Err_Ptr (NodeErrorWithCause _ _) \<Rightarrow> True | _ \<Rightarrow> False)"

definition same_cause :: "error_ptr \<Rightarrow> error_ptr \<Rightarrow> bool" where
  "same_cause n t =
     (case (n, t) of
        (Err_Ptr (NodeErrorWithCause _ c), Err_Ptr (NodeErrorWithCause _ c')) \<Rightarrow> c = c' \<or> c' = None
      | _ \<Rightarrow> False)"

partial_function (option) NodeErrorWithCause_Is :: "error_ptr \<Rightarrow> error_ptr \<Rightarrow> bool option" where
  "NodeErrorWithCause_Is n target =
     (if \<not> is_NodeErrorWithCause target then Some False
      else if n = Nil_NodeErrorWithCause \<and> target = Nil_NodeErrorWithCause then Some True
      else if n = Nil_NodeErrorWithCause \<or> target = Nil_NodeErrorWithCause then Some False
      else Option.bind (NodeErrorWithCause_Is n target) (\<lambda>b. Some (b \<and> same_cause n target)))"

subsection \<open>Errors of the event sink and of a workflow (events/errors, controller/workflow/errors)\<close>

text \<open>
  The checks for a code of the event sink are \<open>errors.Is\<close> with a target that has only a code: they walk the chain of
  causes and find an event error with that code. No other kind of error matches such a target.
\<close>

function is_event_error :: "string \<Rightarrow> go_error option \<Rightarrow> bool" where
  "is_event_error code None = False"
| "is_event_error code (Some e) =
     ((case e of EventError c _ _ \<Rightarrow> c = code | _ \<Rightarrow> False) \<or>
      (case cause_of e of None \<Rightarrow> False | Some c \<Rightarrow> is_event_error code c))"
  by pat_completeness auto
termination
  by (relation "measure (\<lambda>(_, e). size_option size e)") (auto simp: cause_of_size)

definition IsAlreadyExists :: "go_error \<Rightarrow> bool" where
  "IsAlreadyExists e = is_event_error ''AlreadyExists'' (Some e)"

definition IsNotFound :: "go_error \<Rightarrow> bool" where
  "IsNotFound e = is_event_error ''ExecutionNotFound'' (Some e)"

definition IsEventAlreadyInTerminalStateError :: "go_error \<Rightarrow> bool" where
  "IsEventAlreadyInTerminalStateError e = is_event_error ''EventAlreadyInTerminalStateError'' (Some e)"

definition IsEventIncompatibleClusterError :: "go_error \<Rightarrow> bool" where
  "IsEventIncompatibleClusterError e = is_event_error ''EventIncompatibleClusterError'' (Some e)"

definition IsInvalidArguments :: "go_error \<Rightarrow> bool" where
  "IsInvalidArguments e = is_event_error ''InvalidArgument'' (Some e)"

definition IsTooLarge :: "go_error \<Rightarrow> bool" where
  "IsTooLarge e = is_event_error ''TooLarge'' (Some e)"

lemmas event_error_checks = IsAlreadyExists_def IsNotFound_def IsEventAlreadyInTerminalStateError_def
  IsEventIncompatibleClusterError_def IsInvalidArguments_def IsTooLarge_def

definition wf_Errorf :: "string \<Rightarrow> string \<Rightarrow> string \<Rightarrow> go_error" where
  "wf_Errorf c w message = WorkflowError c message w"

definition wf_Wrapf :: "string \<Rightarrow> string \<Rightarrow> go_error option \<Rightarrow> string \<Rightarrow> go_error" where
  "wf_Wrapf c w cause message = WorkflowErrorWithCause c message w cause"

lemma wrapping_keeps_event_error [simp]:
  "is_event_error code (Some (wf_Wrapf c w cause message)) = is_event_error code cause"
  "is_event_error code (Some (Wrapping_Error text e)) = is_event_error code (Some e)"
  by (simp_all add: wf_Wrapf_def)

subsection \<open>Causes\<close>

text \<open>The chain of an error: the error, its cause, the cause of its cause, and so on.\<close>

inductive in_chain :: "go_error \<Rightarrow> go_error \<Rightarrow> bool" where
  chain_self: "in_chain e e"
| chain_cause: "cause_of e = Some (Some c) \<Longrightarrow> in_chain c d \<Longrightarrow> in_chain e d"

inductive_cases in_chainE: "in_chain e d"

lemma IsCausedBy_sound: "IsCausedBy e code \<Longrightarrow> \<exists>e' d. e = Some e' \<and> in_chain e' d \<and> std_GetErrorCode (Some d) = Some code"
proof (induction e code rule: IsCausedBy.induct)
  case (2 e code)
  then show ?case
    by (cases "std_GetErrorCode (Some e) = Some code"; cases "cause_of e")
      (auto intro: chain_self chain_cause split: if_splits)
qed simp

lemma IsCausedBy_complete:
  "in_chain e d \<Longrightarrow> std_GetErrorCode (Some d) = Some code \<Longrightarrow> IsCausedBy (Some e) code"
  by (induction rule: in_chain.induct) auto

text \<open>
  An error is caused by a code exactly if some error of its chain of causes has that code; wrapping an
  error keeps every code by which it is caused and adds the code of the wrapper.
\<close>

lemma caused_by_chain:
  "(IsCausedBy (Some e) code \<longleftrightarrow> (\<exists>d. in_chain e d \<and> std_GetErrorCode (Some d) = Some code)) \<and>
   IsCausedBy (Some (std_Wrapf w (Some e) msg)) code = (w = code \<or> IsCausedBy (Some e) code) \<and>
   IsCausedBy (Some (node_Wrapf w n (Some e) msg)) code = (w = code \<or> IsCausedBy (Some e) code)"
  using IsCausedBy_sound [of "Some e" code] IsCausedBy_complete [of e _ code]
  by (auto simp: std_Wrapf_def node_Wrapf_def node_Errorf_def NodeErrorWithCause_Code_def)

text \<open>
  Comparing two node errors with causes does not return: for a receiver and a target that are not nil the
  method calls itself with the same arguments.
\<close>

lemma node_error_is_diverges:
  "NodeErrorWithCause_Is (Err_Ptr n) (Err_Ptr (NodeErrorWithCause e c)) = None"
proof (rule ccontr)
  assume "NodeErrorWithCause_Is (Err_Ptr n) (Err_Ptr (NodeErrorWithCause e c)) \<noteq> None"
  then obtain b where "NodeErrorWithCause_Is (Err_Ptr n) (Err_Ptr (NodeErrorWithCause e c)) = Some b" by blast
  then have "\<not> (Err_Ptr n = Err_Ptr n \<and>
      Err_Ptr (NodeErrorWithCause e c) = Err_Ptr (NodeErrorWithCause e c))"
    by (rule NodeErrorWithCause_Is.raw_induct
          [where P = "\<lambda>x y b. \<not> (x = Err_Ptr n \<and> y = Err_Ptr (NodeErrorWithCause e c))", rotated])
      (auto simp: is_NodeErrorWithCause_def bind_eq_Some_conv split: if_splits)
  then show False by simp
qed

end
