(* ===== verification/Workflow_Status.thy ===== *)
theory Workflow_Status
  imports Node_Status
begin

section \<open>Workflow status (v1alpha1/workflow\_status.go, iface.go)\<close>

text \<open>
  The part of the workflow resource that the executor changes. The statuses of the nodes are reached through
  pointers; a nil pointer, which a failing constructor of references gives, is \<open>None\<close>. The current time is
  an argument.
\<close>

datatype WorkflowPhase =
    WorkflowPhaseReady | WorkflowPhaseRunning | WorkflowPhaseSucceeding | WorkflowPhaseSuccess
  | WorkflowPhaseFailing | WorkflowPhaseFailed | WorkflowPhaseAborted | WorkflowPhaseHandlingFailureNode

definition WorkflowPhase_String :: "WorkflowPhase \<Rightarrow> string" where
  "WorkflowPhase_String p =
     (case p of
        WorkflowPhaseReady \<Rightarrow> ''Ready''
      | WorkflowPhaseRunning \<Rightarrow> ''Running''
      | WorkflowPhaseSuccess \<Rightarrow> ''Succeeded''
      | WorkflowPhaseFailed \<Rightarrow> ''Failed''
      | WorkflowPhaseFailing \<Rightarrow> ''Failing''
      | WorkflowPhaseSucceeding \<Rightarrow> ''Succeeding''
      | WorkflowPhaseAborted \<Rightarrow> ''Aborted''
      | WorkflowPhaseHandlingFailureNode \<Rightarrow> ''HandlingFailureNode'')"

record WorkflowStatus =
  ws_Phase :: WorkflowPhase
  ws_StartedAt :: "time option"
  ws_StoppedAt :: "time option"
  ws_LastUpdatedAt :: "time option"
  ws_Message :: string
  ws_DataDir :: string
  ws_OutputReference :: string
  ws_NodeStatus :: "(string \<times> NodeStatus) list option"
  ws_FailedAttempts :: uint32
  ws_Error :: "ExecutionError option"
  ws_DefinitionVersion :: "uint32 option"

definition IsWorkflowPhaseTerminal :: "WorkflowPhase \<Rightarrow> bool" where
  "IsWorkflowPhaseTerminal p \<longleftrightarrow>
     p = WorkflowPhaseFailed \<or> p = WorkflowPhaseSuccess \<or> p = WorkflowPhaseAborted"

definition SetMessage :: "string \<Rightarrow> WorkflowStatus \<Rightarrow> WorkflowStatus" where
  "SetMessage msg w = w\<lparr>ws_Message := msg\<rparr>"

definition wf_UpdatePhase ::
    "time \<Rightarrow> WorkflowPhase \<Rightarrow> string \<Rightarrow> ExecutionError option \<Rightarrow> WorkflowStatus \<Rightarrow> WorkflowStatus" where
  "wf_UpdatePhase now p msg err w =
     (let w1 = w\<lparr>ws_Phase := p, ws_Message := (if length msg > maxMessageSize then take maxMessageSize msg else msg)\<rparr>;
          w2 = w1\<lparr>ws_StartedAt := or_now (ws_StartedAt w1) now\<rparr>;
          w3 = (if err \<noteq> None then w2\<lparr>ws_Error := err\<rparr> else w2);
          w4 = (if IsWorkflowPhaseTerminal p \<and> ws_StoppedAt w3 = None then w3\<lparr>ws_StoppedAt := Some now\<rparr> else w3)
      in w4\<lparr>ws_LastUpdatedAt := Some now\<rparr>)"

definition wf_GetExecutionError :: "WorkflowStatus \<Rightarrow> ExecutionError option" where
  "wf_GetExecutionError w = ws_Error w"

definition IncFailedAttempts :: "WorkflowStatus \<Rightarrow> WorkflowStatus" where
  "IncFailedAttempts w = w\<lparr>ws_FailedAttempts := ws_FailedAttempts w + 1\<rparr>"

definition wf_IsTerminated :: "WorkflowStatus \<Rightarrow> bool" where
  "wf_IsTerminated w \<longleftrightarrow>
     ws_Phase w = WorkflowPhaseSuccess \<or> ws_Phase w = WorkflowPhaseFailed \<or> ws_Phase w = WorkflowPhaseAborted"

definition wf_SetDataDir :: "string \<Rightarrow> WorkflowStatus \<Rightarrow> WorkflowStatus" where
  "wf_SetDataDir d w = w\<lparr>ws_DataDir := d\<rparr>"

definition SetOutputReference :: "string \<Rightarrow> WorkflowStatus \<Rightarrow> WorkflowStatus" where
  "SetOutputReference r w = w\<lparr>ws_OutputReference := r\<rparr>"

definition ConstructNodeDataDir :: "ref_constructor \<Rightarrow> string \<Rightarrow> WorkflowStatus \<Rightarrow> string option" where
  "ConstructNodeDataDir construct name w = construct (ws_DataDir w) [name, ''data'']"

text \<open>
  The status of a node: an existing one gets its directories, as far as the references can be constructed; a new one is
  stored only if both its directories can be. The pointer to a status that was not stored is nil.
\<close>

definition existing_status ::
    "ref_constructor \<Rightarrow> (uint32 \<Rightarrow> string) \<Rightarrow> string \<Rightarrow> WorkflowStatus \<Rightarrow> NodeStatus \<Rightarrow> NodeStatus" where
  "existing_status construct format_uint i w n =
     (case (if ns_DataDir (ns n) = [] then
              map_option (\<lambda>d. SetDataDir d n) (ConstructNodeDataDir construct i w) else Some n) of
        None \<Rightarrow> n
      | Some n1 \<Rightarrow>
          (case construct (ns_DataDir (ns n1)) [format_uint (ns_Attempts (ns n1))] of
             None \<Rightarrow> n1
           | Some outputDir \<Rightarrow> SetOutputDir outputDir n1))"

definition fresh_status :: "ref_constructor \<Rightarrow> string \<Rightarrow> WorkflowStatus \<Rightarrow> NodeStatus option" where
  "fresh_status construct i w =
     Option.bind (ConstructNodeDataDir construct i w) (\<lambda>dataDir.
     Option.bind (construct dataDir [''0'']) (\<lambda>outputDir.
       Some (SetOutputDir outputDir (SetDataDir dataDir new_NodeStatus))))"

definition wf_put :: "string \<Rightarrow> NodeStatus \<Rightarrow> WorkflowStatus \<Rightarrow> WorkflowStatus" where
  "wf_put i n w = w\<lparr>ws_NodeStatus := Some (put_status i n (nil_map (ws_NodeStatus w)))\<rparr>"

definition wf_GetNodeExecutionStatus ::
    "ref_constructor \<Rightarrow> (uint32 \<Rightarrow> string) \<Rightarrow> string \<Rightarrow> WorkflowStatus \<Rightarrow> NodeStatus option \<times> WorkflowStatus" where
  "wf_GetNodeExecutionStatus construct format_uint i w =
     (case map_of (nil_map (ws_NodeStatus w)) i of
        Some n \<Rightarrow> (let n' = existing_status construct format_uint i w n in (Some n', wf_put i n' w))
      | None \<Rightarrow>
          (let w1 = w\<lparr>ws_NodeStatus := Some (nil_map (ws_NodeStatus w))\<rparr>
           in case fresh_status construct i w1 of
                None \<Rightarrow> (None, w1)
              | Some n \<Rightarrow> (Some n, wf_put i n w1)))"

definition WorkflowStatus_Equals :: "WorkflowStatus \<Rightarrow> WorkflowStatus option \<Rightarrow> bool" where
  "WorkflowStatus_Equals w other =
     (case other of
        None \<Rightarrow> False
      | Some x \<Rightarrow>
          ws_FailedAttempts w = ws_FailedAttempts x \<and> ws_Phase w = ws_Phase x \<and> ws_DataDir w = ws_DataDir x
          \<and> ws_OutputReference w = ws_OutputReference x
          \<and> length (nil_map (ws_NodeStatus w)) = length (nil_map (ws_NodeStatus x))
          \<and> list_all (\<lambda>(k, v). case map_of (nil_map (ws_NodeStatus x)) k of
               None \<Rightarrow> False | Some v' \<Rightarrow> NodeStatus_Equals v v') (nil_map (ws_NodeStatus w)))"

subsection \<open>Phase updates\<close>

lemmas wf_update_defs = wf_UpdatePhase_def Let_def or_now_def

text \<open>One update of the phase.\<close>

record wf_update =
  up_now :: time
  up_phase :: WorkflowPhase
  up_msg :: string
  up_err :: "ExecutionError option"

definition apply_update :: "wf_update \<Rightarrow> WorkflowStatus \<Rightarrow> WorkflowStatus" where
  "apply_update u = wf_UpdatePhase (up_now u) (up_phase u) (up_msg u) (up_err u)"

lemma apply_update_fields [simp]:
  "ws_Phase (apply_update u w) = up_phase u"
  "ws_StartedAt (apply_update u w) = or_now (ws_StartedAt w) (up_now u)"
  "ws_StoppedAt (apply_update u w) =
     (if IsWorkflowPhaseTerminal (up_phase u) then or_now (ws_StoppedAt w) (up_now u) else ws_StoppedAt w)"
  "ws_LastUpdatedAt (apply_update u w) = Some (up_now u)"
  "ws_Message (apply_update u w) = take maxMessageSize (up_msg u)"
  "ws_Error (apply_update u w) = (if up_err u = None then ws_Error w else up_err u)"
  "ws_NodeStatus (apply_update u w) = ws_NodeStatus w"
  by (simp_all add: apply_update_def wf_update_defs)

lemma or_now_simps [simp]: "or_now (Some t) n = Some t" "or_now None n = Some n"
  by (simp_all add: or_now_def)

lemma started_stays: "ws_StartedAt w = Some t \<Longrightarrow> ws_StartedAt (fold apply_update us w) = Some t"
  by (induction us arbitrary: w) simp_all

lemma stopped_stays: "ws_StoppedAt w = Some t \<Longrightarrow> ws_StoppedAt (fold apply_update us w) = Some t"
  by (induction us arbitrary: w) simp_all

lemma stopped_first:
  "ws_StoppedAt w = None \<Longrightarrow>
   ws_StoppedAt (fold apply_update us w) =
     map_option up_now (List.find (\<lambda>u. IsWorkflowPhaseTerminal (up_phase u)) us)"
proof (induction us arbitrary: w)
  case (Cons u us)
  show ?case
  proof (cases "IsWorkflowPhaseTerminal (up_phase u)")
    case True
    then have "ws_StoppedAt (apply_update u w) = Some (up_now u)" using Cons.prems by simp
    from stopped_stays [OF this] True show ?thesis by simp
  next
    case False
    then have "ws_StoppedAt (apply_update u w) = None" using Cons.prems by simp
    from Cons.IH [OF this] False show ?thesis by simp
  qed
qed simp

text \<open>The last error that was given, if any.\<close>

definition last_error :: "wf_update list \<Rightarrow> ExecutionError option" where
  "last_error us = (case filter (\<lambda>e. e \<noteq> None) (map up_err us) of [] \<Rightarrow> None | es \<Rightarrow> last es)"

lemma last_error_snoc [simp]:
  "last_error [] = None" "last_error (us @ [u]) = (if up_err u = None then last_error us else up_err u)"
  by (auto simp: last_error_def split: list.split dest: arg_cong [of _ _ last])

text \<open>
  Property C30. A history of phase updates on a fresh status: the phase and the message are those of the last update (the
  message cut to the maximal size), the start is the time of the first update, the stop is the time of the first update to
  a terminal phase, and the error is the last one that an update gave: an update without an error does not erase it.
\<close>

theorem workflow_phase_history:
  assumes "ws_StartedAt w = None" "ws_StoppedAt w = None" "ws_Error w = None"
  shows "ws_StartedAt (fold apply_update us w) = (case us of [] \<Rightarrow> None | u # _ \<Rightarrow> Some (up_now u)) \<and>
    ws_StoppedAt (fold apply_update us w) =
      map_option up_now (List.find (\<lambda>u. IsWorkflowPhaseTerminal (up_phase u)) us) \<and>
    ws_Error (fold apply_update us w) = last_error us \<and>
    (us \<noteq> [] \<longrightarrow> ws_Phase (fold apply_update us w) = up_phase (last us) \<and>
      ws_Message (fold apply_update us w) = take maxMessageSize (up_msg (last us)) \<and>
      ws_LastUpdatedAt (fold apply_update us w) = Some (up_now (last us)))"
proof -
  have "ws_StartedAt (fold apply_update us w) = (case us of [] \<Rightarrow> None | u # _ \<Rightarrow> Some (up_now u))"
    using assms(1) by (cases us) (simp_all add: started_stays)
  moreover have "ws_Error (fold apply_update us w) = last_error us"
    using assms(3) by (induction us rule: rev_induct) simp_all
  moreover have "us \<noteq> [] \<longrightarrow> ws_Phase (fold apply_update us w) = up_phase (last us) \<and>
      ws_Message (fold apply_update us w) = take maxMessageSize (up_msg (last us)) \<and>
      ws_LastUpdatedAt (fold apply_update us w) = Some (up_now (last us))"
    by (cases us rule: rev_cases) simp_all
  ultimately show ?thesis using stopped_first [OF assms(2), of us] by blast
qed

definition sample_status :: WorkflowStatus where
  "sample_status = \<lparr>ws_Phase = WorkflowPhaseReady, ws_StartedAt = None, ws_StoppedAt = None,
     ws_LastUpdatedAt = None, ws_Message = [], ws_DataDir = ''s3'', ws_OutputReference = [], ws_NodeStatus = None,
     ws_FailedAttempts = 0, ws_Error = None, ws_DefinitionVersion = None\<rparr>"

theorem workflow_phase_history_witness:
  "ws_StoppedAt (fold apply_update
     [\<lparr>up_now = 3, up_phase = WorkflowPhaseRunning, up_msg = ''go'', up_err = None\<rparr>,
      \<lparr>up_now = 5, up_phase = WorkflowPhaseFailed, up_msg = ''no'', up_err = None\<rparr>,
      \<lparr>up_now = 7, up_phase = WorkflowPhaseAborted, up_msg = ''x'', up_err = None\<rparr>] sample_status) = Some 5"
  using workflow_phase_history [of sample_status
     "[\<lparr>up_now = 3, up_phase = WorkflowPhaseRunning, up_msg = ''go'', up_err = None\<rparr>,
      \<lparr>up_now = 5, up_phase = WorkflowPhaseFailed, up_msg = ''no'', up_err = None\<rparr>,
      \<lparr>up_now = 7, up_phase = WorkflowPhaseAborted, up_msg = ''x'', up_err = None\<rparr>]"]
  by (simp add: sample_status_def IsWorkflowPhaseTerminal_def)

end
