(* ===== verification/Node_Lookup.thy ===== *)
theory Node_Lookup
  imports Core_Model Exec_Errors Workflow_Status
begin

section \<open>Nodes and lookups (v1alpha1/branch.go, workflow.go, controller/executors)\<close>

text \<open>
  The static side of a workflow as the executor sees it, with the lookups through which it reaches nodes,
  their statuses and the edges between them. A status is handed out as a pointer into the workflow resource. A
  \<open>NodeLookup\<close> is therefore a read that may create the status, and a write through the pointer that
  the read gave.
\<close>

definition exec_StartNodeID :: string where "exec_StartNodeID = ''start-node''"

subsection \<open>Branch nodes\<close>

record IfBlock =
  if_Condition :: "boolean_expression option"
  if_ThenNode :: "string option"

text \<open>Of the error for the last branch only the message is read.\<close>

record BranchNodeSpec =
  br_If :: IfBlock
  br_ElseIf :: "IfBlock list"
  br_Else :: "string option"
  br_ElseFail :: "string option"

datatype NodeKind =
    NodeKindTask | NodeKindBranch | NodeKindWorkflow | NodeKindGate | NodeKindArray | NodeKindStart | NodeKindEnd

text \<open>A node that runs a launch plan (named by its identifier) or a sub-workflow.\<close>

record WorkflowNodeSpec =
  wfn_LaunchPlanRefID :: "string option"
  wfn_SubWorkflowReference :: "string option"

text \<open>
  A gate waits for an approval, a signal or a time. The conditions are wrapped: a pointer to a struct that holds a pointer to the message.
\<close>

record ApproveCondition =
  apc_SignalId :: string

record SignalCondition =
  sgc_SignalId :: string
  sgc_Type :: lt_ptr
  sgc_OutputVariableName :: string

record SleepCondition =
  slc_Duration :: int

record GateNodeSpec =
  gate_Kind :: string
  gate_Approve :: "ApproveCondition option option"
  gate_Signal :: "SignalCondition option option"
  gate_Sleep :: "SleepCondition option option"

text \<open>
  The fields of a node that the executor reads. The retry strategy is a pointer to a struct with one pointer. Durations are
  signed 64-bit numbers of nanoseconds. An alias is a pair of the alias and the variable it names.
\<close>

record NodeSpec =
  en_ID :: string
  en_Name :: string
  en_Kind :: NodeKind
  en_BranchNode :: "BranchNodeSpec option"
  en_TaskRef :: "string option"
  en_WorkflowNode :: "WorkflowNodeSpec option"
  en_GateNode :: "GateNodeSpec option"
  en_InputBindings :: "binding list"
  en_RetryStrategy :: "int option option"
  en_OutputAliases :: "(string \<times> string) list"
  en_ExecutionDeadline :: "int option"
  en_ActiveDeadline :: "int option"
  en_Interruptible :: "bool option"

text \<open>A node that has an identifier and nothing else.\<close>

definition plain_node :: "string \<Rightarrow> NodeSpec" where
  "plain_node i = \<lparr>en_ID = i, en_Name = [], en_Kind = NodeKindTask, en_BranchNode = None, en_TaskRef = None,
     en_WorkflowNode = None, en_GateNode = None, en_InputBindings = [], en_RetryStrategy = None, en_OutputAliases = [],
     en_ExecutionDeadline = None, en_ActiveDeadline = None, en_Interruptible = None\<rparr>"

lemma plain_node_sels [simp]: "en_ID (plain_node i) = i" "en_BranchNode (plain_node i) = None"
  by (simp_all add: plain_node_def)

subsection \<open>Edges of a workflow\<close>

type_synonym edge_map = "(string \<times> string list) list"

record Connections =
  con_Downstream :: edge_map
  con_Upstream :: edge_map

record DeprecatedConnections =
  dep_DownstreamEdges :: edge_map
  dep_UpstreamEdges :: edge_map

definition edges_at :: "edge_map \<Rightarrow> string \<Rightarrow> string list" where
  "edges_at m i = (case map_of m i of None \<Rightarrow> [] | Some xs \<Rightarrow> xs)"

fun add_edge :: "string \<Rightarrow> string \<Rightarrow> edge_map \<Rightarrow> edge_map" where
  "add_edge k x [] = [(k, [x])]"
| "add_edge k x ((k', xs) # m) = (if k = k' then (k', xs @ [x]) # m else (k', xs) # add_edge k x m)"

text \<open>What reading the deprecated connections computes, from the downstream edges that the decoder gave.\<close>

definition UnmarshalDeprecated :: "edge_map \<Rightarrow> DeprecatedConnections" where
  "UnmarshalDeprecated down =
     \<lparr>dep_DownstreamEdges = down,
      dep_UpstreamEdges = fold (\<lambda>(from, nodes). fold (\<lambda>to. add_edge to from) nodes) down []\<rparr>"

record WorkflowSpec =
  spec_ID :: string
  spec_Nodes :: "(string \<times> NodeSpec) list"
  spec_DeprecatedConnections :: DeprecatedConnections
  spec_Connections :: Connections
  spec_OnFailure :: "NodeSpec option"
  spec_OutputBindings :: "binding list"

definition StartNode :: "WorkflowSpec \<Rightarrow> NodeSpec option" where
  "StartNode w = map_of (spec_Nodes w) exec_StartNodeID"

definition spec_GetNode :: "WorkflowSpec \<Rightarrow> string \<Rightarrow> NodeSpec option" where
  "spec_GetNode w i = map_of (spec_Nodes w) i"

definition GetNodes :: "WorkflowSpec \<Rightarrow> string list" where
  "GetNodes w = map fst (spec_Nodes w)"

definition GetOnFailureNode :: "WorkflowSpec \<Rightarrow> NodeSpec option" where
  "GetOnFailureNode w = spec_OnFailure w"

text \<open>\<open>GetConnections\<close> fills the field once and returns a pointer to it: the result is the workflow with the field set.\<close>

definition GetConnections :: "WorkflowSpec \<Rightarrow> WorkflowSpec" where
  "GetConnections w =
     (if con_Upstream (spec_Connections w) = [] \<and> con_Downstream (spec_Connections w) = []
      then w\<lparr>spec_Connections := \<lparr>con_Downstream = dep_DownstreamEdges (spec_DeprecatedConnections w),
                                   con_Upstream = dep_UpstreamEdges (spec_DeprecatedConnections w)\<rparr>\<rparr>
      else w)"

definition bad_node :: "WorkflowSpec \<Rightarrow> string \<Rightarrow> go_error" where
  "bad_node w name =
     Plain_Error (''Bad Node ['' @ name @ ''], is not defined in the Workflow ['' @ spec_ID w @ '']'')"

definition spec_ToNode :: "WorkflowSpec \<Rightarrow> string \<Rightarrow> string list go" where
  "spec_ToNode w name =
     (if map_of (spec_Nodes w) name = None then Go_Err (bad_node w name)
      else Go_Ok (edges_at (con_Upstream (spec_Connections (GetConnections w))) name))"

definition spec_FromNode :: "WorkflowSpec \<Rightarrow> string \<Rightarrow> string list go" where
  "spec_FromNode w name =
     (if map_of (spec_Nodes w) name = None then Go_Err (bad_node w name)
      else Go_Ok (edges_at (con_Downstream (spec_Connections (GetConnections w))) name))"

subsection \<open>Structures and lookups\<close>

record DAGStructure =
  dag_ToNode :: "string \<Rightarrow> string list go"
  dag_FromNode :: "string \<Rightarrow> string list go"

definition NewLeafNodeDAGStructure :: "string \<Rightarrow> string list \<Rightarrow> DAGStructure" where
  "NewLeafNodeDAGStructure leafNode parentNodes =
     \<lparr>dag_ToNode = (\<lambda>i. if i = leafNode then Go_Ok parentNodes
                        else Go_Err (Plain_Error (''unknown Node ID ['' @ i @ '']''))),
      dag_FromNode = (\<lambda>i. Go_Ok [])\<rparr>"

text \<open>
  A lookup over a state \<open>'s\<close>: \<open>nl_status\<close> is \<open>GetNodeExecutionStatus\<close> (\<open>None\<close> for a nil
  pointer) and \<open>nl_write\<close> stores through the pointer. Only the lookup of a failure node has an original error.
\<close>

record 's NodeLookup =
  nl_GetNode :: "string \<Rightarrow> NodeSpec option"
  nl_status :: "string \<Rightarrow> 's \<Rightarrow> NodeStatus option \<times> 's"
  nl_write :: "string \<Rightarrow> NodeStatus \<Rightarrow> 's \<Rightarrow> 's"
  nl_ToNode :: "string \<Rightarrow> string list go"
  nl_FromNode :: "string \<Rightarrow> string list go"
  nl_OriginalError :: "ExecutionError option option"

definition NewNodeLookup ::
    "(string \<Rightarrow> NodeSpec option) \<Rightarrow> (string \<Rightarrow> 's \<Rightarrow> NodeStatus option \<times> 's) \<Rightarrow>
     (string \<Rightarrow> NodeStatus \<Rightarrow> 's \<Rightarrow> 's) \<Rightarrow> DAGStructure \<Rightarrow> 's NodeLookup" where
  "NewNodeLookup n s w d =
     \<lparr>nl_GetNode = n, nl_status = s, nl_write = w, nl_ToNode = dag_ToNode d, nl_FromNode = dag_FromNode d,
      nl_OriginalError = None\<rparr>"

text \<open>The lookups of a whole workflow, and of nodes whose statuses are stored below another node.\<close>

definition workflow_lookup :: "ref_constructor \<Rightarrow> (uint32 \<Rightarrow> string) \<Rightarrow> WorkflowSpec \<Rightarrow> WorkflowStatus NodeLookup" where
  "workflow_lookup refs format_uint w =
     NewNodeLookup (spec_GetNode w) (wf_GetNodeExecutionStatus refs format_uint) wf_put
       \<lparr>dag_ToNode = spec_ToNode w, dag_FromNode = spec_FromNode w\<rparr>"

abbreviation spec_dag :: "WorkflowSpec \<Rightarrow> DAGStructure" where
  "spec_dag w \<equiv> \<lparr>dag_ToNode = spec_ToNode w, dag_FromNode = spec_FromNode w\<rparr>"

definition sub_put :: "string \<Rightarrow> NodeStatus \<Rightarrow> NodeStatus \<Rightarrow> NodeStatus" where
  "sub_put i n s = NodeStatus (ns s) (Some (put_status i n (nil_map (SubNodeStatus s))))"

definition subworkflow_lookup :: "ref_constructor \<Rightarrow> (uint32 \<Rightarrow> string) \<Rightarrow> WorkflowSpec \<Rightarrow> NodeStatus NodeLookup" where
  "subworkflow_lookup refs format_uint w =
     NewNodeLookup (spec_GetNode w)
       (\<lambda>i s. map_prod Some (\<lambda>x. x) (GetNodeExecutionStatus refs format_uint i s)) sub_put
       \<lparr>dag_ToNode = spec_ToNode w, dag_FromNode = spec_FromNode w\<rparr>"

text \<open>The lookup of a failure node keeps the status of that node beside the statuses it looks up.\<close>

definition NewFailureNodeLookup ::
    "'s NodeLookup \<Rightarrow> NodeSpec \<Rightarrow> ExecutionError option \<Rightarrow> ('s \<times> NodeStatus) NodeLookup" where
  "NewFailureNodeLookup nl failureNode originalError =
     \<lparr>nl_GetNode = (\<lambda>i. if i = exec_StartNodeID then nl_GetNode nl i else Some failureNode),
      nl_status = (\<lambda>i (s, f). if i = exec_StartNodeID
                     then (case nl_status nl i s of (n, s') \<Rightarrow> (n, s', f)) else (Some f, s, f)),
      nl_write = (\<lambda>i n (s, f). if i = exec_StartNodeID then (nl_write nl i n s, f) else (s, n)),
      nl_ToNode = (\<lambda>i. Go_Ok [exec_StartNodeID]),
      nl_FromNode = (\<lambda>i. Go_Ok []), nl_OriginalError = Some originalError\<rparr>"

text \<open>The lookup on maps, for tests: a status that is missing is nil, and nothing can be written through nil.\<close>

definition NewTestNodeLookup :: "(string \<times> NodeSpec) list \<Rightarrow> (string \<times> NodeStatus) list NodeLookup" where
  "NewTestNodeLookup nodes =
     \<lparr>nl_GetNode = map_of nodes, nl_status = (\<lambda>i s. (map_of s i, s)), nl_write = put_status,
      nl_ToNode = (\<lambda>i. Go_Ok []), nl_FromNode = (\<lambda>i. Go_Ok []), nl_OriginalError = None\<rparr>"

subsection \<open>The contract of a lookup\<close>

text \<open>
  What a caller sees of a status: what would be written back, and whether it is dirty.
  Handing out a pointer again changes neither. Two identifiers with the same \<open>cell\<close> share a status.
\<close>

definition obs :: "NodeStatus \<Rightarrow> NodeStatus \<times> bool" where
  "obs n = (clean n, IsDirty n)"

definition seen :: "'s NodeLookup \<Rightarrow> string \<Rightarrow> 's \<Rightarrow> (NodeStatus \<times> bool) option" where
  "seen nl i s = map_option obs (fst (nl_status nl i s))"

locale node_lookup =
  fixes nl :: "'s NodeLookup" and cell :: "string \<Rightarrow> 'k"
  assumes seen_status: "seen nl j (snd (nl_status nl i s)) = seen nl j s"
    and seen_write: "seen nl i s \<noteq> None \<Longrightarrow>
      seen nl j (nl_write nl i n s) = (if cell j = cell i then Some (obs n) else seen nl j s)"
begin

definition phase_at :: "string \<Rightarrow> 's \<Rightarrow> NodePhase option" where
  "phase_at i s = map_option (\<lambda>(c, _). ns_Phase (ns c)) (seen nl i s)"

lemma seen_modify:
  assumes "nl_status nl i s = (Some n, s')"
  shows "seen nl j (nl_write nl i (f n) s') = (if cell j = cell i then Some (obs (f n)) else seen nl j s)"
proof -
  have s': "s' = snd (nl_status nl i s)" using assms by simp
  have "seen nl i s' \<noteq> None" unfolding s' seen_status using assms by (simp add: seen_def)
  from seen_write [OF this] show ?thesis unfolding s' seen_status .
qed

end

subsection \<open>The lookups keep the contract\<close>

lemma obs_ephemeral:
  "obs (SetDataDir d n) = obs n" "obs (SetOutputDir d n) = obs n"
  "obs (snd (setEphemeralNodeExecutionStatusAttributes c fmt inn i n)) = obs n"
  by (cases n; simp add: obs_def SetDataDir_def SetOutputDir_def upd_def clean_iff IsDirty_iff fields_dirty_def
      clean_fields_def ephemeral_attributes)+

lemma map_of_put_status [simp]: "map_of (put_status i n m) = (map_of m)(i \<mapsto> n)"
  by (induction m) (auto simp: fun_eq_iff)

lemma obs_existing: "obs (existing_status c fmt i w n) = obs n"
  by (simp add: existing_status_def obs_ephemeral split: option.split)

lemma obs_fresh: "fresh_status c i w = Some n \<Longrightarrow> obs n = obs new_NodeStatus"
  by (auto simp: fresh_status_def obs_ephemeral bind_eq_Some_conv)

lemma fresh_status_put [simp]:
  "fresh_status c i (wf_put j n w) = fresh_status c i w"
  "fresh_status c i (w\<lparr>ws_NodeStatus := m\<rparr>) = fresh_status c i w"
  by (simp_all add: fresh_status_def ConstructNodeDataDir_def wf_put_def)

lemma wf_seen:
  "seen (workflow_lookup c fmt w) i s =
     (case map_of (nil_map (ws_NodeStatus s)) i of
        Some n \<Rightarrow> Some (obs n) | None \<Rightarrow> map_option (\<lambda>_. obs new_NodeStatus) (fresh_status c i s))"
  by (auto simp: seen_def workflow_lookup_def NewNodeLookup_def wf_GetNodeExecutionStatus_def Let_def obs_existing
      obs_fresh split: option.split)

lemma wf_nodes_put [simp]: "ws_NodeStatus (wf_put i n s) = Some (put_status i n (nil_map (ws_NodeStatus s)))"
  by (simp add: wf_put_def)

lemma nl_workflow [simp]:
  "nl_status (workflow_lookup c fmt w) = wf_GetNodeExecutionStatus c fmt"
  "nl_write (workflow_lookup c fmt w) = wf_put" "nl_GetNode (workflow_lookup c fmt w) = spec_GetNode w"
  "nl_ToNode (workflow_lookup c fmt w) = spec_ToNode w"
  by (simp_all add: workflow_lookup_def NewNodeLookup_def)

interpretation workflow: node_lookup "workflow_lookup c fmt w" "\<lambda>i. i" for c fmt w
proof
  fix i j s
  show "seen (workflow_lookup c fmt w) j (snd (nl_status (workflow_lookup c fmt w) i s)) =
      seen (workflow_lookup c fmt w) j s"
    by (auto simp: wf_seen wf_GetNodeExecutionStatus_def Let_def obs_existing obs_fresh split: option.split)
next
  fix i j s n
  show "seen (workflow_lookup c fmt w) j (nl_write (workflow_lookup c fmt w) i n s) =
      (if j = i then Some (obs n) else seen (workflow_lookup c fmt w) j s)"
    by (simp add: wf_seen split: option.split)
qed

lemma sub_seen:
  "seen (subworkflow_lookup c fmt w) i s =
     Some (case map_of (nil_map (SubNodeStatus s)) i of Some n \<Rightarrow> obs n | None \<Rightarrow> obs new_NodeStatus)"
  by (simp add: seen_def subworkflow_lookup_def NewNodeLookup_def GetNodeExecutionStatus_def Let_def obs_ephemeral
      split: option.split)

lemma nl_subworkflow [simp]:
  "nl_status (subworkflow_lookup c fmt w) =
     (\<lambda>i s. map_prod Some (\<lambda>x. x) (GetNodeExecutionStatus c fmt i s))"
  "nl_write (subworkflow_lookup c fmt w) = sub_put" "nl_GetNode (subworkflow_lookup c fmt w) = spec_GetNode w"
  "nl_ToNode (subworkflow_lookup c fmt w) = spec_ToNode w"
  by (simp_all add: subworkflow_lookup_def NewNodeLookup_def)

interpretation subworkflow: node_lookup "subworkflow_lookup c fmt w" "\<lambda>i. i" for c fmt w
  by unfold_locales
    (simp_all add: sub_seen sub_put_def GetNodeExecutionStatus_def Let_def obs_ephemeral split: option.split)

lemma test_seen: "seen (NewTestNodeLookup nodes) i s = map_option obs (map_of s i)"
  by (simp add: seen_def NewTestNodeLookup_def)

interpretation test: node_lookup "NewTestNodeLookup nodes" "\<lambda>i. i" for nodes
  by unfold_locales (simp_all add: test_seen, simp_all add: NewTestNodeLookup_def)

context node_lookup
begin

lemma nl_failure:
  "nl_status (NewFailureNodeLookup nl f e) i (s, fs) =
     (if i = exec_StartNodeID then (fst (nl_status nl i s), snd (nl_status nl i s), fs) else (Some fs, s, fs))"
  "nl_write (NewFailureNodeLookup nl f e) i n (s, fs) =
     (if i = exec_StartNodeID then (nl_write nl i n s, fs) else (s, n))"
  by (simp_all add: NewFailureNodeLookup_def split: prod.split)

lemma failure_seen:
  "seen (NewFailureNodeLookup nl f e) i (s, fs) =
     (if i = exec_StartNodeID then seen nl i s else Some (obs fs))"
  by (simp add: seen_def nl_failure)

text \<open>The lookup of a failure node keeps the contract if the one it is built on does.\<close>

lemma failure_lookup: "node_lookup (NewFailureNodeLookup nl f e) (\<lambda>i. i = exec_StartNodeID)"
proof
  fix i j and s :: "'s \<times> NodeStatus"
  obtain t fs where [simp]: "s = (t, fs)" by (cases s)
  show "seen (NewFailureNodeLookup nl f e) j (snd (nl_status (NewFailureNodeLookup nl f e) i s)) =
      seen (NewFailureNodeLookup nl f e) j s"
    using seen_status [of j i t]
    by (auto simp: failure_seen nl_failure)
next
  fix i j n and s :: "'s \<times> NodeStatus"
  assume nn: "seen (NewFailureNodeLookup nl f e) i s \<noteq> None"
  obtain t fs where [simp]: "s = (t, fs)" by (cases s)
  show "seen (NewFailureNodeLookup nl f e) j (nl_write (NewFailureNodeLookup nl f e) i n s) =
      (if (j = exec_StartNodeID) = (i = exec_StartNodeID) then Some (obs n)
       else seen (NewFailureNodeLookup nl f e) j s)"
    using nn seen_write [of exec_StartNodeID t exec_StartNodeID n]
    by (cases "i = exec_StartNodeID"; cases "j = exec_StartNodeID")
      (simp_all add: failure_seen nl_failure)
qed

end

interpretation failure: node_lookup "NewFailureNodeLookup (workflow_lookup c fmt w) f e" "\<lambda>i. i = exec_StartNodeID"
  for c fmt w f e
  by (rule workflow.failure_lookup)

subsection \<open>Edges read backwards\<close>

lemma edges_at_add_edge: "edges_at (add_edge k x m) i = (if i = k then edges_at m i @ [x] else edges_at m i)"
  by (induction m) (auto simp: edges_at_def)

lemma add_edges_from:
  "set (edges_at (fold (\<lambda>to. add_edge to from) nodes m) i) =
     set (edges_at m i) \<union> (if i \<in> set nodes then {from} else {})"
  by (induction nodes arbitrary: m) (auto simp: edges_at_add_edge)

lemma upstream_edges:
  "set (edges_at (fold (\<lambda>(from, nodes). fold (\<lambda>to. add_edge to from) nodes) down m) i) =
     set (edges_at m i) \<union> {from. \<exists>nodes. (from, nodes) \<in> set down \<and> i \<in> set nodes}"
proof (induction down arbitrary: m)
  case (Cons e down)
  obtain src nodes where [simp]: "e = (src, nodes)" by (cases e)
  show ?case by (auto simp: Cons.IH add_edges_from)
qed simp

lemma GetConnections_idem [simp]: "GetConnections (GetConnections w) = GetConnections w"
  by (simp add: GetConnections_def)

lemma spec_edges_stable: "spec_ToNode (GetConnections w) = spec_ToNode w" "spec_FromNode (GetConnections w) = spec_FromNode w"
proof -
  have "spec_Nodes (GetConnections w) = spec_Nodes w" "spec_ID (GetConnections w) = spec_ID w"
    by (simp_all add: GetConnections_def)
  then show "spec_ToNode (GetConnections w) = spec_ToNode w" "spec_FromNode (GetConnections w) = spec_FromNode w"
    by (simp_all add: spec_ToNode_def spec_FromNode_def bad_node_def fun_eq_iff)
qed

text \<open>
  A workflow that was stored with the deprecated connections only: for two nodes of the workflow the lookups of upstream and
  downstream nodes both succeed and are inverse to each other, and filling in the new field does not change them.
\<close>

lemma deprecated_edges_inverse:
  assumes "distinct (map fst down)"
    and "spec_Connections w = \<lparr>con_Downstream = [], con_Upstream = []\<rparr>"
    and "spec_DeprecatedConnections w = UnmarshalDeprecated down"
    and "spec_GetNode w i = Some n" "spec_GetNode w j = Some m"
  shows "\<exists>ups downs. spec_ToNode w j = Go_Ok ups \<and> spec_FromNode w i = Go_Ok downs \<and>
    (i \<in> set ups \<longleftrightarrow> j \<in> set downs) \<and> spec_ToNode (GetConnections w) j = Go_Ok ups"
proof -
  let ?ups = "edges_at (dep_UpstreamEdges (UnmarshalDeprecated down)) j" and ?downs = "edges_at down i"
  have "(i \<in> set ?ups) = (\<exists>nodes. (i, nodes) \<in> set down \<and> j \<in> set nodes)"
    using upstream_edges [of down "[]" j] by (auto simp: UnmarshalDeprecated_def edges_at_def)
  also have "\<dots> = (j \<in> set ?downs)"
    using assms(1) by (auto simp: edges_at_def dest: map_of_SomeD split: option.split)
  finally have "(i \<in> set ?ups) = (j \<in> set ?downs)" .
  moreover have "spec_ToNode w j = Go_Ok ?ups" "spec_FromNode w i = Go_Ok ?downs"
    using assms by (simp_all add: spec_ToNode_def spec_FromNode_def spec_GetNode_def GetConnections_def
        UnmarshalDeprecated_def)
  ultimately show ?thesis by (simp add: spec_edges_stable)
qed

definition sample_spec :: WorkflowSpec where
  "sample_spec =
     \<lparr>spec_ID = ''w'',
      spec_Nodes = [(''a'', (plain_node ''a'')), (''b'', (plain_node ''b''))],
      spec_DeprecatedConnections = UnmarshalDeprecated [(''a'', [''b''])],
      spec_Connections = \<lparr>con_Downstream = [], con_Upstream = []\<rparr>, spec_OnFailure = None, spec_OutputBindings = []\<rparr>"

theorem deprecated_edges_inverse_witness:
  "\<exists>ups. spec_ToNode sample_spec ''b'' = Go_Ok ups \<and> ''a'' \<in> set ups"
  using deprecated_edges_inverse [of "[(''a'', [''b''])]" sample_spec "''a''" _ "''b''"]
  by (auto simp: sample_spec_def spec_GetNode_def spec_FromNode_def GetConnections_def UnmarshalDeprecated_def
      edges_at_def)

end
