(* ===== verification/Branch_Evaluation.thy ===== *)
theory Branch_Evaluation
  imports Node_Lookup
begin

section \<open>Conditions of a branch node (controller/nodes/branch/comparator.go, evaluator.go)\<close>

text \<open>
  Comparison of primitives, evaluation of conditions over the inputs of the branch node, and the choice of the
  branch to take, which marks the nodes of the other branches as skipped. The literals of the inputs are
  a map, or nil. A call through a nil function value and a method of a nil type panic.
\<close>

definition ErrorCodeUserProvidedError :: string where "ErrorCodeUserProvidedError = ''UserProvidedError''"
definition ErrorCodeMalformedBranch :: string where "ErrorCodeMalformedBranch = ''MalformedBranchUserError''"
definition ErrorCodeCompilerError :: string where "ErrorCodeCompilerError = ''CompilerError''"

definition malformed :: "string \<Rightarrow> 'a go" where
  "malformed msg = Go_Err (std_Errorf ErrorCodeMalformedBranch msg)"

subsection \<open>Comparators\<close>

text \<open>The comparisons of \<open>float64\<close>: every one with NaN is false.\<close>

fun float_gt :: "float64 \<Rightarrow> float64 \<Rightarrow> bool" where
  "float_gt (Finite a) (Finite b) \<longleftrightarrow> a > b"
| "float_gt PosInf NegInf \<longleftrightarrow> True"
| "float_gt PosInf (Finite _) \<longleftrightarrow> True"
| "float_gt (Finite _) NegInf \<longleftrightarrow> True"
| "float_gt _ _ \<longleftrightarrow> False"

fun float_eq :: "float64 \<Rightarrow> float64 \<Rightarrow> bool" where
  "float_eq (Finite a) (Finite b) \<longleftrightarrow> a = b"
| "float_eq PosInf PosInf \<longleftrightarrow> True"
| "float_eq NegInf NegInf \<longleftrightarrow> True"
| "float_eq _ _ \<longleftrightarrow> False"

text \<open>The generated getters of a primitive, which may be nil.\<close>

definition prim_GetValue :: "prim_ptr \<Rightarrow> primitive_value option" where
  "prim_GetValue p = Option.bind p (\<lambda>x. x)"

definition prim_GetFloatValue :: "prim_ptr \<Rightarrow> float64" where
  "prim_GetFloatValue p = (case prim_GetValue p of Some (Primitive_FloatValue f) \<Rightarrow> f | _ \<Rightarrow> Finite 0)"

definition prim_GetInteger :: "prim_ptr \<Rightarrow> int" where
  "prim_GetInteger p = (case prim_GetValue p of Some (Primitive_Integer i) \<Rightarrow> i | _ \<Rightarrow> 0)"

definition prim_GetBoolean :: "prim_ptr \<Rightarrow> bool" where
  "prim_GetBoolean p = (case prim_GetValue p of Some (Primitive_Boolean b) \<Rightarrow> b | _ \<Rightarrow> False)"

definition prim_GetStringValue :: "prim_ptr \<Rightarrow> string" where
  "prim_GetStringValue p = (case prim_GetValue p of Some (Primitive_StringValue s) \<Rightarrow> s | _ \<Rightarrow> [])"

definition GetSeconds :: "pb_time option \<Rightarrow> int" where
  "GetSeconds t = (case t of None \<Rightarrow> 0 | Some x \<Rightarrow> Seconds x)"

definition prim_GetDatetime :: "prim_ptr \<Rightarrow> pb_time option" where
  "prim_GetDatetime p = (case prim_GetValue p of Some (Primitive_Datetime t) \<Rightarrow> t | _ \<Rightarrow> None)"

definition prim_GetDuration :: "prim_ptr \<Rightarrow> pb_time option" where
  "prim_GetDuration p = (case prim_GetValue p of Some (Primitive_Duration t) \<Rightarrow> t | _ \<Rightarrow> None)"

type_synonym comparator = "prim_ptr \<Rightarrow> prim_ptr \<Rightarrow> bool"

record comparators =
  comp_gt :: "comparator option"
  comp_eq :: comparator

text \<open>The name of the type of a value, as reflection gives it.\<close>

fun type_name :: "primitive_value \<Rightarrow> string" where
  "type_name (Primitive_Integer _) = ''*core.Primitive_Integer''"
| "type_name (Primitive_FloatValue _) = ''*core.Primitive_FloatValue''"
| "type_name (Primitive_StringValue _) = ''*core.Primitive_StringValue''"
| "type_name (Primitive_Boolean _) = ''*core.Primitive_Boolean''"
| "type_name (Primitive_Datetime _) = ''*core.Primitive_Datetime''"
| "type_name (Primitive_Duration _) = ''*core.Primitive_Duration''"

definition primitiveBooleanType :: string where
  "primitiveBooleanType = type_name (Primitive_Boolean False)"

definition perTypeComparators :: "(string \<times> comparators) list" where
  "perTypeComparators =
    [(type_name (Primitive_FloatValue NaN),
       \<lparr>comp_gt = Some (\<lambda>l r. float_gt (prim_GetFloatValue l) (prim_GetFloatValue r)),
        comp_eq = (\<lambda>l r. float_eq (prim_GetFloatValue l) (prim_GetFloatValue r))\<rparr>),
     (type_name (Primitive_Integer 0),
       \<lparr>comp_gt = Some (\<lambda>l r. prim_GetInteger l > prim_GetInteger r),
        comp_eq = (\<lambda>l r. prim_GetInteger l = prim_GetInteger r)\<rparr>),
     (type_name (Primitive_Boolean False),
       \<lparr>comp_gt = None,
        comp_eq = (\<lambda>l r. prim_GetBoolean l = prim_GetBoolean r)\<rparr>),
     (type_name (Primitive_StringValue []),
       \<lparr>comp_gt = Some (\<lambda>l r. prim_GetStringValue l > prim_GetStringValue r),
        comp_eq = (\<lambda>l r. prim_GetStringValue l = prim_GetStringValue r)\<rparr>),
     (type_name (Primitive_Datetime None),
       \<lparr>comp_gt = Some (\<lambda>l r. GetSeconds (prim_GetDatetime l) > GetSeconds (prim_GetDatetime r)),
        comp_eq = (\<lambda>l r. GetSeconds (prim_GetDatetime l) = GetSeconds (prim_GetDatetime r))\<rparr>),
     (type_name (Primitive_Duration None),
       \<lparr>comp_gt = Some (\<lambda>l r. GetSeconds (prim_GetDuration l) > GetSeconds (prim_GetDuration r)),
        comp_eq = (\<lambda>l r. GetSeconds (prim_GetDuration l) = GetSeconds (prim_GetDuration r))\<rparr>)]"

definition call_gt :: "comparators \<Rightarrow> prim_ptr \<Rightarrow> prim_ptr \<Rightarrow> bool go" where
  "call_gt c l r = (case comp_gt c of None \<Rightarrow> Go_Panic | Some gt \<Rightarrow> Go_Ok (gt l r))"

definition show_type :: "string option \<Rightarrow> string" where
  "show_type t = (case t of None \<Rightarrow> ''<nil>'' | Some n \<Rightarrow> n)"

definition Evaluate :: "prim_ptr \<Rightarrow> prim_ptr \<Rightarrow> comparison_operator \<Rightarrow> bool go" where
  "Evaluate lValue rValue op =
     (let lValueType = map_option type_name (prim_GetValue lValue);
          rValueType = map_option type_name (prim_GetValue rValue)
      in if lValueType \<noteq> rValueType then
           malformed (''Comparison between different primitives types. lVal['' @ show_type lValueType @ '']:rVal['' @
             show_type rValueType @ '']'')
         else case lValueType of
           None \<Rightarrow> Go_Panic
         | Some t \<Rightarrow>
           (case map_of perTypeComparators t of
              None \<Rightarrow> Go_Err (Plain_Error (''comparator not defined for type: ['' @ t @ '']''))
            | Some comps \<Rightarrow>
              (let isBoolean = (t = primitiveBooleanType)
               in case op of
                 Op_GT \<Rightarrow>
                   if isBoolean then malformed ''[GT] not defined for boolean operands.''
                   else call_gt comps lValue rValue
               | Op_GTE \<Rightarrow>
                   if isBoolean then malformed ''[GTE] not defined for boolean operands.''
                   else if comp_eq comps lValue rValue then Go_Ok True else call_gt comps lValue rValue
               | Op_LT \<Rightarrow>
                   if isBoolean then malformed ''[LT] not defined for boolean operands.''
                   else go_bind (call_gt comps lValue rValue) (\<lambda>g. Go_Ok (\<not> (g \<or> comp_eq comps lValue rValue)))
               | Op_LTE \<Rightarrow>
                   if isBoolean then malformed ''[LTE] not defined for boolean operands.''
                   else go_bind (call_gt comps lValue rValue) (\<lambda>g. Go_Ok (\<not> g))
               | Op_EQ \<Rightarrow> Go_Ok (comp_eq comps lValue rValue)
               | Op_NEQ \<Rightarrow> Go_Ok (\<not> comp_eq comps lValue rValue)
               | Op_Unsupported \<Rightarrow> malformed ''Unsupported operator type in Propeller. System error.'')))"

definition Evaluate1 :: "prim_ptr \<Rightarrow> lit_ptr \<Rightarrow> comparison_operator \<Rightarrow> bool go" where
  "Evaluate1 lValue rValue op =
     (if GetScalar rValue = None \<or> GetPrimitive (GetScalar rValue) = None
      then malformed ''Only primitives can be compared. RHS Variable is non primitive.''
      else Evaluate lValue (GetPrimitive (GetScalar rValue)) op)"

definition Evaluate2 :: "lit_ptr \<Rightarrow> prim_ptr \<Rightarrow> comparison_operator \<Rightarrow> bool go" where
  "Evaluate2 lValue rValue op =
     (if GetScalar lValue = None \<or> GetPrimitive (GetScalar lValue) = None
      then malformed ''Only primitives can be compared. LHS Variable is non primitive.''
      else Evaluate (GetPrimitive (GetScalar lValue)) rValue op)"

definition EvaluateLiterals :: "lit_ptr \<Rightarrow> lit_ptr \<Rightarrow> comparison_operator \<Rightarrow> bool go" where
  "EvaluateLiterals lValue rValue op =
     (if GetScalar lValue = None \<or> GetPrimitive (GetScalar lValue) = None
      then malformed ''Only primitives can be compared. LHS Variable is non primitive.''
      else if GetScalar rValue = None \<or> GetPrimitive (GetScalar rValue) = None
      then malformed ''Only primitives can be compared. RHS Variable is non primitive''
      else Evaluate (GetPrimitive (GetScalar lValue)) (GetPrimitive (GetScalar rValue)) op)"

subsection \<open>Conditions\<close>

type_synonym literal_map = "(string \<times> lit_ptr) list option"

definition input_literal :: "literal_map \<Rightarrow> string \<Rightarrow> lit_ptr" where
  "input_literal nodeInputs v = Option.bind nodeInputs (\<lambda>m. case map_of m v of None \<Rightarrow> None | Some l \<Rightarrow> l)"

definition not_found :: "string \<Rightarrow> 'a go" where
  "not_found v = malformed (''Failed to find Value for Variable ['' @ v @ '']'')"

text \<open>One side of a comparison: the literal of a variable, or the primitive. The last argument is the variable named when there are no inputs.\<close>

definition side :: "literal_map \<Rightarrow> operand option \<Rightarrow> string \<Rightarrow> (lit_ptr \<times> prim_ptr) go" where
  "side nodeInputs x blamed =
     (if op_GetPrimitive x = None then
        (if nodeInputs = None then not_found blamed
         else (case input_literal nodeInputs (op_GetVar x) of
                 None \<Rightarrow> not_found (op_GetVar x)
               | Some l \<Rightarrow> Go_Ok (Some l, None)))
      else Go_Ok (None, op_GetPrimitive x))"

definition EvaluateComparison :: "comparison_expression \<Rightarrow> literal_map \<Rightarrow> bool go" where
  "EvaluateComparison expr nodeInputs =
     go_bind (side nodeInputs (cmp_LeftValue expr) (op_GetVar (cmp_LeftValue expr))) (\<lambda>(lValue, lPrim).
     go_bind (side nodeInputs (cmp_RightValue expr) (op_GetVar (cmp_LeftValue expr))) (\<lambda>(rValue, rPrim).
       if lValue \<noteq> None \<and> rValue \<noteq> None then EvaluateLiterals lValue rValue (cmp_Operator expr)
       else if lValue \<noteq> None \<and> rPrim \<noteq> None then Evaluate2 lValue rPrim (cmp_Operator expr)
       else if lPrim \<noteq> None \<and> rValue \<noteq> None then Evaluate1 lPrim rValue (cmp_Operator expr)
       else Evaluate lPrim rPrim (cmp_Operator expr)))"

fun EvaluateBooleanExpression :: "boolean_expression option \<Rightarrow> literal_map \<Rightarrow> bool go" where
  "EvaluateBooleanExpression (Some (BoolExpr_Comparison (Some c))) nodeInputs = EvaluateComparison c nodeInputs"
| "EvaluateBooleanExpression (Some (BoolExpr_Conjunction (Some (op, l, r)))) nodeInputs =
     go_bind (EvaluateBooleanExpression l nodeInputs) (\<lambda>lvalue.
     go_bind (EvaluateBooleanExpression r nodeInputs) (\<lambda>rvalue.
       Go_Ok (if op = Conj_OR then lvalue \<or> rvalue else lvalue \<and> rvalue)))"
| "EvaluateBooleanExpression _ nodeInputs = malformed ''No Comparison or Conjunction found in Branch node expression.''"

subsection \<open>The choice of a branch\<close>

definition EvaluateIfBlock ::
    "IfBlock \<Rightarrow> literal_map \<Rightarrow> string option list \<Rightarrow> (string option \<times> string option list) go" where
  "EvaluateIfBlock block nodeInputs skippedNodeIds =
     go_bind (EvaluateBooleanExpression (if_Condition block) nodeInputs) (\<lambda>ok.
       if ok then Go_Ok (if_ThenNode block, skippedNodeIds)
       else Go_Ok (None, skippedNodeIds @ [if_ThenNode block]))"

fun else_if_loop ::
    "IfBlock list \<Rightarrow> literal_map \<Rightarrow> string option \<Rightarrow> string option list \<Rightarrow> (string option \<times> string option list) go" where
  "else_if_loop [] nodeInputs sel skipped = Go_Ok (sel, skipped)"
| "else_if_loop (block # bs) nodeInputs sel skipped =
     (if sel \<noteq> None then else_if_loop bs nodeInputs sel (skipped @ [if_ThenNode block])
      else go_bind (EvaluateIfBlock block nodeInputs skipped) (\<lambda>(sel', skipped').
        else_if_loop bs nodeInputs sel' skipped'))"

text \<open>Marking a node as skipped; the time is that of the call.\<close>

definition skip_status :: "time \<Rightarrow> NodeStatus \<Rightarrow> NodeStatus" where
  "skip_status now n = UpdatePhase now NodePhaseSkipped now ''Branch evaluated to false'' True None n"

fun skip_loop :: "time \<Rightarrow> 's NodeLookup \<Rightarrow> string option list \<Rightarrow> 's \<Rightarrow> unit go \<times> 's" where
  "skip_loop now nl [] s = (Go_Ok (), s)"
| "skip_loop now nl (None # ids) s = (Go_Panic, s)"
| "skip_loop now nl (Some i # ids) s =
     (case nl_GetNode nl i of
        None \<Rightarrow> (Go_Err (std_Errorf ErrorCodeCompilerError (''Downstream node ['' @ i @ ''] not found'')), s)
      | Some n \<Rightarrow>
          (case nl_status nl (en_ID n) s of
             (None, s') \<Rightarrow> (Go_Panic, s')
           | (Some st, s') \<Rightarrow> skip_loop now nl ids (nl_write nl (en_ID n) (skip_status now st) s')))"

definition choose_branch :: "BranchNodeSpec \<Rightarrow> literal_map \<Rightarrow> (string option \<times> string option list) go" where
  "choose_branch node nodeInputs =
     go_bind (EvaluateIfBlock (br_If node) nodeInputs []) (\<lambda>(sel, skipped).
     go_bind (else_if_loop (br_ElseIf node) nodeInputs sel skipped) (\<lambda>(sel', skipped').
       Go_Ok (case br_Else node of
                None \<Rightarrow> (sel', skipped')
              | Some e \<Rightarrow> if sel' = None then (Some e, skipped') else (sel', skipped' @ [Some e]))))"

definition DecideBranch ::
    "time \<Rightarrow> 's NodeLookup \<Rightarrow> BranchNodeSpec \<Rightarrow> literal_map \<Rightarrow> 's \<Rightarrow> string go \<times> 's" where
  "DecideBranch now nl node nodeInputs s =
     (case choose_branch node nodeInputs of
        Go_Panic \<Rightarrow> (Go_Panic, s)
      | Go_Err e \<Rightarrow> (Go_Err e, s)
      | Go_Ok (sel, skipped) \<Rightarrow>
          (case skip_loop now nl skipped s of
             (Go_Panic, s') \<Rightarrow> (Go_Panic, s')
           | (Go_Err e, s') \<Rightarrow> (Go_Err e, s')
           | (Go_Ok _, s') \<Rightarrow>
               (case sel of
                  Some i \<Rightarrow> (Go_Ok i, s')
                | None \<Rightarrow>
                    (case br_ElseFail node of
                       Some msg \<Rightarrow> (Go_Err (std_Errorf ErrorCodeUserProvidedError msg), s')
                     | None \<Rightarrow> (malformed ''No branch satisfied'', s')))))"

subsection \<open>What a comparison computes\<close>

text \<open>The specification: a key in a linear order for every value, and the meaning of the operators on keys.\<close>

fun float_key :: "float64 \<Rightarrow> int \<times> rat" where
  "float_key NegInf = (- 1, 0)"
| "float_key (Finite r) = (0, r)"
| "float_key PosInf = (1, 0)"
| "float_key NaN = (2, 0)"

fun key :: "primitive_value \<Rightarrow> int \<times> rat \<times> string" where
  "key (Primitive_Integer i) = (i, 0, [])"
| "key (Primitive_FloatValue f) = (fst (float_key f), snd (float_key f), [])"
| "key (Primitive_StringValue s) = (0, 0, s)"
| "key (Primitive_Boolean b) = (if b then 1 else 0, 0, [])"
| "key (Primitive_Datetime t) = (GetSeconds t, 0, [])"
| "key (Primitive_Duration t) = (GetSeconds t, 0, [])"

fun op_holds :: "comparison_operator \<Rightarrow> 'a::linorder \<Rightarrow> 'a \<Rightarrow> bool" where
  "op_holds Op_EQ x y \<longleftrightarrow> x = y"
| "op_holds Op_NEQ x y \<longleftrightarrow> x \<noteq> y"
| "op_holds Op_GT x y \<longleftrightarrow> y < x"
| "op_holds Op_GTE x y \<longleftrightarrow> y \<le> x"
| "op_holds Op_LT x y \<longleftrightarrow> x < y"
| "op_holds Op_LTE x y \<longleftrightarrow> x \<le> y"
| "op_holds Op_Unsupported x y \<longleftrightarrow> False"

definition is_nan :: "primitive_value \<Rightarrow> bool" where
  "is_nan v = (v = Primitive_FloatValue NaN)"

definition is_boolean :: "primitive_value \<Rightarrow> bool" where
  "is_boolean v = (case v of Primitive_Boolean _ \<Rightarrow> True | _ \<Rightarrow> False)"

definition op_defined :: "primitive_value \<Rightarrow> comparison_operator \<Rightarrow> bool" where
  "op_defined v op \<longleftrightarrow> op \<noteq> Op_Unsupported \<and> (is_boolean v \<longrightarrow> op = Op_EQ \<or> op = Op_NEQ)"

text \<open>The contract of a pair of comparators: on its domain they are the equality and the order of some key.\<close>

locale ordered_comparators =
  fixes gt eq :: "'a \<Rightarrow> 'a \<Rightarrow> bool" and in_order :: "'a \<Rightarrow> bool" and ord_key :: "'a \<Rightarrow> 'b::linorder"
  assumes gt_key: "in_order x \<Longrightarrow> in_order y \<Longrightarrow> gt x y \<longleftrightarrow> ord_key y < ord_key x"
    and eq_key: "in_order x \<Longrightarrow> in_order y \<Longrightarrow> eq x y \<longleftrightarrow> ord_key x = ord_key y"
begin

lemma derived_operators:
  assumes "in_order x" "in_order y"
  shows "gt x y \<longleftrightarrow> op_holds Op_GT (ord_key x) (ord_key y)"
    "eq x y \<or> gt x y \<longleftrightarrow> op_holds Op_GTE (ord_key x) (ord_key y)"
    "\<not> (gt x y \<or> eq x y) \<longleftrightarrow> op_holds Op_LT (ord_key x) (ord_key y)"
    "\<not> gt x y \<longleftrightarrow> op_holds Op_LTE (ord_key x) (ord_key y)"
    "eq x y \<longleftrightarrow> op_holds Op_EQ (ord_key x) (ord_key y)"
    "\<not> eq x y \<longleftrightarrow> op_holds Op_NEQ (ord_key x) (ord_key y)"
  using gt_key [OF assms] eq_key [OF assms] by (auto simp: not_less le_less)

end

lemma float_comparators:
  "x \<noteq> NaN \<Longrightarrow> y \<noteq> NaN \<Longrightarrow> float_gt x y \<longleftrightarrow> float_key y < float_key x"
  "x \<noteq> NaN \<Longrightarrow> y \<noteq> NaN \<Longrightarrow> float_eq x y \<longleftrightarrow> float_key x = float_key y"
   by (cases x; cases y; simp)+

interpretation floats: ordered_comparators float_gt float_eq "\<lambda>x. x \<noteq> NaN" float_key
  using float_comparators by unfold_locales

interpretation linear: ordered_comparators "\<lambda>x y. y < x" "(=)" "\<lambda>_. True" "\<lambda>x :: 'a::linorder. x"
  by unfold_locales simp_all

lemmas prim_getters = prim_GetValue_def prim_GetFloatValue_def prim_GetInteger_def prim_GetBoolean_def
  prim_GetStringValue_def prim_GetDatetime_def prim_GetDuration_def

lemma type_name_eq: "type_name v = type_name (Primitive_Boolean b) \<longleftrightarrow> is_boolean v"
  by (cases v) (simp_all add: is_boolean_def)

lemma Evaluate_values:
  assumes "type_name v = type_name w"
  shows "Evaluate (Some (Some v)) (Some (Some w)) op =
    (if op = Op_Unsupported then malformed ''Unsupported operator type in Propeller. System error.''
     else case (v, w) of
       (Primitive_Integer a, Primitive_Integer b) \<Rightarrow> Go_Ok (op_holds op a b)
     | (Primitive_StringValue a, Primitive_StringValue b) \<Rightarrow> Go_Ok (op_holds op a b)
     | (Primitive_Datetime a, Primitive_Datetime b) \<Rightarrow> Go_Ok (op_holds op (GetSeconds a) (GetSeconds b))
     | (Primitive_Duration a, Primitive_Duration b) \<Rightarrow> Go_Ok (op_holds op (GetSeconds a) (GetSeconds b))
     | (Primitive_FloatValue a, Primitive_FloatValue b) \<Rightarrow>
         Go_Ok (case op of Op_EQ \<Rightarrow> float_eq a b | Op_NEQ \<Rightarrow> \<not> float_eq a b | Op_GT \<Rightarrow> float_gt a b
           | Op_GTE \<Rightarrow> float_eq a b \<or> float_gt a b | Op_LT \<Rightarrow> \<not> (float_gt a b \<or> float_eq a b)
           | _ \<Rightarrow> \<not> float_gt a b)
     | (Primitive_Boolean a, Primitive_Boolean b) \<Rightarrow>
         (case op of Op_EQ \<Rightarrow> Go_Ok (a = b) | Op_NEQ \<Rightarrow> Go_Ok (a \<noteq> b)
          | Op_GT \<Rightarrow> malformed ''[GT] not defined for boolean operands.''
          | Op_GTE \<Rightarrow> malformed ''[GTE] not defined for boolean operands.''
          | Op_LT \<Rightarrow> malformed ''[LT] not defined for boolean operands.''
          | _ \<Rightarrow> malformed ''[LTE] not defined for boolean operands.''))"
  using assms
  by (cases v; cases w; (simp; fail)?; cases op)
    (auto simp: Evaluate_def perTypeComparators_def primitiveBooleanType_def prim_getters call_gt_def)

lemma op_holds_pair:
  "op_holds op (a, c) (b, c) = op_holds op a b" "op_holds op (c', a) (c', b) = op_holds op a b"
  by (cases op; auto)+

lemma op_holds_float:
  "op_holds op (fst x, snd x, c) (fst y, snd y, c) = op_holds op (x :: int \<times> rat) y"
  by (cases x; cases y; cases op; auto)



text \<open>
  With NaN on either side the answers of "less than" and "at most" are true, while "greater than",
  "at least" and equality are false: the first two are computed by negation.
\<close>

lemma evaluate_nan:
  fixes x y :: float64
  assumes "x = NaN \<or> y = NaN"
  defines "ev \<equiv> Evaluate (Some (Some (Primitive_FloatValue x))) (Some (Some (Primitive_FloatValue y)))"
  shows "ev Op_LT = Go_Ok True \<and> ev Op_LTE = Go_Ok True \<and> ev Op_GT = Go_Ok False \<and> ev Op_GTE = Go_Ok False \<and>
    ev Op_EQ = Go_Ok False \<and> ev Op_NEQ = Go_Ok True"
proof -
  have "\<not> float_gt x y" "\<not> float_eq x y" using assms(1) by (auto; cases x; cases y; simp)+
  then show ?thesis by (simp add: ev_def Evaluate_values)
qed

theorem evaluate_nan_witness:
  "Evaluate (Some (Some (Primitive_FloatValue NaN))) (Some (Some (Primitive_FloatValue (Finite 1)))) Op_LT = Go_Ok True"
  using evaluate_nan [of NaN "Finite 1"] by simp

text \<open>
  When a comparison returns: it gives an answer exactly if both values are set, have the same type and the
  operator is defined for it; it panics exactly if both values are unset; in every other case it returns the error for a malformed branch.
\<close>

lemma evaluate_outcome:
  "((\<exists>b. Evaluate l r op = Go_Ok b) \<longleftrightarrow>
      (\<exists>v w. prim_GetValue l = Some v \<and> prim_GetValue r = Some w \<and> type_name v = type_name w \<and> op_defined v op)) \<and>
   (Evaluate l r op = Go_Panic \<longleftrightarrow> prim_GetValue l = None \<and> prim_GetValue r = None) \<and>
   (\<forall>e. Evaluate l r op = Go_Err e \<longrightarrow> std_GetErrorCode (Some e) = Some ErrorCodeMalformedBranch)"
proof (cases "map_option type_name (prim_GetValue l) = map_option type_name (prim_GetValue r)")
  case False
  then show ?thesis by (auto simp: Evaluate_def malformed_def std_Errorf_def)
next
  case True
  show ?thesis
  proof (cases "prim_GetValue l")
    case None
    with True show ?thesis by (simp add: Evaluate_def)
  next
    case (Some v)
    with True obtain w where w: "prim_GetValue r = Some w" "type_name v = type_name w" by (cases "prim_GetValue r") auto
    have "l = Some (Some v)" "r = Some (Some w)" using Some w(1) by (auto simp: prim_GetValue_def bind_eq_Some_conv)
    then have ev: "Evaluate l r op = Evaluate (Some (Some v)) (Some (Some w)) op" by simp
    show ?thesis unfolding ev Evaluate_values [OF w(2)] using Some w
      by (cases v; cases w; (simp; fail)?; cases op) (simp_all add: op_defined_def is_boolean_def malformed_def std_Errorf_def)
  qed
qed

theorem evaluate_outcome_witness:
  "Evaluate (Some None) None Op_EQ = Go_Panic"
  using evaluate_outcome [of "Some None" None Op_EQ] by (simp add: prim_GetValue_def)

subsection \<open>What a decision does\<close>

definition blocks :: "BranchNodeSpec \<Rightarrow> IfBlock list" where
  "blocks node = br_If node # br_ElseIf node"

abbreviation cond :: "literal_map \<Rightarrow> IfBlock \<Rightarrow> bool go" where
  "cond inputs b \<equiv> EvaluateBooleanExpression (if_Condition b) inputs"

definition else_target :: "BranchNodeSpec \<Rightarrow> string option list" where
  "else_target node = (case br_Else node of None \<Rightarrow> [] | Some e \<Rightarrow> [Some e])"

text \<open>The specification: the first block whose condition holds, or else the last branch; all other targets are skipped.\<close>

definition takes :: "BranchNodeSpec \<Rightarrow> literal_map \<Rightarrow> string \<Rightarrow> string option list \<Rightarrow> bool" where
  "takes node inputs sel others \<longleftrightarrow>
     (\<exists>pre b post. blocks node = pre @ b # post \<and> (\<forall>x \<in> set pre. cond inputs x = Go_Ok False) \<and>
        cond inputs b = Go_Ok True \<and> if_ThenNode b = Some sel \<and>
        others = map if_ThenNode (pre @ post) @ else_target node) \<or>
     (\<forall>x \<in> set (blocks node). cond inputs x = Go_Ok False) \<and> br_Else node = Some sel \<and>
        others = map if_ThenNode (blocks node)"

lemma else_if_loop_selected:
  "else_if_loop bs inputs (Some i) skipped = Go_Ok (Some i, skipped @ map if_ThenNode bs)"
  by (induction bs arbitrary: skipped) simp_all

lemma else_if_loop_false:
  "\<forall>x \<in> set pre. cond inputs x = Go_Ok False \<Longrightarrow>
   else_if_loop (pre @ bs) inputs None skipped = else_if_loop bs inputs None (skipped @ map if_ThenNode pre)"
  by (induction pre arbitrary: skipped) (simp_all add: EvaluateIfBlock_def)

lemma choose_blocks:
  "choose_branch node inputs = go_bind (else_if_loop (blocks node) inputs None []) (\<lambda>(sel', skipped').
     Go_Ok (case br_Else node of
                None \<Rightarrow> (sel', skipped')
              | Some e \<Rightarrow> if sel' = None then (Some e, skipped') else (sel', skipped' @ [Some e])))"
  by (cases "EvaluateIfBlock (br_If node) inputs []") (auto simp: choose_branch_def blocks_def)

lemma choose_takes: "takes node inputs sel others \<Longrightarrow> choose_branch node inputs = Go_Ok (Some sel, others)"
  unfolding takes_def
proof (elim disjE exE conjE)
  fix pre b post
  assume a: "blocks node = pre @ b # post" "\<forall>x \<in> set pre. cond inputs x = Go_Ok False" "cond inputs b = Go_Ok True"
    "if_ThenNode b = Some sel" "others = map if_ThenNode (pre @ post) @ else_target node"
  have "else_if_loop (blocks node) inputs None [] = Go_Ok (Some sel, map if_ThenNode (pre @ post))"
    unfolding a(1) else_if_loop_false [OF a(2)] using a(3,4) by (simp add: EvaluateIfBlock_def else_if_loop_selected)
  then show ?thesis by (simp add: choose_blocks a(5) else_target_def split: option.split)
next
  assume a: "\<forall>x \<in> set (blocks node). cond inputs x = Go_Ok False" "br_Else node = Some sel"
    "others = map if_ThenNode (blocks node)"
  show ?thesis using else_if_loop_false [OF a(1), of "[]" "[]"] a(2,3) by (simp add: choose_blocks)
qed

lemma choose_none:
  "\<forall>x \<in> set (blocks node). cond inputs x = Go_Ok False \<Longrightarrow> br_Else node = None \<Longrightarrow>
   choose_branch node inputs = Go_Ok (None, map if_ThenNode (blocks node))"
  using else_if_loop_false [of "blocks node" inputs "[]" "[]"] by (simp add: choose_blocks)

lemma choose_error:
  assumes "blocks node = pre @ b # post" "\<forall>x \<in> set pre. cond inputs x = Go_Ok False" "cond inputs b = Go_Err e"
  shows "choose_branch node inputs = Go_Err e"
  unfolding choose_blocks assms(1) else_if_loop_false [OF assms(2)] using assms(3) by (simp add: EvaluateIfBlock_def)

lemma skip_phase: "fst (obs (skip_status now n)) = clean (skip_status now n)" "ns_Phase (ns (clean n)) = ns_Phase (ns n)"
  "ns_Phase (ns (skip_status now n)) = NodePhaseSkipped"
  by (cases n; simp add: obs_def clean_iff clean_fields_def skip_status_def UpdatePhase_def Let_def)+

definition node_phase :: "'s NodeLookup \<Rightarrow> string \<Rightarrow> 's \<Rightarrow> NodePhase option" where
  "node_phase nl i s = map_option (\<lambda>n. ns_Phase (ns n)) (fst (nl_status nl i s))"

context node_lookup
begin

lemma phase_at_node: "phase_at i s = node_phase nl i s"
  by (cases "fst (nl_status nl i s)") (simp_all add: phase_at_def node_phase_def seen_def obs_def skip_phase)

text \<open>The nodes that a list of targets denotes, and the effect of skipping them.\<close>

definition targets_ok :: "string option list \<Rightarrow> 's \<Rightarrow> bool" where
  "targets_ok ids s \<longleftrightarrow> (\<forall>x \<in> set ids. \<exists>i n. x = Some i \<and> nl_GetNode nl i = Some n \<and> seen nl (en_ID n) s \<noteq> None)"

definition hit :: "string option list \<Rightarrow> string \<Rightarrow> bool" where
  "hit ids j \<longleftrightarrow> (\<exists>i n. Some i \<in> set ids \<and> nl_GetNode nl i = Some n \<and> cell (en_ID n) = cell j)"

lemma skip_loop_effect:
  "targets_ok ids s \<Longrightarrow>
   \<exists>s'. skip_loop now nl ids s = (Go_Ok (), s') \<and>
     (\<forall>j. if hit ids j then phase_at j s' = Some NodePhaseSkipped else seen nl j s' = seen nl j s)"
proof (induction ids arbitrary: s)
  case Nil
  then show ?case by (simp add: hit_def)
next
  case (Cons x ids)
  then obtain i n where x: "x = Some i" "nl_GetNode nl i = Some n" "seen nl (en_ID n) s \<noteq> None"
    by (auto simp: targets_ok_def)
  then obtain st s1 where st: "nl_status nl (en_ID n) s = (Some st, s1)"
    by (cases "nl_status nl (en_ID n) s") (auto simp: seen_def)
  let ?s2 = "nl_write nl (en_ID n) (skip_status now st) s1"
  have s2: "seen nl j ?s2 = (if cell j = cell (en_ID n) then Some (obs (skip_status now st)) else seen nl j s)" for j
    by (rule seen_modify [OF st])
  have "targets_ok ids ?s2" using Cons.prems unfolding targets_ok_def by (fastforce simp: s2)
  from Cons.IH [OF this] obtain s' where s': "skip_loop now nl ids ?s2 = (Go_Ok (), s')"
    "\<And>j. if hit ids j then phase_at j s' = Some NodePhaseSkipped else seen nl j s' = seen nl j ?s2" by blast
  have h: "hit (x # ids) j \<longleftrightarrow> cell j = cell (en_ID n) \<or> hit ids j" for j
    using x(1,2) by (auto simp: hit_def)
  have "if hit (x # ids) j then phase_at j s' = Some NodePhaseSkipped else seen nl j s' = seen nl j s" for j
    using s'(2) [of j] by (auto simp: h s2 phase_at_def obs_def skip_phase split: if_splits)
  with s'(1) show ?case using x st by simp
qed

lemma decide_takes:
  assumes "takes node inputs sel others" "targets_ok others s"
  shows "\<exists>s'. DecideBranch now nl node inputs s = (Go_Ok sel, s') \<and>
     (\<forall>j. if hit others j then phase_at j s' = Some NodePhaseSkipped else seen nl j s' = seen nl j s)"
  using skip_loop_effect [OF assms(2), of now] choose_takes [OF assms(1)] by (auto simp: DecideBranch_def)

lemma decide_none:
  assumes "\<forall>x \<in> set (blocks node). cond inputs x = Go_Ok False" "br_Else node = None"
    "targets_ok (map if_ThenNode (blocks node)) s"
  shows "\<exists>s'. DecideBranch now nl node inputs s =
     (case br_ElseFail node of
        Some msg \<Rightarrow> (Go_Err (std_Errorf ErrorCodeUserProvidedError msg), s')
      | None \<Rightarrow> (malformed ''No branch satisfied'', s')) \<and>
     (\<forall>j. if hit (map if_ThenNode (blocks node)) j then phase_at j s' = Some NodePhaseSkipped
          else seen nl j s' = seen nl j s)"
  using skip_loop_effect [OF assms(3), of now] choose_none [OF assms(1,2)]
  by (auto simp: DecideBranch_def split: option.split)

end

lemma wf_seen_some:
  assumes "\<forall>d xs. refs d xs \<noteq> None"
  shows "seen (workflow_lookup refs fmt w) i s \<noteq> None"
proof -
  obtain dataDir outputDir where "refs (ws_DataDir s) [i, ''data''] = Some dataDir" "refs dataDir [''0''] = Some outputDir"
    using assms by (meson not_Some_eq)
  then show ?thesis by (simp add: wf_seen fresh_status_def ConstructNodeDataDir_def split: option.split)
qed

lemma wf_targets_ok:
  assumes "\<forall>d xs. refs d xs \<noteq> None" "\<forall>x \<in> set ids. \<exists>i n. x = Some i \<and> spec_GetNode w i = Some n"
  shows "workflow.targets_ok refs fmt w ids s"
  using assms(2) wf_seen_some [OF assms(1)] by (fastforce simp: workflow.targets_ok_def)

text \<open>
  Property C15. The decision takes the first block whose condition holds, or the last branch if none holds, and returns its
  target. It terminates with that answer whenever the targets that are not taken are nodes of the workflow; these are then
  skipped, and the status of every other node, the chosen one included, is what it was.
\<close>

theorem decide_branch_takes_first:
  assumes "\<forall>d xs. refs d xs \<noteq> None" and "takes node inputs sel others"
    and "\<forall>x \<in> set others. \<exists>i n. x = Some i \<and> spec_GetNode w i = Some n"
  shows "\<exists>s'. DecideBranch now (workflow_lookup refs fmt w) node inputs s = (Go_Ok sel, s') \<and>
    (\<forall>i n. Some i \<in> set others \<longrightarrow> spec_GetNode w i = Some n \<longrightarrow>
       node_phase (workflow_lookup refs fmt w) (en_ID n) s' = Some NodePhaseSkipped) \<and>
    (\<forall>j. (\<forall>i n. Some i \<in> set others \<longrightarrow> spec_GetNode w i = Some n \<longrightarrow> en_ID n \<noteq> j) \<longrightarrow>
       seen (workflow_lookup refs fmt w) j s' = seen (workflow_lookup refs fmt w) j s)"
proof -
  obtain s' where s': "DecideBranch now (workflow_lookup refs fmt w) node inputs s = (Go_Ok sel, s')"
    "\<And>j. if workflow.hit refs fmt w others j then node_phase (workflow_lookup refs fmt w) j s' = Some NodePhaseSkipped
      else seen (workflow_lookup refs fmt w) j s' = seen (workflow_lookup refs fmt w) j s"
    using workflow.decide_takes [OF assms(2) wf_targets_ok [OF assms(1,3)], of now]
    unfolding workflow.phase_at_node by blast
  moreover have "workflow.hit refs fmt w others j \<longleftrightarrow>
      (\<exists>i n. Some i \<in> set others \<and> spec_GetNode w i = Some n \<and> en_ID n = j)" for j
    by (simp add: workflow.hit_def)
  ultimately show ?thesis by (metis (no_types, lifting))
qed

text \<open>
  Property C32. The decision fails in three ways. A condition that cannot be evaluated before any holds is reported and no
  status is changed. If no condition holds and there is no last branch, the error that the user provided is returned,
  or one for a malformed branch, after every target has been skipped.
\<close>

theorem decide_branch_fails:
  assumes "\<forall>d xs. refs d xs \<noteq> None"
  shows "(blocks node = pre @ b # post \<longrightarrow> (\<forall>x \<in> set pre. cond inputs x = Go_Ok False) \<longrightarrow> cond inputs b = Go_Err e \<longrightarrow>
      DecideBranch now (workflow_lookup refs fmt w) node inputs s = (Go_Err e, s)) \<and>
    ((\<forall>x \<in> set (blocks node). cond inputs x = Go_Ok False) \<longrightarrow> br_Else node = None \<longrightarrow>
     (\<forall>x \<in> set (map if_ThenNode (blocks node)). \<exists>i n. x = Some i \<and> spec_GetNode w i = Some n) \<longrightarrow>
      fst (DecideBranch now (workflow_lookup refs fmt w) node inputs s) =
        (case br_ElseFail node of
           Some msg \<Rightarrow> Go_Err (std_Errorf ErrorCodeUserProvidedError msg)
         | None \<Rightarrow> malformed ''No branch satisfied''))"
proof (intro conjI impI)
  assume "blocks node = pre @ b # post" "\<forall>x \<in> set pre. cond inputs x = Go_Ok False" "cond inputs b = Go_Err e"
  from choose_error [OF this] show "DecideBranch now (workflow_lookup refs fmt w) node inputs s = (Go_Err e, s)"
    by (simp add: DecideBranch_def)
next
  assume a: "\<forall>x \<in> set (blocks node). cond inputs x = Go_Ok False" "br_Else node = None"
    "\<forall>x \<in> set (map if_ThenNode (blocks node)). \<exists>i n. x = Some i \<and> spec_GetNode w i = Some n"
  show "fst (DecideBranch now (workflow_lookup refs fmt w) node inputs s) =
        (case br_ElseFail node of
           Some msg \<Rightarrow> Go_Err (std_Errorf ErrorCodeUserProvidedError msg)
         | None \<Rightarrow> malformed ''No branch satisfied'')"
    using workflow.decide_none [OF a(1,2) wf_targets_ok [OF assms a(3), of fmt s], of now]
    by (auto split: option.split)
qed

subsection \<open>An example\<close>

text \<open>A branch on whether the input \<open>x\<close> is above three, in a workflow with the two targets.\<close>

definition sample_condition :: boolean_expression where
  "sample_condition = BoolExpr_Comparison (Some \<lparr>cmp_Operator = Op_GT, cmp_LeftValue = Some (Operand_Var ''x''),
     cmp_RightValue = Some (Operand_Primitive (Some (Some (Primitive_Integer 3))))\<rparr>)"

definition sample_branch :: BranchNodeSpec where
  "sample_branch = \<lparr>br_If = \<lparr>if_Condition = Some sample_condition, if_ThenNode = Some ''a''\<rparr>, br_ElseIf = [],
     br_Else = Some ''b'', br_ElseFail = None\<rparr>"

definition sample_inputs :: "int \<Rightarrow> literal_map" where
  "sample_inputs i = Some [(''x'', Some (Literal (Some (Literal_Scalar (Some (Scalar (Some (Scalar_Primitive
     (Some (Some (Primitive_Integer i)))))))))))]"

definition sample_refs :: ref_constructor where
  "sample_refs d xs = Some (strings_Join (d # xs) ''/'')"

lemma sample_cond: "EvaluateBooleanExpression (Some sample_condition) (sample_inputs i) = Go_Ok (i > 3)"
  by (simp add: sample_condition_def sample_inputs_def EvaluateComparison_def side_def op_GetPrimitive_def op_GetVar_def
      input_literal_def Evaluate2_def GetScalar_def GetPrimitive_def lit_GetValue_def Evaluate_values)

lemma sample_takes: "i > 3 \<Longrightarrow> takes sample_branch (sample_inputs i) ''a'' [Some ''b'']"
  by (auto simp: takes_def blocks_def sample_branch_def sample_cond else_target_def Cons_eq_append_conv)

theorem decide_branch_takes_first_witness:
  "\<exists>s'. DecideBranch 9 (workflow_lookup sample_refs (itoa \<circ> unat) sample_spec) sample_branch (sample_inputs 5) sample_status =
     (Go_Ok ''a'', s') \<and>
     node_phase (workflow_lookup sample_refs (itoa \<circ> unat) sample_spec) ''b'' s' = Some NodePhaseSkipped"
proof -
  have b: "spec_GetNode sample_spec ''b'' = Some (plain_node ''b'')"
    by (simp add: spec_GetNode_def sample_spec_def)
  have "\<forall>d xs. sample_refs d xs \<noteq> None" by (simp add: sample_refs_def)
  from decide_branch_takes_first [OF this sample_takes [of 5], of sample_spec 9 "itoa \<circ> unat" sample_status] b
  show ?thesis by fastforce
qed

theorem decide_branch_fails_witness:
  "fst (DecideBranch 9 (workflow_lookup sample_refs (itoa \<circ> unat) sample_spec) (sample_branch\<lparr>br_Else := None\<rparr>)
     (sample_inputs 1) sample_status) = malformed ''No branch satisfied''"
proof -
  have "spec_GetNode sample_spec ''a'' = Some (plain_node ''a'')"
    by (simp add: spec_GetNode_def sample_spec_def)
  moreover have "\<forall>d xs. sample_refs d xs \<noteq> None" by (simp add: sample_refs_def)
  moreover have "blocks (sample_branch\<lparr>br_Else := None\<rparr>) = [\<lparr>if_Condition = Some sample_condition, if_ThenNode = Some ''a''\<rparr>]"
    by (simp add: blocks_def sample_branch_def)
  ultimately show ?thesis
    using decide_branch_fails [of sample_refs "sample_branch\<lparr>br_Else := None\<rparr>" "[]" _ "[]" "sample_inputs 1" _ 9
      "itoa \<circ> unat" sample_spec sample_status]
    by (simp add: sample_cond sample_branch_def)
qed

end
