(* ===== verification/Conditions.thy ===== *)
theory Conditions
  imports Bindings Branch_Evaluation
begin

section \<open>Validation of conditions (compiler/validators/condition.go)\<close>

text \<open>
  The check of a condition at compile time. As in the other validators a scope is the list of the errors collected in
  it. The last part ties the check to the evaluation at run time.
\<close>

definition validateOperand ::
    "nodeBuilder \<Rightarrow> string \<Rightarrow> operand option \<Rightarrow> bool \<Rightarrow> (lt_ptr \<times> bool) \<times> CompileError list" where
  "validateOperand node paramName operand requireParamType =
     (let (literalType, errs) =
        (if operand = None then (None, [NewValueRequiredErr (nb_Id node) paramName])
         else if op_GetPrimitive operand \<noteq> None then (literalTypeForPrimitive (op_GetPrimitive operand), [])
         else if op_GetVar operand \<noteq> [] then
           (if nb_Iface node \<noteq> None then
              (case validateInputVar node (op_GetVar operand) requireParamType of
                 ((Some param, True), es) \<Rightarrow> (param, es)
               | (_, es) \<Rightarrow> (None, es))
            else (None, [NewValueRequiredErr (nb_Id node) (op_GetVar operand)]))
         else (None, [NewValueRequiredErr (nb_Id node) (paramName @ ''.Val'')]))
      in ((literalType, errs = []), errs))"

definition validateComparison ::
    "('c, 's) typing_lib \<Rightarrow> nodeBuilder \<Rightarrow> comparison_expression \<Rightarrow> bool \<Rightarrow> CompileError list" where
  "validateComparison L node c requireParamType =
     (let ((op1Type, op1Valid), es1) = validateOperand node ''RightValue'' (cmp_RightValue c) requireParamType;
          ((op2Type, op2Valid), es2) = validateOperand node ''LeftValue'' (cmp_LeftValue c) requireParamType
      in es1 @ es2 @
         (if op1Valid \<and> op2Valid \<and> op1Type \<noteq> None \<and> op2Type \<noteq> None \<and> type_text L op1Type \<noteq> type_text L op2Type
          then [NewMismatchingTypesErr (nb_Id node) ''RightValue'' (LiteralTypeToStr L op1Type) (LiteralTypeToStr L op2Type)]
          else []))"

fun ValidateBooleanExpression ::
    "('c, 's) typing_lib \<Rightarrow> nodeBuilder \<Rightarrow> boolean_expression option \<Rightarrow> bool \<Rightarrow> CompileError list" where
  "ValidateBooleanExpression L node None req = [NewBranchNodeHasNoCondition (nb_Id node)]"
| "ValidateBooleanExpression L node (Some (BoolExpr_Comparison (Some c))) req = validateComparison L node c req"
| "ValidateBooleanExpression L node (Some (BoolExpr_Conjunction (Some (op, l, r)))) req =
     ValidateBooleanExpression L node l req @ ValidateBooleanExpression L node r req"
| "ValidateBooleanExpression L node (Some _) req = [NewValueRequiredErr (nb_Id node) ''Expr'']"

subsection \<open>Accepted conditions at run time\<close>

text \<open>The type that the compiler gives to an operand, for a node with an interface.\<close>

definition operand_type :: "variable_map option \<Rightarrow> operand option \<Rightarrow> lt_ptr" where
  "operand_type params x =
     (if op_GetPrimitive x \<noteq> None then literalTypeForPrimitive (op_GetPrimitive x)
      else (case findVariableByName params (op_GetVar x) of None \<Rightarrow> None | Some t \<Rightarrow> t))"

text \<open>
  What the check does not cover: that the primitives of a condition are set, that its operators are known, and that
  booleans are compared for equality only.
\<close>

definition comparison_ok :: "variable_map option \<Rightarrow> comparison_expression \<Rightarrow> bool" where
  "comparison_ok params c \<longleftrightarrow>
     op_GetPrimitive (cmp_LeftValue c) \<noteq> Some None \<and> op_GetPrimitive (cmp_RightValue c) \<noteq> Some None \<and>
     cmp_Operator c \<noteq> Op_Unsupported \<and>
     (operand_type params (cmp_LeftValue c) = lt_of (LT_Simple BOOLEAN) \<longrightarrow>
        cmp_Operator c = Op_EQ \<or> cmp_Operator c = Op_NEQ)"

fun condition_ok :: "variable_map option \<Rightarrow> boolean_expression option \<Rightarrow> bool" where
  "condition_ok params (Some (BoolExpr_Comparison (Some c))) = comparison_ok params c"
| "condition_ok params (Some (BoolExpr_Conjunction (Some (op, l, r)))) = (condition_ok params l \<and> condition_ok params r)"
| "condition_ok params _ = True"

text \<open>The inputs of the node hold a primitive of the declared type for every declared variable.\<close>

definition prim_literal :: "primitive_value \<Rightarrow> literal" where
  "prim_literal v = Literal (Some (Literal_Scalar (Some (Scalar (Some (Scalar_Primitive (Some (Some v))))))))"

definition inputs_conform :: "variable_map option \<Rightarrow> literal_map \<Rightarrow> bool" where
  "inputs_conform params inputs \<longleftrightarrow>
     (\<forall>x t. findVariableByName params x = Some t \<longrightarrow>
        (\<exists>v. input_literal inputs x = Some (prim_literal v) \<and> literalTypeForPrimitive (Some (Some v)) = t))"

text \<open>The texts of the primitive types are different.\<close>

definition texts_distinct :: "('c, 's) typing_lib \<Rightarrow> bool" where
  "texts_distinct L \<longleftrightarrow> (\<forall>v w.
     type_text L (literalTypeForPrimitive (Some (Some v))) = type_text L (literalTypeForPrimitive (Some (Some w))) \<longrightarrow>
     type_name v = type_name w)"

text \<open>The value that an operand has at run time.\<close>

lemma accepted_operand:
  assumes "validateOperand node p x True = ((t, ok), [])" "nb_Iface node = Some iface"
    "inputs_conform (iface_Inputs iface) inputs" "op_GetPrimitive x \<noteq> Some None"
  shows "\<exists>v. t = literalTypeForPrimitive (Some (Some v)) \<and> t = operand_type (iface_Inputs iface) x \<and>
    (\<forall>b. side inputs x b = Go_Ok (None, Some (Some v)) \<or> side inputs x b = Go_Ok (Some (prim_literal v), None))"
proof (cases "op_GetPrimitive x")
  case (Some q)
  then obtain v where "q = Some v" using assms(4) by auto
  moreover have "x \<noteq> None" using Some by (cases x) (auto simp: op_GetPrimitive_def)
  ultimately show ?thesis using Some assms(1)
    by (intro exI [of _ v]) (auto simp: validateOperand_def operand_type_def side_def)
next
  case None
  then have var: "op_GetVar x \<noteq> []" "x \<noteq> None" using assms(1) by (auto simp: validateOperand_def split: if_splits)
  then obtain t' where t': "findVariableByName (iface_Inputs iface) (op_GetVar x) = Some t'"
    using None assms(1,2) by (auto simp: validateOperand_def validateInputVar_def split: option.splits if_splits)
  then have "t = t'" using None var assms(1,2) by (auto simp: validateOperand_def validateInputVar_def)
  moreover obtain v where "input_literal inputs (op_GetVar x) = Some (prim_literal v)"
    "literalTypeForPrimitive (Some (Some v)) = t'"
    using assms(3) t' unfolding inputs_conform_def by blast
  moreover from this(1) have "inputs \<noteq> None" by (cases inputs) (auto simp: input_literal_def)
  ultimately show ?thesis using None t'
    by (intro exI [of _ v]) (auto simp: operand_type_def side_def)
qed

lemma prim_literal_sel [simp]:
  "GetScalar (Some (prim_literal v)) = Some (Scalar (Some (Scalar_Primitive (Some (Some v)))))"
  "GetPrimitive (Some (Scalar (Some (Scalar_Primitive p)))) = p"
  by (simp_all add: prim_literal_def GetScalar_def GetPrimitive_def lit_GetValue_def)

lemma evaluate_sides:
  assumes "\<And>b. side inputs (cmp_LeftValue c) b = Go_Ok (None, Some (Some v)) \<or>
      side inputs (cmp_LeftValue c) b = Go_Ok (Some (prim_literal v), None)"
    "\<And>b. side inputs (cmp_RightValue c) b = Go_Ok (None, Some (Some w)) \<or>
      side inputs (cmp_RightValue c) b = Go_Ok (Some (prim_literal w), None)"
  shows "EvaluateComparison c inputs = Evaluate (Some (Some v)) (Some (Some w)) (cmp_Operator c)"
  using assms(1) [of "op_GetVar (cmp_LeftValue c)"] assms(2) [of "op_GetVar (cmp_LeftValue c)"]
  by (auto simp: EvaluateComparison_def Evaluate1_def Evaluate2_def EvaluateLiterals_def)

lemma boolean_type: "literalTypeForPrimitive (Some (Some v)) = lt_of (LT_Simple BOOLEAN) \<longleftrightarrow> is_boolean v"
  by (cases v) (simp_all add: literalTypeForPrimitive_def is_boolean_def)

lemma evaluate_answers:
  "type_name v = type_name w \<Longrightarrow> op_defined v op \<Longrightarrow> \<exists>b. Evaluate (Some (Some v)) (Some (Some w)) op = Go_Ok b"
  by (cases v; cases w; cases op) (simp_all add: Evaluate_values op_defined_def is_boolean_def)

lemma accepted_comparison:
  assumes "validateComparison L node c True = []" "nb_Iface node = Some iface"
    "inputs_conform (iface_Inputs iface) inputs" "comparison_ok (iface_Inputs iface) c" "texts_distinct L"
  shows "\<exists>b. EvaluateComparison c inputs = Go_Ok b"
proof -
  obtain t1 ok1 t2 ok2 where v: "validateOperand node ''RightValue'' (cmp_RightValue c) True = ((t1, ok1), [])"
    "validateOperand node ''LeftValue'' (cmp_LeftValue c) True = ((t2, ok2), [])"
    using assms(1) by (auto simp: validateComparison_def Let_def split: prod.splits)
  have ok: "ok1" "ok2" using v by (auto simp: validateOperand_def split: prod.splits)
  have ne: "op_GetPrimitive (cmp_RightValue c) \<noteq> Some None" "op_GetPrimitive (cmp_LeftValue c) \<noteq> Some None"
    using assms(4) by (simp_all add: comparison_ok_def)
  obtain w where w: "t1 = literalTypeForPrimitive (Some (Some w))"
    "\<And>b. side inputs (cmp_RightValue c) b = Go_Ok (None, Some (Some w)) \<or>
      side inputs (cmp_RightValue c) b = Go_Ok (Some (prim_literal w), None)"
    using accepted_operand [OF v(1) assms(2,3) ne(1)] by blast
  obtain x where x: "t2 = literalTypeForPrimitive (Some (Some x))" "t2 = operand_type (iface_Inputs iface) (cmp_LeftValue c)"
    "\<And>b. side inputs (cmp_LeftValue c) b = Go_Ok (None, Some (Some x)) \<or>
      side inputs (cmp_LeftValue c) b = Go_Ok (Some (prim_literal x), None)"
    using accepted_operand [OF v(2) assms(2,3) ne(2)] by blast
  have "type_text L t1 = type_text L t2" using assms(1) v ok w(1) x(1)
    by (auto simp: validateComparison_def literalTypeForPrimitive_def split: if_splits)
  then have "type_name x = type_name w" using assms(5) w(1) x(1) unfolding texts_distinct_def by metis
  moreover have "op_defined x (cmp_Operator c)"
    using assms(4) x(1,2) boolean_type [of x] by (auto simp: comparison_ok_def op_defined_def)
  ultimately show ?thesis unfolding evaluate_sides [OF x(3) w(2)] by (rule evaluate_answers)
qed

lemma accepted_condition:
  "ValidateBooleanExpression L node e True = [] \<Longrightarrow> nb_Iface node = Some iface \<Longrightarrow>
   inputs_conform (iface_Inputs iface) inputs \<Longrightarrow> condition_ok (iface_Inputs iface) e \<Longrightarrow> texts_distinct L \<Longrightarrow>
   \<exists>b. EvaluateBooleanExpression e inputs = Go_Ok b"
  by (induction e inputs rule: EvaluateBooleanExpression.induct) (auto dest: accepted_comparison)


text \<open>An example: the input \<open>x\<close> of type integer is above three.\<close>

definition sample_texts :: "(unit, unit) typing_lib" where
  "sample_texts = sample_lib\<lparr>TypeString := (\<lambda>t.
     case lt_type t of
       Some (LT_Simple INTEGER) \<Rightarrow> ''simple:INTEGER''
     | Some (LT_Simple FLOAT) \<Rightarrow> ''simple:FLOAT''
     | Some (LT_Simple STRING) \<Rightarrow> ''simple:STRING''
     | Some (LT_Simple BOOLEAN) \<Rightarrow> ''simple:BOOLEAN''
     | Some (LT_Simple DATETIME) \<Rightarrow> ''simple:DATETIME''
     | Some (LT_Simple DURATION) \<Rightarrow> ''simple:DURATION''
     | _ \<Rightarrow> ''other'')\<rparr>"

definition sample_branch_builder :: nodeBuilder where
  "sample_branch_builder = \<lparr>nb_Id = ''n'', nb_Metadata = None, nb_Inputs = [], nb_OutputAliases = [],
     nb_UpstreamNodeIds = [],
     nb_Iface = Some \<lparr>iface_Inputs = Some [(''x'', lt_of (LT_Simple INTEGER))], iface_Outputs = None\<rparr>\<rparr>"

lemma sample_texts_distinct: "texts_distinct sample_texts"
  unfolding texts_distinct_def
proof (intro allI impI)
  fix v w
  assume "type_text sample_texts (literalTypeForPrimitive (Some (Some v))) =
      type_text sample_texts (literalTypeForPrimitive (Some (Some w)))"
  then show "type_name v = type_name w"
    by (cases v; cases w) (simp_all add: type_text_def sample_texts_def literalTypeForPrimitive_def)
qed


text \<open>Two conditions that the compiler accepts on every node.\<close>

definition order_of_booleans :: boolean_expression where
  "order_of_booleans = BoolExpr_Comparison (Some \<lparr>cmp_Operator = Op_LT,
     cmp_LeftValue = Some (Operand_Primitive (Some (Some (Primitive_Boolean False)))),
     cmp_RightValue = Some (Operand_Primitive (Some (Some (Primitive_Boolean True))))\<rparr>)"

definition unset_primitives :: boolean_expression where
  "unset_primitives = BoolExpr_Comparison (Some \<lparr>cmp_Operator = Op_EQ,
     cmp_LeftValue = Some (Operand_Primitive (Some None)), cmp_RightValue = Some (Operand_Primitive (Some None))\<rparr>)"

text \<open>
  The unchecked part matters: the compiler accepts an order comparison of booleans, which fails at run time
  as a malformed branch, and a comparison of two primitives without a value, which brings the executor down.
\<close>

lemma accepted_condition_gaps:
  "ValidateBooleanExpression L node (Some order_of_booleans) req = [] \<and>
   EvaluateBooleanExpression (Some order_of_booleans) inputs = malformed ''[LT] not defined for boolean operands.'' \<and>
   ValidateBooleanExpression L node (Some unset_primitives) req = [] \<and>
   EvaluateBooleanExpression (Some unset_primitives) inputs = Go_Panic"
  by (simp add: order_of_booleans_def unset_primitives_def validateComparison_def validateOperand_def op_GetPrimitive_def
      literalTypeForPrimitive_def EvaluateComparison_def side_def Evaluate_def prim_GetValue_def perTypeComparators_def
      primitiveBooleanType_def)

end
