(* ===== verification/Predicates.thy ===== *)
theory Predicates
  imports Branch_Evaluation
begin

section \<open>When a node may run (controller/nodes/predicate.go)\<close>

text \<open>
  Whether a node can be executed, read off the statuses of its upstream nodes, and the latest time at which one
  of them ended. Reading a status may create it, so the state is passed along; \<open>Go_Err\<close> stands for the phase
  \<open>PredicatePhaseUndefined\<close> together with the error. A time counts nanoseconds from the zero time.
\<close>

datatype PredicatePhase = PredicatePhaseNotReady | PredicatePhaseReady | PredicatePhaseSkip | PredicatePhaseUndefined

definition PredicatePhase_String :: "PredicatePhase \<Rightarrow> string" where
  "PredicatePhase_String p =
     (case p of
        PredicatePhaseNotReady \<Rightarrow> ''NotReady''
      | PredicatePhaseReady \<Rightarrow> ''Ready''
      | PredicatePhaseSkip \<Rightarrow> ''Skip''
      | _ \<Rightarrow> ''undefined'')"

definition BadSpecificationError :: string where "BadSpecificationError = ''BadSpecificationError''"

definition upstream_undefined :: "string \<Rightarrow> string \<Rightarrow> go_error" where
  "upstream_undefined nodeID u = node_Errorf BadSpecificationError nodeID
     (''Upstream node ['' @ u @ ''] of node ['' @ nodeID @ ''] not defined'')"

text \<open>The end of one round of the loop: whether the upstream node has ended, and how. \<open>None\<close> means not ready.\<close>

definition ended_round :: "NodeStatus \<Rightarrow> bool \<Rightarrow> bool option" where
  "ended_round st skipped =
     (if ns_Phase (ns st) = NodePhaseSkipped \<or> ns_Phase (ns st) = NodePhaseFailed \<or> ns_Phase (ns st) = NodePhaseTimedOut
      then Some True
      else if \<not> (ns_Phase (ns st) = NodePhaseSucceeded \<or> ns_Phase (ns st) = NodePhaseRecovered) then None
      else Some skipped)"

fun upstream_loop ::
    "'s NodeLookup \<Rightarrow> string \<Rightarrow> string list \<Rightarrow> bool \<Rightarrow> 's \<Rightarrow> PredicatePhase go \<times> 's" where
  "upstream_loop nl nodeID [] skipped s =
     (Go_Ok (if skipped then PredicatePhaseSkip else PredicatePhaseReady), s)"
| "upstream_loop nl nodeID (u # us) skipped s =
     (case nl_GetNode nl u of
        None \<Rightarrow> (Go_Err (upstream_undefined nodeID u), s)
      | Some upstreamNode \<Rightarrow>
        (case nl_status nl u s of
           (None, s1) \<Rightarrow> (Go_Panic, s1)
         | (Some st, s1) \<Rightarrow>
             if IsDirty st then (Go_Ok PredicatePhaseNotReady, s1)
             else
               (let proceed = (\<lambda>s'. case ended_round st skipped of
                      None \<Rightarrow> (Go_Ok PredicatePhaseNotReady, s')
                    | Some skipped' \<Rightarrow> upstream_loop nl nodeID us skipped' s')
                in case (en_BranchNode upstreamNode, ns_BranchStatus (ns st)) of
                     (Some _, Some b) \<Rightarrow>
                       if br_Phase b \<noteq> BranchNodeSuccess then (Go_Ok PredicatePhaseNotReady, s1)
                       else
                         (case nl_status nl nodeID s1 of
                            (None, s2) \<Rightarrow> (Go_Panic, s2)
                          | (Some own, s2) \<Rightarrow>
                              if map_option snd (ns_ParentNode (ns own)) = Some u
                              then upstream_loop nl nodeID us skipped s2
                              else proceed s2)
                   | _ \<Rightarrow> proceed s1)))"

definition CanExecute ::
    "DAGStructure \<Rightarrow> 's NodeLookup \<Rightarrow> string \<Rightarrow> 's \<Rightarrow> PredicatePhase go \<times> 's" where
  "CanExecute dag nl nodeID s =
     (if nodeID = exec_StartNodeID then (Go_Ok PredicatePhaseReady, s)
      else case dag_ToNode dag nodeID of
        Go_Panic \<Rightarrow> (Go_Panic, s)
      | Go_Err _ \<Rightarrow> (Go_Err (node_Errorf BadSpecificationError nodeID
                        (''Unable to find upstream nodes for Node {'' @ nodeID @ ''}'')), s)
      | Go_Ok upstreamNodes \<Rightarrow> upstream_loop nl nodeID upstreamNodes False s)"

subsection \<open>The latest end of an upstream node\<close>

definition Unix :: "time \<Rightarrow> int" where
  "Unix t = int (t div 10 ^ 9) - 62135596800"

definition later :: "time option \<Rightarrow> time \<Rightarrow> time" where
  "later t latest = (case t of Some x \<Rightarrow> if Unix x > Unix latest then x else latest | None \<Rightarrow> latest)"

fun end_time_loop :: "'s NodeLookup \<Rightarrow> string \<Rightarrow> string list \<Rightarrow> time \<Rightarrow> 's \<Rightarrow> time go \<times> 's" where
  "end_time_loop nl nodeID [] latest s = (Go_Ok latest, s)"
| "end_time_loop nl nodeID (u # us) latest s =
     (case nl_status nl u s of
        (status, s1) \<Rightarrow>
          (case nl_GetNode nl u of
             None \<Rightarrow> (Go_Err (upstream_undefined nodeID u), s1)
           | Some upstreamNode \<Rightarrow>
             (case status of
                None \<Rightarrow> (Go_Panic, s1)
              | Some st \<Rightarrow>
                (case (en_BranchNode upstreamNode, ns_BranchStatus (ns st)) of
                   (Some _, Some b) \<Rightarrow>
                     if br_Phase b \<noteq> BranchNodeSuccess then (Go_Ok 0, s1)
                     else end_time_loop nl nodeID us
                       (later (if ns_LastUpdatedAt (ns st) \<noteq> None then ns_LastUpdatedAt (ns st)
                               else ns_StartedAt (ns st)) latest) s1
                 | _ \<Rightarrow> end_time_loop nl nodeID us (later (ns_StoppedAt (ns st)) latest) s1))))"

definition GetParentNodeMaxEndTime :: "DAGStructure \<Rightarrow> 's NodeLookup \<Rightarrow> string \<Rightarrow> 's \<Rightarrow> time go \<times> 's" where
  "GetParentNodeMaxEndTime dag nl nodeID s =
     (if nodeID = exec_StartNodeID then (Go_Ok 0, s)
      else case dag_ToNode dag nodeID of
        Go_Panic \<Rightarrow> (Go_Panic, s)
      | Go_Err _ \<Rightarrow> (Go_Err (node_Errorf BadSpecificationError nodeID ''Unable to find upstream nodes for Node''), s)
      | Go_Ok upstreamNodes \<Rightarrow> end_time_loop nl nodeID upstreamNodes 0 s)"

subsection \<open>Specification\<close>

text \<open>What one upstream node says about the node, from what is seen of the two statuses.\<close>

datatype verdict = Blocks | Skips | Allows

definition ended_verdict :: "NodePhase \<Rightarrow> verdict" where
  "ended_verdict p =
     (if p \<in> {NodePhaseSkipped, NodePhaseFailed, NodePhaseTimedOut} then Skips
      else if p \<in> {NodePhaseSucceeded, NodePhaseRecovered} then Allows else Blocks)"

definition branch_phase :: "NodeSpec \<Rightarrow> NodeStatus \<Rightarrow> BranchNodePhase option" where
  "branch_phase n c = (if en_BranchNode n = None then None else map_option br_Phase (ns_BranchStatus (ns c)))"

definition verdict_of :: "NodeSpec \<Rightarrow> string \<Rightarrow> NodeStatus \<times> bool \<Rightarrow> NodeStatus \<times> bool \<Rightarrow> verdict" where
  "verdict_of n u up own =
     (if snd up then Blocks
      else if branch_phase n (fst up) \<noteq> None \<and> branch_phase n (fst up) \<noteq> Some BranchNodeSuccess then Blocks
      else if branch_phase n (fst up) = Some BranchNodeSuccess \<and> map_option snd (ns_ParentNode (ns (fst own))) = Some u
      then Allows
      else ended_verdict (ns_Phase (ns (fst up))))"

definition overall :: "verdict list \<Rightarrow> PredicatePhase" where
  "overall vs = (if Blocks \<in> set vs then PredicatePhaseNotReady
     else if Skips \<in> set vs then PredicatePhaseSkip else PredicatePhaseReady)"

lemma obs_reads:
  "snd (obs n) = IsDirty n" "ns_Phase (ns (fst (obs n))) = ns_Phase (ns n)"
  "branch_phase sp (fst (obs n)) = branch_phase sp n"
  "ns_ParentNode (ns (fst (obs n))) = ns_ParentNode (ns n)"
  "ns_StoppedAt (ns (fst (obs n))) = ns_StoppedAt (ns n)" "ns_LastUpdatedAt (ns (fst (obs n))) = ns_LastUpdatedAt (ns n)"
  "ns_StartedAt (ns (fst (obs n))) = ns_StartedAt (ns n)"
  by (cases n; simp add: obs_def clean_iff clean_fields_def branch_phase_def option.map_comp comp_def)+

lemma ended_round_verdict:
  "ended_round st skipped = (case ended_verdict (ns_Phase (ns st)) of
     Blocks \<Rightarrow> None | Skips \<Rightarrow> Some True | Allows \<Rightarrow> Some skipped)"
  by (cases "ns_Phase (ns st)") (simp_all add: ended_round_def ended_verdict_def)

lemma overall_Cons:
  "overall (v # vs) = (case v of Blocks \<Rightarrow> PredicatePhaseNotReady
     | Skips \<Rightarrow> (if Blocks \<in> set vs then PredicatePhaseNotReady else PredicatePhaseSkip) | Allows \<Rightarrow> overall vs)"
  by (cases v) (auto simp: overall_def)

definition overall_from :: "bool \<Rightarrow> verdict list \<Rightarrow> PredicatePhase" where
  "overall_from skipped vs = overall (if skipped then Skips # vs else vs)"

lemma overall_from_Cons [simp]:
  "overall_from b (Blocks # vs) = PredicatePhaseNotReady" "overall_from b (Skips # vs) = overall_from True vs"
  "overall_from b (Allows # vs) = overall_from b vs"
  "overall_from b [] = (if b then PredicatePhaseSkip else PredicatePhaseReady)"
  by (auto simp: overall_from_def overall_def)

context node_lookup
begin

text \<open>The upstream nodes are defined and their statuses, and that of the node, can be read.\<close>

definition upstream_ok :: "string \<Rightarrow> string list \<Rightarrow> 's \<Rightarrow> bool" where
  "upstream_ok nodeID us s \<longleftrightarrow> seen nl nodeID s \<noteq> None \<and>
     (\<forall>u \<in> set us. nl_GetNode nl u \<noteq> None \<and> seen nl u s \<noteq> None)"

definition verdict_at :: "string \<Rightarrow> 's \<Rightarrow> string \<Rightarrow> verdict" where
  "verdict_at nodeID s u = verdict_of (the (nl_GetNode nl u)) u (the (seen nl u s)) (the (seen nl nodeID s))"

lemma upstream_ok_status: "upstream_ok nodeID us (snd (nl_status nl i s)) = upstream_ok nodeID us s"
  by (simp add: upstream_ok_def seen_status)

lemma verdict_status: "verdict_at nodeID (snd (nl_status nl i s)) = verdict_at nodeID s"
  by (simp add: fun_eq_iff verdict_at_def seen_status)

lemma upstream_loop_correct:
  "upstream_ok nodeID us s \<Longrightarrow>
   \<exists>s'. upstream_loop nl nodeID us skipped s =
     (Go_Ok (overall_from skipped (map (verdict_at nodeID s) us)), s') \<and> (\<forall>j. seen nl j s' = seen nl j s)"
proof (induction us arbitrary: skipped s)
  case (Cons u us)
  obtain n where n: "nl_GetNode nl u = Some n" using Cons.prems by (auto simp: upstream_ok_def)
  obtain st s1 where st: "nl_status nl u s = (Some st, s1)"
    using Cons.prems by (cases "nl_status nl u s") (auto simp: upstream_ok_def seen_def)
  have s1: "s1 = snd (nl_status nl u s)" using st by simp
  obtain own s2 where own: "nl_status nl nodeID s1 = (Some own, s2)"
    using Cons.prems seen_status [of nodeID u s] s1
    by (cases "nl_status nl nodeID s1") (auto simp: upstream_ok_def seen_def)
  have s2: "s2 = snd (nl_status nl nodeID s1)" using own by simp
  have ok: "upstream_ok nodeID us s1" "upstream_ok nodeID us s2"
    using Cons.prems by (simp_all add: s1 s2 upstream_ok_status) (simp_all add: upstream_ok_def)
  have same: "verdict_at nodeID s1 = verdict_at nodeID s" "verdict_at nodeID s2 = verdict_at nodeID s"
    "seen nl j s1 = seen nl j s" "seen nl j s2 = seen nl j s" for j
    by (simp_all add: s1 s2 verdict_status seen_status)
  have v: "verdict_at nodeID s u = verdict_of n u (obs st) (obs own)"
    using same(3) [of nodeID, symmetric] st own n by (auto simp: verdict_at_def seen_def)
  have v': "verdict_at nodeID s u =
      (if IsDirty st \<or> branch_phase n st \<noteq> None \<and> branch_phase n st \<noteq> Some BranchNodeSuccess then Blocks
       else if branch_phase n st = Some BranchNodeSuccess \<and> map_option snd (ns_ParentNode (ns own)) = Some u then Allows
       else ended_verdict (ns_Phase (ns st)))"
    by (auto simp: v verdict_of_def obs_reads)
  have tail: "\<exists>s'. upstream_loop nl nodeID us b t =
      (Go_Ok (overall_from b (map (verdict_at nodeID s) us)), s') \<and> (\<forall>j. seen nl j s' = seen nl j s)"
    if "t = s1 \<or> t = s2" for b t
    using Cons.IH [of t b] that ok same by auto
  show ?case
    using n st own tail [of s1] tail [of s2] same(3,4)
    by (auto simp: v' branch_phase_def ended_round_verdict split: option.split verdict.split)
qed auto

text \<open>The time at which an upstream node ended, as far as the status tells.\<close>

definition end_at :: "'s \<Rightarrow> string \<Rightarrow> time option" where
  "end_at s u =
     (let c = fst (the (seen nl u s))
      in if branch_phase (the (nl_GetNode nl u)) c = None then ns_StoppedAt (ns c)
         else if ns_LastUpdatedAt (ns c) \<noteq> None then ns_LastUpdatedAt (ns c) else ns_StartedAt (ns c))"

definition evaluated :: "'s \<Rightarrow> string \<Rightarrow> bool" where
  "evaluated s u \<longleftrightarrow> branch_phase (the (nl_GetNode nl u)) (fst (the (seen nl u s))) \<in> {None, Some BranchNodeSuccess}"

lemma end_time_loop_correct:
  "upstream_ok nodeID us s \<Longrightarrow> \<forall>u \<in> set us. evaluated s u \<Longrightarrow>
   \<exists>s'. end_time_loop nl nodeID us latest s = (Go_Ok (fold (\<lambda>u. later (end_at s u)) us latest), s') \<and>
     (\<forall>j. seen nl j s' = seen nl j s)"
proof (induction us arbitrary: latest s)
  case (Cons u us)
  obtain n where n: "nl_GetNode nl u = Some n" using Cons.prems by (auto simp: upstream_ok_def)
  obtain st s1 where st: "nl_status nl u s = (Some st, s1)"
    using Cons.prems by (cases "nl_status nl u s") (auto simp: upstream_ok_def seen_def)
  have s1: "s1 = snd (nl_status nl u s)" using st by simp
  have same: "seen nl j s1 = seen nl j s" "end_at s1 = end_at s" "evaluated s1 = evaluated s" for j
    by (simp_all add: fun_eq_iff s1 end_at_def evaluated_def seen_status)
  have "upstream_ok nodeID us s1" using Cons.prems by (simp add: s1 upstream_ok_status) (simp add: upstream_ok_def)
  with Cons.IH [of s1] Cons.prems(2) same
  have tail: "\<exists>s'. end_time_loop nl nodeID us l s1 =
      (Go_Ok (fold (\<lambda>u. later (end_at s u)) us l), s') \<and> (\<forall>j. seen nl j s' = seen nl j s)" for l
    by (simp add: same)
  have "seen nl u s = Some (obs st)" using st by (simp add: seen_def)
  then have u: "end_at s u =
      (if branch_phase n st = None then ns_StoppedAt (ns st)
       else if ns_LastUpdatedAt (ns st) \<noteq> None then ns_LastUpdatedAt (ns st) else ns_StartedAt (ns st))"
    "branch_phase n st \<in> {None, Some BranchNodeSuccess}"
    using n Cons.prems(2) by (simp_all add: end_at_def evaluated_def obs_reads Let_def)
  show ?case using u(2) n st tail
    by (auto simp: u(1) branch_phase_def split: option.split)
qed simp

end

lemma later_fold:
  "Unix latest \<le> Unix (fold (\<lambda>u. later (f u)) us latest) \<and>
   (\<forall>u \<in> set us. \<forall>x. f u = Some x \<longrightarrow> Unix x \<le> Unix (fold (\<lambda>u. later (f u)) us latest)) \<and>
   (fold (\<lambda>u. later (f u)) us latest = latest \<or> (\<exists>u \<in> set us. f u = Some (fold (\<lambda>u. later (f u)) us latest)))"
proof (induction us arbitrary: latest)
  case (Cons u us)
  have l: "Unix latest \<le> Unix (later (f u) latest)" "f u = Some x \<Longrightarrow> Unix x \<le> Unix (later (f u) latest)"
    "later (f u) latest = latest \<or> f u = Some (later (f u) latest)" for x
    by (auto simp: later_def split: option.split)
  show ?case using Cons [of "later (f u) latest"] l by (auto; fastforce dest: order_trans)
qed simp

subsection \<open>The predicate on a workflow\<close>

lemma overall_iff:
  "overall vs = PredicatePhaseReady \<longleftrightarrow> (\<forall>v \<in> set vs. v = Allows)"
  "overall vs = PredicatePhaseSkip \<longleftrightarrow> Skips \<in> set vs \<and> Blocks \<notin> set vs"
  "overall vs = PredicatePhaseNotReady \<longleftrightarrow> Blocks \<in> set vs" "overall vs \<noteq> PredicatePhaseUndefined"
  by (auto simp: overall_def) (metis verdict.exhaust)

lemma wf_upstream_ok:
  assumes "\<forall>d xs. refs d xs \<noteq> None" "\<forall>u \<in> set us. spec_GetNode w u \<noteq> None"
  shows "workflow.upstream_ok refs fmt w nodeID us s"
  using assms(2) wf_seen_some [OF assms(1)] by (simp add: workflow.upstream_ok_def)

text \<open>What an upstream node says about a node in a state of a workflow.\<close>

definition wf_verdict ::
    "ref_constructor \<Rightarrow> (uint32 \<Rightarrow> string) \<Rightarrow> WorkflowSpec \<Rightarrow> WorkflowStatus \<Rightarrow> string \<Rightarrow> string \<Rightarrow> verdict" where
  "wf_verdict refs fmt w s nodeID u =
     verdict_of (the (spec_GetNode w u)) u (the (seen (workflow_lookup refs fmt w) u s))
       (the (seen (workflow_lookup refs fmt w) nodeID s))"

lemma can_execute_overall:
  assumes "\<forall>d xs. refs d xs \<noteq> None" "nodeID \<noteq> exec_StartNodeID" "dag_ToNode dag nodeID = Go_Ok us"
    "\<forall>u \<in> set us. spec_GetNode w u \<noteq> None"
  shows "\<exists>s'. CanExecute dag (workflow_lookup refs fmt w) nodeID s =
      (Go_Ok (overall (map (wf_verdict refs fmt w s nodeID) us)), s') \<and>
    (\<forall>j. seen (workflow_lookup refs fmt w) j s' = seen (workflow_lookup refs fmt w) j s)"
proof -
  have "workflow.verdict_at refs fmt w nodeID s = wf_verdict refs fmt w s nodeID"
    by (simp add: fun_eq_iff workflow.verdict_at_def wf_verdict_def)
  then show ?thesis
    using workflow.upstream_loop_correct [OF wf_upstream_ok [OF assms(1,4), of fmt nodeID s], where skipped = False] assms(2,3)
    by (simp add: CanExecute_def overall_from_def)
qed

text \<open>
  Property C34. Whether a node may run depends on its upstream nodes and not on their order: it is ready exactly if all of them allow it,
  not ready exactly if one of them blocks it, and skipped if none blocks it and one was skipped, failed or timed out. A dirty upstream status
  blocks; an evaluated branch node allows its own child before it has ended. The check changes no status.
\<close>

theorem can_execute_iff:
  assumes "\<forall>d xs. refs d xs \<noteq> None" "nodeID \<noteq> exec_StartNodeID" "dag_ToNode dag nodeID = Go_Ok us"
    "\<forall>u \<in> set us. spec_GetNode w u \<noteq> None"
  shows "\<exists>p s'. CanExecute dag (workflow_lookup refs fmt w) nodeID s = (Go_Ok p, s') \<and>
    (p = PredicatePhaseReady \<longleftrightarrow> (\<forall>u \<in> set us. wf_verdict refs fmt w s nodeID u = Allows)) \<and>
    (p = PredicatePhaseNotReady \<longleftrightarrow> (\<exists>u \<in> set us. wf_verdict refs fmt w s nodeID u = Blocks)) \<and>
    p \<noteq> PredicatePhaseUndefined \<and>
    (\<forall>j. seen (workflow_lookup refs fmt w) j s' = seen (workflow_lookup refs fmt w) j s)"
  using can_execute_overall [OF assms, of fmt s]
  by (auto simp: overall_iff image_iff eq_commute [of Blocks]
      intro!: exI [of _ "overall (map (wf_verdict refs fmt w s nodeID) us)"])

subsection \<open>An example\<close>

definition sample_dag :: DAGStructure where
  "sample_dag = \<lparr>dag_ToNode = spec_ToNode sample_spec, dag_FromNode = spec_FromNode sample_spec\<rparr>"

abbreviation "sample_lookup \<equiv> workflow_lookup sample_refs (itoa \<circ> unat) sample_spec"

lemma sample_upstream: "dag_ToNode sample_dag ''b'' = Go_Ok [''a'']"
  "spec_GetNode sample_spec ''a'' = Some (plain_node ''a'')" "\<forall>d xs. sample_refs d xs \<noteq> None"
  by (simp_all add: sample_dag_def sample_spec_def spec_ToNode_def GetConnections_def UnmarshalDeprecated_def edges_at_def
      spec_GetNode_def sample_refs_def)

text \<open>The workflow after its first node has stopped.\<close>

definition sample_stopped :: WorkflowStatus where
  "sample_stopped = wf_put ''a'' (NodeStatus (new_NodeFields\<lparr>ns_Phase := NodePhaseSucceeded, ns_StoppedAt := Some 7000000000\<rparr>) None) sample_status"

lemma sample_seen:
  "seen sample_lookup ''a'' sample_stopped =
     Some (NodeStatus (new_NodeFields\<lparr>ns_Phase := NodePhaseSucceeded, ns_StoppedAt := Some 7000000000\<rparr>) None, False)"
  by (simp add: wf_seen sample_stopped_def obs_def clean_iff IsDirty_iff fields_dirty_def clean_fields_def new_NodeFields_def)

theorem can_execute_iff_witness:
  "\<exists>s'. CanExecute sample_dag sample_lookup ''b'' sample_stopped = (Go_Ok PredicatePhaseReady, s')"
proof -
  have "wf_verdict sample_refs (itoa \<circ> unat) sample_spec sample_stopped ''b'' ''a'' = Allows"
    by (simp add: wf_verdict_def sample_seen sample_upstream verdict_of_def branch_phase_def ended_verdict_def)
  then show ?thesis
    using can_execute_iff [of sample_refs "''b''" sample_dag "[''a'']" sample_spec "itoa \<circ> unat" sample_stopped] sample_upstream
    by (auto simp: exec_StartNodeID_def)
qed

text \<open>
  The latest end of the upstream nodes, when none of them is a branch node with a branch status: the result is the time at which one
  of them stopped (or the zero time), and to the second no upstream node stopped later.
\<close>

lemma parent_max_end_time:
  fixes refs :: ref_constructor and w :: WorkflowSpec and s :: WorkflowStatus
  assumes "\<forall>d xs. refs d xs \<noteq> None" "nodeID \<noteq> exec_StartNodeID" "dag_ToNode dag nodeID = Go_Ok us"
    "\<forall>u \<in> set us. spec_GetNode w u \<noteq> None"
    and "\<forall>u \<in> set us. \<forall>n st. spec_GetNode w u = Some n \<longrightarrow> seen (workflow_lookup refs fmt w) u s = Some st \<longrightarrow>
      branch_phase n (fst st) = None"
  shows "\<exists>t s'. GetParentNodeMaxEndTime dag (workflow_lookup refs fmt w) nodeID s = (Go_Ok t, s') \<and>
    (\<forall>u \<in> set us. \<forall>st x. seen (workflow_lookup refs fmt w) u s = Some st \<longrightarrow> ns_StoppedAt (ns (fst st)) = Some x \<longrightarrow>
       Unix x \<le> Unix t) \<and>
    (t = 0 \<or> (\<exists>u \<in> set us. \<exists>st. seen (workflow_lookup refs fmt w) u s = Some st \<and> ns_StoppedAt (ns (fst st)) = Some t))"
proof -
  let ?f = "workflow.end_at refs fmt w s"
  have sn: "seen (workflow_lookup refs fmt w) u s \<noteq> None" for u by (rule wf_seen_some [OF assms(1)])
  have bp: "branch_phase (the (spec_GetNode w u)) (fst (the (seen (workflow_lookup refs fmt w) u s))) = None"
    if "u \<in> set us" for u using assms(4,5) that sn [of u] by fastforce
  have f: "?f u = ns_StoppedAt (ns (fst (the (seen (workflow_lookup refs fmt w) u s))))" if "u \<in> set us" for u
    using bp [OF that] by (simp add: workflow.end_at_def)
  have ev: "\<forall>u \<in> set us. workflow.evaluated refs fmt w s u" using bp by (simp add: workflow.evaluated_def)
  obtain s' where run: "GetParentNodeMaxEndTime dag (workflow_lookup refs fmt w) nodeID s =
      (Go_Ok (fold (\<lambda>u. later (?f u)) us 0), s')"
    using workflow.end_time_loop_correct [OF wf_upstream_ok [OF assms(1,4)] ev, where latest = 0] assms(2,3)
    by (auto simp: GetParentNodeMaxEndTime_def)
  show ?thesis
    using later_fold [where f = ?f and us = us and latest = 0] f sn run
    by (intro exI [of _ "fold (\<lambda>u. later (?f u)) us 0"] exI [of _ s']) fastforce
qed

theorem parent_max_end_time_witness:
  "\<exists>t s'. GetParentNodeMaxEndTime sample_dag sample_lookup ''b'' sample_stopped = (Go_Ok t, s') \<and> Unix 7000000000 \<le> Unix t"
proof -
  have "spec_GetNode sample_spec ''a'' = Some n \<Longrightarrow> branch_phase n c = None" for n c
    by (simp add: sample_upstream branch_phase_def) auto
  then show ?thesis
    using parent_max_end_time [of sample_refs "''b''" sample_dag "[''a'']" sample_spec "itoa \<circ> unat" sample_stopped]
      sample_upstream sample_seen
    by (auto simp: exec_StartNodeID_def)
qed

end
