(* ===== verification/Workflow_Executor.thy ===== *)
theory Workflow_Executor
  imports Predicates Node_State
begin

section \<open>The workflow executor (controller/workflow/executor.go)\<close>

text \<open>
  One round of the executor on a workflow: the handler of its phase, and the transition to the phase that the handler asks
  for, with the event that announces it. The executor keeps a state \<open>round\<close>: the workflow resource, the events sent
  so far and how often the workflow was put back into the queue. Metrics, logs and Kubernetes events are left out.

  What the executor is built on is the record \<open>exec_env\<close>: the clock, the storage, the sink of events and the
  executor of nodes, which works on the same workflow resource. Each may fail; the executor of nodes may also
  panic.
\<close>

subsection \<open>Results of the node executor (controller/nodes/interfaces/node.go)\<close>

datatype ExecPhase =
    ExecPhasePending | ExecPhaseQueued | ExecPhaseRunning | ExecPhaseSuccess | ExecPhaseComplete | ExecPhaseFailed
  | ExecPhaseUndefined | ExecPhaseTimingOut | ExecPhaseTimedOut | ExecPhaseRecovered

record ExecStatus =
  xs_NodePhase :: ExecPhase
  xs_Err :: "ExecutionError option"

definition IsComplete :: "ExecStatus \<Rightarrow> bool" where "IsComplete n \<longleftrightarrow> xs_NodePhase n = ExecPhaseComplete"
definition HasFailed :: "ExecStatus \<Rightarrow> bool" where "HasFailed n \<longleftrightarrow> xs_NodePhase n = ExecPhaseFailed"
definition HasTimedOut :: "ExecStatus \<Rightarrow> bool" where "HasTimedOut n \<longleftrightarrow> xs_NodePhase n = ExecPhaseTimedOut"
definition PartiallyComplete :: "ExecStatus \<Rightarrow> bool" where "PartiallyComplete n \<longleftrightarrow> xs_NodePhase n = ExecPhaseSuccess"

subsection \<open>The workflow resource (v1alpha1/workflow.go)\<close>

text \<open>
  The fields that the executor, the reconciler and the stores read or write. The specification is behind a pointer, which is
  nil when it is stored elsewhere and has not been read; so are the maps of tasks and of sub-workflows, of which nothing else is
  kept. An execution is identified by project, domain and name. A managed field is its text, empty for the empty entry.
\<close>

record FlyteWorkflow =
  fw_Namespace :: string
  fw_Name :: string
  fw_ManagedFields :: "string list"
  fw_ExecutionID :: "(string \<times> string \<times> string) option"
  fw_Spec :: "WorkflowSpec option"
  fw_Tasks :: "addr option"
  fw_SubWorkflows :: "addr option"
  fw_Inputs :: "literal_map option"
  fw_OffloadedInputs :: string
  fw_Status :: WorkflowStatus
  fw_DeletionTimestamp :: "time option"
  fw_Finalizers :: "string list"
  fw_Labels :: "(string \<times> string) list option"
  fw_WorkflowClosureReference :: string
  fw_ResourceVersion :: string

datatype WorkflowEventPhase = Wf_RUNNING | Wf_FAILING | Wf_FAILED | Wf_SUCCEEDING | Wf_SUCCEEDED | Wf_ABORTED

datatype event_result = No_Result | Event_Error ExecutionError | Event_OutputUri string

record WorkflowExecutionEvent =
  ev_ExecutionId :: "(string \<times> string \<times> string) option"
  ev_Phase :: WorkflowEventPhase
  ev_OutputResult :: event_result
  ev_OccurredAt :: time

subsection \<open>What the executor is built on\<close>

text \<open>The nodes that the node executor walks: those of the workflow, or the failure node with the error that it handles.\<close>

datatype lookup_kind = Workflow_Nodes | Failure_Node NodeSpec ExecutionError

record exec_env =
  en_now :: time
  en_alloc :: addr
  en_refs :: ref_constructor
  en_ref_error :: string
  en_format_uint :: "uint32 \<Rightarrow> string"
  en_ReadProtobuf :: "string \<Rightarrow> go_error + literal_map"
  en_metadataPrefix :: string
  en_id_text :: "string \<times> string \<times> string \<Rightarrow> string"
  en_RecordWorkflowEvent :: "WorkflowExecutionEvent \<Rightarrow> go_error option"
  en_SetInputsForStartNode :: "literal_map \<Rightarrow> FlyteWorkflow \<Rightarrow> ExecStatus go \<times> FlyteWorkflow"
  en_RecursiveNodeHandler :: "lookup_kind \<Rightarrow> NodeSpec \<Rightarrow> FlyteWorkflow \<Rightarrow> ExecStatus go \<times> FlyteWorkflow"
  en_AbortHandler :: "NodeSpec \<Rightarrow> string \<Rightarrow> FlyteWorkflow \<Rightarrow> unit go \<times> FlyteWorkflow"

record round =
  rd_w :: FlyteWorkflow
  rd_events :: "WorkflowExecutionEvent list"
  rd_enqueued :: nat

subsection \<open>Sequencing\<close>

type_synonym 'a run = "('a, round) grun"

text \<open>An operation on the workflow resource.\<close>

definition on_workflow :: "(FlyteWorkflow \<Rightarrow> 'a \<times> FlyteWorkflow) \<Rightarrow> round \<Rightarrow> 'a \<times> round" where
  "on_workflow f r = (case f (rd_w r) of (x, w) \<Rightarrow> (x, r\<lparr>rd_w := w\<rparr>))"

definition upd_status :: "(WorkflowStatus \<Rightarrow> WorkflowStatus) \<Rightarrow> unit run" where
  "upd_status f = (\<lambda>r. (Go_Ok (), r\<lparr>rd_w := (rd_w r)\<lparr>fw_Status := f (fw_Status (rd_w r))\<rparr>\<rparr>))"

definition get_w :: "FlyteWorkflow run" where "get_w = (\<lambda>r. (Go_Ok (rd_w r), r))"

text \<open>A status of a node; calling a method of a nil status panics.\<close>

definition node_status :: "exec_env \<Rightarrow> string \<Rightarrow> NodeStatus run" where
  "node_status E i = (\<lambda>r. case wf_GetNodeExecutionStatus (en_refs E) (en_format_uint E) i (fw_Status (rd_w r)) of
     (None, s) \<Rightarrow> (Go_Panic, r\<lparr>rd_w := (rd_w r)\<lparr>fw_Status := s\<rparr>\<rparr>)
   | (Some n, s) \<Rightarrow> (Go_Ok n, r\<lparr>rd_w := (rd_w r)\<lparr>fw_Status := s\<rparr>\<rparr>))"

definition the_spec :: "WorkflowSpec run" where
  "the_spec = (\<lambda>r. case fw_Spec (rd_w r) of None \<Rightarrow> (Go_Panic, r) | Some sp \<Rightarrow> (Go_Ok sp, r))"

definition enqueueWorkflow :: "unit run" where
  "enqueueWorkflow = (\<lambda>r. (Go_Ok (), r\<lparr>rd_enqueued := rd_enqueued r + 1\<rparr>))"

subsection \<open>Statuses of the handlers\<close>

record Status =
  TransitionToPhase_of :: WorkflowPhase
  Status_Err :: "ExecutionError option"

definition StatusReady :: Status where
  "StatusReady = \<lparr>TransitionToPhase_of = WorkflowPhaseReady, Status_Err = None\<rparr>"
definition StatusRunning :: Status where
  "StatusRunning = \<lparr>TransitionToPhase_of = WorkflowPhaseRunning, Status_Err = None\<rparr>"
definition StatusSucceeding :: Status where
  "StatusSucceeding = \<lparr>TransitionToPhase_of = WorkflowPhaseSucceeding, Status_Err = None\<rparr>"
definition StatusSuccess :: Status where
  "StatusSuccess = \<lparr>TransitionToPhase_of = WorkflowPhaseSuccess, Status_Err = None\<rparr>"
definition StatusFailureNode :: "ExecutionError \<Rightarrow> Status" where
  "StatusFailureNode e = \<lparr>TransitionToPhase_of = WorkflowPhaseHandlingFailureNode, Status_Err = Some e\<rparr>"
definition StatusFailing :: "ExecutionError option \<Rightarrow> Status" where
  "StatusFailing e = \<lparr>TransitionToPhase_of = WorkflowPhaseFailing, Status_Err = e\<rparr>"
definition StatusFailed :: "ExecutionError option \<Rightarrow> Status" where
  "StatusFailed e = \<lparr>TransitionToPhase_of = WorkflowPhaseFailed, Status_Err = e\<rparr>"

text \<open>A failure that the executor itself finds.\<close>

definition system_error :: "exec_env \<Rightarrow> string \<Rightarrow> string \<Rightarrow> ExecutionError" where
  "system_error E code msg = new_error (en_alloc E) Kind_SYSTEM code msg"

subsection \<open>The handlers\<close>

definition constructWorkflowMetadataPrefix :: "exec_env \<Rightarrow> FlyteWorkflow \<Rightarrow> string option" where
  "constructWorkflowMetadataPrefix E w =
     en_refs E (en_metadataPrefix E) [case fw_ExecutionID w of
        Some (project, domain, name) \<Rightarrow> project @ ''-'' @ domain @ ''-'' @ name | None \<Rightarrow> fw_Name w]"

definition prefix_failure :: "exec_env \<Rightarrow> Status" where
  "prefix_failure E = StatusFailing (Some (system_error E ''MetadataPrefixCreationFailure'' (en_ref_error E)))"

definition ready_inputs :: "exec_env \<Rightarrow> FlyteWorkflow \<Rightarrow> (Status + literal_map)" where
  "ready_inputs E w =
     (case fw_Inputs w of
        Some inputs \<Rightarrow>
          if fw_OffloadedInputs w \<noteq> [] then
            Inl (StatusFailing (Some (system_error E ''BadSpecificationError''
              ''cannot specify inline inputs AND offloaded inputs'')))
          else Inr inputs
      | None \<Rightarrow>
          if fw_OffloadedInputs w \<noteq> [] then
            (case en_ReadProtobuf E (fw_OffloadedInputs w) of
               Inr inputs \<Rightarrow> Inr inputs
             | Inl e \<Rightarrow> Inl (StatusFailing (Some (system_error E ''OffloadedInputsReadFailure'' (Error e)))))
          else Inr (Some []))"

text \<open>Entering the inputs: the directories of the start node, then the start node itself.\<close>

definition start_workflow :: "exec_env \<Rightarrow> NodeSpec \<Rightarrow> string \<Rightarrow> literal_map \<Rightarrow> Status run" where
  "start_workflow E startNode ref inputs =
     run_bind (node_status E (en_ID startNode)) (\<lambda>nodeStatus.
       case en_refs E ref [en_ID startNode, ''data''] of
         None \<Rightarrow> run_ok (prefix_failure E)
       | Some dataDir \<Rightarrow>
         (case en_refs E dataDir [''0''] of
            None \<Rightarrow> run_ok (prefix_failure E)
          | Some outputDir \<Rightarrow>
              run_bind (upd_status (wf_put (en_ID startNode) (SetOutputDir outputDir (SetDataDir dataDir nodeStatus)))) (\<lambda>_.
              run_bind (on_workflow (en_SetInputsForStartNode E inputs)) (\<lambda>s.
                if HasFailed s then run_ok (StatusFailing (xs_Err s)) else run_ok StatusRunning))))"

definition handleReadyWorkflow :: "exec_env \<Rightarrow> Status run" where
  "handleReadyWorkflow E =
     run_bind the_spec (\<lambda>spec.
       case StartNode spec of
         None \<Rightarrow> run_ok (StatusFailing (Some (system_error E ''BadSpecificationError'' ''StartNode not found.'')))
       | Some startNode \<Rightarrow>
         run_bind get_w (\<lambda>w.
           case constructWorkflowMetadataPrefix E w of
             None \<Rightarrow> run_ok (prefix_failure E)
           | Some ref \<Rightarrow>
             run_bind (upd_status (wf_SetDataDir ref)) (\<lambda>_.
               case ready_inputs E w of
                 Inl st \<Rightarrow> run_ok st
               | Inr inputs \<Rightarrow> start_workflow E startNode ref inputs)))"

definition handleRunningWorkflow :: "exec_env \<Rightarrow> Status run" where
  "handleRunningWorkflow E =
     run_bind the_spec (\<lambda>spec.
       case StartNode spec of
         None \<Rightarrow> run_ok (StatusFailing (Some (system_error E ''IllegalStateError'' ''Start node not found'')))
       | Some startNode \<Rightarrow>
         run_bind (on_workflow (en_RecursiveNodeHandler E Workflow_Nodes startNode)) (\<lambda>state.
           if HasFailed state then run_ok (StatusFailing (xs_Err state))
           else if HasTimedOut state then
             run_ok (StatusFailing (Some (new_error (en_alloc E) Kind_USER ''Timeout'' ''Timeout in node'')))
           else if IsComplete state then run_ok StatusSucceeding
           else if PartiallyComplete state then run_bind enqueueWorkflow (\<lambda>_. run_ok StatusRunning)
           else run_ok StatusRunning))"

definition executionErrorOrDefault :: "addr \<Rightarrow> ExecutionError option \<Rightarrow> string \<Rightarrow> ExecutionError" where
  "executionErrorOrDefault a execError fallbackMessage =
     (case execError of
        None \<Rightarrow> new_error a Kind_UNKNOWN ''UnknownError'' (''Unknown error, last seen message ['' @ fallbackMessage @ '']'')
      | Some e \<Rightarrow> e)"

definition last_execution_error :: "exec_env \<Rightarrow> FlyteWorkflow \<Rightarrow> ExecutionError" where
  "last_execution_error E w =
     executionErrorOrDefault (en_alloc E) (wf_GetExecutionError (fw_Status w)) (ws_Message (fw_Status w))"

definition handleFailureNode :: "exec_env \<Rightarrow> Status run" where
  "handleFailureNode E =
     run_bind get_w (\<lambda>w.
     run_bind the_spec (\<lambda>spec.
       case GetOnFailureNode spec of
         None \<Rightarrow> run_panic
       | Some failureNode \<Rightarrow>
         (let execErr = last_execution_error E w
          in run_bind (\<lambda>r. (Go_Ok (), snd (node_status E (en_ID failureNode) r))) (\<lambda>_.
             run_bind (on_workflow (en_RecursiveNodeHandler E (Failure_Node failureNode execErr) failureNode)) (\<lambda>state.
               case xs_NodePhase state of
                 ExecPhaseFailed \<Rightarrow> run_ok (StatusFailed (xs_Err state))
               | ExecPhaseTimedOut \<Rightarrow>
                   run_ok (StatusFailed (Some (new_error (en_alloc E) Kind_USER ''TimedOut'' ''FailureNode Timed-out'')))
               | ExecPhaseQueued \<Rightarrow> run_bind enqueueWorkflow (\<lambda>_. run_ok (StatusFailureNode execErr))
               | ExecPhaseRunning \<Rightarrow> run_bind enqueueWorkflow (\<lambda>_. run_ok (StatusFailureNode execErr))
               | ExecPhaseSuccess \<Rightarrow> run_bind enqueueWorkflow (\<lambda>_. run_ok (StatusFailureNode execErr))
               | _ \<Rightarrow> run_ok (StatusFailed (Some execErr)))))))"

definition cleanupRunningNodes :: "exec_env \<Rightarrow> string \<Rightarrow> unit run" where
  "cleanupRunningNodes E reason =
     run_bind the_spec (\<lambda>spec.
       case StartNode spec of
         None \<Rightarrow> run_err (wf_Errorf ''IllegalStateError'' (spec_ID spec) ''StartNode not found in running workflow?'')
       | Some startNode \<Rightarrow>
           (\<lambda>r. case on_workflow (en_AbortHandler E startNode reason) r of
              (Go_Err e, r') \<Rightarrow> (Go_Err (wf_Errorf ''CausedByError'' (spec_ID spec)
                 (''Failed to propagate Abort for workflow. Error: '' @ Error e)), r')
            | x \<Rightarrow> x))"

definition handleFailingWorkflow :: "exec_env \<Rightarrow> Status run" where
  "handleFailingWorkflow E =
     run_bind get_w (\<lambda>w.
     run_bind (cleanupRunningNodes E ''Some node execution failed, auto-abort.'') (\<lambda>_.
     run_bind the_spec (\<lambda>spec.
       let execErr = last_execution_error E w
       in run_ok (if GetOnFailureNode spec \<noteq> None then StatusFailureNode execErr else StatusFailed (Some execErr)))))"

definition EndNodeID :: string where "EndNodeID = ''end-node''"

definition GetOutputsFile :: "string \<Rightarrow> string" where "GetOutputsFile outputDir = outputDir @ ''/outputs.pb''"

definition handleSucceedingWorkflow :: "exec_env \<Rightarrow> Status run" where
  "handleSucceedingWorkflow E =
     run_bind (node_status E EndNodeID) (\<lambda>endNodeStatus.
       if ns_Phase (ns endNodeStatus) = NodePhaseSucceeded \<and> ns_OutputDir (ns endNodeStatus) \<noteq> []
       then run_bind (upd_status (SetOutputReference (GetOutputsFile (ns_OutputDir (ns endNodeStatus))))) (\<lambda>_.
              run_ok StatusSuccess)
       else run_ok StatusSuccess)"

subsection \<open>Transitions and their events\<close>

definition convertToExecutionError :: "addr \<Rightarrow> ExecutionError option \<Rightarrow> ExecutionError option \<Rightarrow> ExecutionError" where
  "convertToExecutionError a err alternateErr =
     (case err of
        Some e \<Rightarrow> e
      | None \<Rightarrow>
          (case alternateErr of
             Some e \<Rightarrow> e
           | None \<Rightarrow> new_error a Kind_UNKNOWN ''RuntimeExecutionError'' ''Unknown error''))"

definition GetProtoTime :: "time \<Rightarrow> time option \<Rightarrow> time" where
  "GetProtoTime now t = (case t of Some x \<Rightarrow> x | None \<Rightarrow> now)"

definition IdempotentReportEvent :: "exec_env \<Rightarrow> WorkflowExecutionEvent \<Rightarrow> (go_error option) run" where
  "IdempotentReportEvent E e = (\<lambda>r.
     (Go_Ok (case en_RecordWorkflowEvent E e of
        Some err \<Rightarrow> if IsAlreadyExists err then None else Some err
      | None \<Rightarrow> None), r\<lparr>rd_events := rd_events r @ [e]\<rparr>))"

text \<open>
  The update of the status, with the event for it. Observing a duration reads the start and the stop
  time and panics if one is nil; so does reading a nil status of the end node.
\<close>

definition observe_duration :: "unit run" where
  "observe_duration = (\<lambda>r.
     if ws_StartedAt (fw_Status (rd_w r)) = None \<or> ws_StoppedAt (fw_Status (rd_w r)) = None
     then (Go_Panic, r) else (Go_Ok (), r))"

definition mk_event :: "FlyteWorkflow \<Rightarrow> WorkflowEventPhase \<Rightarrow> event_result \<Rightarrow> time \<Rightarrow> WorkflowExecutionEvent" where
  "mk_event w p res t = \<lparr>ev_ExecutionId = fw_ExecutionID w, ev_Phase = p, ev_OutputResult = res, ev_OccurredAt = t\<rparr>"

definition failing_transition ::
    "exec_env \<Rightarrow> WorkflowPhase \<Rightarrow> WorkflowEventPhase \<Rightarrow> ExecutionError option \<Rightarrow> WorkflowExecutionEvent run" where
  "failing_transition E p evp err =
     run_bind get_w (\<lambda>w.
       let e = convertToExecutionError (en_alloc E) err (wf_GetExecutionError (fw_Status w))
       in run_bind (upd_status (wf_UpdatePhase (en_now E) p [] (Some e))) (\<lambda>_.
            run_ok (mk_event w evp (Event_Error e) (en_now E))))"

definition update_for :: "exec_env \<Rightarrow> Status \<Rightarrow> WorkflowExecutionEvent run" where
  "update_for E st =
     (let upd = (\<lambda>p msg. upd_status (wf_UpdatePhase (en_now E) p msg None));
          stamped = (\<lambda>t. GetProtoTime (en_now E) t)
      in case TransitionToPhase_of st of
        WorkflowPhaseRunning \<Rightarrow>
          run_bind (upd WorkflowPhaseRunning ''Workflow Started'') (\<lambda>_.
          run_bind get_w (\<lambda>w. run_ok (mk_event w Wf_RUNNING No_Result (stamped (ws_StartedAt (fw_Status w))))))
      | WorkflowPhaseFailing \<Rightarrow> failing_transition E WorkflowPhaseFailing Wf_FAILING (Status_Err st)
      | WorkflowPhaseHandlingFailureNode \<Rightarrow>
          failing_transition E WorkflowPhaseHandlingFailureNode Wf_FAILING (Status_Err st)
      | WorkflowPhaseFailed \<Rightarrow>
          run_bind (failing_transition E WorkflowPhaseFailed Wf_FAILED (Status_Err st)) (\<lambda>ev.
          run_bind get_w (\<lambda>w.
          run_bind observe_duration (\<lambda>_.
            run_ok (ev\<lparr>ev_OccurredAt := stamped (ws_StoppedAt (fw_Status w))\<rparr>))))
      | WorkflowPhaseSucceeding \<Rightarrow>
          run_bind (node_status E EndNodeID) (\<lambda>_.
          run_bind (upd WorkflowPhaseSucceeding []) (\<lambda>_.
          run_bind get_w (\<lambda>w. run_ok (mk_event w Wf_SUCCEEDING No_Result (en_now E)))))
      | WorkflowPhaseSuccess \<Rightarrow>
          run_bind (upd WorkflowPhaseSuccess []) (\<lambda>_.
          run_bind get_w (\<lambda>w.
          run_bind observe_duration (\<lambda>_.
            run_ok (mk_event w Wf_SUCCEEDED
              (if ws_OutputReference (fw_Status w) \<noteq> [] then Event_OutputUri (ws_OutputReference (fw_Status w)) else No_Result)
              (stamped (ws_StoppedAt (fw_Status w)))))))
      | WorkflowPhaseAborted \<Rightarrow>
          run_bind (upd WorkflowPhaseAborted []) (\<lambda>_.
          run_bind get_w (\<lambda>w. run_ok (mk_event w Wf_ABORTED No_Result (stamped (ws_StoppedAt (fw_Status w))))))
      | WorkflowPhaseReady \<Rightarrow> run_panic)"

definition event_phase_String :: "WorkflowEventPhase \<Rightarrow> string" where
  "event_phase_String p =
     (case p of Wf_RUNNING \<Rightarrow> ''RUNNING'' | Wf_FAILING \<Rightarrow> ''FAILING'' | Wf_FAILED \<Rightarrow> ''FAILED''
      | Wf_SUCCEEDING \<Rightarrow> ''SUCCEEDING'' | Wf_SUCCEEDED \<Rightarrow> ''SUCCEEDED'' | Wf_ABORTED \<Rightarrow> ''ABORTED'')"

definition mismatch_msg :: "exec_env \<Rightarrow> WorkflowExecutionEvent \<Rightarrow> string" where
  "mismatch_msg E ev = ''workflow state mismatch between propeller and control plane; Propeller State: '' @
     event_phase_String (ev_Phase ev) @ '', ExecutionId '' @
     (case ev_ExecutionId ev of None \<Rightarrow> ''<nil>'' | Some i \<Rightarrow> en_id_text E i)"

definition handle_recording :: "exec_env \<Rightarrow> WorkflowExecutionEvent \<Rightarrow> go_error option \<Rightarrow> unit run" where
  "handle_recording E ev recordingErr =
     (case recordingErr of
        None \<Rightarrow> run_ok ()
      | Some e \<Rightarrow>
          if IsAlreadyExists e then run_ok ()
          else if IsEventAlreadyInTerminalStateError e then
            upd_status (wf_UpdatePhase (en_now E) WorkflowPhaseFailed (mismatch_msg E ev) None)
          else if (ev_Phase ev = Wf_FAILING \<or> ev_Phase ev = Wf_FAILED) \<and>
                  (IsNotFound e \<or> IsEventIncompatibleClusterError e) then run_ok ()
          else run_err (wf_Wrapf ''ErrorRecordingError'' [] (Some e) ''failed to publish event''))"

definition TransitionToPhase :: "exec_env \<Rightarrow> Status \<Rightarrow> unit run" where
  "TransitionToPhase E toStatus = (\<lambda>r.
     if ws_Phase (fw_Status (rd_w r)) = TransitionToPhase_of toStatus then (Go_Ok (), r)
     else if TransitionToPhase_of toStatus = WorkflowPhaseReady then (Go_Ok (), r)
     else run_bind (update_for E toStatus) (\<lambda>ev.
          run_bind (IdempotentReportEvent E ev) (\<lambda>err. handle_recording E ev err)) r)"

subsection \<open>One round\<close>

text \<open>Errors that are ignored while a workflow fails.\<close>

definition ignoring_lost :: "unit run \<Rightarrow> unit run" where
  "ignoring_lost m = (\<lambda>r. case m r of
     (Go_Err e, r') \<Rightarrow> (if IsNotFound e \<or> IsEventIncompatibleClusterError e then (Go_Ok (), r') else (Go_Err e, r'))
   | x \<Rightarrow> x)"

definition wrapping_failure :: "FlyteWorkflow \<Rightarrow> 'a run \<Rightarrow> 'a run" where
  "wrapping_failure w m = (\<lambda>r. case m r of
     (Go_Err e, r') \<Rightarrow> (Go_Err (Wrapping_Error (''failed to handle failure node for workflow ['' @
        (case fw_Spec w of None \<Rightarrow> [] | Some sp \<Rightarrow> spec_ID sp) @ '']: '') e), r')
   | x \<Rightarrow> x)"

definition HandleFlyteWorkflow :: "exec_env \<Rightarrow> unit run" where
  "HandleFlyteWorkflow E = (\<lambda>r.
     (case ws_Phase (fw_Status (rd_w r)) of
        WorkflowPhaseReady \<Rightarrow> run_bind (handleReadyWorkflow E) (TransitionToPhase E)
      | WorkflowPhaseRunning \<Rightarrow> run_bind (handleRunningWorkflow E) (TransitionToPhase E)
      | WorkflowPhaseSucceeding \<Rightarrow> run_bind (handleSucceedingWorkflow E) (TransitionToPhase E)
      | WorkflowPhaseFailing \<Rightarrow>
          run_bind (handleFailingWorkflow E) (\<lambda>st. ignoring_lost (TransitionToPhase E st))
      | WorkflowPhaseHandlingFailureNode \<Rightarrow>
          run_bind (wrapping_failure (rd_w r) (handleFailureNode E)) (\<lambda>st. ignoring_lost (TransitionToPhase E st))
      | p \<Rightarrow> run_err (wf_Errorf ''IllegalStateError'' (case fw_Spec (rd_w r) of None \<Rightarrow> [] | Some sp \<Rightarrow> spec_ID sp)
               (''Unsupported state ['' @ WorkflowPhase_String p @ ''] for workflow''))) r)"

definition abort_reason :: "FlyteWorkflow \<Rightarrow> uint32 \<Rightarrow> string" where
  "abort_reason w maxRetries =
     (if fw_DeletionTimestamp w \<noteq> None then ''Workflow aborted.''
      else ''max number of system retry attempts ['' @ itoa (unat (ws_FailedAttempts (fw_Status w))) @ ''/'' @
        itoa (unat maxRetries) @ ''] exhausted - system failure.'')"

definition retries_exhausted :: "FlyteWorkflow \<Rightarrow> uint32 \<Rightarrow> string \<Rightarrow> go_error" where
  "retries_exhausted w maxRetries i = wf_Errorf ''RuntimeExecutionError'' i
     (''max number of system retry attempts ['' @ itoa (unat (ws_FailedAttempts (fw_Status w))) @ ''/'' @
        itoa (unat maxRetries) @ ''] exhausted. Last known status message: '' @ ws_Message (fw_Status w))"

definition HandleAbortedWorkflow :: "exec_env \<Rightarrow> uint32 \<Rightarrow> unit run" where
  "HandleAbortedWorkflow E maxRetries = (\<lambda>r.
     if wf_IsTerminated (fw_Status (rd_w r)) then (Go_Ok (), r)
     else
       (case cleanupRunningNodes E (abort_reason (rd_w r) maxRetries) r of
          (Go_Panic, r') \<Rightarrow> (Go_Panic, r')
        | (res, r') \<Rightarrow>
            (let err = (case res of Go_Err e \<Rightarrow> Some e | _ \<Rightarrow> None);
                 exhausted = ws_FailedAttempts (fw_Status (rd_w r')) > maxRetries
             in if err \<noteq> None \<and> \<not> exhausted then (Go_Err (the err), r')
                else
                  (let err' = (if exhausted then
                         Some (retries_exhausted (rd_w r') maxRetries
                           (case fw_Spec (rd_w r') of None \<Rightarrow> [] | Some sp \<Rightarrow> spec_ID sp)) else err);
                       st = (case err' of
                         Some e \<Rightarrow> StatusFailed (Some (system_error E ''Workflow abort failed'' (Error e)))
                       | None \<Rightarrow> \<lparr>TransitionToPhase_of = WorkflowPhaseAborted, Status_Err = None\<rparr>)
                   in TransitionToPhase E st r'))))"

subsection \<open>The phases of a workflow\<close>

lemmas run_simps = run_ok_def run_err_def run_panic_def get_w_def upd_status_def the_spec_def enqueueWorkflow_def

abbreviation phase_of :: "round \<Rightarrow> WorkflowPhase" where
  "phase_of r \<equiv> ws_Phase (fw_Status (rd_w r))"

text \<open>The node executor works on the statuses of the nodes and leaves the rest of the resource alone.\<close>

definition core_of :: "FlyteWorkflow \<Rightarrow> FlyteWorkflow" where
  "core_of w = w\<lparr>fw_Status := (fw_Status w)\<lparr>ws_NodeStatus := None\<rparr>\<rparr>"

definition frames :: "exec_env \<Rightarrow> bool" where
  "frames E \<longleftrightarrow> (\<forall>w k n inputs reason.
     core_of (snd (en_SetInputsForStartNode E inputs w)) = core_of w \<and>
     core_of (snd (en_RecursiveNodeHandler E k n w)) = core_of w \<and>
     core_of (snd (en_AbortHandler E n reason w)) = core_of w)"

lemma core_phase:
  "core_of w = core_of w' \<Longrightarrow> ws_Phase (fw_Status w) = ws_Phase (fw_Status w')"
  "core_of w = core_of w' \<Longrightarrow> fw_Spec w = fw_Spec w'"
  "core_of w = core_of w' \<Longrightarrow> ws_FailedAttempts (fw_Status w) = ws_FailedAttempts (fw_Status w')"
  "core_of w = core_of w' \<Longrightarrow> ws_Error (fw_Status w) = ws_Error (fw_Status w')"
  by (cases w; cases w'; cases "fw_Status w"; cases "fw_Status w'"; simp add: core_of_def)+

text \<open>Two states of a round whose workflows differ in the statuses of nodes and in directories only.\<close>

definition quiet :: "round \<Rightarrow> round \<Rightarrow> bool" where
  "quiet r r' \<longleftrightarrow> phase_of r' = phase_of r \<and> fw_Spec (rd_w r') = fw_Spec (rd_w r) \<and> rd_events r' = rd_events r \<and>
     ws_FailedAttempts (fw_Status (rd_w r')) = ws_FailedAttempts (fw_Status (rd_w r)) \<and>
     ws_Error (fw_Status (rd_w r')) = ws_Error (fw_Status (rd_w r))"

lemma quiet_refl [simp, intro]: "quiet r r"
  by (simp add: quiet_def)

lemma quiet_trans: "quiet a b \<Longrightarrow> quiet b c \<Longrightarrow> quiet a c"
  by (simp add: quiet_def)

lemma quiet_on_workflow:
  "(\<And>w. core_of (snd (f w)) = core_of w) \<Longrightarrow> on_workflow f r = (x, r') \<Longrightarrow> quiet r r'"
  using core_phase [of "snd (f (rd_w r))" "rd_w r"] by (auto simp: on_workflow_def quiet_def split: prod.splits)

lemma quiet_node_status: "node_status E i r = (x, r') \<Longrightarrow> quiet r r'"
  by (auto simp: node_status_def wf_GetNodeExecutionStatus_def wf_put_def quiet_def Let_def split: option.splits)

lemma quiet_steps:
  "the_spec r = (x1, r') \<Longrightarrow> quiet r r'" "get_w r = (x2, r') \<Longrightarrow> quiet r r'"
  "enqueueWorkflow r = (x3, r') \<Longrightarrow> quiet r r'" "run_ok y r = (x4, r') \<Longrightarrow> quiet r r'"
  "upd_status (wf_SetDataDir d) r = (x3, r') \<Longrightarrow> quiet r r'" "upd_status (wf_put i n) r = (x3, r') \<Longrightarrow> quiet r r'"
  "upd_status (SetOutputReference d) r = (x3, r') \<Longrightarrow> quiet r r'"
  by (auto simp: run_simps quiet_def wf_SetDataDir_def wf_put_def SetOutputReference_def split: option.splits)

text \<open>An operation that answers does so quietly, with a value from a given set.\<close>

definition answers :: "'a run \<Rightarrow> 'a set \<Rightarrow> bool" where
  "answers m S \<longleftrightarrow> (\<forall>r x r'. m r = (Go_Ok x, r') \<longrightarrow> quiet r r' \<and> x \<in> S)"

named_theorems answers_intros

lemma answers_bind [answers_intros]:
  assumes "answers m UNIV" "\<And>x. answers (f x) S"
  shows "answers (run_bind m f) S"
  using assms quiet_trans unfolding answers_def run_bind_Ok by blast

lemma answers_ok [answers_intros]: "x \<in> S \<Longrightarrow> answers (run_ok x) S"
  by (simp add: answers_def run_simps)

lemma answers_steps [answers_intros]:
  "answers the_spec UNIV" "answers get_w UNIV" "answers enqueueWorkflow UNIV" "answers (run_err e) S"
  "answers run_panic S" "answers (node_status E i) UNIV" "answers (upd_status (wf_SetDataDir d)) UNIV"
  "answers (upd_status (wf_put i n)) UNIV" "answers (upd_status (SetOutputReference d)) UNIV"
  unfolding answers_def by (simp_all add: run_err_def run_panic_def) (metis quiet_steps quiet_node_status UNIV_I)+

lemma answers_on_workflow: "(\<And>w. core_of (snd (f w)) = core_of w) \<Longrightarrow> answers (on_workflow f) UNIV"
  using quiet_on_workflow [of f] by (auto simp: answers_def)

lemma answers_nodes [answers_intros]:
  assumes "frames E"
  shows "answers (on_workflow (en_SetInputsForStartNode E inputs)) UNIV"
    "answers (on_workflow (en_RecursiveNodeHandler E k n)) UNIV" "answers (on_workflow (en_AbortHandler E n reason)) UNIV"
  by (rule answers_on_workflow; use assms in \<open>simp add: frames_def\<close>)+

text \<open>The phases that each handler asks for.\<close>

definition asks :: "WorkflowPhase set \<Rightarrow> Status set" where
  "asks ps = {st. TransitionToPhase_of st \<in> ps}"

lemmas status_defs = StatusRunning_def StatusSucceeding_def StatusSuccess_def StatusFailureNode_def StatusFailing_def
  StatusFailed_def prefix_failure_def

lemma handler_ready: "frames E \<Longrightarrow> answers (handleReadyWorkflow E) (asks {WorkflowPhaseRunning, WorkflowPhaseFailing})"
  unfolding handleReadyWorkflow_def start_workflow_def ready_inputs_def
  by (auto intro!: answers_intros simp: asks_def status_defs split: option.split sum.split)

lemma handler_running:
  "frames E \<Longrightarrow> answers (handleRunningWorkflow E)
     (asks {WorkflowPhaseRunning, WorkflowPhaseFailing, WorkflowPhaseSucceeding})"
  unfolding handleRunningWorkflow_def
  by (auto intro!: answers_intros simp: asks_def status_defs split: option.split)

lemma answers_cleanup [answers_intros]: "frames E \<Longrightarrow> answers (cleanupRunningNodes E reason) UNIV"
  unfolding cleanupRunningNodes_def
proof (intro answers_intros)
  fix spec assume f: "frames E"
  show "answers (case StartNode spec of
         None \<Rightarrow> run_err (wf_Errorf ''IllegalStateError'' (spec_ID spec) ''StartNode not found in running workflow?'')
       | Some startNode \<Rightarrow>
           (\<lambda>r. case on_workflow (en_AbortHandler E startNode reason) r of
              (Go_Err e, r') \<Rightarrow> (Go_Err (wf_Errorf ''CausedByError'' (spec_ID spec)
                 (''Failed to propagate Abort for workflow. Error: '' @ Error e)), r')
            | x \<Rightarrow> x)) UNIV"
    using answers_nodes(3) [OF f]
    by (auto simp: answers_def run_err_def split: option.split_asm prod.split_asm go.split_asm)
qed

lemma handler_failing:
  "frames E \<Longrightarrow> answers (handleFailingWorkflow E) (asks {WorkflowPhaseHandlingFailureNode, WorkflowPhaseFailed})"
  unfolding handleFailingWorkflow_def Let_def
  by (auto intro!: answers_intros simp: asks_def status_defs split: if_splits)

lemma answers_touch [answers_intros]: "answers (\<lambda>r. (Go_Ok (), snd (node_status E i r))) UNIV"
  using quiet_node_status by (auto simp: answers_def) (metis prod.collapse)

lemma handler_failure_node:
  "frames E \<Longrightarrow> answers (handleFailureNode E) (asks {WorkflowPhaseHandlingFailureNode, WorkflowPhaseFailed})"
  unfolding handleFailureNode_def Let_def
  by (auto intro!: answers_intros simp: asks_def status_defs split: option.split ExecPhase.split)

lemma handler_succeeding: "answers (handleSucceedingWorkflow E) (asks {WorkflowPhaseSuccess})"
  unfolding handleSucceedingWorkflow_def
  by (auto intro!: answers_intros simp: asks_def status_defs)

text \<open>Where a transition ends: in the phase that was asked for, or in failure if the control plane is ahead.\<close>

fun announces :: "WorkflowPhase \<Rightarrow> WorkflowEventPhase option" where
  "announces WorkflowPhaseReady = None"
| "announces WorkflowPhaseRunning = Some Wf_RUNNING"
| "announces WorkflowPhaseSucceeding = Some Wf_SUCCEEDING"
| "announces WorkflowPhaseSuccess = Some Wf_SUCCEEDED"
| "announces WorkflowPhaseFailing = Some Wf_FAILING"
| "announces WorkflowPhaseFailed = Some Wf_FAILED"
| "announces WorkflowPhaseAborted = Some Wf_ABORTED"
| "announces WorkflowPhaseHandlingFailureNode = Some Wf_FAILING"

lemma wf_UpdatePhase_phase [simp]:
  "ws_Phase (wf_UpdatePhase now p msg e w) = p" "ws_FailedAttempts (wf_UpdatePhase now p msg e w) = ws_FailedAttempts w"
  "ws_StartedAt (wf_UpdatePhase now p msg e w) \<noteq> None"
  "IsWorkflowPhaseTerminal p \<Longrightarrow> ws_StoppedAt (wf_UpdatePhase now p msg e w) \<noteq> None"
  by (auto simp: wf_UpdatePhase_def Let_def or_now_def)

lemma failing_transition_run:
  "\<exists>e r'. failing_transition E p evp err r = (Go_Ok (mk_event (rd_w r) evp (Event_Error e) (en_now E)), r') \<and>
     rd_events r' = rd_events r \<and> fw_Status (rd_w r') = wf_UpdatePhase (en_now E) p [] (Some e) (fw_Status (rd_w r)) \<and>
     fw_Spec (rd_w r') = fw_Spec (rd_w r)"
  by (auto simp: failing_transition_def run_bind_def run_simps Let_def)

lemma observe_ok:
  "ws_StartedAt (fw_Status (rd_w r)) \<noteq> None \<Longrightarrow> ws_StoppedAt (fw_Status (rd_w r)) \<noteq> None \<Longrightarrow>
   observe_duration r = (Go_Ok (), r)"
  by (simp add: observe_duration_def)

text \<open>The update panics only where the status of the end node cannot be read.\<close>

lemma update_for_run:
  assumes "TransitionToPhase_of st \<noteq> WorkflowPhaseReady" "TransitionToPhase_of st \<noteq> WorkflowPhaseSucceeding"
  shows "\<exists>ev r'. update_for E st r = (Go_Ok ev, r') \<and> phase_of r' = TransitionToPhase_of st \<and>
    rd_events r' = rd_events r \<and> announces (TransitionToPhase_of st) = Some (ev_Phase ev) \<and>
    ws_FailedAttempts (fw_Status (rd_w r')) = ws_FailedAttempts (fw_Status (rd_w r)) \<and> fw_Spec (rd_w r') = fw_Spec (rd_w r)"
proof (cases "TransitionToPhase_of st")
  case WorkflowPhaseFailed
  obtain e r' where ft: "failing_transition E WorkflowPhaseFailed Wf_FAILED (Status_Err st) r =
      (Go_Ok (mk_event (rd_w r) Wf_FAILED (Event_Error e) (en_now E)), r')" "rd_events r' = rd_events r"
    "fw_Status (rd_w r') = wf_UpdatePhase (en_now E) WorkflowPhaseFailed [] (Some e) (fw_Status (rd_w r))"
    "fw_Spec (rd_w r') = fw_Spec (rd_w r)"
    using failing_transition_run [of E WorkflowPhaseFailed Wf_FAILED "Status_Err st" r] by blast
  have "observe_duration r' = (Go_Ok (), r')" by (rule observe_ok) (simp_all add: ft(3) IsWorkflowPhaseTerminal_def)
  with WorkflowPhaseFailed ft show ?thesis by (simp add: update_for_def Let_def run_bind_def run_simps mk_event_def)
next
  case WorkflowPhaseFailing
  then show ?thesis
    using failing_transition_run [of E WorkflowPhaseFailing Wf_FAILING "Status_Err st" r]
    by (auto simp: update_for_def Let_def mk_event_def)
next
  case WorkflowPhaseHandlingFailureNode
  then show ?thesis
    using failing_transition_run [of E WorkflowPhaseHandlingFailureNode Wf_FAILING "Status_Err st" r]
    by (auto simp: update_for_def Let_def mk_event_def)
qed (use assms in \<open>auto simp: update_for_def Let_def run_bind_def run_simps mk_event_def observe_duration_def
       IsWorkflowPhaseTerminal_def\<close>)

lemma update_for_Ok:
  assumes "update_for E st r = (Go_Ok ev, r')"
  shows "phase_of r' = TransitionToPhase_of st \<and> rd_events r' = rd_events r \<and>
    announces (TransitionToPhase_of st) = Some (ev_Phase ev) \<and>
    ws_FailedAttempts (fw_Status (rd_w r')) = ws_FailedAttempts (fw_Status (rd_w r)) \<and> fw_Spec (rd_w r') = fw_Spec (rd_w r)"
proof (cases "TransitionToPhase_of st = WorkflowPhaseReady \<or> TransitionToPhase_of st = WorkflowPhaseSucceeding")
  case True
  then show ?thesis using assms quiet_node_status [of E EndNodeID r]
    by (auto simp: update_for_def Let_def run_bind_Ok run_simps mk_event_def quiet_def)
next
  case False
  then show ?thesis using update_for_run [of st E r] assms by auto
qed

lemma handle_recording_Ok:
  "handle_recording E ev err r = (Go_Ok (), r') \<Longrightarrow>
     rd_events r' = rd_events r \<and> fw_Spec (rd_w r') = fw_Spec (rd_w r) \<and>
     ws_FailedAttempts (fw_Status (rd_w r')) = ws_FailedAttempts (fw_Status (rd_w r)) \<and>
     (phase_of r' = phase_of r \<or> phase_of r' = WorkflowPhaseFailed)"
  by (auto simp: handle_recording_def run_simps split: option.split_asm if_split_asm)

lemma transition_Ok:
  assumes "TransitionToPhase E st r = (Go_Ok (), r')" "TransitionToPhase_of st \<noteq> WorkflowPhaseReady"
  shows "fw_Spec (rd_w r') = fw_Spec (rd_w r) \<and>
    ws_FailedAttempts (fw_Status (rd_w r')) = ws_FailedAttempts (fw_Status (rd_w r)) \<and>
    (if phase_of r = TransitionToPhase_of st then r' = r
     else (\<exists>ev. rd_events r' = rd_events r @ [ev] \<and> announces (TransitionToPhase_of st) = Some (ev_Phase ev)) \<and>
       (phase_of r' = TransitionToPhase_of st \<or> phase_of r' = WorkflowPhaseFailed))"
proof (cases "phase_of r = TransitionToPhase_of st")
  case True
  then show ?thesis using assms by (simp add: TransitionToPhase_def)
next
  case False
  then obtain ev r1 r2 err where steps: "update_for E st r = (Go_Ok ev, r1)"
    "IdempotentReportEvent E ev r1 = (Go_Ok err, r2)" "handle_recording E ev err r2 = (Go_Ok (), r')"
    using assms by (auto simp: TransitionToPhase_def run_bind_Ok)
  have "r2 = r1\<lparr>rd_events := rd_events r1 @ [ev]\<rparr>" using steps(2) by (simp add: IdempotentReportEvent_def)
  then show ?thesis using update_for_Ok [OF steps(1)] handle_recording_Ok [OF steps(3)] False by auto
qed

subsection \<open>The state machine\<close>

text \<open>The steps between phases: those of the diagram that documents the reconciler, and the step to failure on a mismatch.\<close>

inductive wf_step :: "WorkflowPhase \<Rightarrow> WorkflowPhase \<Rightarrow> bool" where
  ready_runs: "wf_step WorkflowPhaseReady WorkflowPhaseRunning"
| ready_fails: "wf_step WorkflowPhaseReady WorkflowPhaseFailing"
| running_stays: "wf_step WorkflowPhaseRunning WorkflowPhaseRunning"
| running_succeeds: "wf_step WorkflowPhaseRunning WorkflowPhaseSucceeding"
| running_fails: "wf_step WorkflowPhaseRunning WorkflowPhaseFailing"
| succeeding: "wf_step WorkflowPhaseSucceeding WorkflowPhaseSuccess"
| failing_handles: "wf_step WorkflowPhaseFailing WorkflowPhaseHandlingFailureNode"
| handling_stays: "wf_step WorkflowPhaseHandlingFailureNode WorkflowPhaseHandlingFailureNode"
| fails: "\<not> IsWorkflowPhaseTerminal p \<Longrightarrow> wf_step p WorkflowPhaseFailed"

inductive_cases wf_stepE: "wf_step p q"

inductive_simps wf_step_terminal: "wf_step WorkflowPhaseSuccess q" "wf_step WorkflowPhaseFailed q" "wf_step WorkflowPhaseAborted q"

lemma terminal_absorbing: "IsWorkflowPhaseTerminal p \<Longrightarrow> \<not> wf_step p q"
  by (auto simp: IsWorkflowPhaseTerminal_def wf_step_terminal)

text \<open>One handler followed by its transition.\<close>

lemma handled_step:
  assumes "answers h (asks ps)" "WorkflowPhaseReady \<notin> ps" "\<not> IsWorkflowPhaseTerminal (phase_of r)"
    "\<And>q. q \<in> ps \<Longrightarrow> wf_step (phase_of r) q"
    "run_bind h (TransitionToPhase E) r = (Go_Ok (), r')"
  shows "wf_step (phase_of r) (phase_of r') \<and>
    ws_FailedAttempts (fw_Status (rd_w r')) = ws_FailedAttempts (fw_Status (rd_w r)) \<and>
    (rd_events r' = rd_events r \<and> phase_of r' = phase_of r \<or>
     (\<exists>ev. rd_events r' = rd_events r @ [ev] \<and> (announces (phase_of r') = Some (ev_Phase ev) \<or> phase_of r' = WorkflowPhaseFailed)))"
proof -
  obtain st r1 where st: "h r = (Go_Ok st, r1)" "TransitionToPhase E st r1 = (Go_Ok (), r')"
    using assms(5) by (auto simp: run_bind_Ok)
  have q: "quiet r r1" "TransitionToPhase_of st \<in> ps" using assms(1) st(1) by (auto simp: answers_def asks_def)
  moreover have "TransitionToPhase_of st \<noteq> WorkflowPhaseReady" using q(2) assms(2) by auto
  note tr = transition_Ok [OF st(2) this]
  ultimately show ?thesis using assms(3,4) wf_step.fails
    by (cases "phase_of r1 = TransitionToPhase_of st") (auto simp: quiet_def)
qed

lemma wrapping_lost [simp]:
  "IsNotFound (wf_Wrapf c w (Some e) m) = IsNotFound e"
  "IsEventIncompatibleClusterError (wf_Wrapf c w (Some e) m) = IsEventIncompatibleClusterError e"
  "IsNotFound (Wrapping_Error t e) = IsNotFound e"
  "IsEventIncompatibleClusterError (Wrapping_Error t e) = IsEventIncompatibleClusterError e"
  unfolding IsNotFound_def IsEventIncompatibleClusterError_def by (rule wrapping_keeps_event_error)+

lemma ignoring_lost_transition:
  "ignoring_lost (TransitionToPhase E st) r = (Go_Ok (), r') \<Longrightarrow>
   TransitionToPhase_of st \<in> {WorkflowPhaseHandlingFailureNode, WorkflowPhaseFailed} \<Longrightarrow>
   TransitionToPhase E st r = (Go_Ok (), r')"
proof -
  assume il: "ignoring_lost (TransitionToPhase E st) r = (Go_Ok (), r')"
    and ph: "TransitionToPhase_of st \<in> {WorkflowPhaseHandlingFailureNode, WorkflowPhaseFailed}"
  show ?thesis
  proof (cases "TransitionToPhase E st r")
    case (Pair x r1)
    show ?thesis
    proof (cases x)
      case (Go_Err e)
      with Pair il have lost: "IsNotFound e \<or> IsEventIncompatibleClusterError e" by (auto simp: ignoring_lost_def split: if_splits)
      obtain ev r2 where u: "update_for E st r = (Go_Ok ev, r2)" "announces (TransitionToPhase_of st) = Some (ev_Phase ev)"
        using update_for_run [of st E r] ph by auto
      have "ev_Phase ev = Wf_FAILING \<or> ev_Phase ev = Wf_FAILED" using u(2) ph by auto
      then have False using Pair Go_Err u(1) lost
        by (auto simp: TransitionToPhase_def run_bind_def IdempotentReportEvent_def handle_recording_def run_simps
            split: if_splits option.splits)
      then show ?thesis ..
    qed (use Pair il in \<open>auto simp: ignoring_lost_def\<close>)
  qed
qed

lemma bind_ignoring_lost:
  "answers h (asks {WorkflowPhaseHandlingFailureNode, WorkflowPhaseFailed}) \<Longrightarrow>
   run_bind h (\<lambda>st. ignoring_lost (TransitionToPhase E st)) r = (Go_Ok (), r') \<Longrightarrow>
   run_bind h (TransitionToPhase E) r = (Go_Ok (), r')"
  unfolding run_bind_Ok using ignoring_lost_transition by (auto simp: answers_def asks_def)

lemma answers_wrapping: "answers h S \<Longrightarrow> answers (wrapping_failure w h) S"
  by (auto simp: answers_def wrapping_failure_def split: prod.split_asm go.split_asm)

lemma handle_step:
  assumes "frames E" "HandleFlyteWorkflow E r = (Go_Ok (), r')"
  shows "wf_step (phase_of r) (phase_of r') \<and>
    ws_FailedAttempts (fw_Status (rd_w r')) = ws_FailedAttempts (fw_Status (rd_w r)) \<and>
    (rd_events r' = rd_events r \<and> phase_of r' = phase_of r \<or>
     (\<exists>ev. rd_events r' = rd_events r @ [ev] \<and> (announces (phase_of r') = Some (ev_Phase ev) \<or> phase_of r' = WorkflowPhaseFailed)))"
proof (cases "phase_of r")
  case WorkflowPhaseReady
  with assms show ?thesis
    by (intro handled_step [OF handler_ready [OF assms(1)]])
      (auto simp: HandleFlyteWorkflow_def IsWorkflowPhaseTerminal_def intro: wf_step.intros)
next
  case WorkflowPhaseRunning
  with assms show ?thesis
    by (intro handled_step [OF handler_running [OF assms(1)]])
      (auto simp: HandleFlyteWorkflow_def IsWorkflowPhaseTerminal_def intro: wf_step.intros)
next
  case WorkflowPhaseSucceeding
  with assms show ?thesis
    by (intro handled_step [OF handler_succeeding])
      (auto simp: HandleFlyteWorkflow_def IsWorkflowPhaseTerminal_def intro: wf_step.intros)
next
  case WorkflowPhaseFailing
  with assms show ?thesis
    by (intro handled_step [OF handler_failing [OF assms(1)]] bind_ignoring_lost [OF handler_failing [OF assms(1)]])
      (auto simp: HandleFlyteWorkflow_def IsWorkflowPhaseTerminal_def intro: wf_step.intros)
next
  case WorkflowPhaseHandlingFailureNode
  note h = answers_wrapping [OF handler_failure_node [OF assms(1)]]
  from WorkflowPhaseHandlingFailureNode assms show ?thesis
    by (intro handled_step [OF h] bind_ignoring_lost [OF h])
      (auto simp: HandleFlyteWorkflow_def IsWorkflowPhaseTerminal_def intro: wf_step.intros)
qed (use assms in \<open>simp_all add: HandleFlyteWorkflow_def run_simps\<close>)

subsection \<open>Aborting\<close>

lemma terminal_iff: "wf_IsTerminated s \<longleftrightarrow> IsWorkflowPhaseTerminal (ws_Phase s)"
  by (auto simp: wf_IsTerminated_def IsWorkflowPhaseTerminal_def)

lemma cleanup_unfold:
  "cleanupRunningNodes E reason r =
     (case fw_Spec (rd_w r) of
        None \<Rightarrow> (Go_Panic, r)
      | Some spec \<Rightarrow>
          (case StartNode spec of
             None \<Rightarrow> (Go_Err (wf_Errorf ''IllegalStateError'' (spec_ID spec) ''StartNode not found in running workflow?''), r)
           | Some startNode \<Rightarrow>
               (case on_workflow (en_AbortHandler E startNode reason) r of
                  (Go_Err e, r') \<Rightarrow> (Go_Err (wf_Errorf ''CausedByError'' (spec_ID spec)
                     (''Failed to propagate Abort for workflow. Error: '' @ Error e)), r')
                | x \<Rightarrow> x)))"
  by (simp add: cleanupRunningNodes_def run_bind_def run_simps split: option.split)

lemma cleanup_quiet:
  assumes "frames E" "cleanupRunningNodes E reason r = (x, r')"
  shows "quiet r r'"
proof -
  have "on_workflow (en_AbortHandler E n reason) r = (y, r2) \<Longrightarrow> quiet r r2" for n y r2
    using quiet_on_workflow [of "en_AbortHandler E n reason"] assms(1) by (simp add: frames_def)
  with assms(2) show ?thesis
    unfolding cleanup_unfold by (auto split: option.split_asm prod.split_asm go.split_asm)
qed

text \<open>The status that an abort asks for.\<close>

lemma abort_transition:
  assumes "frames E" "HandleAbortedWorkflow E maxRetries r = (Go_Ok (), r')" "\<not> IsWorkflowPhaseTerminal (phase_of r)"
  shows "\<exists>st r1. quiet r r1 \<and> TransitionToPhase E st r1 = (Go_Ok (), r') \<and>
    (TransitionToPhase_of st = WorkflowPhaseFailed \<or>
     TransitionToPhase_of st = WorkflowPhaseAborted \<and> ws_FailedAttempts (fw_Status (rd_w r)) \<le> maxRetries)"
proof (cases "cleanupRunningNodes E (abort_reason (rd_w r) maxRetries) r")
  case (Pair x r1)
  have q: "quiet r r1" using cleanup_quiet [OF assms(1) Pair] .
  with Pair assms(2,3) show ?thesis
    by (cases x) (auto simp: HandleAbortedWorkflow_def terminal_iff Let_def StatusFailed_def quiet_def not_less
        split: if_splits intro!: exI [of _ r1])
qed

lemma abort_ends:
  assumes "frames E" "HandleAbortedWorkflow E maxRetries r = (Go_Ok (), r')"
  shows "IsWorkflowPhaseTerminal (phase_of r') \<and>
    (IsWorkflowPhaseTerminal (phase_of r) \<longrightarrow> r' = r) \<and>
    (\<not> IsWorkflowPhaseTerminal (phase_of r) \<longrightarrow> ws_FailedAttempts (fw_Status (rd_w r)) > maxRetries \<longrightarrow>
      phase_of r' = WorkflowPhaseFailed)"
proof (cases "IsWorkflowPhaseTerminal (phase_of r)")
  case True
  then show ?thesis using assms(2) by (simp add: HandleAbortedWorkflow_def terminal_iff)
next
  case False
  obtain st r1 where st: "quiet r r1" "TransitionToPhase E st r1 = (Go_Ok (), r')"
    "TransitionToPhase_of st = WorkflowPhaseFailed \<or>
     TransitionToPhase_of st = WorkflowPhaseAborted \<and> ws_FailedAttempts (fw_Status (rd_w r)) \<le> maxRetries"
    using abort_transition [OF assms False] by blast
  then have "TransitionToPhase_of st \<noteq> WorkflowPhaseReady" by auto
  note tr = transition_Ok [OF st(2) this]
  have "phase_of r1 \<noteq> TransitionToPhase_of st" using False st(1,3) by (auto simp: quiet_def IsWorkflowPhaseTerminal_def)
  with tr have "phase_of r' = TransitionToPhase_of st \<or> phase_of r' = WorkflowPhaseFailed" by simp
  then show ?thesis using st(3) False by (auto simp: IsWorkflowPhaseTerminal_def not_less)
qed

text \<open>When an abort returns: the specification is there, the node executor does not panic, and the sink accepts the event.\<close>

lemma abort_returns:
  assumes "frames E" "fw_Spec (rd_w r) = Some sp" "\<And>n reason w. fst (en_AbortHandler E n reason w) \<noteq> Go_Panic"
    "\<And>e. en_RecordWorkflowEvent E e = None" "ws_FailedAttempts (fw_Status (rd_w r)) > maxRetries"
  shows "\<exists>r'. HandleAbortedWorkflow E maxRetries r = (Go_Ok (), r')"
proof (cases "wf_IsTerminated (fw_Status (rd_w r))")
  case True
  then show ?thesis by (simp add: HandleAbortedWorkflow_def)
next
  case False
  obtain x r1 where cl: "cleanupRunningNodes E (abort_reason (rd_w r) maxRetries) r = (x, r1)" by fastforce
  have q: "quiet r r1" using cleanup_quiet [OF assms(1) cl] .
  have "fst (on_workflow (en_AbortHandler E n reason) r) \<noteq> Go_Panic" for n reason
    using assms(3) [of n reason "rd_w r"] by (auto simp: on_workflow_def split: prod.split)
  then have np: "x \<noteq> Go_Panic" using cl assms(2)
    unfolding cleanup_unfold by (auto split: option.split_asm prod.split_asm go.split_asm) (metis fst_conv)+
  have "\<exists>r'. TransitionToPhase E (StatusFailed e) r1 = (Go_Ok (), r')" for e
    using update_for_run [of "StatusFailed e" E r1] assms(4)
    by (auto simp: TransitionToPhase_def run_bind_def IdempotentReportEvent_def handle_recording_def run_simps StatusFailed_def)
  with np False cl q assms(5) show ?thesis
    by (cases x) (auto simp: HandleAbortedWorkflow_def Let_def quiet_def)
qed

subsection \<open>Properties\<close>



text \<open>An example: a node executor that has nothing to do, and a sink that accepts everything.\<close>

definition sample_env :: exec_env where
  "sample_env = \<lparr>en_now = 9, en_alloc = 1, en_refs = sample_refs, en_ref_error = [], en_format_uint = itoa \<circ> unat,
     en_ReadProtobuf = (\<lambda>_. Inr None), en_metadataPrefix = ''s3'', en_id_text = (\<lambda>(p, d, n). n),
     en_RecordWorkflowEvent = (\<lambda>_. None),
     en_SetInputsForStartNode = (\<lambda>_ w. (Go_Ok \<lparr>xs_NodePhase = ExecPhaseComplete, xs_Err = None\<rparr>, w)),
     en_RecursiveNodeHandler = (\<lambda>_ _ w. (Go_Ok \<lparr>xs_NodePhase = ExecPhaseComplete, xs_Err = None\<rparr>, w)),
     en_AbortHandler = (\<lambda>_ _ w. (Go_Ok (), w))\<rparr>"

definition sample_workflow :: "WorkflowPhase \<Rightarrow> FlyteWorkflow" where
  "sample_workflow p = \<lparr>fw_Namespace = ''ns'', fw_Name = ''f'', fw_ManagedFields = [], fw_ExecutionID = None,
     fw_Spec = Some (sample_spec\<lparr>spec_Nodes := [(''start-node'', (plain_node ''start-node''))]\<rparr>),
     fw_Tasks = None, fw_SubWorkflows = None, fw_Inputs = None, fw_OffloadedInputs = [], fw_Status = sample_status\<lparr>ws_Phase := p, ws_FailedAttempts := 4\<rparr>,
     fw_DeletionTimestamp = None, fw_Finalizers = [], fw_Labels = None, fw_WorkflowClosureReference = [],
     fw_ResourceVersion = ''1''\<rparr>"

definition sample_round :: "WorkflowPhase \<Rightarrow> round" where
  "sample_round p = \<lparr>rd_w = sample_workflow p, rd_events = [], rd_enqueued = 0\<rparr>"

lemma sample_frames: "frames sample_env"
  by (simp add: frames_def sample_env_def)

lemma sample_running:
  "HandleFlyteWorkflow sample_env (sample_round WorkflowPhaseFailing) =
     (let e = new_error 1 Kind_UNKNOWN ''UnknownError'' ''Unknown error, last seen message []'';
          w = sample_workflow WorkflowPhaseFailing
      in (Go_Ok (), (sample_round WorkflowPhaseFailing)
            \<lparr>rd_w := w\<lparr>fw_Status := wf_UpdatePhase 9 WorkflowPhaseFailed [] (Some e) (fw_Status w)\<rparr>,
             rd_events := [mk_event w Wf_FAILED (Event_Error e) 9]\<rparr>))"
  by (simp add: HandleFlyteWorkflow_def sample_round_def sample_workflow_def sample_status_def handleFailingWorkflow_def run_bind_def
      run_simps cleanup_unfold StartNode_def exec_StartNodeID_def sample_env_def on_workflow_def GetOnFailureNode_def
      sample_spec_def StatusFailed_def ignoring_lost_def TransitionToPhase_def update_for_def failing_transition_def
      convertToExecutionError_def observe_duration_def IdempotentReportEvent_def handle_recording_def mk_event_def
      last_execution_error_def executionErrorOrDefault_def wf_GetExecutionError_def wf_UpdatePhase_def or_now_def
      IsWorkflowPhaseTerminal_def GetProtoTime_def Let_def)



end
