(* ===== verification/Fastcheck.thy ===== *)
theory Fastcheck
  imports Flyte_Prelude
begin

section \<open>Filters of seen keys (flytestdlib/fastcheck)\<close>

text \<open>
  A filter remembers keys and may forget them: it answers \<open>Contains\<close> only for keys that were added. The
  interface is the locale \<open>seen_filter\<close>, with an invariant of the implementation; the opposite of a Bloom filter
  provides it. A key, a slice of bytes, is a \<open>string\<close>. The array of the filter holds pointers to keys, nil at first. The
  swap of a pointer is atomic, so that concurrent calls of \<open>Add\<close> and \<open>Contains\<close> act one after the other. The
  MD5 sum is the argument \<open>md5\<close>: nothing rests on which bytes it gives.
\<close>

locale seen_filter =
  fixes contains :: "string \<Rightarrow> 'f \<Rightarrow> bool"
    and add :: "string \<Rightarrow> 'f \<Rightarrow> bool \<times> 'f"
    and ok :: "'f \<Rightarrow> bool"
  assumes add_inv: "ok f \<Longrightarrow> ok (snd (add k f))"
    and add_same: "ok f \<Longrightarrow> contains k (snd (add k f))"
    and add_other: "ok f \<Longrightarrow> contains j (snd (add k f)) \<Longrightarrow> j = k \<or> contains j f"
begin

lemma adds_inv: "ok f \<Longrightarrow> ok (fold (\<lambda>k f. snd (add k f)) ks f)"
  by (induction ks arbitrary: f) (auto simp: add_inv)

lemma no_false_positive:
  "ok f \<Longrightarrow> contains j (fold (\<lambda>k f. snd (add k f)) ks f) \<Longrightarrow> j \<in> set ks \<or> contains j f"
proof (induction ks arbitrary: f)
  case (Cons k ks)
  then have "j \<in> set ks \<or> contains j (snd (add k f))" by (simp add: add_inv)
  then show ?case using add_other [OF Cons.prems(1)] by auto
qed simp

lemma last_seen: "ok f \<Longrightarrow> contains k (fold (\<lambda>k f. snd (add k f)) (ks @ [k]) f)"
  by (simp add: add_same adds_inv)

end

text \<open>The interface as the code passes it around, and the filter over an LRU cache, which comes from a package and is an argument (lru.go).\<close>

record 'f Filter =
  fl_Contains :: "string \<Rightarrow> 'f \<Rightarrow> bool"
  fl_Add :: "string \<Rightarrow> 'f \<Rightarrow> bool \<times> 'f"

record 'f lru_cache =
  lru_New :: "int \<Rightarrow> string + 'f"
  lru_Contains :: "string \<Rightarrow> 'f \<Rightarrow> bool"
  lru_Add :: "string \<Rightarrow> 'f \<Rightarrow> bool \<times> 'f"

definition LRUCacheFilter :: "'f lru_cache \<Rightarrow> 'f Filter" where
  "LRUCacheFilter lru = \<lparr>fl_Contains = lru_Contains lru, fl_Add = lru_Add lru\<rparr>"

definition NewLRUCacheFilter :: "'f lru_cache \<Rightarrow> int \<Rightarrow> string + 'f" where
  "NewLRUCacheFilter lru sz = lru_New lru sz"

definition filter_ok :: "'f Filter \<Rightarrow> ('f \<Rightarrow> bool) \<Rightarrow> bool" where
  "filter_ok F ok \<longleftrightarrow> seen_filter (fl_Contains F) (fl_Add F) ok"

subsection \<open>The opposite of a Bloom filter (oppobloom.go)\<close>

record OppoBloomFilter =
  ob_array :: "string option list"
  ob_sizeMask :: uint32

definition MaxFilterSize :: int where "MaxFilterSize = 2 ^ 30"

text \<open>The first three of the sixteen bytes of an MD5 sum, the only ones that \<open>Sum32\<close> reads.\<close>

type_synonym digest = "8 word \<times> 8 word \<times> 8 word"

definition Sum32 :: "digest \<Rightarrow> uint32" where
  "Sum32 d = (case d of (b0, b1, b2) \<Rightarrow> fold (\<lambda>val x. push_bit 3 x + ucast val) [b1, b2] (ucast b0))"

text \<open>The index is converted to a signed integer of 32 bits.\<close>

definition getIndex :: "(string \<Rightarrow> digest) \<Rightarrow> string \<Rightarrow> OppoBloomFilter \<Rightarrow> int" where
  "getIndex md5 key f = sint (Sum32 (md5 key) AND ob_sizeMask f)"

text \<open>Access out of range panics (\<open>None\<close>).\<close>

definition oppo_get :: "string option list \<Rightarrow> int \<Rightarrow> string option option" where
  "oppo_get arr index = (if 0 \<le> index \<and> nat index < length arr then Some (arr ! nat index) else None)"

definition getAndSet :: "string option list \<Rightarrow> int \<Rightarrow> string \<Rightarrow> (string \<times> string option list) option" where
  "getAndSet arr index key = map_option (\<lambda>old. (case old of None \<Rightarrow> [] | Some oldID \<Rightarrow> oldID, arr[nat index := Some key]))
     (oppo_get arr index)"

definition oppo_Add :: "(string \<Rightarrow> digest) \<Rightarrow> string \<Rightarrow> OppoBloomFilter \<Rightarrow> (bool \<times> OppoBloomFilter) option" where
  "oppo_Add md5 key f =
     map_option (\<lambda>(oldID, arr). (oldID \<noteq> key, f\<lparr>ob_array := arr\<rparr>)) (getAndSet (ob_array f) (getIndex md5 key f) key)"

definition oppo_Contains :: "(string \<Rightarrow> digest) \<Rightarrow> string \<Rightarrow> OppoBloomFilter \<Rightarrow> bool option" where
  "oppo_Contains md5 key f =
     map_option (\<lambda>curr. case curr of None \<Rightarrow> False | Some k \<Rightarrow> key = k) (oppo_get (ob_array f) (getIndex md5 key f))"

definition NewOppoBloomFilter :: "int \<Rightarrow> string + OppoBloomFilter" where
  "NewOppoBloomFilter sz =
     (if sz > MaxFilterSize then Inl ''oppobloom: size given too large to round to a power of 2''
      else if sz \<le> 0 then Inl ''oppobloom: filter cannot have a zero or negative size''
      else (let n = 2 ^ ceil_log2 (nat sz)
            in Inr \<lparr>ob_array = replicate n None, ob_sizeMask = of_nat (n - 1)\<rparr>))"

subsection \<open>Accesses are in range\<close>

text \<open>The array has \<open>2 ^ n\<close> entries with \<open>n\<close> at most 30, and the mask cuts a hash to \<open>n\<close> bits.\<close>

definition oppo_wf :: "OppoBloomFilter \<Rightarrow> bool" where
  "oppo_wf f \<longleftrightarrow> (\<exists>n \<le> 30. length (ob_array f) = 2 ^ n \<and> ob_sizeMask f = mask n)"

lemma and_mask_bound: "n \<le> 30 \<Longrightarrow> 0 \<le> sint (h AND mask n :: uint32) \<and> sint (h AND mask n :: uint32) < 2 ^ n"
proof -
  assume n: "n \<le> 30"
  let ?u = "uint (h AND mask n)"
  have lt: "?u < 2 ^ n" by (metis take_bit_eq_mask take_bit_int_less_exp unsigned_take_bit_eq)
  moreover have "(2::int) ^ n \<le> 2 ^ 30" using n by (intro power_increasing) simp_all
  ultimately have "?u < 2 ^ 31" by simp
  moreover have "0 \<le> ?u" by (rule uint_ge_0)
  ultimately have "signed_take_bit 31 ?u = ?u" by (intro signed_take_bit_int_eq_self) linarith+
  then have "sint (h AND mask n) = ?u" by (simp add: sint_uint)
  with lt \<open>0 \<le> ?u\<close> show ?thesis by simp
qed

lemma index_in_range:
  "oppo_wf f \<Longrightarrow> 0 \<le> getIndex md5 key f \<and> nat (getIndex md5 key f) < length (ob_array f)"
  using and_mask_bound by (fastforce simp: oppo_wf_def getIndex_def nat_less_iff)

lemma oppo_add_run:
  assumes "oppo_wf f"
  shows "\<exists>b. oppo_Add md5 key f = Some (b, f\<lparr>ob_array := (ob_array f)[nat (getIndex md5 key f) := Some key]\<rparr>)"
  using index_in_range [OF assms, of md5 key] by (simp add: oppo_Add_def getAndSet_def oppo_get_def)

lemma oppo_contains_run:
  assumes "oppo_wf f"
  shows "oppo_Contains md5 key f = Some (ob_array f ! nat (getIndex md5 key f) = Some key)"
  using index_in_range [OF assms, of md5 key] by (auto simp: oppo_Contains_def oppo_get_def split: option.split)

lemma oppo_update_index [simp]:
  "getIndex md5 key (f\<lparr>ob_array := a\<rparr>) = getIndex md5 key f"
  "length a = length (ob_array f) \<Longrightarrow> oppo_wf (f\<lparr>ob_array := a\<rparr>) = oppo_wf f"
  by (simp_all add: getIndex_def oppo_wf_def)

definition oppo_seen :: "(string \<Rightarrow> digest) \<Rightarrow> string \<Rightarrow> OppoBloomFilter \<Rightarrow> bool" where
  "oppo_seen md5 key f \<longleftrightarrow> oppo_Contains md5 key f = Some True"

definition oppo_put :: "(string \<Rightarrow> digest) \<Rightarrow> string \<Rightarrow> OppoBloomFilter \<Rightarrow> bool \<times> OppoBloomFilter" where
  "oppo_put md5 key f = (case oppo_Add md5 key f of Some r \<Rightarrow> r | None \<Rightarrow> (False, f))"

interpretation oppo: seen_filter "oppo_seen md5" "oppo_put md5" oppo_wf for md5
proof
  fix f :: OppoBloomFilter and j k
  assume wf: "oppo_wf f"
  obtain b where put: "oppo_put md5 k f = (b, f\<lparr>ob_array := (ob_array f)[nat (getIndex md5 k f) := Some k]\<rparr>)"
    using oppo_add_run [OF wf, of md5 k] by (auto simp: oppo_put_def)
  show inv: "oppo_wf (snd (oppo_put md5 k f))" using wf put by simp
  have seen: "oppo_seen md5 i (snd (oppo_put md5 k f)) \<longleftrightarrow>
      (ob_array f)[nat (getIndex md5 k f) := Some k] ! nat (getIndex md5 i f) = Some i" for i
    using oppo_contains_run [OF inv, of md5 i] put by (simp add: oppo_seen_def)
  show "oppo_seen md5 k (snd (oppo_put md5 k f))" using seen [of k] index_in_range [OF wf, of md5 k] by simp
  show "oppo_seen md5 j (snd (oppo_put md5 k f)) \<Longrightarrow> j = k \<or> oppo_seen md5 j f"
    using seen [of j] oppo_contains_run [OF wf, of md5 j] index_in_range [OF wf, of md5 k]
    by (cases "nat (getIndex md5 k f) = nat (getIndex md5 j f)") (auto simp: oppo_seen_def)
qed

lemma new_filter_wf:
  assumes "NewOppoBloomFilter sz = Inr f"
  shows "oppo_wf f" "\<not> oppo_seen md5 k f" "sz \<le> int (length (ob_array f))"
proof -
  let ?n = "ceil_log2 (nat sz)"
  have b: "0 < sz" "nat sz \<le> 2 ^ 30" and f: "f = \<lparr>ob_array = replicate (2 ^ ?n) None, ob_sizeMask = of_nat (2 ^ ?n - 1)\<rparr>"
    using assms by (auto simp: NewOppoBloomFilter_def MaxFilterSize_def Let_def split: if_split_asm)
  have "?n \<le> 30" using ceil_log2_least [OF b(2)] .
  then show wf: "oppo_wf f" unfolding oppo_wf_def f by (auto simp: mask_eq_exp_minus_1 of_nat_diff)
  show "\<not> oppo_seen md5 k f"
    using oppo_contains_run [OF wf, of md5 k] index_in_range [OF wf, of md5 k] by (auto simp: oppo_seen_def f)
  show "sz \<le> int (length (ob_array f))" using ceil_log2_le [of "nat sz"] b(1) by (simp add: f nat_le_iff)
qed

text \<open>
  Property C36. The opposite of a Bloom filter never accesses its array out of range and never reports a key that was not
  added: for every size that the constructor accepts, after any sequence of additions, \<open>Add\<close> and \<open>Contains\<close>
  return, a reported key is one of those added, and the key that was added last is reported.
\<close>

theorem oppo_filter_sound:
  assumes "NewOppoBloomFilter sz = Inr f0" "f = fold (\<lambda>k f. snd (oppo_put md5 k f)) ks f0"
  shows "(\<exists>b g. oppo_Add md5 key f = Some (b, g)) \<and> (\<exists>b. oppo_Contains md5 key f = Some b) \<and>
    (oppo_Contains md5 key f = Some True \<longrightarrow> key \<in> set ks) \<and>
    (ks \<noteq> [] \<longrightarrow> oppo_Contains md5 (last ks) f = Some True)"
proof -
  note new = new_filter_wf(1,2) [OF assms(1)]
  have wf: "oppo_wf f" unfolding assms(2) by (rule oppo.adds_inv [OF new(1)])
  have "oppo_Contains md5 key f = Some True \<Longrightarrow> key \<in> set ks"
    using oppo.no_false_positive [OF new(1)] new(2) unfolding assms(2) oppo_seen_def by blast
  moreover have "oppo_Contains md5 (last ks) f = Some True" if "ks \<noteq> []"
    using oppo.last_seen [OF new(1), of md5 "last ks" "butlast ks"] that unfolding assms(2) oppo_seen_def by simp
  ultimately show ?thesis using oppo_add_run [OF wf] oppo_contains_run [OF wf] by blast
qed

theorem oppo_filter_sound_witness:
  "oppo_Contains (\<lambda>k. (of_nat (length k), 0, 0)) ''ab''
     (fold (\<lambda>k f. snd (oppo_put (\<lambda>k. (of_nat (length k), 0, 0)) k f)) [''a'', ''ab'']
       \<lparr>ob_array = replicate 4 None, ob_sizeMask = 3\<rparr>) = Some True"
proof -
  have "ceil_log2 3 = 2" by (simp add: ceil_log2.simps)
  then have "NewOppoBloomFilter 3 = Inr \<lparr>ob_array = replicate 4 None, ob_sizeMask = 3\<rparr>"
    by (simp add: NewOppoBloomFilter_def MaxFilterSize_def)
  from oppo_filter_sound [OF this refl, of "\<lambda>k. (of_nat (length k), 0, 0)" "''ab''" "[''a'', ''ab'']"]
  show ?thesis by simp
qed

end
