(* ===== verification/Workflow_Store.thy ===== *)
theory Workflow_Store
  imports Workflow_Executor Fastcheck
begin

section \<open>Stores of workflow resources (controller/workflowstore)\<close>

text \<open>
  The reconciler reads and writes workflows through a store. The stores form layers: one that passes through to Kubernetes, one
  that refuses workflows that have ended, and one that refuses a version that has already been replaced. The Kubernetes
  client and its cache are the record \<open>kube\<close>; the constructors of its errors are arguments too. Counters are left out.

  The layers work on one state: what Kubernetes holds, the filter of ended workflows, the cache of replaced versions and
  the resources of the in-memory store.
\<close>

subsection \<open>Errors (errors.go)\<close>

text \<open>The four errors of the store are told apart by identity, through the cause of an error. Any other error has no cause.\<close>

datatype store_error =
    ErrStaleWorkflowError | ErrWorkflowNotFound | ErrWorkflowTerminated | ErrWorkflowToLarge
  | Store_Error go_error | Store_Caused string store_error

fun errors_Cause :: "store_error \<Rightarrow> store_error" where
  "errors_Cause (Store_Caused msg e) = errors_Cause e"
| "errors_Cause e = e"

definition store_IsNotFound :: "store_error \<Rightarrow> bool" where
  "store_IsNotFound e \<longleftrightarrow> errors_Cause e = ErrWorkflowNotFound"
definition IsWorkflowStale :: "store_error \<Rightarrow> bool" where
  "IsWorkflowStale e \<longleftrightarrow> errors_Cause e = ErrStaleWorkflowError"
definition IsWorkflowTerminated :: "store_error \<Rightarrow> bool" where
  "IsWorkflowTerminated e \<longleftrightarrow> errors_Cause e = ErrWorkflowTerminated"
definition IsWorkflowTooLarge :: "store_error \<Rightarrow> bool" where
  "IsWorkflowTooLarge e \<longleftrightarrow> errors_Cause e = ErrWorkflowToLarge"

fun store_go_error :: "store_error \<Rightarrow> go_error" where
  "store_go_error ErrStaleWorkflowError = Plain_Error ''stale Workflow Found error''"
| "store_go_error ErrWorkflowNotFound = Plain_Error ''workflow not-found error''"
| "store_go_error ErrWorkflowTerminated = Plain_Error ''workflow has already been terminated''"
| "store_go_error ErrWorkflowToLarge = Plain_Error ''workflow too large''"
| "store_go_error (Store_Error e) = e"
| "store_go_error (Store_Caused msg e) = Wrapping_Error (msg @ '': '') (store_go_error e)"

subsection \<open>The interface and what the stores are built on\<close>

type_synonym memory = "string \<Rightarrow> (string \<Rightarrow> FlyteWorkflow option) option"

record ('k, 'f) store_state =
  ss_kube :: 'k
  ss_terminated :: 'f
  ss_versions :: "string \<Rightarrow> string option"
  ss_memory :: memory

record 's FlyteWorkflow_store =
  st_Get :: "string \<Rightarrow> string \<Rightarrow> 's \<Rightarrow> (store_error + FlyteWorkflow option) \<times> 's"
  st_Update :: "FlyteWorkflow \<Rightarrow> 's \<Rightarrow> (store_error + FlyteWorkflow option) \<times> 's"

text \<open>An error of the Kubernetes client, with what the library says about it.\<close>

record kube_error =
  ke_error :: go_error
  ke_IsNotFound :: bool
  ke_IsRequestEntityTooLarge :: bool
  ke_is_etcd_too_large :: bool

record 'k kube =
  kube_Get :: "string \<Rightarrow> string \<Rightarrow> 'k \<Rightarrow> kube_error + FlyteWorkflow"
  kube_Update :: "FlyteWorkflow \<Rightarrow> 'k \<Rightarrow> (kube_error + FlyteWorkflow) \<times> 'k"
  kube_NewBadRequest :: "string \<Rightarrow> go_error"
  kube_NewNotFound :: "string \<Rightarrow> go_error"

subsection \<open>Passing through (passthrough.go)\<close>

definition strings_Contains :: "string \<Rightarrow> string \<Rightarrow> bool" where
  "strings_Contains s t \<longleftrightarrow> t \<in> set (sublists s)"

definition passthrough_Get ::
    "'k kube \<Rightarrow> string \<Rightarrow> string \<Rightarrow> ('k, 'f) store_state \<Rightarrow> (store_error + FlyteWorkflow option) \<times> ('k, 'f) store_state" where
  "passthrough_Get K namespace name s =
     (case kube_Get K namespace name (ss_kube s) of
        Inl e \<Rightarrow> Inl (if ke_IsNotFound e then ErrWorkflowNotFound else Store_Error (ke_error e))
      | Inr w \<Rightarrow> Inr (Some w), s)"

definition clear_managed_fields :: "FlyteWorkflow \<Rightarrow> FlyteWorkflow" where
  "clear_managed_fields w = (if fw_ManagedFields w \<noteq> [] then w\<lparr>fw_ManagedFields := [[]]\<rparr> else w)"

definition passthrough_Update ::
    "'k kube \<Rightarrow> FlyteWorkflow \<Rightarrow> ('k, 'f) store_state \<Rightarrow> (store_error + FlyteWorkflow option) \<times> ('k, 'f) store_state" where
  "passthrough_Update K workflow s =
     (case kube_Update K (clear_managed_fields workflow) (ss_kube s) of
        (Inr newWF, k) \<Rightarrow> (Inr (Some newWF), s\<lparr>ss_kube := k\<rparr>)
      | (Inl e, k) \<Rightarrow>
          (if ke_IsNotFound e then Inr None
           else if ke_IsRequestEntityTooLarge e \<or> ke_is_etcd_too_large e \<or>
                   strings_Contains (Error (ke_error e)) ''etcdserver: request is too large''
           then Inl ErrWorkflowToLarge
           else Inl (Store_Error (ke_error e)), s\<lparr>ss_kube := k\<rparr>))"

definition NewPassthroughWorkflowStore :: "'k kube \<Rightarrow> ('k, 'f) store_state FlyteWorkflow_store" where
  "NewPassthroughWorkflowStore K = \<lparr>st_Get = passthrough_Get K, st_Update = passthrough_Update K\<rparr>"

subsection \<open>Refusing ended workflows (terminated\_tracking.go)\<close>

definition workflowKey :: "string \<Rightarrow> string \<Rightarrow> string" where
  "workflowKey namespace name = namespace @ ''/'' @ name"

definition terminated_Get ::
    "'f Filter \<Rightarrow> ('k, 'f) store_state FlyteWorkflow_store \<Rightarrow> string \<Rightarrow> string \<Rightarrow> ('k, 'f) store_state
     \<Rightarrow> (store_error + FlyteWorkflow option) \<times> ('k, 'f) store_state" where
  "terminated_Get F w namespace name s =
     (if fl_Contains F (workflowKey namespace name) (ss_terminated s) then (Inl ErrWorkflowTerminated, s)
      else st_Get w namespace name s)"

definition terminated_Update ::
    "'f Filter \<Rightarrow> ('k, 'f) store_state FlyteWorkflow_store \<Rightarrow> FlyteWorkflow \<Rightarrow> ('k, 'f) store_state
     \<Rightarrow> (store_error + FlyteWorkflow option) \<times> ('k, 'f) store_state" where
  "terminated_Update F w workflow s =
     (case st_Update w workflow s of
        (Inl e, s') \<Rightarrow> (Inl e, s')
      | (Inr None, s') \<Rightarrow> (Inr None, s')
      | (Inr (Some newWF), s') \<Rightarrow>
          (Inr (Some newWF),
           if wf_IsTerminated (fw_Status newWF)
           then s'\<lparr>ss_terminated := snd (fl_Add F (workflowKey (fw_Namespace workflow) (fw_Name workflow)) (ss_terminated s'))\<rparr>
           else s'))"

definition NewTerminatedTrackingStore ::
    "'f Filter \<Rightarrow> ('k, 'f) store_state FlyteWorkflow_store \<Rightarrow> ('k, 'f) store_state FlyteWorkflow_store" where
  "NewTerminatedTrackingStore F w = \<lparr>st_Get = terminated_Get F w, st_Update = terminated_Update F w\<rparr>"

subsection \<open>Refusing replaced versions (resource\_version\_caching.go)\<close>

definition resourceVersionKey :: "string \<Rightarrow> string \<Rightarrow> string" where
  "resourceVersionKey namespace name = namespace @ ''/'' @ name"

definition updateRevisionCache :: "string \<Rightarrow> string \<Rightarrow> string \<Rightarrow> bool \<Rightarrow> ('k, 'f) store_state \<Rightarrow> ('k, 'f) store_state" where
  "updateRevisionCache namespace name resourceVersion isTerminated s =
     s\<lparr>ss_versions := (ss_versions s)
        (resourceVersionKey namespace name := (if isTerminated then None else Some resourceVersion))\<rparr>"

definition isResourceVersionSameAsPrevious :: "string \<Rightarrow> string \<Rightarrow> string \<Rightarrow> ('k, 'f) store_state \<Rightarrow> bool" where
  "isResourceVersionSameAsPrevious namespace name resourceVersion s =
     (case ss_versions s (resourceVersionKey namespace name) of
        Some strV \<Rightarrow> strV = resourceVersion | None \<Rightarrow> False)"

definition versions_Get ::
    "('k, 'f) store_state FlyteWorkflow_store \<Rightarrow> string \<Rightarrow> string \<Rightarrow> ('k, 'f) store_state
     \<Rightarrow> (store_error + FlyteWorkflow option) \<times> ('k, 'f) store_state" where
  "versions_Get w namespace name s =
     (case st_Get w namespace name s of
        (Inr (Some x), s') \<Rightarrow>
          (if isResourceVersionSameAsPrevious namespace name (fw_ResourceVersion x) s'
           then (Inl ErrStaleWorkflowError, s') else (Inr (Some x), s'))
      | r \<Rightarrow> r)"

definition versions_Update ::
    "('k, 'f) store_state FlyteWorkflow_store \<Rightarrow> FlyteWorkflow \<Rightarrow> ('k, 'f) store_state
     \<Rightarrow> (store_error + FlyteWorkflow option) \<times> ('k, 'f) store_state" where
  "versions_Update w workflow s =
     (case st_Update w workflow s of
        (Inr (Some newWF), s') \<Rightarrow>
          (Inr (Some newWF),
           if fw_ResourceVersion newWF \<noteq> fw_ResourceVersion workflow
           then updateRevisionCache (fw_Namespace workflow) (fw_Name workflow) (fw_ResourceVersion workflow)
                  (wf_IsTerminated (fw_Status workflow)) s'
           else s')
      | r \<Rightarrow> r)"

definition NewResourceVersionCachingStore ::
    "('k, 'f) store_state FlyteWorkflow_store \<Rightarrow> ('k, 'f) store_state FlyteWorkflow_store" where
  "NewResourceVersionCachingStore w = \<lparr>st_Get = versions_Get w, st_Update = versions_Update w\<rparr>"

subsection \<open>The in-memory store (inmemory.go)\<close>

definition memory_put :: "FlyteWorkflow \<Rightarrow> memory \<Rightarrow> memory" where
  "memory_put w m =
     m(fw_Namespace w \<mapsto> (case m (fw_Namespace w) of None \<Rightarrow> Map.empty | Some x \<Rightarrow> x)(fw_Name w \<mapsto> w))"

text \<open>The message of the error reads the workflow, so a nil workflow panics.\<close>

definition memory_Create :: "'k kube \<Rightarrow> FlyteWorkflow option \<Rightarrow> ('k, 'f) store_state \<Rightarrow> unit go \<times> ('k, 'f) store_state" where
  "memory_Create K workflow s =
     (case workflow of
        None \<Rightarrow> (Go_Panic, s)
      | Some w \<Rightarrow>
          if fw_Name w \<noteq> [] \<and> fw_Namespace w \<noteq> [] then (Go_Ok (), s\<lparr>ss_memory := memory_put w (ss_memory s)\<rparr>)
          else (Go_Err (kube_NewBadRequest K (''Workflow object with Namespace ['' @ fw_Namespace w @ ''] & Name ['' @
                  fw_Name w @ ''] is required'')), s))"

definition memory_Delete :: "string \<Rightarrow> string \<Rightarrow> ('k, 'f) store_state \<Rightarrow> ('k, 'f) store_state" where
  "memory_Delete namespace name s =
     (case ss_memory s namespace of
        None \<Rightarrow> s
      | Some m \<Rightarrow> if m name = None then s else s\<lparr>ss_memory := (ss_memory s)(namespace \<mapsto> m(name := None))\<rparr>)"

definition memory_Get ::
    "string \<Rightarrow> string \<Rightarrow> ('k, 'f) store_state \<Rightarrow> (store_error + FlyteWorkflow option) \<times> ('k, 'f) store_state" where
  "memory_Get namespace name s =
     (case Option.bind (ss_memory s namespace) (\<lambda>m. m name) of
        None \<Rightarrow> Inl ErrWorkflowNotFound | Some w \<Rightarrow> Inr (Some w), s)"

definition memory_Update ::
    "'k kube \<Rightarrow> FlyteWorkflow \<Rightarrow> ('k, 'f) store_state \<Rightarrow> (store_error + FlyteWorkflow option) \<times> ('k, 'f) store_state" where
  "memory_Update K w s =
     (if fw_Name w \<noteq> [] \<and> fw_Namespace w \<noteq> [] then
        (case Option.bind (ss_memory s (fw_Namespace w)) (\<lambda>m. m (fw_Name w)) of
           Some _ \<Rightarrow>
             (let newW = w\<lparr>fw_ResourceVersion := fw_ResourceVersion w @ ''x''\<rparr>
              in (Inr (Some newW), s\<lparr>ss_memory := memory_put newW (ss_memory s)\<rparr>))
         | None \<Rightarrow> (Inl (Store_Error (kube_NewNotFound K (fw_Name w))), s))
      else (Inl (Store_Error (kube_NewBadRequest K ''Workflow object with Namespace & Name is required'')), s))"

definition NewInMemoryWorkflowStore :: "'k kube \<Rightarrow> ('k, 'f) store_state FlyteWorkflow_store" where
  "NewInMemoryWorkflowStore K = \<lparr>st_Get = memory_Get, st_Update = memory_Update K\<rparr>"

subsection \<open>Choosing a store (factory.go)\<close>

text \<open>The error of the constructor of the filter, if it has one, is an argument.\<close>

definition NewWorkflowStore ::
    "string option \<Rightarrow> 'k kube \<Rightarrow> 'f Filter \<Rightarrow> string \<Rightarrow> string + ('k, 'f) store_state FlyteWorkflow_store" where
  "NewWorkflowStore err K F policy =
     (let passthrough = NewPassthroughWorkflowStore K;
          tracking = NewTerminatedTrackingStore F passthrough;
          checked = (\<lambda>w. case err of Some e \<Rightarrow> Inl e | None \<Rightarrow> Inr w)
      in if policy = ''InMemory'' then Inr (NewInMemoryWorkflowStore K)
         else if policy = ''PassThrough'' then Inr passthrough
         else if policy = ''TrackTerminated'' then checked tracking
         else if policy = ''ResourceVersionCache'' then checked (NewResourceVersionCachingStore tracking)
         else Inl ''empty workflow store config'')"

subsection \<open>Sequences of operations\<close>

datatype store_op = Op_Get string string | Op_Update FlyteWorkflow

definition run_op :: "'s FlyteWorkflow_store \<Rightarrow> store_op \<Rightarrow> 's \<Rightarrow> 's" where
  "run_op S op s = (case op of Op_Get namespace name \<Rightarrow> snd (st_Get S namespace name s) | Op_Update w \<Rightarrow> snd (st_Update S w s))"

definition fw_key :: "FlyteWorkflow \<Rightarrow> string" where
  "fw_key w = workflowKey (fw_Namespace w) (fw_Name w)"

definition updates_key :: "string \<Rightarrow> store_op \<Rightarrow> bool" where
  "updates_key wk op = (case op of Op_Get _ _ \<Rightarrow> False | Op_Update w \<Rightarrow> fw_key w = wk)"

text \<open>The updates of a sequence that were stored, with the resources that they stored.\<close>

fun stored :: "'s FlyteWorkflow_store \<Rightarrow> store_op list \<Rightarrow> 's \<Rightarrow> (FlyteWorkflow \<times> FlyteWorkflow) list" where
  "stored S [] s = []"
| "stored S (op # ops) s =
     (case op of
        Op_Update w \<Rightarrow> (case fst (st_Update S w s) of Inr (Some new) \<Rightarrow> [(w, new)] | _ \<Rightarrow> [])
      | Op_Get _ _ \<Rightarrow> []) @ stored S ops (run_op S op s)"

definition default_store :: "'k kube \<Rightarrow> 'f Filter \<Rightarrow> ('k, 'f) store_state FlyteWorkflow_store" where
  "default_store K F = NewResourceVersionCachingStore (NewTerminatedTrackingStore F (NewPassthroughWorkflowStore K))"

lemma default_policy: "NewWorkflowStore None K F ''ResourceVersionCache'' = Inr (default_store K F)"
  by (simp add: NewWorkflowStore_def default_store_def Let_def)

text \<open>What the default store does, layer by layer.\<close>

lemma default_Get:
  "st_Get (default_store K F) namespace name s =
     (if fl_Contains F (workflowKey namespace name) (ss_terminated s) then Inl ErrWorkflowTerminated
      else case kube_Get K namespace name (ss_kube s) of
             Inl e \<Rightarrow> Inl (if ke_IsNotFound e then ErrWorkflowNotFound else Store_Error (ke_error e))
           | Inr x \<Rightarrow> if ss_versions s (workflowKey namespace name) = Some (fw_ResourceVersion x)
                     then Inl ErrStaleWorkflowError else Inr (Some x), s)"
  by (auto simp: default_store_def NewResourceVersionCachingStore_def NewTerminatedTrackingStore_def
      NewPassthroughWorkflowStore_def versions_Get_def terminated_Get_def passthrough_Get_def
      isResourceVersionSameAsPrevious_def resourceVersionKey_def workflowKey_def split: sum.split option.split)

lemma default_Update_stored:
  assumes "st_Update (default_store K F) w s = (Inr (Some new), s')"
  shows "\<exists>k. kube_Update K (clear_managed_fields w) (ss_kube s) = (Inr new, k)"
    and "ss_versions s' = (if fw_ResourceVersion new = fw_ResourceVersion w then ss_versions s else
      (ss_versions s)(fw_key w := (if wf_IsTerminated (fw_Status w) then None else Some (fw_ResourceVersion w))))"
    and "ss_terminated s' = (if wf_IsTerminated (fw_Status new) then snd (fl_Add F (fw_key w) (ss_terminated s))
      else ss_terminated s)"
  using assms
  by (auto simp: default_store_def NewResourceVersionCachingStore_def NewTerminatedTrackingStore_def
      NewPassthroughWorkflowStore_def versions_Update_def terminated_Update_def passthrough_Update_def
      updateRevisionCache_def resourceVersionKey_def workflowKey_def fw_key_def
      split: prod.split_asm sum.split_asm if_split_asm option.split_asm)

lemma default_Update_other:
  assumes "st_Update (default_store K F) w s = (r, s')" "\<And>new. r \<noteq> Inr (Some new)"
  shows "ss_versions s' = ss_versions s" "ss_terminated s' = ss_terminated s"
  using assms
  by (auto simp: default_store_def NewResourceVersionCachingStore_def NewTerminatedTrackingStore_def
      NewPassthroughWorkflowStore_def versions_Update_def terminated_Update_def passthrough_Update_def
      split: prod.split_asm sum.split_asm if_split_asm option.split_asm)

lemma default_op_cases:
  obtains (unstored) "ss_versions (run_op (default_store K F) op s) = ss_versions s"
      "ss_terminated (run_op (default_store K F) op s) = ss_terminated s" "stored (default_store K F) [op] s = []"
  | (stored) w new s' where "op = Op_Update w" "st_Update (default_store K F) w s = (Inr (Some new), s')"
      "run_op (default_store K F) op s = s'" "stored (default_store K F) [op] s = [(w, new)]"
proof (cases op)
  case (Op_Get namespace name)
  then show ?thesis using unstored by (simp add: run_op_def default_Get)
next
  case (Op_Update w)
  obtain r s' where u: "st_Update (default_store K F) w s = (r, s')" by fastforce
  show ?thesis
  proof (cases "\<exists>new. r = Inr (Some new)")
    case True
    then show ?thesis using stored Op_Update u by (auto simp: run_op_def)
  next
    case False
    then have "r \<noteq> Inr (Some new)" for new by blast
    from default_Update_other [OF u this] False u Op_Update show ?thesis
      using unstored by (auto simp: run_op_def split: sum.split option.split)
  qed
qed

lemma versions_kept:
  "(\<And>op. op \<in> set ops \<Longrightarrow> \<not> updates_key wk op) \<Longrightarrow>
   ss_versions (fold (run_op (default_store K F)) ops s) wk = ss_versions s wk"
proof (induction ops arbitrary: s)
  case (Cons op ops)
  have "ss_versions (run_op (default_store K F) op s) wk = ss_versions s wk"
    by (rule default_op_cases [of K F op s])
      (use Cons.prems [of op] in \<open>auto simp: updates_key_def dest: default_Update_stored(2)\<close>)
  then show ?case using Cons.IH Cons.prems by simp
qed simp

text \<open>An entry of the cache or of the filter comes from an update that was stored.\<close>

lemma versions_justified:
  "ss_versions (fold (run_op (default_store K F)) ops s) wk = Some v \<Longrightarrow>
   ss_versions s wk = Some v \<or>
   (\<exists>(w, new) \<in> set (stored (default_store K F) ops s). fw_key w = wk \<and> fw_ResourceVersion w = v \<and> fw_ResourceVersion new \<noteq> v)"
proof (induction ops arbitrary: s)
  case (Cons op ops)
  let ?s = "run_op (default_store K F) op s"
  have st: "stored (default_store K F) (op # ops) s =
      stored (default_store K F) [op] s @ stored (default_store K F) ops ?s" by simp
  have "ss_versions ?s wk = Some v \<Longrightarrow> ss_versions s wk = Some v \<or>
      (\<exists>(w, new) \<in> set (stored (default_store K F) [op] s). fw_key w = wk \<and> fw_ResourceVersion w = v \<and> fw_ResourceVersion new \<noteq> v)"
    by (rule default_op_cases [of K F op s])
      (auto dest: default_Update_stored(2) split: if_split_asm)
  then show ?case using Cons.IH [of ?s] Cons.prems unfolding st by auto
qed simp

lemma terminated_justified:
  assumes "filter_ok F ok"
  shows "ok (ss_terminated s) \<Longrightarrow> ok (ss_terminated (fold (run_op (default_store K F)) ops s)) \<and>
   (fl_Contains F wk (ss_terminated (fold (run_op (default_store K F)) ops s)) \<longrightarrow>
     fl_Contains F wk (ss_terminated s) \<or>
     (\<exists>(w, new) \<in> set (stored (default_store K F) ops s). fw_key w = wk \<and> wf_IsTerminated (fw_Status new)))"
proof (induction ops arbitrary: s)
  case (Cons op ops)
  let ?s = "run_op (default_store K F) op s"
  have st: "stored (default_store K F) (op # ops) s =
      stored (default_store K F) [op] s @ stored (default_store K F) ops ?s" by simp
  note f = assms [unfolded filter_ok_def]
  have "ok (ss_terminated ?s) \<and> (fl_Contains F wk (ss_terminated ?s) \<longrightarrow> fl_Contains F wk (ss_terminated s) \<or>
      (\<exists>(w, new) \<in> set (stored (default_store K F) [op] s). fw_key w = wk \<and> wf_IsTerminated (fw_Status new)))"
  proof (rule default_op_cases [of K F op s])
    fix w new s'
    assume u: "st_Update (default_store K F) w s = (Inr (Some new), s')" and s': "?s = s'"
      and st1: "stored (default_store K F) [op] s = [(w, new)]"
    show ?thesis
      unfolding st1 s' default_Update_stored(3) [OF u]
      using Cons.prems seen_filter.add_inv [OF f Cons.prems] seen_filter.add_other [OF f Cons.prems, of wk "fw_key w"] by auto
  qed (use Cons.prems in simp)
  then show ?case using Cons.IH [of ?s] unfolding st by auto
qed simp

subsection \<open>Properties\<close>


text \<open>
  Property C37. The default store refuses a workflow only for cause. From a state with an empty cache and an empty filter, after any
  operations: a workflow is refused as ended only if an update in the sequence stored it in a terminal phase, and as stale
  only if the version that Kubernetes returns now was replaced by an update in the sequence.
\<close>

theorem refusals_justified:
  assumes "NewWorkflowStore None K F ''ResourceVersionCache'' = Inr S" "filter_ok F ok" "ok (ss_terminated s0)"
    "ss_versions s0 = Map.empty" "\<And>wk. \<not> fl_Contains F wk (ss_terminated s0)"
    "st_Get S namespace name (fold (run_op S) ops s0) = (Inl e, s)"
  shows "(e = ErrWorkflowTerminated \<longrightarrow> (\<exists>(w, new) \<in> set (stored S ops s0).
       fw_key w = workflowKey namespace name \<and> wf_IsTerminated (fw_Status new))) \<and>
    (e = ErrStaleWorkflowError \<longrightarrow> (\<exists>(w, new) \<in> set (stored S ops s0).
       fw_key w = workflowKey namespace name \<and> fw_ResourceVersion new \<noteq> fw_ResourceVersion w \<and>
       (\<exists>x. kube_Get K namespace name (ss_kube s) = Inr x \<and> fw_ResourceVersion x = fw_ResourceVersion w)))"
proof -
  have S: "S = default_store K F" using assms(1) default_policy by (metis Inr_inject)
  let ?s = "fold (run_op S) ops s0"
  note g = assms(6) [unfolded S default_Get]
  have "e = ErrWorkflowTerminated \<Longrightarrow> fl_Contains F (workflowKey namespace name) (ss_terminated ?s)"
    using g unfolding S by (auto split: if_split_asm sum.split_asm)
  moreover have "\<exists>x. kube_Get K namespace name (ss_kube s) = Inr x \<and>
      ss_versions ?s (workflowKey namespace name) = Some (fw_ResourceVersion x)" if "e = ErrStaleWorkflowError"
    using g that unfolding S by (auto split: if_split_asm sum.split_asm)
  ultimately show ?thesis
    using terminated_justified [OF assms(2,3), of K ops "workflowKey namespace name"] assms(4,5)
      versions_justified [of K F ops s0 "workflowKey namespace name"] unfolding S by fastforce
qed

text \<open>An example: a cluster with one workflow and an LRU cache as a list, the latest key first.\<close>

definition sample_lru :: "string list lru_cache" where
  "sample_lru = \<lparr>lru_New = (\<lambda>n. if n \<le> 0 then Inl ''must provide a positive size'' else Inr []),
     lru_Contains = (\<lambda>k xs. k \<in> set xs), lru_Add = (\<lambda>k xs. (length xs = 1000, take 1000 (k # removeAll k xs)))\<rparr>"

lemma sample_lru_ok: "filter_ok (LRUCacheFilter sample_lru) (\<lambda>_. True)"
  unfolding filter_ok_def LRUCacheFilter_def sample_lru_def
  by unfold_locales (auto simp: take_Cons' dest!: in_set_takeD)

definition sample_kube :: "FlyteWorkflow kube" where
  "sample_kube = \<lparr>kube_Get = (\<lambda>_ _ w. Inr w),
     kube_Update = (\<lambda>w _. (let new = w\<lparr>fw_ResourceVersion := fw_ResourceVersion w @ ''x''\<rparr> in (Inr new, new))),
     kube_NewBadRequest = Plain_Error, kube_NewNotFound = Plain_Error\<rparr>"

definition sample_store :: "(FlyteWorkflow, string list) store_state FlyteWorkflow_store" where
  "sample_store = default_store sample_kube (LRUCacheFilter sample_lru)"

definition sample_store_state :: "WorkflowPhase \<Rightarrow> (FlyteWorkflow, string list) store_state" where
  "sample_store_state p = \<lparr>ss_kube = sample_workflow p, ss_terminated = [], ss_versions = Map.empty, ss_memory = Map.empty\<rparr>"

lemma sample_update:
  "\<exists>s1. st_Update sample_store (sample_workflow p) (sample_store_state q) =
     (Inr (Some (sample_workflow p\<lparr>fw_ResourceVersion := ''1x''\<rparr>)), s1)"
  by (simp add: sample_store_def default_store_def NewResourceVersionCachingStore_def NewTerminatedTrackingStore_def
      NewPassthroughWorkflowStore_def versions_Update_def terminated_Update_def passthrough_Update_def sample_kube_def
      sample_store_state_def clear_managed_fields_def sample_workflow_def Let_def)

lemma sample_policy: "NewWorkflowStore None sample_kube (LRUCacheFilter sample_lru) ''ResourceVersionCache'' = Inr sample_store"
  by (simp add: default_policy sample_store_def)


theorem refusals_justified_witness:
  "list_ex (\<lambda>(w, new). fw_key w = workflowKey ''ns'' ''f'' \<and> wf_IsTerminated (fw_Status new))
     (stored sample_store [Op_Update (sample_workflow WorkflowPhaseFailed)] (sample_store_state WorkflowPhaseRunning))"
proof -
  let ?w = "sample_workflow WorkflowPhaseFailed" and ?s = "sample_store_state WorkflowPhaseRunning"
  obtain s1 where u: "st_Update sample_store ?w ?s = (Inr (Some (?w\<lparr>fw_ResourceVersion := ''1x''\<rparr>)), s1)"
    using sample_update by blast
  have "ss_terminated s1 = [''ns/f'']"
    using default_Update_stored(3) [OF u [unfolded sample_store_def]]
    by (simp add: sample_workflow_def sample_status_def wf_IsTerminated_def LRUCacheFilter_def sample_lru_def
        sample_store_state_def fw_key_def workflowKey_def)
  then have "st_Get sample_store ''ns'' ''f'' (fold (run_op sample_store) [Op_Update ?w] ?s) = (Inl ErrWorkflowTerminated, s1)"
    using u by (simp add: run_op_def sample_store_def default_Get LRUCacheFilter_def sample_lru_def workflowKey_def)
  from refusals_justified [OF sample_policy sample_lru_ok _ _ _ this]
  have "\<exists>(w, new) \<in> set (stored sample_store [Op_Update ?w] ?s). fw_key w = workflowKey ''ns'' ''f'' \<and>
      wf_IsTerminated (fw_Status new)"
    by (simp add: sample_store_state_def LRUCacheFilter_def sample_lru_def del: stored.simps)
  then show ?thesis unfolding list_ex_iff .
qed

end
