(* ===== verification/Completed_Workflows.thy ===== *)
theory Completed_Workflows
  imports Workflow_Executor Var_Names
begin

section \<open>Completed workflows and their deletion (controller/completed\_workflows.go, garbage\_collector.go)\<close>

text \<open>
  A workflow that has ended gets labels, and the garbage collector deletes labelled workflows after a retention period with
  label selectors. A time counts nanoseconds from the zero time, as elsewhere. \<open>FormatTimeForLabel\<close> is
  an argument \<open>fmt\<close>: the layout \<open>2006-01-02.15\<close> in UTC tells hours apart and nothing finer. The clients of
  Kubernetes are arguments; the model keeps the requests that were sent.
\<close>

definition workflowTerminationStatusKey :: string where "workflowTerminationStatusKey = ''termination-status''"
definition workflowTerminatedValue :: string where "workflowTerminatedValue = ''terminated''"
definition hourOfDayCompletedKey :: string where "hourOfDayCompletedKey = ''hour-of-day''"
definition completedTimeKey :: string where "completedTimeKey = ''completed-time''"

lemmas label_keys = workflowTerminationStatusKey_def workflowTerminatedValue_def hourOfDayCompletedKey_def completedTimeKey_def

datatype LabelSelectorOperator = Op_In | Op_NotIn | Op_Exists | Op_DoesNotExist

record LabelSelectorRequirement =
  lr_Key :: string
  lr_Operator :: LabelSelectorOperator
  lr_Values :: "string list"

record LabelSelector =
  ls_MatchLabels :: "(string \<times> string) list"
  ls_MatchExpressions :: "LabelSelectorRequirement list"

subsection \<open>Labels (completed\_workflows.go)\<close>

definition label_put :: "string \<Rightarrow> string \<Rightarrow> (string \<times> string) list \<Rightarrow> (string \<times> string) list" where
  "label_put k v ls = (k, v) # filter (\<lambda>(k', _). k' \<noteq> k) ls"

definition IgnoreCompletedWorkflowsLabelSelector :: LabelSelector where
  "IgnoreCompletedWorkflowsLabelSelector = \<lparr>ls_MatchLabels = [], ls_MatchExpressions =
     [\<lparr>lr_Key = workflowTerminationStatusKey, lr_Operator = Op_NotIn, lr_Values = [workflowTerminatedValue]\<rparr>]\<rparr>"

definition CompletedWorkflowsLabelSelector :: LabelSelector where
  "CompletedWorkflowsLabelSelector =
     \<lparr>ls_MatchLabels = [(workflowTerminationStatusKey, workflowTerminatedValue)], ls_MatchExpressions = []\<rparr>"

definition SetCompletedLabel :: "(time \<Rightarrow> string) \<Rightarrow> time \<Rightarrow> FlyteWorkflow \<Rightarrow> FlyteWorkflow" where
  "SetCompletedLabel fmt currentTime w =
     w\<lparr>fw_Labels := Some (label_put completedTimeKey (fmt currentTime)
        (label_put workflowTerminationStatusKey workflowTerminatedValue
           (case fw_Labels w of None \<Rightarrow> [] | Some ls \<Rightarrow> ls)))\<rparr>"

definition HasCompletedLabel :: "FlyteWorkflow \<Rightarrow> bool" where
  "HasCompletedLabel w =
     (case fw_Labels w of
        None \<Rightarrow> False
      | Some ls \<Rightarrow> (case map_of ls workflowTerminationStatusKey of Some v \<Rightarrow> v = workflowTerminatedValue | None \<Rightarrow> False))"

text \<open>A slice with a negative capacity panics (\<open>None\<close>).\<close>

definition CalculateHoursToDelete :: "int \<Rightarrow> int \<Rightarrow> string list option" where
  "CalculateHoursToDelete retentionPeriodHours currentHourOfDay =
     (let numberOfHoursToDelete = 24 - retentionPeriodHours;
          maxHourOfDay = (if currentHourOfDay - retentionPeriodHours < 0
                          then 24 + (currentHourOfDay - retentionPeriodHours) else 24)
      in if numberOfHoursToDelete < 0 then None
         else Some (map (itoa \<circ> nat) ([0..currentHourOfDay - retentionPeriodHours - 1] @ [currentHourOfDay + 1..maxHourOfDay - 1])))"

definition hour :: time where "hour = 3600 * 10 ^ 9"

definition CalculateHoursToKeep :: "(time \<Rightarrow> string) \<Rightarrow> int \<Rightarrow> time \<Rightarrow> string list option" where
  "CalculateHoursToKeep fmt retentionPeriodHours currentTime =
     (if retentionPeriodHours + 1 < 0 then None
      else Some (map (\<lambda>i. fmt (currentTime - i * hour)) [0..<nat (retentionPeriodHours + 1)]))"

definition CompletedWorkflowsSelectorOutsideRetentionPeriod ::
    "(time \<Rightarrow> string) \<Rightarrow> int \<Rightarrow> time \<Rightarrow> LabelSelector option" where
  "CompletedWorkflowsSelectorOutsideRetentionPeriod fmt retentionPeriodHours currentTime =
     map_option (\<lambda>hoursToKeep. CompletedWorkflowsLabelSelector\<lparr>ls_MatchExpressions :=
        [\<lparr>lr_Key = completedTimeKey, lr_Operator = Op_NotIn, lr_Values = hoursToKeep\<rparr>,
         \<lparr>lr_Key = hourOfDayCompletedKey, lr_Operator = Op_DoesNotExist, lr_Values = []\<rparr>]\<rparr>)
     (CalculateHoursToKeep fmt retentionPeriodHours currentTime)"

text \<open>The hour of the day, in the time zone of the clock, which is taken to be UTC.\<close>

definition hour_of_day :: "time \<Rightarrow> int" where "hour_of_day t = int (t div hour mod 24)"

definition DeprecatedCompletedWorkflowsSelectorOutsideRetentionPeriod :: "int \<Rightarrow> time \<Rightarrow> LabelSelector option" where
  "DeprecatedCompletedWorkflowsSelectorOutsideRetentionPeriod retentionPeriodHours currentTime =
     map_option (\<lambda>hoursToDelete. CompletedWorkflowsLabelSelector\<lparr>ls_MatchExpressions :=
        [\<lparr>lr_Key = hourOfDayCompletedKey, lr_Operator = Op_In, lr_Values = hoursToDelete\<rparr>]\<rparr>)
     (CalculateHoursToDelete (retentionPeriodHours - 1) (hour_of_day currentTime))"

subsection \<open>The garbage collector (garbage\_collector.go)\<close>

record GarbageCollector =
  gc_ttlHours :: int
  gc_namespace :: string
  gc_labelSelectorRequirements :: "LabelSelectorRequirement list"

definition NewGarbageCollector :: "int \<Rightarrow> string \<Rightarrow> LabelSelectorRequirement list \<Rightarrow> GarbageCollector" where
  "NewGarbageCollector maxTTLInHours limitNamespace requirements =
     \<lparr>gc_ttlHours = (if maxTTLInHours \<le> 23 then maxTTLInHours else 23), gc_namespace = limitNamespace,
      gc_labelSelectorRequirements = requirements\<rparr>"

text \<open>
  A request deletes the workflows of a namespace that a selector selects. A request that fails is logged and the next one is
  sent. \<open>namespaces\<close> is the list of namespaces or the error of listing them.
\<close>

definition delete_with :: "go_error + string list \<Rightarrow> GarbageCollector \<Rightarrow> LabelSelector option \<Rightarrow>
    ((string \<times> LabelSelector) list) go" where
  "delete_with namespaces g selector =
     (case selector of
        None \<Rightarrow> Go_Panic
      | Some s0 \<Rightarrow>
          (let s = s0\<lparr>ls_MatchExpressions := ls_MatchExpressions s0 @ gc_labelSelectorRequirements g\<rparr>
           in if gc_namespace g = [] \<or> strings_ToLower (gc_namespace g) = ''all'' \<or>
                 strings_ToLower (gc_namespace g) = ''all-namespaces''
              then (case namespaces of Inl err \<Rightarrow> Go_Err err | Inr items \<Rightarrow> Go_Ok (map (\<lambda>n. (n, s)) items))
              else Go_Ok [(gc_namespace g, s)]))"

definition deleteWorkflows ::
    "(time \<Rightarrow> string) \<Rightarrow> go_error + string list \<Rightarrow> time \<Rightarrow> GarbageCollector \<Rightarrow> ((string \<times> LabelSelector) list) go" where
  "deleteWorkflows fmt namespaces now g =
     delete_with namespaces g (CompletedWorkflowsSelectorOutsideRetentionPeriod fmt (gc_ttlHours g) now)"

definition deprecatedDeleteWorkflows ::
    "go_error + string list \<Rightarrow> time \<Rightarrow> GarbageCollector \<Rightarrow> ((string \<times> LabelSelector) list) go" where
  "deprecatedDeleteWorkflows namespaces now g =
     delete_with namespaces g (DeprecatedCompletedWorkflowsSelectorOutsideRetentionPeriod (gc_ttlHours g) now)"

text \<open>One tick: both deletions, whose errors are logged. The collector runs only with a positive retention.\<close>

definition requests :: "'a list go \<Rightarrow> 'a list" where
  "requests r = (case r of Go_Ok xs \<Rightarrow> xs | _ \<Rightarrow> [])"

definition runGC_tick ::
    "(time \<Rightarrow> string) \<Rightarrow> go_error + string list \<Rightarrow> time \<Rightarrow> GarbageCollector \<Rightarrow> ((string \<times> LabelSelector) list) go" where
  "runGC_tick fmt namespaces now g =
     (case (deprecatedDeleteWorkflows namespaces now g, deleteWorkflows fmt namespaces now g) of
        (Go_Panic, _) \<Rightarrow> Go_Panic
      | (_, Go_Panic) \<Rightarrow> Go_Panic
      | (a, b) \<Rightarrow> Go_Ok (requests a @ requests b))"

definition StartGC :: "GarbageCollector \<Rightarrow> bool" where "StartGC g \<longleftrightarrow> gc_ttlHours g > 0"

subsection \<open>What a selector selects\<close>

definition meets :: "(string \<times> string) list \<Rightarrow> LabelSelectorRequirement \<Rightarrow> bool" where
  "meets ls r =
     (case lr_Operator r of
        Op_In \<Rightarrow> (case map_of ls (lr_Key r) of Some v \<Rightarrow> v \<in> set (lr_Values r) | None \<Rightarrow> False)
      | Op_NotIn \<Rightarrow> (case map_of ls (lr_Key r) of Some v \<Rightarrow> v \<notin> set (lr_Values r) | None \<Rightarrow> True)
      | Op_Exists \<Rightarrow> map_of ls (lr_Key r) \<noteq> None
      | Op_DoesNotExist \<Rightarrow> map_of ls (lr_Key r) = None)"

definition selects :: "LabelSelector \<Rightarrow> FlyteWorkflow \<Rightarrow> bool" where
  "selects s w \<longleftrightarrow> (let ls = (case fw_Labels w of None \<Rightarrow> [] | Some ls \<Rightarrow> ls)
     in list_all (\<lambda>(k, v). map_of ls k = Some v) (ls_MatchLabels s) \<and> list_all (meets ls) (ls_MatchExpressions s))"

lemma map_of_label_put [simp]: "map_of (label_put k v ls) = (map_of ls)(k \<mapsto> v)"
proof
  have "k' \<noteq> k \<Longrightarrow> map_of (filter (\<lambda>(k', _). k' \<noteq> k) ls) k' = map_of ls k'" for k' by (induction ls) auto
  then show "map_of (label_put k v ls) k' = ((map_of ls)(k \<mapsto> v)) k'" for k' by (auto simp: label_put_def)
qed

lemma completed_label: "HasCompletedLabel (SetCompletedLabel fmt t w)"
  by (simp add: HasCompletedLabel_def SetCompletedLabel_def label_keys)

text \<open>The informer, whose selector ignores completed workflows, and the completed label exclude each other.\<close>

lemma ignored_iff: "selects IgnoreCompletedWorkflowsLabelSelector w \<longleftrightarrow> \<not> HasCompletedLabel w"
  by (auto simp: selects_def IgnoreCompletedWorkflowsLabelSelector_def HasCompletedLabel_def meets_def Let_def
      split: option.split)

subsection \<open>Retention\<close>

lemma div_diff_mult: "(m - n * k) div k = m div k - (n::nat)" if "0 < k"
proof (cases "n * k \<le> m")
  case True
  then have "m div k = (m - n * k + n * k) div k" by simp
  also have "\<dots> = n + (m - n * k) div k" using that by simp
  finally show ?thesis by simp
next
  case False
  then have "m div k \<le> n" by (metis div_mult_self_is_m div_le_mono nat_le_linear that)
  then show ?thesis using False by simp
qed

lemma kept_hours:
  assumes "\<And>a b. fmt a = fmt b \<longleftrightarrow> a div hour = b div hour" "completed \<le> now" "n * hour \<le> now"
  shows "fmt completed \<in> set (map (\<lambda>i. fmt (now - i * hour)) [0..<Suc n]) \<longleftrightarrow> now div hour - completed div hour \<le> n"
proof -
  have pos: "0 < hour" by (simp add: hour_def)
  have shift: "(now - i * hour) div hour = now div hour - i" for i
    by (rule div_diff_mult [OF pos])
  have le: "completed div hour \<le> now div hour" using assms(2) by (rule div_le_mono)
  have "n \<le> now div hour" using assms(3) pos by (simp add: less_eq_div_iff_mult_less_eq)
  then have "(\<exists>i \<le> n. completed div hour = now div hour - i) \<longleftrightarrow> now div hour - completed div hour \<le> n"
    using le by (auto intro!: exI [of _ "now div hour - completed div hour"])
  then show ?thesis by (auto simp: assms(1) shift less_Suc_eq_le image_iff)
qed

lemma deleted_hours:
  assumes "0 \<le> r" "r < 24" "0 \<le> c" "c < 24" "h < (24::nat)" "CalculateHoursToDelete r c = Some hs"
  shows "itoa h \<in> set hs \<longleftrightarrow> (c - int h) mod 24 > r"
proof -
  let ?xs = "[0..c - r - 1] @ [c + 1..(if c - r < 0 then 24 + (c - r) else 24) - 1]"
  have hs: "hs = map (itoa \<circ> nat) ?xs" using assms(2,6) by (simp add: CalculateHoursToDelete_def Let_def)
  have nonneg: "\<And>x. x \<in> set ?xs \<Longrightarrow> 0 \<le> x" using assms(3) by auto
  have "itoa h \<in> set hs \<longleftrightarrow> itoa h \<in> itoa ` nat ` set ?xs" unfolding hs by (simp only: set_map image_comp)
  also have "\<dots> \<longleftrightarrow> int h \<in> set ?xs"
    using nonneg image_iff [of h nat "set ?xs"] inj_image_mem_iff [OF itoa_inj] by (metis int_nat_eq nat_int)
  also have "\<dots> \<longleftrightarrow> (c - int h) mod 24 > r"
  proof (cases "int h \<le> c")
    case True
    then have "(c - int h) mod 24 = c - int h" using assms by simp
    then show ?thesis using True assms(1-5) by auto
  next
    case False
    then have "(c - int h) mod 24 = c - int h + 24"
      using assms(3,5) mod_pos_pos_trivial [of "c - int h + 24" 24] by simp
    then show ?thesis using False assms(1-5) by auto
  qed
  finally show ?thesis .
qed

text \<open>
  The garbage collector deletes what its retention period says. With any configured retention under which it
  starts, one tick sends requests (it never panics), and its selectors pick: of the workflows labelled when they
  completed, those that completed more than the retention in whole hours ago; and of the workflows with the deprecated label of the
  hour of the day, those whose hour lies outside the last hours of that number, around the clock. The retention is
  at most 23 hours, whatever is configured.
\<close>

lemma gc_retention:
  assumes "g = NewGarbageCollector maxTTLInHours limitNamespace requirements" "StartGC g"
    "\<And>a b. fmt a = fmt b \<longleftrightarrow> a div hour = b div hour" "completed \<le> now" "23 * hour \<le> now"
  shows "gc_ttlHours g = min maxTTLInHours 23 \<and> runGC_tick fmt namespaces now g \<noteq> Go_Panic \<and>
    (\<exists>s d. CompletedWorkflowsSelectorOutsideRetentionPeriod fmt (gc_ttlHours g) now = Some s \<and>
      DeprecatedCompletedWorkflowsSelectorOutsideRetentionPeriod (gc_ttlHours g) now = Some d \<and>
      (selects s (SetCompletedLabel fmt completed w) \<longleftrightarrow>
         Option.bind (fw_Labels w) (\<lambda>ls. map_of ls hourOfDayCompletedKey) = None \<and>
         int (now div hour - completed div hour) > gc_ttlHours g) \<and>
      (\<forall>h < 24. Option.bind (fw_Labels w) (\<lambda>ls. map_of ls hourOfDayCompletedKey) = Some (itoa h) \<longrightarrow>
         (selects d (SetCompletedLabel fmt completed w) \<longleftrightarrow> (hour_of_day now - int h) mod 24 \<ge> gc_ttlHours g)))"
proof -
  let ?n = "gc_ttlHours g"
  have n: "?n = min maxTTLInHours 23" "0 < ?n" "?n \<le> 23"
    using assms(1,2) by (auto simp: NewGarbageCollector_def StartGC_def)
  obtain s d where sel: "CompletedWorkflowsSelectorOutsideRetentionPeriod fmt ?n now = Some s"
    "DeprecatedCompletedWorkflowsSelectorOutsideRetentionPeriod ?n now = Some d"
    using n by (auto simp: CompletedWorkflowsSelectorOutsideRetentionPeriod_def CalculateHoursToKeep_def
        DeprecatedCompletedWorkflowsSelectorOutsideRetentionPeriod_def CalculateHoursToDelete_def Let_def)
  have hod: "0 \<le> hour_of_day now" "hour_of_day now < 24" by (simp_all add: hour_of_day_def)
  have "nat ?n \<le> 23" using n(3) by simp
  then have "nat ?n * hour \<le> now" using assms(5) mult_le_mono1 le_trans by blast
  note kept = kept_hours [OF assms(3,4) this]
  have "nat (?n + 1) = Suc (nat ?n)" using n(2) by simp
  then have s: "selects s (SetCompletedLabel fmt completed w) \<longleftrightarrow>
      Option.bind (fw_Labels w) (\<lambda>ls. map_of ls hourOfDayCompletedKey) = None \<and> int (now div hour - completed div hour) > ?n"
    using sel(1) n(2) kept
    by (auto simp: CompletedWorkflowsSelectorOutsideRetentionPeriod_def CalculateHoursToKeep_def selects_def meets_def Let_def
        CompletedWorkflowsLabelSelector_def SetCompletedLabel_def label_keys split: option.splits)
  have "selects d (SetCompletedLabel fmt completed w) \<longleftrightarrow> (hour_of_day now - int h) mod 24 \<ge> ?n"
    if "h < 24" "Option.bind (fw_Labels w) (\<lambda>ls. map_of ls hourOfDayCompletedKey) = Some (itoa h)" for h
  proof -
    obtain hs where hs: "CalculateHoursToDelete (?n - 1) (hour_of_day now) = Some hs" "lr_Values (hd (ls_MatchExpressions d)) = hs"
      "d = CompletedWorkflowsLabelSelector\<lparr>ls_MatchExpressions :=
        [\<lparr>lr_Key = hourOfDayCompletedKey, lr_Operator = Op_In, lr_Values = hs\<rparr>]\<rparr>"
      using sel(2) by (auto simp: DeprecatedCompletedWorkflowsSelectorOutsideRetentionPeriod_def)
    from deleted_hours [OF _ _ hod that(1) hs(1)] n(2,3)
    have "itoa h \<in> set hs \<longleftrightarrow> (hour_of_day now - int h) mod 24 \<ge> ?n" by auto
    then show ?thesis using that(2)
      by (auto simp: hs(3) selects_def meets_def Let_def CompletedWorkflowsLabelSelector_def SetCompletedLabel_def label_keys
          split: option.splits)
  qed
  moreover have "runGC_tick fmt namespaces now g \<noteq> Go_Panic"
    using sel by (auto simp: runGC_tick_def deleteWorkflows_def deprecatedDeleteWorkflows_def delete_with_def Let_def
        split: go.split sum.split)
  ultimately show ?thesis using n(1) sel s by blast
qed


end
