(* ===== verification/Propeller.thy ===== *)
theory Propeller
  imports Workflow_Store Completed_Workflows
begin

section \<open>The reconciler (controller/handler.go)\<close>

text \<open>
  One call of \<open>Handle\<close> reads a workflow from the store and runs up to a configured number of rounds on it. A round works on a
  copy of the resource; what it has changed is written back, unless it failed. The state is that of the store together with
  the events and the count of requests to queue the workflow again.

  The record \<open>propeller\<close> holds the configuration, the store and what comes from packages: reading and parsing the part
  of a workflow that is stored apart, and the finalizers of a resource. Each round has its own environment of the executor (the clock, the
  node executor and the event sink as they are in this round). Metrics and traces are left out.
\<close>

record WfClosureCrdFields =
  cf_WorkflowSpec :: "WorkflowSpec option"
  cf_Tasks :: "addr option"
  cf_SubWorkflows :: "addr option"

record 's propeller =
  pr_wfStore :: "'s FlyteWorkflow_store"
  pr_MaxWorkflowRetries :: int
  pr_MaxStreakLength :: int
  pr_ReadClosure :: "string \<Rightarrow> go_error + addr"
  pr_BuildWfClosureCrdFields :: "addr \<Rightarrow> go_error + WfClosureCrdFields"
  pr_ContainsFinalizer :: "string \<Rightarrow> string list \<Rightarrow> bool"
  pr_AddFinalizer :: "string \<Rightarrow> string list \<Rightarrow> string list"
  pr_RemoveFinalizer :: "string \<Rightarrow> string list \<Rightarrow> string list"
  pr_FormatTime :: "time \<Rightarrow> string"
  pr_stack :: string

record 's pstate =
  ps_store :: 's
  ps_events :: "WorkflowExecutionEvent list"
  ps_enqueued :: nat

definition Finalizer :: string where "Finalizer = ''flyte.org/finalizer''"
definition OldFinalizer :: string where "OldFinalizer = ''flyte-finalizer''"

definition LatestWorkflowDefinitionVersion :: uint32 where "LatestWorkflowDefinitionVersion = 1"

subsection \<open>One mutation\<close>

definition RecordSystemError :: "FlyteWorkflow \<Rightarrow> go_error \<Rightarrow> FlyteWorkflow" where
  "RecordSystemError w err = w\<lparr>fw_Status := SetMessage (Error err) (IncFailedAttempts (fw_Status w))\<rparr>"

definition SetDefinitionVersionIfEmpty :: "uint32 \<Rightarrow> FlyteWorkflow \<Rightarrow> FlyteWorkflow" where
  "SetDefinitionVersionIfEmpty version w =
     (if ws_DefinitionVersion (fw_Status w) = None
      then w\<lparr>fw_Status := (fw_Status w)\<lparr>ws_DefinitionVersion := Some version\<rparr>\<rparr> else w)"

text \<open>Running the executor on a copy: a panic is recovered and becomes an error.\<close>

definition recovering :: "string \<Rightarrow> unit run \<Rightarrow> FlyteWorkflow \<Rightarrow> 's pstate \<Rightarrow> (go_error + FlyteWorkflow) \<times> 's pstate" where
  "recovering text m w p =
     (case m \<lparr>rd_w = w, rd_events = ps_events p, rd_enqueued = ps_enqueued p\<rparr> of
        (res, r) \<Rightarrow>
          (case res of
             Go_Ok _ \<Rightarrow> Inr (rd_w r)
           | Go_Err e \<Rightarrow> Inl e
           | Go_Panic \<Rightarrow> Inl (Plain_Error text),
           p\<lparr>ps_events := rd_events r, ps_enqueued := rd_enqueued r\<rparr>))"

definition TryMutateWorkflow ::
    "'s propeller \<Rightarrow> exec_env \<Rightarrow> FlyteWorkflow \<Rightarrow> 's pstate \<Rightarrow> (go_error + FlyteWorkflow) \<times> 's pstate" where
  "TryMutateWorkflow P E w p =
     (let maxRetries = word_of_int (pr_MaxWorkflowRetries P) :: uint32
      in if (case fw_DeletionTimestamp w of None \<Rightarrow> False | Some t \<Rightarrow> t \<noteq> 0) \<or> ws_FailedAttempts (fw_Status w) > maxRetries
         then recovering (''panic when aborting workflow, Stack: ['' @ pr_stack P @ '']'') (HandleAbortedWorkflow E maxRetries) w p
         else if \<not> wf_IsTerminated (fw_Status w) then
           (let w1 = w\<lparr>fw_Finalizers := pr_AddFinalizer P Finalizer (fw_Finalizers w)\<rparr>;
                w2 = SetDefinitionVersionIfEmpty LatestWorkflowDefinitionVersion w1
            in recovering (''panic when reconciling workflow, Stack: ['' @ pr_stack P @ '']'') (HandleFlyteWorkflow E) w2 p)
         else (Inr w, p))"

subsection \<open>One round\<close>

definition on_store :: "('s \<Rightarrow> 'a \<times> 's) \<Rightarrow> 's pstate \<Rightarrow> 'a \<times> 's pstate" where
  "on_store f p = (case f (ps_store p) of (x, s) \<Rightarrow> (x, p\<lparr>ps_store := s\<rparr>))"

definition remove_finalizers :: "'s propeller \<Rightarrow> FlyteWorkflow \<Rightarrow> FlyteWorkflow" where
  "remove_finalizers P w =
     w\<lparr>fw_Finalizers := pr_RemoveFinalizer P OldFinalizer (pr_RemoveFinalizer P Finalizer (fw_Finalizers w))\<rparr>"

text \<open>Writing a resource whose outcome ends the round.\<close>

definition write_last :: "'s propeller \<Rightarrow> FlyteWorkflow \<Rightarrow> 's pstate \<Rightarrow> FlyteWorkflow option go \<times> 's pstate" where
  "write_last P w p =
     (case on_store (st_Update (pr_wfStore P) w) p of
        (Inl e, p') \<Rightarrow> (Go_Err (store_go_error e), p') | (Inr _, p') \<Rightarrow> (Go_Ok None, p'))"

definition with_phase :: "exec_env \<Rightarrow> WorkflowPhase \<Rightarrow> string \<Rightarrow> string \<Rightarrow> string \<Rightarrow> FlyteWorkflow \<Rightarrow> FlyteWorkflow" where
  "with_phase E p msg code text w =
     w\<lparr>fw_Status := wf_UpdatePhase (en_now E) p msg (Some (new_error (en_alloc E) Kind_SYSTEM code text)) (fw_Status w)\<rparr>"

definition execution_missing :: "exec_env \<Rightarrow> FlyteWorkflow \<Rightarrow> FlyteWorkflow" where
  "execution_missing E = with_phase E WorkflowPhaseFailing ''Workflow execution is missing in flyteadmin, aborting''
     ''ExecutionNotFound'' ''Workflow execution not found in flyteadmin.''"

definition cluster_reassigned :: "exec_env \<Rightarrow> go_error \<Rightarrow> FlyteWorkflow \<Rightarrow> FlyteWorkflow" where
  "cluster_reassigned E err = with_phase E WorkflowPhaseFailing ''Workflow execution cluster reassigned, aborting''
     ''EventIncompatibleClusterError'' (''Workflow execution cluster reassigned: '' @ Error err)"

definition too_large :: "'s propeller \<Rightarrow> exec_env \<Rightarrow> FlyteWorkflow \<Rightarrow> FlyteWorkflow \<Rightarrow> FlyteWorkflow" where
  "too_large P E mutatedWf w =
     (let text = ''Workflow execution state is too large for Flyte to handle.''
      in if wf_IsTerminated (fw_Status mutatedWf) then
           with_phase E WorkflowPhaseFailed (''Workflow size has breached threshold. Finalized with status: '' @
               WorkflowPhase_String (ws_Phase (fw_Status mutatedWf))) ''WorkflowTooLarge'' text
             (SetCompletedLabel (pr_FormatTime P) (en_now E)
               (SetDefinitionVersionIfEmpty LatestWorkflowDefinitionVersion (remove_finalizers P w)))
         else with_phase E WorkflowPhaseFailing ''Workflow size has breached threshold, aborting'' ''WorkflowTooLarge'' text w)"

text \<open>
  Writing what the round has made of the workflow. Reading the version of a nil resource panics, and it is read for a
  workflow that has ended, too, by the message that is logged then.
\<close>

definition store_round ::
    "'s propeller \<Rightarrow> exec_env \<Rightarrow> FlyteWorkflow \<Rightarrow> FlyteWorkflow \<Rightarrow> go_error option \<Rightarrow> 's pstate
     \<Rightarrow> FlyteWorkflow option go \<times> 's pstate" where
  "store_round P E w mutatedWf err p =
     (case on_store (st_Update (pr_wfStore P) mutatedWf) p of
        (Inl updateErr, p') \<Rightarrow>
          (if IsWorkflowTooLarge updateErr then write_last P (too_large P E mutatedWf w) p'
           else (Go_Err (store_go_error updateErr), p'))
      | (Inr newWf, p') \<Rightarrow>
          (case err of
             Some e \<Rightarrow> (Go_Err e, p')
           | None \<Rightarrow>
               (case newWf of
                  None \<Rightarrow> (Go_Panic, p')
                | Some n \<Rightarrow>
                    (Go_Ok (if wf_IsTerminated (fw_Status mutatedWf) \<or> fw_ResourceVersion n = fw_ResourceVersion mutatedWf
                            then None else Some n), p'))))"

definition populate :: "WfClosureCrdFields \<Rightarrow> FlyteWorkflow \<Rightarrow> FlyteWorkflow" where
  "populate c w = w\<lparr>fw_Spec := cf_WorkflowSpec c, fw_Tasks := cf_Tasks c, fw_SubWorkflows := cf_SubWorkflows c\<rparr>"

definition strip :: "WfClosureCrdFields option \<Rightarrow> FlyteWorkflow \<Rightarrow> FlyteWorkflow" where
  "strip c w = (if c \<noteq> None then w\<lparr>fw_Spec := None, fw_Tasks := None, fw_SubWorkflows := None\<rparr> else w)"

definition streak ::
    "'s propeller \<Rightarrow> exec_env \<Rightarrow> WfClosureCrdFields option \<Rightarrow> FlyteWorkflow \<Rightarrow> 's pstate
     \<Rightarrow> FlyteWorkflow option go \<times> 's pstate" where
  "streak P E c w0 p0 =
     (case TryMutateWorkflow P E (case c of None \<Rightarrow> w0 | Some x \<Rightarrow> populate x w0) p0 of
        (res, p) \<Rightarrow>
          (let w = strip c w0
           in case res of
                Inl err \<Rightarrow>
                  if IsNotFound err \<and> ws_Phase (fw_Status w) \<noteq> WorkflowPhaseReady then write_last P (execution_missing E w) p
                  else if IsEventIncompatibleClusterError err then write_last P (cluster_reassigned E err w) p
                  else store_round P E w (RecordSystemError w err) (Some err) p
              | Inr m \<Rightarrow>
                  (let mutatedWf = strip c m
                   in if \<not> wf_IsTerminated (fw_Status w) \<and> WorkflowStatus_Equals (fw_Status mutatedWf) (Some (fw_Status w))
                      then (Go_Ok None, p)
                      else if wf_IsTerminated (fw_Status mutatedWf)
                      then store_round P E w (remove_finalizers P (SetCompletedLabel (pr_FormatTime P) (en_now E) mutatedWf)) None p
                      else store_round P E w mutatedWf None p)))"

subsection \<open>Handling a workflow\<close>

definition parseWorkflowClosureCrdFields :: "'s propeller \<Rightarrow> string \<Rightarrow> go_error + WfClosureCrdFields" where
  "parseWorkflowClosureCrdFields P dataReference =
     (case pr_ReadClosure P dataReference of Inl e \<Rightarrow> Inl e | Inr x \<Rightarrow> pr_BuildWfClosureCrdFields P x)"

text \<open>The loop; round \<open>i\<close> has the environment \<open>Es i\<close>.\<close>

fun streaks ::
    "'s propeller \<Rightarrow> (nat \<Rightarrow> exec_env) \<Rightarrow> WfClosureCrdFields option \<Rightarrow> nat \<Rightarrow> nat \<Rightarrow> FlyteWorkflow \<Rightarrow> 's pstate
     \<Rightarrow> unit go \<times> 's pstate" where
  "streaks P Es c i 0 w p = (Go_Ok (), p)"
| "streaks P Es c i (Suc n) w p =
     (case streak P (Es i) c w p of
        (Go_Err e, p') \<Rightarrow> (Go_Err e, p')
      | (Go_Panic, p') \<Rightarrow> (Go_Panic, p')
      | (Go_Ok None, p') \<Rightarrow> (Go_Ok (), p')
      | (Go_Ok (Some w'), p') \<Rightarrow> streaks P Es c (Suc i) n w' p')"

definition maxLength :: "'s propeller \<Rightarrow> nat" where
  "maxLength P = (if pr_MaxStreakLength P \<le> 0 then 1 else nat (pr_MaxStreakLength P))"

definition is_done :: "'s propeller \<Rightarrow> FlyteWorkflow \<Rightarrow> bool" where
  "is_done P w \<longleftrightarrow> wf_IsTerminated (fw_Status w) \<and> HasCompletedLabel w \<and>
     \<not> pr_ContainsFinalizer P Finalizer (fw_Finalizers w) \<and> \<not> pr_ContainsFinalizer P OldFinalizer (fw_Finalizers w)"

definition Handle :: "'s propeller \<Rightarrow> (nat \<Rightarrow> exec_env) \<Rightarrow> string \<Rightarrow> string \<Rightarrow> 's pstate \<Rightarrow> unit go \<times> 's pstate" where
  "Handle P Es namespace name p0 =
     (case on_store (st_Get (pr_wfStore P) namespace name) p0 of
        (Inl fetchErr, p) \<Rightarrow>
          (if store_IsNotFound fetchErr \<or> IsWorkflowTerminated fetchErr \<or> IsWorkflowStale fetchErr then (Go_Ok (), p)
           else (Go_Err (store_go_error fetchErr), p))
      | (Inr None, p) \<Rightarrow> (Go_Panic, p)
      | (Inr (Some w), p) \<Rightarrow>
          if is_done P w then (Go_Ok (), p)
          else
            (let run = (\<lambda>c. streaks P Es c 0 (maxLength P) w p)
             in if fw_WorkflowClosureReference w \<noteq> [] then
                  (case parseWorkflowClosureCrdFields P (fw_WorkflowClosureReference w) of
                     Inl e \<Rightarrow> (Go_Err e, p) | Inr c \<Rightarrow> run (Some c))
                else run None))"

subsection \<open>What the executor leaves alone\<close>

text \<open>Everything of a resource but its status.\<close>

definition outside :: "FlyteWorkflow \<Rightarrow> FlyteWorkflow" where
  "outside w = w\<lparr>fw_Status := sample_status\<rparr>"

lemma outside_upd [simp]: "outside (w\<lparr>fw_Status := s\<rparr>) = outside w"
  by (simp add: outside_def)

lemma outside_eqD:
  assumes "outside w = outside w'"
  shows "fw_Namespace w = fw_Namespace w'" "fw_Name w = fw_Name w'" "fw_Spec w = fw_Spec w'"
    "fw_DeletionTimestamp w = fw_DeletionTimestamp w'" "fw_WorkflowClosureReference w = fw_WorkflowClosureReference w'"
  using assms by (cases w; cases w'; simp add: outside_def)+

lemma core_outside: "core_of w = core_of w' \<Longrightarrow> outside w = outside w'"
  by (cases w; cases w'; simp add: core_of_def outside_def)

definition status_only :: "'a run \<Rightarrow> bool" where
  "status_only m \<longleftrightarrow> (\<forall>r. outside (rd_w (snd (m r))) = outside (rd_w r))"

named_theorems status_only_intros

lemma status_only_bind [status_only_intros]:
  assumes "status_only m" "\<And>x. status_only (f x)"
  shows "status_only (run_bind m f)"
  unfolding status_only_def
proof
  fix r
  obtain x r1 where m: "m r = (x, r1)" by fastforce
  then have "outside (rd_w r1) = outside (rd_w r)" using assms(1) by (metis snd_conv status_only_def)
  then show "outside (rd_w (snd (run_bind m f r))) = outside (rd_w r)"
    using assms(2) m by (cases x) (simp_all add: run_bind_def status_only_def)
qed

lemma status_only_steps [status_only_intros]:
  "status_only (run_ok x)" "status_only (run_err e)" "status_only run_panic" "status_only the_spec" "status_only get_w"
  "status_only enqueueWorkflow" "status_only (upd_status f)" "status_only (node_status E i)" "status_only observe_duration"
  "status_only (IdempotentReportEvent E ev)"
  by (auto simp: status_only_def run_simps node_status_def observe_duration_def IdempotentReportEvent_def
      split: option.split prod.split)

lemma status_only_nodes [status_only_intros]:
  "(\<And>w. core_of (snd (f w)) = core_of w) \<Longrightarrow> status_only (on_workflow f)"
  unfolding status_only_def on_workflow_def using core_outside by (metis (no_types, lifting) prod.collapse round.select_convs(1)
    round.update_convs(1) round.surjective snd_conv split_conv)

lemma status_only_transition [status_only_intros]: "status_only (TransitionToPhase E st)"
proof -
  have "status_only (update_for E st)"
    unfolding update_for_def failing_transition_def Let_def
    by (auto intro!: status_only_intros split: WorkflowPhase.split)
  moreover have "status_only (handle_recording E ev err)" for ev err
    unfolding handle_recording_def by (auto intro!: status_only_intros split: option.split)
  ultimately have "status_only (run_bind (update_for E st) (\<lambda>ev.
      run_bind (IdempotentReportEvent E ev) (\<lambda>err. handle_recording E ev err)))"
    by (intro status_only_intros)
  then show ?thesis by (simp add: TransitionToPhase_def status_only_def)
qed

lemma status_only_cleanup: "frames E \<Longrightarrow> status_only (cleanupRunningNodes E reason)"
  unfolding status_only_def
proof
  fix r
  assume fr: "frames E"
  have "on_workflow (en_AbortHandler E n reason) r = (x, r') \<Longrightarrow> outside (rd_w r') = outside (rd_w r)" for n x r'
    using status_only_nodes [of "en_AbortHandler E n reason"] fr by (metis frames_def snd_conv status_only_def)
  then show "outside (rd_w (snd (cleanupRunningNodes E reason r))) = outside (rd_w r)"
    unfolding cleanup_unfold by (auto split: option.split prod.split go.split)
qed

lemma status_only_abort: "frames E \<Longrightarrow> status_only (HandleAbortedWorkflow E maxRetries)"
  unfolding status_only_def
proof
  fix r
  assume fr: "frames E"
  obtain x r1 where c: "cleanupRunningNodes E (abort_reason (rd_w r) maxRetries) r = (x, r1)" by fastforce
  then have "outside (rd_w r1) = outside (rd_w r)" using status_only_cleanup [OF fr] by (metis snd_conv status_only_def)
  moreover have "outside (rd_w (snd (TransitionToPhase E st r1))) = outside (rd_w r1)" for st
    using status_only_transition by (simp add: status_only_def)
  ultimately show "outside (rd_w (snd (HandleAbortedWorkflow E maxRetries r))) = outside (rd_w r)"
    using c by (cases x) (auto simp: HandleAbortedWorkflow_def Let_def)
qed

lemma definition_version_fields [simp]:
  "fw_Spec (SetDefinitionVersionIfEmpty v w) = fw_Spec w"
  "outside (SetDefinitionVersionIfEmpty v w) = outside w"
  "ws_Phase (fw_Status (SetDefinitionVersionIfEmpty v w)) = ws_Phase (fw_Status w)"
  "ws_FailedAttempts (fw_Status (SetDefinitionVersionIfEmpty v w)) = ws_FailedAttempts (fw_Status w)"
  by (auto simp: SetDefinitionVersionIfEmpty_def)

lemma maxLength_Suc: "\<exists>l. maxLength P = Suc l"
  by (rule gr0_implies_Suc) (simp add: maxLength_def)

subsection \<open>Stores that accept every write\<close>

locale accepting_store =
  fixes S :: "'s FlyteWorkflow_store" and held :: "string \<Rightarrow> string \<Rightarrow> 's \<Rightarrow> FlyteWorkflow option"
  assumes get_held: "held namespace name s = Some w \<Longrightarrow> st_Get S namespace name s = (Inr (Some w), s)"
    and update_held: "held (fw_Namespace w) (fw_Name w) s \<noteq> None \<Longrightarrow>
      \<exists>v s'. st_Update S w s = (Inr (Some (w\<lparr>fw_ResourceVersion := v\<rparr>)), s') \<and> v \<noteq> fw_ResourceVersion w \<and>
        held (fw_Namespace w) (fw_Name w) s' = Some (w\<lparr>fw_ResourceVersion := v\<rparr>)"

definition memory_held :: "string \<Rightarrow> string \<Rightarrow> ('k, 'f) store_state \<Rightarrow> FlyteWorkflow option" where
  "memory_held namespace name s =
     (if namespace = [] \<or> name = [] then None else Option.bind (ss_memory s namespace) (\<lambda>m. m name))"

interpretation memory: accepting_store "NewInMemoryWorkflowStore K" "memory_held :: _ \<Rightarrow> _ \<Rightarrow> ('k, 'f) store_state \<Rightarrow> _"
  for K :: "'k kube"
proof
  fix namespace name and s :: "('k, 'f) store_state" and w
  assume "memory_held namespace name s = Some w"
  then show "st_Get (NewInMemoryWorkflowStore K) namespace name s = (Inr (Some w), s)"
    by (auto simp: memory_held_def NewInMemoryWorkflowStore_def memory_Get_def split: if_split_asm)
next
  fix w :: FlyteWorkflow and s :: "('k, 'f) store_state"
  assume "memory_held (fw_Namespace w) (fw_Name w) s \<noteq> None"
  then show "\<exists>v s'. st_Update (NewInMemoryWorkflowStore K) w s = (Inr (Some (w\<lparr>fw_ResourceVersion := v\<rparr>)), s') \<and>
      v \<noteq> fw_ResourceVersion w \<and> memory_held (fw_Namespace w) (fw_Name w) s' = Some (w\<lparr>fw_ResourceVersion := v\<rparr>)"
    by (auto simp: memory_held_def NewInMemoryWorkflowStore_def memory_Update_def memory_put_def Let_def
        split: if_split_asm)
qed

text \<open>What a round writes into such a store.\<close>

context accepting_store
begin

lemma store_round_held:
  assumes "pr_wfStore P = S" "held (fw_Namespace m) (fw_Name m) (ps_store p) \<noteq> None"
  shows "\<exists>v p'. ps_events p' = ps_events p \<and> ps_enqueued p' = ps_enqueued p \<and> v \<noteq> fw_ResourceVersion m \<and>
    held (fw_Namespace m) (fw_Name m) (ps_store p') = Some (m\<lparr>fw_ResourceVersion := v\<rparr>) \<and>
    store_round P E w m err p =
      (case err of Some e \<Rightarrow> Go_Err e
       | None \<Rightarrow> Go_Ok (if wf_IsTerminated (fw_Status m) then None else Some (m\<lparr>fw_ResourceVersion := v\<rparr>)), p')"
proof -
  obtain v s' where u: "st_Update S m (ps_store p) = (Inr (Some (m\<lparr>fw_ResourceVersion := v\<rparr>)), s')"
    "v \<noteq> fw_ResourceVersion m" "held (fw_Namespace m) (fw_Name m) s' = Some (m\<lparr>fw_ResourceVersion := v\<rparr>)"
    using update_held [OF assms(2)] by blast
  then have "store_round P E w m err p =
      (case err of Some e \<Rightarrow> Go_Err e
       | None \<Rightarrow> Go_Ok (if wf_IsTerminated (fw_Status m) then None else Some (m\<lparr>fw_ResourceVersion := v\<rparr>)), p\<lparr>ps_store := s'\<rparr>)"
    using assms(1) by (simp add: store_round_def on_store_def split: option.split)
  with u(2,3) show ?thesis by (intro exI [of _ v] exI [of _ "p\<lparr>ps_store := s'\<rparr>"]) simp
qed

lemma write_last_held:
  assumes "pr_wfStore P = S" "held (fw_Namespace m) (fw_Name m) (ps_store p) \<noteq> None"
  shows "\<exists>v p'. write_last P m p = (Go_Ok None, p') \<and>
    held (fw_Namespace m) (fw_Name m) (ps_store p') = Some (m\<lparr>fw_ResourceVersion := v\<rparr>)"
  using update_held [OF assms(2)] assms(1) by (auto simp: write_last_def on_store_def)

lemma handle_held:
  assumes "pr_wfStore P = S" "held namespace name (ps_store p) = Some w" "\<not> wf_IsTerminated (fw_Status w)"
    "fw_WorkflowClosureReference w = []"
  shows "Handle P Es namespace name p =
    streaks P Es None 0 (maxLength P) w p"
  using get_held [OF assms(2)] assms(1,3,4) by (simp add: Handle_def on_store_def is_done_def)

end

subsection \<open>Rounds that fail\<close>

text \<open>
  An environment in which the executor fails, other than because the execution is lost, on workflows with the specification and the phase of a
  given one.
\<close>

definition fails_on :: "exec_env \<Rightarrow> FlyteWorkflow \<Rightarrow> bool" where
  "fails_on E w \<longleftrightarrow> (\<forall>r. fw_Spec (rd_w r) = fw_Spec w \<and> phase_of r = ws_Phase (fw_Status w) \<longrightarrow>
     (case fst (HandleFlyteWorkflow E r) of
        Go_Ok _ \<Rightarrow> False | Go_Err e \<Rightarrow> \<not> IsNotFound e \<and> \<not> IsEventIncompatibleClusterError e | Go_Panic \<Rightarrow> True))"

lemma plain_not_lost [simp]: "\<not> IsNotFound (Plain_Error t)" "\<not> IsEventIncompatibleClusterError (Plain_Error t)"
  by (simp_all add: event_error_checks)

lemma mutation_fails:
  assumes "fails_on E w" "fw_DeletionTimestamp w = None" "\<not> wf_IsTerminated (fw_Status w)"
    "ws_FailedAttempts (fw_Status w) \<le> word_of_int (pr_MaxWorkflowRetries P)"
  shows "\<exists>e evs n. TryMutateWorkflow P E w p = (Inl e, p\<lparr>ps_events := evs, ps_enqueued := n\<rparr>) \<and>
    \<not> IsNotFound e \<and> \<not> IsEventIncompatibleClusterError e"
proof -
  let ?w = "SetDefinitionVersionIfEmpty LatestWorkflowDefinitionVersion (w\<lparr>fw_Finalizers := pr_AddFinalizer P Finalizer (fw_Finalizers w)\<rparr>)"
  let ?r = "\<lparr>rd_w = ?w, rd_events = ps_events p, rd_enqueued = ps_enqueued p\<rparr>"
  obtain x r' where h: "HandleFlyteWorkflow E ?r = (x, r')" by fastforce
  then have "case x of Go_Ok _ \<Rightarrow> False | Go_Err e \<Rightarrow> \<not> IsNotFound e \<and> \<not> IsEventIncompatibleClusterError e | Go_Panic \<Rightarrow> True"
    using assms(1) [unfolded fails_on_def, rule_format, of ?r] by simp
  moreover have "TryMutateWorkflow P E w p =
      recovering (''panic when reconciling workflow, Stack: ['' @ pr_stack P @ '']'') (HandleFlyteWorkflow E) ?w p"
    using assms(2-4) by (simp add: TryMutateWorkflow_def Let_def not_less [symmetric])
  ultimately show ?thesis by (cases x) (auto simp: recovering_def h intro!: exI [of _ "rd_events r'"] exI [of _ "rd_enqueued r'"])
qed

text \<open>The workflow that waits for its next attempt, after a number of attempts that failed.\<close>

definition waiting :: "FlyteWorkflow \<Rightarrow> nat \<Rightarrow> FlyteWorkflow \<Rightarrow> bool" where
  "waiting w0 n w \<longleftrightarrow> (\<exists>msg v. w = w0\<lparr>fw_ResourceVersion := v,
     fw_Status := (fw_Status w0)\<lparr>ws_FailedAttempts := of_nat n, ws_Message := msg\<rparr>\<rparr>)"

definition fresh_workflow :: "FlyteWorkflow \<Rightarrow> bool" where
  "fresh_workflow w \<longleftrightarrow> fw_DeletionTimestamp w = None \<and> \<not> wf_IsTerminated (fw_Status w) \<and>
     ws_FailedAttempts (fw_Status w) = 0 \<and> fw_WorkflowClosureReference w = []"

lemma waiting_fields:
  assumes "waiting w0 n w"
  shows "fw_Namespace w = fw_Namespace w0" "fw_Name w = fw_Name w0" "fw_DeletionTimestamp w = fw_DeletionTimestamp w0"
    "wf_IsTerminated (fw_Status w) = wf_IsTerminated (fw_Status w0)" "ws_FailedAttempts (fw_Status w) = of_nat n"
    "fw_WorkflowClosureReference w = fw_WorkflowClosureReference w0" "fw_Spec w = fw_Spec w0"
    "ws_Phase (fw_Status w) = ws_Phase (fw_Status w0)"
  using assms by (auto simp: waiting_def wf_IsTerminated_def)

lemma waiting_next:
  "waiting w0 n w \<Longrightarrow> waiting w0 (Suc n) ((RecordSystemError w e)\<lparr>fw_ResourceVersion := v\<rparr>)"
  unfolding waiting_def
  by (rule exI [of _ "Error e"], rule exI [of _ v])
    (cases w0, auto simp: RecordSystemError_def SetMessage_def IncFailedAttempts_def add.commute)

lemma of_nat_le_word: "n \<le> unat m \<Longrightarrow> of_nat n \<le> (m :: uint32)"
  by (simp add: word_le_nat_alt le_unat_uoi)

lemma streak_error:
  assumes "TryMutateWorkflow P E w p = (Inl e, p1)" "\<not> IsNotFound e" "\<not> IsEventIncompatibleClusterError e"
  shows "streak P E None w p = store_round P E w (RecordSystemError w e) (Some e) p1"
  using assms by (simp add: streak_def strip_def Let_def)

definition handle_all ::
    "'s propeller \<Rightarrow> (nat \<Rightarrow> exec_env) list \<Rightarrow> string \<Rightarrow> string \<Rightarrow> 's pstate \<Rightarrow> 's pstate" where
  "handle_all P Ess namespace name p = fold (\<lambda>Es p. snd (Handle P Es namespace name p)) Ess p"

context accepting_store
begin

lemma handle_fails:
  assumes "pr_wfStore P = S" "held (fw_Namespace w0) (fw_Name w0) (ps_store p) = Some w" "waiting w0 n w" "fresh_workflow w0"
    "of_nat n \<le> (word_of_int (pr_MaxWorkflowRetries P) :: uint32)" "fails_on (Es 0) w0"
  shows "\<exists>e p' w'. Handle P Es (fw_Namespace w0) (fw_Name w0) p = (Go_Err e, p') \<and>
    held (fw_Namespace w0) (fw_Name w0) (ps_store p') = Some w' \<and> waiting w0 (Suc n) w'"
proof -
  note wf = waiting_fields [OF assms(3)]
  have fresh: "fw_DeletionTimestamp w = None" "\<not> wf_IsTerminated (fw_Status w)" "fw_WorkflowClosureReference w = []"
    using assms(4) wf by (simp_all add: fresh_workflow_def)
  obtain e evs k where mu: "TryMutateWorkflow P (Es 0) w p = (Inl e, p\<lparr>ps_events := evs, ps_enqueued := k\<rparr>)"
    "\<not> IsNotFound e" "\<not> IsEventIncompatibleClusterError e"
    using mutation_fails [OF _ fresh(1,2), of "Es 0" P p] assms(5,6) wf(5,7,8) by (auto simp: fails_on_def)
  let ?m = "RecordSystemError w e"
  have "fw_Namespace ?m = fw_Namespace w0" "fw_Name ?m = fw_Name w0" using wf by (simp_all add: RecordSystemError_def)
  then obtain v p' where sr: "store_round P (Es 0) w ?m (Some e) (p\<lparr>ps_events := evs, ps_enqueued := k\<rparr>) = (Go_Err e, p')"
    "held (fw_Namespace w0) (fw_Name w0) (ps_store p') = Some (?m\<lparr>fw_ResourceVersion := v\<rparr>)"
    using store_round_held [OF assms(1), of ?m "p\<lparr>ps_events := evs, ps_enqueued := k\<rparr>" "Es 0" w "Some e"] assms(2) by auto
  obtain l where l: "maxLength P = Suc l" using maxLength_Suc by blast
  have "Handle P Es (fw_Namespace w0) (fw_Name w0) p = (Go_Err e, p')"
    unfolding handle_held [OF assms(1,2) fresh(2,3)] l using streak_error [OF mu] sr(1) by simp
  then show ?thesis using sr(2) waiting_next [OF assms(3)] by blast
qed

lemma handle_all_fails:
  assumes "pr_wfStore P = S" "fresh_workflow w0"
  shows "held (fw_Namespace w0) (fw_Name w0) (ps_store p) = Some w \<Longrightarrow> waiting w0 n w \<Longrightarrow>
    (\<And>Es. Es \<in> set Ess \<Longrightarrow> fails_on (Es 0) w0) \<Longrightarrow>
    n + length Ess \<le> Suc (unat (word_of_int (pr_MaxWorkflowRetries P) :: uint32)) \<Longrightarrow>
    \<exists>w'. held (fw_Namespace w0) (fw_Name w0) (ps_store (handle_all P Ess (fw_Namespace w0) (fw_Name w0) p)) = Some w' \<and>
      waiting w0 (n + length Ess) w'"
proof (induction Ess arbitrary: n p w)
  case (Cons Es Ess)
  have "of_nat n \<le> (word_of_int (pr_MaxWorkflowRetries P) :: uint32)"
    using Cons.prems(4) by (intro of_nat_le_word) simp
  then obtain e p' w' where h: "Handle P Es (fw_Namespace w0) (fw_Name w0) p = (Go_Err e, p')"
    "held (fw_Namespace w0) (fw_Name w0) (ps_store p') = Some w'" "waiting w0 (Suc n) w'"
    using handle_fails [OF assms(1) Cons.prems(1,2) assms(2)] Cons.prems(3) by (metis list.set_intros(1))
  show ?case using Cons.IH [OF h(2,3)] Cons.prems(3,4) h(1) by (simp add: handle_all_def)
qed (simp add: handle_all_def)

end

subsection \<open>The round that gives up\<close>

text \<open>A node executor that can be asked to abort, and a sink that takes events.\<close>

definition cooperates :: "exec_env \<Rightarrow> bool" where
  "cooperates E \<longleftrightarrow> frames E \<and> (\<forall>n reason w. fst (en_AbortHandler E n reason w) \<noteq> Go_Panic) \<and>
     (\<forall>e. en_RecordWorkflowEvent E e = None)"

lemma giving_up:
  assumes "cooperates E" "ws_FailedAttempts (fw_Status w) > word_of_int (pr_MaxWorkflowRetries P)"
    "\<not> wf_IsTerminated (fw_Status w)" "fw_Spec w \<noteq> None"
  shows "\<exists>m evs n. TryMutateWorkflow P E w p = (Inr m, p\<lparr>ps_events := evs, ps_enqueued := n\<rparr>) \<and>
    outside m = outside w \<and> ws_Phase (fw_Status m) = WorkflowPhaseFailed"
proof -
  let ?max = "word_of_int (pr_MaxWorkflowRetries P) :: uint32"
  let ?r = "\<lparr>rd_w = w, rd_events = ps_events p, rd_enqueued = ps_enqueued p\<rparr>"
  have fr: "frames E" using assms(1) by (simp add: cooperates_def)
  obtain r' where h: "HandleAbortedWorkflow E ?max ?r = (Go_Ok (), r')"
    using abort_returns [OF fr, of ?r _ ?max] assms by (auto simp: cooperates_def)
  moreover have "phase_of r' = WorkflowPhaseFailed"
    using abort_ends [OF fr h] assms(2,3) by (simp add: terminal_iff)
  moreover have "outside (rd_w r') = outside w"
    using status_only_abort [OF fr, of ?max] h by (metis round.select_convs(1) snd_conv status_only_def)
  moreover have "TryMutateWorkflow P E w p =
      recovering (''panic when aborting workflow, Stack: ['' @ pr_stack P @ '']'') (HandleAbortedWorkflow E ?max) w p"
    using assms(2) by (simp add: TryMutateWorkflow_def Let_def)
  ultimately show ?thesis by (auto simp: recovering_def intro!: exI [of _ "rd_events r'"] exI [of _ "rd_enqueued r'"])
qed

definition finalizers_ok :: "'s propeller \<Rightarrow> bool" where
  "finalizers_ok P \<longleftrightarrow> (\<forall>f g fs. \<not> pr_ContainsFinalizer P f (pr_RemoveFinalizer P f fs) \<and>
     (pr_ContainsFinalizer P f (pr_RemoveFinalizer P g fs) \<longrightarrow> pr_ContainsFinalizer P f fs))"

lemma finalized_done:
  assumes "finalizers_ok P" "wf_IsTerminated (fw_Status m)"
  shows "is_done P ((remove_finalizers P (SetCompletedLabel fmt t m))\<lparr>fw_ResourceVersion := v\<rparr>)"
proof -
  let ?fs = "pr_RemoveFinalizer P OldFinalizer (pr_RemoveFinalizer P Finalizer (fw_Finalizers m))"
  have "\<not> pr_ContainsFinalizer P Finalizer ?fs" "\<not> pr_ContainsFinalizer P OldFinalizer ?fs"
    using assms(1) unfolding finalizers_ok_def by blast+
  then show ?thesis using assms(2) completed_label [of fmt t m]
    by (simp add: is_done_def remove_finalizers_def SetCompletedLabel_def HasCompletedLabel_def)
qed

context accepting_store
begin

lemma handle_gives_up:
  assumes "pr_wfStore P = S" "held (fw_Namespace w) (fw_Name w) (ps_store p) = Some w" "\<not> wf_IsTerminated (fw_Status w)"
    "fw_WorkflowClosureReference w = []" "ws_FailedAttempts (fw_Status w) > word_of_int (pr_MaxWorkflowRetries P)"
    "cooperates (Es 0)" "fw_Spec w \<noteq> None" "finalizers_ok P"
  shows "\<exists>p' w'. Handle P Es (fw_Namespace w) (fw_Name w) p = (Go_Ok (), p') \<and>
    held (fw_Namespace w) (fw_Name w) (ps_store p') = Some w' \<and> ws_Phase (fw_Status w') = WorkflowPhaseFailed \<and> is_done P w'"
proof -
  obtain m evs n where m: "TryMutateWorkflow P (Es 0) w p = (Inr m, p\<lparr>ps_events := evs, ps_enqueued := n\<rparr>)"
    "outside m = outside w" "ws_Phase (fw_Status m) = WorkflowPhaseFailed"
    using giving_up [OF assms(6,5,3,7)] by blast
  let ?m = "remove_finalizers P (SetCompletedLabel (pr_FormatTime P) (en_now (Es 0)) m)"
  have st: "fw_Status ?m = fw_Status m" "fw_Namespace ?m = fw_Namespace w" "fw_Name ?m = fw_Name w"
    using outside_eqD [OF m(2)] by (simp_all add: remove_finalizers_def SetCompletedLabel_def)
  have ended: "wf_IsTerminated (fw_Status m)" using m(3) by (simp add: wf_IsTerminated_def)
  have "ws_Phase (fw_Status m) \<noteq> ws_Phase (fw_Status w)" using m(3) assms(3) by (auto simp: wf_IsTerminated_def)
  then have "streak P (Es 0) None w p = store_round P (Es 0) w ?m None (p\<lparr>ps_events := evs, ps_enqueued := n\<rparr>)"
    using m(1) ended by (simp add: streak_def strip_def WorkflowStatus_Equals_def)
  moreover obtain v p' where "store_round P (Es 0) w ?m None (p\<lparr>ps_events := evs, ps_enqueued := n\<rparr>) = (Go_Ok None, p')"
    "held (fw_Namespace w) (fw_Name w) (ps_store p') = Some (?m\<lparr>fw_ResourceVersion := v\<rparr>)"
    using store_round_held [OF assms(1), of ?m "p\<lparr>ps_events := evs, ps_enqueued := n\<rparr>" "Es 0" w None] assms(2) ended st by auto
  ultimately show ?thesis
    using handle_held [OF assms(1-4), of Es] maxLength_Suc [of P] finalized_done [OF assms(8) ended] m(3) st(1) by fastforce
qed

end


subsection \<open>A lost execution with a failure node\<close>

text \<open>The control plane does not know the execution: it rejects every event, and so the nodes cannot be handled either.\<close>

definition lost_execution :: "exec_env \<Rightarrow> bool" where
  "lost_execution E \<longleftrightarrow> frames E \<and>
     (\<forall>ev. \<exists>e. en_RecordWorkflowEvent E ev = Some e \<and> IsNotFound e \<and> \<not> IsAlreadyExists e \<and> \<not> IsEventAlreadyInTerminalStateError e) \<and>
     (\<forall>k n w. \<exists>e. fst (en_RecursiveNodeHandler E k n w) = Go_Err e \<and> IsNotFound e) \<and>
     (\<forall>n reason w. fst (en_AbortHandler E n reason w) = Go_Ok ())"

lemma on_workflow_fst: "fst (on_workflow f r) = fst (f (rd_w r))"
  by (simp add: on_workflow_def split: prod.split)

lemma lost_failing:
  assumes "lost_execution E" "fw_Spec (rd_w r) = Some sp" "StartNode sp \<noteq> None" "GetOnFailureNode sp \<noteq> None"
    "phase_of r = WorkflowPhaseFailing"
  shows "\<exists>r'. HandleFlyteWorkflow E r = (Go_Ok (), r') \<and> phase_of r' = WorkflowPhaseHandlingFailureNode \<and>
    outside (rd_w r') = outside (rd_w r) \<and> ws_FailedAttempts (fw_Status (rd_w r')) = ws_FailedAttempts (fw_Status (rd_w r))"
proof -
  have fr: "frames E" using assms(1) by (simp add: lost_execution_def)
  obtain x r1 where c: "cleanupRunningNodes E ''Some node execution failed, auto-abort.'' r = (x, r1)" by fastforce
  have "fst (on_workflow (en_AbortHandler E n reason) r) = Go_Ok ()" for n reason
    using assms(1) by (simp add: on_workflow_fst lost_execution_def)
  then have x: "x = Go_Ok ()" using c assms(2,3)
    by (auto simp: cleanup_unfold split: prod.split_asm go.split_asm) (metis fst_conv go.distinct)+
  have q: "quiet r r1" using cleanup_quiet [OF fr c] .
  have o1: "outside (rd_w r1) = outside (rd_w r)" using status_only_cleanup [OF fr] c by (metis snd_conv status_only_def)
  define st where "st = StatusFailureNode (last_execution_error E (rd_w r))"
  have hf: "handleFailingWorkflow E r = (Go_Ok st, r1)"
    using c x q assms(2,4) by (simp add: handleFailingWorkflow_def run_bind_def run_simps quiet_def Let_def st_def)
  have ph: "TransitionToPhase_of st = WorkflowPhaseHandlingFailureNode" by (simp add: st_def StatusFailureNode_def)
  obtain ev r2 where u: "update_for E st r1 = (Go_Ok ev, r2)" "phase_of r2 = WorkflowPhaseHandlingFailureNode"
    "ev_Phase ev = Wf_FAILING" "ws_FailedAttempts (fw_Status (rd_w r2)) = ws_FailedAttempts (fw_Status (rd_w r1))"
    using update_for_run [of st E r1] ph by auto
  obtain e where e: "en_RecordWorkflowEvent E ev = Some e" "IsNotFound e" "\<not> IsAlreadyExists e"
    "\<not> IsEventAlreadyInTerminalStateError e" using assms(1) unfolding lost_execution_def by metis
  have tr: "TransitionToPhase E st r1 = (Go_Ok (), r2\<lparr>rd_events := rd_events r2 @ [ev]\<rparr>)"
    using q assms(5) ph u e by (simp add: TransitionToPhase_def quiet_def run_bind_def IdempotentReportEvent_def
        handle_recording_def run_simps)
  moreover have "outside (rd_w r2) = outside (rd_w r1)"
    using status_only_transition [of E st] tr by (metis round.select_convs(1) round.surjective round.update_convs(2) snd_conv status_only_def)
  ultimately show ?thesis
    using assms(5) hf q u(2,4) o1
    by (simp add: HandleFlyteWorkflow_def run_bind_def ignoring_lost_def quiet_def)
qed

lemma lost_failure_node:
  assumes "lost_execution E" "fw_Spec (rd_w r) = Some sp" "GetOnFailureNode sp \<noteq> None"
    "phase_of r = WorkflowPhaseHandlingFailureNode"
  shows "\<exists>e r'. HandleFlyteWorkflow E r = (Go_Err e, r') \<and> IsNotFound e"
proof -
  obtain n where n: "GetOnFailureNode sp = Some n" using assms(3) by blast
  define k where "k = Failure_Node n (last_execution_error E (rd_w r))"
  obtain r1 where r1: "snd (node_status E (en_ID n) r) = r1" by blast
  obtain e where "fst (on_workflow (en_RecursiveNodeHandler E k n) r1) = Go_Err e" and nf: "IsNotFound e"
    using assms(1) unfolding lost_execution_def on_workflow_fst by blast
  then obtain r2 where e: "on_workflow (en_RecursiveNodeHandler E k n) r1 = (Go_Err e, r2)" by (metis prod.collapse)
  have "handleFailureNode E r = (Go_Err e, r2)"
    using assms(2) n e by (simp add: handleFailureNode_def run_bind_def run_simps Let_def r1 k_def [symmetric])
  then show ?thesis using assms(4) nf
    by (simp add: HandleFlyteWorkflow_def run_bind_def wrapping_failure_def)
qed

text \<open>The workflow goes back and forth between two phases.\<close>

definition stuck :: "FlyteWorkflow \<Rightarrow> FlyteWorkflow \<Rightarrow> bool" where
  "stuck w0 w \<longleftrightarrow> fw_Namespace w = fw_Namespace w0 \<and> fw_Name w = fw_Name w0 \<and> fw_Spec w = fw_Spec w0 \<and>
     fw_DeletionTimestamp w = None \<and> fw_WorkflowClosureReference w = [] \<and>
     ws_FailedAttempts (fw_Status w) = ws_FailedAttempts (fw_Status w0) \<and>
     (ws_Phase (fw_Status w) = WorkflowPhaseFailing \<or> ws_Phase (fw_Status w) = WorkflowPhaseHandlingFailureNode)"

definition has_failure_node :: "FlyteWorkflow \<Rightarrow> bool" where
  "has_failure_node w \<longleftrightarrow> (\<exists>sp. fw_Spec w = Some sp \<and> StartNode sp \<noteq> None \<and> GetOnFailureNode sp \<noteq> None)"

lemma stuck_not_terminated: "stuck w0 w \<Longrightarrow> \<not> wf_IsTerminated (fw_Status w)"
  by (auto simp: stuck_def wf_IsTerminated_def)

lemma stuck_mutation:
  assumes "lost_execution E" "stuck w0 w" "has_failure_node w0"
    "ws_FailedAttempts (fw_Status w0) \<le> word_of_int (pr_MaxWorkflowRetries P)"
  shows "\<exists>res evs n. TryMutateWorkflow P E w p = (res, p\<lparr>ps_events := evs, ps_enqueued := n\<rparr>) \<and>
    (if ws_Phase (fw_Status w) = WorkflowPhaseFailing
     then \<exists>m. res = Inr m \<and> stuck w0 m \<and> ws_Phase (fw_Status m) = WorkflowPhaseHandlingFailureNode
     else \<exists>e. res = Inl e \<and> IsNotFound e)"
proof -
  let ?f = "w\<lparr>fw_Finalizers := pr_AddFinalizer P Finalizer (fw_Finalizers w)\<rparr>"
  let ?w = "SetDefinitionVersionIfEmpty LatestWorkflowDefinitionVersion ?f"
  let ?r = "\<lparr>rd_w = ?w, rd_events = ps_events p, rd_enqueued = ps_enqueued p\<rparr>"
  obtain sp where sp: "fw_Spec (rd_w ?r) = Some sp" "StartNode sp \<noteq> None" "GetOnFailureNode sp \<noteq> None"
    using assms(2,3) by (auto simp: has_failure_node_def stuck_def)
  have tm: "TryMutateWorkflow P E w p =
      recovering (''panic when reconciling workflow, Stack: ['' @ pr_stack P @ '']'') (HandleFlyteWorkflow E) ?w p"
    using assms(2,4) stuck_not_terminated [OF assms(2)]
    by (simp add: TryMutateWorkflow_def Let_def stuck_def not_less [symmetric])
  show ?thesis
  proof (cases "ws_Phase (fw_Status w) = WorkflowPhaseFailing")
    case True
    then obtain r' where h: "HandleFlyteWorkflow E ?r = (Go_Ok (), r')" "phase_of r' = WorkflowPhaseHandlingFailureNode"
      "outside (rd_w r') = outside ?f" "ws_FailedAttempts (fw_Status (rd_w r')) = ws_FailedAttempts (fw_Status w)"
      using lost_failing [OF assms(1) sp] by auto
    moreover have "stuck w0 (rd_w r')" using outside_eqD [OF h(3)] h(2,4) assms(2) by (simp add: stuck_def)
    ultimately show ?thesis using True tm
      by (auto simp: recovering_def intro!: exI [of _ "rd_events r'"] exI [of _ "rd_enqueued r'"])
  next
    case False
    then have "phase_of ?r = WorkflowPhaseHandlingFailureNode" using assms(2) by (auto simp: stuck_def)
    from lost_failure_node [OF assms(1) sp(1,3) this]
    obtain e r' where "HandleFlyteWorkflow E ?r = (Go_Err e, r')" "IsNotFound e" by blast
    then show ?thesis using False tm
      by (auto simp: recovering_def intro!: exI [of _ "rd_events r'"] exI [of _ "rd_enqueued r'"])
  qed
qed

lemma stuck_missing:
  "stuck w0 w \<Longrightarrow> stuck w0 ((execution_missing E w)\<lparr>fw_ResourceVersion := v\<rparr>)"
  by (simp add: stuck_def execution_missing_def with_phase_def)

lemma stuck_version [simp]: "stuck w0 (w\<lparr>fw_ResourceVersion := v\<rparr>) = stuck w0 w"
  by (simp add: stuck_def)

context accepting_store
begin

lemma stuck_streak:
  assumes "pr_wfStore P = S" "lost_execution E" "has_failure_node w0"
    "ws_FailedAttempts (fw_Status w0) \<le> word_of_int (pr_MaxWorkflowRetries P)"
    "stuck w0 w" "held (fw_Namespace w0) (fw_Name w0) (ps_store p) \<noteq> None"
  shows "\<exists>x p' w'. streak P E None w p = (Go_Ok x, p') \<and> (x = None \<or> x = Some w') \<and> stuck w0 w' \<and>
    held (fw_Namespace w0) (fw_Name w0) (ps_store p') = Some w'"
proof -
  obtain res evs n where res: "TryMutateWorkflow P E w p = (res, p\<lparr>ps_events := evs, ps_enqueued := n\<rparr>)"
    "if ws_Phase (fw_Status w) = WorkflowPhaseFailing
     then \<exists>m. res = Inr m \<and> stuck w0 m \<and> ws_Phase (fw_Status m) = WorkflowPhaseHandlingFailureNode
     else \<exists>e. res = Inl e \<and> IsNotFound e"
    using stuck_mutation [OF assms(2,5,3,4)] by metis
  let ?p = "p\<lparr>ps_events := evs, ps_enqueued := n\<rparr>"
  have key: "fw_Namespace m = fw_Namespace w0" "fw_Name m = fw_Name w0" if "stuck w0 m" for m
    using that by (simp_all add: stuck_def)
  show ?thesis
  proof (cases "ws_Phase (fw_Status w) = WorkflowPhaseFailing")
    case True
    then obtain m where m: "res = Inr m" "stuck w0 m" "ws_Phase (fw_Status m) = WorkflowPhaseHandlingFailureNode"
      using res(2) by auto
    then have "streak P E None w p = store_round P E w m None ?p"
      using res(1) True stuck_not_terminated [OF m(2)] by (simp add: streak_def strip_def WorkflowStatus_Equals_def)
    moreover obtain v p' where "store_round P E w m None ?p = (Go_Ok (Some (m\<lparr>fw_ResourceVersion := v\<rparr>)), p')"
      "held (fw_Namespace w0) (fw_Name w0) (ps_store p') = Some (m\<lparr>fw_ResourceVersion := v\<rparr>)"
      using store_round_held [OF assms(1), of m ?p E w None] assms(6) key [OF m(2)] stuck_not_terminated [OF m(2)] by auto
    ultimately show ?thesis using m(2) by (metis stuck_version)
  next
    case False
    then obtain e where e: "res = Inl e" "IsNotFound e" using res(2) by auto
    have "ws_Phase (fw_Status w) \<noteq> WorkflowPhaseReady" using assms(5) by (auto simp: stuck_def)
    then have "streak P E None w p = write_last P (execution_missing E w) ?p"
      using res(1) e by (simp add: streak_def strip_def Let_def)
    moreover obtain v p' where "write_last P (execution_missing E w) ?p = (Go_Ok None, p')"
      "held (fw_Namespace w0) (fw_Name w0) (ps_store p') = Some ((execution_missing E w)\<lparr>fw_ResourceVersion := v\<rparr>)"
      using write_last_held [OF assms(1), of "execution_missing E w" ?p] assms(6) key [OF assms(5)]
      by (auto simp: execution_missing_def with_phase_def)
    ultimately show ?thesis using stuck_missing [OF assms(5), where E = E and v = v] by auto
  qed
qed

lemma stuck_streaks:
  assumes "pr_wfStore P = S" "\<And>i. lost_execution (Es i)" "has_failure_node w0"
    "ws_FailedAttempts (fw_Status w0) \<le> word_of_int (pr_MaxWorkflowRetries P)"
  shows "stuck w0 w \<Longrightarrow> held (fw_Namespace w0) (fw_Name w0) (ps_store p) = Some w \<Longrightarrow>
    \<exists>p' w'. streaks P Es None i n w p = (Go_Ok (), p') \<and> stuck w0 w' \<and>
      held (fw_Namespace w0) (fw_Name w0) (ps_store p') = Some w'"
proof (induction n arbitrary: i w p)
  case (Suc n)
  obtain x p' w' where s: "streak P (Es i) None w p = (Go_Ok x, p')" "x = None \<or> x = Some w'" "stuck w0 w'"
    "held (fw_Namespace w0) (fw_Name w0) (ps_store p') = Some w'"
    using stuck_streak [OF assms(1,2,3,4) Suc.prems(1)] Suc.prems(2) by (metis option.distinct(1))
  then show ?case using Suc.IH [OF s(3,4)] by (cases x) auto
qed simp

lemma stuck_handle_all:
  assumes "pr_wfStore P = S" "\<And>Es i. Es \<in> set Ess \<Longrightarrow> lost_execution (Es i)" "has_failure_node w0"
    "ws_FailedAttempts (fw_Status w0) \<le> word_of_int (pr_MaxWorkflowRetries P)"
    "stuck w0 w" "held (fw_Namespace w0) (fw_Name w0) (ps_store p) = Some w"
  shows "\<exists>w'. held (fw_Namespace w0) (fw_Name w0) (ps_store (handle_all P Ess (fw_Namespace w0) (fw_Name w0) p)) = Some w' \<and>
    stuck w0 w'"
  using assms(2,5,6)
proof (induction Ess arbitrary: w p)
  case (Cons Es Ess)
  have "fw_WorkflowClosureReference w = []" using Cons.prems(2) by (simp add: stuck_def)
  note h = handle_held [OF assms(1) Cons.prems(3) stuck_not_terminated [OF Cons.prems(2)] this, of Es]
  obtain p' w' where "Handle P Es (fw_Namespace w0) (fw_Name w0) p = (Go_Ok (), p')" "stuck w0 w'"
    "held (fw_Namespace w0) (fw_Name w0) (ps_store p') = Some w'"
    unfolding h using stuck_streaks [OF assms(1) _ assms(3,4) Cons.prems(2,3)] Cons.prems(1) by (metis list.set_intros(1))
  then show ?case using Cons.IH [of w' p'] Cons.prems(1) by (simp add: handle_all_def)
qed (auto simp: handle_all_def)

end


subsection \<open>A workflow that vanishes\<close>


subsection \<open>Examples\<close>

definition sample_propeller :: "(FlyteWorkflow, string list) store_state FlyteWorkflow_store \<Rightarrow> (FlyteWorkflow, string list) store_state propeller" where
  "sample_propeller S = \<lparr>pr_wfStore = S, pr_MaxWorkflowRetries = 1, pr_MaxStreakLength = 8,
     pr_ReadClosure = (\<lambda>_. Inr 0), pr_BuildWfClosureCrdFields = (\<lambda>_. Inl (Plain_Error ''none'')),
     pr_ContainsFinalizer = (\<lambda>f fs. f \<in> set fs), pr_AddFinalizer = List.insert, pr_RemoveFinalizer = removeAll,
     pr_FormatTime = itoa, pr_stack = []\<rparr>"

definition sample_waiting :: "WorkflowPhase \<Rightarrow> FlyteWorkflow" where
  "sample_waiting ph = (sample_workflow ph)\<lparr>fw_Status := (fw_Status (sample_workflow ph))\<lparr>ws_FailedAttempts := 0\<rparr>\<rparr>"

definition sample_pstate :: "FlyteWorkflow \<Rightarrow> (FlyteWorkflow, string list) store_state pstate" where
  "sample_pstate w = \<lparr>ps_store = \<lparr>ss_kube = w, ss_terminated = [], ss_versions = Map.empty,
     ss_memory = Map.empty(fw_Namespace w \<mapsto> Map.empty(fw_Name w \<mapsto> w))\<rparr>, ps_events = [], ps_enqueued = 0\<rparr>"

text \<open>A node executor that fails, one that has lost the execution, and a client that does not find the workflow.\<close>

definition failing_env :: exec_env where
  "failing_env = sample_env\<lparr>en_RecursiveNodeHandler := (\<lambda>_ _ w. (Go_Err (Plain_Error ''down''), w))\<rparr>"

definition lost_env :: exec_env where
  "lost_env = sample_env\<lparr>en_RecursiveNodeHandler := (\<lambda>_ _ w. (Go_Err (EventError ''ExecutionNotFound'' [] None), w)),
     en_RecordWorkflowEvent := (\<lambda>_. Some (EventError ''ExecutionNotFound'' [] None))\<rparr>"

lemma sample_finalizers: "finalizers_ok (sample_propeller S)"
  by (simp add: finalizers_ok_def sample_propeller_def)

lemma sample_held: "memory_held ''ns'' ''f'' (ps_store (sample_pstate (sample_waiting ph))) = Some (sample_waiting ph)"
  by (simp add: memory_held_def sample_pstate_def sample_waiting_def sample_workflow_def)

lemma sample_fields [simp]:
  "fw_Namespace (sample_waiting ph) = ''ns''" "fw_Name (sample_waiting ph) = ''f''"
  "ws_Phase (fw_Status (sample_waiting ph)) = ph" "fw_DeletionTimestamp (sample_waiting ph) = None"
  "ws_FailedAttempts (fw_Status (sample_waiting ph)) = 0" "fw_WorkflowClosureReference (sample_waiting ph) = []"
  "fw_Spec (sample_waiting ph) = Some (sample_spec\<lparr>spec_Nodes := [(''start-node'', (plain_node ''start-node''))]\<rparr>)"
  by (simp_all add: sample_waiting_def sample_workflow_def)

lemma sample_fails: "fails_on failing_env (sample_waiting WorkflowPhaseRunning)"
  by (auto simp: fails_on_def HandleFlyteWorkflow_def handleRunningWorkflow_def run_bind_def run_simps StartNode_def
      exec_StartNodeID_def on_workflow_def failing_env_def)

lemma sample_cooperates: "cooperates sample_env"
  using sample_frames by (simp add: cooperates_def sample_env_def)


definition sample_failure_workflow :: FlyteWorkflow where
  "sample_failure_workflow = (sample_waiting WorkflowPhaseHandlingFailureNode)
     \<lparr>fw_Spec := Some (sample_spec\<lparr>spec_Nodes := [(''start-node'', (plain_node ''start-node''))],
        spec_OnFailure := Some (plain_node ''fail'')\<rparr>)\<rparr>"

lemma sample_lost: "lost_execution lost_env"
  using sample_frames by (simp add: lost_execution_def lost_env_def frames_def event_error_checks) (simp add: sample_env_def)


definition node_failed_env :: exec_env where
  "node_failed_env = sample_env\<lparr>en_RecursiveNodeHandler := (\<lambda>_ _ w. (Go_Ok \<lparr>xs_NodePhase = ExecPhaseFailed, xs_Err = None\<rparr>, w))\<rparr>"

definition vanishing_kube :: "FlyteWorkflow kube" where
  "vanishing_kube = sample_kube\<lparr>kube_Update := (\<lambda>_ k. (Inl \<lparr>ke_error = Plain_Error ''not found'', ke_IsNotFound = True,
     ke_IsRequestEntityTooLarge = False, ke_is_etcd_too_large = False\<rparr>, k))\<rparr>"

lemma node_failed_round:
  "\<exists>m p1. TryMutateWorkflow (sample_propeller S) node_failed_env (sample_waiting WorkflowPhaseRunning) p = (Inr m, p1) \<and>
     ws_Phase (fw_Status m) = WorkflowPhaseFailing"
  by (simp add: TryMutateWorkflow_def sample_propeller_def Let_def wf_IsTerminated_def recovering_def SetDefinitionVersionIfEmpty_def
      HandleFlyteWorkflow_def handleRunningWorkflow_def run_bind_def run_simps StartNode_def exec_StartNodeID_def on_workflow_def
      node_failed_env_def HasFailed_def StatusFailing_def TransitionToPhase_def update_for_def failing_transition_def
      IdempotentReportEvent_def handle_recording_def sample_env_def)


end
