(* ===== verification/Unique_Id.thy ===== *)
theory Unique_Id
  imports Var_Names Exec_Errors
begin

section \<open>Identifiers of fixed length (pluginmachinery/encoding, controller/nodes/common)\<close>

text \<open>
  The identifiers under which nodes are reported: a text that is too long is replaced by the base-32 text of its FNV hash.
  The hashes of the standard library are written out at their widths (32, 64 and 128 bits). Strings are lists of bytes. A call that
  returns a value together with an error is a pair. Labels are modelled for ASCII names.
\<close>

subsection \<open>Base 32 and hashing\<close>

definition specialEncoderKey :: string where
  "specialEncoderKey = ''abcdefghijklmnopqrstuvwxyz123456''"

datatype Algorithm = Algorithm32 | Algorithm64 | Algorithm128

text \<open>The bits of a word, the most significant first.\<close>

definition word_bits :: "'a::len word \<Rightarrow> bool list" where
  "word_bits w = map (bit w) (rev [0..<LENGTH('a)])"

text \<open>Groups of five bits, the last one filled up with zeros, and the characters they select.\<close>

fun quintets :: "bool list \<Rightarrow> bool list list" where
  "quintets [] = []"
| "quintets (b # bs) = (take 5 (b # bs) @ replicate (5 - length (b # bs)) False) # quintets (drop 4 bs)"

definition bits_value :: "bool list \<Rightarrow> nat" where
  "bits_value bs = foldl (\<lambda>n b. 2 * n + of_bool b) 0 bs"

definition EncodeToString :: "bool list \<Rightarrow> string" where
  "EncodeToString bs = map (\<lambda>q. specialEncoderKey ! bits_value q) (quintets bs)"

text \<open>FNV-1a: for every byte, exclusive or and then a product modulo the width.\<close>

definition fnv1a :: "'a::len word \<Rightarrow> 'a word \<Rightarrow> string \<Rightarrow> 'a word" where
  "fnv1a offset prime s = foldl (\<lambda>h c. (h XOR of_nat (of_char c)) * prime) offset s"

definition hash_bits :: "Algorithm \<Rightarrow> string \<Rightarrow> bool list" where
  "hash_bits a s =
     (case a of
        Algorithm32 \<Rightarrow> word_bits (fnv1a 2166136261 16777619 s :: 32 word)
      | Algorithm64 \<Rightarrow> word_bits (fnv1a 14695981039346656037 1099511628211 s :: 64 word)
      | Algorithm128 \<Rightarrow>
          word_bits (fnv1a 144066263297769815596495629667062367629 309485009821345068724781371 s :: 128 word))"

definition chosen_algorithm :: "Algorithm list \<Rightarrow> Algorithm" where
  "chosen_algorithm opts = (if opts = [] then Algorithm32 else last opts)"

definition FixedLengthUniqueID :: "string \<Rightarrow> int \<Rightarrow> Algorithm list \<Rightarrow> string \<times> go_error option" where
  "FixedLengthUniqueID inputID maxLength opts =
     (if int (length inputID) \<le> maxLength then (inputID, None)
      else
        (let finalStr = ''f'' @ EncodeToString (hash_bits (chosen_algorithm opts) inputID)
         in if int (length finalStr) > maxLength
            then (finalStr, Some (Plain_Error
                   ''max Length is too small, cannot create an encoded string that is so small''))
            else (finalStr, None)))"

text \<open>A separator is written only when something was written before.\<close>

fun write_parts :: "string \<Rightarrow> string list \<Rightarrow> string" where
  "write_parts b [] = b"
| "write_parts b (p # ps) = write_parts (b @ (if b \<noteq> [] then ''-'' else []) @ p) ps"

definition FixedLengthUniqueIDForParts :: "int \<Rightarrow> string list \<Rightarrow> Algorithm list \<Rightarrow> string \<times> go_error option" where
  "FixedLengthUniqueIDForParts maxLength parts opts = FixedLengthUniqueID (write_parts [] parts) maxLength opts"

subsection \<open>Identifiers of nodes\<close>

record ParentInfo =
  par_uniqueID :: string
  par_currentAttempts :: uint32
  par_isInDynamicChain :: bool

definition maxUniqueIDLength :: int where "maxUniqueIDLength = 20"

definition lineage_parts :: "ParentInfo option \<Rightarrow> string \<Rightarrow> string list" where
  "lineage_parts parentInfo nodeID =
     (case parentInfo of
        None \<Rightarrow> [[], [], nodeID]
      | Some p \<Rightarrow> [par_uniqueID p, itoa (unat (par_currentAttempts p)), nodeID])"

definition GenerateUniqueID :: "ParentInfo option \<Rightarrow> string \<Rightarrow> string \<times> go_error option" where
  "GenerateUniqueID parentInfo nodeID =
     FixedLengthUniqueIDForParts maxUniqueIDLength (lineage_parts parentInfo nodeID) []"

definition CreateParentInfo :: "ParentInfo option \<Rightarrow> string \<Rightarrow> uint32 \<Rightarrow> bool \<Rightarrow> go_error + ParentInfo" where
  "CreateParentInfo grandParentInfo nodeID parentAttempt nodeIsDynamic =
     (case GenerateUniqueID grandParentInfo nodeID of
        (_, Some e) \<Rightarrow> Inl e
      | (uniqueID, None) \<Rightarrow>
          Inr \<lparr>par_uniqueID = uniqueID, par_currentAttempts = parentAttempt,
               par_isInDynamicChain = (nodeIsDynamic \<or> (\<exists>g \<in> set_option grandParentInfo. par_isInDynamicChain g))\<rparr>)"

subsection \<open>Label values\<close>

definition dns1123_char :: "char \<Rightarrow> bool" where
  "dns1123_char c \<longleftrightarrow> c = CHR ''-'' \<or> c \<in> set ''abcdefghijklmnopqrstuvwxyz'' \<or> c \<in> set ''0123456789''"

text \<open>Every longest run of other characters becomes one dash.\<close>

function replace_runs :: "string \<Rightarrow> string" where
  "replace_runs [] = []"
| "replace_runs (c # cs) =
     (if dns1123_char c then c # replace_runs cs
      else CHR ''-'' # replace_runs (dropWhile (\<lambda>x. \<not> dns1123_char x) cs))"
  by pat_completeness auto
termination
  by (relation "measure length") (auto simp: le_imp_less_Suc length_dropWhile_le)

definition trim :: "char \<Rightarrow> string \<Rightarrow> string" where
  "trim d s = rev (dropWhile ((=) d) (rev (dropWhile ((=) d) s)))"

definition SanitizeLabelValue :: "string \<Rightarrow> string" where
  "SanitizeLabelValue name = trim CHR ''-'' (take 63 (replace_runs (strings_ToLower name)))"

subsection \<open>The encoding\<close>

lemma quintets_length [simp]: "length (quintets bs) = (length bs + 4) div 5"
proof (induction bs rule: quintets.induct)
  case (2 b bs)
  then show ?case by (cases "length bs \<ge> 4") (simp_all add: div_less)
qed simp

lemma quintets_five: "q \<in> set (quintets bs) \<Longrightarrow> length q = 5"
  by (induction bs rule: quintets.induct) auto

lemma concat_quintets: "take (length bs) (concat (quintets bs)) = bs"
proof (induction bs rule: quintets.induct)
  case (2 b bs)
  show ?case
  proof (cases "length bs \<ge> 4")
    case True
    with 2 have "take (length bs - 4) (concat (quintets (drop 4 bs))) = drop 4 bs" by simp
    with True show ?thesis using append_take_drop_id [of 4 bs] by simp
  qed simp
qed simp

definition value_bits :: "nat \<Rightarrow> bool list" where
  "value_bits n = map (\<lambda>k. odd (n div 2 ^ k)) [4, 3, 2, 1, 0]"

lemma bits_value_inverse: "length q = 5 \<Longrightarrow> value_bits (bits_value q) = q \<and> bits_value q < 32"
proof -
  assume "length q = 5"
  then obtain a b c d e where q: "q = [a, b, c, d, e]"
    by (auto simp: eval_nat_numeral length_Suc_conv)
  show ?thesis unfolding q
    by (cases a; cases b; cases c; cases d; cases e) (simp_all add: bits_value_def value_bits_def)
qed

lemma encoder_key: "distinct specialEncoderKey" "length specialEncoderKey = 32"
  by (simp_all add: specialEncoderKey_def)

lemma encode_length [simp]: "length (EncodeToString bs) = (length bs + 4) div 5"
  by (simp add: EncodeToString_def)

lemma encode_injective:
  assumes "EncodeToString bs = EncodeToString bs'" "length bs = length bs'"
  shows "bs = bs'"
proof -
  have "inj_on (\<lambda>q. specialEncoderKey ! bits_value q) {q. length q = 5}"
  proof (rule inj_onI)
    fix p q :: "bool list"
    assume "p \<in> {q. length q = 5}" "q \<in> {q. length q = 5}"
      and eq: "specialEncoderKey ! bits_value p = specialEncoderKey ! bits_value q"
    then have p: "value_bits (bits_value p) = p" "bits_value p < 32"
      and q: "value_bits (bits_value q) = q" "bits_value q < 32" using bits_value_inverse by auto
    from eq have "bits_value p = bits_value q"
      by (subst (asm) nth_eq_iff_index_eq [OF encoder_key(1)]) (simp_all add: encoder_key(2) p(2) q(2))
    with p q show "p = q" by metis
  qed
  then have "inj_on (\<lambda>q. specialEncoderKey ! bits_value q) (set (quintets bs) \<union> set (quintets bs'))"
    by (rule inj_on_subset) (auto intro: quintets_five)
  with assms(1) have "quintets bs = quintets bs'"
    unfolding EncodeToString_def by (rule map_inj_on)
  then have "take (length bs) (concat (quintets bs)) = take (length bs') (concat (quintets bs'))"
    using assms(2) by simp
  then show ?thesis unfolding concat_quintets .
qed

lemma word_bits_length [simp]: "length (word_bits (w :: 'a::len word)) = LENGTH('a)"
  by (simp add: word_bits_def)

definition hash_width :: "Algorithm \<Rightarrow> nat" where
  "hash_width a = (case a of Algorithm32 \<Rightarrow> 32 | Algorithm64 \<Rightarrow> 64 | Algorithm128 \<Rightarrow> 128)"

lemma hash_bits_length [simp]: "length (hash_bits a s) = hash_width a"
  by (simp add: hash_bits_def hash_width_def split: Algorithm.split)

text \<open>The length of a hashed identifier: 8, 14 or 27.\<close>

definition hashed_length :: "Algorithm \<Rightarrow> nat" where
  "hashed_length a = (case a of Algorithm32 \<Rightarrow> 8 | Algorithm64 \<Rightarrow> 14 | Algorithm128 \<Rightarrow> 27)"

lemma hashed_text_length: "length (''f'' @ EncodeToString (hash_bits a s)) = hashed_length a"
  by (simp add: hash_width_def hashed_length_def split: Algorithm.split)

text \<open>
  An identifier that is returned without an error is never longer than asked for, and there is an error only where the text is
  too long and the limit is smaller than the length of an encoded hash. Two texts that are too long get the same identifier exactly if their hashes
  agree: the encoding itself loses nothing.
\<close>

lemma fixed_length_ids:
  "(snd (FixedLengthUniqueID s n opts) = None \<longleftrightarrow>
      int (length s) \<le> n \<or> int (hashed_length (chosen_algorithm opts)) \<le> n) \<and>
   (snd (FixedLengthUniqueID s n opts) = None \<longrightarrow> int (length (fst (FixedLengthUniqueID s n opts))) \<le> n) \<and>
   (int (length s) > n \<longrightarrow> int (length t) > n \<longrightarrow>
      fst (FixedLengthUniqueID s n opts) = fst (FixedLengthUniqueID t n opts) \<longleftrightarrow>
      hash_bits (chosen_algorithm opts) s = hash_bits (chosen_algorithm opts) t)"
proof (intro conjI impI)
  let ?a = "chosen_algorithm opts"
  show "snd (FixedLengthUniqueID s n opts) = None \<longleftrightarrow> int (length s) \<le> n \<or> int (hashed_length ?a) \<le> n"
    using hashed_text_length [of ?a s] by (auto simp: FixedLengthUniqueID_def Let_def)
  show "int (length (fst (FixedLengthUniqueID s n opts))) \<le> n"
    if "snd (FixedLengthUniqueID s n opts) = None"
    using that by (auto simp: FixedLengthUniqueID_def Let_def split: if_splits)
  assume "int (length s) > n" "int (length t) > n"
  then show "fst (FixedLengthUniqueID s n opts) = fst (FixedLengthUniqueID t n opts) \<longleftrightarrow> hash_bits ?a s = hash_bits ?a t"
    by (auto simp: FixedLengthUniqueID_def Let_def dest: encode_injective)
qed

subsection \<open>Lineages\<close>

text \<open>
  The lineage of a node: the containers around it from the outside in, each with its attempt. Parent
  information is built container by container.
\<close>

fun parent_of :: "ParentInfo option \<Rightarrow> (string \<times> uint32) list \<Rightarrow> go_error + ParentInfo option" where
  "parent_of p [] = Inr p"
| "parent_of p ((i, a) # ls) =
     (case CreateParentInfo p i a False of Inl e \<Rightarrow> Inl e | Inr q \<Rightarrow> parent_of (Some q) ls)"

definition node_unique_id :: "(string \<times> uint32) list \<Rightarrow> string \<Rightarrow> string option" where
  "node_unique_id ls i =
     (case parent_of None ls of
        Inl _ \<Rightarrow> None
      | Inr p \<Rightarrow> (case GenerateUniqueID p i of (u, None) \<Rightarrow> Some u | _ \<Rightarrow> None))"

fun lineage_text :: "(string \<times> uint32) list \<Rightarrow> string \<Rightarrow> string" where
  "lineage_text [] i = i"
| "lineage_text ((j, a) # ls) i = j @ ''-'' @ itoa (unat a) @ ''-'' @ lineage_text ls i"

definition plain_id :: "string \<Rightarrow> bool" where
  "plain_id i \<longleftrightarrow> i \<noteq> [] \<and> CHR ''-'' \<notin> set i"

lemma itoa_plain: "plain_id (itoa n)"
proof -
  have "c \<noteq> CHR ''-''" if "is_digit c" for c using that by (auto simp: is_digit_def)
  with itoa_digits [of n] show ?thesis by (auto simp: plain_id_def list_all_iff)
qed

lemma generated_text:
  "write_parts [] (lineage_parts None i) = i"
  "par_uniqueID p \<noteq> [] \<Longrightarrow>
     write_parts [] (lineage_parts (Some p) i) = par_uniqueID p @ ''-'' @ itoa (unat (par_currentAttempts p)) @ ''-'' @ i"
  by (simp_all add: lineage_parts_def)

definition text_from :: "ParentInfo option \<Rightarrow> (string \<times> uint32) list \<Rightarrow> string \<Rightarrow> string" where
  "text_from p ls i =
     (case p of
        None \<Rightarrow> lineage_text ls i
      | Some q \<Rightarrow> par_uniqueID q @ ''-'' @ itoa (unat (par_currentAttempts q)) @ ''-'' @ lineage_text ls i)"

lemma generate_fits:
  assumes "\<forall>q \<in> set_option p. par_uniqueID q \<noteq> []" "length (text_from p [] i) \<le> 20"
  shows "GenerateUniqueID p i = (text_from p [] i, None)"
  using assms
  by (cases p) (simp_all add: GenerateUniqueID_def FixedLengthUniqueIDForParts_def FixedLengthUniqueID_def
      maxUniqueIDLength_def generated_text text_from_def del: write_parts.simps)

lemma parent_of_fits:
  assumes "\<forall>q \<in> set_option p. par_uniqueID q \<noteq> []" "\<forall>j \<in> fst ` set ls. j \<noteq> []" "length (text_from p ls i) \<le> 20"
  shows "\<exists>q. parent_of p ls = Inr q \<and> GenerateUniqueID q i = (text_from p ls i, None)"
  using assms
proof (induction ls arbitrary: p)
  case Nil
  then show ?case by (simp add: generate_fits)
next
  case (Cons x ls)
  obtain j a where x: "x = (j, a)" by (cases x)
  let ?u = "text_from p [] j"
  from Cons.prems(3) have "length ?u \<le> 20" by (simp add: x text_from_def split: option.splits)
  with Cons.prems(1) have g: "GenerateUniqueID p j = (?u, None)" by (rule generate_fits)
  obtain q where q: "CreateParentInfo p j a False = Inr q" "par_uniqueID q = ?u" "par_currentAttempts q = a"
    by (simp add: CreateParentInfo_def g)
  have "?u \<noteq> []" using Cons.prems(2) by (simp add: x text_from_def split: option.split)
  moreover have "text_from (Some q) ls i = text_from p (x # ls) i"
    by (simp add: text_from_def q x split: option.split)
  ultimately show ?case
    using Cons.IH [of "Some q"] Cons.prems by (simp add: x q)
qed

lemma node_unique_id_fits:
  assumes "\<forall>j \<in> fst ` set ls. j \<noteq> []" "length (lineage_text ls i) \<le> 20"
  shows "node_unique_id ls i = Some (lineage_text ls i)"
  using parent_of_fits [of None ls i] assms by (auto simp: node_unique_id_def text_from_def)

lemma dash_split:
  assumes "CHR ''-'' \<notin> set x" "CHR ''-'' \<notin> set y" "x @ CHR ''-'' # r = y @ CHR ''-'' # s"
  shows "x = y \<and> r = s"
  using assms
proof (induction x arbitrary: y)
  case Nil
  then show ?case by (cases y) auto
next
  case (Cons c x)
  then show ?case by (cases y) auto
qed

lemma dash_plain: "CHR ''-'' \<notin> set x \<Longrightarrow> x \<noteq> y @ CHR ''-'' # r"
  by auto

lemma lineage_text_inj:
  assumes "\<forall>j \<in> insert i (fst ` set ls). plain_id j" "\<forall>j \<in> insert i' (fst ` set ls'). plain_id j"
    "lineage_text ls i = lineage_text ls' i'"
  shows "ls = ls' \<and> i = i'"
  using assms
proof (induction ls arbitrary: ls')
  case Nil
  then show ?case by (cases ls') (auto simp: plain_id_def dest: dash_plain)
next
  case (Cons x ls)
  obtain j a where x: "x = (j, a)" by (cases x)
  from Cons.prems obtain k b ms where ls': "ls' = (k, b) # ms"
    by (cases ls') (auto simp: x plain_id_def dest: dash_plain)
  have "j = k \<and> itoa (unat a) @ ''-'' @ lineage_text ls i = itoa (unat b) @ ''-'' @ lineage_text ms i'"
    using Cons.prems by (intro dash_split) (auto simp: x ls' plain_id_def)
  moreover from this have "itoa (unat a) = itoa (unat b) \<and> lineage_text ls i = lineage_text ms i'"
    using itoa_plain by (intro dash_split) (auto simp: plain_id_def)
  ultimately show ?case using Cons.IH [of ms] Cons.prems by (simp add: x ls' word_unat_eq_iff)
qed

text \<open>
  Property C40. The identifier reported for a node is unique within an execution as long as no node identifier contains a dash and the whole
  lineage fits the limit of twenty characters: two nodes with the same identifier then are the same node of the same attempts of the same containers.
\<close>

theorem unique_ids_of_lineages:
  assumes "\<forall>j \<in> insert i (fst ` set ls). plain_id j" "\<forall>j \<in> insert i' (fst ` set ls'). plain_id j"
    and "length (lineage_text ls i) \<le> 20" "length (lineage_text ls' i') \<le> 20"
    and "node_unique_id ls i = node_unique_id ls' i'"
  shows "ls = ls' \<and> i = i' \<and> node_unique_id ls i = Some (lineage_text ls i)"
proof -
  have "\<forall>j \<in> fst ` set ls. j \<noteq> []" "\<forall>j \<in> fst ` set ls'. j \<noteq> []"
    using assms(1,2) by (auto simp: plain_id_def)
  with assms(3-5) node_unique_id_fits [of ls i] node_unique_id_fits [of ls' i'] lineage_text_inj [OF assms(1,2)]
  show ?thesis by simp
qed

theorem unique_ids_of_lineages_witness:
  "node_unique_id [(''n0'', 1)] ''n1'' = Some ''n0-1-n1'' \<and>
   node_unique_id [(''n0'', 1)] ''n1'' \<noteq> node_unique_id [(''n0'', 2)] ''n1''"
proof -
  have t: "lineage_text [(''n0'', 1)] ''n1'' = ''n0-1-n1''" "length (lineage_text [(''n0'', 2)] ''n1'') \<le> 20"
    by (simp_all add: itoa.simps digit_char_def char_of_def bit_0)
  have p: "\<forall>j \<in> insert ''n1'' (fst ` set [(''n0'', 1 :: uint32)]). plain_id j"
    "\<forall>j \<in> insert ''n1'' (fst ` set [(''n0'', 2 :: uint32)]). plain_id j"
    by (simp_all add: plain_id_def)
  show ?thesis
    using unique_ids_of_lineages [OF p(1) p(1)] unique_ids_of_lineages [OF p] t by auto
qed

text \<open>With dashes in identifiers two different nodes can have the same one.\<close>

lemma dashes_collide:
  "node_unique_id [(''n0'', 0), (''n1'', 0)] ''n2'' = node_unique_id [(''n0'', 0)] ''n1-0-n2''"
proof -
  have "lineage_text [(''n0'', 0), (''n1'', 0)] ''n2'' = ''n0-0-n1-0-n2''"
    "lineage_text [(''n0'', 0)] ''n1-0-n2'' = ''n0-0-n1-0-n2''"
    by (simp_all add: itoa.simps digit_char_def char_of_def bit_0)
  then show ?thesis
    using node_unique_id_fits [of "[(''n0'', 0), (''n1'', 0)]" "''n2''"]
      node_unique_id_fits [of "[(''n0'', 0)]" "''n1-0-n2''"] by simp
qed

subsection \<open>Labels\<close>

lemma replace_runs_chars: "c \<in> set (replace_runs s) \<Longrightarrow> dns1123_char c"
proof (induction s rule: replace_runs.induct)
  case (2 d ds)
  have "dns1123_char CHR ''-''" by (simp add: dns1123_char_def)
  with 2 show ?case by (cases "dns1123_char d") auto
qed simp

lemma trim_set: "set (trim d s) \<subseteq> set s"
  by (auto simp: trim_def dest!: set_dropWhileD)

lemma trim_length: "length (trim d s) \<le> length s"
  using length_dropWhile_le [of "(=) d" s] length_dropWhile_le [of "(=) d" "rev (dropWhile ((=) d) s)"]
  by (simp add: trim_def)

lemma trim_ends: "trim d s = [] \<or> hd (trim d s) \<noteq> d \<and> last (trim d s) \<noteq> d"
proof -
  let ?l = "dropWhile ((=) d) s"
  let ?r = "dropWhile ((=) d) (rev ?l)"
  have "last (rev ?r) \<noteq> d" if "?r \<noteq> []"
    using hd_dropWhile [OF that] by (simp add: last_rev)
  moreover have "hd (rev ?r) \<noteq> d" if "?r \<noteq> []"
  proof -
    have "rev ?l = takeWhile ((=) d) (rev ?l) @ ?r" by simp
    then have "?l = rev ?r @ rev (takeWhile ((=) d) (rev ?l))" by (metis rev_append rev_rev_ident)
    with that have "hd ?l = hd (rev ?r)" "?l \<noteq> []" by (metis hd_append2 rev_is_Nil_conv, force)
    then show ?thesis using hd_dropWhile [of "(=) d" s] by auto
  qed
  ultimately show ?thesis by (auto simp: trim_def)
qed

text \<open>A sanitized label consists of lower-case letters, digits and inner dashes and has at most 63 characters.\<close>

lemma sanitized_labels:
  "list_all dns1123_char (SanitizeLabelValue s) \<and> length (SanitizeLabelValue s) \<le> 63 \<and>
   (SanitizeLabelValue s \<noteq> [] \<longrightarrow> hd (SanitizeLabelValue s) \<noteq> CHR ''-'' \<and> last (SanitizeLabelValue s) \<noteq> CHR ''-'')"
proof (intro conjI impI)
  let ?t = "take 63 (replace_runs (strings_ToLower s))"
  show "list_all dns1123_char (SanitizeLabelValue s)"
    using trim_set [of "CHR ''-''" ?t] replace_runs_chars
    by (auto simp: SanitizeLabelValue_def list_all_iff dest!: in_set_takeD)
  show "length (SanitizeLabelValue s) \<le> 63"
    using trim_length [of "CHR ''-''" ?t] by (simp add: SanitizeLabelValue_def)
  assume "SanitizeLabelValue s \<noteq> []"
  then show "hd (SanitizeLabelValue s) \<noteq> CHR ''-''" "last (SanitizeLabelValue s) \<noteq> CHR ''-''"
    using trim_ends [of "CHR ''-''" ?t] by (auto simp: SanitizeLabelValue_def)
qed

end
