(* ===== verification/Node_Context.thy ===== *)
theory Node_Context
  imports Workflow_Executor Predicates Unique_Id Node_State
begin

section \<open>Contexts and events of a node (controller/executors, nodes/node\_exec\_context.go, transformers.go)\<close>

text \<open>
  What a node is executed in. The execution context holds the immutable data of the workflow; the counters that a round shares are in the
  state. The state of a round over a lookup state \<open>'s\<close> also holds the state manager of the node that is handled, the events that
  the sink took, and the outside world \<open>'w\<close> (storage, catalog, plugins).

  The status of a node is shared: whoever has its identifier reads and writes it through the lookup. Within a round the clock
  stands still, and new objects have the address \<open>cfg_alloc\<close>.
\<close>

subsection \<open>Execution contexts (controller/executors/execution\_context.go)\<close>

record ControlFlow =
  cf_parallelism :: uint32
  cf_nodeExecutionCount :: uint32
  cf_taskExecutionCount :: uint32

definition InitializeControlFlow :: ControlFlow where
  "InitializeControlFlow = \<lparr>cf_parallelism = 0, cf_nodeExecutionCount = 0, cf_taskExecutionCount = 0\<rparr>"

definition IncrementParallelism :: "ControlFlow \<Rightarrow> ControlFlow" where
  "IncrementParallelism c = c\<lparr>cf_parallelism := cf_parallelism c + 1\<rparr>"

definition IncrementNodeExecutionCount :: "ControlFlow \<Rightarrow> ControlFlow" where
  "IncrementNodeExecutionCount c = c\<lparr>cf_nodeExecutionCount := cf_nodeExecutionCount c + 1\<rparr>"

definition IncrementTaskExecutionCount :: "ControlFlow \<Rightarrow> ControlFlow" where
  "IncrementTaskExecutionCount c = c\<lparr>cf_taskExecutionCount := cf_taskExecutionCount c + 1\<rparr>"

datatype OnFailurePolicy = FAIL_IMMEDIATELY | FAIL_AFTER_EXECUTABLE_NODES_COMPLETE

text \<open>Of a task template: its identifier (a text and its name), and type and version of its runtime.\<close>

record TaskTemplate =
  tt_Id :: "(string \<times> string) option"
  tt_Runtime :: "string \<times> string"

text \<open>What is handed on to the executions that a node launches; only the owner of the execution is read here.\<close>

record exec_settings =
  set_SecurityContext :: string
  set_RawOutputDataConfig :: "string option"
  set_Annotations :: "(string \<times> string) list"
  set_Interruptible :: "bool option"
  set_EnvironmentVariables :: "(string \<times> string) list"
  set_OwnerID :: string

record ExecContext =
  xc_ID :: string
  xc_Name :: string
  xc_ExecutionID :: "(string \<times> string \<times> string) option"
  xc_Labels :: "(string \<times> string) list"
  xc_Interruptible :: bool
  xc_OnFailurePolicy :: OnFailurePolicy
  xc_EventVersion :: int
  xc_ParentInfo :: "ParentInfo option"
  xc_MaxParallelism :: uint32
  xc_OverwriteCache :: bool
  xc_RecoveryExecution :: "(string \<times> string \<times> string) option"
  xc_GetTask :: "string \<Rightarrow> go_error + TaskTemplate"
  xc_FindSubWorkflow :: "string \<Rightarrow> WorkflowSpec option"
  xc_DefinitionVersion :: uint32
  xc_Settings :: exec_settings

definition NewExecutionContextWithParentInfo :: "ExecContext \<Rightarrow> ParentInfo option \<Rightarrow> ExecContext" where
  "NewExecutionContextWithParentInfo xc p = xc\<lparr>xc_ParentInfo := p\<rparr>"

definition NewExecutionContextWithTasksGetter :: "ExecContext \<Rightarrow> (string \<Rightarrow> go_error + TaskTemplate) \<Rightarrow> ExecContext" where
  "NewExecutionContextWithTasksGetter xc g = xc\<lparr>xc_GetTask := g\<rparr>"

subsection \<open>Configuration and state of a round\<close>

record node_config =
  cfg_now :: time
  cfg_alloc :: addr
  cfg_refs :: ref_constructor
  cfg_ref_error :: go_error
  cfg_clusterID :: string
  cfg_enableCRDebugMetadata :: bool
  cfg_defaultActiveDeadline :: int
  cfg_defaultExecutionDeadline :: int
  cfg_interruptibleFailureThreshold :: int
  cfg_maxNodeRetriesForSystemFailures :: uint32
  cfg_IgnoreRetryCause :: bool
  cfg_DefaultMaxAttempts :: int
  cfg_RawOutputPolicyInline :: bool
  cfg_ArrayNodeEventVersion :: int
  cfg_duration_text :: "int \<Rightarrow> string"

datatype event_input = No_Input | Event_InputData literal_map | Event_InputUri string

datatype target_metadata = No_TargetMetadata | Event_WorkflowNodeMetadata "string \<times> string \<times> string" | Event_TaskNodeMetadata TaskNodeMetadata

record NodeExecutionEvent =
  nev_ExecutionId :: "(string \<times> string \<times> string) option"
  nev_NodeId :: string
  nev_Phase :: event_phase
  nev_OccurredAt :: time
  nev_OutputResult :: event_result
  nev_InputValue :: event_input
  nev_ProducerId :: string
  nev_ReportedAt :: time
  nev_TargetEntity :: "string option"
  nev_IsInDynamicChain :: bool
  nev_ParentTaskMetadata :: "string option"
  nev_ParentNodeMetadata :: "string option"
  nev_RetryGroup :: string
  nev_SpecNodeId :: string
  nev_NodeName :: string
  nev_TargetMetadata :: target_metadata
  nev_DeckUri :: string
  nev_IsParent :: bool
  nev_IsArray :: bool
  nev_IsDynamic :: bool

record ('s, 'w) nrun =
  nr_s :: 's
  nr_nsm :: nodeStateManager
  nr_cf :: ControlFlow
  nr_events :: "NodeExecutionEvent list"
  nr_w :: 'w

text \<open>The status of a node, read and written through its pointer.\<close>

definition read_status :: "'s NodeLookup \<Rightarrow> string \<Rightarrow> (NodeStatus, ('s, 'w) nrun) grun" where
  "read_status nl i = (\<lambda>r. case fst (nl_status nl i (nr_s r)) of None \<Rightarrow> (Go_Panic, r) | Some n \<Rightarrow> (Go_Ok n, r))"

definition change_status :: "'s NodeLookup \<Rightarrow> string \<Rightarrow> (NodeStatus \<Rightarrow> NodeStatus) \<Rightarrow> (unit, ('s, 'w) nrun) grun" where
  "change_status nl i f = (\<lambda>r. case nl_status nl i (nr_s r) of
     (None, _) \<Rightarrow> (Go_Panic, r) | (Some n, s) \<Rightarrow> (Go_Ok (), r\<lparr>nr_s := nl_write nl i (f n) s\<rparr>))"

definition change_flow :: "(ControlFlow \<Rightarrow> ControlFlow) \<Rightarrow> (unit, ('s, 'w) nrun) grun" where
  "change_flow f = (\<lambda>r. (Go_Ok (), r\<lparr>nr_cf := f (nr_cf r)\<rparr>))"

definition get_run :: "(('s, 'w) nrun \<Rightarrow> 'a) \<Rightarrow> ('a, ('s, 'w) nrun) grun" where
  "get_run f = (\<lambda>r. (Go_Ok (f r), r))"

text \<open>A call to the outside world.\<close>

definition on_world :: "('w \<Rightarrow> 'a \<times> 'w) \<Rightarrow> ('a, ('s, 'w) nrun) grun" where
  "on_world f = (\<lambda>r. case f (nr_w r) of (x, w) \<Rightarrow> (Go_Ok x, r\<lparr>nr_w := w\<rparr>))"

subsection \<open>The context of a node (node\_exec\_context.go)\<close>

record 's NodeExecContext =
  nc_node :: NodeSpec
  nc_id :: string
  nc_nl :: "'s NodeLookup"
  nc_ic :: ExecContext
  nc_interruptible :: bool
  nc_labels :: "string \<Rightarrow> string option"
  nc_dataDir :: string

text \<open>The input file of the context: nothing where the reference cannot be built.\<close>

definition GetInputPath :: "node_config \<Rightarrow> 's NodeExecContext \<Rightarrow> string" where
  "GetInputPath cfg nCtx = (case cfg_refs cfg (nc_dataDir nCtx) [''inputs.pb''] of None \<Rightarrow> [] | Some p \<Rightarrow> p)"

definition GetInputsFile :: "string \<Rightarrow> string" where "GetInputsFile inputDir = inputDir @ ''/inputs.pb''"

text \<open>How often a node may be attempted, from the configuration or the node.\<close>

definition max_attempts :: "node_config \<Rightarrow> NodeSpec \<Rightarrow> uint32" where
  "max_attempts cfg n =
     (case en_RetryStrategy n of
        Some (Some m) \<Rightarrow> if m \<noteq> 1 then word_of_int m else word_of_int (cfg_DefaultMaxAttempts cfg)
      | _ \<Rightarrow> word_of_int (cfg_DefaultMaxAttempts cfg))"

definition isAboveInterruptibleFailureThreshold :: "uint32 \<Rightarrow> uint32 \<Rightarrow> int \<Rightarrow> bool" where
  "isAboveInterruptibleFailureThreshold numFailures maxAttempts interruptibleThreshold =
     (if interruptibleThreshold > 0 then word_of_int interruptibleThreshold \<le> numFailures
      else maxAttempts - word_of_int (- interruptibleThreshold) \<le> numFailures)"

definition still_interruptible :: "node_config \<Rightarrow> NodeSpec \<Rightarrow> NodeStatus \<Rightarrow> bool \<Rightarrow> bool" where
  "still_interruptible cfg n st interruptible =
     (if cfg_IgnoreRetryCause cfg then
        interruptible \<and> \<not> (ns_Attempts (ns st) > 0 \<and>
          isAboveInterruptibleFailureThreshold (ns_Attempts (ns st)) (max_attempts cfg n)
            (cfg_interruptibleFailureThreshold cfg))
      else
        interruptible \<and> \<not> isAboveInterruptibleFailureThreshold (ns_SystemFailures (ns st))
          (cfg_maxNodeRetriesForSystemFailures cfg + 1) (cfg_interruptibleFailureThreshold cfg))"

definition node_labels :: "ExecContext \<Rightarrow> NodeSpec \<Rightarrow> TaskTemplate option \<Rightarrow> bool \<Rightarrow> string \<Rightarrow> string option" where
  "node_labels xc n tr interruptible =
     (let l1 = (map_of (xc_Labels xc))(''node-id'' \<mapsto> SanitizeLabelValue (en_ID n));
          l2 = (case Option.bind tr tt_Id of
                  None \<Rightarrow> l1 | Some (_, name) \<Rightarrow> l1(''task-name'' \<mapsto> SanitizeLabelValue name))
      in l2(''interruptible'' \<mapsto> (if interruptible then ''true'' else ''false'')))"

definition newNodeExecContext ::
    "ExecContext \<Rightarrow> 's NodeLookup \<Rightarrow> NodeSpec \<Rightarrow> string \<Rightarrow> string \<Rightarrow> bool \<Rightarrow> TaskTemplate option \<Rightarrow> 's NodeExecContext" where
  "newNodeExecContext xc nl n i dataDir interruptible tr =
     \<lparr>nc_node = n, nc_id = i, nc_nl = nl, nc_ic = xc, nc_interruptible = interruptible,
      nc_labels = node_labels xc n tr interruptible, nc_dataDir = dataDir\<rparr>"

definition task_reader :: "ExecContext \<Rightarrow> NodeSpec \<Rightarrow> go_error + TaskTemplate option" where
  "task_reader xc n =
     (if en_Kind n = NodeKindTask then
        (case en_TaskRef n of
           None \<Rightarrow> Inl (Plain_Error (''bad state, no task-id defined for node ['' @ en_ID n @ '']''))
         | Some t \<Rightarrow> (case xc_GetTask xc t of Inl e \<Rightarrow> Inl e | Inr tk \<Rightarrow> Inr (Some tk)))
      else Inr None)"

definition BuildNodeExecutionContext ::
    "node_config \<Rightarrow> ExecContext \<Rightarrow> 's NodeLookup \<Rightarrow> string \<Rightarrow> ('s NodeExecContext, ('s, 'w) nrun) grun" where
  "BuildNodeExecutionContext cfg xc nl i =
     (case nl_GetNode nl i of
        None \<Rightarrow> run_err (Plain_Error (''failed to find node with ID ['' @ i @ ''] in execution ['' @ xc_ID xc @ '']''))
      | Some n \<Rightarrow>
        (case task_reader xc n of
           Inl e \<Rightarrow> run_err e
         | Inr tr \<Rightarrow> (\<lambda>r. case nl_status nl i (nr_s r) of
               (None, s) \<Rightarrow> (Go_Panic, r\<lparr>nr_s := s\<rparr>)
             | (Some st, s) \<Rightarrow>
                 (let interruptible = still_interruptible cfg n st
                        (case en_Interruptible n of None \<Rightarrow> xc_Interruptible xc | Some b \<Rightarrow> b)
                  in (Go_Ok (newNodeExecContext xc nl n i (ns_DataDir (ns st)) interruptible tr),
                      r\<lparr>nr_s := s, nr_nsm := newNodeStateManager st\<rparr>)))))"

subsection \<open>Events (nodes/transformers.go, common/utils.go)\<close>

text \<open>A task that cannot be found leaves a nil interface, on which a method is called.\<close>

definition GetTargetEntity :: "'s NodeExecContext \<Rightarrow> string option go" where
  "GetTargetEntity nCtx =
     (case en_WorkflowNode (nc_node nCtx) of
        Some wn \<Rightarrow>
          (case wfn_SubWorkflowReference wn of
             Some (c # cs) \<Rightarrow> Go_Ok None
           | _ \<Rightarrow> Go_Ok (wfn_LaunchPlanRefID wn))
      | None \<Rightarrow>
          (case en_TaskRef (nc_node nCtx) of
             Some (c # cs) \<Rightarrow>
               (case xc_GetTask (nc_ic nCtx) (c # cs) of
                  Inl _ \<Rightarrow> Go_Panic | Inr t \<Rightarrow> Go_Ok (map_option fst (tt_Id t)))
           | _ \<Rightarrow> Go_Ok None))"

definition ToNodeExecOutput :: "OutputInfo option \<Rightarrow> event_result" where
  "ToNodeExecOutput info =
     (case info of None \<Rightarrow> No_Result | Some o' \<Rightarrow> if OutputURI o' = [] then No_Result else Event_OutputUri (OutputURI o'))"

text \<open>A timestamp message cannot hold a time after the year 9999.\<close>

definition TimestampProto :: "time \<Rightarrow> go_error + time" where
  "TimestampProto t = (if Unix t \<ge> 253402300800 then Inl (Plain_Error ''timestamp: after 10000-01-01'') else Inr t)"

definition in_dynamic_chain :: "ParentInfo option \<Rightarrow> bool" where
  "in_dynamic_chain p = (case p of None \<Rightarrow> False | Some q \<Rightarrow> par_isInDynamicChain q)"

definition event_target :: "ExecutionInfo option \<Rightarrow> target_metadata" where
  "event_target info =
     (case info of
        None \<Rightarrow> No_TargetMetadata
      | Some e \<Rightarrow>
          (case ei_WorkflowNodeInfo e of
             Some w \<Rightarrow> (case w of None \<Rightarrow> No_TargetMetadata | Some i \<Rightarrow> Event_WorkflowNodeMetadata i)
           | None \<Rightarrow>
               (case ei_TaskNodeInfo e of
                  Some (Some m) \<Rightarrow> Event_TaskNodeMetadata m
                | _ \<Rightarrow> No_TargetMetadata)))"

definition base_event :: "node_config \<Rightarrow> 's NodeExecContext \<Rightarrow> event_phase \<Rightarrow> time \<Rightarrow> string option \<Rightarrow> NodeExecutionEvent" where
  "base_event cfg nCtx phase occurred target =
     \<lparr>nev_ExecutionId = xc_ExecutionID (nc_ic nCtx), nev_NodeId = en_ID (nc_node nCtx), nev_Phase = phase,
      nev_OccurredAt = occurred, nev_OutputResult = No_Result, nev_InputValue = No_Input,
      nev_ProducerId = cfg_clusterID cfg, nev_ReportedAt = cfg_now cfg, nev_TargetEntity = target,
      nev_IsInDynamicChain = in_dynamic_chain (xc_ParentInfo (nc_ic nCtx)), nev_ParentTaskMetadata = None,
      nev_ParentNodeMetadata = None, nev_RetryGroup = [], nev_SpecNodeId = [], nev_NodeName = [],
      nev_TargetMetadata = No_TargetMetadata, nev_DeckUri = [], nev_IsParent = False, nev_IsArray = False,
      nev_IsDynamic = False\<rparr>"

text \<open>The identifier of a node in events: unique within the execution in all but the oldest version.\<close>

definition event_node_id :: "'s NodeExecContext \<Rightarrow> go_error + string" where
  "event_node_id nCtx =
     (if xc_EventVersion (nc_ic nCtx) = 0 then Inr (en_ID (nc_node nCtx))
      else (case GenerateUniqueID (xc_ParentInfo (nc_ic nCtx)) (en_ID (nc_node nCtx)) of
              (_, Some e) \<Rightarrow> Inl e | (u, None) \<Rightarrow> Inr u))"

definition with_lineage :: "'s NodeExecContext \<Rightarrow> NodeStatus \<Rightarrow> string \<Rightarrow> NodeExecutionEvent \<Rightarrow> NodeExecutionEvent" where
  "with_lineage nCtx st uid nev =
     (if xc_EventVersion (nc_ic nCtx) = 0 then nev\<lparr>nev_ParentTaskMetadata := ns_ParentTask (ns st)\<rparr>
      else
        (let nev1 = (case xc_ParentInfo (nc_ic nCtx) of
               None \<Rightarrow> nev
             | Some p \<Rightarrow> nev\<lparr>nev_ParentNodeMetadata := Some (par_uniqueID p),
                             nev_RetryGroup := itoa (unat (par_currentAttempts p))\<rparr>)
         in nev1\<lparr>nev_SpecNodeId := en_ID (nc_node nCtx), nev_NodeId := uid, nev_NodeName := en_Name (nc_node nCtx)\<rparr>))"

definition with_kind :: "node_config \<Rightarrow> 's NodeExecContext \<Rightarrow> DynamicNodePhase \<Rightarrow> NodeExecutionEvent \<Rightarrow> NodeExecutionEvent" where
  "with_kind cfg nCtx dynamicNodePhase nev =
     (let n = nc_node nCtx
      in if en_Kind n = NodeKindWorkflow \<and> (\<exists>w \<in> set_option (en_WorkflowNode n). wfn_SubWorkflowReference w \<noteq> None)
         then nev\<lparr>nev_IsParent := True\<rparr>
         else if en_Kind n = NodeKindArray then
           nev\<lparr>nev_IsArray := True, nev_IsParent := (cfg_ArrayNodeEventVersion cfg = 1)\<rparr>
         else if dynamicNodePhase \<noteq> DynamicNodePhaseNone then
           nev\<lparr>nev_IsDynamic := True,
               nev_IsParent := (case nev_TargetMetadata nev of
                  Event_TaskNodeMetadata m \<Rightarrow> tm_DynamicWorkflow m \<noteq> None | _ \<Rightarrow> False)\<rparr>
         else nev)"

definition ToNodeExecutionEvent ::
    "node_config \<Rightarrow> 's NodeExecContext \<Rightarrow> PhaseInfo \<Rightarrow> NodeStatus \<Rightarrow> DynamicNodePhase \<Rightarrow> string option \<Rightarrow>
     go_error + NodeExecutionEvent option" where
  "ToNodeExecutionEvent cfg nCtx info st dynamicNodePhase target =
     (if pi_p info = EPhaseNotReady then Inr None
      else if pi_p info = EPhaseUndefined then
        Inl (Plain_Error (''illegal state, undefined phase received for node ['' @ en_ID (nc_node nCtx) @ '']''))
      else case TimestampProto (pi_occurredAt info) of
        Inl e \<Rightarrow> Inl e
      | Inr occurred \<Rightarrow>
          (let phase0 = ToNodeExecEventPhase (pi_p info);
               phase = (if xc_EventVersion (nc_ic nCtx) < 2 \<and> phase0 = Event_DYNAMIC_RUNNING
                        then Event_RUNNING else phase0);
               nev0 = base_event cfg nCtx phase occurred target;
               nev1 = (if en_ID (nc_node nCtx) = exec_StartNodeID then
                         nev0\<lparr>nev_OutputResult := ToNodeExecOutput (Some
                           \<lparr>OutputURI = GetOutputsFile (ns_OutputDir (ns st)), DeckURI = None\<rparr>)\<rparr>
                       else if cfg_RawOutputPolicyInline cfg then
                         (case pi_info info of
                            None \<Rightarrow> nev0 | Some e \<Rightarrow> nev0\<lparr>nev_InputValue := Event_InputData (ei_Inputs e)\<rparr>)
                       else nev0\<lparr>nev_InputValue := Event_InputUri (GetInputPath cfg nCtx)\<rparr>)
           in case event_node_id nCtx of
                Inl e \<Rightarrow> Inl e
              | Inr uid \<Rightarrow>
                  (let nev2 = (with_lineage nCtx st uid nev1)\<lparr>nev_TargetMetadata := event_target (pi_info info)\<rparr>;
                       nev3 = (case Option.bind (pi_info info) ei_OutputInfo of
                                 Some oi \<Rightarrow>
                                   nev2\<lparr>nev_DeckUri := (case DeckURI oi of None \<Rightarrow> nev_DeckUri nev2 | Some d \<Rightarrow> d),
                                        nev_OutputResult := ToNodeExecOutput (Some oi)\<rparr>
                               | None \<Rightarrow>
                                   (case pi_err info of
                                      Some e \<Rightarrow> nev2\<lparr>nev_OutputResult := Event_Error e\<rparr>
                                    | None \<Rightarrow> nev2))
                   in Inr (Some (with_kind cfg nCtx dynamicNodePhase nev3)))))"

subsection \<open>Recording events (node\_exec\_context.go, core\_phase.go)\<close>

definition IsTerminalNodePhase :: "event_phase \<Rightarrow> bool" where
  "IsTerminalNodePhase p \<longleftrightarrow>
     p = Event_ABORTED \<or> p = Event_FAILED \<or> p = Event_SKIPPED \<or> p = Event_SUCCEEDED \<or> p = Event_TIMED_OUT"

definition event_phase_name :: "event_phase \<Rightarrow> string" where
  "event_phase_name p =
     (case p of
        Event_UNDEFINED \<Rightarrow> ''UNDEFINED'' | Event_QUEUED \<Rightarrow> ''QUEUED'' | Event_RUNNING \<Rightarrow> ''RUNNING''
      | Event_SUCCEEDED \<Rightarrow> ''SUCCEEDED'' | Event_FAILING \<Rightarrow> ''FAILING'' | Event_FAILED \<Rightarrow> ''FAILED''
      | Event_SKIPPED \<Rightarrow> ''SKIPPED'' | Event_TIMED_OUT \<Rightarrow> ''TIMED_OUT'' | Event_DYNAMIC_RUNNING \<Rightarrow> ''DYNAMIC_RUNNING''
      | Event_RECOVERED \<Rightarrow> ''RECOVERED'' | Event_ABORTED \<Rightarrow> ''ABORTED'')"

text \<open>Which of the sink's errors the recorder passes on.\<close>

definition recording_error :: "NodeExecutionEvent \<Rightarrow> go_error \<Rightarrow> go_error option" where
  "recording_error ev err =
     (if nev_NodeId ev = EndNodeID then None
      else if IsAlreadyExists err then None
      else if IsEventAlreadyInTerminalStateError err then
        (if IsTerminalNodePhase (nev_Phase ev) then None
         else Some (node_Wrapf ''IllegalStateError'' (nev_NodeId ev) (Some err)
                (''phase mismatch mismatch between propeller and control plane; Trying to record Node p: '' @
                 event_phase_name (nev_Phase ev))))
      else Some err)"

type_synonym 'w event_sink = "NodeExecutionEvent \<Rightarrow> 'w \<Rightarrow> go_error option \<times> 'w"

definition RecordNodeEvent :: "'w event_sink \<Rightarrow> NodeExecutionEvent option \<Rightarrow> (go_error option, ('s, 'w) nrun) grun" where
  "RecordNodeEvent sink nodeEvent =
     (case nodeEvent of
        None \<Rightarrow> run_ok (Some (Plain_Error ''event recording attempt of Nil Node execution event''))
      | Some ev \<Rightarrow> (\<lambda>r. case sink ev (nr_w r) of
            (None, w) \<Rightarrow> (Go_Ok None, r\<lparr>nr_w := w, nr_events := nr_events r @ [ev]\<rparr>)
          | (Some err, w) \<Rightarrow> (Go_Ok (recording_error ev err), r\<lparr>nr_w := w\<rparr>)))"

end
