(* ===== verification/Input_Resolution.thy ===== *)
theory Input_Resolution
  imports Workflow_Executor Predicates Literal_Inference Var_Names
begin

section \<open>Resolving the inputs of a node (nodes/resolve.go, output\_resolver.go, attr\_path\_resolver.go)\<close>

text \<open>
  Before a node runs, its input bindings are turned into literals. A promise is looked up in the outputs that an upstream node has
  stored and, if it has a path of attributes, followed into the literal.

  Storage and the msgpack library are arguments: \<open>rs_Read\<close> reads a literal map (\<open>None\<close> for a nil map), \<open>rs_Large\<close>
  reads the contents of an offloaded literal, and \<open>rs_Unmarshal\<close>, \<open>rs_Marshal\<close> convert msgpack data. Dumps of whole
  values in error messages are left out. The node of a promise is found in the store of promises that the compiler left.
\<close>

subsection \<open>Values of structs and of msgpack data\<close>

text \<open>\<open>Struct.AsMap\<close>: numbers that are not finite become strings.\<close>

fun AsInterface :: "pb_value \<Rightarrow> pb_value" where
  "AsInterface (Pb_Number x) =
     (case x of NaN \<Rightarrow> Pb_String ''NaN'' | PosInf \<Rightarrow> Pb_String ''Infinity'' | NegInf \<Rightarrow> Pb_String ''-Infinity''
      | Finite _ \<Rightarrow> Pb_Number x)"
| "AsInterface (Pb_Struct m) = Pb_Struct (map (\<lambda>(k, v). (k, AsInterface v)) m)"
| "AsInterface (Pb_List xs) = Pb_List (map AsInterface xs)"
| "AsInterface v = v"

text \<open>Msgpack data: integers of a type that fits 64 signed bits, or of one that may not, and values of any other type.\<close>

datatype mp_value =
    Mp_Nil | Mp_Bool bool | Mp_Int int | Mp_Uint nat | Mp_Float float64 | Mp_String string
  | Mp_Map "(mp_value \<times> mp_value) list" | Mp_List "mp_value list" | Mp_Other

record resolver_store =
  rs_Read :: "string \<Rightarrow> go_error + literal_map"
  rs_Large :: "literal \<Rightarrow> go_error + literal"
  rs_Unmarshal :: "8 word list \<Rightarrow> go_error + mp_value"
  rs_Marshal :: "mp_value \<Rightarrow> go_error + 8 word list"

subsection \<open>Attribute paths (attr\_path\_resolver.go)\<close>

definition attr_GetStringValue :: "attr_path \<Rightarrow> string" where
  "attr_GetStringValue a = (case a of Attr_StringValue s \<Rightarrow> s | _ \<Rightarrow> [])"

definition attr_GetIntValue :: "attr_path \<Rightarrow> int" where
  "attr_GetIntValue a = (case a of Attr_IntValue i \<Rightarrow> i | _ \<Rightarrow> 0)"

definition PromiseAttributeResolveError :: string where "PromiseAttributeResolveError = ''PromiseAttributeResolveError''"

definition attr_error :: "string \<Rightarrow> string \<Rightarrow> 'a go" where
  "attr_error nodeID msg = Go_Err (node_Errorf PromiseAttributeResolveError nodeID msg)"

definition missing_key :: "string \<Rightarrow> attr_path \<Rightarrow> 'a go" where
  "missing_key nodeID a = attr_error nodeID (''key ['' @ attr_GetStringValue a @ ''] does not exist in literal'')"

definition bad_index :: "string \<Rightarrow> 'a go" where
  "bad_index nodeID = attr_error nodeID ''index is out of range''"

definition prim_literal :: "primitive_value \<Rightarrow> literal" where
  "prim_literal p = Literal (Some (Literal_Scalar (Some (Scalar (Some (Scalar_Primitive (Some (Some p))))))))"

fun convertInterfaceToLiteral :: "pb_value \<Rightarrow> literal" where
  "convertInterfaceToLiteral (Pb_Struct m) =
     Literal (Some (Literal_Scalar (Some (Scalar (Some (Scalar_Generic (Some m)))))))"
| "convertInterfaceToLiteral (Pb_List xs) =
     Literal (Some (Literal_Collection (Some (map (\<lambda>x. Some (convertInterfaceToLiteral x)) xs))))"
| "convertInterfaceToLiteral (Pb_String s) = prim_literal (Primitive_StringValue s)"
| "convertInterfaceToLiteral (Pb_Number x) = prim_literal (Primitive_FloatValue x)"
| "convertInterfaceToLiteral (Pb_Bool b) = prim_literal (Primitive_Boolean b)"
| "convertInterfaceToLiteral Pb_Null = Literal None"

fun pb_loop :: "string \<Rightarrow> pb_value \<Rightarrow> attr_path list \<Rightarrow> pb_value go" where
  "pb_loop nodeID currVal [] = Go_Ok currVal"
| "pb_loop nodeID currVal (attr # attrs) =
     (case currVal of
        Pb_Struct m \<Rightarrow>
          (case map_of m (attr_GetStringValue attr) of
             None \<Rightarrow> missing_key nodeID attr
           | Some v \<Rightarrow> pb_loop nodeID v attrs)
      | Pb_List xs \<Rightarrow>
          (let index = attr_GetIntValue attr
           in if index < 0 \<or> int (length xs) \<le> index then bad_index nodeID
              else pb_loop nodeID (xs ! nat index) attrs)
      | _ \<Rightarrow> pb_loop nodeID currVal attrs)"

definition resolveAttrPathInPbStruct :: "string \<Rightarrow> (string \<times> pb_value) list \<Rightarrow> attr_path list \<Rightarrow> literal go" where
  "resolveAttrPathInPbStruct nodeID st bindAttrPath =
     go_bind (pb_loop nodeID (AsInterface (Pb_Struct st)) bindAttrPath) (\<lambda>v. Go_Ok (convertInterfaceToLiteral v))"

definition constructResolvedBinary :: "8 word list \<Rightarrow> string \<Rightarrow> literal" where
  "constructResolvedBinary bytes serializationFormat =
     Literal (Some (Literal_Scalar (Some (Scalar (Some (Scalar_Binary bytes serializationFormat))))))"

definition of_sum :: "go_error + 'a \<Rightarrow> 'a go" where
  "of_sum x = (case x of Inl e \<Rightarrow> Go_Err e | Inr y \<Rightarrow> Go_Ok y)"

fun mp_loop :: "string \<Rightarrow> mp_value \<Rightarrow> attr_path list \<Rightarrow> mp_value go" where
  "mp_loop nodeID currVal [] = Go_Ok currVal"
| "mp_loop nodeID currVal (attr # attrs) =
     (case currVal of
        Mp_Map m \<Rightarrow>
          (case attr of
             Attr_StringValue k \<Rightarrow>
               (case map_of m (Mp_String k) of
                  None \<Rightarrow> missing_key nodeID attr
                | Some v \<Rightarrow> mp_loop nodeID v attrs)
           | _ \<Rightarrow> attr_error nodeID ''unexpected attribute type'')
      | Mp_List xs \<Rightarrow>
          (case attr of
             Attr_IntValue index \<Rightarrow>
               if index < 0 \<or> int (length xs) \<le> index then bad_index nodeID
               else mp_loop nodeID (xs ! nat index) attrs
           | _ \<Rightarrow> attr_error nodeID ''unexpected attribute type'')
      | _ \<Rightarrow> attr_error nodeID ''unexpected type'')"

definition isPrimitiveType :: "mp_value \<Rightarrow> bool" where
  "isPrimitiveType v = (case v of
     Mp_String _ \<Rightarrow> True | Mp_Int _ \<Rightarrow> True | Mp_Uint _ \<Rightarrow> True | Mp_Float _ \<Rightarrow> True | Mp_Bool _ \<Rightarrow> True | _ \<Rightarrow> False)"

definition convertInterfaceToLiteralScalar :: "string \<Rightarrow> mp_value \<Rightarrow> literal go" where
  "convertInterfaceToLiteralScalar nodeID v =
     (case v of
        Mp_String s \<Rightarrow> Go_Ok (prim_literal (Primitive_StringValue s))
      | Mp_Int i \<Rightarrow> Go_Ok (prim_literal (Primitive_Integer i))
      | Mp_Uint n \<Rightarrow>
          if n > 2 ^ 63 - 1
          then Go_Err (node_Errorf ''InvalidPrimitiveType'' nodeID ''uint64 value is too large to be converted to int64'')
          else Go_Ok (prim_literal (Primitive_Integer (int n)))
      | Mp_Float x \<Rightarrow> Go_Ok (prim_literal (Primitive_FloatValue x))
      | Mp_Bool b \<Rightarrow> Go_Ok (prim_literal (Primitive_Boolean b))
      | _ \<Rightarrow> Go_Err (node_Errorf ''InvalidPrimitiveType'' nodeID ''Failed to resolve interface to literal scalar''))"

fun marshal_all :: "resolver_store \<Rightarrow> string \<Rightarrow> mp_value list \<Rightarrow> lit_ptr list go" where
  "marshal_all S fmt [] = Go_Ok []"
| "marshal_all S fmt (v # vs) =
     go_bind (of_sum (rs_Marshal S v)) (\<lambda>bytes.
     go_bind (marshal_all S fmt vs) (\<lambda>ls. Go_Ok (Some (constructResolvedBinary bytes fmt) # ls)))"

definition resolveAttrPathInBinary ::
    "resolver_store \<Rightarrow> string \<Rightarrow> 8 word list \<Rightarrow> string \<Rightarrow> attr_path list \<Rightarrow> literal go" where
  "resolveAttrPathInBinary S nodeID bytes serializationFormat bindAttrPath =
     (if serializationFormat \<noteq> MESSAGEPACK then
        attr_error nodeID (''Unsupported format '' @ [CHR 0x27] @ serializationFormat @ [CHR 0x27] @ '' found for literal value.'' @ [CHR 0x0A] @
           ''Please ensure the serialization format is supported.'')
      else
        go_bind (of_sum (rs_Unmarshal S bytes)) (\<lambda>v0.
        go_bind (mp_loop nodeID v0 bindAttrPath) (\<lambda>currVal.
          case currVal of
            Mp_List xs \<Rightarrow>
              go_bind (marshal_all S serializationFormat xs) (\<lambda>ls. Go_Ok (Literal (Some (Literal_Collection (Some ls)))))
          | _ \<Rightarrow>
              if isPrimitiveType currVal then convertInterfaceToLiteralScalar nodeID currVal
              else go_bind (of_sum (rs_Marshal S currVal)) (\<lambda>b. Go_Ok (constructResolvedBinary b serializationFormat)))))"

text \<open>
  The loop over a literal: it also goes on where it cannot descend, and counts the attributes that it used.
  An index into a collection is only compared with its length.
\<close>

definition is_offloaded :: "lit_ptr \<Rightarrow> bool" where
  "is_offloaded l = (case lit_GetValue l of Some (Literal_OffloadedMetadata _) \<Rightarrow> True | _ \<Rightarrow> False)"

definition load_large :: "resolver_store \<Rightarrow> string \<Rightarrow> lit_ptr \<Rightarrow> lit_ptr go" where
  "load_large S nodeID l =
     (case l of
        Some lit \<Rightarrow>
          if is_offloaded l then
            (case rs_Large S lit of
               Inl _ \<Rightarrow> attr_error nodeID ''failed to read offloaded metadata for promise''
             | Inr lit' \<Rightarrow> Go_Ok (Some lit'))
          else Go_Ok l
      | None \<Rightarrow> Go_Ok None)"

fun attr_loop :: "resolver_store \<Rightarrow> string \<Rightarrow> lit_ptr \<Rightarrow> attr_path list \<Rightarrow> nat \<Rightarrow> (lit_ptr \<times> nat) go" where
  "attr_loop S nodeID currVal [] index = Go_Ok (currVal, index)"
| "attr_loop S nodeID currVal (attr # attrs) index =
     go_bind (load_large S nodeID currVal) (\<lambda>v.
       case lit_GetValue v of
         Some (Literal_OffloadedMetadata _) \<Rightarrow> attr_error nodeID ''unexpected offloaded metadata type''
       | Some (Literal_Map m) \<Rightarrow>
           (case map_of m (attr_GetStringValue attr) of
              None \<Rightarrow> missing_key nodeID attr
            | Some x \<Rightarrow> attr_loop S nodeID x attrs (index + 1))
       | Some (Literal_Collection xs) \<Rightarrow>
           (let ls = (case xs of None \<Rightarrow> [] | Some l \<Rightarrow> l); i = attr_GetIntValue attr
            in if int (length ls) \<le> i then bad_index nodeID
               else if i < 0 then Go_Panic
               else attr_loop S nodeID (ls ! nat i) attrs (index + 1))
       | _ \<Rightarrow> attr_loop S nodeID v attrs index)"

definition resolveAttrPathInPromise ::
    "resolver_store \<Rightarrow> string \<Rightarrow> lit_ptr \<Rightarrow> attr_path list \<Rightarrow> lit_ptr go" where
  "resolveAttrPathInPromise S nodeID literal bindAttrPath =
     go_bind (attr_loop S nodeID literal bindAttrPath 0) (\<lambda>(currVal, index).
       case Option.bind (GetScalar currVal) scalar_value of
         Some (Scalar_Binary bytes tag) \<Rightarrow>
           go_bind (resolveAttrPathInBinary S nodeID bytes tag (drop index bindAttrPath)) (\<lambda>l. Go_Ok (Some l))
       | Some (Scalar_Generic (Some st)) \<Rightarrow>
           go_bind (resolveAttrPathInPbStruct nodeID st (drop index bindAttrPath)) (\<lambda>l. Go_Ok (Some l))
       | _ \<Rightarrow> Go_Ok currVal)"

subsection \<open>Outputs of upstream nodes (output\_resolver.go)\<close>

definition CreateAliasMap :: "(string \<times> string) list \<Rightarrow> string \<Rightarrow> string option" where
  "CreateAliasMap aliases = fold (\<lambda>(alias, var) m. m(alias \<mapsto> var)) aliases Map.empty"

definition stored_outputs :: "resolver_store \<Rightarrow> string \<Rightarrow> string \<Rightarrow> (string \<times> lit_ptr) list go" where
  "stored_outputs S nodeID outputsFileRef =
     (case rs_Read S outputsFileRef of
        Inl err \<Rightarrow> Go_Err (node_Wrapf ''CausedByError'' nodeID (Some err)
                     (''Failed to GetPrevious data from outputDir ['' @ outputsFileRef @ '']''))
      | Inr None \<Rightarrow> Go_Err (node_Errorf ''OutputsNotFoundError'' nodeID (''Outputs not found at ['' @ outputsFileRef @ '']''))
      | Inr (Some d) \<Rightarrow> Go_Ok d)"

definition resolveSubtaskOutput :: "resolver_store \<Rightarrow> string \<Rightarrow> string \<Rightarrow> nat \<Rightarrow> string \<Rightarrow> lit_ptr go" where
  "resolveSubtaskOutput S nodeID outputsFileRef idx varName =
     go_bind (stored_outputs S nodeID outputsFileRef) (\<lambda>d.
       case map_of d varName of
         None \<Rightarrow> Go_Err (node_Errorf BadSpecificationError nodeID
           ''Output of array tasks is expected to be a single literal map entry named 'array' of type LiteralCollection.'')
       | Some l \<Rightarrow>
           (case lit_GetValue l of
              Some (Literal_Collection xs) \<Rightarrow>
                (let literals = (case xs of None \<Rightarrow> [] | Some ls \<Rightarrow> ls)
                 in if length literals \<le> idx
                    then Go_Err (node_Errorf ''OutputsNotFoundError'' nodeID
                      (''Failed to find ['' @ nodeID @ ''['' @ itoa idx @ ''].'' @ varName @ '']''))
                    else Go_Ok (literals ! idx))
            | _ \<Rightarrow> Go_Err (node_Errorf BadSpecificationError nodeID
                ''Output of array tasks of key 'array' is not a LiteralCollection.'')))"

definition resolveSingleOutput :: "resolver_store \<Rightarrow> string \<Rightarrow> string \<Rightarrow> string \<Rightarrow> lit_ptr go" where
  "resolveSingleOutput S nodeID outputsFileRef varName =
     go_bind (stored_outputs S nodeID outputsFileRef) (\<lambda>d.
       case map_of d varName of
         None \<Rightarrow> Go_Err (node_Errorf ''OutputsNotFoundError'' nodeID (''Failed to find ['' @ nodeID @ ''].['' @ varName @ '']''))
       | Some l \<Rightarrow> Go_Ok l)"

definition ExtractOutput ::
    "resolver_store \<Rightarrow> 's NodeLookup \<Rightarrow> NodeSpec \<Rightarrow> string \<Rightarrow> attr_path list \<Rightarrow> (lit_ptr, 's) grun" where
  "ExtractOutput S nl n bindToVar bindAttrPath = (\<lambda>s.
     case nl_status nl (en_ID n) s of
       (None, s') \<Rightarrow> (Go_Panic, s')
     | (Some st, s') \<Rightarrow>
         (case nodes_ParseVarName bindToVar of
            Inl e \<Rightarrow> Go_Err (Plain_Error e)
          | Inr (index, actualVar) \<Rightarrow>
              (let var = (case CreateAliasMap (en_OutputAliases n) actualVar of None \<Rightarrow> actualVar | Some v \<Rightarrow> v);
                   file = GetOutputsFile (ns_OutputDir (ns st));
                   output = (case index of
                       None \<Rightarrow> resolveSingleOutput S (en_ID n) file var
                     | Some i \<Rightarrow> resolveSubtaskOutput S (en_ID n) file i var)
               in if bindAttrPath = [] then output
                  else go_bind output (\<lambda>l. resolveAttrPathInPromise S (en_ID n) l bindAttrPath)),
          s'))"

subsection \<open>Bindings (resolve.go)\<close>

definition resolve_promise ::
    "resolver_store \<Rightarrow> promise_store \<Rightarrow> 's NodeLookup \<Rightarrow> promise option \<Rightarrow> (lit_ptr, 's) grun" where
  "resolve_promise S ids nl p =
     (let upstreamNodeID = (case p of None \<Rightarrow> [] | Some q \<Rightarrow> ids (promise_addr q));
          bindToVar = (case p of None \<Rightarrow> [] | Some q \<Rightarrow> promise_Var q);
          bindAttrPath = (case p of None \<Rightarrow> [] | Some q \<Rightarrow> promise_AttrPath q)
      in if upstreamNodeID = [] then
           run_err (node_Errorf BadSpecificationError ''missing'' ''No nodeId (missing) specified for binding in Workflow.'')
         else case nl_GetNode nl upstreamNodeID of
           None \<Rightarrow> run_err (node_Errorf ''IllegalStateError'' ''id'' (upstreamNodeID @ ''%!(EXTRA string=Undefined node in Workflow)''))
         | Some n \<Rightarrow> ExtractOutput S nl n bindToVar bindAttrPath)"

fun ResolveBindingData ::
    "resolver_store \<Rightarrow> promise_store \<Rightarrow> 's NodeLookup \<Rightarrow> bd_ptr \<Rightarrow> (lit_ptr, 's) grun"
  and resolve_list ::
    "resolver_store \<Rightarrow> promise_store \<Rightarrow> 's NodeLookup \<Rightarrow> bd_ptr list \<Rightarrow> (lit_ptr list, 's) grun"
  and resolve_entries ::
    "resolver_store \<Rightarrow> promise_store \<Rightarrow> 's NodeLookup \<Rightarrow> (string \<times> bd_ptr) list \<Rightarrow> ((string \<times> lit_ptr) list, 's) grun" where
  "ResolveBindingData S ids nl None = run_ok None"
| "ResolveBindingData S ids nl (Some (BindingData None)) = run_ok (Some (Literal None))"
| "ResolveBindingData S ids nl (Some (BindingData (Some (BindingData_Scalar sc)))) =
     run_ok (Some (Literal (Some (Literal_Scalar sc))))"
| "ResolveBindingData S ids nl (Some (BindingData (Some (BindingData_Promise p)))) = resolve_promise S ids nl p"
| "ResolveBindingData S ids nl (Some (BindingData (Some (BindingData_Collection None)))) =
     run_ok (Some (Literal (Some (Literal_Collection (Some [])))))"
| "ResolveBindingData S ids nl (Some (BindingData (Some (BindingData_Collection (Some bs))))) =
     run_bind (resolve_list S ids nl bs) (\<lambda>ls. run_ok (Some (Literal (Some (Literal_Collection (Some ls))))))"
| "ResolveBindingData S ids nl (Some (BindingData (Some (BindingData_Map None)))) =
     run_ok (Some (Literal (Some (Literal_Map []))))"
| "ResolveBindingData S ids nl (Some (BindingData (Some (BindingData_Map (Some m))))) =
     run_bind (resolve_entries S ids nl m) (\<lambda>ls. run_ok (Some (Literal (Some (Literal_Map ls)))))"
| "resolve_list S ids nl [] = run_ok []"
| "resolve_list S ids nl (b # bs) =
     run_bind (ResolveBindingData S ids nl b) (\<lambda>l. run_bind (resolve_list S ids nl bs) (\<lambda>ls. run_ok (l # ls)))"
| "resolve_entries S ids nl [] = run_ok []"
| "resolve_entries S ids nl ((k, b) # bs) =
     run_bind (ResolveBindingData S ids nl b) (\<lambda>l. run_bind (resolve_entries S ids nl bs) (\<lambda>ls. run_ok ((k, l) # ls)))"

fun map_put :: "'k \<Rightarrow> 'v \<Rightarrow> ('k \<times> 'v) list \<Rightarrow> ('k \<times> 'v) list" where
  "map_put k v [] = [(k, v)]"
| "map_put k v ((k', v') # m) = (if k = k' then (k, v) # m else (k', v') # map_put k v m)"

fun resolve_bindings ::
    "resolver_store \<Rightarrow> promise_store \<Rightarrow> 's NodeLookup \<Rightarrow> string \<Rightarrow> binding list \<Rightarrow> (string \<times> lit_ptr) list \<Rightarrow>
     ((string \<times> lit_ptr) list, 's) grun" where
  "resolve_bindings S ids nl nodeID [] m = run_ok m"
| "resolve_bindings S ids nl nodeID (b # bs) m = (\<lambda>s.
     case ResolveBindingData S ids nl (binding_Binding b) s of
       (Go_Ok l, s') \<Rightarrow> resolve_bindings S ids nl nodeID bs (map_put (binding_Var b) l m) s'
     | (Go_Err e, s') \<Rightarrow>
         (Go_Err (node_Wrapf ''BindingResolutionError'' nodeID (Some e)
            (''Error binding Var [wf].['' @ binding_Var b @ '']'')), s')
     | (Go_Panic, s') \<Rightarrow> (Go_Panic, s'))"

definition Resolve ::
    "resolver_store \<Rightarrow> promise_store \<Rightarrow> 's NodeLookup \<Rightarrow> string \<Rightarrow> binding list \<Rightarrow> ((string \<times> lit_ptr) list, 's) grun" where
  "Resolve S ids nl nodeID bindings = resolve_bindings S ids nl nodeID bindings []"

text \<open>The input \<open>err\<close> of a failure node gets the error of the workflow. The literal is changed in place; a nil one panics.\<close>

definition error_literal :: "string \<Rightarrow> ExecutionError \<Rightarrow> literal" where
  "error_literal nodeID execErr =
     Literal (Some (Literal_Scalar (Some (Scalar (Some (Scalar_Union
       (Some (Literal (Some (Literal_Scalar (Some (Scalar (Some (Scalar_Error (ee_Message execErr) nodeID))))))))
       (Some (LiteralType (Some (LT_Simple ERROR)) None None (Some (TypeStructure ''FlyteError'' []))))))))))"

definition ResolveErrorInputLiteralData :: "(string \<times> lit_ptr) list \<Rightarrow> string \<Rightarrow> ExecutionError \<Rightarrow> (string \<times> lit_ptr) list go" where
  "ResolveErrorInputLiteralData literals nodeID execErr =
     (case map_of literals ''err'' of
        None \<Rightarrow> Go_Ok literals
      | Some None \<Rightarrow> Go_Panic
      | Some (Some _) \<Rightarrow> Go_Ok (map_put ''err'' (Some (error_literal nodeID execErr)) literals))"

definition ResolveOnFailureNodeInput :: "literal_map \<Rightarrow> string \<Rightarrow> ExecutionError \<Rightarrow> literal_map go" where
  "ResolveOnFailureNodeInput nodeInputs nodeID execErr =
     (case nodeInputs of
        None \<Rightarrow> Go_Err (node_Errorf ''BindingResolutionError'' ''id'' (nodeID @ ''%!(EXTRA string=Node inputs are empty)''))
      | Some literals \<Rightarrow> go_bind (ResolveErrorInputLiteralData literals nodeID execErr) (\<lambda>ls. Go_Ok (Some ls)))"

subsection \<open>Where a path leads\<close>

text \<open>The literal at the end of a path, and the value at the end of a path into a struct.\<close>

inductive at_path :: "lit_ptr \<Rightarrow> attr_path list \<Rightarrow> lit_ptr \<Rightarrow> bool" where
  at_here: "at_path l [] l"
| at_key: "lit_GetValue l = Some (Literal_Map m) \<Longrightarrow> map_of m k = Some x \<Longrightarrow> at_path x p v \<Longrightarrow>
    at_path l (Attr_StringValue k # p) v"
| at_index: "lit_GetValue l = Some (Literal_Collection (Some ls)) \<Longrightarrow> i < length ls \<Longrightarrow> at_path (ls ! i) p v \<Longrightarrow>
    at_path l (Attr_IntValue (int i) # p) v"

inductive pb_at :: "pb_value \<Rightarrow> attr_path list \<Rightarrow> pb_value \<Rightarrow> bool" where
  pb_here: "pb_at v [] v"
| pb_key: "map_of m k = Some x \<Longrightarrow> pb_at x p v \<Longrightarrow> pb_at (Pb_Struct m) (Attr_StringValue k # p) v"
| pb_index: "i < length xs \<Longrightarrow> pb_at (xs ! i) p v \<Longrightarrow> pb_at (Pb_List xs) (Attr_IntValue (int i) # p) v"

code_pred at_path .
code_pred pb_at .

lemma load_plain: "\<not> is_offloaded l \<Longrightarrow> load_large S n l = Go_Ok l"
  by (cases l) (simp_all add: load_large_def)

lemma attr_loop_at:
  "at_path l p v \<Longrightarrow> attr_loop S n l (p @ q) k = attr_loop S n v q (k + length p)"
proof (induction arbitrary: k rule: at_path.induct)
  case (at_key l m key x p v)
  then have "load_large S n l = Go_Ok l" by (intro load_plain) (simp add: is_offloaded_def)
  with at_key show ?case by (simp add: attr_GetStringValue_def)
next
  case (at_index l ls i p v)
  then have "load_large S n l = Go_Ok l" by (intro load_plain) (simp add: is_offloaded_def)
  with at_index show ?case by (simp add: attr_GetIntValue_def)
qed simp

text \<open>A scalar is passed over with all attributes that are left.\<close>

lemma attr_loop_scalar:
  "lit_GetValue l = Some (Literal_Scalar sc) \<Longrightarrow> attr_loop S n l q k = Go_Ok (l, k)"
proof (induction q arbitrary: k)
  case (Cons a q)
  then have "load_large S n l = Go_Ok l" by (intro load_plain) (simp add: is_offloaded_def)
  with Cons show ?case by simp
qed simp

lemma pb_loop_at: "pb_at v p w \<Longrightarrow> pb_loop n v p = Go_Ok w"
  by (induction rule: pb_at.induct) (simp_all add: attr_GetStringValue_def attr_GetIntValue_def)

definition plain_literal :: "lit_ptr \<Rightarrow> bool" where
  "plain_literal v = (case Option.bind (GetScalar v) scalar_value of
     Some (Scalar_Binary _ _) \<Rightarrow> False | Some (Scalar_Generic (Some _)) \<Rightarrow> False | _ \<Rightarrow> True)"

text \<open>
  Property C16. A promise with a path of attributes gets the value at the end of that path: a literal reached through maps and
  collections is returned as it is, and where the path enters a struct, its rest is followed in the struct and the value found there is
  returned as a literal.
\<close>

theorem resolved_paths:
  assumes "at_path l p v"
  shows "(plain_literal v \<longrightarrow> resolveAttrPathInPromise S n l p = Go_Ok v) \<and>
    (\<forall>st q w. v = Some (Literal (Some (Literal_Scalar (Some (Scalar (Some (Scalar_Generic (Some st)))))))) \<and>
       pb_at (AsInterface (Pb_Struct st)) q w \<longrightarrow>
       resolveAttrPathInPromise S n l (p @ q) = Go_Ok (Some (convertInterfaceToLiteral w)))"
proof (intro conjI impI allI)
  assume "plain_literal v"
  with attr_loop_at [OF assms, of S n "[]" 0] show "resolveAttrPathInPromise S n l p = Go_Ok v"
    by (auto simp: resolveAttrPathInPromise_def plain_literal_def split: option.splits scalar_value.splits)
next
  fix st q w
  assume "v = Some (Literal (Some (Literal_Scalar (Some (Scalar (Some (Scalar_Generic (Some st)))))))) \<and>
    pb_at (AsInterface (Pb_Struct st)) q w"
  then have v: "v = Some (Literal (Some (Literal_Scalar (Some (Scalar (Some (Scalar_Generic (Some st))))))))"
    and w: "pb_loop n (AsInterface (Pb_Struct st)) q = Go_Ok w" using pb_loop_at by blast+
  have "attr_loop S n l (p @ q) 0 = Go_Ok (v, length p)"
    unfolding attr_loop_at [OF assms] by (simp add: attr_loop_scalar lit_GetValue_def v)
  with w show "resolveAttrPathInPromise S n l (p @ q) = Go_Ok (Some (convertInterfaceToLiteral w))"
    by (simp add: resolveAttrPathInPromise_def resolveAttrPathInPbStruct_def v GetScalar_def lit_GetValue_def del: AsInterface.simps)
qed

definition sample_resolver :: resolver_store where
  "sample_resolver = \<lparr>rs_Read = (\<lambda>_. Inr None), rs_Large = Inr, rs_Unmarshal = (\<lambda>_. Inr Mp_Nil), rs_Marshal = (\<lambda>_. Inr [])\<rparr>"

definition sample_struct :: "lit_ptr" where
  "sample_struct = Some (Literal (Some (Literal_Map [(''a'', Some (Literal (Some (Literal_Scalar (Some (Scalar
     (Some (Scalar_Generic (Some [(''b'', Pb_List [Pb_Bool False, Pb_Bool True])])))))))))])))"

theorem resolved_paths_witness:
  "resolveAttrPathInPromise sample_resolver ''n0'' sample_struct
     ([Attr_StringValue ''a''] @ [Attr_StringValue ''b'', Attr_IntValue (int 1)]) =
   Go_Ok (Some (prim_literal (Primitive_Boolean True)))"
proof -
  let ?st = "[(''b'', Pb_List [Pb_Bool False, Pb_Bool True])]"
  let ?v = "Some (Literal (Some (Literal_Scalar (Some (Scalar (Some (Scalar_Generic (Some ?st))))))))"
  have "at_path sample_struct [Attr_StringValue ''a''] ?v"
    by (rule at_key) (auto simp: sample_struct_def lit_GetValue_def intro: at_here)
  moreover have "pb_at (AsInterface (Pb_Struct ?st)) [Attr_StringValue ''b'', Attr_IntValue (int 1)] (Pb_Bool True)"
    by (subst AsInterface.simps, rule pb_key, simp, rule pb_index) (simp_all add: pb_here)
  ultimately show ?thesis
    using resolved_paths [of sample_struct "[Attr_StringValue ''a'']" ?v sample_resolver "''n0''"]
    by (simp only: convertInterfaceToLiteral.simps)
qed

text \<open>A negative index into a collection panics, where the same index into a struct or msgpack list is an error.\<close>

lemma negative_index_panics:
  assumes "i < 0"
  shows "resolveAttrPathInPromise S n (Some (Literal (Some (Literal_Collection (Some ls))))) [Attr_IntValue i] = Go_Panic"
    and "\<exists>e. pb_loop n (Pb_List xs) [Attr_IntValue i] = Go_Err e"
  using assms
  by (simp_all add: resolveAttrPathInPromise_def load_large_def is_offloaded_def lit_GetValue_def attr_GetIntValue_def
      bad_index_def attr_error_def)

subsection \<open>What is resolved\<close>

lemma map_put_simps [simp]:
  "map_of (map_put k v m) = (map_of m)(k \<mapsto> v)" "fst ` set (map_put k v m) = insert k (fst ` set m)"
proof -
  show "map_of (map_put k v m) = (map_of m)(k \<mapsto> v)" by (induction m) (auto simp: fun_eq_iff)
  show "fst ` set (map_put k v m) = insert k (fst ` set m)"
  proof (induction m)
    case (Cons x m)
    then show ?case by (cases x) (simp add: insert_commute)
  qed simp
qed

lemma map_put_distinct [simp]: "distinct (map fst (map_put k v m)) = distinct (map fst m)"
proof (induction m)
  case (Cons x m)
  have "set (map fst (map_put k v m)) = insert k (fst ` set m)" by simp
  with Cons show ?case by (cases x) auto
qed simp

lemma resolve_bindings_domain:
  "resolve_bindings S ids nl n bs m s = (Go_Ok m', s') \<Longrightarrow>
     fst ` set m' = fst ` set m \<union> binding_Var ` set bs \<and> (distinct (map fst m) \<longrightarrow> distinct (map fst m'))"
proof (induction bs arbitrary: m s)
  case Nil
  then show ?case by (simp add: run_ok_def)
next
  case (Cons b bs)
  then show ?case
    by (auto split: prod.splits go.splits)
qed

lemma resolve_bindings_error:
  "resolve_bindings S ids nl n bs m s = (Go_Err e, s') \<Longrightarrow> IsCausedBy (Some e) ''BindingResolutionError''"
proof (induction bs arbitrary: m s)
  case (Cons b bs)
  then show ?case by (auto simp: node_Wrapf_def node_Errorf_def NodeErrorWithCause_Code_def split: prod.splits go.splits)
qed (simp add: run_ok_def)

text \<open>
  Resolving the bindings of a node gives every bound variable exactly one value and nothing else, and every failure is
  reported as one of resolving a binding. For a failure node the input \<open>err\<close> then carries the error of the workflow, and the others are left alone.
\<close>

lemma resolve_inputs:
  "(Resolve S ids nl n bs s = (Go_Ok m, s') \<longrightarrow>
      fst ` set m = binding_Var ` set bs \<and> distinct (map fst m) \<and>
      (\<forall>execErr m'. ResolveOnFailureNodeInput (Some m) n execErr = Go_Ok m' \<longrightarrow>
         (\<forall>x. x \<noteq> ''err'' \<longrightarrow> input_literal m' x = input_literal (Some m) x) \<and>
         (''err'' \<in> binding_Var ` set bs \<longrightarrow> input_literal m' ''err'' = Some (error_literal n execErr)))) \<and>
   (Resolve S ids nl n bs s = (Go_Err e, s') \<longrightarrow> IsCausedBy (Some e) ''BindingResolutionError'')"
proof (intro conjI impI allI)
  assume r: "Resolve S ids nl n bs s = (Go_Ok m, s')"
  from resolve_bindings_domain [OF r [unfolded Resolve_def]] show d: "fst ` set m = binding_Var ` set bs"
    and "distinct (map fst m)" by auto
  fix execErr m'
  assume "ResolveOnFailureNodeInput (Some m) n execErr = Go_Ok m'"
  then obtain ls where m': "m' = Some ls" and ls: "ResolveErrorInputLiteralData m n execErr = Go_Ok ls"
    by (auto simp: ResolveOnFailureNodeInput_def go_bind_Ok)
  { fix x :: string assume "x \<noteq> ''err''"
    then show "input_literal m' x = input_literal (Some m) x"
      using ls by (auto simp: m' input_literal_def ResolveErrorInputLiteralData_def split: option.splits) }
  assume "''err'' \<in> binding_Var ` set bs"
  then obtain l where "map_of m ''err'' = Some l" using d by (metis map_of_eq_None_iff not_None_eq)
  with ls show "input_literal m' ''err'' = Some (error_literal n execErr)"
    by (auto simp: m' input_literal_def ResolveErrorInputLiteralData_def split: option.splits)
next
  assume "Resolve S ids nl n bs s = (Go_Err e, s')"
  then show "IsCausedBy (Some e) ''BindingResolutionError''" unfolding Resolve_def by (rule resolve_bindings_error)
qed

end
