(* ===== verification/Node_Cache.thy ===== *)
theory Node_Cache
  imports Node_Context Input_Resolution
begin

section \<open>Node handlers and the catalog cache (nodes/interfaces/handler.go, nodes/cache.go)\<close>

text \<open>
  A handler is a record of its methods; each may change the state of the round, return an error or panic. A handler that caches
  also says whether a node is cacheable, and gives the key under which its outputs are stored. The catalog is a service: a record of
  calls that change the outside world. Of a key only its text and the outputs of the interface matter.
\<close>

subsection \<open>Handlers\<close>

record catalog_key =
  ck_text :: string
  ck_Outputs :: "variable_map option"

record ('s, 'w) CacheableNodeHandler =
  ch_IsCacheable :: "'s NodeExecContext \<Rightarrow> (bool \<times> bool, ('s, 'w) nrun) grun"
  ch_GetCatalogKey :: "'s NodeExecContext \<Rightarrow> (catalog_key, ('s, 'w) nrun) grun"

record ('s, 'w) NodeHandler =
  h_FinalizeRequired :: bool
  h_Handle :: "'s NodeExecContext \<Rightarrow> (Transition, ('s, 'w) nrun) grun"
  h_Abort :: "'s NodeExecContext \<Rightarrow> string \<Rightarrow> (unit, ('s, 'w) nrun) grun"
  h_Finalize :: "'s NodeExecContext \<Rightarrow> (unit, ('s, 'w) nrun) grun"
  h_Cacheable :: "('s, 'w) CacheableNodeHandler option"

subsection \<open>The catalog\<close>

record catalog_status =
  cs_CacheStatus :: CatalogCacheStatus
  cs_Metadata :: "string option"

text \<open>An entry and what reading its outputs gives: an error, or outputs and perhaps an execution error. A missing reader is \<open>None\<close>.\<close>

record catalog_entry =
  ce_Status :: catalog_status
  ce_Outputs :: "(go_error + literal_map \<times> ExecutionError option) option"

record 'w catalog =
  cat_Get :: "catalog_key \<Rightarrow> 'w \<Rightarrow> (go_error + catalog_entry) \<times> 'w"
  cat_GetOrExtendReservation :: "catalog_key \<Rightarrow> string \<Rightarrow> 'w \<Rightarrow> (go_error + string) \<times> 'w"
  cat_ReleaseReservation :: "catalog_key \<Rightarrow> string \<Rightarrow> 'w \<Rightarrow> go_error option \<times> 'w"
  cat_Put :: "catalog_key \<Rightarrow> string \<Rightarrow> 'w \<Rightarrow> (catalog_status \<times> go_error option) \<times> 'w"
  cat_Update :: "catalog_key \<Rightarrow> string \<Rightarrow> 'w \<Rightarrow> (catalog_status \<times> go_error option) \<times> 'w"
  cat_is_not_found :: "go_error \<Rightarrow> bool"

definition cat_NewStatus :: "CatalogCacheStatus \<Rightarrow> string option \<Rightarrow> catalog_status" where
  "cat_NewStatus c m = \<lparr>cs_CacheStatus = c, cs_Metadata = m\<rparr>"

subsection \<open>What the executor of nodes is built on\<close>

text \<open>
  A node of an earlier execution that may be recovered, as the recovery service returns it: a closure, and in a second call the data.
  Phases and metadata are those of events.
\<close>

record recovered_closure =
  rcl_Phase :: event_phase
  rcl_TargetMetadata :: target_metadata
  rcl_DynamicJobSpecUri :: string
  rcl_OutputData :: "literal_map option"
  rcl_OutputUri :: string
  rcl_DeckUri :: string

record recovered_node =
  rno_Closure :: "recovered_closure option"
  rno_InputUri :: string
  rno_IsDynamic :: bool

record recovered_data =
  rda_FullInputs :: "literal_map option"
  rda_FullOutputs :: "literal_map option"
  rda_DynamicWorkflow :: "string option"

text \<open>What a launched execution is told of its parent, and what its status tells the parent.\<close>

record launch_context =
  lcx_ParentNodeExecution :: "(string \<times> string \<times> string) option \<times> string"
  lcx_RecoveryExecution :: "(string \<times> string \<times> string) option"
  lcx_MaxParallelism :: uint32
  lcx_OverwriteCache :: bool
  lcx_Labels :: "(string \<times> string) list"
  lcx_Settings :: exec_settings

datatype execution_phase =
    Execution_UNDEFINED | Execution_QUEUED | Execution_RUNNING | Execution_SUCCEEDING | Execution_SUCCEEDED
  | Execution_FAILING | Execution_FAILED | Execution_ABORTED | Execution_TIMED_OUT | Execution_ABORTING

record execution_closure =
  ecl_Phase :: execution_phase
  ecl_Error :: "ExecutionError option"

record 'w launcher =
  lp_Launch :: "launch_context \<Rightarrow> string \<times> string \<times> string \<Rightarrow> string \<Rightarrow> literal_map \<Rightarrow> string \<Rightarrow> 'w \<Rightarrow> go_error option \<times> 'w"
  lp_GetStatus :: "string \<times> string \<times> string \<Rightarrow> 'w \<Rightarrow> (go_error + (execution_closure option \<times> literal_map)) \<times> 'w"
  lp_Kill :: "string \<times> string \<times> string \<Rightarrow> string \<Rightarrow> 'w \<Rightarrow> go_error option \<times> 'w"

text \<open>Services and storage. Reading and writing go to the outside world, which they may change.\<close>

record signal_request =
  srq_ExecutionId :: "(string \<times> string \<times> string) option"
  srq_SignalId :: string
  srq_Type :: lt_ptr

record 'w signal_client =
  sig_GetOrCreateSignal :: "signal_request \<Rightarrow> 'w \<Rightarrow> (go_error + lit_ptr) \<times> 'w"
  sig_literal_text :: "lit_ptr \<Rightarrow> string"

record 'w node_env =
  ne_cfg :: node_config
  ne_sink :: "'w event_sink"
  ne_catalog :: "'w catalog"
  ne_WriteProtobuf :: "string \<Rightarrow> literal_map \<Rightarrow> 'w \<Rightarrow> go_error option \<times> 'w"
  ne_ReadProtobuf :: "string \<Rightarrow> 'w \<Rightarrow> (go_error + literal_map) \<times> 'w"
  ne_CopyRaw :: "string \<Rightarrow> string \<Rightarrow> 'w \<Rightarrow> go_error option \<times> 'w"
  ne_Head :: "string \<Rightarrow> 'w \<Rightarrow> (go_error + bool) \<times> 'w"
  ne_resolver :: "'w \<Rightarrow> resolver_store"
  ne_promises :: promise_store
  ne_RecoverNodeExecution ::
    "string \<times> string \<times> string \<Rightarrow> string \<Rightarrow> 'w \<Rightarrow> (go_error + recovered_node option) \<times> 'w"
  ne_RecoverNodeExecutionData ::
    "string \<times> string \<times> string \<Rightarrow> string \<Rightarrow> 'w \<Rightarrow> (go_error + recovered_data option) \<times> 'w"
  ne_OffloadingEnabled :: bool
  ne_IsSupportedSDKVersion :: "string \<Rightarrow> string \<Rightarrow> bool"
  ne_GetSupportedSDKVersion :: "string \<Rightarrow> string"
  ne_error_text :: "ExecutionError \<Rightarrow> string"
  ne_IsNotFound :: "go_error \<Rightarrow> bool"
  ne_signals :: "'w signal_client"
  ne_launcher :: "'w launcher"
  ne_EnqueueOwner :: "'w \<Rightarrow> go_error option \<times> 'w"

text \<open>The state manager of the node, seen together with the status that it points to.\<close>

definition get_manager :: "'s NodeExecContext \<Rightarrow> (nodeStateManager, ('s, 'w) nrun) grun" where
  "get_manager nCtx = run_bind (read_status (nc_nl nCtx) (nc_id nCtx)) (\<lambda>st.
     get_run (\<lambda>r. (nr_nsm r)\<lparr>nsm_nodeStatus := st\<rparr>))"

definition put_manager :: "(nodeStateManager \<Rightarrow> nodeStateManager) \<Rightarrow> (unit, ('s, 'w) nrun) grun" where
  "put_manager f = (\<lambda>r. (Go_Ok (), r\<lparr>nr_nsm := f (nr_nsm r)\<rparr>))"

text \<open>An operation on the lookup state alone, and a call to the world that may fail.\<close>

definition on_lookup :: "('a, 's) grun \<Rightarrow> ('a, ('s, 'w) nrun) grun" where
  "on_lookup m = (\<lambda>r. case m (nr_s r) of (x, s) \<Rightarrow> (x, r\<lparr>nr_s := s\<rparr>))"

definition world_or :: "(go_error \<Rightarrow> go_error) \<Rightarrow> ('w \<Rightarrow> go_error option \<times> 'w) \<Rightarrow> (unit, ('s, 'w) nrun) grun" where
  "world_or wrap f = run_bind (on_world f) (\<lambda>res. case res of None \<Rightarrow> run_ok () | Some e \<Rightarrow> run_err (wrap e))"

definition world_get :: "(go_error \<Rightarrow> go_error) \<Rightarrow> ('w \<Rightarrow> (go_error + 'a) \<times> 'w) \<Rightarrow> ('a, ('s, 'w) nrun) grun" where
  "world_get wrap f = run_bind (on_world f) (\<lambda>res. case res of Inr x \<Rightarrow> run_ok x | Inl e \<Rightarrow> run_err (wrap e))"

subsection \<open>Using the cache (nodes/cache.go)\<close>

definition IDMaxLength :: int where "IDMaxLength = 50"

definition computeCatalogReservationOwnerID :: "'s NodeExecContext \<Rightarrow> NodeStatus \<Rightarrow> go_error + string" where
  "computeCatalogReservationOwnerID nCtx st =
     (case GenerateUniqueID (xc_ParentInfo (nc_ic nCtx)) (en_ID (nc_node nCtx)) of
        (_, Some e) \<Rightarrow> Inl e
      | (currentNodeUniqueID, None) \<Rightarrow>
          (case FixedLengthUniqueIDForParts IDMaxLength
             [xc_Name (nc_ic nCtx), currentNodeUniqueID, itoa (unat (ns_Attempts (ns st)))] [] of
             (_, Some e) \<Rightarrow> Inl e
           | (ownerID, None) \<Rightarrow> Inr ownerID))"

definition new_TaskNodeMetadata :: TaskNodeMetadata where
  "new_TaskNodeMetadata = \<lparr>tm_CacheStatus = CACHE_DISABLED, tm_CatalogKey = None,
     tm_ReservationStatus = RESERVATION_DISABLED, tm_DynamicWorkflow = None, tm_CheckpointUri = []\<rparr>"

definition updatePhaseCacheInfo ::
    "PhaseInfo \<Rightarrow> catalog_status option \<Rightarrow> ReservationStatus option \<Rightarrow> PhaseInfo" where
  "updatePhaseCacheInfo p cacheStatus reservationStatus =
     (if cacheStatus = None \<and> reservationStatus = None then p
      else
        (let info = (case pi_info p of None \<Rightarrow> empty_info | Some i \<Rightarrow> i);
             m0 = (case ei_TaskNodeInfo info of Some (Some m) \<Rightarrow> m | _ \<Rightarrow> new_TaskNodeMetadata);
             m1 = (case cacheStatus of
                     None \<Rightarrow> m0
                   | Some c \<Rightarrow> m0\<lparr>tm_CacheStatus := cs_CacheStatus c, tm_CatalogKey := cs_Metadata c\<rparr>);
             m2 = (case reservationStatus of None \<Rightarrow> m1 | Some v \<Rightarrow> m1\<lparr>tm_ReservationStatus := v\<rparr>)
         in WithInfo p (Some (info\<lparr>ei_TaskNodeInfo := Some (Some m2)\<rparr>))))"

text \<open>An error with a message in front, as \<open>errors.Wrapf\<close> of the errors package makes it.\<close>

definition with_message :: "string \<Rightarrow> ('a, 's) grun \<Rightarrow> ('a, 's) grun" where
  "with_message msg m = (\<lambda>r. case m r of
     (Go_Err e, r') \<Rightarrow> (Go_Err (Wrapping_Error (msg @ '': '') e), r') | x \<Rightarrow> x)"

definition CheckCatalogCache ::
    "'w node_env \<Rightarrow> 's NodeExecContext \<Rightarrow> ('s, 'w) CacheableNodeHandler \<Rightarrow> (catalog_entry, ('s, 'w) nrun) grun" where
  "CheckCatalogCache E nCtx cacheHandler =
     run_bind (with_message ''failed to initialize the catalogKey'' (ch_GetCatalogKey cacheHandler nCtx)) (\<lambda>catalogKey.
     run_bind (on_world (cat_Get (ne_catalog E) catalogKey)) (\<lambda>got.
       case got of
         Inl err \<Rightarrow>
           if cat_is_not_found (ne_catalog E) err
           then run_ok \<lparr>ce_Status = cat_NewStatus CACHE_MISS None, ce_Outputs = None\<rparr>
           else run_err (Wrapping_Error ''Failed to check Catalog for previous results: '' err)
       | Inr entry \<Rightarrow>
           if cs_CacheStatus (ce_Status entry) \<noteq> CACHE_HIT then run_ok entry
           else if GetVariables (ck_Outputs catalogKey) = [] then run_ok entry
           else
             (case ce_Outputs entry of
                None \<Rightarrow> run_panic
              | Some (Inl err) \<Rightarrow> run_err err
              | Some (Inr (_, Some ee)) \<Rightarrow>
                  run_err (node_Errorf ''IllegalStateError'' (en_ID (nc_node nCtx))
                    (''execution error from a cache output, bad state: '' @ ne_error_text E ee))
              | Some (Inr (outs, None)) \<Rightarrow>
                  run_bind (read_status (nc_nl nCtx) (nc_id nCtx)) (\<lambda>st.
                  run_bind (on_world (ne_WriteProtobuf E (GetOutputsFile (ns_OutputDir (ns st))) outs)) (\<lambda>res.
                    case res of Some err \<Rightarrow> run_err err | None \<Rightarrow> run_ok entry)))))"

definition with_owner ::
    "'s NodeExecContext \<Rightarrow> ('s, 'w) CacheableNodeHandler \<Rightarrow> (catalog_key \<Rightarrow> string \<Rightarrow> ('a, ('s, 'w) nrun) grun) \<Rightarrow>
     ('a, ('s, 'w) nrun) grun" where
  "with_owner nCtx cacheHandler f =
     run_bind (with_message ''failed to initialize the catalogKey'' (ch_GetCatalogKey cacheHandler nCtx)) (\<lambda>catalogKey.
     run_bind (read_status (nc_nl nCtx) (nc_id nCtx)) (\<lambda>st.
       case computeCatalogReservationOwnerID nCtx st of
         Inl e \<Rightarrow> run_err (Wrapping_Error ''failed to initialize the cache reservation ownerID: '' e)
       | Inr ownerID \<Rightarrow> f catalogKey ownerID))"

definition GetOrExtendCatalogReservation ::
    "'w node_env \<Rightarrow> 's NodeExecContext \<Rightarrow> ('s, 'w) CacheableNodeHandler \<Rightarrow> (ReservationStatus, ('s, 'w) nrun) grun" where
  "GetOrExtendCatalogReservation E nCtx cacheHandler =
     with_owner nCtx cacheHandler (\<lambda>catalogKey ownerID.
       run_bind (on_world (cat_GetOrExtendReservation (ne_catalog E) catalogKey ownerID)) (\<lambda>res.
         case res of
           Inl err \<Rightarrow> run_err err
         | Inr owner \<Rightarrow> run_ok (if owner = ownerID then RESERVATION_ACQUIRED else RESERVATION_EXISTS)))"

definition ReleaseCatalogReservation ::
    "'w node_env \<Rightarrow> 's NodeExecContext \<Rightarrow> ('s, 'w) CacheableNodeHandler \<Rightarrow> (ReservationStatus, ('s, 'w) nrun) grun" where
  "ReleaseCatalogReservation E nCtx cacheHandler =
     with_owner nCtx cacheHandler (\<lambda>catalogKey ownerID.
       run_bind (on_world (cat_ReleaseReservation (ne_catalog E) catalogKey ownerID)) (\<lambda>res.
         case res of Some err \<Rightarrow> run_err err | None \<Rightarrow> run_ok RESERVATION_RELEASED))"

text \<open>Writing to the cache returns a status and perhaps an error together.\<close>

definition WriteCatalogCache ::
    "'w node_env \<Rightarrow> 's NodeExecContext \<Rightarrow> ('s, 'w) CacheableNodeHandler \<Rightarrow>
     (catalog_status \<times> go_error option, ('s, 'w) nrun) grun" where
  "WriteCatalogCache E nCtx cacheHandler = (\<lambda>r.
     case ch_GetCatalogKey cacheHandler nCtx r of
       (Go_Panic, r1) \<Rightarrow> (Go_Panic, r1)
     | (Go_Err e, r1) \<Rightarrow>
         (Go_Ok (cat_NewStatus CACHE_DISABLED None, Some (Wrapping_Error ''failed to initialize the catalogKey: '' e)), r1)
     | (Go_Ok catalogKey, r1) \<Rightarrow>
         if ck_Outputs catalogKey = Some [] then (Go_Ok (cat_NewStatus CACHE_DISABLED None, None), r1)
         else
           run_bind (read_status (nc_nl nCtx) (nc_id nCtx)) (\<lambda>st.
           run_bind (on_world ((if xc_OverwriteCache (nc_ic nCtx) then cat_Update (ne_catalog E) else cat_Put (ne_catalog E))
               catalogKey (ns_OutputDir (ns st)))) (\<lambda>(status, err).
             run_ok (if err \<noteq> None then (cat_NewStatus CACHE_PUT_FAILURE (cs_Metadata status), None)
                     else (status, None)))) r1)"

end
