(* ===== verification/Node_Recovery.thy ===== *)
theory Node_Recovery
  imports Node_Cache
begin

section \<open>Recovery of nodes (attemptRecovery and recoverInputs of nodes/executor.go)\<close>

text \<open>
  When an execution recovers an earlier one, a node that succeeded there is not run again: its inputs and outputs are copied and it becomes
  recovered. A dynamic node whose workflow was already compiled continues with that workflow. In all other cases the node runs as usual,
  which the result \<open>PhaseInfoUndefined\<close> says.
\<close>

definition inputs_not_stored :: "node_config \<Rightarrow> 's NodeExecContext \<Rightarrow> go_error \<Rightarrow> go_error" where
  "inputs_not_stored cfg nCtx e = node_Wrapf ''StorageError'' (en_ID (nc_node nCtx)) (Some e)
     (''Failed to store inputs for Node. InputsFile ['' @ GetInputPath cfg nCtx @ '']'')"

definition recoverInputs ::
    "'w node_env \<Rightarrow> 's NodeExecContext \<Rightarrow> recovered_node \<Rightarrow> recovered_data \<Rightarrow> (literal_map, ('s, 'w) nrun) grun" where
  "recoverInputs E nCtx recovered recoveredData =
     (let path = GetInputPath (ne_cfg E) nCtx; failed = inputs_not_stored (ne_cfg E) nCtx
      in case rda_FullInputs recoveredData of
           Some nodeInputs \<Rightarrow>
             run_bind (world_or failed (ne_WriteProtobuf E path nodeInputs)) (\<lambda>_. run_ok nodeInputs)
         | None \<Rightarrow>
             if rno_InputUri recovered \<noteq> [] then
               run_bind (world_get (\<lambda>e. node_Wrapf ''InputsNotFoundError'' (en_ID (nc_node nCtx)) (Some e)
                   (''failed to read data from dataDir ['' @ rno_InputUri recovered @ ''].''))
                 (ne_ReadProtobuf E (rno_InputUri recovered))) (\<lambda>nodeInputs.
               run_bind (world_or failed (ne_WriteProtobuf E path nodeInputs)) (\<lambda>_. run_ok nodeInputs))
             else run_ok None)"

text \<open>The place of the compiled workflow of a dynamic node; the places of two more files are built as well.\<close>

definition NewRemoteFutureFileReader :: "node_config \<Rightarrow> string \<Rightarrow> go_error + string" where
  "NewRemoteFutureFileReader cfg dataDir =
     (case cfg_refs cfg dataDir [''futures.pb''] of
        None \<Rightarrow> Inl (std_Wrapf ''system'' (Some (cfg_ref_error cfg)) ''failed to construct data path'')
      | Some loc \<Rightarrow>
          if cfg_refs cfg dataDir [''futures_compiled.pb''] = None
          then Inl (std_Wrapf ''system'' (Some (cfg_ref_error cfg))
                 ''failed to construct reference for workflow CRD cache location'')
          else if cfg_refs cfg dataDir [''dynamic_compiled.pb''] = None
          then Inl (std_Wrapf ''system'' (Some (cfg_ref_error cfg))
                 ''failed to construct reference for compiled workflow closure cache location'')
          else Inr loc)"

text \<open>The checkpoint of a task is kept for the task handler.\<close>

definition save_checkpoint :: "'s NodeExecContext \<Rightarrow> recovered_closure \<Rightarrow> (unit, ('s, 'w) nrun) grun" where
  "save_checkpoint nCtx closure =
     (case rcl_TargetMetadata closure of
        Event_TaskNodeMetadata m \<Rightarrow>
          run_bind (get_manager nCtx) (\<lambda>nsm.
            put_manager (PutTaskNodeState
              ((GetTaskNodeState nsm)\<lparr>ts_PreviousNodeExecutionCheckpointURI := tm_CheckpointUri m\<rparr>)))
      | _ \<Rightarrow> run_ok ())"

definition RecoverData ::
    "'w node_env \<Rightarrow> string \<times> string \<times> string \<Rightarrow> string \<Rightarrow> (recovered_data option, ('s, 'w) nrun) grun" where
  "RecoverData E ex node =
     run_bind (on_world (ne_RecoverNodeExecutionData E ex node)) (\<lambda>res.
       run_ok (case res of Inl _ \<Rightarrow> None | Inr d \<Rightarrow> d))"

definition recover_dynamic ::
    "'w node_env \<Rightarrow> 's NodeExecContext \<Rightarrow> string \<times> string \<times> string \<Rightarrow> string \<Rightarrow> recovered_node \<Rightarrow> recovered_closure \<Rightarrow>
     (PhaseInfo, ('s, 'w) nrun) grun" where
  "recover_dynamic E nCtx ex node recovered closure =
     run_bind (RecoverData E ex node) (\<lambda>data.
       case data of
         None \<Rightarrow> run_ok PhaseInfoUndefined
       | Some recoveredData \<Rightarrow>
           run_bind (recoverInputs E nCtx recovered recoveredData) (\<lambda>_.
           run_bind (read_status (nc_nl nCtx) (nc_id nCtx)) (\<lambda>st.
             case NewRemoteFutureFileReader (ne_cfg E) (ns_OutputDir (ns st)) of
               Inl e \<Rightarrow> run_err e
             | Inr loc \<Rightarrow>
                 run_bind (world_or (\<lambda>e. node_Wrapf ''StorageError'' (en_ID (nc_node nCtx)) (Some e)
                     (''failed to store dynamic job spec for node. source file ['' @ rcl_DynamicJobSpecUri closure @
                      ''] destination file ['' @ loc @ '']''))
                   (ne_CopyRaw E (rcl_DynamicJobSpecUri closure) loc)) (\<lambda>_.
                 run_bind (get_manager nCtx) (\<lambda>nsm.
                 run_bind (put_manager (PutDynamicNodeState
                   ((GetDynamicNodeState nsm)\<lparr>dst_Phase := DynamicNodePhaseParentFinalized\<rparr>))) (\<lambda>_.
                   run_ok (PhaseInfoRunning (cfg_now (ne_cfg E)) (Some empty_info))))))))"

definition recovered_outputs ::
    "'w node_env \<Rightarrow> 's NodeExecContext \<Rightarrow> recovered_closure \<Rightarrow> recovered_data \<Rightarrow> (literal_map, ('s, 'w) nrun) grun" where
  "recovered_outputs E nCtx closure recoveredData =
     (case rda_FullOutputs recoveredData of
        Some m \<Rightarrow> run_ok m
      | None \<Rightarrow>
          (case rcl_OutputData closure of
             Some m \<Rightarrow> run_ok m
           | None \<Rightarrow>
               if rcl_OutputUri closure \<noteq> [] then
                 world_get (\<lambda>e. node_Wrapf ''InputsNotFoundError'' (en_ID (nc_node nCtx)) (Some e)
                     (''failed to read output data ['' @ rcl_OutputUri closure @ ''].''))
                   (ne_ReadProtobuf E (rcl_OutputUri closure))
               else run_ok None))"

definition recovered_deck :: "'w node_env \<Rightarrow> 's NodeExecContext \<Rightarrow> recovered_closure \<Rightarrow> (string option, ('s, 'w) nrun) grun" where
  "recovered_deck E nCtx closure =
     (if rcl_DeckUri closure = [] then run_ok None
      else run_bind (world_get (\<lambda>e. node_Wrapf ''CausedByError'' (en_ID (nc_node nCtx)) (Some e)
             ''Failed to check the existence of deck file.'') (ne_Head E (rcl_DeckUri closure))) (\<lambda>found.
           run_ok (if found then Some (rcl_DeckUri closure) else None)))"

definition recovered_info ::
    "recovered_closure \<Rightarrow> recovered_data \<Rightarrow> literal_map \<Rightarrow> OutputInfo \<Rightarrow> ExecutionInfo" where
  "recovered_info closure recoveredData nodeInputs oi =
     (let info = empty_info\<lparr>ei_Inputs := nodeInputs, ei_OutputInfo := Some oi\<rparr>
      in case rcl_TargetMetadata closure of
           Event_TaskNodeMetadata m \<Rightarrow>
             info\<lparr>ei_TaskNodeInfo := Some (Some (new_TaskNodeMetadata\<lparr>tm_CatalogKey := tm_CatalogKey m,
               tm_CacheStatus := tm_CacheStatus m, tm_DynamicWorkflow := rda_DynamicWorkflow recoveredData\<rparr>))\<rparr>
         | Event_WorkflowNodeMetadata i \<Rightarrow> info\<lparr>ei_WorkflowNodeInfo := Some (Some i)\<rparr>
         | No_TargetMetadata \<Rightarrow> info)"

definition recover_succeeded ::
    "'w node_env \<Rightarrow> 's NodeExecContext \<Rightarrow> string \<times> string \<times> string \<Rightarrow> string \<Rightarrow> recovered_node \<Rightarrow> recovered_closure \<Rightarrow>
     (PhaseInfo, ('s, 'w) nrun) grun" where
  "recover_succeeded E nCtx ex node recovered closure =
     run_bind (RecoverData E ex node) (\<lambda>data.
       case data of
         None \<Rightarrow> run_ok PhaseInfoUndefined
       | Some recoveredData \<Rightarrow>
           run_bind (recoverInputs E nCtx recovered recoveredData) (\<lambda>nodeInputs.
           run_bind (recovered_outputs E nCtx closure recoveredData) (\<lambda>outputs.
           run_bind (read_status (nc_nl nCtx) (nc_id nCtx)) (\<lambda>st.
             let outputFile = GetOutputsFile (ns_OutputDir (ns st))
             in run_bind (recovered_deck E nCtx closure) (\<lambda>deck.
                run_bind (world_or (\<lambda>e. node_Wrapf ''CausedByError'' (en_ID (nc_node nCtx)) (Some e)
                    ''Failed to store recovered node execution outputs'')
                  (ne_WriteProtobuf E outputFile outputs)) (\<lambda>_.
                  run_ok (PhaseInfoRecovered (cfg_now (ne_cfg E))
                    (Some (recovered_info closure recoveredData nodeInputs
                      \<lparr>OutputURI = outputFile, DeckURI = deck\<rparr>)))))))))"

definition attemptRecovery ::
    "'w node_env \<Rightarrow> 's NodeExecContext \<Rightarrow> string \<times> string \<times> string \<Rightarrow> (PhaseInfo, ('s, 'w) nrun) grun" where
  "attemptRecovery E nCtx ex =
     (case event_node_id nCtx of
        Inl e \<Rightarrow> run_err e
      | Inr node \<Rightarrow>
          run_bind (on_world (ne_RecoverNodeExecution E ex node)) (\<lambda>res.
            case res of
              Inr (Some recovered) \<Rightarrow>
                (case rno_Closure recovered of
                   None \<Rightarrow> run_ok PhaseInfoUndefined
                 | Some closure \<Rightarrow>
                     if rcl_Phase closure = Event_SKIPPED then run_ok PhaseInfoUndefined
                     else if rcl_Phase closure = Event_SUCCEEDED \<or> rcl_Phase closure = Event_RECOVERED
                     then recover_succeeded E nCtx ex node recovered closure
                     else
                       run_bind (save_checkpoint nCtx closure) (\<lambda>_.
                         if rno_IsDynamic recovered \<and> rcl_DynamicJobSpecUri closure \<noteq> []
                         then recover_dynamic E nCtx ex node recovered closure
                         else run_ok PhaseInfoUndefined))
            | _ \<Rightarrow> run_ok PhaseInfoUndefined))"

end
