(* ===== verification/Node_Executor.thy ===== *)
theory Node_Executor
  imports Node_Recovery
begin

section \<open>The executor of a single node (nodeExecutor of nodes/executor.go)\<close>

text \<open>
  One round of one node. \<open>HandleNode\<close> looks at the phase of the node, lets the handler of its kind work, and moves the node to the
  next phase, which it announces by an event. Logs, metrics and spans are left out; reading the end times of upstream nodes for
  a metric is kept where it can create a status or panic.
\<close>

subsection \<open>Results\<close>

abbreviation exec_status :: "ExecPhase \<Rightarrow> ExecStatus" where
  "exec_status p \<equiv> \<lparr>xs_NodePhase = p, xs_Err = None\<rparr>"

definition NodeStatusPending :: ExecStatus where "NodeStatusPending = exec_status ExecPhasePending"
definition NodeStatusQueued :: ExecStatus where "NodeStatusQueued = exec_status ExecPhaseQueued"
definition NodeStatusRunning :: ExecStatus where "NodeStatusRunning = exec_status ExecPhaseRunning"
definition NodeStatusSuccess :: ExecStatus where "NodeStatusSuccess = exec_status ExecPhaseSuccess"
definition NodeStatusComplete :: ExecStatus where "NodeStatusComplete = exec_status ExecPhaseComplete"
definition NodeStatusTimedOut :: ExecStatus where "NodeStatusTimedOut = exec_status ExecPhaseTimedOut"
definition NodeStatusRecovered :: ExecStatus where "NodeStatusRecovered = exec_status ExecPhaseRecovered"
definition NodeStatusFailed :: "ExecutionError option \<Rightarrow> ExecStatus" where
  "NodeStatusFailed e = \<lparr>xs_NodePhase = ExecPhaseFailed, xs_Err = e\<rparr>"

lemmas exec_statuses = NodeStatusPending_def NodeStatusQueued_def NodeStatusRunning_def NodeStatusSuccess_def
  NodeStatusComplete_def NodeStatusTimedOut_def NodeStatusRecovered_def NodeStatusFailed_def

definition IllegalStateError :: string where "IllegalStateError = ''IllegalStateError''"

abbreviation node_of :: "'s NodeExecContext \<Rightarrow> string" where
  "node_of nCtx \<equiv> en_ID (nc_node nCtx)"

abbreviation own_status :: "'s NodeExecContext \<Rightarrow> (NodeStatus, ('s, 'w) nrun) grun" where
  "own_status nCtx \<equiv> read_status (nc_nl nCtx) (nc_id nCtx)"

abbreviation change_own :: "'s NodeExecContext \<Rightarrow> (NodeStatus \<Rightarrow> NodeStatus) \<Rightarrow> (unit, ('s, 'w) nrun) grun" where
  "change_own nCtx f \<equiv> change_status (nc_nl nCtx) (nc_id nCtx) f"

definition of_go :: "'a go \<Rightarrow> ('a, 's) grun" where
  "of_go x = (\<lambda>r. (x, r))"

subsection \<open>Before a node runs\<close>

definition CheckOffloadingCompat ::
    "'w node_env \<Rightarrow> 's NodeExecContext \<Rightarrow> (string \<times> lit_ptr) list \<Rightarrow> PhaseInfo option go" where
  "CheckOffloadingCompat E nCtx inputLiterals =
     (let now = cfg_now (ne_cfg E); a = cfg_alloc (ne_cfg E)
      in if \<not> list_ex (\<lambda>(k, v). is_offloaded v) inputLiterals then Go_Ok None
         else if en_Kind (nc_node nCtx) \<noteq> NodeKindTask then Go_Ok None
         else case en_TaskRef (nc_node nCtx) of
           None \<Rightarrow> Go_Panic
         | Some taskID \<Rightarrow>
             (case xc_GetTask (nc_ic nCtx) taskID of
                Inl e \<Rightarrow> Go_Ok (Some (PhaseInfoFailure now a Kind_SYSTEM ''GetTaskIDFailure'' (Error e) None))
              | Inr task \<Rightarrow>
                  if \<not> ne_IsSupportedSDKVersion E (fst (tt_Runtime task)) (snd (tt_Runtime task)) then
                    if \<not> ne_OffloadingEnabled E then
                      Go_Ok (Some (PhaseInfoFailure now a Kind_USER ''LiteralOffloadingDisabled''
                        (''task ['' @ taskID @ ''] is trying to consume offloaded literals but feature is not enabled'') None))
                    else
                      Go_Ok (Some (PhaseInfoFailure now a Kind_USER ''LiteralOffloadingNotSupported''
                        (''Literal offloading is not supported for this task as its registered with SDK version ['' @
                         snd (tt_Runtime task) @ ''] which is less than the least supported version ['' @
                         ne_GetSupportedSDKVersion E (fst (tt_Runtime task)) @ ''] for this feature'') None))
                  else Go_Ok None))"

text \<open>The inputs of a failure node also carry the error of the workflow.\<close>

definition failure_input ::
    "'s NodeExecContext \<Rightarrow> (string \<times> lit_ptr) list \<Rightarrow> literal_map go" where
  "failure_input nCtx nodeInputs =
     (case nl_OriginalError (nc_nl nCtx) of
        Some (Some originalErr) \<Rightarrow> ResolveOnFailureNodeInput (Some nodeInputs) (node_of nCtx) originalErr
      | _ \<Rightarrow> Go_Ok (Some nodeInputs))"

definition queue_node ::
    "'w node_env \<Rightarrow> 's NodeExecContext \<Rightarrow> string \<Rightarrow> literal_map \<Rightarrow> (PhaseInfo, ('s, 'w) nrun) grun" where
  "queue_node E nCtx dataDir nodeInputs =
     run_bind (of_go (CheckOffloadingCompat E nCtx (case nodeInputs of None \<Rightarrow> [] | Some m \<Rightarrow> m))) (\<lambda>bad.
       case bad of
         Some p \<Rightarrow> run_ok p
       | None \<Rightarrow>
           run_bind (world_or (\<lambda>e. node_Wrapf ''StorageError'' (node_of nCtx) (Some e)
               (''Failed to store inputs for Node. InputsFile ['' @ GetInputsFile dataDir @ '']''))
             (ne_WriteProtobuf E (GetInputsFile dataDir) nodeInputs)) (\<lambda>_.
             run_ok (PhaseInfoQueued (cfg_now (ne_cfg E)) ''node queued'' nodeInputs)))"

definition prepare_inputs :: "'w node_env \<Rightarrow> 's NodeExecContext \<Rightarrow> (PhaseInfo, ('s, 'w) nrun) grun" where
  "prepare_inputs E nCtx =
     (let now = cfg_now (ne_cfg E); a = cfg_alloc (ne_cfg E)
      in run_bind (own_status nCtx) (\<lambda>st. \<lambda>r.
           case on_lookup (Resolve (ne_resolver E (nr_w r)) (ne_promises E) (nc_nl nCtx) (node_of nCtx)
                  (en_InputBindings (nc_node nCtx))) r of
             (Go_Panic, r1) \<Rightarrow> (Go_Panic, r1)
           | (Go_Err e, r1) \<Rightarrow>
               (Go_Ok (PhaseInfoFailure now a Kind_SYSTEM ''BindingResolutionFailure'' (Error e) None), r1)
           | (Go_Ok nodeInputs, r1) \<Rightarrow>
               (case failure_input nCtx nodeInputs of
                  Go_Panic \<Rightarrow> (Go_Panic, r1)
                | Go_Err e \<Rightarrow>
                    (Go_Ok (PhaseInfoFailure now a Kind_SYSTEM ''FailureNodeInputResolvingError'' (Error e) None), r1)
                | Go_Ok inputs \<Rightarrow> queue_node E nCtx (ns_DataDir (ns st)) inputs r1)))"

definition preExecute :: "'w node_env \<Rightarrow> DAGStructure \<Rightarrow> 's NodeExecContext \<Rightarrow> (PhaseInfo, ('s, 'w) nrun) grun" where
  "preExecute E dag nCtx =
     (let now = cfg_now (ne_cfg E)
      in run_bind (on_lookup (CanExecute dag (nc_nl nCtx) (node_of nCtx))) (\<lambda>predicatePhase.
           if predicatePhase = PredicatePhaseReady then
             if node_of nCtx = exec_StartNodeID then run_ok (PhaseInfoQueued now ''node queued'' None)
             else case xc_RecoveryExecution (nc_ic nCtx) of
               None \<Rightarrow> prepare_inputs E nCtx
             | Some ex \<Rightarrow>
                 run_bind (attemptRecovery E nCtx ex) (\<lambda>p.
                   if pi_p p \<noteq> EPhaseUndefined then run_ok p else prepare_inputs E nCtx)
           else if predicatePhase = PredicatePhaseSkip then
             run_ok (PhaseInfoSkip now None ''Node Skipped as parent node was skipped'')
           else run_ok (PhaseInfoNotReady now ''predecessor node not yet complete'')))"

subsection \<open>Deadlines and retries\<close>

definition isTimeoutExpired :: "time \<Rightarrow> time option \<Rightarrow> int \<Rightarrow> bool" where
  "isTimeoutExpired now queuedAt timeout =
     (case queuedAt of None \<Rightarrow> False | Some t \<Rightarrow> t \<noteq> 0 \<and> timeout \<noteq> 0 \<and> int t + timeout < int now)"

definition deadline_of :: "int option \<Rightarrow> int \<Rightarrow> int" where
  "deadline_of own d = (case own of Some x \<Rightarrow> if x > 0 then x else d | None \<Rightarrow> d)"

definition GetKind :: "ExecutionError option \<Rightarrow> error_kind" where
  "GetKind e = (case e of None \<Rightarrow> Kind_UNKNOWN | Some x \<Rightarrow> ee_Kind x)"

definition kind_text :: "error_kind \<Rightarrow> string" where
  "kind_text k = (case k of Kind_UNKNOWN \<Rightarrow> ''UNKNOWN'' | Kind_USER \<Rightarrow> ''USER'' | Kind_SYSTEM \<Rightarrow> ''SYSTEM'')"

definition isEligibleForRetry ::
    "node_config \<Rightarrow> NodeSpec \<Rightarrow> NodeStatus \<Rightarrow> ExecutionError option \<Rightarrow> uint32 \<times> uint32 \<times> bool" where
  "isEligibleForRetry cfg n st err =
     (if \<not> cfg_IgnoreRetryCause cfg \<and> GetKind err = Kind_SYSTEM then
        (ns_SystemFailures (ns st), cfg_maxNodeRetriesForSystemFailures cfg,
         ns_SystemFailures (ns st) < cfg_maxNodeRetriesForSystemFailures cfg)
      else
        (let currentAttempt = (if cfg_IgnoreRetryCause cfg then ns_Attempts (ns st) + 1
                               else (ns_Attempts (ns st) + 1) - ns_SystemFailures (ns st))
         in (currentAttempt, max_attempts cfg n, currentAttempt < max_attempts cfg n)))"

text \<open>
  After the handler: a node that did not end may have used up its time, for good or for this attempt. \<open>Inl\<close> is the phase to
  return at once.
\<close>

definition check_deadlines :: "node_config \<Rightarrow> NodeSpec \<Rightarrow> NodeStatus \<Rightarrow> PhaseInfo \<Rightarrow> PhaseInfo + PhaseInfo" where
  "check_deadlines cfg n st phase =
     (if EPhase_IsTerminal (pi_p phase) then Inr phase
      else
        (let now = cfg_now cfg;
             activeDeadline = deadline_of (en_ActiveDeadline n) (cfg_defaultActiveDeadline cfg);
             executionDeadline = deadline_of (en_ExecutionDeadline n) (cfg_defaultExecutionDeadline cfg)
         in if isTimeoutExpired now (ns_QueuedAt (ns st)) activeDeadline then
              Inl (PhaseInfoTimedOut now None
                (''task active timeout ['' @ cfg_duration_text cfg activeDeadline @ ''] expired''))
            else if isTimeoutExpired now (ns_LastAttemptStartedAt (ns st)) executionDeadline then
              Inr (PhaseInfoRetryableFailureErr now (cfg_alloc cfg) (Some (new_error (cfg_alloc cfg) Kind_USER
                ''TimeoutExpired'' (''task execution timeout ['' @ cfg_duration_text cfg executionDeadline @ ''] expired''))) None)
            else Inr phase))"

definition node_retries_exhausted :: "node_config \<Rightarrow> PhaseInfo \<Rightarrow> uint32 \<Rightarrow> uint32 \<Rightarrow> PhaseInfo" where
  "node_retries_exhausted cfg phase currentAttempt maxAttempts =
     (let code = (case pi_err phase of None \<Rightarrow> [] | Some e \<Rightarrow> ee_Code e);
          msg = (case pi_err phase of None \<Rightarrow> [] | Some e \<Rightarrow> ee_Message e)
      in PhaseInfoFailure (cfg_now cfg) (cfg_alloc cfg) Kind_USER (''RetriesExhausted|'' @ code)
           (''['' @ itoa (unat currentAttempt) @ ''/'' @ itoa (unat maxAttempts) @ ''] currentAttempt done. Last Error: '' @
            kind_text (GetKind (pi_err phase)) @ ''::'' @ msg) (pi_info phase))"

definition clear_node_state :: "'s NodeExecContext \<Rightarrow> (unit, ('s, 'w) nrun) grun" where
  "clear_node_state nCtx =
     run_bind (put_manager ClearNodeStatus) (\<lambda>_. change_own nCtx ClearLastAttemptStartedAt)"

definition execute ::
    "'w node_env \<Rightarrow> ('s, 'w) NodeHandler \<Rightarrow> 's NodeExecContext \<Rightarrow> (PhaseInfo, ('s, 'w) nrun) grun" where
  "execute E h nCtx =
     run_bind (h_Handle h nCtx) (\<lambda>t.
     run_bind (own_status nCtx) (\<lambda>st.
       case check_deadlines (ne_cfg E) (nc_node nCtx) st (tr_info t) of
         Inl p \<Rightarrow> run_ok p
       | Inr phase \<Rightarrow>
           if pi_p phase = EPhaseRetryableFailure then
             (case isEligibleForRetry (ne_cfg E) (nc_node nCtx) st (pi_err phase) of
                (currentAttempt, maxAttempts, isEligible) \<Rightarrow>
                  if \<not> isEligible then run_ok (node_retries_exhausted (ne_cfg E) phase currentAttempt maxAttempts)
                  else run_bind (clear_node_state nCtx) (\<lambda>_. run_ok phase))
           else run_ok phase))"

subsection \<open>Ending a node\<close>

definition event_failed :: "'s NodeExecContext \<Rightarrow> go_error \<Rightarrow> go_error" where
  "event_failed nCtx e = node_Wrapf ''EventRecordingFailed'' (node_of nCtx) (Some e) ''failed to record node event''"

definition abort_event :: "node_config \<Rightarrow> 's NodeExecContext \<Rightarrow> string \<Rightarrow> string option \<Rightarrow> string \<Rightarrow> NodeExecutionEvent" where
  "abort_event cfg nCtx uid target reason =
     (base_event cfg nCtx Event_ABORTED (cfg_now cfg) target)
       \<lparr>nev_NodeId := uid, nev_OutputResult := Event_Error (new_error (cfg_alloc cfg) Kind_UNKNOWN ''NodeAborted'' reason)\<rparr>"

definition abort_recorded :: "'s NodeExecContext \<Rightarrow> go_error option \<Rightarrow> (unit, ('s, 'w) nrun) grun" where
  "abort_recorded nCtx err =
     (case err of
        None \<Rightarrow> run_ok ()
      | Some e \<Rightarrow>
          if IsNotFound e \<or> IsEventIncompatibleClusterError e then run_ok ()
          else if IsCausedBy (Some e) IllegalStateError then run_ok ()
          else run_err (event_failed nCtx e))"

definition Abort_node ::
    "'w node_env \<Rightarrow> ('s, 'w) NodeHandler \<Rightarrow> 's NodeExecContext \<Rightarrow> string \<Rightarrow> bool \<Rightarrow> (unit, ('s, 'w) nrun) grun" where
  "Abort_node E h nCtx reason finalTransition = (\<lambda>r.
     case h_Abort h nCtx reason r of
       (Go_Panic, r1) \<Rightarrow> (Go_Panic, r1)
     | (Go_Err err, r1) \<Rightarrow>
         (case h_Finalize h nCtx r1 of
            (Go_Panic, r2) \<Rightarrow> (Go_Panic, r2)
          | (Go_Err finalizeErr, r2) \<Rightarrow> (Go_Err (ErrorCollection [err, finalizeErr]), r2)
          | (Go_Ok _, r2) \<Rightarrow> (Go_Err err, r2))
     | (Go_Ok _, r1) \<Rightarrow>
         run_bind (h_Finalize h nCtx) (\<lambda>_.
           if finalTransition then
             (case event_node_id nCtx of
                Inl e \<Rightarrow> run_err e
              | Inr uid \<Rightarrow>
                  run_bind (of_go (GetTargetEntity nCtx)) (\<lambda>target.
                  run_bind (RecordNodeEvent (ne_sink E) (Some (abort_event (ne_cfg E) nCtx uid target reason)))
                    (abort_recorded nCtx)))
           else run_ok ()) r1)"

definition Finalize_node :: "('s, 'w) NodeHandler \<Rightarrow> 's NodeExecContext \<Rightarrow> (unit, ('s, 'w) nrun) grun" where
  "Finalize_node h nCtx = h_Finalize h nCtx"

subsection \<open>Nodes that have not started\<close>

definition is_hit :: "catalog_status option \<Rightarrow> bool" where
  "is_hit c = (case c of None \<Rightarrow> False | Some s \<Rightarrow> cs_CacheStatus s = CACHE_HIT)"

text \<open>The success of a node whose outputs were found in the cache.\<close>

definition hit_info :: "'w node_env \<Rightarrow> catalog_status \<Rightarrow> NodeStatus \<Rightarrow> PhaseInfo" where
  "hit_info E status st =
     PhaseInfoSuccess (cfg_now (ne_cfg E)) (Some (empty_info
       \<lparr>ei_OutputInfo := Some \<lparr>OutputURI = GetOutputsFile (ns_OutputDir (ns st)), DeckURI = None\<rparr>,
        ei_TaskNodeInfo := Some (Some (new_TaskNodeMetadata
          \<lparr>tm_CacheStatus := cs_CacheStatus status, tm_CatalogKey := cs_Metadata status\<rparr>))\<rparr>))"

definition check_cache ::
    "'w node_env \<Rightarrow> 's NodeExecContext \<Rightarrow> ('s, 'w) CacheableNodeHandler \<Rightarrow> PhaseInfo \<Rightarrow>
     (PhaseInfo \<times> catalog_status option, ('s, 'w) nrun) grun" where
  "check_cache E nCtx ch p =
     run_bind (CheckCatalogCache E nCtx ch) (\<lambda>entry.
       if cs_CacheStatus (ce_Status entry) = CACHE_HIT then
         run_bind (own_status nCtx) (\<lambda>st. run_ok (hit_info E (ce_Status entry) st, Some (ce_Status entry)))
       else run_ok (p, Some (ce_Status entry)))"

definition cache_before_queue ::
    "'w node_env \<Rightarrow> ('s, 'w) NodeHandler \<Rightarrow> 's NodeExecContext \<Rightarrow> PhaseInfo \<Rightarrow>
     (PhaseInfo \<times> catalog_status option, ('s, 'w) nrun) grun" where
  "cache_before_queue E h nCtx p =
     (case h_Cacheable h of
        None \<Rightarrow> run_ok (p, None)
      | Some ch \<Rightarrow>
          if pi_p p = EPhaseSkip \<or> pi_p p = EPhaseFailed then run_ok (p, None)
          else
            run_bind (ch_IsCacheable ch nCtx) (\<lambda>(cacheable, _).
              if cacheable \<and> xc_OverwriteCache (nc_ic nCtx) then run_ok (p, Some (cat_NewStatus CACHE_SKIPPED None))
              else if cacheable then check_cache E nCtx ch p
              else run_ok (p, None)))"

definition bad_transition :: "'s NodeExecContext \<Rightarrow> go_error" where
  "bad_transition nCtx = node_Wrapf IllegalStateError (node_of nCtx)
     (Some (Plain_Error ''no known conversion from handlerPhase to NodePhase'')) ''failed to move from queued''"

definition undefined_phase :: "'s NodeExecContext \<Rightarrow> go_error" where
  "undefined_phase nCtx = node_Errorf IllegalStateError (node_of nCtx) ''received undefined phase.''"

text \<open>The event of a change of phase.\<close>

definition node_event ::
    "'w node_env \<Rightarrow> 's NodeExecContext \<Rightarrow> PhaseInfo \<Rightarrow> (NodeExecutionEvent option \<times> string option, ('s, 'w) nrun) grun" where
  "node_event E nCtx p =
     run_bind (of_go (GetTargetEntity nCtx)) (\<lambda>target.
     run_bind (get_manager nCtx) (\<lambda>nsm.
       case ToNodeExecutionEvent (ne_cfg E) nCtx p (nsm_nodeStatus nsm) (dst_Phase (GetDynamicNodeState nsm)) target of
         Inl e \<Rightarrow> run_err (node_Wrapf IllegalStateError (node_of nCtx) (Some e) ''could not convert phase info to event'')
       | Inr nev \<Rightarrow> run_ok (nev, target)))"

definition update_node :: "'w node_env \<Rightarrow> 's NodeExecContext \<Rightarrow> NodePhase \<Rightarrow> PhaseInfo \<Rightarrow> (unit, ('s, 'w) nrun) grun" where
  "update_node E nCtx np p = run_bind (get_run nr_nsm) (\<lambda>nsm.
     change_own nCtx (UpdateNodeStatus (cfg_now (ne_cfg E)) np p nsm (cfg_enableCRDebugMetadata (ne_cfg E))))"

text \<open>Of the latency of a transition only the reads remain.\<close>

definition RecordTransitionLatency :: "DAGStructure \<Rightarrow> 's NodeExecContext \<Rightarrow> (unit, ('s, 'w) nrun) grun" where
  "RecordTransitionLatency dag nCtx =
     run_bind (own_status nCtx) (\<lambda>st.
       if ns_Phase (ns st) = NodePhaseNotYetStarted \<or> ns_Phase (ns st) = NodePhaseQueued then
         (\<lambda>r. case on_lookup (GetParentNodeMaxEndTime dag (nc_nl nCtx) (node_of nCtx)) r of
            (Go_Panic, r1) \<Rightarrow> (Go_Panic, r1) | (_, r1) \<Rightarrow> (Go_Ok (), r1))
       else run_ok ())"

definition start_node_phase :: "('s, 'w) NodeHandler \<Rightarrow> catalog_status option \<Rightarrow> NodePhase \<Rightarrow> NodePhase" where
  "start_node_phase h cacheStatus np =
     (if np = NodePhaseSucceeding \<and> (\<not> h_FinalizeRequired h \<or> is_hit cacheStatus) then NodePhaseSucceeded else np)"

definition announce_start ::
    "'w node_env \<Rightarrow> DAGStructure \<Rightarrow> 's NodeExecContext \<Rightarrow> NodePhase \<Rightarrow> PhaseInfo \<Rightarrow> (unit, ('s, 'w) nrun) grun" where
  "announce_start E dag nCtx np p =
     run_bind (own_status nCtx) (\<lambda>st.
       if np = ns_Phase (ns st) then run_ok ()
       else
         run_bind (node_event E nCtx p) (\<lambda>(nev, _).
         run_bind (RecordNodeEvent (ne_sink E) nev) (\<lambda>err.
           case err of
             Some e \<Rightarrow> run_err (event_failed nCtx e)
           | None \<Rightarrow>
               run_bind (update_node E nCtx np p) (\<lambda>_. RecordTransitionLatency dag nCtx))))"

definition handleNotYetStartedNode ::
    "'w node_env \<Rightarrow> DAGStructure \<Rightarrow> 's NodeExecContext \<Rightarrow> ('s, 'w) NodeHandler \<Rightarrow> (ExecStatus, ('s, 'w) nrun) grun" where
  "handleNotYetStartedNode E dag nCtx h =
     run_bind (preExecute E dag nCtx) (\<lambda>p0.
       if pi_p p0 = EPhaseUndefined then run_err (undefined_phase nCtx)
       else if pi_p p0 = EPhaseNotReady then run_ok NodeStatusPending
       else
         run_bind (cache_before_queue E h nCtx p0) (\<lambda>(p, cacheStatus).
           case ToNodePhase (pi_p p) of
             None \<Rightarrow> run_err (bad_transition nCtx)
           | Some np0 \<Rightarrow>
               (let np = start_node_phase h cacheStatus np0
                in run_bind (announce_start E dag nCtx np (WithOccuredAt p (cfg_now (ne_cfg E)))) (\<lambda>_.
                     run_ok (if np = NodePhaseQueued then NodeStatusQueued
                             else if np = NodePhaseSkipped then NodeStatusSuccess
                             else NodeStatusPending)))))"

subsection \<open>Nodes that are queued or running\<close>

definition cacheSerializedReason :: string where "cacheSerializedReason = ''waiting on serialized cache''"

text \<open>The cache before the handler runs: the phase to take if it does not, and what the catalog said.\<close>

definition serialized_cache ::
    "'w node_env \<Rightarrow> 's NodeExecContext \<Rightarrow> ('s, 'w) CacheableNodeHandler \<Rightarrow> NodeStatus \<Rightarrow> bool \<Rightarrow>
     (PhaseInfo \<times> catalog_status option, ('s, 'w) nrun) grun" where
  "serialized_cache E nCtx ch st cacheSerializable =
     (if cacheSerializable \<and> xc_OverwriteCache (nc_ic nCtx)
      then run_ok (PhaseInfoUndefined, Some (cat_NewStatus CACHE_SKIPPED None))
      else if cacheSerializable \<and> ns_Phase (ns st) = NodePhaseQueued \<and> ns_Message (ns st) = cacheSerializedReason
      then check_cache E nCtx ch PhaseInfoUndefined
      else run_ok (PhaseInfoUndefined, None))"

definition reserve_cache ::
    "'w node_env \<Rightarrow> 's NodeExecContext \<Rightarrow> ('s, 'w) CacheableNodeHandler \<Rightarrow> bool \<Rightarrow> PhaseInfo \<times> catalog_status option \<Rightarrow>
     (PhaseInfo \<times> catalog_status option \<times> ReservationStatus option, ('s, 'w) nrun) grun" where
  "reserve_cache E nCtx ch cacheSerializable pc =
     (case pc of (p, cacheStatus) \<Rightarrow>
        if cacheSerializable \<and> \<not> xc_OverwriteCache (nc_ic nCtx) \<and> \<not> is_hit cacheStatus then
          run_bind (GetOrExtendCatalogReservation E nCtx ch) (\<lambda>status.
            run_ok (if status = RESERVATION_EXISTS
                    then PhaseInfoQueued (cfg_now (ne_cfg E)) cacheSerializedReason None else p,
                    cacheStatus, Some status))
        else run_ok (p, cacheStatus, None))"

definition cache_stage ::
    "'w node_env \<Rightarrow> ('s, 'w) NodeHandler \<Rightarrow> 's NodeExecContext \<Rightarrow> NodeStatus \<Rightarrow>
     (PhaseInfo \<times> catalog_status option \<times> ReservationStatus option, ('s, 'w) nrun) grun" where
  "cache_stage E h nCtx st =
     (case h_Cacheable h of
        None \<Rightarrow> run_ok (PhaseInfoUndefined, None, None)
      | Some ch \<Rightarrow>
          run_bind (ch_IsCacheable ch nCtx) (\<lambda>(_, cacheSerializable).
          run_bind (serialized_cache E nCtx ch st cacheSerializable) (reserve_cache E nCtx ch cacheSerializable)))"

text \<open>Whether the handler runs, and what happens to the cache when it succeeded. Failures to write or to release are ignored.\<close>

definition runs_handler :: "NodePhase \<Rightarrow> catalog_status option \<Rightarrow> ReservationStatus option \<Rightarrow> bool" where
  "runs_handler currentPhase cacheStatus reservation \<longleftrightarrow>
     currentPhase \<noteq> NodePhaseQueued \<or> (\<not> is_hit cacheStatus \<and> reservation \<noteq> Some RESERVATION_EXISTS)"

definition ignoring_error :: "('a, 's) grun \<Rightarrow> ('a option, 's) grun" where
  "ignoring_error m = (\<lambda>r. case m r of
     (Go_Ok x, r') \<Rightarrow> (Go_Ok (Some x), r') | (Go_Err _, r') \<Rightarrow> (Go_Ok None, r') | (Go_Panic, r') \<Rightarrow> (Go_Panic, r'))"

definition cache_success ::
    "'w node_env \<Rightarrow> ('s, 'w) NodeHandler \<Rightarrow> 's NodeExecContext \<Rightarrow> PhaseInfo \<Rightarrow>
     catalog_status option \<Rightarrow> ReservationStatus option \<Rightarrow>
     (catalog_status option \<times> ReservationStatus option, ('s, 'w) nrun) grun" where
  "cache_success E h nCtx p cacheStatus reservation =
     (case h_Cacheable h of
        None \<Rightarrow> run_ok (cacheStatus, reservation)
      | Some ch \<Rightarrow>
          if pi_p p \<noteq> EPhaseSuccess then run_ok (cacheStatus, reservation)
          else
            run_bind (ch_IsCacheable ch nCtx) (\<lambda>(cacheable, cacheSerializable).
            run_bind (if cacheable \<and> \<not> is_hit cacheStatus
                      then run_bind (WriteCatalogCache E nCtx ch) (\<lambda>(status, _). run_ok (Some status))
                      else run_ok cacheStatus) (\<lambda>cacheStatus1.
              if cacheSerializable \<and> \<not> is_hit cacheStatus1 then
                run_bind (ignoring_error (ReleaseCatalogReservation E nCtx ch)) (\<lambda>released.
                  run_ok (cacheStatus1, if released = None then reservation else released))
              else run_ok (cacheStatus1, reservation))))"

text \<open>Failures of the system are counted, those for good twice.\<close>

definition count_failure :: "NodePhase \<Rightarrow> NodePhase \<Rightarrow> ExecutionError option \<Rightarrow> NodeStatus \<Rightarrow> NodeStatus" where
  "count_failure currentPhase np execErr st =
     (if execErr \<noteq> None \<and> currentPhase \<in> {NodePhaseRunning, NodePhaseQueued, NodePhaseDynamicRunning} \<and>
         GetKind execErr = Kind_SYSTEM
      then (let st1 = snd (IncrementSystemFailures st)
            in if np = NodePhaseFailing then snd (IncrementSystemFailures st1) else st1)
      else st)"

text \<open>Where finalizing is not required, a node ends at once.\<close>

definition settle :: "('s, 'w) NodeHandler \<Rightarrow> catalog_status option \<Rightarrow> PhaseInfo \<Rightarrow> NodePhase \<Rightarrow> NodePhase \<times> ExecStatus" where
  "settle h cacheStatus p np =
     (if np = NodePhaseFailing \<and> \<not> h_FinalizeRequired h then (NodePhaseFailed, NodeStatusFailed (pi_err p))
      else if np = NodePhaseTimingOut \<and> \<not> h_FinalizeRequired h then (NodePhaseTimedOut, NodeStatusTimedOut)
      else if np = NodePhaseSucceeding \<and> (\<not> h_FinalizeRequired h \<or> is_hit cacheStatus)
      then (NodePhaseSucceeded, NodeStatusSuccess)
      else if np = NodePhaseRecovered then (np, NodeStatusRecovered)
      else (np, NodeStatusRunning))"

text \<open>
  An event that the sink refuses as too large or invalid is replaced by the event of a failure, and the node is failing then. That event reuses
  the identifier of the first one, which was made unique in place, and names no producer.
\<close>

definition failed_event :: "node_config \<Rightarrow> 's NodeExecContext \<Rightarrow> string \<Rightarrow> string option \<Rightarrow> string \<Rightarrow> NodeExecutionEvent" where
  "failed_event cfg nCtx uid target msg =
     (base_event cfg nCtx Event_FAILED (cfg_now cfg) target)
       \<lparr>nev_NodeId := uid, nev_ProducerId := [],
        nev_OutputResult := Event_Error (new_error (cfg_alloc cfg) Kind_UNKNOWN ''NodeFailed'' msg)\<rparr>"

definition announce ::
    "'w node_env \<Rightarrow> 's NodeExecContext \<Rightarrow> NodePhase \<Rightarrow> PhaseInfo \<Rightarrow> (NodePhase \<times> PhaseInfo, ('s, 'w) nrun) grun" where
  "announce E nCtx np p =
     run_bind (own_status nCtx) (\<lambda>st.
       if np = ns_Phase (ns st) \<or> np = NodePhaseRetryableFailure then run_ok (np, p)
       else
         run_bind (node_event E nCtx p) (\<lambda>(nev, target).
         run_bind (RecordNodeEvent (ne_sink E) nev) (\<lambda>err.
           case err of
             None \<Rightarrow> run_ok (np, p)
           | Some e \<Rightarrow>
               if IsTooLarge e \<or> IsInvalidArguments e then
                 run_bind (RecordNodeEvent (ne_sink E) (Some (failed_event (ne_cfg E) nCtx
                     (case nev of None \<Rightarrow> node_of nCtx | Some v \<Rightarrow> nev_NodeId v) target (Error e)))) (\<lambda>err2.
                   case err2 of
                     None \<Rightarrow> run_ok (NodePhaseFailing, PhaseInfoFailure (cfg_now (ne_cfg E)) (cfg_alloc (ne_cfg E))
                               Kind_USER ''NodeFailed'' (Error e) (pi_info p))
                   | Some e2 \<Rightarrow> run_err (event_failed nCtx e2))
               else run_err (event_failed nCtx e))))"

definition finish_round ::
    "'w node_env \<Rightarrow> ('s, 'w) NodeHandler \<Rightarrow> 's NodeExecContext \<Rightarrow> NodePhase \<Rightarrow> catalog_status option \<Rightarrow> PhaseInfo \<Rightarrow>
     (ExecStatus, ('s, 'w) nrun) grun" where
  "finish_round E h nCtx currentPhase cacheStatus p =
     (case ToNodePhase (pi_p p) of
        None \<Rightarrow> run_err (bad_transition nCtx)
      | Some np0 \<Rightarrow>
          run_bind (change_own nCtx (count_failure currentPhase np0 (pi_err p))) (\<lambda>_.
            case settle h cacheStatus p np0 of
              (np, finalStatus) \<Rightarrow>
                run_bind (announce E nCtx np p) (\<lambda>(np', p').
                run_bind (update_node E nCtx np' p') (\<lambda>_. run_ok finalStatus))))"

definition handleQueuedOrRunningNode ::
    "'w node_env \<Rightarrow> 's NodeExecContext \<Rightarrow> ('s, 'w) NodeHandler \<Rightarrow> (ExecStatus, ('s, 'w) nrun) grun" where
  "handleQueuedOrRunningNode E nCtx h =
     run_bind (own_status nCtx) (\<lambda>st0.
     run_bind (cache_stage E h nCtx st0) (\<lambda>(p0, cacheStatus0, reservation0).
     run_bind (if runs_handler (ns_Phase (ns st0)) cacheStatus0 reservation0 then execute E h nCtx else run_ok p0) (\<lambda>p1.
       if pi_p p1 = EPhaseUndefined then run_err (undefined_phase nCtx)
       else
         run_bind (cache_success E h nCtx p1 cacheStatus0 reservation0) (\<lambda>(cacheStatus, reservation).
           finish_round E h nCtx (ns_Phase (ns st0)) cacheStatus
             (updatePhaseCacheInfo p1 cacheStatus reservation)))))"

definition retry_status :: "node_config \<Rightarrow> NodeStatus \<Rightarrow> NodeStatus" where
  "retry_status cfg st =
     ClearArrayNodeStatus (ClearGateNodeStatus (ClearDynamicNodeStatus (ClearWorkflowStatus (ClearTaskStatus
       (ClearSubNodeStatus (UpdatePhase (cfg_now cfg) NodePhaseRunning (cfg_now cfg) ''retrying''
         (cfg_enableCRDebugMetadata cfg) None (snd (IncrementAttempts st))))))))"

definition handleRetryableFailure ::
    "'w node_env \<Rightarrow> 's NodeExecContext \<Rightarrow> ('s, 'w) NodeHandler \<Rightarrow> (ExecStatus, ('s, 'w) nrun) grun" where
  "handleRetryableFailure E nCtx h =
     run_bind (own_status nCtx) (\<lambda>st.
     run_bind (Abort_node E h nCtx (ns_Message (ns st)) False) (\<lambda>_.
     run_bind (change_own nCtx (retry_status (ne_cfg E))) (\<lambda>_. run_ok NodeStatusPending)))"

subsection \<open>One round\<close>

definition end_phase :: "node_config \<Rightarrow> NodePhase \<Rightarrow> NodeStatus \<Rightarrow> NodeStatus" where
  "end_phase cfg np st = UpdatePhase (cfg_now cfg) np (cfg_now cfg) (ns_Message (ns st))
     (cfg_enableCRDebugMetadata cfg) (ns_Error (ns st)) st"

definition HandleNode ::
    "'w node_env \<Rightarrow> DAGStructure \<Rightarrow> 's NodeExecContext \<Rightarrow> ('s, 'w) NodeHandler \<Rightarrow> (ExecStatus, ('s, 'w) nrun) grun" where
  "HandleNode E dag nCtx h =
     run_bind (own_status nCtx) (\<lambda>st.
       if ns_Phase (ns st) = NodePhaseNotYetStarted \<and> node_of nCtx \<noteq> exec_StartNodeID then
         run_bind (handleNotYetStartedNode E dag nCtx h) (\<lambda>p.
         run_bind (if xs_NodePhase p = ExecPhaseQueued then change_flow IncrementParallelism else run_ok ()) (\<lambda>_. run_ok p))
       else if ns_Phase (ns st) = NodePhaseFailing then
         run_bind (Abort_node E h nCtx ''node failing'' False) (\<lambda>_.
         run_bind (change_own nCtx (end_phase (ne_cfg E) NodePhaseFailed)) (\<lambda>_.
         run_bind (own_status nCtx) (\<lambda>st'. run_ok (NodeStatusFailed (ns_Error (ns st'))))))
       else if ns_Phase (ns st) = NodePhaseTimingOut then
         run_bind (Abort_node E h nCtx ''node timed out'' False) (\<lambda>_.
         run_bind (change_own nCtx (end_phase (ne_cfg E) NodePhaseTimedOut)) (\<lambda>_. run_ok NodeStatusTimedOut))
       else if ns_Phase (ns st) = NodePhaseSucceeding then
         run_bind (Finalize_node h nCtx) (\<lambda>_.
         run_bind (change_own nCtx (UpdatePhase (cfg_now (ne_cfg E)) NodePhaseSucceeded (cfg_now (ne_cfg E))
             ''completed successfully'' (cfg_enableCRDebugMetadata (ne_cfg E)) None)) (\<lambda>_. run_ok NodeStatusSuccess))
       else if ns_Phase (ns st) = NodePhaseRetryableFailure then handleRetryableFailure E nCtx h
       else if ns_Phase (ns st) = NodePhaseFailed then run_ok (NodeStatusFailed (ns_Error (ns st)))
       else handleQueuedOrRunningNode E nCtx h)"

end
