(* ===== verification/Node_Steps.thy ===== *)
theory Node_Steps
  imports Node_Executor
begin

section \<open>Relations that a round keeps\<close>

text \<open>
  Many facts about the executor of nodes have one shape: whatever an operation does, however it ends, the states before and after
  are related, and a value that it returns lies in a given set. \<open>keeps\<close> says so for a relation that is reflexive and transitive. The locales
  collect what the relation has to allow, from the parts of the state that a step touches to the methods of a handler, and lift it along the
  operations up to a whole round of a node.
\<close>

subsection \<open>Sequences of steps\<close>

definition keeps :: "('r \<Rightarrow> 'r \<Rightarrow> bool) \<Rightarrow> ('a, 'r) grun \<Rightarrow> 'a set \<Rightarrow> bool" where
  "keeps R m S \<longleftrightarrow> (\<forall>r. R r (snd (m r)) \<and> (\<forall>x. fst (m r) = Go_Ok x \<longrightarrow> x \<in> S))"

named_theorems keeps_intros

lemma keeps_mono: "keeps R m S \<Longrightarrow> S \<subseteq> T \<Longrightarrow> keeps R m T"
  by (auto simp: keeps_def)

lemma keeps_result: "keeps R m S \<Longrightarrow> m r = (x, r') \<Longrightarrow> R r r' \<and> (\<forall>y. x = Go_Ok y \<longrightarrow> y \<in> S)"
  unfolding keeps_def by (metis fst_conv snd_conv)

lemma keeps_all [intro]: "(\<And>r x r'. m r = (x, r') \<Longrightarrow> R r r') \<Longrightarrow> keeps R m UNIV"
  by (simp add: keeps_def prod_eq_iff)

lemma keeps_diagonal: "(\<And>r. keeps R (m r) S) \<Longrightarrow> keeps R (\<lambda>r. m r r) S"
  unfolding keeps_def by blast

lemma keeps_branches:
  "(c \<Longrightarrow> keeps R m S) \<Longrightarrow> (\<not> c \<Longrightarrow> keeps R k S) \<Longrightarrow> keeps R (\<lambda>r. if c then m r else k r) S"
  "(\<And>x. g = Go_Ok x \<Longrightarrow> keeps R (a x) S) \<Longrightarrow> (\<And>e. g = Go_Err e \<Longrightarrow> keeps R (b e) S) \<Longrightarrow> keeps R d S \<Longrightarrow>
   keeps R (\<lambda>r. case g of Go_Ok x \<Rightarrow> a x r | Go_Err e \<Rightarrow> b e r | Go_Panic \<Rightarrow> d r) S"
  by (cases c; simp) (cases g; simp)

lemma keeps_with_message [keeps_intros]: "keeps R m S \<Longrightarrow> keeps R (with_message t m) S"
  unfolding keeps_def with_message_def
  by (auto split: prod.split go.split) (metis fst_conv snd_conv)+

lemma keeps_ignoring [keeps_intros]: "keeps R m UNIV \<Longrightarrow> keeps R (ignoring_error m) UNIV"
  by (auto simp: keeps_def ignoring_error_def split: prod.split go.split) (metis snd_conv)+

locale steady =
  fixes R :: "'r \<Rightarrow> 'r \<Rightarrow> bool"
  assumes steady_refl [simp, intro]: "R r r"
    and steady_trans [trans]: "R a b \<Longrightarrow> R b c \<Longrightarrow> R a c"
begin

lemma keeps_catch:
  assumes "keeps R m S" "\<And>x. x \<in> S \<Longrightarrow> keeps R (f x) T" "\<And>e. keeps R (g e) T"
  shows "keeps R (\<lambda>r. case m r of (Go_Panic, r') \<Rightarrow> (Go_Panic, r') | (Go_Err e, r') \<Rightarrow> g e r' | (Go_Ok x, r') \<Rightarrow> f x r') T"
  unfolding keeps_def
proof
  fix r
  obtain x r' where m: "m r = (x, r')" by force
  from keeps_result [OF assms(1) m] have r': "R r r'" and x: "\<And>z. x = Go_Ok z \<Longrightarrow> z \<in> S" by auto
  show "R r (snd (case m r of (Go_Panic, r') \<Rightarrow> (Go_Panic, r') | (Go_Err e, r') \<Rightarrow> g e r' | (Go_Ok x, r') \<Rightarrow> f x r')) \<and>
      (\<forall>z. fst (case m r of (Go_Panic, r') \<Rightarrow> (Go_Panic, r') | (Go_Err e, r') \<Rightarrow> g e r' | (Go_Ok x, r') \<Rightarrow> f x r') = Go_Ok z \<longrightarrow> z \<in> T)"
  proof (cases x)
    case (Go_Ok z)
    with assms(2) [OF x] r' m show ?thesis by (auto simp: keeps_def intro: steady_trans [OF r'])
  next
    case (Go_Err e)
    with assms(3) r' m show ?thesis by (auto simp: keeps_def intro: steady_trans [OF r'])
  qed (use r' m in auto)
qed

lemma keeps_raw [keeps_intros]:
  "x \<in> S \<Longrightarrow> keeps R (\<lambda>r. (Go_Ok x, r)) S" "keeps R (\<lambda>r. (Go_Err e, r)) S" "keeps R (\<lambda>r. (Go_Panic, r)) S"
  by (simp_all add: keeps_def)

lemma keeps_bind:
  assumes "keeps R m S" "\<And>x. x \<in> S \<Longrightarrow> keeps R (f x) T"
  shows "keeps R (run_bind m f) T"
proof -
  have "run_bind m f = (\<lambda>r. case m r of (Go_Panic, r') \<Rightarrow> (Go_Panic, r') | (Go_Err e, r') \<Rightarrow> (\<lambda>e r. (Go_Err e, r)) e r'
      | (Go_Ok x, r') \<Rightarrow> f x r')"
    by (auto simp: run_bind_def intro!: ext split: prod.split go.split)
  then show ?thesis using keeps_catch [where g = "\<lambda>e r. (Go_Err e, r)", OF assms keeps_raw(2)] by simp
qed

lemmas keeps_seq [keeps_intros] = keeps_bind [where S = UNIV]

lemma keeps_pure [keeps_intros]:
  "x \<in> S \<Longrightarrow> keeps R (run_ok x) S" "keeps R (run_err e) S" "keeps R run_panic S"
  by (simp_all add: keeps_def run_ok_def run_err_def run_panic_def)

lemma keeps_of_go [keeps_intros]: "(\<And>x. g = Go_Ok x \<Longrightarrow> x \<in> S) \<Longrightarrow> keeps R (of_go g) S"
  by (simp add: keeps_def of_go_def)

end

subsection \<open>Reading through a lookup\<close>

locale lookup_reads = steady L
  for L :: "'s \<Rightarrow> 's \<Rightarrow> bool" +
  fixes nl :: "'s NodeLookup"
  assumes read: "nl_status nl i s = (x, s') \<Longrightarrow> L s s'"
begin

lemma read_then: "nl_status nl i s = (x, s') \<Longrightarrow> L s' t \<Longrightarrow> L s t"
  using read steady_trans by blast

lemma reads_upstream_loop: "L s (snd (upstream_loop nl i us b s))"
proof (induction us arbitrary: b s)
  case (Cons u us)
  have stop: "L s (snd (case g of None \<Rightarrow> (x, s) | Some c \<Rightarrow> upstream_loop nl i us c s))" for g x s
    using Cons.IH by (cases g) auto
  show ?case
    by (auto simp: Let_def split: option.split prod.split intro: read read_then [OF _ Cons.IH] read_then [OF _ stop]
        read_then [OF _ read_then [OF _ Cons.IH]] read_then [OF _ read_then [OF _ stop]] read_then [OF _ read])
qed simp

lemma reads_end_time_loop: "L s (snd (end_time_loop nl i us t s))"
proof (induction us arbitrary: t s)
  case (Cons u us)
  show ?case by (auto split: option.split prod.split intro: read read_then [OF _ Cons.IH])
qed simp

lemma keeps_CanExecute: "keeps L (CanExecute dag nl i) UNIV"
  by (simp add: keeps_def CanExecute_def reads_upstream_loop split: go.split)

lemma keeps_GetParentNodeMaxEndTime: "keeps L (GetParentNodeMaxEndTime dag nl i) UNIV"
  by (simp add: keeps_def GetParentNodeMaxEndTime_def reads_end_time_loop split: go.split)

lemma keeps_ExtractOutput: "keeps L (ExtractOutput S nl n v p) UNIV"
  by (rule keeps_all) (auto simp: ExtractOutput_def dest: read split: prod.splits option.splits)

lemma keeps_promise: "keeps L (resolve_promise S ids nl p) UNIV"
  by (auto simp: resolve_promise_def Let_def intro!: keeps_intros keeps_ExtractOutput split: option.splits)

lemma keeps_binding':
  "nl' = nl \<Longrightarrow> keeps L (ResolveBindingData S ids nl' b) UNIV" "nl' = nl \<Longrightarrow> keeps L (resolve_list S ids nl' bs) UNIV"
  "nl' = nl \<Longrightarrow> keeps L (resolve_entries S ids nl' es) UNIV"
  by (induction S ids nl' b and S ids nl' bs and S ids nl' es rule: ResolveBindingData_resolve_list_resolve_entries.induct)
    (auto intro!: keeps_intros simp: keeps_promise)

lemma keeps_resolve_bindings: "keeps L (resolve_bindings S ids nl n bs m) UNIV"
proof (induction bs arbitrary: m)
  case (Cons b bs)
  have "resolve_bindings S ids nl n (b # bs) m = (\<lambda>s. case ResolveBindingData S ids nl (binding_Binding b) s of
      (Go_Panic, s') \<Rightarrow> (Go_Panic, s')
    | (Go_Err e, s') \<Rightarrow> (Go_Err (node_Wrapf ''BindingResolutionError'' n (Some e) (''Error binding Var [wf].['' @ binding_Var b @ '']'')), s')
    | (Go_Ok l, s') \<Rightarrow> resolve_bindings S ids nl n bs (map_put (binding_Var b) l m) s')"
    by (auto intro!: ext split: prod.split go.split)
  then show ?case using Cons.IH by (auto intro!: keeps_catch [OF keeps_binding'(1)] keeps_intros)
qed (auto intro: keeps_intros)

lemma keeps_Resolve: "keeps L (Resolve S ids nl n bs) UNIV"
  unfolding Resolve_def by (rule keeps_resolve_bindings)

end

subsection \<open>What phases tell\<close>

text \<open>Only failures carry an error.\<close>

definition honest :: "PhaseInfo \<Rightarrow> bool" where
  "honest p \<longleftrightarrow> pi_err p = None \<or> pi_p p = EPhaseFailed \<or> pi_p p = EPhaseRetryableFailure \<or> pi_p p = EPhaseFailing"

definition infos :: "EPhase set \<Rightarrow> PhaseInfo set" where
  "infos P = {p. pi_p p \<in> P \<and> honest p}"

lemmas info_defs = phaseInfo_def phaseInfoFailed_def PhaseInfoUndefined_def PhaseInfoNotReady_def PhaseInfoQueued_def
  PhaseInfoRunning_def PhaseInfoSuccess_def PhaseInfoSkip_def PhaseInfoTimedOut_def PhaseInfoRecovered_def
  PhaseInfoFailure_def PhaseInfoRetryableFailureErr_def WithInfo_def WithOccuredAt_def Let_def

lemma info_phases [simp]:
  "pi_p PhaseInfoUndefined = EPhaseUndefined" "pi_p (PhaseInfoNotReady now t) = EPhaseNotReady"
  "pi_p (PhaseInfoQueued now t m) = EPhaseQueued" "pi_p (PhaseInfoRunning now i) = EPhaseRunning"
  "pi_p (PhaseInfoSuccess now i) = EPhaseSuccess" "pi_p (PhaseInfoSkip now i t) = EPhaseSkip"
  "pi_p (PhaseInfoTimedOut now i t) = EPhaseTimedout" "pi_p (PhaseInfoRecovered now i) = EPhaseRecovered"
  "pi_p (PhaseInfoFailure now a k c t i) = EPhaseFailed"
  "pi_p (PhaseInfoRetryableFailureErr now a e i) = EPhaseRetryableFailure"
  "pi_p (WithInfo p i) = pi_p p" "pi_p (WithOccuredAt p now) = pi_p p"
  "pi_p (updatePhaseCacheInfo p cs rs) = pi_p p"
  by (simp_all add: info_defs updatePhaseCacheInfo_def)

lemma info_errors [simp]:
  "pi_err (WithInfo p i) = pi_err p" "pi_err (WithOccuredAt p now) = pi_err p"
  "pi_err (updatePhaseCacheInfo p cs rs) = pi_err p"
  "pi_err PhaseInfoUndefined = None" "pi_err (PhaseInfoNotReady now t) = None"
  "pi_err (PhaseInfoQueued now t m) = None" "pi_err (PhaseInfoRunning now i) = None"
  "pi_err (PhaseInfoSuccess now i) = None" "pi_err (PhaseInfoSkip now i t) = None"
  "pi_err (PhaseInfoTimedOut now i t) = None" "pi_err (PhaseInfoRecovered now i) = None"
  "map_option ee_Kind (pi_err (PhaseInfoFailure now a k c t i)) = Some k"
  by (simp_all add: info_defs updatePhaseCacheInfo_def new_error_def)

lemma info_in [simp]: "p \<in> infos P \<longleftrightarrow> pi_p p \<in> P \<and> honest p"
  by (simp add: infos_def)

subsection \<open>Steps of a round\<close>

text \<open>Changes of the state manager that choose no branch.\<close>

definition tame :: "(nodeStateManager \<Rightarrow> nodeStateManager) \<Rightarrow> bool" where
  "tame f \<longleftrightarrow> (\<forall>n. nsm_b (f n) = nsm_b n \<or> nsm_b (f n) = None)"

lemma tame_managers [simp, intro]: "tame ClearNodeStatus" "tame (PutTaskNodeState t)" "tame (PutDynamicNodeState d)"
  by (simp_all add: tame_def ClearNodeStatus_def PutTaskNodeState_def PutDynamicNodeState_def)

locale state_steps = steady R
  for R :: "('s, 'w) nrun \<Rightarrow> ('s, 'w) nrun \<Rightarrow> bool" +
  assumes world: "R r (r\<lparr>nr_w := w\<rparr>)"
    and event: "R r (r\<lparr>nr_events := nr_events r @ [ev]\<rparr>)"
    and flowed: "R r (r\<lparr>nr_cf := c (nr_cf r)\<rparr>)"
begin

lemma keeps_steps [keeps_intros]:
  "keeps R (read_status nl i) UNIV" "keeps R (on_world f) UNIV" "keeps R (get_run g) UNIV"
  "keeps R (change_flow c) UNIV"
  by (auto simp: read_status_def on_world_def get_run_def change_flow_def intro!: world flowed split: option.splits prod.splits)

lemma keeps_record:
  "keeps R (RecordNodeEvent sink ev) {err. ev = None \<longrightarrow> (\<exists>e. err = Some e \<and> \<not> IsTooLarge e \<and> \<not> IsInvalidArguments e)}"
proof (cases ev)
  case (Some e)
  have "R r (r\<lparr>nr_w := w, nr_events := nr_events r @ [e]\<rparr>)" for r w
    using steady_trans [OF world event, of r w e] by simp
  with Some show ?thesis by (auto simp: keeps_def RecordNodeEvent_def world split: option.split prod.split)
qed (simp add: RecordNodeEvent_def keeps_pure event_error_checks)

lemmas keeps_event [keeps_intros] = keeps_mono [OF keeps_record subset_UNIV]

lemma keeps_world [keeps_intros]: "keeps R (world_or wrap f) UNIV" "keeps R (world_get wrap g) UNIV"
  by (auto simp: world_or_def world_get_def intro!: keeps_intros split: option.split sum.split)

lemma keeps_manager [keeps_intros]: "keeps R (get_manager nCtx) UNIV"
  unfolding get_manager_def by (intro keeps_intros)

end

locale run_steps = state_steps R
  for R :: "('s, 'w) nrun \<Rightarrow> ('s, 'w) nrun \<Rightarrow> bool" +
  assumes manager: "tame f \<Longrightarrow> R r (r\<lparr>nr_nsm := f (nr_nsm r)\<rparr>)"
begin

lemma keeps_put_manager [keeps_intros]: "tame k \<Longrightarrow> keeps R (put_manager k) UNIV"
  by (auto simp: put_manager_def intro: manager)

text \<open>Recovery.\<close>

lemma keeps_recovery [keeps_intros]:
  "keeps R (recoverInputs E nCtx rec d) UNIV" "keeps R (save_checkpoint nCtx c) UNIV"
  "keeps R (RecoverData E ex n) UNIV" "keeps R (recovered_outputs E nCtx c d) UNIV" "keeps R (recovered_deck E nCtx c) UNIV"
  unfolding recoverInputs_def save_checkpoint_def RecoverData_def recovered_outputs_def recovered_deck_def Let_def
  by (auto intro!: keeps_intros split: option.split target_metadata.split)

lemma keeps_attemptRecovery: "keeps R (attemptRecovery E nCtx ex) (infos {EPhaseUndefined, EPhaseRunning, EPhaseRecovered})"
  unfolding attemptRecovery_def recover_succeeded_def recover_dynamic_def Let_def
  by (auto intro!: keeps_intros simp: honest_def split: sum.split option.split)

lemma keeps_node_event: "keeps R (node_event E nCtx q) {(nev, _). pi_p q = EPhaseNotReady \<longrightarrow> nev = None}"
  unfolding node_event_def
  by (intro keeps_seq keeps_intros) (auto simp: ToNodeExecutionEvent_def intro!: keeps_intros split: sum.split)

lemma keeps_announce:
  "keeps R (announce E nCtx np q) {(np', _). np' = np \<or> np' = NodePhaseFailing \<and> np \<noteq> NodePhaseRetryableFailure}"
  unfolding announce_def
  by (intro keeps_seq keeps_intros)
    (auto intro!: keeps_bind [OF keeps_node_event] keeps_bind [OF keeps_record] keeps_intros split: prod.split option.split)

lemma keeps_queue_node: "keeps R (queue_node E nCtx d m) (infos {EPhaseFailed, EPhaseQueued})"
  unfolding queue_node_def
proof (rule keeps_bind [where S = "{None} \<union> Some ` infos {EPhaseFailed}"])
  show "keeps R (of_go (CheckOffloadingCompat E nCtx (case m of None \<Rightarrow> [] | Some m \<Rightarrow> m)))
      ({None} \<union> Some ` infos {EPhaseFailed})"
    by (rule keeps_of_go) (auto simp: CheckOffloadingCompat_def Let_def honest_def split: if_splits option.splits sum.splits)
qed (auto intro!: keeps_intros simp: honest_def split: option.split)

end

locale reading_steps = state_steps R
  for R :: "('s, 'w) nrun \<Rightarrow> ('s, 'w) nrun \<Rightarrow> bool" +
  fixes nl :: "'s NodeLookup"
  assumes looked_up: "nl_status nl i (nr_s r) = (x, s) \<Longrightarrow> R r (r\<lparr>nr_s := s\<rparr>)"
begin

sublocale reads: lookup_reads "\<lambda>s s'. \<forall>r. nr_s r = s \<longrightarrow> R r (r\<lparr>nr_s := s'\<rparr>)" nl
proof (unfold_locales, goal_cases)
  case (1 s)
  show ?case by auto
next
  case (2 a b c)
  show ?case
  proof (intro allI impI)
    fix r :: "('s, 'w) nrun"
    assume "nr_s r = a"
    with 2 have "R r (r\<lparr>nr_s := b\<rparr>)" by blast
    also have "R (r\<lparr>nr_s := b\<rparr>) (r\<lparr>nr_s := c\<rparr>)" using 2(2) [rule_format, of "r\<lparr>nr_s := b\<rparr>"] by simp
    finally show "R r (r\<lparr>nr_s := c\<rparr>)" .
  qed
next
  case (3 i s x s')
  then show ?case using looked_up by blast
qed

lemma keeps_on_lookup: "keeps (\<lambda>s s'. \<forall>r. nr_s r = s \<longrightarrow> R r (r\<lparr>nr_s := s'\<rparr>)) m S \<Longrightarrow> keeps R (on_lookup m) S"
  by (auto simp: keeps_def on_lookup_def split: prod.split) (metis fst_conv snd_conv)+

lemmas keeps_lookups [keeps_intros] = keeps_on_lookup [OF reads.keeps_CanExecute] keeps_on_lookup [OF reads.keeps_GetParentNodeMaxEndTime]
  keeps_on_lookup [OF reads.keeps_Resolve]

end

locale executor_steps = run_steps R + reading_steps R "nc_nl nCtx"
  for R :: "('s, 'w) nrun \<Rightarrow> ('s, 'w) nrun \<Rightarrow> bool" and nCtx :: "'s NodeExecContext"
begin

lemma keeps_latency [keeps_intros]: "keeps R (RecordTransitionLatency dag nCtx) UNIV"
  unfolding RecordTransitionLatency_def
  by (auto intro!: keeps_intros keeps_catch [OF keeps_lookups(2), where g = "\<lambda>_ r. (Go_Ok (), r)" and f = "\<lambda>_ r. (Go_Ok (), r)", simplified])

lemma keeps_prepare_inputs: "keeps R (prepare_inputs E nCtx) (infos {EPhaseFailed, EPhaseQueued})"
  unfolding prepare_inputs_def Let_def
proof (rule keeps_seq)
  fix st
  have "keeps R (\<lambda>r. on_lookup (Resolve (ne_resolver E (nr_w r)) (ne_promises E) (nc_nl nCtx) (node_of nCtx)
      (en_InputBindings (nc_node nCtx))) r) UNIV"
    by (rule keeps_diagonal) (rule keeps_lookups)
  then show "keeps R (\<lambda>r.
       case on_lookup (Resolve (ne_resolver E (nr_w r)) (ne_promises E) (nc_nl nCtx) (node_of nCtx)
              (en_InputBindings (nc_node nCtx))) r of
         (Go_Panic, r1) \<Rightarrow> (Go_Panic, r1)
       | (Go_Err e, r1) \<Rightarrow> (Go_Ok (PhaseInfoFailure (cfg_now (ne_cfg E)) (cfg_alloc (ne_cfg E)) Kind_SYSTEM
             ''BindingResolutionFailure'' (Error e) None), r1)
       | (Go_Ok nodeInputs, r1) \<Rightarrow>
           (case failure_input nCtx nodeInputs of
              Go_Panic \<Rightarrow> (Go_Panic, r1)
            | Go_Err e \<Rightarrow> (Go_Ok (PhaseInfoFailure (cfg_now (ne_cfg E)) (cfg_alloc (ne_cfg E)) Kind_SYSTEM
                ''FailureNodeInputResolvingError'' (Error e) None), r1)
            | Go_Ok inputs \<Rightarrow> queue_node E nCtx (ns_DataDir (ns st)) inputs r1)) (infos {EPhaseFailed, EPhaseQueued})"
    by (rule keeps_catch) (auto intro!: keeps_branches keeps_raw keeps_queue_node simp: honest_def)
qed (rule keeps_intros)


end

subsection \<open>Handlers\<close>

locale handler_steps = executor_steps R nCtx
  for R :: "('s, 'w) nrun \<Rightarrow> ('s, 'w) nrun \<Rightarrow> bool" and nCtx :: "'s NodeExecContext" +
  fixes h :: "('s, 'w) NodeHandler"
  assumes handle_kept: "keeps R (h_Handle h nCtx) UNIV"
    and abort_kept: "keeps R (h_Abort h nCtx reason) UNIV"
    and finalize_kept: "keeps R (h_Finalize h nCtx) UNIV"
    and cacheable_kept: "h_Cacheable h = Some ch \<Longrightarrow> keeps R (ch_IsCacheable ch nCtx) UNIV"
    and key_kept: "h_Cacheable h = Some ch \<Longrightarrow> keeps R (ch_GetCatalogKey ch nCtx) UNIV"
begin

lemma keeps_catalog [keeps_intros]:
  assumes "h_Cacheable h = Some ch"
  shows "keeps R (CheckCatalogCache E nCtx ch) UNIV" "keeps R (GetOrExtendCatalogReservation E nCtx ch) UNIV"
    "keeps R (ReleaseCatalogReservation E nCtx ch) UNIV"
  unfolding CheckCatalogCache_def GetOrExtendCatalogReservation_def ReleaseCatalogReservation_def with_owner_def
  by (intro keeps_intros key_kept [OF assms] impI conjI allI
      | simp split: sum.split prod.split option.split add: key_kept [OF assms])+

lemma keeps_write_catalog [keeps_intros]:
  assumes "h_Cacheable h = Some ch"
  shows "keeps R (WriteCatalogCache E nCtx ch) UNIV"
  unfolding WriteCatalogCache_def
  by (rule keeps_catch [OF key_kept [OF assms]]) (auto intro!: keeps_intros keeps_branches split: prod.split)

lemma keeps_check_cache:
  assumes "h_Cacheable h = Some ch"
  shows "keeps R (check_cache E nCtx ch p) {(q, c). q = p \<or> pi_p q = EPhaseSuccess \<and> pi_err q = None \<and> is_hit c}"
  unfolding check_cache_def using assms by (auto intro!: keeps_intros simp: is_hit_def hit_info_def)

lemma keeps_cache_before_queue:
  "keeps R (cache_before_queue E h nCtx p)
     {(q, c). q = p \<or> pi_p p \<noteq> EPhaseSkip \<and> pi_p q = EPhaseSuccess \<and> pi_err q = None \<and> is_hit c}"
  unfolding cache_before_queue_def
  by (auto intro!: keeps_intros cacheable_kept keeps_mono [OF keeps_check_cache] split: option.split prod.split)

lemma keeps_cache_stage:
  "keeps R (cache_stage E h nCtx st) {(p, cs, rs). pi_err p = None \<and> pi_p p \<in> {EPhaseUndefined, EPhaseQueued, EPhaseSuccess}}"
proof -
  have serialized: "keeps R (serialized_cache E nCtx ch st b) {(p, cs). pi_err p = None \<and> pi_p p \<in> {EPhaseUndefined, EPhaseSuccess}}"
    if "h_Cacheable h = Some ch" for ch b
    unfolding serialized_cache_def by (auto intro!: keeps_intros keeps_mono [OF keeps_check_cache [OF that]])
  have reserve: "keeps R (reserve_cache E nCtx ch b pc)
      {(p, cs, rs). pi_err p = None \<and> pi_p p \<in> {EPhaseUndefined, EPhaseQueued, EPhaseSuccess}}"
    if "h_Cacheable h = Some ch" "pc \<in> {(p, cs). pi_err p = None \<and> pi_p p \<in> {EPhaseUndefined, EPhaseSuccess}}" for ch b pc
    unfolding reserve_cache_def using that by (auto intro!: keeps_intros split: prod.split if_splits)
  show ?thesis
  proof (cases "h_Cacheable h")
    case (Some ch)
    note both = keeps_bind [OF serialized [OF Some] reserve [OF Some]]
    show ?thesis unfolding cache_stage_def Some
      by simp (rule keeps_seq [OF cacheable_kept [OF Some]], simp split: prod.split, use both in auto)
  qed (simp add: cache_stage_def keeps_pure)
qed

lemma keeps_cache_success [keeps_intros]: "keeps R (cache_success E h nCtx p cs rs) UNIV"
  unfolding cache_success_def
  by (auto intro!: keeps_intros cacheable_kept split: option.split prod.split)

lemma keeps_Abort: "keeps R (Abort_node E h nCtx reason b) UNIV"
proof -
  have "keeps R (run_bind (h_Finalize h nCtx) (\<lambda>_. if b then
      (case event_node_id nCtx of Inl e \<Rightarrow> run_err e
       | Inr uid \<Rightarrow> run_bind (of_go (GetTargetEntity nCtx)) (\<lambda>target.
           run_bind (RecordNodeEvent (ne_sink E) (Some (abort_event (ne_cfg E) nCtx uid target reason))) (abort_recorded nCtx)))
      else run_ok ())) UNIV"
    by (auto intro!: keeps_intros finalize_kept simp: abort_recorded_def split: sum.split option.split)
  then show ?thesis
    unfolding Abort_node_def
    by (rule keeps_catch [OF abort_kept]) (auto intro!: keeps_catch [OF finalize_kept] keeps_raw)
qed

end

subsection \<open>A round of a node\<close>

text \<open>Changes of the status of a node that leave the choice of a branch as it is, or forget it.\<close>

definition choice_of :: "NodeStatus \<Rightarrow> string option" where
  "choice_of n = Option.bind (ns_BranchStatus (ns n)) br_FinalizedNodeID"

definition no_choice :: "(NodeStatus \<Rightarrow> NodeStatus) \<Rightarrow> bool" where
  "no_choice f \<longleftrightarrow> (\<forall>n. choice_of (f n) = choice_of n \<or> choice_of (f n) = None)"

lemma choice_of_upd [simp]: "(\<And>f. ns_BranchStatus (g f) = ns_BranchStatus f) \<Longrightarrow> choice_of (upd g n) = choice_of n"
  by (simp add: choice_of_def upd_def)

lemma no_choice_UpdatePhase: "no_choice (UpdatePhase now p t m dbg e)"
  unfolding no_choice_def choice_of_def UpdatePhase_def Let_def by auto

lemma no_choice_steps:
  "no_choice (count_failure p np e)" "no_choice ClearLastAttemptStartedAt" "no_choice (end_phase cfg np)"
  "no_choice (UpdatePhase now np t m dbg err)" "no_choice (retry_status cfg)"
proof -
  show "no_choice (retry_status cfg)"
    by (simp add: no_choice_def retry_status_def UpdatePhase_def flag_setters choice_of_def upd_def Let_def)
  show "no_choice (end_phase cfg np)"
    using no_choice_UpdatePhase unfolding no_choice_def end_phase_def by metis
qed (auto simp: no_choice_UpdatePhase, simp_all add: no_choice_def flag_setters count_failure_def Let_def)

locale changing_steps = handler_steps R nCtx h
  for R :: "('s, 'w) nrun \<Rightarrow> ('s, 'w) nrun \<Rightarrow> bool" and nCtx :: "'s NodeExecContext" and h :: "('s, 'w) NodeHandler" +
  assumes changed: "no_choice f \<Longrightarrow> keeps R (change_own nCtx f) UNIV"
    and updated: "keeps R (update_node E nCtx np p) UNIV"
begin

lemma keeps_preExecute [keeps_intros]: "keeps R (preExecute E dag nCtx) UNIV"
  unfolding preExecute_def Let_def
  by (auto intro!: keeps_intros keeps_bind [OF keeps_attemptRecovery] keeps_mono [OF keeps_prepare_inputs] split: option.split)

lemma keeps_announce_start [keeps_intros]: "keeps R (announce_start E dag nCtx np p) UNIV"
  unfolding announce_start_def
  by (auto intro!: keeps_intros keeps_bind [OF keeps_node_event] updated split: option.split)

lemma keeps_first_round: "keeps R (handleNotYetStartedNode E dag nCtx h) {x. \<not> IsComplete x}"
  unfolding handleNotYetStartedNode_def
  by (auto intro!: keeps_intros keeps_bind [OF keeps_cache_before_queue] simp: exec_statuses IsComplete_def Let_def split: option.split)

lemma keeps_execute [keeps_intros]: "keeps R (execute E h nCtx) UNIV"
  unfolding execute_def clear_node_state_def
  by (auto intro!: keeps_intros keeps_bind [OF handle_kept] changed simp: no_choice_steps split: sum.split prod.split)

lemma keeps_finish_round: "keeps R (finish_round E h nCtx p cs q) {x. \<not> IsComplete x}"
proof -
  have "\<not> IsComplete x" if "settle h cs q np = (np', x)" for np np' x
    using that by (auto simp: settle_def exec_statuses IsComplete_def split: if_splits)
  then show ?thesis
    unfolding finish_round_def
    by (auto intro!: keeps_intros keeps_bind [OF keeps_announce] keeps_bind [OF changed] updated simp: no_choice_steps
        split: option.split prod.split)
qed

lemma keeps_busy_round: "keeps R (handleQueuedOrRunningNode E nCtx h) {x. \<not> IsComplete x}"
  unfolding handleQueuedOrRunningNode_def
  by (auto intro!: keeps_intros keeps_bind [OF keeps_cache_stage] keeps_finish_round split: prod.split)

lemma keeps_HandleNode [keeps_intros]: "keeps R (HandleNode E dag nCtx h) {x. \<not> IsComplete x}"
  unfolding HandleNode_def handleRetryableFailure_def Finalize_node_def
  by (auto intro!: keeps_intros keeps_bind [OF keeps_first_round] keeps_busy_round [unfolded IsComplete_def] keeps_bind [OF changed] keeps_bind [OF finalize_kept]
      keeps_bind [OF keeps_Abort] simp: no_choice_steps exec_statuses IsComplete_def)

end

end
