(* ===== verification/Node_Phases.thy ===== *)
theory Node_Phases
  imports Node_Steps
begin

section \<open>The phases of a node\<close>

text \<open>
  What the executor of nodes makes of a node over its rounds. \<open>node_moves\<close> is the state machine of a node: its phase, the counters of
  attempts and of system failures, and the answer to the walk over the workflow. A handler is trusted with little: the locale
  \<open>handled_node\<close> says that it leaves phase and counters of its own node to the executor, and that only failures carry an error.
\<close>

subsection \<open>What is followed of a node\<close>

type_synonym vital = "NodePhase \<times> uint32 \<times> uint32"

definition vital :: "NodeStatus \<Rightarrow> vital" where
  "vital n = (ns_Phase (ns n), ns_Attempts (ns n), ns_SystemFailures (ns n))"

definition vital_at :: "'s NodeLookup \<Rightarrow> string \<Rightarrow> 's \<Rightarrow> vital option" where
  "vital_at nl i s = map_option (\<lambda>(c, _). vital c) (seen nl i s)"

definition set_phase :: "NodePhase \<Rightarrow> vital \<Rightarrow> vital" where
  "set_phase p v = (p, snd v)"

text \<open>How a change of the status shows.\<close>

definition changes :: "(NodeStatus \<Rightarrow> NodeStatus) \<Rightarrow> (vital \<Rightarrow> vital) \<Rightarrow> bool" where
  "changes f g \<longleftrightarrow> (\<forall>n. vital (f n) = g (vital n))"

definition own_vital :: "'s NodeExecContext \<Rightarrow> ('s, 'w) nrun \<Rightarrow> vital option" where
  "own_vital nCtx r = vital_at (nc_nl nCtx) (nc_id nCtx) (nr_s r)"

text \<open>An operation that is calm leaves the node alone, however it ends, and returns a value from a given set.\<close>

definition same_vital :: "'s NodeExecContext \<Rightarrow> ('s, 'w) nrun \<Rightarrow> ('s, 'w) nrun \<Rightarrow> bool" where
  "same_vital nCtx r r' \<longleftrightarrow> own_vital nCtx r' = own_vital nCtx r"

abbreviation calm :: "'s NodeExecContext \<Rightarrow> ('a, ('s, 'w) nrun) grun \<Rightarrow> 'a set \<Rightarrow> bool" where
  "calm nCtx m S \<equiv> keeps (same_vital nCtx) m S"

interpretation calm: run_steps "same_vital nCtx" for nCtx
  by unfold_locales (simp_all add: same_vital_def own_vital_def)

text \<open>Results of an operation that returns.\<close>

definition returns :: "('a, 's) grun \<Rightarrow> 's \<Rightarrow> ('a \<Rightarrow> 's \<Rightarrow> bool) \<Rightarrow> bool" where
  "returns m r Q \<longleftrightarrow> (\<forall>x r'. m r = (Go_Ok x, r') \<longrightarrow> Q x r')"

lemma returns_bind: "returns m r (\<lambda>x r'. returns (f x) r' Q) \<Longrightarrow> returns (run_bind m f) r Q"
  by (auto simp: returns_def run_bind_Ok)

lemma returns_pure [simp]:
  "returns (run_ok x) r Q = Q x r" "returns (run_err e) r Q" "returns run_panic r Q"
  by (auto simp: returns_def run_ok_def run_err_def run_panic_def)

lemma returns_mono: "returns m r P \<Longrightarrow> (\<And>x r'. P x r' \<Longrightarrow> Q x r') \<Longrightarrow> returns m r Q"
  by (auto simp: returns_def)

lemma returns_calm:
  "calm nCtx m S \<Longrightarrow> (\<And>x r'. x \<in> S \<Longrightarrow> own_vital nCtx r' = own_vital nCtx r \<Longrightarrow> Q x r') \<Longrightarrow> returns m r Q"
  unfolding returns_def by (metis keeps_result same_vital_def)

lemma returns_calm_bind:
  "calm nCtx m S \<Longrightarrow> (\<And>x r'. x \<in> S \<Longrightarrow> own_vital nCtx r' = own_vital nCtx r \<Longrightarrow> returns (f x) r' Q) \<Longrightarrow>
   returns (run_bind m f) r Q"
  by (rule returns_bind) (rule returns_calm)

subsection \<open>Handlers\<close>

lemma vital_clean [simp]: "vital (clean n) = vital n"
  by (cases n) (simp add: vital_def clean_iff clean_fields_def)

lemma vital_upd [simp]:
  "(\<And>x. ns_Phase (f x) = ns_Phase x \<and> ns_Attempts (f x) = ns_Attempts x \<and> ns_SystemFailures (f x) = ns_SystemFailures x) \<Longrightarrow>
   vital (upd f n) = vital n"
  by (cases n) (simp add: vital_def upd_def)

lemma UpdatePhase_counters [simp]:
  "ns_Phase (ns (UpdatePhase now p t m dbg e n)) = p"
  "ns_Attempts (ns (UpdatePhase now p t m dbg e n)) = ns_Attempts (ns n)"
  "ns_SystemFailures (ns (UpdatePhase now p t m dbg e n)) = ns_SystemFailures (ns n)"
  by (simp_all add: UpdatePhase_def Let_def)

lemma vital_UpdatePhase: "vital (UpdatePhase now p t m dbg e n) = (p, ns_Attempts (ns n), ns_SystemFailures (ns n))"
  by (simp add: vital_def)

lemma vital_with [simp]:
  "vital (with_task a n) = vital n" "vital (with_dynamic b n) = vital n" "vital (with_branch c n) = vital n"
  "vital (with_workflow d n) = vital n" "vital (with_gate e n) = vital n" "vital (with_array f n) = vital n"
  by (simp_all add: with_task_def with_dynamic_def with_branch_def with_workflow_def with_gate_def with_array_def split: option.split)

lemma vital_UpdateNodeStatus:
  "vital (UpdateNodeStatus now np p m dbg n) = (np, ns_Attempts (ns n), ns_SystemFailures (ns n))"
proof -
  have opt: "vital (opt_apply f x k) = vital k" if "\<And>a k. vital (f a k) = vital k" for f :: "'a \<Rightarrow> NodeStatus \<Rightarrow> NodeStatus" and x k
    using that by (simp add: opt_apply_def split: option.split)
  show ?thesis by (simp add: UpdateNodeStatus_def Let_def opt vital_UpdatePhase) (simp add: vital_def)
qed

lemma own_status_read: "own_vital nCtx r = Some v \<Longrightarrow> \<exists>st. own_status nCtx r = (Go_Ok st, r) \<and> vital st = v"
  by (auto simp: read_status_def own_vital_def vital_at_def seen_def obs_def)

lemma returns_own_status: "returns (own_status nCtx) r (\<lambda>st r'. r' = r \<and> own_vital nCtx r = Some (vital st))"
  by (auto simp: returns_def read_status_def own_vital_def vital_at_def seen_def obs_def split: option.splits)

subsection \<open>The state machine\<close>

text \<open>Failures of an error kind are retried up to a limit: those of the system by their own count, the others by the attempts that are left.\<close>

definition may_retry :: "node_config \<Rightarrow> NodeSpec \<Rightarrow> uint32 \<Rightarrow> uint32 \<Rightarrow> error_kind \<Rightarrow> bool" where
  "may_retry cfg n a s k \<longleftrightarrow>
     (if \<not> cfg_IgnoreRetryCause cfg \<and> k = Kind_SYSTEM then s < cfg_maxNodeRetriesForSystemFailures cfg
      else (if cfg_IgnoreRetryCause cfg then a + 1 else a + 1 - s) < max_attempts cfg n)"

text \<open>How far the counter of system failures moves: by one on a retry, by two on a failure for good.\<close>

definition counted :: "NodePhase \<Rightarrow> error_kind \<Rightarrow> uint32 \<Rightarrow> uint32" where
  "counted p k c = (if k = Kind_SYSTEM \<and> p \<noteq> NodePhaseNotYetStarted then c else 0)"

definition busy :: "bool \<Rightarrow> NodePhase set" where
  "busy start = {NodePhaseQueued, NodePhaseRunning, NodePhaseDynamicRunning} \<union> (if start then {NodePhaseNotYetStarted} else {})"

inductive node_moves :: "node_config \<Rightarrow> NodeSpec \<Rightarrow> bool \<Rightarrow> vital \<Rightarrow> ExecPhase \<Rightarrow> vital \<Rightarrow> bool"
  for cfg :: node_config and n :: NodeSpec and finalize :: bool where
  waits: "en_ID n \<noteq> exec_StartNodeID \<Longrightarrow>
    node_moves cfg n finalize (NodePhaseNotYetStarted, c) ExecPhasePending (NodePhaseNotYetStarted, c)"
| starts: "en_ID n \<noteq> exec_StartNodeID \<Longrightarrow>
    (q, x) \<in> {(NodePhaseQueued, ExecPhaseQueued), (NodePhaseSkipped, ExecPhaseSuccess), (NodePhaseSucceeded, ExecPhasePending),
      (NodePhaseRecovered, ExecPhasePending), (NodePhaseRunning, ExecPhasePending), (NodePhaseFailing, ExecPhasePending)} \<Longrightarrow>
    node_moves cfg n finalize (NodePhaseNotYetStarted, c) x (q, c)"
| works: "p \<in> busy (en_ID n = exec_StartNodeID) \<Longrightarrow>
    q \<in> {p, NodePhaseQueued, NodePhaseRunning, NodePhaseDynamicRunning, NodePhaseSkipped} \<union>
      (if finalize then {NodePhaseSucceeding, NodePhaseTimingOut} else {}) \<Longrightarrow>
    node_moves cfg n finalize (p, c) ExecPhaseRunning (q, c)"
| completes: "p \<in> busy (en_ID n = exec_StartNodeID) \<Longrightarrow>
    (q, x) \<in> {(NodePhaseSucceeded, ExecPhaseSuccess), (NodePhaseRecovered, ExecPhaseRecovered)} \<union>
      (if finalize then {} else {(NodePhaseTimedOut, ExecPhaseTimedOut)}) \<Longrightarrow>
    node_moves cfg n finalize (p, c) x (q, c)"
| fails: "p \<in> busy (en_ID n = exec_StartNodeID) \<Longrightarrow>
    (q, x) = (if finalize then (NodePhaseFailing, ExecPhaseRunning) else (NodePhaseFailed, ExecPhaseFailed)) \<Longrightarrow>
    node_moves cfg n finalize (p, a, s) x (q, a, s + counted p k 2)"
| refused: "p \<in> busy (en_ID n = exec_StartNodeID) \<Longrightarrow>
    x \<in> {ExecPhaseRunning, ExecPhaseSuccess, ExecPhaseFailed, ExecPhaseTimedOut, ExecPhaseRecovered} \<Longrightarrow>
    node_moves cfg n finalize (p, a, s) x (NodePhaseFailing, a, s + counted p k 2)"
| retries: "p \<in> busy (en_ID n = exec_StartNodeID) \<Longrightarrow> may_retry cfg n a s k \<Longrightarrow>
    node_moves cfg n finalize (p, a, s) ExecPhaseRunning (NodePhaseRetryableFailure, a, s + counted p k 1)"
| tries_again: "node_moves cfg n finalize (NodePhaseRetryableFailure, a, s) ExecPhasePending (NodePhaseRunning, a + 1, s)"
| failed: "p \<in> {NodePhaseFailing, NodePhaseFailed} \<Longrightarrow> node_moves cfg n finalize (p, c) ExecPhaseFailed (NodePhaseFailed, c)"
| timed_out: "node_moves cfg n finalize (NodePhaseTimingOut, c) ExecPhaseTimedOut (NodePhaseTimedOut, c)"
| succeeded: "node_moves cfg n finalize (NodePhaseSucceeding, c) ExecPhaseSuccess (NodePhaseSucceeded, c)"

text \<open>The phase of a node that has not started follows the verdict on its upstream nodes.\<close>

definition decided :: "PredicatePhase \<Rightarrow> NodePhase \<Rightarrow> bool" where
  "decided v q \<longleftrightarrow> (case v of
     PredicatePhaseReady \<Rightarrow> q \<noteq> NodePhaseNotYetStarted \<and> q \<noteq> NodePhaseSkipped
   | PredicatePhaseSkip \<Rightarrow> q = NodePhaseSkipped
   | _ \<Rightarrow> q = NodePhaseNotYetStarted)"

inductive_cases node_movesE: "node_moves cfg n finalize v x w"

locale handled_node = node_lookup "nc_nl nCtx" cell
  for nCtx :: "'s NodeExecContext" and cell :: "string \<Rightarrow> 'k" +
  fixes h :: "('s, 'w) NodeHandler"
  assumes handle_calm: "calm nCtx (h_Handle h nCtx) {t. honest (tr_info t)}"
    and abort_calm: "calm nCtx (h_Abort h nCtx reason) UNIV"
    and finalize_calm: "calm nCtx (h_Finalize h nCtx) UNIV"
    and cacheable_calm: "h_Cacheable h = Some ch \<Longrightarrow> calm nCtx (ch_IsCacheable ch nCtx) UNIV"
    and key_calm: "h_Cacheable h = Some ch \<Longrightarrow> calm nCtx (ch_GetCatalogKey ch nCtx) UNIV"
begin

sublocale handler_steps "same_vital nCtx" nCtx h
proof (unfold_locales, goal_cases)
  case (1 i r x s)
  then show ?case using seen_status [of "nc_id nCtx" i "nr_s r"] by (simp add: same_vital_def own_vital_def vital_at_def)
qed (fact keeps_mono [OF handle_calm subset_UNIV] abort_calm finalize_calm cacheable_calm key_calm)+

lemma change_own_vital:
  assumes "changes f g"
  shows "returns (change_own nCtx f) r (\<lambda>_ r'. own_vital nCtx r' = map_option g (own_vital nCtx r))"
proof -
  have "own_vital nCtx r' = map_option g (own_vital nCtx r)" if c: "change_own nCtx f r = (Go_Ok (), r')" for r'
  proof -
    obtain n s where n: "nl_status (nc_nl nCtx) (nc_id nCtx) (nr_s r) = (Some n, s)"
      and r': "r' = r\<lparr>nr_s := nl_write (nc_nl nCtx) (nc_id nCtx) (f n) s\<rparr>"
      using c by (auto simp: change_status_def split: prod.splits option.splits)
    have "seen (nc_nl nCtx) (nc_id nCtx) (nr_s r) = Some (obs n)" using n by (simp add: seen_def)
    with seen_modify [OF n, of "nc_id nCtx" f] show ?thesis
      using assms by (simp add: own_vital_def vital_at_def r' changes_def obs_def)
  qed
  then show ?thesis by (auto simp: returns_def)
qed

lemma keeps_change:
  assumes "changes f id"
  shows "calm nCtx (change_own nCtx f) UNIV"
  unfolding keeps_def same_vital_def
proof (intro allI conjI)
  fix r
  obtain x r' where m: "change_own nCtx f r = (x, r')" by force
  show "own_vital nCtx (snd (change_own nCtx f r)) = own_vital nCtx r"
  proof (cases x)
    case (Go_Ok u)
    with change_own_vital [of f id r] assms m show ?thesis by (simp add: returns_def option.map_id)
  qed (use m in \<open>auto simp: change_status_def split: prod.splits option.splits\<close>)
qed simp

lemma update_node_vital:
  "returns (update_node E nCtx np p) r (\<lambda>_ r'. own_vital nCtx r' = map_option (set_phase np) (own_vital nCtx r))"
proof -
  have change: "changes (UpdateNodeStatus (cfg_now (ne_cfg E)) np p m (cfg_enableCRDebugMetadata (ne_cfg E))) (set_phase np)" for m
    unfolding changes_def by (simp add: vital_UpdateNodeStatus set_phase_def) (simp add: vital_def)
  show ?thesis
    unfolding update_node_def
    by (rule returns_calm_bind [OF calm.keeps_steps(3) [of nCtx]], rule returns_mono [OF change_own_vital [OF change]]) simp
qed

text \<open>Nodes that have not started: the predicate decides, and only the phase changes.\<close>

definition pre_phases :: "PredicatePhase \<Rightarrow> EPhase set" where
  "pre_phases x = (case x of
     PredicatePhaseReady \<Rightarrow> {EPhaseQueued, EPhaseFailed, EPhaseRunning, EPhaseRecovered}
   | PredicatePhaseSkip \<Rightarrow> {EPhaseSkip} | _ \<Rightarrow> {EPhaseNotReady})"

lemma preExecute_returns:
  fixes E :: "'w node_env"
  shows "returns (preExecute E dag nCtx) r (\<lambda>p r'. own_vital nCtx r' = own_vital nCtx r \<and>
     (\<exists>x. fst (CanExecute dag (nc_nl nCtx) (node_of nCtx) (nr_s r)) = Go_Ok x \<and> p \<in> infos (pre_phases x)))"
  unfolding preExecute_def Let_def
proof (rule returns_bind, unfold returns_def [of "on_lookup _"], intro allI impI, goal_cases)
  case (1 x r1)
  then have "fst (CanExecute dag (nc_nl nCtx) (node_of nCtx) (nr_s r)) = Go_Ok x"
    by (simp add: on_lookup_def split: prod.splits)
  moreover have "own_vital nCtx r1 = own_vital nCtx r"
    using keeps_result [OF keeps_lookups(1) 1] by (simp add: same_vital_def)
  ultimately show ?case
    by (intro returns_calm [where nCtx = nCtx and S = "infos (pre_phases x)"])
      (cases x; auto intro!: calm.keeps_pure calm.keeps_bind [OF calm.keeps_attemptRecovery] keeps_mono [OF keeps_prepare_inputs]
        simp: honest_def pre_phases_def split: option.split)+
qed

lemma announce_start_vital:
  fixes E :: "'w node_env"
  shows "returns (announce_start E dag nCtx np p) r (\<lambda>_ r'. own_vital nCtx r' = map_option (set_phase np) (own_vital nCtx r))"
  unfolding announce_start_def
proof (rule returns_bind, rule returns_mono [OF returns_own_status], goal_cases)
  case (1 st r1)
  show ?case
  proof (cases "np = ns_Phase (ns st)")
    case True
    with 1 show ?thesis by (simp add: set_phase_def vital_def)
  next
    case False
    have "returns (run_bind (update_node E nCtx np p) (\<lambda>_. RecordTransitionLatency dag nCtx)) r2
        (\<lambda>_ r'. own_vital nCtx r' = map_option (set_phase np) (own_vital nCtx r2))" for r2
      by (rule returns_bind, rule returns_mono [OF update_node_vital]) (auto intro: returns_calm [OF keeps_latency])
    note moved = returns_mono [OF this]
    have "returns (run_bind (RecordNodeEvent (ne_sink E) nev) (\<lambda>err. case err of Some e \<Rightarrow> run_err (event_failed nCtx e)
        | None \<Rightarrow> run_bind (update_node E nCtx np p) (\<lambda>_. RecordTransitionLatency dag nCtx))) r2
        (\<lambda>_ r'. own_vital nCtx r' = map_option (set_phase np) (own_vital nCtx r2))" for nev r2
      by (rule returns_calm_bind [OF calm.keeps_event, of nCtx]) (auto intro: moved split: option.split)
    note sent = returns_mono [OF this]
    from False 1 show ?thesis
      by simp (rule returns_calm_bind [OF calm.keeps_node_event, where nCtx = nCtx], auto intro: sent split: prod.split)
  qed
qed

lemma not_started_step:
  assumes "own_vital nCtx r = Some (NodePhaseNotYetStarted, c)" "node_of nCtx \<noteq> exec_StartNodeID"
  shows "returns (handleNotYetStartedNode E dag nCtx h) r (\<lambda>x r'.
    \<exists>w v. own_vital nCtx r' = Some w \<and>
      node_moves (ne_cfg E) (nc_node nCtx) (h_FinalizeRequired h) (NodePhaseNotYetStarted, c) (xs_NodePhase x) w \<and>
      fst (CanExecute dag (nc_nl nCtx) (node_of nCtx) (nr_s r)) = Go_Ok v \<and>
      decided v (fst w))"
  unfolding handleNotYetStartedNode_def
proof (rule returns_bind, rule returns_mono [OF preExecute_returns], goal_cases)
  case (1 p r1)
  then obtain v where v: "fst (CanExecute dag (nc_nl nCtx) (node_of nCtx) (nr_s r)) = Go_Ok v" "p \<in> infos (pre_phases v)"
    and own: "own_vital nCtx r1 = Some (NodePhaseNotYetStarted, c)" using assms(1) by auto
  have moved: "returns (run_bind (announce_start E dag nCtx np q) (\<lambda>_. run_ok x)) r2 Q"
    if "own_vital nCtx r2 = own_vital nCtx r1" "\<And>r'. own_vital nCtx r' = Some (np, c) \<Longrightarrow> Q x r'" for np q x r2 Q
    by (rule returns_bind, rule returns_mono [OF announce_start_vital]) (use that own in \<open>auto simp: set_phase_def\<close>)
  have cont: "returns (run_bind (cache_before_queue E h nCtx p) f) r1 Q"
    if "\<And>q c' r'. own_vital nCtx r' = own_vital nCtx r1 \<Longrightarrow>
      q = p \<or> pi_p p \<noteq> EPhaseSkip \<and> pi_p q = EPhaseSuccess \<and> pi_err q = None \<and> is_hit c' \<Longrightarrow> returns (f (q, c')) r' Q" for f Q
    by (rule returns_calm_bind [OF keeps_cache_before_queue]) (use that in auto)
  show ?case
  proof (cases "v = PredicatePhaseReady \<or> v = PredicatePhaseSkip")
    case True
    with v(2) have "pi_p p \<noteq> EPhaseUndefined" "pi_p p \<noteq> EPhaseNotReady" by (auto simp: pre_phases_def)
    then show ?thesis
    proof (simp, intro cont, goal_cases)
      case (1 q c' r')
      show ?case
        using True v assms(2) 1 unfolding prod.case Let_def
        by (cases c) (auto simp: pre_phases_def decided_def ToNodePhase_def start_node_phase_def exec_statuses intro!: moved node_moves.starts)
    qed
  qed (use v own assms(2) in \<open>cases c; cases v; auto simp: pre_phases_def decided_def NodeStatusPending_def intro: node_moves.waits\<close>)
qed

text \<open>Nodes at work: what the handler or the cache answers, within the limits on retries.\<close>

definition answers_within :: "node_config \<Rightarrow> uint32 \<times> uint32 \<Rightarrow> PhaseInfo set" where
  "answers_within cfg c = {p. honest p \<and> (pi_p p = EPhaseRetryableFailure \<longrightarrow>
     may_retry cfg (nc_node nCtx) (fst c) (snd c) (GetKind (pi_err p)))}"

lemma keeps_clear: "calm nCtx (clear_node_state nCtx) UNIV"
  unfolding clear_node_state_def
  by (intro calm.keeps_seq keeps_intros keeps_change) (simp_all add: ClearLastAttemptStartedAt_def changes_def)

lemma isEligible_may_retry:
  "isEligibleForRetry cfg n st err = (x, y, e) \<Longrightarrow>
     e = may_retry cfg n (ns_Attempts (ns st)) (ns_SystemFailures (ns st)) (GetKind err)"
  by (auto simp: isEligibleForRetry_def may_retry_def Let_def split: if_splits)

lemma deadlines_honest:
  "honest p \<Longrightarrow> (case check_deadlines cfg n st p of Inl q \<Rightarrow> q \<in> infos {EPhaseTimedout} | Inr q \<Rightarrow> honest q)"
  by (auto simp: check_deadlines_def Let_def honest_def)

lemma execute_returns:
  assumes "own_vital nCtx r = Some (p, c)"
  shows "returns (execute E h nCtx) r (\<lambda>q r'. own_vital nCtx r' = own_vital nCtx r \<and> q \<in> answers_within (ne_cfg E) c)"
  unfolding execute_def
proof (rule returns_calm_bind [OF handle_calm], rule returns_bind, rule returns_mono [OF returns_own_status], goal_cases)
  case (1 t r1 st r2)
  then have c: "c = (ns_Attempts (ns st), ns_SystemFailures (ns st))" and h: "honest (tr_info t)"
    and own: "own_vital nCtx r2 = own_vital nCtx r" using assms by (auto simp: vital_def)
  note d = deadlines_honest [OF h, of "ne_cfg E" "nc_node nCtx" st]
  show ?case
  proof (cases "check_deadlines (ne_cfg E) (nc_node nCtx) st (tr_info t)")
    case (Inl q)
    with d own show ?thesis by (simp add: answers_within_def)
  next
    case (Inr q)
    with d have q: "honest q" by simp
    have clear: "returns (run_bind (clear_node_state nCtx) (\<lambda>_. run_ok q)) r2 Q"
      if "\<And>r'. own_vital nCtx r' = own_vital nCtx r2 \<Longrightarrow> Q q r'" for Q
      by (rule returns_calm_bind [OF keeps_clear]) (simp add: that)
    show ?thesis
      using Inr q own by (auto simp: answers_within_def c honest_def node_retries_exhausted_def Let_def
          dest: isEligible_may_retry intro!: clear split: prod.split)
  qed
qed

lemma announce_returns:
  assumes "own_vital nCtx r = Some (p, c)"
  shows "returns (announce E nCtx np q) r (\<lambda>(np', _) r'. own_vital nCtx r' = own_vital nCtx r \<and>
    (np' = np \<or> np' = NodePhaseFailing \<and> np \<noteq> NodePhaseRetryableFailure) \<and>
    (pi_p q = EPhaseNotReady \<longrightarrow> np = p \<or> np = NodePhaseRetryableFailure))"
  unfolding announce_def
proof (rule returns_bind, rule returns_mono [OF returns_own_status], goal_cases)
  case (1 st r1)
  let ?send = "run_bind (node_event E nCtx q) (\<lambda>(nev, target).
         run_bind (RecordNodeEvent (ne_sink E) nev) (\<lambda>err.
           case err of
             None \<Rightarrow> run_ok (np, q)
           | Some e \<Rightarrow>
               if IsTooLarge e \<or> IsInvalidArguments e then
                 run_bind (RecordNodeEvent (ne_sink E) (Some (failed_event (ne_cfg E) nCtx
                     (case nev of None \<Rightarrow> node_of nCtx | Some v \<Rightarrow> nev_NodeId v) target (Error e)))) (\<lambda>err2.
                   case err2 of
                     None \<Rightarrow> run_ok (NodePhaseFailing, PhaseInfoFailure (cfg_now (ne_cfg E)) (cfg_alloc (ne_cfg E))
                               Kind_USER ''NodeFailed'' (Error e) (pi_info q))
                   | Some e2 \<Rightarrow> run_err (event_failed nCtx e2))
               else run_err (event_failed nCtx e)))"
  have "calm nCtx ?send {(np', _). pi_p q \<noteq> EPhaseNotReady \<and> (np' = np \<or> np' = NodePhaseFailing)}"
    by (intro calm.keeps_bind [OF calm.keeps_node_event])
      (auto intro!: calm.keeps_bind [OF calm.keeps_record] keeps_intros split: prod.split option.split)
  with 1 assms show ?case
    by (auto intro: returns_calm simp: vital_def)
qed

lemma count_failure_vital:
  assumes "p \<in> busy b" "honest q" "ToNodePhase (pi_p q) = Some np"
  shows "returns (change_own nCtx (count_failure p np (pi_err q))) r (\<lambda>_ r'. own_vital nCtx r' =
    map_option (\<lambda>(x, a, s). (x, a, s + counted p (GetKind (pi_err q)) (if np = NodePhaseFailing then 2 else 1))) (own_vital nCtx r))"
  using assms
  by (intro change_own_vital)
    (auto simp: changes_def count_failure_def Let_def IncrementSystemFailures_def upd_def vital_def counted_def busy_def GetKind_def
      split: option.split if_splits)

lemma settled_moves:
  assumes q: "q \<in> answers_within cfg (a, s)" "ToNodePhase (pi_p q) = Some np" and p: "p \<in> busy (node_of nCtx = exec_StartNodeID)"
    and settled: "settle h cs q np = (np1, x)"
    and event: "np2 = np1 \<or> np2 = NodePhaseFailing \<and> np1 \<noteq> NodePhaseRetryableFailure"
      "pi_p q = EPhaseNotReady \<longrightarrow> np1 = p \<or> np1 = NodePhaseRetryableFailure"
  shows "node_moves cfg (nc_node nCtx) (h_FinalizeRequired h) (p, a, s) (xs_NodePhase x)
    (np2, a, s + counted p (GetKind (pi_err q)) (if np = NodePhaseFailing then 2 else 1))"
proof -
  have zero: "counted p Kind_UNKNOWN c = 0" for c by (simp add: counted_def)
  have x: "xs_NodePhase x \<in> {ExecPhaseRunning, ExecPhaseSuccess, ExecPhaseFailed, ExecPhaseTimedOut, ExecPhaseRecovered}"
    using settled by (auto simp: settle_def exec_statuses split: if_splits)
  have refused: ?thesis if "np2 = NodePhaseFailing" "np \<noteq> NodePhaseRetryableFailure"
  proof (cases "np = NodePhaseFailing")
    case True
    with that show ?thesis using node_moves.refused [OF p x] by simp
  next
    case False
    with that q have "pi_err q = None"
      by (auto simp: answers_within_def honest_def ToNodePhase_def split: EPhase.splits)
    with that node_moves.refused [OF p x, where k = Kind_UNKNOWN] show ?thesis by (simp add: GetKind_def zero)
  qed
  show ?thesis
  proof (cases "np2 = NodePhaseFailing \<and> np \<noteq> NodePhaseRetryableFailure")
    case False
    consider "np = NodePhaseRetryableFailure" | "np = NodePhaseFailing" | "pi_err q = None" "np \<notin> {NodePhaseFailing, NodePhaseRetryableFailure}"
      using q by (cases "pi_p q") (auto simp: answers_within_def honest_def ToNodePhase_def)
    then show ?thesis
    proof cases
      case 1
      with q have "pi_p q = EPhaseRetryableFailure" by (auto simp: ToNodePhase_def split: EPhase.splits)
      with 1 settled event q node_moves.retries [OF p] show ?thesis
        by (auto simp: settle_def exec_statuses answers_within_def split: if_splits)
    next
      case 2
      with False settled event node_moves.fails [OF p, of "NodePhaseFailed" "ExecPhaseFailed" "h_FinalizeRequired h"]
      show ?thesis by (auto simp: settle_def exec_statuses split: if_splits)
    next
      case 3
      have "(np1, xs_NodePhase x) \<in> {(NodePhaseSucceeded, ExecPhaseSuccess), (NodePhaseRecovered, ExecPhaseRecovered)} \<union>
          (if h_FinalizeRequired h then {} else {(NodePhaseTimedOut, ExecPhaseTimedOut)}) \<or>
        xs_NodePhase x = ExecPhaseRunning \<and> np1 \<in> {p, NodePhaseQueued, NodePhaseRunning, NodePhaseDynamicRunning, NodePhaseSkipped} \<union>
          (if h_FinalizeRequired h then {NodePhaseSucceeding, NodePhaseTimingOut} else {})"
        using 3 False settled event q
        by (cases "pi_p q") (auto simp: settle_def exec_statuses ToNodePhase_def split: if_splits)
      moreover have "np2 = np1" using False event 3 by auto
      ultimately show ?thesis
        using node_moves.works [OF p] node_moves.completes [OF p] 3 by (auto simp: GetKind_def zero)
    qed
  qed (use refused in blast)
qed

lemma finish_round_step:
  assumes "own_vital nCtx r = Some (p, a, s)" "p \<in> busy (node_of nCtx = exec_StartNodeID)" "q \<in> answers_within (ne_cfg E) (a, s)"
  shows "returns (finish_round E h nCtx p cs q) r (\<lambda>x r'. \<exists>w. own_vital nCtx r' = Some w \<and>
    node_moves (ne_cfg E) (nc_node nCtx) (h_FinalizeRequired h) (p, a, s) (xs_NodePhase x) w)"
proof (cases "ToNodePhase (pi_p q)")
  case (Some np)
  obtain np1 x where settled: "settle h cs q np = (np1, x)" by force
  define d where "d = counted p (GetKind (pi_err q)) (if np = NodePhaseFailing then 2 else 1)"
  have "honest q" using assms(3) by (simp add: answers_within_def)
  from count_failure_vital [OF assms(2) this Some, of r]
  have count: "returns (change_own nCtx (count_failure p np (pi_err q))) r (\<lambda>_ r'. own_vital nCtx r' = Some (p, a, s + d))"
    unfolding assms(1) option.map prod.case d_def .
  show ?thesis
    unfolding finish_round_def Some option.case settled prod.case
  proof (rule returns_bind, rule returns_mono [OF count], rule returns_bind, rule returns_mono [OF announce_returns], assumption, goal_cases)
    case (1 u r1 y r2)
    obtain np2 q2 where y: "y = (np2, q2)" by force
    have "node_moves (ne_cfg E) (nc_node nCtx) (h_FinalizeRequired h) (p, a, s) (xs_NodePhase x) (np2, a, s + d)"
      unfolding d_def using 1 y by (intro settled_moves [OF assms(3) Some assms(2) settled]) auto
    with 1 y show ?case
      by simp (rule returns_bind, rule returns_mono [OF update_node_vital], auto simp: set_phase_def)
  qed
qed (simp add: finish_round_def)

lemma busy_step:
  assumes "own_vital nCtx r = Some (p, a, s)" "p \<in> busy (node_of nCtx = exec_StartNodeID)"
  shows "returns (handleQueuedOrRunningNode E nCtx h) r (\<lambda>x r'. \<exists>w. own_vital nCtx r' = Some w \<and>
    node_moves (ne_cfg E) (nc_node nCtx) (h_FinalizeRequired h) (p, a, s) (xs_NodePhase x) w)"
  unfolding handleQueuedOrRunningNode_def
proof (rule returns_bind, rule returns_mono [OF returns_own_status], rule returns_calm_bind [OF keeps_cache_stage], clarify,
    rule returns_bind, goal_cases)
  case (1 st r1 p0 cs rs r2)
  then have st: "ns_Phase (ns st) = p" and own: "own_vital nCtx r2 = Some (p, a, s)" using assms(1) by (auto simp: vital_def)
  have "p0 \<in> answers_within (ne_cfg E) (a, s)" using 1 by (auto simp: answers_within_def honest_def)
  with execute_returns [OF own] own
  have phase: "returns (if runs_handler (ns_Phase (ns st)) cs rs then execute E h nCtx else run_ok p0) r2
      (\<lambda>q r'. own_vital nCtx r' = Some (p, a, s) \<and> q \<in> answers_within (ne_cfg E) (a, s))" by simp
  show ?case
  proof (rule returns_mono [OF phase], goal_cases)
    case (1 q r3)
    then have "updatePhaseCacheInfo q c v \<in> answers_within (ne_cfg E) (a, s)" for c v
      by (auto simp: answers_within_def honest_def)
    with 1 show ?case
      by (auto simp: st simp del: split_paired_Ex intro!: returns_calm_bind [OF keeps_cache_success] finish_round_step assms(2) split: prod.split)
  qed
qed

text \<open>Ending or retrying a node.\<close>

lemma flow:
  "(\<And>r'. own_vital nCtx r' = own_vital nCtx r \<Longrightarrow> Q x r') \<Longrightarrow>
   returns (run_bind (if b then change_flow f else run_ok ()) (\<lambda>_. run_ok x)) r Q"
  by (rule returns_calm_bind [where nCtx = nCtx and S = UNIV]) (auto intro: keeps_intros)

lemma first_step:
  assumes "own_vital nCtx r = Some (NodePhaseNotYetStarted, c)" "node_of nCtx \<noteq> exec_StartNodeID"
  shows "returns (HandleNode E dag nCtx h) r (\<lambda>x r'.
    \<exists>w v. own_vital nCtx r' = Some w \<and>
      node_moves (ne_cfg E) (nc_node nCtx) (h_FinalizeRequired h) (NodePhaseNotYetStarted, c) (xs_NodePhase x) w \<and>
      fst (CanExecute dag (nc_nl nCtx) (node_of nCtx) (nr_s r)) = Go_Ok v \<and> decided v (fst w))"
  unfolding HandleNode_def
proof (rule returns_bind, rule returns_mono [OF returns_own_status], goal_cases)
  case (1 st r1)
  with assms have "ns_Phase (ns st) = NodePhaseNotYetStarted" "r1 = r" by (simp_all add: vital_def)
  then show ?case using assms(2)
    by (simp del: split_paired_Ex)
      (rule returns_bind, rule returns_mono [OF not_started_step [OF assms]], rule flow, simp del: split_paired_Ex)
qed

lemma ending_step:
  assumes "calm nCtx m UNIV" "changes f g" "own_vital nCtx r = Some v" "Q y (g v)"
    "\<And>r'. own_vital nCtx r' = Some (g v) \<Longrightarrow> returns k r' (\<lambda>x r'. xs_NodePhase x = y \<and> own_vital nCtx r' = Some (g v))"
  shows "returns (run_bind m (\<lambda>_. run_bind (change_own nCtx f) (\<lambda>_. k))) r (\<lambda>x r'. \<exists>w. own_vital nCtx r' = Some w \<and> Q (xs_NodePhase x) w)"
  by (rule returns_calm_bind [OF assms(1)], rule returns_bind, rule returns_mono [OF change_own_vital [OF assms(2)]])
    (use assms(3,4) in \<open>auto simp del: split_paired_Ex intro: returns_mono [OF assms(5)]\<close>)

lemma later_step:
  assumes "own_vital nCtx r = Some v" "fst v \<notin> {NodePhaseTimedOut, NodePhaseSkipped, NodePhaseSucceeded, NodePhaseRecovered}"
    "fst v = NodePhaseNotYetStarted \<Longrightarrow> node_of nCtx = exec_StartNodeID"
  shows "returns (HandleNode E dag nCtx h) r (\<lambda>x r'. \<exists>w. own_vital nCtx r' = Some w \<and>
    node_moves (ne_cfg E) (nc_node nCtx) (h_FinalizeRequired h) v (xs_NodePhase x) w)"
  unfolding HandleNode_def
proof (rule returns_bind, rule returns_mono [OF returns_own_status], goal_cases)
  case (1 st r1)
  obtain p a s where v: "v = (p, a, s)" using prod_cases3 by blast
  with 1 assms have own: "own_vital nCtx r1 = Some (p, a, s)" and p: "ns_Phase (ns st) = p" by (auto simp: vital_def)
  note moves = node_moves.failed [where c = "(a, s)"] node_moves.timed_out [where c = "(a, s)"] node_moves.succeeded [where c = "(a, s)"]
    node_moves.tries_again [where a = a and s = s]
  have phase: "changes (end_phase (ne_cfg E) q) (set_phase q)" for q
    unfolding changes_def by (simp add: end_phase_def vital_UpdatePhase set_phase_def) (simp add: vital_def)
  have success: "changes (UpdatePhase now q t m d e) (set_phase q)" for now q t m d e
    unfolding changes_def by (simp add: vital_UpdatePhase set_phase_def) (simp add: vital_def)
  have retry: "changes (retry_status (ne_cfg E)) (\<lambda>(_, a, s). (NodePhaseRunning, a + 1, s))"
    unfolding changes_def by (simp add: retry_status_def flag_setters vital_UpdatePhase upd_def vital_def)
  consider "p = NodePhaseFailing" | "p = NodePhaseTimingOut"
    | "p = NodePhaseSucceeding" | "p = NodePhaseRetryableFailure" | "p = NodePhaseFailed" | "p \<in> busy (node_of nCtx = exec_StartNodeID)"
    using assms(2,3) v by (cases p) (auto simp: busy_def)
  then show ?case
  proof cases
    case 1
    show ?thesis unfolding p v 1
      by (simp del: split_paired_Ex)
        (rule ending_step [OF keeps_Abort phase own [unfolded 1], where y = ExecPhaseFailed],
          auto simp: set_phase_def exec_statuses intro!: moves returns_bind returns_mono [OF returns_own_status])
  next
    case 2
    show ?thesis unfolding p v 2
      by (simp del: split_paired_Ex)
        (rule ending_step [OF keeps_Abort phase own [unfolded 2], where y = ExecPhaseTimedOut],
          auto simp: set_phase_def exec_statuses intro!: moves)
  next
    case 3
    show ?thesis unfolding p v 3 Finalize_node_def
      by (simp del: split_paired_Ex)
        (rule ending_step [OF finalize_calm success own [unfolded 3], where y = ExecPhaseSuccess],
          auto simp: set_phase_def exec_statuses intro!: moves)
  next
    case 4
    show ?thesis unfolding p v 4 handleRetryableFailure_def
      by (simp del: split_paired_Ex)
        (rule returns_calm_bind [OF calm.keeps_steps(1) [of nCtx]],
          rule ending_step [OF keeps_Abort retry, where y = ExecPhasePending and v = "(NodePhaseRetryableFailure, a, s)"],
          use own 4 in \<open>simp_all add: exec_statuses moves\<close>)
  next
    case 5
    then show ?thesis unfolding p v using own moves by (auto simp: exec_statuses simp del: split_paired_Ex)
  next
    case 6
    then show ?thesis unfolding p v using own assms(3) v busy_step [OF own]
      by (auto simp: busy_def simp del: split_paired_Ex split: if_splits)
  qed
qed

lemma handle_moves:
  assumes "own_vital nCtx r = Some v" "fst v \<notin> {NodePhaseTimedOut, NodePhaseSkipped, NodePhaseSucceeded, NodePhaseRecovered}"
  shows "returns (HandleNode E dag nCtx h) r (\<lambda>x r'. \<exists>w. own_vital nCtx r' = Some w \<and>
    node_moves (ne_cfg E) (nc_node nCtx) (h_FinalizeRequired h) v (xs_NodePhase x) w)"
proof (cases "fst v = NodePhaseNotYetStarted \<and> node_of nCtx \<noteq> exec_StartNodeID")
  case True
  with assms(1) show ?thesis by (cases v) (auto intro: returns_mono [OF first_step])
next
  case False
  with assms later_step show ?thesis by blast
qed

end

end
