(* ===== verification/Node_Handlers.thy ===== *)
theory Node_Handlers
  imports Node_Phases
begin

section \<open>The start and end handlers, and the life of a node\<close>

text \<open>
  The handlers of the two nodes that every workflow has (nodes/start/handler.go, nodes/end/handler.go). They keep the contract of
  \<open>handled_node\<close>. For every handler that keeps it, a round moves its node along \<open>node_moves\<close>, a node starts only when its
  upstream nodes allow it, and the number of attempts is bounded.
\<close>

subsection \<open>Handlers\<close>

text \<open>The inputs of a node, which are read once per context.\<close>

definition read_inputs :: "'w node_env \<Rightarrow> 's NodeExecContext \<Rightarrow> (literal_map, ('s, 'w) nrun) grun" where
  "read_inputs E nCtx =
     (let path = GetInputPath (ne_cfg E) nCtx
      in world_get (\<lambda>e. std_Wrapf ''READ_FAILED'' (Some e) (''failed to read data from dataDir ['' @ path @ ''].''))
           (ne_ReadProtobuf E path))"

definition startHandler :: "'w node_env \<Rightarrow> ('s, 'w) NodeHandler" where
  "startHandler E =
     \<lparr>h_FinalizeRequired = False,
      h_Handle = (\<lambda>nCtx. run_ok (DoTransition TransitionTypeEphemeral (PhaseInfoSuccess (cfg_now (ne_cfg E)) (Some empty_info)))),
      h_Abort = (\<lambda>nCtx reason. run_ok ()), h_Finalize = (\<lambda>nCtx. run_ok ()), h_Cacheable = None\<rparr>"

definition endHandler_Handle :: "'w node_env \<Rightarrow> 's NodeExecContext \<Rightarrow> (Transition, ('s, 'w) nrun) grun" where
  "endHandler_Handle E nCtx =
     run_bind (read_inputs E nCtx) (\<lambda>inputs.
     run_bind (own_status nCtx) (\<lambda>st.
     run_bind (world_or (\<lambda>e. node_Wrapf ''CausedByError'' (node_of nCtx) (Some e) ''Failed to store workflow outputs, as end-node'')
         (ne_WriteProtobuf E (GetOutputsFile (ns_OutputDir (ns st))) inputs)) (\<lambda>_.
       run_ok (DoTransition TransitionTypeEphemeral (PhaseInfoSuccess (cfg_now (ne_cfg E)) None)))))"

definition endHandler :: "'w node_env \<Rightarrow> ('s, 'w) NodeHandler" where
  "endHandler E =
     \<lparr>h_FinalizeRequired = False, h_Handle = endHandler_Handle E,
      h_Abort = (\<lambda>nCtx reason. run_ok ()), h_Finalize = (\<lambda>nCtx. run_ok ()), h_Cacheable = None\<rparr>"

lemma keeps_read_inputs [keeps_intros]: "calm nCtx (read_inputs E nCtx) UNIV"
  unfolding read_inputs_def Let_def by (rule calm.keeps_world)

lemma transition_info [simp]: "tr_info (DoTransition t p) = p"
  by (simp add: DoTransition_def)

lemma workflow_context: "node_lookup (nc_nl (c\<lparr>nc_nl := workflow_lookup refs fmt w\<rparr>)) (\<lambda>i. i)"
  using workflow.node_lookup_axioms by simp

interpretation start: handled_node "c\<lparr>nc_nl := workflow_lookup refs fmt w\<rparr>" "\<lambda>i. i" "startHandler E" for c refs fmt w E
  by (rule handled_node.intro [OF workflow_context])
    (unfold_locales, auto simp: startHandler_def honest_def intro!: keeps_intros)

interpretation end_node: handled_node "c\<lparr>nc_nl := workflow_lookup refs fmt w\<rparr>" "\<lambda>i. i" "endHandler E" for c refs fmt w E
  by (rule handled_node.intro [OF workflow_context])
    (unfold_locales, auto simp: endHandler_def endHandler_Handle_def honest_def intro!: keeps_intros)

subsection \<open>Moves\<close>

definition canHandleNode :: "NodePhase \<Rightarrow> bool" where
  "canHandleNode phase \<longleftrightarrow>
     phase \<in> {NodePhaseNotYetStarted, NodePhaseQueued, NodePhaseRunning, NodePhaseFailing, NodePhaseTimingOut,
       NodePhaseRetryableFailure, NodePhaseSucceeding, NodePhaseDynamicRunning}"


text \<open>
  Property C3. Nodes start in order. A node of a workflow that has not started leaves this phase in a round that returns exactly if
  no upstream node blocks it, and it is skipped exactly if, moreover, one of them was skipped, failed or timed out.
\<close>

theorem nodes_start_in_order:
  assumes "handled_node nCtx cell h" "nc_nl nCtx = workflow_lookup refs fmt w" "\<forall>d xs. refs d xs \<noteq> None"
    "en_ID (nc_node nCtx) \<noteq> exec_StartNodeID" "dag_ToNode dag (en_ID (nc_node nCtx)) = Go_Ok us"
    "\<forall>u \<in> set us. spec_GetNode w u \<noteq> None"
    "own_vital nCtx r = Some (NodePhaseNotYetStarted, c)" "HandleNode E dag nCtx h r = (Go_Ok x, r')"
  shows "\<exists>q. own_vital nCtx r' = Some (q, c) \<and>
    (q = NodePhaseNotYetStarted \<longleftrightarrow> (\<exists>u \<in> set us. wf_verdict refs fmt w (nr_s r) (en_ID (nc_node nCtx)) u = Blocks)) \<and>
    (q = NodePhaseSkipped \<longleftrightarrow> (\<forall>u \<in> set us. wf_verdict refs fmt w (nr_s r) (en_ID (nc_node nCtx)) u \<noteq> Blocks) \<and>
       (\<exists>u \<in> set us. wf_verdict refs fmt w (nr_s r) (en_ID (nc_node nCtx)) u = Skips))"
proof -
  let ?vs = "map (wf_verdict refs fmt w (nr_s r) (en_ID (nc_node nCtx))) us"
  obtain s' where can: "CanExecute dag (nc_nl nCtx) (en_ID (nc_node nCtx)) (nr_s r) = (Go_Ok (overall ?vs), s')"
    using can_execute_overall [OF assms(3,4,5,6)] assms(2) by metis
  obtain q d where q: "own_vital nCtx r' = Some (q, d)" "decided (overall ?vs) q"
    "node_moves (ne_cfg E) (nc_node nCtx) (h_FinalizeRequired h) (NodePhaseNotYetStarted, c) (xs_NodePhase x) (q, d)"
    using handled_node.first_step [OF assms(1,7,4), of E dag] assms(8) can by (fastforce simp: returns_def)
  have "d = c" using q(3) assms(4) by (cases rule: node_moves.cases) (auto simp: busy_def)
  moreover have "q = NodePhaseNotYetStarted \<longleftrightarrow> Blocks \<in> set ?vs" "q = NodePhaseSkipped \<longleftrightarrow> Skips \<in> set ?vs \<and> Blocks \<notin> set ?vs"
    using q(2) overall_iff [of ?vs] by (cases "overall ?vs"; auto simp: decided_def)+
  ultimately show ?thesis using q(1) by (auto simp: image_iff eq_commute [of Blocks] eq_commute [of Skips])
qed

subsection \<open>Attempts\<close>

text \<open>The limits that a configuration sets to the retries of a node.\<close>

definition same_limits :: "node_config \<Rightarrow> node_config \<Rightarrow> bool" where
  "same_limits cfg cfg' \<longleftrightarrow> cfg_IgnoreRetryCause cfg' = cfg_IgnoreRetryCause cfg \<and>
     cfg_maxNodeRetriesForSystemFailures cfg' = cfg_maxNodeRetriesForSystemFailures cfg \<and>
     cfg_DefaultMaxAttempts cfg' = cfg_DefaultMaxAttempts cfg"

text \<open>
  The rounds of a node from its creation on. Between two rounds, and from round to round in the context and the environment, everything may
  change but the node and the limits.
\<close>

inductive node_rounds :: "node_config \<Rightarrow> 's NodeLookup \<Rightarrow> string \<Rightarrow> NodeSpec \<Rightarrow> ('s, 'w) nrun \<Rightarrow> bool"
  for cfg :: node_config and nl :: "'s NodeLookup" and i :: string and n :: NodeSpec where
  created: "vital_at nl i (nr_s r) = Some (NodePhaseNotYetStarted, 0, 0) \<Longrightarrow> node_rounds cfg nl i n r"
| handled: "node_rounds cfg nl i n r \<Longrightarrow> nc_nl nCtx = nl \<Longrightarrow> nc_id nCtx = i \<Longrightarrow> nc_node nCtx = n \<Longrightarrow>
    same_limits cfg (ne_cfg E) \<Longrightarrow> handled_node nCtx (\<lambda>j. j) h \<Longrightarrow> vital_at nl i (nr_s r) = Some v \<Longrightarrow> canHandleNode (fst v) \<Longrightarrow>
    HandleNode E dag nCtx h r = (Go_Ok x, r') \<Longrightarrow> vital_at nl i (nr_s r'') = vital_at nl i (nr_s r') \<Longrightarrow>
    node_rounds cfg nl i n r''"

definition in_limits :: "nat \<Rightarrow> nat \<Rightarrow> vital \<Rightarrow> bool" where
  "in_limits k m v = (case v of (p, a, s) \<Rightarrow>
     if p \<in> {NodePhaseNotYetStarted, NodePhaseQueued, NodePhaseRunning, NodePhaseDynamicRunning}
     then unat s \<le> unat a \<and> unat s \<le> k \<and> unat a - unat s \<le> m
     else if p = NodePhaseRetryableFailure
     then unat s \<le> unat a + 1 \<and> unat s \<le> k \<and> unat a + 1 - unat s \<le> m
     else unat a \<le> k + m)"

lemma in_limits_bound: "in_limits k m (p, a, s) \<Longrightarrow> unat a \<le> k + m"
  by (auto simp: in_limits_def split: if_splits)

lemma unat_next: "unat (a :: uint32) + 1 < 2 ^ 32 \<Longrightarrow> unat (a + 1) = unat a + 1"
  by (simp add: unat_word_ariths)

lemma unat_left: "unat (a :: uint32) + 1 < 2 ^ 32 \<Longrightarrow> unat s \<le> unat a \<Longrightarrow> unat (a + 1 - s) = unat a + 1 - unat s"
  by (subst unat_sub) (auto simp: word_le_nat_alt unat_next)

lemma in_limits_step:
  assumes "node_moves cfg n f v x w" "in_limits k m v" "en_ID n \<noteq> exec_StartNodeID" "\<not> cfg_IgnoreRetryCause cfg"
    and lim: "k = unat (cfg_maxNodeRetriesForSystemFailures cfg)" "m = unat (max_attempts cfg n) - 1" "k + m + 1 < 2 ^ 32"
  shows "in_limits k m w"
  using assms(1)
proof (cases rule: node_moves.cases)
  case (retries p a s kind)
  have p: "p \<in> {NodePhaseQueued, NodePhaseRunning, NodePhaseDynamicRunning}"
    using retries(4) assms(3) by (auto simp: busy_def)
  then have b: "unat s \<le> unat a" "unat s \<le> k" "unat a - unat s \<le> m"
    using assms(2) retries(1) by (auto simp: in_limits_def)
  then have a: "unat a + 1 < 2 ^ 32" using lim(3) by linarith
  show ?thesis
  proof (cases "kind = Kind_SYSTEM")
    case True
    then have "s < cfg_maxNodeRetriesForSystemFailures cfg" using retries(5) assms(4) by (simp add: may_retry_def)
    then have "unat s < k" by (simp add: lim(1) word_less_nat_alt)
    moreover have "unat (s + 1) = unat s + 1" using b a by (intro unat_next) linarith
    ultimately show ?thesis using True p b retries(3) by (auto simp: in_limits_def counted_def)
  next
    case False
    then have "unat (a + 1 - s) < unat (max_attempts cfg n)"
      using retries(5) assms(4) by (simp add: may_retry_def word_less_nat_alt)
    then have "unat a + 1 - unat s \<le> m" using unat_left [OF a b(1)] lim(2) by linarith
    then show ?thesis using False b retries(3) by (simp add: in_limits_def counted_def)
  qed
next
  case (tries_again a s)
  then have b: "unat s \<le> unat a + 1" "unat s \<le> k" "unat a + 1 - unat s \<le> m" using assms(2) by (auto simp: in_limits_def)
  then have "unat (a + 1) = unat a + 1" using lim(3) by (intro unat_next) linarith
  then show ?thesis using b tries_again by (simp add: in_limits_def)
next
  case (works p q c)
  then show ?thesis using assms(2,3) by (cases c) (auto simp: in_limits_def busy_def split: if_splits)
next
  case (completes p q c)
  then show ?thesis using assms(2,3) by (cases c) (auto simp: in_limits_def busy_def split: if_splits)
next
  case (fails p q a s kind)
  then show ?thesis using assms(2) in_limits_bound [of k m p a s] by (auto simp: in_limits_def split: if_splits)
next
  case (refused p a s kind)
  then show ?thesis using assms(2) in_limits_bound [of k m p a s] by (auto simp: in_limits_def split: if_splits)
next
  case (starts q c)
  then show ?thesis using assms(2) by (cases c) (auto simp: in_limits_def split: if_splits)
qed (use assms(2) in \<open>auto simp: in_limits_def split: if_splits\<close>)

lemma limits_kept:
  assumes "same_limits cfg cfg'"
  shows "cfg_maxNodeRetriesForSystemFailures cfg' = cfg_maxNodeRetriesForSystemFailures cfg"
    "max_attempts cfg' n = max_attempts cfg n" "cfg_IgnoreRetryCause cfg' = cfg_IgnoreRetryCause cfg"
  using assms by (simp_all add: same_limits_def max_attempts_def split: option.split)

text \<open>
  Property C4. Retries are bounded. Unless the cause of a failure is ignored, a node is attempted at most \<open>k + m\<close> times, where
  \<open>k\<close> system failures are retried and \<open>m\<close> is the number of attempts it may have, at least one: over all rounds of a node its
  counter of attempts stays below that, as long as the sum fits into 32 bits.
\<close>

theorem retries_bounded:
  assumes "node_rounds cfg nl i n r" "\<not> cfg_IgnoreRetryCause cfg" "en_ID n \<noteq> exec_StartNodeID"
    "unat (cfg_maxNodeRetriesForSystemFailures cfg) + max 1 (unat (max_attempts cfg n)) < 2 ^ 32"
  shows "\<exists>p a s. vital_at nl i (nr_s r) = Some (p, a, s) \<and>
    unat a < unat (cfg_maxNodeRetriesForSystemFailures cfg) + max 1 (unat (max_attempts cfg n))"
proof -
  let ?k = "unat (cfg_maxNodeRetriesForSystemFailures cfg)" and ?m = "unat (max_attempts cfg n) - 1"
  have fits: "?k + ?m + 1 < 2 ^ 32" using assms(4) by (simp add: max_def split: if_splits)
  have "\<exists>v. vital_at nl i (nr_s r) = Some v \<and> in_limits ?k ?m v"
    using assms(1)
  proof induction
    case (handled r nCtx E h v dag x r' r'')
    have own: "own_vital nCtx q = vital_at nl i (nr_s q)" for q :: "('a, 'b) nrun" by (simp add: own_vital_def handled.hyps)
    obtain w where w: "own_vital nCtx r' = Some w" "node_moves (ne_cfg E) n (h_FinalizeRequired h) v (xs_NodePhase x) w"
      using handled_node.handle_moves [OF handled.hyps(6), of r v E dag] handled.hyps
      by (auto simp: own returns_def canHandleNode_def)
    note kept = limits_kept [OF handled.hyps(5)]
    have "in_limits ?k ?m w"
    proof (rule in_limits_step [OF w(2)])
      show "in_limits ?k ?m v" using handled.IH handled.hyps(7) by simp
    qed (use assms(2,3) fits kept in simp_all)
    with w(1) handled.hyps(10) show ?case by (auto simp: own)
  qed (auto simp: in_limits_def)
  then obtain p a s where "vital_at nl i (nr_s r) = Some (p, a, s)" "in_limits ?k ?m (p, a, s)" by (metis prod_cases3)
  with in_limits_bound [of ?k ?m p a s] show ?thesis by (intro exI [of _ p] exI [of _ a] exI [of _ s]) auto
qed

subsection \<open>An example\<close>

text \<open>The second node of the sample workflow, in services that accept everything and find nothing.\<close>

definition sample_config :: node_config where
  "sample_config = \<lparr>cfg_now = 63800000000000000000, cfg_alloc = 1, cfg_refs = sample_refs, cfg_ref_error = Plain_Error [], cfg_clusterID = ''c'',
     cfg_enableCRDebugMetadata = False, cfg_defaultActiveDeadline = 0, cfg_defaultExecutionDeadline = 0,
     cfg_interruptibleFailureThreshold = -1, cfg_maxNodeRetriesForSystemFailures = 3, cfg_IgnoreRetryCause = False,
     cfg_DefaultMaxAttempts = 1, cfg_RawOutputPolicyInline = False, cfg_ArrayNodeEventVersion = 0, cfg_duration_text = (\<lambda>d. [])\<rparr>"

definition sample_catalog :: "unit catalog" where
  "sample_catalog = \<lparr>cat_Get = (\<lambda>k w. (Inl (Plain_Error []), w)), cat_GetOrExtendReservation = (\<lambda>k o' w. (Inr o', w)),
     cat_ReleaseReservation = (\<lambda>k o' w. (None, w)), cat_Put = (\<lambda>k d w. ((cat_NewStatus CACHE_POPULATED None, None), w)),
     cat_Update = (\<lambda>k d w. ((cat_NewStatus CACHE_POPULATED None, None), w)), cat_is_not_found = (\<lambda>e. True)\<rparr>"

definition sample_services :: "unit node_env" where
  "sample_services = \<lparr>ne_cfg = sample_config, ne_sink = (\<lambda>ev w. (None, w)), ne_catalog = sample_catalog,
     ne_WriteProtobuf = (\<lambda>p m w. (None, w)), ne_ReadProtobuf = (\<lambda>p w. (Inr None, w)), ne_CopyRaw = (\<lambda>a b w. (None, w)),
     ne_Head = (\<lambda>p w. (Inr False, w)), ne_resolver = (\<lambda>w. sample_resolver), ne_promises = (\<lambda>a. []),
     ne_RecoverNodeExecution = (\<lambda>e n w. (Inr None, w)), ne_RecoverNodeExecutionData = (\<lambda>e n w. (Inr None, w)),
     ne_OffloadingEnabled = False, ne_IsSupportedSDKVersion = (\<lambda>a b. True), ne_GetSupportedSDKVersion = (\<lambda>a. []),
     ne_error_text = (\<lambda>e. []), ne_IsNotFound = (\<lambda>e. False),
     ne_signals = \<lparr>sig_GetOrCreateSignal = (\<lambda>q w. (Inr None, w)), sig_literal_text = (\<lambda>l. [])\<rparr>,
     ne_launcher = \<lparr>lp_Launch = (\<lambda>c i l m o' w. (None, w)), lp_GetStatus = (\<lambda>i w. (Inr (None, None), w)), lp_Kill = (\<lambda>i s w. (None, w))\<rparr>,
     ne_EnqueueOwner = (\<lambda>w. (None, w))\<rparr>"

definition sample_execution :: ExecContext where
  "sample_execution = \<lparr>xc_ID = ''w'', xc_Name = ''w'', xc_ExecutionID = None, xc_Labels = [], xc_Interruptible = False,
     xc_OnFailurePolicy = FAIL_IMMEDIATELY, xc_EventVersion = 1, xc_ParentInfo = None, xc_MaxParallelism = 0,
     xc_OverwriteCache = False, xc_RecoveryExecution = None, xc_GetTask = (\<lambda>t. Inl (Plain_Error [])), xc_FindSubWorkflow = (\<lambda>i. None),
     xc_DefinitionVersion = 1, xc_Settings = \<lparr>set_SecurityContext = [], set_RawOutputDataConfig = None, set_Annotations = [],
       set_Interruptible = None, set_EnvironmentVariables = [], set_OwnerID = []\<rparr>\<rparr>"

definition sample_context :: "WorkflowStatus NodeExecContext" where
  "sample_context = newNodeExecContext sample_execution sample_lookup (plain_node ''b'') ''b'' [] False None"

definition node_round :: "WorkflowStatus \<Rightarrow> (WorkflowStatus, unit) nrun" where
  "node_round s = \<lparr>nr_s = s, nr_nsm = newNodeStateManager new_NodeStatus, nr_cf = InitializeControlFlow, nr_events = [], nr_w = ()\<rparr>"

lemmas sample_context_defs = sample_context_def newNodeExecContext_def sample_services_def node_round_def

lemma sample_context_sels [simp]:
  "nc_nl sample_context = sample_lookup" "nc_id sample_context = ''b''" "nc_node sample_context = plain_node ''b''"
  "sample_context\<lparr>nc_nl := sample_lookup\<rparr> = sample_context" "nr_s (node_round s) = s" "ne_cfg sample_services = sample_config"
  by (simp_all add: sample_context_defs)

lemma sample_handled: "handled_node sample_context (\<lambda>i. i) (endHandler sample_services)"
  by (metis end_node.handled_node_axioms sample_context_sels(4))

lemma sample_vital: "own_vital sample_context (node_round s) = map_option (vital \<circ> fst) (seen sample_lookup ''b'' s)"
  by (cases "seen sample_lookup ''b'' s") (auto simp: own_vital_def vital_at_def)

text \<open>In a fresh workflow the node waits.\<close>

lemma sample_fresh:
  "seen sample_lookup i sample_status = Some (obs new_NodeStatus)" "own_vital sample_context (node_round sample_status) =
     Some (NodePhaseNotYetStarted, 0, 0)"
proof -
  have "seen sample_lookup i sample_status = Some (obs new_NodeStatus)" for i
    using wf_seen_some [OF sample_upstream(3), of "itoa \<circ> unat" sample_spec i sample_status]
    by (auto simp: wf_seen sample_status_def)
  then show "seen sample_lookup i sample_status = Some (obs new_NodeStatus)"
    "own_vital sample_context (node_round sample_status) = Some (NodePhaseNotYetStarted, 0, 0)"
    by (simp_all add: sample_vital obs_def) (simp add: vital_def new_NodeStatus_def new_NodeFields_def)
qed

lemma sample_blocked: "wf_verdict sample_refs (itoa \<circ> unat) sample_spec sample_status ''b'' ''a'' = Blocks"
  by (simp add: wf_verdict_def sample_fresh verdict_of_def sample_upstream branch_phase_def obs_reads ended_verdict_def
      new_NodeStatus_def new_NodeFields_def)

lemma sample_waits:
  "\<exists>r. HandleNode sample_services sample_dag sample_context (endHandler sample_services) (node_round sample_status) =
     (Go_Ok NodeStatusPending, r)"
proof -
  obtain s where "CanExecute sample_dag sample_lookup ''b'' sample_status = (Go_Ok PredicatePhaseNotReady, s)"
    using can_execute_overall [OF sample_upstream(3) _ sample_upstream(1), of sample_spec "itoa \<circ> unat" sample_status]
    by (auto simp: exec_StartNodeID_def sample_upstream sample_blocked overall_def)
  moreover obtain st where "own_status sample_context (node_round sample_status) = (Go_Ok st, node_round sample_status)"
      "ns_Phase (ns st) = NodePhaseNotYetStarted"
    using own_status_read [OF sample_fresh(2)] by (auto simp: vital_def)
  ultimately show ?thesis
    by (simp add: HandleNode_def handleNotYetStartedNode_def preExecute_def on_lookup_def run_bind_def run_ok_def Let_def
        exec_StartNodeID_def exec_statuses)
qed

lemma sample_retry:
  assumes "own_vital sample_context r = Some (NodePhaseRetryableFailure, c)"
  shows "\<exists>r'. HandleNode sample_services sample_dag sample_context (endHandler sample_services) r = (Go_Ok NodeStatusPending, r')"
proof -
  obtain st where st: "own_status sample_context r = (Go_Ok st, r)" "ns_Phase (ns st) = NodePhaseRetryableFailure"
    using own_status_read [OF assms] by (auto simp: vital_def)
  moreover obtain n s where "nl_status sample_lookup ''b'' (nr_s r) = (Some n, s)"
    using st(1) by (cases "nl_status sample_lookup ''b'' (nr_s r)") (auto simp: read_status_def split: option.splits)
  ultimately show ?thesis
    by (simp add: HandleNode_def handleRetryableFailure_def Abort_node_def endHandler_def run_bind_def run_ok_def change_status_def)
qed

definition sample_failed_once :: WorkflowStatus where
  "sample_failed_once = wf_put ''b'' (NodeStatus (new_NodeFields\<lparr>ns_Phase := NodePhaseRetryableFailure, ns_SystemFailures := 1\<rparr>) None) sample_status"


theorem nodes_start_in_order_witness:
  "\<exists>r'. HandleNode sample_services sample_dag sample_context (endHandler sample_services) (node_round sample_status) =
      (Go_Ok NodeStatusPending, r') \<and>
    own_vital sample_context r' = Some (NodePhaseNotYetStarted, 0, 0)"
proof -
  obtain r' where run: "HandleNode sample_services sample_dag sample_context (endHandler sample_services) (node_round sample_status) =
      (Go_Ok NodeStatusPending, r')"
    using sample_waits by blast
  from nodes_start_in_order [OF sample_handled _ sample_upstream(3) _ _ _ sample_fresh(2) run, where us = "[''a'']" and fmt = "itoa \<circ> unat" and w = sample_spec]
  show ?thesis using run by (auto simp: exec_StartNodeID_def sample_upstream sample_blocked)
qed

theorem retries_bounded_witness:
  "\<exists>r' p a s. HandleNode sample_services sample_dag sample_context (endHandler sample_services) (node_round sample_status) =
      (Go_Ok NodeStatusPending, r') \<and>
    vital_at sample_lookup ''b'' (nr_s r') = Some (p, a, s) \<and> unat a < 4"
proof -
  have own: "vital_at sample_lookup ''b'' (nr_s r) = own_vital sample_context r" for r :: "(WorkflowStatus, unit) nrun"
    by (simp add: own_vital_def)
  obtain r' where run: "HandleNode sample_services sample_dag sample_context (endHandler sample_services) (node_round sample_status) =
      (Go_Ok NodeStatusPending, r')"
    using sample_waits by blast
  have "node_rounds sample_config sample_lookup ''b'' (plain_node ''b'') (node_round sample_status)"
    by (rule node_rounds.created) (simp only: own sample_fresh)
  then have "node_rounds sample_config sample_lookup ''b'' (plain_node ''b'') r'"
    by (rule node_rounds.handled [OF _ _ _ _ _ sample_handled _ _ run, where v = "(NodePhaseNotYetStarted, 0, 0)"])
      (simp_all add: own sample_fresh canHandleNode_def same_limits_def del: sample_context_sels(5))
  from retries_bounded [OF this] run show ?thesis
    by (auto simp: sample_config_def max_attempts_def plain_node_def exec_StartNodeID_def)
qed

end
