(* ===== verification/Node_Traversal.thy ===== *)
theory Node_Traversal
  imports Node_Handlers
begin

section \<open>The walk over the nodes (nodes/executor.go, recursiveNodeExecutor)\<close>

text \<open>
  A round visits the nodes of a graph depth first, from a node through those that have ended to their downstream nodes. The handlers
  of some kinds of nodes walk over nodes of their own, so the executor and its handlers call each other. The recursion is left open: each
  operation takes the executor that it calls, and \<open>executor\<close> closes it with fuel. The fuel is shown to suffice for graphs without cycles.

  Every node context has a state manager of its own, so the one of the caller is put back after a visit.
\<close>

subsection \<open>Executors and factories\<close>

record ('s, 'w) NodeExecutor =
  nx_RecursiveNodeHandler :: "ExecContext \<Rightarrow> DAGStructure \<Rightarrow> 's NodeLookup \<Rightarrow> NodeSpec \<Rightarrow> (ExecStatus, ('s, 'w) nrun) grun"
  nx_FinalizeHandler :: "ExecContext \<Rightarrow> DAGStructure \<Rightarrow> 's NodeLookup \<Rightarrow> NodeSpec \<Rightarrow> (unit, ('s, 'w) nrun) grun"
  nx_AbortHandler :: "ExecContext \<Rightarrow> DAGStructure \<Rightarrow> 's NodeLookup \<Rightarrow> NodeSpec \<Rightarrow> string \<Rightarrow> (unit, ('s, 'w) nrun) grun"

type_synonym ('s, 'w) handlers = "NodeKind \<Rightarrow> ('s, 'w) NodeHandler option"

definition NodeKind_String :: "NodeKind \<Rightarrow> string" where
  "NodeKind_String k =
     (case k of
        NodeKindTask \<Rightarrow> ''task'' | NodeKindBranch \<Rightarrow> ''branch'' | NodeKindWorkflow \<Rightarrow> ''workflow'' | NodeKindGate \<Rightarrow> ''gate''
      | NodeKindArray \<Rightarrow> ''array'' | NodeKindStart \<Rightarrow> ''start'' | NodeKindEnd \<Rightarrow> ''end'')"

definition GetHandler :: "('s, 'w) handlers \<Rightarrow> NodeKind \<Rightarrow> (('s, 'w) NodeHandler, ('s, 'w) nrun) grun" where
  "GetHandler hs kind =
     (case hs kind of
        None \<Rightarrow> run_err (Plain_Error (''Handler not registered for NodeKind ['' @ NodeKind_String kind @ '']''))
      | Some h \<Rightarrow> run_ok h)"

text \<open>The status of a node, which the lookup creates where it is missing.\<close>

definition find_status :: "'s NodeLookup \<Rightarrow> string \<Rightarrow> (NodeStatus, ('s, 'w) nrun) grun" where
  "find_status nl i = (\<lambda>r. case nl_status nl i (nr_s r) of
     (None, s) \<Rightarrow> (Go_Panic, r\<lparr>nr_s := s\<rparr>) | (Some st, s) \<Rightarrow> (Go_Ok st, r\<lparr>nr_s := s\<rparr>))"

definition own_manager :: "('a, ('s, 'w) nrun) grun \<Rightarrow> ('a, ('s, 'w) nrun) grun" where
  "own_manager m = (\<lambda>r. case m r of (x, r') \<Rightarrow> (x, r'\<lparr>nr_nsm := nr_nsm r\<rparr>))"

definition SetInputsForStartNode ::
    "'w node_env \<Rightarrow> 's NodeLookup \<Rightarrow> NodeSpec option \<Rightarrow> literal_map \<Rightarrow> (ExecStatus, ('s, 'w) nrun) grun" where
  "SetInputsForStartNode E nl startNode inputs =
     (case startNode of
        None \<Rightarrow> run_panic
      | Some n \<Rightarrow>
          (case inputs of
             None \<Rightarrow> run_ok NodeStatusComplete
           | Some _ \<Rightarrow>
               run_bind (find_status nl (en_ID n)) (\<lambda>st.
                 if ns_DataDir (ns st) = [] then
                   run_err (node_Errorf IllegalStateError (en_ID n) ''no data-dir set, cannot store inputs'')
                 else
                   run_bind (world_or (\<lambda>e. node_Wrapf ''CausedByError'' (en_ID n) (Some e) ''Failed to store workflow inputs (as start node)'')
                     (ne_WriteProtobuf E (GetOutputsFile (ns_OutputDir (ns st))) inputs)) (\<lambda>_. run_ok NodeStatusComplete))))"

subsection \<open>Limits\<close>

definition parallelism_applies :: "NodeSpec \<Rightarrow> bool" where
  "parallelism_applies n \<longleftrightarrow>
     en_Kind n = NodeKindTask \<or> en_Kind n = NodeKindArray \<or>
     (en_Kind n = NodeKindWorkflow \<and> (case en_WorkflowNode n of None \<Rightarrow> False | Some w \<Rightarrow> wfn_LaunchPlanRefID w \<noteq> None))"

definition IsMaxParallelismAchieved :: "ExecContext \<Rightarrow> NodeSpec \<Rightarrow> ControlFlow \<Rightarrow> bool" where
  "IsMaxParallelismAchieved xc n cf \<longleftrightarrow>
     (if xc_MaxParallelism xc = 0 then False
      else if parallelism_applies n then xc_MaxParallelism xc \<le> cf_parallelism cf
      else False)"

definition count_execution :: "NodeSpec \<Rightarrow> NodePhase \<Rightarrow> (unit, ('s, 'w) nrun) grun" where
  "count_execution n p =
     (if p = NodePhaseRunning then
        run_bind (change_flow IncrementNodeExecutionCount) (\<lambda>_.
          if en_Kind n = NodeKindTask then change_flow IncrementTaskExecutionCount else run_ok ())
      else run_ok ())"

subsection \<open>Visiting a node\<close>

definition handle_current ::
    "'w node_env \<Rightarrow> ('s, 'w) handlers \<Rightarrow> ExecContext \<Rightarrow> DAGStructure \<Rightarrow> 's NodeLookup \<Rightarrow> NodeSpec \<Rightarrow>
     (ExecStatus, ('s, 'w) nrun) grun" where
  "handle_current E hs xc dag nl n =
     own_manager (\<lambda>r. case BuildNodeExecutionContext (ne_cfg E) xc nl (en_ID n) r of
         (Go_Panic, r1) \<Rightarrow> (Go_Panic, r1)
       | (Go_Err e, r1) \<Rightarrow>
           (Go_Ok (NodeStatusFailed (Some (new_error (cfg_alloc (ne_cfg E)) Kind_SYSTEM ''InternalError'' (Error e)))), r1)
       | (Go_Ok nCtx, r1) \<Rightarrow>
           run_bind (GetHandler hs (en_Kind (nc_node nCtx))) (\<lambda>h. HandleNode E dag nCtx h) r1)"

definition visit_node ::
    "'w node_env \<Rightarrow> ('s, 'w) handlers \<Rightarrow> ExecContext \<Rightarrow> DAGStructure \<Rightarrow> 's NodeLookup \<Rightarrow> NodeSpec \<Rightarrow> NodeStatus \<Rightarrow>
     (ExecStatus, ('s, 'w) nrun) grun" where
  "visit_node E hs xc dag nl n st =
     (if IsDirty st then run_ok NodeStatusRunning
      else run_bind (get_run nr_cf) (\<lambda>cf.
        if IsMaxParallelismAchieved xc n cf then
          run_bind (ignoring_error (on_lookup (GetParentNodeMaxEndTime dag nl (en_ID n)))) (\<lambda>_. run_ok NodeStatusRunning)
        else handle_current E hs xc dag nl n))"

definition bad_specification :: "node_config \<Rightarrow> string \<Rightarrow> ExecStatus" where
  "bad_specification cfg msg = NodeStatusFailed (Some (new_error (cfg_alloc cfg) Kind_SYSTEM BadSpecificationError msg))"

fun downstream_loop ::
    "node_config \<Rightarrow> (NodeSpec \<Rightarrow> (ExecStatus, ('s, 'w) nrun) grun) \<Rightarrow> ExecContext \<Rightarrow> 's NodeLookup \<Rightarrow> string \<Rightarrow> string list \<Rightarrow>
     bool \<Rightarrow> bool \<Rightarrow> ExecStatus \<Rightarrow> (ExecStatus, ('s, 'w) nrun) grun" where
  "downstream_loop cfg visit xc nl i [] allCompleted partialNodeCompletion stateOnComplete =
     run_ok (if allCompleted then stateOnComplete else if partialNodeCompletion then NodeStatusSuccess else NodeStatusPending)"
| "downstream_loop cfg visit xc nl i (d # ds) allCompleted partialNodeCompletion stateOnComplete =
     (case nl_GetNode nl d of
        None \<Rightarrow> run_ok (bad_specification cfg (''failed to retrieve downstream node ['' @ d @ ''] for ['' @ i @ '']''))
      | Some m \<Rightarrow>
          run_bind (visit m) (\<lambda>state.
            if HasFailed state \<or> HasTimedOut state then
              if xc_OnFailurePolicy xc = FAIL_AFTER_EXECUTABLE_NODES_COMPLETE then
                downstream_loop cfg visit xc nl i ds allCompleted (partialNodeCompletion \<or> PartiallyComplete state) state
              else run_ok state
            else
              downstream_loop cfg visit xc nl i ds (allCompleted \<and> IsComplete state)
                (partialNodeCompletion \<or> PartiallyComplete state) stateOnComplete))"

definition handleDownstream ::
    "node_config \<Rightarrow> (NodeSpec \<Rightarrow> (ExecStatus, ('s, 'w) nrun) grun) \<Rightarrow> ExecContext \<Rightarrow> DAGStructure \<Rightarrow> 's NodeLookup \<Rightarrow> NodeSpec \<Rightarrow>
     (ExecStatus, ('s, 'w) nrun) grun" where
  "handleDownstream cfg visit xc dag nl n =
     (case dag_FromNode dag (en_ID n) of
        Go_Panic \<Rightarrow> run_panic
      | Go_Err e \<Rightarrow> run_ok (bad_specification cfg (''failed to retrieve downstream nodes for ['' @ en_ID n @ '']''))
      | Go_Ok downstreamNodes \<Rightarrow>
          if downstreamNodes = [] then run_ok NodeStatusComplete
          else downstream_loop cfg visit xc nl (en_ID n) downstreamNodes True False NodeStatusComplete)"

definition RecursiveNodeHandler ::
    "'w node_env \<Rightarrow> ('s, 'w) handlers \<Rightarrow> ('s, 'w) NodeExecutor \<Rightarrow> ExecContext \<Rightarrow> DAGStructure \<Rightarrow> 's NodeLookup \<Rightarrow> NodeSpec \<Rightarrow>
     (ExecStatus, ('s, 'w) nrun) grun" where
  "RecursiveNodeHandler E hs c xc dag nl n =
     run_bind (find_status nl (en_ID n)) (\<lambda>st.
       let p = ns_Phase (ns st);
           downstream = handleDownstream (ne_cfg E) (nx_RecursiveNodeHandler c xc dag nl) xc dag nl n
       in run_bind (count_execution n p) (\<lambda>_.
            if canHandleNode p then visit_node E hs xc dag nl n st
            else if p = NodePhaseSucceeded \<or> p = NodePhaseSkipped \<or> p = NodePhaseRecovered then downstream
            else if p = NodePhaseFailed then
              run_bind downstream (\<lambda>_. run_bind (read_status nl (en_ID n)) (\<lambda>st'. run_ok (NodeStatusFailed (ns_Error (ns st')))))
            else if p = NodePhaseTimedOut then run_bind downstream (\<lambda>_. run_ok NodeStatusTimedOut)
            else run_err (node_Errorf IllegalStateError (en_ID n)
                   (''Should never reach here. Current Phase: '' @ NodePhase_String p))))"

subsection \<open>Finalizing and aborting\<close>

fun each_downstream ::
    "(NodeSpec \<Rightarrow> (unit, ('s, 'w) nrun) grun) \<Rightarrow> 's NodeLookup \<Rightarrow> string \<Rightarrow> string list \<Rightarrow> go_error list \<Rightarrow>
     (unit, ('s, 'w) nrun) grun" where
  "each_downstream act nl i [] errs = (if errs = [] then run_ok () else run_err (ErrorCollection errs))"
| "each_downstream act nl i (d # ds) errs =
     (case nl_GetNode nl d of
        None \<Rightarrow> run_err (node_Errorf BadSpecificationError i (''Unable to find Downstream Node ['' @ d @ '']''))
      | Some m \<Rightarrow> (\<lambda>r. case act m r of
            (Go_Panic, r') \<Rightarrow> (Go_Panic, r')
          | (Go_Err e, r') \<Rightarrow> each_downstream act nl i ds (errs @ [e]) r'
          | (Go_Ok _, r') \<Rightarrow> each_downstream act nl i ds errs r'))"

definition on_downstream ::
    "(NodeSpec \<Rightarrow> (unit, ('s, 'w) nrun) grun) \<Rightarrow> DAGStructure \<Rightarrow> 's NodeLookup \<Rightarrow> NodeSpec \<Rightarrow> (unit, ('s, 'w) nrun) grun" where
  "on_downstream act dag nl n =
     (case dag_FromNode dag (en_ID n) of
        Go_Panic \<Rightarrow> run_panic | Go_Err e \<Rightarrow> run_ok () | Go_Ok ds \<Rightarrow> each_downstream act nl (en_ID n) ds [])"

definition in_context ::
    "'w node_env \<Rightarrow> ('s, 'w) handlers \<Rightarrow> ExecContext \<Rightarrow> 's NodeLookup \<Rightarrow> NodeSpec \<Rightarrow>
     (('s, 'w) NodeHandler \<Rightarrow> 's NodeExecContext \<Rightarrow> (unit, ('s, 'w) nrun) grun) \<Rightarrow> (unit, ('s, 'w) nrun) grun" where
  "in_context E hs xc nl n act =
     run_bind (GetHandler hs (en_Kind n)) (\<lambda>h.
       own_manager (run_bind (BuildNodeExecutionContext (ne_cfg E) xc nl (en_ID n)) (\<lambda>nCtx. act h nCtx)))"

definition FinalizeHandler ::
    "'w node_env \<Rightarrow> ('s, 'w) handlers \<Rightarrow> ('s, 'w) NodeExecutor \<Rightarrow> ExecContext \<Rightarrow> DAGStructure \<Rightarrow> 's NodeLookup \<Rightarrow> NodeSpec \<Rightarrow>
     (unit, ('s, 'w) nrun) grun" where
  "FinalizeHandler E hs c xc dag nl n =
     run_bind (find_status nl (en_ID n)) (\<lambda>st.
       if ns_Phase (ns st) = NodePhaseNotYetStarted then run_ok ()
       else if canHandleNode (ns_Phase (ns st)) then in_context E hs xc nl n (\<lambda>h nCtx. Finalize_node h nCtx)
       else on_downstream (nx_FinalizeHandler c xc dag nl) dag nl n)"

definition AbortHandler ::
    "'w node_env \<Rightarrow> ('s, 'w) handlers \<Rightarrow> ('s, 'w) NodeExecutor \<Rightarrow> ExecContext \<Rightarrow> DAGStructure \<Rightarrow> 's NodeLookup \<Rightarrow> NodeSpec \<Rightarrow> string \<Rightarrow>
     (unit, ('s, 'w) nrun) grun" where
  "AbortHandler E hs c xc dag nl n reason =
     run_bind (find_status nl (en_ID n)) (\<lambda>st.
       let p = ns_Phase (ns st)
       in if p = NodePhaseNotYetStarted then run_ok ()
          else if canHandleNode p then in_context E hs xc nl n (\<lambda>h nCtx. Abort_node E h nCtx reason True)
          else if p = NodePhaseSucceeded \<or> p = NodePhaseSkipped \<or> p = NodePhaseRecovered then
            on_downstream (\<lambda>m. nx_AbortHandler c xc dag nl m reason) dag nl n
          else run_ok ())"

subsection \<open>Closing the recursion\<close>

fun executor ::
    "'w node_env \<Rightarrow> (('s, 'w) NodeExecutor \<Rightarrow> ('s, 'w) handlers) \<Rightarrow> ('s, 'w) NodeExecutor \<Rightarrow> nat \<Rightarrow> ('s, 'w) NodeExecutor" where
  "executor E F c 0 = c"
| "executor E F c (Suc k) =
     (let x = executor E F c k; hs = F x
      in \<lparr>nx_RecursiveNodeHandler = RecursiveNodeHandler E hs x, nx_FinalizeHandler = FinalizeHandler E hs x,
          nx_AbortHandler = AbortHandler E hs x\<rparr>)"

text \<open>Go ends a recursion that is too deep with a fatal error.\<close>

definition stack_overflow :: "('s, 'w) NodeExecutor" where
  "stack_overflow = \<lparr>nx_RecursiveNodeHandler = (\<lambda>xc dag nl n. run_panic), nx_FinalizeHandler = (\<lambda>xc dag nl n. run_panic),
     nx_AbortHandler = (\<lambda>xc dag nl n reason. run_panic)\<rparr>"

subsection \<open>Relations that a walk keeps\<close>

definition context_in :: "'s NodeLookup \<Rightarrow> 's NodeExecContext \<Rightarrow> bool" where
  "context_in nl nCtx \<longleftrightarrow> nc_nl nCtx = nl \<and> nl_GetNode nl (nc_id nCtx) = Some (nc_node nCtx)"

definition walks_keep :: "(('s, 'w) nrun \<Rightarrow> ('s, 'w) nrun \<Rightarrow> bool) \<Rightarrow> 's NodeLookup \<Rightarrow> ('s, 'w) NodeExecutor \<Rightarrow> bool" where
  "walks_keep R nl c \<longleftrightarrow> (\<forall>xc dag n reason.
     keeps R (nx_RecursiveNodeHandler c xc dag nl n) UNIV \<and> keeps R (nx_FinalizeHandler c xc dag nl n) UNIV \<and>
     keeps R (nx_AbortHandler c xc dag nl n reason) UNIV)"

lemma built_context:
  "BuildNodeExecutionContext cfg xc nl i r = (Go_Ok nCtx, r') \<Longrightarrow>
     context_in nl nCtx \<and> nc_id nCtx = i \<and> (\<exists>st s. nl_status nl i (nr_s r) = (Some st, s) \<and> r' = r\<lparr>nr_s := s, nr_nsm := newNodeStateManager st\<rparr>)"
  by (auto simp: BuildNodeExecutionContext_def context_in_def newNodeExecContext_def run_err_def Let_def
      split: option.splits sum.splits prod.splits)

lemma build_fails:
  "BuildNodeExecutionContext cfg xc nl i r = (x, r') \<Longrightarrow> (\<And>nCtx. x \<noteq> Go_Ok nCtx) \<Longrightarrow> r' = r \<or> r' = r\<lparr>nr_s := snd (nl_status nl i (nr_s r))\<rparr>"
  by (auto simp: BuildNodeExecutionContext_def run_err_def Let_def split: option.splits sum.splits prod.splits)

definition keeps_fresh :: "(('s, 'w) nrun \<Rightarrow> ('s, 'w) nrun \<Rightarrow> bool) \<Rightarrow> ('a, ('s, 'w) nrun) grun \<Rightarrow> 'a set \<Rightarrow> bool" where
  "keeps_fresh R m S \<longleftrightarrow> (\<forall>r st x r'. nr_nsm r = newNodeStateManager st \<longrightarrow> m r = (x, r') \<longrightarrow> R r r' \<and> (\<forall>y. x = Go_Ok y \<longrightarrow> y \<in> S))"

lemma run_bind_catch:
  "run_bind m f = (\<lambda>r. case m r of (Go_Panic, r1) \<Rightarrow> (Go_Panic, r1) | (Go_Err e, r1) \<Rightarrow> run_err e r1 | (Go_Ok y, r1) \<Rightarrow> f y r1)"
  by (auto simp: run_bind_def run_err_def intro!: ext split: prod.split go.split)

lemma keeps_fresh_keeps: "keeps R m S \<Longrightarrow> keeps_fresh R m S"
  by (auto simp: keeps_fresh_def dest: keeps_result)

text \<open>
  \<open>visited\<close> is what has to be shown of the handlers: that in the context of a node, with its state manager fresh, the relation is kept, if the
  executor that the handlers call keeps it.
\<close>

definition outer :: "(('s, 'w) nrun \<Rightarrow> ('s, 'w) nrun \<Rightarrow> bool) \<Rightarrow> ('s, 'w) nrun \<Rightarrow> ('s, 'w) nrun \<Rightarrow> bool" where
  "outer R r r' \<longleftrightarrow> R r r' \<and> nr_nsm r' = nr_nsm r"

locale walk_steps = reading_steps R nl
  for R :: "('s, 'w) nrun \<Rightarrow> ('s, 'w) nrun \<Rightarrow> bool" and nl :: "'s NodeLookup" +
  fixes E :: "'w node_env" and F :: "('s, 'w) NodeExecutor \<Rightarrow> ('s, 'w) handlers"
  assumes any_manager: "R r r' \<Longrightarrow> R (r\<lparr>nr_nsm := a\<rparr>) (r'\<lparr>nr_nsm := b\<rparr>)"
    and visited: "walks_keep (outer R) nl c \<Longrightarrow> context_in nl nCtx \<Longrightarrow> F c kind = Some h \<Longrightarrow>
      keeps_fresh R (HandleNode E dag nCtx h) {x. \<not> IsComplete x} \<and> keeps_fresh R (Finalize_node h nCtx) UNIV \<and>
      keeps_fresh R (Abort_node E h nCtx reason True) UNIV"
begin

sublocale out: reading_steps "outer R" nl
  by unfold_locales (auto simp: outer_def world event flowed intro: steady_trans looked_up)

lemma keeps_find_status [keeps_intros]: "keeps (outer R) (find_status nl i) UNIV"
  by (auto simp: find_status_def intro!: out.looked_up split: prod.splits option.splits)

lemma keeps_GetHandler [keeps_intros]: "keeps (outer R) (GetHandler hs kind) {h. hs kind = Some h}"
  by (simp add: GetHandler_def out.keeps_pure split: option.split)

lemma manager_restored: "R r r' \<Longrightarrow> outer R r (r'\<lparr>nr_nsm := nr_nsm r\<rparr>)"
  using any_manager [of r r' "nr_nsm r" "nr_nsm r"] by (simp add: outer_def)

lemma built_state: "nl_status nl i (nr_s r) = (x, s) \<Longrightarrow> R r (r\<lparr>nr_s := s, nr_nsm := m\<rparr>)"
  using any_manager [OF looked_up, of i r x s "nr_nsm r" m] by simp

lemma build_fails_kept:
  "BuildNodeExecutionContext cfg xc nl i r = (x, r') \<Longrightarrow> (\<And>nCtx. x \<noteq> Go_Ok nCtx) \<Longrightarrow> R r r'"
  using build_fails [of cfg xc nl i r x r'] looked_up [of i r] by (metis prod.collapse steady_refl)

lemma keeps_built:
  assumes "\<And>nCtx. context_in nl nCtx \<Longrightarrow> keeps_fresh R (m nCtx) S" "\<And>e. keeps R (g e) S"
  shows "keeps (outer R) (own_manager (\<lambda>r. case BuildNodeExecutionContext cfg xc nl i r of
      (Go_Panic, r1) \<Rightarrow> (Go_Panic, r1) | (Go_Err e, r1) \<Rightarrow> g e r1 | (Go_Ok nCtx, r1) \<Rightarrow> m nCtx r1)) S" (is "keeps _ ?m S")
  unfolding keeps_def
proof
  fix r :: "('s, 'w) nrun"
  obtain x r1 where b: "BuildNodeExecutionContext cfg xc nl i r = (x, r1)" by force
  show "outer R r (snd (?m r)) \<and> (\<forall>x. fst (?m r) = Go_Ok x \<longrightarrow> x \<in> S)"
  proof (cases x)
    case (Go_Ok nCtx)
    with built_context b obtain st s where ctx: "context_in nl nCtx" and r1: "r1 = r\<lparr>nr_s := s, nr_nsm := newNodeStateManager st\<rparr>"
      and "nl_status nl i (nr_s r) = (Some st, s)" by metis
    then have "R r r1" by (simp add: built_state)
    moreover obtain y r2 where y: "m nCtx r1 = (y, r2)" by force
    moreover have "R r1 r2 \<and> (\<forall>x. y = Go_Ok x \<longrightarrow> x \<in> S)"
      using assms(1) [OF ctx, unfolded keeps_fresh_def, rule_format, OF _ y] r1 by simp
    ultimately show ?thesis using b Go_Ok by (auto simp: own_manager_def intro: manager_restored steady_trans)
  next
    case (Go_Err e)
    moreover obtain y r2 where y: "g e r1 = (y, r2)" by force
    ultimately show ?thesis using build_fails_kept [OF b] b keeps_result [OF assms(2) y]
      by (auto simp: own_manager_def intro: manager_restored steady_trans)
  next
    case Go_Panic
    then show ?thesis using build_fails_kept [OF b] b by (auto simp: own_manager_def intro: manager_restored)
  qed
qed

lemma fresh_handler:
  assumes "\<And>h. hs kind = Some h \<Longrightarrow> keeps_fresh R (m h) S"
  shows "keeps_fresh R (run_bind (GetHandler hs kind) m) S"
  using assms by (cases "hs kind") (auto simp: GetHandler_def keeps_fresh_def run_bind_def run_ok_def run_err_def)

lemma keeps_handle_current:
  assumes "walks_keep (outer R) nl c"
  shows "keeps (outer R) (handle_current E (F c) xc dag nl n) {x. \<not> IsComplete x}"
  unfolding handle_current_def
  by (intro keeps_built fresh_handler visited [THEN conjunct1, OF assms])
    (auto simp: exec_statuses IsComplete_def intro!: keeps_raw)

lemma keeps_in_context:
  assumes "\<And>h nCtx. F c (en_Kind n) = Some h \<Longrightarrow> context_in nl nCtx \<Longrightarrow> keeps_fresh R (act h nCtx) UNIV"
  shows "keeps (outer R) (in_context E (F c) xc nl n act) UNIV"
  unfolding in_context_def run_bind_catch [of "BuildNodeExecutionContext (ne_cfg E) xc nl (en_ID n)"]
  by (auto intro!: out.keeps_bind [OF keeps_GetHandler] keeps_built keeps_pure assms)

lemma keeps_downstream_loop:
  "(\<And>m. keeps (outer R) (visit m) UNIV) \<Longrightarrow> keeps (outer R) (downstream_loop cfg visit xc nl i ds a p st) UNIV"
  by (induction ds arbitrary: a p st) (auto intro!: keeps_intros split: option.split)

lemma keeps_each_downstream: "(\<And>m. keeps (outer R) (act m) UNIV) \<Longrightarrow> keeps (outer R) (each_downstream act nl i ds errs) UNIV"
  by (induction ds arbitrary: errs) (auto intro!: keeps_intros out.keeps_catch split: option.split)

lemma keeps_on_downstream: "(\<And>m. keeps (outer R) (act m) UNIV) \<Longrightarrow> keeps (outer R) (on_downstream act dag nl n) UNIV"
  by (auto simp: on_downstream_def intro!: keeps_intros keeps_each_downstream split: go.split)

lemma walk_kept:
  assumes "walks_keep (outer R) nl c"
  shows "keeps (outer R) (RecursiveNodeHandler E (F c) c xc dag nl n) UNIV" "keeps (outer R) (FinalizeHandler E (F c) c xc dag nl n) UNIV"
    "keeps (outer R) (AbortHandler E (F c) c xc dag nl n reason) UNIV"
proof -
  note below = assms [unfolded walks_keep_def, rule_format]
  have time: "keeps (outer R) (on_lookup (GetParentNodeMaxEndTime dag nl i)) UNIV" for i
    by (rule out.keeps_lookups)
  have "keeps (outer R) (visit_node E (F c) xc dag nl n st) UNIV" for st
    unfolding visit_node_def
    by (auto intro!: keeps_intros time keeps_mono [OF keeps_handle_current [OF assms]])
  moreover have "keeps (outer R) (handleDownstream cfg (nx_RecursiveNodeHandler c xc dag nl) xc dag nl n) UNIV" for cfg
    unfolding handleDownstream_def using below by (auto intro!: keeps_intros keeps_downstream_loop split: go.split)
  ultimately show "keeps (outer R) (RecursiveNodeHandler E (F c) c xc dag nl n) UNIV"
    unfolding RecursiveNodeHandler_def count_execution_def Let_def by (auto intro!: keeps_intros)
  show "keeps (outer R) (FinalizeHandler E (F c) c xc dag nl n) UNIV"
    unfolding FinalizeHandler_def using below visited [OF assms] by (auto intro!: keeps_intros keeps_in_context keeps_on_downstream)
  show "keeps (outer R) (AbortHandler E (F c) c xc dag nl n reason) UNIV"
    unfolding AbortHandler_def Let_def using below visited [OF assms] by (auto intro!: keeps_intros keeps_in_context keeps_on_downstream)
qed

lemma executor_keeps: "walks_keep (outer R) nl c \<Longrightarrow> walks_keep (outer R) nl (executor E F c k)"
proof (induction k)
  case (Suc k)
  then show ?case using walk_kept [OF Suc.IH [OF Suc.prems]] by (simp add: walks_keep_def Let_def)
qed simp

lemma overflow_keeps: "walks_keep (outer R) nl stack_overflow"
  by (simp add: walks_keep_def stack_overflow_def out.keeps_pure)

end

subsection \<open>Enough fuel\<close>

text \<open>
  A rank of the nodes that falls along the edges of a graph bounds the depth of a walk. Whether a handler walks below its own node may depend
  on the statuses, so that executors agree only on states with a property \<open>Q\<close>.
\<close>

definition ranked :: "DAGStructure \<Rightarrow> 's NodeLookup \<Rightarrow> (string \<Rightarrow> nat) \<Rightarrow> bool" where
  "ranked dag nl rank \<longleftrightarrow> (\<forall>i ds d m. dag_FromNode dag i = Go_Ok ds \<longrightarrow> d \<in> set ds \<longrightarrow> nl_GetNode nl d = Some m \<longrightarrow>
     rank (en_ID m) < rank i)"

definition agree ::
    "('s \<Rightarrow> bool) \<Rightarrow> 's NodeLookup \<Rightarrow> (string \<Rightarrow> nat) \<Rightarrow> nat \<Rightarrow> ('s, 'w) NodeExecutor \<Rightarrow> ('s, 'w) NodeExecutor \<Rightarrow> bool" where
  "agree Q nl rank k x y \<longleftrightarrow> (\<forall>xc dag n r reason. ranked dag nl rank \<longrightarrow> rank (en_ID n) < k \<longrightarrow> Q (nr_s r) \<longrightarrow>
     nx_RecursiveNodeHandler x xc dag nl n r = nx_RecursiveNodeHandler y xc dag nl n r \<and>
     nx_FinalizeHandler x xc dag nl n r = nx_FinalizeHandler y xc dag nl n r \<and>
     nx_AbortHandler x xc dag nl n reason r = nx_AbortHandler y xc dag nl n reason r)"

definition holds :: "('s \<Rightarrow> bool) \<Rightarrow> ('s NodeExecContext \<Rightarrow> nodeStateManager \<Rightarrow> bool) \<Rightarrow> 's NodeExecContext \<Rightarrow> ('s, 'w) nrun \<Rightarrow> bool" where
  "holds Q M nCtx r \<longleftrightarrow> Q (nr_s r) \<and> M nCtx (nr_nsm r)"

definition same_handler ::
    "(('s, 'w) nrun \<Rightarrow> bool) \<Rightarrow> 's NodeExecContext \<Rightarrow> ('s, 'w) NodeHandler \<Rightarrow> ('s, 'w) NodeHandler \<Rightarrow> bool" where
  "same_handler P nCtx h h' \<longleftrightarrow> h_FinalizeRequired h = h_FinalizeRequired h' \<and> h_Cacheable h = h_Cacheable h' \<and>
     (\<forall>r reason. P r \<longrightarrow> h_Handle h nCtx r = h_Handle h' nCtx r \<and> h_Abort h nCtx reason r = h_Abort h' nCtx reason r \<and>
        h_Finalize h nCtx r = h_Finalize h' nCtx r)"

lemma agree_mono: "agree Q nl rank k x y \<Longrightarrow> j \<le> k \<Longrightarrow> agree Q nl rank j x y"
  unfolding agree_def by (meson less_le_trans)

lemma same_handler_refl [simp]: "same_handler P nCtx h h"
  by (simp add: same_handler_def)

lemma run_bind_cong: "(\<And>x r'. m r = (Go_Ok x, r') \<Longrightarrow> f x r' = g x r') \<Longrightarrow> run_bind m f r = run_bind m g r"
  by (auto simp: run_bind_def split: prod.split go.split)

text \<open>A handler is called at few places of a round.\<close>

locale same_handlers = changing_steps "\<lambda>r r'. P r \<longrightarrow> P r'" nCtx h'
  for P :: "('s, 'w) nrun \<Rightarrow> bool" and nCtx :: "'s NodeExecContext" and h' :: "('s, 'w) NodeHandler" +
  fixes h :: "('s, 'w) NodeHandler"
  assumes same: "same_handler P nCtx h h'"
begin

lemma same_parts:
  "h_FinalizeRequired h = h_FinalizeRequired h'" "h_Cacheable h = h_Cacheable h'"
  "P r \<Longrightarrow> h_Handle h nCtx r = h_Handle h' nCtx r" "P r \<Longrightarrow> h_Abort h nCtx reason r = h_Abort h' nCtx reason r"
  "P r \<Longrightarrow> h_Finalize h nCtx r = h_Finalize h' nCtx r"
  using same by (simp_all add: same_handler_def)

lemma same_Finalize: "P r \<Longrightarrow> Finalize_node h nCtx r = Finalize_node h' nCtx r"
  by (simp add: Finalize_node_def same_parts)

lemma same_Abort:
  assumes "P r"
  shows "Abort_node E h nCtx reason b r = Abort_node E h' nCtx reason b r"
proof -
  obtain x r1 where a: "h_Abort h' nCtx reason r = (x, r1)" by force
  with keeps_result [OF abort_kept a] assms have "P r1" by blast
  with a assms show ?thesis by (simp add: Abort_node_def same_parts run_bind_def split: go.split)
qed

lemma same_execute: "P r \<Longrightarrow> execute E h nCtx r = execute E h' nCtx r"
  unfolding execute_def by (simp add: run_bind_def same_parts)

lemma same_first_round: "handleNotYetStartedNode E dag nCtx h = handleNotYetStartedNode E dag nCtx h'"
  unfolding handleNotYetStartedNode_def cache_before_queue_def announce_start_def start_node_phase_def same_parts(1,2) ..

lemma same_busy_round:
  assumes "P r"
  shows "handleQueuedOrRunningNode E nCtx h r = handleQueuedOrRunningNode E nCtx h' r"
proof -
  have parts: "cache_stage E h nCtx = cache_stage E h' nCtx" "cache_success E h nCtx = cache_success E h' nCtx"
    "finish_round E h nCtx = finish_round E h' nCtx"
    unfolding cache_stage_def cache_success_def finish_round_def settle_def fun_eq_iff same_parts(1,2) by simp_all
  have exec: "run_bind (if b then execute E h nCtx else run_ok q) k r2 = run_bind (if b then execute E h' nCtx else run_ok q) k r2"
    if "P r2" for b q k r2
    using same_execute [OF that] by (simp add: run_bind_def)
  show ?thesis
    unfolding handleQueuedOrRunningNode_def parts
  proof (intro run_bind_cong, goal_cases)
    case (1 st r1 y r2)
    then have "P r2"
      using keeps_result [OF keeps_steps(1) 1(1)] keeps_result [OF keeps_cache_stage 1(2)] assms by blast
    then show ?case by (simp add: exec split: prod.split)
  qed
qed

lemma same_HandleNode:
  assumes "P r"
  shows "HandleNode E dag nCtx h r = HandleNode E dag nCtx h' r"
proof -
  have ends: "run_bind (Abort_node E h nCtx reason b) k r1 = run_bind (Abort_node E h' nCtx reason b) k r1"
    "run_bind (Finalize_node h nCtx) k r1 = run_bind (Finalize_node h' nCtx) k r1" if "P r1" for reason b k r1
    using same_Abort [OF that] same_Finalize [OF that] by (simp_all add: run_bind_def)
  have read: "P r1" if "own_status nCtx r0 = (Go_Ok st, r1)" "P r0" for st r0 r1
    using keeps_result [OF keeps_steps(1) that(1)] that(2) by blast
  have retry: "handleRetryableFailure E nCtx h r1 = handleRetryableFailure E nCtx h' r1" if "P r1" for r1
    unfolding handleRetryableFailure_def by (rule run_bind_cong) (auto intro!: ends read [OF _ that])
  show ?thesis
    unfolding HandleNode_def same_first_round
  proof (rule run_bind_cong, goal_cases)
    case (1 st r1)
    from read [OF 1 assms] show ?case by (simp add: ends retry same_busy_round)
  qed
qed

end

text \<open>
  The contract of the handlers for a walk: in the context of a node they keep \<open>Q\<close> and a property \<open>M\<close> of its state manager, and
  they call the executor only on nodes below their own.
\<close>

locale handler_family =
  fixes nl :: "'s NodeLookup" and E :: "'w node_env" and F :: "('s, 'w) NodeExecutor \<Rightarrow> ('s, 'w) handlers"
    and Q :: "'s \<Rightarrow> bool" and M :: "'s NodeExecContext \<Rightarrow> nodeStateManager \<Rightarrow> bool" and rank :: "string \<Rightarrow> nat"
  assumes looked: "Q s \<Longrightarrow> nl_status nl i s = (st', s') \<Longrightarrow> Q s'"
    and fresh: "M nCtx (newNodeStateManager st)"
    and inner: "walks_keep (outer (\<lambda>r r'. Q (nr_s r) \<longrightarrow> Q (nr_s r'))) nl c \<Longrightarrow> context_in nl nCtx \<Longrightarrow> F c kind = Some h \<Longrightarrow>
      changing_steps (\<lambda>r r'. holds Q M nCtx r \<longrightarrow> holds Q M nCtx r') nCtx h"
    and walks_below: "context_in nl nCtx \<Longrightarrow> agree Q nl rank (rank (nc_id nCtx)) x y \<Longrightarrow>
      walks_keep (outer (\<lambda>r r'. Q (nr_s r) \<longrightarrow> Q (nr_s r'))) nl y \<Longrightarrow> rel_option (same_handler (holds Q M nCtx) nCtx) (F x kind) (F y kind)"
    and registered: "F x kind = None \<longleftrightarrow> F y kind = None"
begin

abbreviation kept :: "('s, 'w) nrun \<Rightarrow> ('s, 'w) nrun \<Rightarrow> bool" where
  "kept r r' \<equiv> Q (nr_s r) \<longrightarrow> Q (nr_s r')"

lemma visit_kept:
  assumes "walks_keep (outer kept) nl c" "context_in nl nCtx" "F c kind = Some h"
  shows "keeps_fresh kept (HandleNode E dag nCtx h) {x. \<not> IsComplete x} \<and> keeps_fresh kept (Finalize_node h nCtx) UNIV \<and>
    keeps_fresh kept (Abort_node E h nCtx reason True) UNIV"
proof -
  note steps = inner [OF assms]
  have fresh_kept: "keeps_fresh kept m S" if "keeps (\<lambda>r r'. holds Q M nCtx r \<longrightarrow> holds Q M nCtx r') m S"
    for m :: "('a, ('s, 'w) nrun) grun" and S
    using keeps_result [OF that] fresh unfolding keeps_fresh_def holds_def by metis
  show ?thesis
    by (intro conjI fresh_kept changing_steps.keeps_HandleNode [OF steps] handler_steps.keeps_Abort [OF changing_steps.axioms(1) [OF steps]])
      (simp add: Finalize_node_def handler_steps.finalize_kept [OF changing_steps.axioms(1) [OF steps]])
qed

sublocale walk_steps kept nl E F
  by unfold_locales (auto intro: looked visit_kept [THEN conjunct1] visit_kept [THEN conjunct2, THEN conjunct1] visit_kept [THEN conjunct2, THEN conjunct2])

lemma walk_keeps: "walks_keep (outer kept) nl (executor E F stack_overflow k)"
  by (rule executor_keeps [OF overflow_keeps])

lemma built_holds:
  "BuildNodeExecutionContext cfg xc nl i r = (Go_Ok nCtx, r') \<Longrightarrow> Q (nr_s r) \<Longrightarrow> context_in nl nCtx \<and> nc_id nCtx = i \<and> holds Q M nCtx r'"
  using built_context [of cfg xc nl i r nCtx r'] by (auto simp: holds_def fresh intro: looked)

lemma same_in_nCtx:
  assumes "context_in nl nCtx" "agree Q nl rank (rank (nc_id nCtx)) x y" "walks_keep (outer kept) nl y"
    "F x kind = Some h" "F y kind = Some h'"
  shows "same_handlers (holds Q M nCtx) nCtx h' h"
  using walks_below [OF assms(1-3), of kind] assms(4,5) inner [OF assms(3,1,5)]
  by (simp add: same_handlers_def same_handlers_axioms_def)

lemma same_called:
  assumes "BuildNodeExecutionContext cfg xc nl i r = (Go_Ok nCtx, r1)" "Q (nr_s r)"
    "agree Q nl rank (rank i) x y" "walks_keep (outer kept) nl y"
    "\<And>h h'. F x kind = Some h \<Longrightarrow> F y kind = Some h' \<Longrightarrow> same_handlers (holds Q M nCtx) nCtx h' h \<Longrightarrow> holds Q M nCtx r1 \<Longrightarrow> m h r1 = m h' r1"
  shows "run_bind (GetHandler (F x) kind) m r1 = run_bind (GetHandler (F y) kind) m r1"
proof -
  from built_holds [OF assms(1,2)] have ctx: "context_in nl nCtx" "nc_id nCtx = i" "holds Q M nCtx r1" by auto
  show ?thesis
  proof (cases "F x kind")
    case None
    with registered [of x kind y] show ?thesis by (simp add: GetHandler_def run_bind_def run_err_def)
  next
    case (Some h)
    then obtain h' where h': "F y kind = Some h'" using registered by (metis not_Some_eq)
    have "m h r1 = m h' r1"
      using same_in_nCtx [OF ctx(1) _ assms(4) Some h'] assms(3) ctx by (intro assms(5) [OF Some h']) auto
    with Some h' show ?thesis by (simp add: GetHandler_def run_bind_def run_ok_def)
  qed
qed

lemma same_handle_current:
  assumes "agree Q nl rank (rank (en_ID n)) x y" "walks_keep (outer kept) nl y" "Q (nr_s r)"
  shows "handle_current E (F x) xc dag nl n r = handle_current E (F y) xc dag nl n r"
proof -
  have "run_bind (GetHandler (F x) kind) (HandleNode E dag nCtx) r1 = run_bind (GetHandler (F y) kind) (HandleNode E dag nCtx) r1"
    if "BuildNodeExecutionContext (ne_cfg E) xc nl (en_ID n) r = (Go_Ok nCtx, r1)" for nCtx r1 kind
    using assms by (intro same_called [OF that]) (auto intro: same_handlers.same_HandleNode)
  then show ?thesis
    by (cases "BuildNodeExecutionContext (ne_cfg E) xc nl (en_ID n) r"; cases "fst (BuildNodeExecutionContext (ne_cfg E) xc nl (en_ID n) r)")
      (auto simp: handle_current_def own_manager_def)
qed

lemma in_context_built_first:
  "F x (en_Kind n) = Some h \<Longrightarrow> in_context E (F x) xc nl n act r =
     own_manager (run_bind (BuildNodeExecutionContext (ne_cfg E) xc nl (en_ID n)) (\<lambda>nCtx. run_bind (GetHandler (F x) (en_Kind n)) (\<lambda>h. act h nCtx))) r"
  by (simp add: in_context_def GetHandler_def run_bind_def run_ok_def)

lemma same_in_context:
  assumes "agree Q nl rank (rank (en_ID n)) x y" "walks_keep (outer kept) nl y" "Q (nr_s r)"
    "\<And>nCtx h h' r'. same_handlers (holds Q M nCtx) nCtx h' h \<Longrightarrow> holds Q M nCtx r' \<Longrightarrow> act h nCtx r' = act h' nCtx r'"
  shows "in_context E (F x) xc nl n act r = in_context E (F y) xc nl n act r"
proof (cases "F x (en_Kind n)")
  case None
  with registered [of x "en_Kind n" y] show ?thesis by (simp add: in_context_def GetHandler_def)
next
  case (Some h)
  then obtain h' where h': "F y (en_Kind n) = Some h'" using registered by (metis not_Some_eq)
  have "run_bind (BuildNodeExecutionContext (ne_cfg E) xc nl (en_ID n)) (\<lambda>nCtx. run_bind (GetHandler (F x) (en_Kind n)) (\<lambda>h. act h nCtx)) r =
    run_bind (BuildNodeExecutionContext (ne_cfg E) xc nl (en_ID n)) (\<lambda>nCtx. run_bind (GetHandler (F y) (en_Kind n)) (\<lambda>h. act h nCtx)) r"
    using assms by (intro run_bind_cong same_called) auto
  then show ?thesis by (simp add: in_context_built_first [OF Some] in_context_built_first [OF h'] own_manager_def)
qed

lemma same_downstream_loop:
  assumes "ranked dag nl rank" "dag_FromNode dag i = Go_Ok ds0" "set ds \<subseteq> set ds0" "Q (nr_s r)"
    "\<And>m r. rank (en_ID m) < rank i \<Longrightarrow> Q (nr_s r) \<Longrightarrow> f m r = g m r" "\<And>m. keeps (outer kept) (g m) UNIV"
  shows "downstream_loop cfg f xc nl j ds c p st r = downstream_loop cfg g xc nl j ds c p st r"
  using assms(3,4)
proof (induction ds arbitrary: c p st r)
  case (Cons d ds)
  have step: "run_bind (f m) k r = run_bind (g m) k' r"
    if m: "nl_GetNode nl d = Some m" and k: "\<And>x r'. Q (nr_s r') \<Longrightarrow> k x r' = k' x r'"
    for m and k k' :: "ExecStatus \<Rightarrow> (ExecStatus, ('s, 'w) nrun) grun"
  proof -
    obtain x r' where g: "g m r = (x, r')" by force
    have "rank (en_ID m) < rank i" using m Cons.prems(1) assms(1,2) by (auto simp: ranked_def)
    with g k keeps_result [OF assms(6) g] assms(5) Cons.prems(2) show ?thesis by (simp add: outer_def run_bind_def split: go.split)
  qed
  show ?case using Cons.IH Cons.prems(1) by (auto intro!: step split: option.split)
qed simp

lemma same_each_downstream:
  assumes "ranked dag nl rank" "dag_FromNode dag i = Go_Ok ds0" "set ds \<subseteq> set ds0" "Q (nr_s r)"
    "\<And>m r. rank (en_ID m) < rank i \<Longrightarrow> Q (nr_s r) \<Longrightarrow> a m r = b m r" "\<And>m. keeps (outer kept) (b m) UNIV"
  shows "each_downstream a nl j ds errs r = each_downstream b nl j ds errs r"
  using assms(3,4)
proof (induction ds arbitrary: errs r)
  case (Cons d ds)
  have "each_downstream a nl j (d # ds) errs r = each_downstream b nl j (d # ds) errs r" if m: "nl_GetNode nl d = Some m" for m
  proof -
    obtain x r' where g: "b m r = (x, r')" by force
    have "rank (en_ID m) < rank i" using m Cons.prems(1) assms(1,2) by (auto simp: ranked_def)
    with g m keeps_result [OF assms(6) g] assms(5) Cons show ?thesis by (simp add: outer_def split: go.split)
  qed
  then show ?case by (cases "nl_GetNode nl d") auto
qed simp

lemma same_walk:
  assumes "agree Q nl rank k x y" "walks_keep (outer kept) nl y" "rank (en_ID n) \<le> k" "ranked dag nl rank" "Q (nr_s r)"
  shows "RecursiveNodeHandler E (F x) x xc dag nl n r = RecursiveNodeHandler E (F y) y xc dag nl n r"
    "FinalizeHandler E (F x) x xc dag nl n r = FinalizeHandler E (F y) y xc dag nl n r"
    "AbortHandler E (F x) x xc dag nl n reason r = AbortHandler E (F y) y xc dag nl n reason r"
proof -
  note own = agree_mono [OF assms(1,3)]
  note below = own [unfolded agree_def, rule_format, OF assms(4)] and keep = assms(2) [unfolded walks_keep_def, rule_format]
  have found: "Q (nr_s r1)" if "find_status nl i r = (Go_Ok st, r1)" for i st r1
    using keeps_result [OF keeps_find_status that] assms(5) by (simp add: outer_def)
  have visit: "visit_node E (F x) xc dag nl n st r1 = visit_node E (F y) xc dag nl n st r1" if "Q (nr_s r1)" for st r1
    using same_handle_current [OF own assms(2) that, of xc dag] by (simp add: visit_node_def run_bind_def get_run_def)
  have down: "handleDownstream cfg (nx_RecursiveNodeHandler x xc dag nl) xc dag nl n r1 =
      handleDownstream cfg (nx_RecursiveNodeHandler y xc dag nl) xc dag nl n r1" if "Q (nr_s r1)" for cfg r1
    unfolding handleDownstream_def using below keep that
    by (auto intro!: same_downstream_loop [OF assms(4) _ order_refl] split: go.split)
  have each: "on_downstream a dag nl n r1 = on_downstream b dag nl n r1"
    if "Q (nr_s r1)" "\<And>m r. rank (en_ID m) < rank (en_ID n) \<Longrightarrow> Q (nr_s r) \<Longrightarrow> a m r = b m r" "\<And>m. keeps (outer kept) (b m) UNIV" for a b r1
    unfolding on_downstream_def using that by (auto intro!: same_each_downstream [OF assms(4) _ order_refl] split: go.split)
  have counted: "Q (nr_s r2)" if "count_execution n p r1 = (Go_Ok u, r2)" "Q (nr_s r1)" for p u r1 r2
    using that by (auto simp: count_execution_def run_bind_Ok change_flow_def run_ok_def split: if_splits)
  have bind: "run_bind (handleDownstream cfg (nx_RecursiveNodeHandler x xc dag nl) xc dag nl n) f r1 =
      run_bind (handleDownstream cfg (nx_RecursiveNodeHandler y xc dag nl) xc dag nl n) f r1" if "Q (nr_s r1)"
    for cfg r1 and f :: "ExecStatus \<Rightarrow> (ExecStatus, ('s, 'w) nrun) grun"
    using down [OF that] by (simp add: run_bind_def)
  show "RecursiveNodeHandler E (F x) x xc dag nl n r = RecursiveNodeHandler E (F y) y xc dag nl n r"
    unfolding RecursiveNodeHandler_def Let_def
    by (intro run_bind_cong) (auto simp: visit down bind dest!: found counted)
  show "FinalizeHandler E (F x) x xc dag nl n r = FinalizeHandler E (F y) y xc dag nl n r"
    unfolding FinalizeHandler_def
    by (intro run_bind_cong) (auto intro!: same_in_context [OF own assms(2)] each simp: below keep same_handlers.same_Finalize dest!: found)
  show "AbortHandler E (F x) x xc dag nl n reason r = AbortHandler E (F y) y xc dag nl n reason r"
    unfolding AbortHandler_def Let_def
    by (intro run_bind_cong) (auto intro!: same_in_context [OF own assms(2)] each simp: below keep same_handlers.same_Abort dest!: found)
qed

lemma executor_agree: "j \<le> k \<Longrightarrow> j \<le> k' \<Longrightarrow> agree Q nl rank j (executor E F c k) (executor E F stack_overflow k')"
proof (induction j arbitrary: k k')
  case (Suc j)
  then obtain l l' where l: "k = Suc l" "k' = Suc l'" "j \<le> l" "j \<le> l'" by (metis Suc_le_D Suc_le_mono)
  note walk = same_walk [OF Suc.IH [OF l(3,4)] executor_keeps [OF overflow_keeps]]
  show ?case
    unfolding agree_def using walk by (auto simp: l(1,2) Let_def less_Suc_eq_le)
qed (simp add: agree_def)

lemma enough_fuel:
  assumes "ranked dag nl rank" "rank (en_ID n) < k" "rank (en_ID n) < k'" "Q (nr_s r)"
  shows "nx_RecursiveNodeHandler (executor E F c k) xc dag nl n r = nx_RecursiveNodeHandler (executor E F c' k') xc dag nl n r"
    "nx_FinalizeHandler (executor E F c k) xc dag nl n r = nx_FinalizeHandler (executor E F c' k') xc dag nl n r"
    "nx_AbortHandler (executor E F c k) xc dag nl n reason r = nx_AbortHandler (executor E F c' k') xc dag nl n reason r"
  using executor_agree [of "Suc (rank (en_ID n))" k k c] executor_agree [of "Suc (rank (en_ID n))" k' k c'] assms
  by (simp_all add: agree_def Suc_le_eq)

end

text \<open>A finite graph without cycles has such a rank: the number of nodes that can be reached.\<close>

definition reach_rank :: "(string \<times> string) set \<Rightarrow> string \<Rightarrow> nat" where
  "reach_rank r i = card (r\<^sup>+ `` {i})"

lemma reach_rank_less:
  assumes "finite r" "acyclic r" "(i, j) \<in> r"
  shows "reach_rank r j < reach_rank r i"
proof -
  have "r\<^sup>+ `` {j} \<subset> r\<^sup>+ `` {i}"
    using assms(2,3) by (auto simp: acyclic_def dest: trancl_into_trancl2)
  moreover have "finite (r\<^sup>+ `` {i})"
    using assms(1) by (metis finite_Image finite_trancl)
  ultimately show ?thesis unfolding reach_rank_def by (rule psubset_card_mono [rotated])
qed

lemma reach_rank_bound: "finite A \<Longrightarrow> r \<subseteq> A \<times> A \<Longrightarrow> reach_rank r i \<le> card A"
  unfolding reach_rank_def using trancl_subset_Sigma [of r A] by (intro card_mono) auto

end
