(* ===== verification/Branch_Handler.thy ===== *)
theory Branch_Handler
  imports Node_Traversal
begin

section \<open>The handler of branch nodes (nodes/branch/handler.go)\<close>

text \<open>
  A branch node evaluates its conditions once, stores which of its nodes was chosen, and from then on hands each round on to that node, as a
  graph of one node. It ends when that node does. The invariant is that a stored choice is one of the nodes of the branch; with it
  the handler only walks below its own node.
\<close>

subsection \<open>Operations\<close>

definition transition_failed :: "node_config \<Rightarrow> error_kind \<Rightarrow> string \<Rightarrow> string \<Rightarrow> Transition" where
  "transition_failed cfg kind code msg =
     DoTransition TransitionTypeEphemeral (PhaseInfoFailure (cfg_now cfg) (cfg_alloc cfg) kind code msg None)"

definition getExecutionContextForDownstream :: "'s NodeExecContext \<Rightarrow> (ExecContext, ('s, 'w) nrun) grun" where
  "getExecutionContextForDownstream nCtx =
     run_bind (own_status nCtx) (\<lambda>st.
       case CreateParentInfo (xc_ParentInfo (nc_ic nCtx)) (node_of nCtx) (ns_Attempts (ns st)) False of
         Inl e \<Rightarrow> run_err e
       | Inr p \<Rightarrow> run_ok (NewExecutionContextWithParentInfo (nc_ic nCtx) (Some p)))"

text \<open>The graph that has the chosen node alone, below its upstream nodes and the branch node.\<close>

definition leaf_of :: "'s NodeExecContext \<Rightarrow> NodeSpec \<Rightarrow> (DAGStructure, ('s, 'w) nrun) grun" where
  "leaf_of nCtx n =
     run_bind (of_go (nl_ToNode (nc_nl nCtx) (en_ID n))) (\<lambda>upstreamNodeIds.
       run_ok (NewLeafNodeDAGStructure (en_ID n) (upstreamNodeIds @ [node_of nCtx])))"

definition child_directories :: "'w node_env \<Rightarrow> 's NodeExecContext \<Rightarrow> NodeSpec \<Rightarrow> (string \<times> string, ('s, 'w) nrun) grun" where
  "child_directories E nCtx n =
     run_bind (find_status (nc_nl nCtx) (en_ID n)) (\<lambda>child.
     run_bind (own_status nCtx) (\<lambda>st.
       case cfg_refs (ne_cfg E) (ns_OutputDir (ns st)) [en_ID n] of
         None \<Rightarrow> run_err (cfg_ref_error (ne_cfg E))
       | Some childDataDir \<Rightarrow>
           (case cfg_refs (ne_cfg E) childDataDir [itoa (unat (ns_Attempts (ns child)))] of
              None \<Rightarrow> run_err (cfg_ref_error (ne_cfg E))
            | Some childOutputDir \<Rightarrow> run_ok (childDataDir, childOutputDir))))"

definition branch_outcome :: "'w node_env \<Rightarrow> 's NodeExecContext \<Rightarrow> string \<Rightarrow> ExecStatus \<Rightarrow> (Transition, ('s, 'w) nrun) grun" where
  "branch_outcome E nCtx childOutputDir downstreamStatus =
     (if IsComplete downstreamStatus then
        run_bind (own_status nCtx) (\<lambda>st.
          let childOutputsPath = GetOutputsFile childOutputDir; outputsPath = GetOutputsFile (ns_OutputDir (ns st))
          in run_bind (on_world (ne_CopyRaw E childOutputsPath outputsPath)) (\<lambda>err.
               run_ok (if \<exists>e \<in> set_option err. \<not> ne_IsNotFound E e then
                   transition_failed (ne_cfg E) Kind_SYSTEM ''OutputsNotFoundError''
                     (''Failed to copy child node outputs from ['' @ childOutputsPath @ ''] to ['' @ outputsPath @ '']'')
                 else DoTransition TransitionTypeEphemeral (PhaseInfoSuccess (cfg_now (ne_cfg E)) (Some (empty_info
                   \<lparr>ei_OutputInfo := Some \<lparr>OutputURI = outputsPath, DeckURI = None\<rparr>\<rparr>))))))
      else if HasFailed downstreamStatus \<or> HasTimedOut downstreamStatus then
        run_ok (DoTransition TransitionTypeEphemeral
          (PhaseInfoFailureErr (cfg_now (ne_cfg E)) (cfg_alloc (ne_cfg E)) (xs_Err downstreamStatus) None))
      else run_ok (DoTransition TransitionTypeEphemeral (PhaseInfoRunning (cfg_now (ne_cfg E)) None)))"

definition recurseDownstream ::
    "'w node_env \<Rightarrow> ('s, 'w) NodeExecutor \<Rightarrow> 's NodeExecContext \<Rightarrow> NodeSpec \<Rightarrow> (Transition, ('s, 'w) nrun) grun" where
  "recurseDownstream E c nCtx branchTakenNode =
     run_bind (child_directories E nCtx branchTakenNode) (\<lambda>(childDataDir, childOutputDir).
     run_bind (change_status (nc_nl nCtx) (en_ID branchTakenNode) (\<lambda>st. SetOutputDir childOutputDir (SetDataDir childDataDir st))) (\<lambda>_.
     run_bind (leaf_of nCtx branchTakenNode) (\<lambda>dag.
     run_bind (getExecutionContextForDownstream nCtx) (\<lambda>xc.
     run_bind (nx_RecursiveNodeHandler c xc dag (nc_nl nCtx) branchTakenNode) (\<lambda>downstreamStatus.
       branch_outcome E nCtx childOutputDir downstreamStatus)))))"

definition branch_error :: "node_config \<Rightarrow> go_error \<Rightarrow> Transition" where
  "branch_error cfg err =
     (case std_GetErrorCode (Some err) of
        Some ec \<Rightarrow>
          if ec = ErrorCodeMalformedBranch \<or> ec = ErrorCodeUserProvidedError then transition_failed cfg Kind_USER ec (Error err)
          else transition_failed cfg Kind_SYSTEM IllegalStateError (''Branch evaluation failed. Error ['' @ Error err @ '']'')
      | None \<Rightarrow> transition_failed cfg Kind_SYSTEM IllegalStateError (''Branch evaluation failed. Error ['' @ Error err @ '']''))"

definition take_branch ::
    "'w node_env \<Rightarrow> ('s, 'w) NodeExecutor \<Rightarrow> 's NodeExecContext \<Rightarrow> string \<Rightarrow> (Transition, ('s, 'w) nrun) grun" where
  "take_branch E c nCtx finalNodeID =
     run_bind (put_manager (PutBranchNode \<lparr>bst_FinalizedNodeID = Some finalNodeID, bst_Phase = BranchNodeSuccess\<rparr>)) (\<lambda>_.
       case nl_GetNode (nc_nl nCtx) finalNodeID of
         None \<Rightarrow> run_ok (transition_failed (ne_cfg E) Kind_SYSTEM ''DownstreamNodeNotFound''
             (''Branch downstream finalized node not found. FinalizedNode ['' @ finalNodeID @ '']''))
       | Some finalNode \<Rightarrow>
           run_bind (change_status (nc_nl nCtx) (en_ID finalNode) (SetParentNodeID (Some (cfg_alloc (ne_cfg E), node_of nCtx)))) (\<lambda>_.
             recurseDownstream E c nCtx finalNode))"

definition decide_branch ::
    "'w node_env \<Rightarrow> ('s, 'w) NodeExecutor \<Rightarrow> BranchNodeSpec \<Rightarrow> 's NodeExecContext \<Rightarrow> (Transition, ('s, 'w) nrun) grun" where
  "decide_branch E c branchNode nCtx = (\<lambda>r.
     case read_inputs E nCtx r of
       (Go_Panic, r1) \<Rightarrow> (Go_Panic, r1)
     | (Go_Err err, r1) \<Rightarrow>
         (Go_Ok (transition_failed (ne_cfg E) Kind_SYSTEM ''RuntimeExecutionError'' (''Failed to read input. Error ['' @ Error err @ '']'')), r1)
     | (Go_Ok nodeInputs, r1) \<Rightarrow>
         (case on_lookup (DecideBranch (cfg_now (ne_cfg E)) (nc_nl nCtx) branchNode nodeInputs) r1 of
            (Go_Panic, r2) \<Rightarrow> (Go_Panic, r2)
          | (Go_Err err, r2) \<Rightarrow> (Go_Ok (branch_error (ne_cfg E) err), r2)
          | (Go_Ok finalNodeID, r2) \<Rightarrow> take_branch E c nCtx finalNodeID r2))"

text \<open>Once a node is chosen it stays so; the code after that has no way to find the choice missing.\<close>

definition HandleBranchNode ::
    "'w node_env \<Rightarrow> ('s, 'w) NodeExecutor \<Rightarrow> BranchNodeSpec \<Rightarrow> 's NodeExecContext \<Rightarrow> (Transition, ('s, 'w) nrun) grun" where
  "HandleBranchNode E c branchNode nCtx =
     run_bind (get_manager nCtx) (\<lambda>nsm.
       case bst_FinalizedNodeID (GetBranchNodeState nsm) of
         None \<Rightarrow> decide_branch E c branchNode nCtx
       | Some finalNodeID \<Rightarrow>
           (case nl_GetNode (nc_nl nCtx) finalNodeID of
              None \<Rightarrow> run_ok (transition_failed (ne_cfg E) Kind_SYSTEM ''DownstreamNodeNotFound''
                  (''Downstream node ['' @ finalNodeID @ ''] not found''))
            | Some branchTakenNode \<Rightarrow> recurseDownstream E c nCtx branchTakenNode))"

definition branch_Handle ::
    "'w node_env \<Rightarrow> ('s, 'w) NodeExecutor \<Rightarrow> 's NodeExecContext \<Rightarrow> (Transition, ('s, 'w) nrun) grun" where
  "branch_Handle E c nCtx =
     (case en_BranchNode (nc_node nCtx) of
        None \<Rightarrow> run_ok (transition_failed (ne_cfg E) Kind_SYSTEM IllegalStateError ''Invoked branch handler, for a non branch node.'')
      | Some branchNode \<Rightarrow> HandleBranchNode E c branchNode nCtx)"

text \<open>Aborting and finalizing act on the chosen node. A state without a choice that is neither unevaluated nor failed panics.\<close>

definition on_branch_taken ::
    "'s NodeExecContext \<Rightarrow> (ExecContext \<Rightarrow> DAGStructure \<Rightarrow> 's NodeLookup \<Rightarrow> NodeSpec \<Rightarrow> (unit, ('s, 'w) nrun) grun) \<Rightarrow>
     (unit, ('s, 'w) nrun) grun" where
  "on_branch_taken nCtx act =
     (if en_BranchNode (nc_node nCtx) = None then
        run_err (node_Errorf IllegalStateError (node_of nCtx) ''Invoked branch handler, for a non branch node.'')
      else
        run_bind (get_manager nCtx) (\<lambda>nsm.
          if bst_Phase (GetBranchNodeState nsm) = BranchNodeNotYetEvaluated \<or> bst_Phase (GetBranchNodeState nsm) = BranchNodeError
          then run_ok ()
          else case bst_FinalizedNodeID (GetBranchNodeState nsm) of
            None \<Rightarrow> run_panic
          | Some finalNodeID \<Rightarrow>
              (case nl_GetNode (nc_nl nCtx) finalNodeID of
                 None \<Rightarrow> run_ok ()
               | Some branchTakenNode \<Rightarrow>
                   run_bind (leaf_of nCtx branchTakenNode) (\<lambda>dag.
                   run_bind (getExecutionContextForDownstream nCtx) (\<lambda>xc.
                     act xc dag (nc_nl nCtx) branchTakenNode)))))"

definition branchHandler :: "'w node_env \<Rightarrow> ('s, 'w) NodeExecutor \<Rightarrow> ('s, 'w) NodeHandler" where
  "branchHandler E c =
     \<lparr>h_FinalizeRequired = False, h_Handle = branch_Handle E c,
      h_Abort = (\<lambda>nCtx reason. on_branch_taken nCtx (\<lambda>xc dag nl n. nx_AbortHandler c xc dag nl n reason)),
      h_Finalize = (\<lambda>nCtx. on_branch_taken nCtx (nx_FinalizeHandler c)),
      h_Cacheable = None\<rparr>"

subsection \<open>Choices\<close>

definition branch_targets :: "BranchNodeSpec \<Rightarrow> string set" where
  "branch_targets b = {i. Some i \<in> if_ThenNode ` set (br_If b # br_ElseIf b)} \<union> set_option (br_Else b)"

lemma EvaluateIfBlock_chooses: "EvaluateIfBlock b m sk = Go_Ok (Some i, sk') \<Longrightarrow> if_ThenNode b = Some i"
  by (cases "EvaluateBooleanExpression (if_Condition b) m") (auto simp: EvaluateIfBlock_def split: if_splits)

lemma else_if_loop_chooses:
  "else_if_loop bs m sel sk = Go_Ok (Some i, sk') \<Longrightarrow> sel = Some i \<or> Some i \<in> if_ThenNode ` set bs"
proof (induction bs arbitrary: sel sk)
  case (Cons b bs)
  show ?case
  proof (cases sel)
    case None
    with Cons.prems obtain sel' sk1 where e: "EvaluateIfBlock b m sk = Go_Ok (sel', sk1)" "else_if_loop bs m sel' sk1 = Go_Ok (Some i, sk')"
      by (cases "EvaluateIfBlock b m sk") auto
    from Cons.IH [OF e(2)] EvaluateIfBlock_chooses e(1) show ?thesis by force
  qed (use Cons in force)
qed simp

lemma choose_branch_chooses: "choose_branch b m = Go_Ok (Some i, sk) \<Longrightarrow> i \<in> branch_targets b"
proof -
  assume c: "choose_branch b m = Go_Ok (Some i, sk)"
  then obtain sel sk1 where e: "EvaluateIfBlock (br_If b) m [] = Go_Ok (sel, sk1)"
    by (cases "EvaluateIfBlock (br_If b) m []") (auto simp: choose_branch_def)
  with c obtain sel' sk2 where l: "else_if_loop (br_ElseIf b) m sel sk1 = Go_Ok (sel', sk2)"
    by (cases "else_if_loop (br_ElseIf b) m sel sk1") (auto simp: choose_branch_def)
  have "sel' = Some i \<or> br_Else b = Some i" using c e l by (auto simp: choose_branch_def split: option.splits if_splits)
  then show ?thesis
    using else_if_loop_chooses [of "br_ElseIf b" m sel sk1 i sk2] EvaluateIfBlock_chooses [of "br_If b" m "[]" i sk1] e l
    by (auto simp: branch_targets_def image_iff)
qed

lemma DecideBranch_chooses:
  assumes "DecideBranch now nl b m s = (Go_Ok i, s')"
  shows "i \<in> branch_targets b"
proof -
  obtain sk where "choose_branch b m = Go_Ok (Some i, sk)"
    using assms by (auto simp: DecideBranch_def malformed_def split: go.splits prod.splits option.splits)
  then show ?thesis by (rule choose_branch_chooses)
qed

subsection \<open>What the handler keeps\<close>

lemma no_choice_child:
  "no_choice (SetParentNodeID p)" "no_choice (\<lambda>st. SetOutputDir o' (SetDataDir d st))" "no_choice (skip_status now)"
  by (simp_all add: no_choice_def SetParentNodeID_def SetOutputDir_def SetDataDir_def)
    (use no_choice_UpdatePhase in \<open>auto simp: no_choice_def skip_status_def\<close>)

lemma honest_failures [simp]:
  "honest (tr_info (transition_failed cfg k code msg))" "honest (PhaseInfoFailureErr now a e i)" "honest (PhaseInfoSuccess now i)"
  "honest (PhaseInfoRunning now i)"
  by (simp_all add: honest_def transition_failed_def PhaseInfoFailureErr_def phaseInfoFailed_def phaseInfo_def Let_def)

locale branch_steps = executor_steps R nCtx
  for R :: "('s, 'w) nrun \<Rightarrow> ('s, 'w) nrun \<Rightarrow> bool" and nCtx :: "'s NodeExecContext" +
  fixes c :: "('s, 'w) NodeExecutor"
  assumes walked: "walks_keep R (nc_nl nCtx) c"
    and any_changed: "no_choice f \<Longrightarrow> keeps R (change_status (nc_nl nCtx) j f) UNIV"
    and chosen: "en_BranchNode (nc_node nCtx) = Some b \<Longrightarrow> i \<in> branch_targets b \<Longrightarrow>
      R r (r\<lparr>nr_nsm := PutBranchNode \<lparr>bst_FinalizedNodeID = Some i, bst_Phase = BranchNodeSuccess\<rparr> (nr_nsm r)\<rparr>)"
begin

lemma written: "no_choice f \<Longrightarrow> nl_status (nc_nl nCtx) i (nr_s r) = (Some st, s) \<Longrightarrow> R r (r\<lparr>nr_s := nl_write (nc_nl nCtx) i (f st) s\<rparr>)"
  using keeps_result [OF any_changed, of f i r "Go_Ok ()"] by (simp add: change_status_def)

lemma keeps_skip_loop: "R r (r\<lparr>nr_s := snd (skip_loop now (nc_nl nCtx) ids (nr_s r))\<rparr>)"
proof (induction ids arbitrary: r)
  case (Cons x ids)
  have step: "R r (r\<lparr>nr_s := snd (skip_loop now (nc_nl nCtx) ids (nl_write (nc_nl nCtx) i (skip_status now st) s))\<rparr>)"
    if "nl_status (nc_nl nCtx) i (nr_s r) = (Some st, s)" for i st s
    using steady_trans [OF written [OF no_choice_child(3) that] Cons.IH] by simp
  show ?case
    by (cases x) (auto split: option.split prod.split intro: step looked_up)
qed simp

lemma keeps_DecideBranch: "keeps R (on_lookup (DecideBranch now (nc_nl nCtx) b m)) (branch_targets b)"
proof -
  have "R r (r\<lparr>nr_s := s'\<rparr>)" if d: "DecideBranch now (nc_nl nCtx) b m (nr_s r) = (x, s')" for r x s'
  proof (cases "choose_branch b m")
    case (Go_Ok y)
    obtain sel sk where y: "y = (sel, sk)" by force
    have "s' = snd (skip_loop now (nc_nl nCtx) sk (nr_s r))"
      using d Go_Ok y by (auto simp: DecideBranch_def malformed_def split: go.splits prod.splits option.splits)
    then show ?thesis using keeps_skip_loop by simp
  qed (use d in \<open>auto simp: DecideBranch_def\<close>)
  then show ?thesis
    by (auto simp: keeps_def on_lookup_def split: prod.split dest: DecideBranch_chooses)
qed

lemma keeps_child [keeps_intros]: "keeps R (find_status (nc_nl nCtx) i) UNIV"
  by (auto simp: find_status_def intro!: looked_up split: prod.splits option.splits)

lemma keeps_downstream [keeps_intros]:
  "keeps R (getExecutionContextForDownstream nCtx) UNIV" "keeps R (leaf_of nCtx n) UNIV" "keeps R (child_directories E nCtx n) UNIV"
  by (auto simp: getExecutionContextForDownstream_def leaf_of_def child_directories_def intro!: keeps_intros split: sum.split option.split)

lemma keeps_recurse: "keeps R (recurseDownstream E c nCtx n) {t. honest (tr_info t)}"
  unfolding recurseDownstream_def branch_outcome_def Let_def using walked
  by (auto intro!: keeps_intros any_changed no_choice_child simp: walks_keep_def split: prod.split)

lemma keeps_branch_Handle: "keeps R (branch_Handle E c nCtx) {t. honest (tr_info t)}"
proof -
  have decide: "keeps R (decide_branch E c b nCtx) {t. honest (tr_info t)}" if b: "en_BranchNode (nc_node nCtx) = Some b" for b
  proof -
    have "keeps R (read_inputs E nCtx) UNIV" unfolding read_inputs_def Let_def by (rule keeps_world)
    moreover have put: "keeps R (put_manager (PutBranchNode \<lparr>bst_FinalizedNodeID = Some i, bst_Phase = BranchNodeSuccess\<rparr>)) UNIV"
      if "i \<in> branch_targets b" for i
      using chosen [OF b that] by (auto simp: put_manager_def)
    moreover have "keeps R (take_branch E c nCtx i) {t. honest (tr_info t)}" if "i \<in> branch_targets b" for i
      unfolding take_branch_def
      by (rule keeps_bind [OF put [OF that]]) (auto intro!: keeps_intros keeps_recurse any_changed no_choice_child split: option.split)
    moreover have "honest (tr_info (branch_error (ne_cfg E) e))" for e by (simp add: branch_error_def split: option.split)
    ultimately show ?thesis
      unfolding decide_branch_def by (auto intro!: keeps_catch [OF _ keeps_catch [OF keeps_DecideBranch]] keeps_raw)
  qed
  show ?thesis
    unfolding branch_Handle_def HandleBranchNode_def
    by (auto intro!: keeps_intros keeps_recurse decide split: option.split)
qed

lemma keeps_on_branch_taken:
  "(\<And>xc dag n. keeps R (act xc dag (nc_nl nCtx) n) UNIV) \<Longrightarrow> keeps R (on_branch_taken nCtx act) UNIV"
  unfolding on_branch_taken_def by (auto intro!: keeps_intros split: option.split)

lemma branch_handled: "handler_steps R nCtx (branchHandler E c)"
  using walked by unfold_locales (auto simp: branchHandler_def walks_keep_def intro: keeps_mono [OF keeps_branch_Handle] keeps_on_branch_taken)

sublocale handler_steps R nCtx "branchHandler E c" for E
  by (rule branch_handled)

end

subsection \<open>Stored choices are choices of the branch\<close>

definition sane :: "'s NodeLookup \<Rightarrow> 's \<Rightarrow> bool" where
  "sane nl s \<longleftrightarrow> (\<forall>i n b st d j. nl_GetNode nl i = Some n \<longrightarrow> en_BranchNode n = Some b \<longrightarrow> seen nl i s = Some (st, d) \<longrightarrow>
     choice_of st = Some j \<longrightarrow> j \<in> branch_targets b)"

definition right_choice :: "'s NodeExecContext \<Rightarrow> nodeStateManager \<Rightarrow> bool" where
  "right_choice nCtx m \<longleftrightarrow> (\<forall>b x j. en_BranchNode (nc_node nCtx) = Some b \<longrightarrow> nsm_b m = Some x \<longrightarrow> bst_FinalizedNodeID x = Some j \<longrightarrow>
     j \<in> branch_targets b)"

text \<open>A handler of another kind changes the status of its own node, and chooses no branch.\<close>

definition modest_step :: "'s NodeExecContext \<Rightarrow> ('s, 'w) nrun \<Rightarrow> ('s, 'w) nrun \<Rightarrow> bool" where
  "modest_step nCtx r r' \<longleftrightarrow>
     (\<forall>j. j \<noteq> nc_id nCtx \<longrightarrow> seen (nc_nl nCtx) j (nr_s r') = seen (nc_nl nCtx) j (nr_s r)) \<and>
     (\<forall>st' d' j. seen (nc_nl nCtx) (nc_id nCtx) (nr_s r') = Some (st', d') \<longrightarrow> choice_of st' = Some j \<longrightarrow>
        (\<exists>st d. seen (nc_nl nCtx) (nc_id nCtx) (nr_s r) = Some (st, d) \<and> choice_of st = Some j)) \<and>
     (nsm_b (nr_nsm r') = nsm_b (nr_nsm r) \<or> nsm_b (nr_nsm r') = None)"

definition handler_keeps :: "(('s, 'w) nrun \<Rightarrow> ('s, 'w) nrun \<Rightarrow> bool) \<Rightarrow> 's NodeExecContext \<Rightarrow> ('s, 'w) NodeHandler \<Rightarrow> bool" where
  "handler_keeps R nCtx h \<longleftrightarrow> keeps R (h_Handle h nCtx) UNIV \<and> (\<forall>reason. keeps R (h_Abort h nCtx reason) UNIV) \<and>
     keeps R (h_Finalize h nCtx) UNIV \<and>
     (\<forall>ch. h_Cacheable h = Some ch \<longrightarrow> keeps R (ch_IsCacheable ch nCtx) UNIV \<and> keeps R (ch_GetCatalogKey ch nCtx) UNIV)"

definition modest :: "'s NodeExecContext \<Rightarrow> ('s, 'w) NodeHandler \<Rightarrow> bool" where
  "modest nCtx h \<longleftrightarrow> handler_keeps (modest_step nCtx) nCtx h"

abbreviation chooses_right :: "'s NodeExecContext \<Rightarrow> ('s, 'w) nrun \<Rightarrow> ('s, 'w) nrun \<Rightarrow> bool" where
  "chooses_right nCtx r r' \<equiv> holds (sane (nc_nl nCtx)) right_choice nCtx r \<longrightarrow> holds (sane (nc_nl nCtx)) right_choice nCtx r'"

lemma keeps_weaken: "keeps R m S \<Longrightarrow> (\<And>r r'. R r r' \<Longrightarrow> R' r r') \<Longrightarrow> keeps R' m S"
  by (simp add: keeps_def)

lemma walks_keep_weaken: "walks_keep R nl c \<Longrightarrow> (\<And>r r'. R r r' \<Longrightarrow> R' r r') \<Longrightarrow> walks_keep R' nl c"
  by (simp add: walks_keep_def keeps_def)

lemma handler_keeps_weaken: "handler_keeps R nCtx h \<Longrightarrow> (\<And>r r'. R r r' \<Longrightarrow> R' r r') \<Longrightarrow> handler_keeps R' nCtx h"
  unfolding handler_keeps_def by (blast intro: keeps_weaken)

lemma handler_keeps_steps: "executor_steps R nCtx \<Longrightarrow> handler_keeps R nCtx h \<Longrightarrow> handler_steps R nCtx h"
  unfolding handler_keeps_def handler_steps_def handler_steps_axioms_def by blast

lemma modest_right: "context_in nl nCtx \<Longrightarrow> modest_step nCtx r r' \<Longrightarrow> chooses_right nCtx r r'"
proof
  assume ctx: "context_in nl nCtx" and m: "modest_step nCtx r r'" and r: "holds (sane (nc_nl nCtx)) right_choice nCtx r"
  have "j \<in> branch_targets b" if "nl_GetNode (nc_nl nCtx) i = Some n" "en_BranchNode n = Some b" "seen (nc_nl nCtx) i (nr_s r') = Some (st, d)"
    "choice_of st = Some j" for i n b st d j
  proof -
    note found = that
    obtain st0 d0 where "seen (nc_nl nCtx) i (nr_s r) = Some (st0, d0)" "choice_of st0 = Some j"
      using m found(3,4) unfolding modest_step_def by metis
    with r found(1,2) show ?thesis unfolding holds_def sane_def by blast
  qed
  then show "holds (sane (nc_nl nCtx)) right_choice nCtx r'"
    using m r unfolding holds_def right_choice_def modest_step_def sane_def by auto
qed

lemma choice_of_clean [simp]: "choice_of (clean n) = choice_of n"
  by (cases n; cases "ns_BranchStatus (ns n)") (auto simp: choice_of_def clean_iff clean_fields_def)

lemma choice_of_with [simp]:
  "choice_of (with_task a n) = choice_of n" "choice_of (with_dynamic b n) = choice_of n" "choice_of (with_workflow d n) = choice_of n"
  "choice_of (with_gate e n) = choice_of n" "choice_of (with_array f n) = choice_of n"
  by (simp_all add: with_task_def with_dynamic_def with_workflow_def with_gate_def with_array_def split: option.split)

lemma choice_of_UpdateNodeStatus:
  assumes "choice_of (UpdateNodeStatus now np p m dbg n) = Some j"
  shows "choice_of n = Some j \<or> (\<exists>x. nsm_b m = Some x \<and> bst_FinalizedNodeID x = Some j)"
proof -
  have opt: "choice_of (opt_apply f x k) = choice_of k" if "\<And>a k. choice_of (f a k) = choice_of k" for f :: "'a \<Rightarrow> NodeStatus \<Rightarrow> NodeStatus" and x k
    using that by (simp add: opt_apply_def split: option.split)
  have branch: "choice_of k = Some j \<or> bst_FinalizedNodeID x = Some j" if "choice_of (with_branch (write_branch x) k) = Some j" for x k
    using that by (cases k) (auto simp: choice_of_def with_branch_def upd_def write_branch_def SetBranchNodeSuccess_def SetBranchNodeError_def
        new_BranchNodeStatus_def split: option.splits if_splits)
  define s0 where "s0 = (if np \<noteq> ns_Phase (ns n) \<or> pi_reason p \<noteq> ns_Message (ns n)
      then UpdatePhase now np (pi_occurredAt p) (pi_reason p) dbg (pi_err p) n else n)"
  define s1 where "s1 = opt_apply (\<lambda>d. with_dynamic (write_dynamic d)) (nsm_d m) (opt_apply (\<lambda>t. with_task (write_task t)) (nsm_t m) s0)"
  have s1: "choice_of s1 = choice_of s0" by (simp add: s1_def opt)
  have "choice_of (opt_apply (\<lambda>b. with_branch (write_branch b)) (nsm_b m) s1) = Some j"
    using assms unfolding UpdateNodeStatus_def Let_def s0_def [symmetric] s1_def [symmetric] by (simp add: opt)
  then have "choice_of s0 = Some j \<or> (\<exists>x. nsm_b m = Some x \<and> bst_FinalizedNodeID x = Some j)"
    using branch [of _ s1] s1 by (cases "nsm_b m") (auto simp: opt_apply_def)
  moreover have "choice_of s0 = Some j \<Longrightarrow> choice_of n = Some j"
    using no_choice_UpdatePhase [of now np "pi_occurredAt p" "pi_reason p" dbg "pi_err p", unfolded no_choice_def, rule_format, of n]
    by (auto simp: s0_def split: if_splits)
  ultimately show ?thesis by blast
qed

context node_lookup
begin

lemma sane_read: "sane nl s \<Longrightarrow> nl_status nl i s = (x, s') \<Longrightarrow> sane nl s'"
  using seen_status [of _ i s] unfolding sane_def by (metis snd_conv)

lemma sane_write:
  assumes "sane nl s" "nl_status nl i s = (Some n, s')" "\<And>j k. cell j = cell k \<Longrightarrow> j = k"
    "\<And>nd b j. nl_GetNode nl i = Some nd \<Longrightarrow> en_BranchNode nd = Some b \<Longrightarrow> choice_of (f n) = Some j \<Longrightarrow> choice_of n = Some j \<or> j \<in> branch_targets b"
  shows "sane nl (nl_write nl i (f n) s')"
  unfolding sane_def
proof (intro allI impI)
  fix k nd b st d j
  assume k: "nl_GetNode nl k = Some nd" "en_BranchNode nd = Some b" "seen nl k (nl_write nl i (f n) s') = Some (st, d)" "choice_of st = Some j"
  show "j \<in> branch_targets b"
  proof (cases "k = i")
    case True
    with seen_modify [OF assms(2), of k f] k have "choice_of (f n) = Some j" by (auto simp: obs_def)
    with assms(4) k True have "choice_of n = Some j \<or> j \<in> branch_targets b" by blast
    moreover have "seen nl k s = Some (obs n)" using assms(2) True by (simp add: seen_def)
    ultimately show ?thesis using assms(1) k unfolding sane_def obs_def by (metis choice_of_clean)
  next
    case False
    with seen_modify [OF assms(2), of k f] assms(3) k have "seen nl k s = Some (st, d)" by auto
    with assms(1) k show ?thesis unfolding sane_def by blast
  qed
qed

end

end
