(* ===== verification/Gate_Handler.thy ===== *)
theory Gate_Handler
  imports Branch_Handler
begin

section \<open>The handler of gate nodes (nodes/gate/handler.go)\<close>

text \<open>
  A gate waits: for a boolean signal that approves its inputs, for a signal with a value that becomes its output, or for time to pass. The
  service that keeps signals is among the services that the node executor is given.
\<close>

subsection \<open>Operations\<close>

definition getBoolean :: "lit_ptr \<Rightarrow> bool option" where
  "getBoolean l = (case GetPrimitive (GetScalar l) of Some (Some (Primitive_Boolean b)) \<Rightarrow> Some b | _ \<Rightarrow> None)"

text \<open>A condition is behind two pointers, of which the first is not checked.\<close>

definition gate_condition :: "'a option option \<Rightarrow> ('a option, ('s, 'w) nrun) grun" where
  "gate_condition c = (case c of None \<Rightarrow> run_panic | Some x \<Rightarrow> run_ok x)"

definition nil_condition :: "node_config \<Rightarrow> string \<Rightarrow> Transition" where
  "nil_condition cfg kind = transition_failed cfg Kind_SYSTEM BadSpecificationError (''gateNode '' @ kind @ '' condition is nil'')"

definition get_signal ::
    "'w node_env \<Rightarrow> 's NodeExecContext \<Rightarrow> string \<Rightarrow> lt_ptr \<Rightarrow> (lit_ptr, ('s, 'w) nrun) grun" where
  "get_signal E nCtx signalId typ =
     world_get (\<lambda>e. e) (sig_GetOrCreateSignal (ne_signals E)
       \<lparr>srq_ExecutionId = xc_ExecutionID (nc_ic nCtx), srq_SignalId = signalId, srq_Type = typ\<rparr>)"

definition gate_outputs ::
    "'w node_env \<Rightarrow> 's NodeExecContext \<Rightarrow> literal_map \<Rightarrow> (string \<Rightarrow> string) \<Rightarrow> (Transition, ('s, 'w) nrun) grun" where
  "gate_outputs E nCtx outputs error_part =
     run_bind (own_status nCtx) (\<lambda>st.
       let outputFile = GetOutputsFile (ns_OutputDir (ns st))
       in run_bind (on_world (ne_WriteProtobuf E outputFile outputs)) (\<lambda>res.
            run_ok (case res of
               Some e \<Rightarrow> transition_failed (ne_cfg E) Kind_SYSTEM ''WriteOutputsFailed''
                 (''failed to write signal value to ['' @ outputFile @ ''] with error'' @ error_part (Error e))
             | None \<Rightarrow> DoTransition TransitionTypeEphemeral (PhaseInfoSuccess (cfg_now (ne_cfg E)) (Some (empty_info
                 \<lparr>ei_OutputInfo := Some \<lparr>OutputURI = outputFile, DeckURI = None\<rparr>\<rparr>))))))"

text \<open>The end of the method: the state is stored and the node goes on running.\<close>

definition gate_waits :: "'w node_env \<Rightarrow> GateNodeState \<Rightarrow> (Transition, ('s, 'w) nrun) grun" where
  "gate_waits E st =
     run_bind (put_manager (PutGateNodeState st)) (\<lambda>_.
       run_ok (DoTransition TransitionTypeEphemeral (PhaseInfoRunning (cfg_now (ne_cfg E)) (Some empty_info))))"

definition approve_inputs :: "'w node_env \<Rightarrow> 's NodeExecContext \<Rightarrow> (Transition, ('s, 'w) nrun) grun" where
  "approve_inputs E nCtx = (\<lambda>r.
     case read_inputs E nCtx r of
       (Go_Panic, r1) \<Rightarrow> (Go_Panic, r1)
     | (Go_Err err, r1) \<Rightarrow>
         (Go_Ok (transition_failed (ne_cfg E) Kind_SYSTEM ''RuntimeExecutionError'' (''failed to read input with error ['' @ Error err @ '']'')), r1)
     | (Go_Ok inputs, r1) \<Rightarrow> gate_outputs E nCtx inputs (\<lambda>e. '' ['' @ e @ '']'') r1)"

definition handle_approve ::
    "'w node_env \<Rightarrow> 's NodeExecContext \<Rightarrow> GateNodeState \<Rightarrow> ApproveCondition \<Rightarrow> (Transition, ('s, 'w) nrun) grun" where
  "handle_approve E nCtx st c =
     run_bind (get_signal E nCtx (apc_SignalId c) (lt_of (LT_Simple BOOLEAN))) (\<lambda>v.
       if lit_GetValue v = None then gate_waits E st
       else case getBoolean v of
         None \<Rightarrow> run_ok (transition_failed (ne_cfg E) Kind_UNKNOWN ''RuntimeExecutionError''
             (''received a non-boolean approve signal value ['' @ sig_literal_text (ne_signals E) v @ '']''))
       | Some False \<Rightarrow> run_ok (transition_failed (ne_cfg E) Kind_USER ''ReceivedRejectSignal''
             ''received a reject signal to disapprove the node input values'')
       | Some True \<Rightarrow> approve_inputs E nCtx)"

definition handle_signal ::
    "'w node_env \<Rightarrow> 's NodeExecContext \<Rightarrow> GateNodeState \<Rightarrow> SignalCondition \<Rightarrow> (Transition, ('s, 'w) nrun) grun" where
  "handle_signal E nCtx st c =
     run_bind (get_signal E nCtx (sgc_SignalId c) (sgc_Type c)) (\<lambda>v.
       if lit_GetValue v = None then gate_waits E st
       else gate_outputs E nCtx (Some [(sgc_OutputVariableName c, v)]) (\<lambda>e. '': '' @ e))"

definition handle_sleep ::
    "'w node_env \<Rightarrow> 's NodeExecContext \<Rightarrow> GateNodeState \<Rightarrow> SleepCondition \<Rightarrow> (Transition, ('s, 'w) nrun) grun" where
  "handle_sleep E nCtx st c =
     run_bind (own_status nCtx) (\<lambda>status.
       case ns_LastAttemptStartedAt (ns status) of
         Some t \<Rightarrow>
           if slc_Duration c \<le> int (cfg_now (ne_cfg E)) - int t
           then run_ok (DoTransition TransitionTypeEphemeral (PhaseInfoSuccess (cfg_now (ne_cfg E)) (Some empty_info)))
           else gate_waits E st
       | None \<Rightarrow> gate_waits E st)"

definition ConditionKindApprove :: string where "ConditionKindApprove = ''approve''"
definition ConditionKindSignal :: string where "ConditionKindSignal = ''signal''"
definition ConditionKindSleep :: string where "ConditionKindSleep = ''sleep''"

definition handle_condition :: "'w node_env \<Rightarrow> 's NodeExecContext \<Rightarrow> GateNodeState \<Rightarrow> (Transition, ('s, 'w) nrun) grun" where
  "handle_condition E nCtx st =
     (case en_GateNode (nc_node nCtx) of
        None \<Rightarrow> run_panic
      | Some gateNode \<Rightarrow>
          if gate_Kind gateNode = ConditionKindApprove then
            run_bind (gate_condition (gate_Approve gateNode)) (\<lambda>c.
              case c of None \<Rightarrow> run_ok (nil_condition (ne_cfg E) ''approve'') | Some c \<Rightarrow> handle_approve E nCtx st c)
          else if gate_Kind gateNode = ConditionKindSignal then
            run_bind (gate_condition (gate_Signal gateNode)) (\<lambda>c.
              case c of None \<Rightarrow> run_ok (nil_condition (ne_cfg E) ''signal'') | Some c \<Rightarrow> handle_signal E nCtx st c)
          else if gate_Kind gateNode = ConditionKindSleep then
            run_bind (gate_condition (gate_Sleep gateNode)) (\<lambda>c.
              case c of None \<Rightarrow> run_ok (nil_condition (ne_cfg E) ''sleep'') | Some c \<Rightarrow> handle_sleep E nCtx st c)
          else run_ok (transition_failed (ne_cfg E) Kind_SYSTEM BadSpecificationError
            ''gateNode does not have a supported condition reference''))"

definition gate_Handle :: "'w node_env \<Rightarrow> 's NodeExecContext \<Rightarrow> (Transition, ('s, 'w) nrun) grun" where
  "gate_Handle E nCtx =
     run_bind (get_manager nCtx) (\<lambda>nsm.
       let st = GetGateNodeState nsm
       in handle_condition E nCtx (if gst_Phase st = GateNodePhaseUndefined then st\<lparr>gst_Phase := GateNodePhaseExecuting\<rparr> else st))"

definition gateHandler :: "'w node_env \<Rightarrow> ('s, 'w) NodeHandler" where
  "gateHandler E =
     \<lparr>h_FinalizeRequired = False, h_Handle = gate_Handle E, h_Abort = (\<lambda>nCtx reason. run_ok ()), h_Finalize = (\<lambda>nCtx. run_ok ()),
      h_Cacheable = None\<rparr>"

subsection \<open>What the handler keeps\<close>

context executor_steps
begin

lemma tame_gate [simp]: "tame (PutGateNodeState st)"
  by (simp add: tame_def PutGateNodeState_def)

lemma keeps_gate_waits [keeps_intros]: "keeps R (gate_waits E st) {t. honest (tr_info t)}"
  unfolding gate_waits_def by (auto intro!: keeps_intros)

lemma keeps_gate_outputs [keeps_intros]: "keeps R (gate_outputs E nCtx m f) {t. honest (tr_info t)}"
  unfolding gate_outputs_def Let_def by (auto intro!: keeps_intros split: option.split)

lemma keeps_approve_inputs [keeps_intros]: "keeps R (approve_inputs E nCtx) {t. honest (tr_info t)}"
proof -
  have "keeps R (read_inputs E nCtx) UNIV" unfolding read_inputs_def Let_def by (rule keeps_world)
  then show ?thesis unfolding approve_inputs_def by (auto intro!: keeps_catch keeps_raw keeps_gate_outputs)
qed

lemma keeps_conditions [keeps_intros]:
  "keeps R (handle_approve E nCtx st a) {t. honest (tr_info t)}" "keeps R (handle_signal E nCtx st b) {t. honest (tr_info t)}"
  "keeps R (handle_sleep E nCtx st d) {t. honest (tr_info t)}"
  unfolding handle_approve_def handle_signal_def handle_sleep_def get_signal_def
  by (auto intro!: keeps_intros split: option.split bool.split)

lemma keeps_gate_Handle: "keeps R (gate_Handle E nCtx) {t. honest (tr_info t)}"
  unfolding gate_Handle_def handle_condition_def gate_condition_def nil_condition_def Let_def
  by (auto intro!: keeps_intros split: option.split)

lemma gate_kept: "handler_keeps R nCtx (gateHandler E)"
  by (auto simp: handler_keeps_def gateHandler_def intro!: keeps_intros keeps_mono [OF keeps_gate_Handle])

end

lemma calm_context: "executor_steps (same_vital (c\<lparr>nc_nl := workflow_lookup refs fmt w\<rparr>)) (c\<lparr>nc_nl := workflow_lookup refs fmt w\<rparr>)"
  by (rule start.executor_steps_axioms)

interpretation gate: handled_node "c\<lparr>nc_nl := workflow_lookup refs fmt w\<rparr>" "\<lambda>i. i" "gateHandler E" for c refs fmt w E
  by (rule handled_node.intro [OF workflow_context], unfold_locales)
    (auto simp: gateHandler_def intro!: executor_steps.keeps_gate_Handle [OF calm_context] calm.keeps_pure)

subsection \<open>When a gate opens\<close>

definition signal_of :: "'w node_env \<Rightarrow> 's NodeExecContext \<Rightarrow> string \<Rightarrow> lt_ptr \<Rightarrow> 'w \<Rightarrow> lit_ptr" where
  "signal_of E nCtx signalId typ w =
     (case fst (sig_GetOrCreateSignal (ne_signals E) \<lparr>srq_ExecutionId = xc_ExecutionID (nc_ic nCtx), srq_SignalId = signalId, srq_Type = typ\<rparr> w) of
        Inl e \<Rightarrow> None | Inr v \<Rightarrow> v)"

definition gate_open :: "'w node_env \<Rightarrow> 's NodeExecContext \<Rightarrow> NodeStatus \<Rightarrow> 'w \<Rightarrow> bool" where
  "gate_open E nCtx st w =
     (case en_GateNode (nc_node nCtx) of
        None \<Rightarrow> False
      | Some g \<Rightarrow>
          if gate_Kind g = ''approve'' then
            (case gate_Approve g of Some (Some c) \<Rightarrow> getBoolean (signal_of E nCtx (apc_SignalId c) (lt_of (LT_Simple BOOLEAN)) w) = Some True | _ \<Rightarrow> False)
          else if gate_Kind g = ''signal'' then
            (case gate_Signal g of Some (Some c) \<Rightarrow> lit_GetValue (signal_of E nCtx (sgc_SignalId c) (sgc_Type c) w) \<noteq> None | _ \<Rightarrow> False)
          else if gate_Kind g = ''sleep'' then
            (case (gate_Sleep g, ns_LastAttemptStartedAt (ns st)) of
               (Some (Some c), Some t) \<Rightarrow> slc_Duration c \<le> int (cfg_now (ne_cfg E)) - int t | _ \<Rightarrow> False)
          else False)"

definition gate_answer :: "bool \<Rightarrow> Transition \<Rightarrow> ('s, 'w) nrun \<Rightarrow> bool" where
  "gate_answer opened t r \<longleftrightarrow> pi_p (tr_info t) \<in> {EPhaseSuccess, EPhaseRunning, EPhaseFailed} \<and>
     (pi_p (tr_info t) = EPhaseSuccess \<longrightarrow> opened) \<and>
     (pi_p (tr_info t) = EPhaseRunning \<longrightarrow> \<not> opened \<and> (\<exists>g. nsm_g (nr_nsm r) = Some g \<and> gst_Phase g = GateNodePhaseExecuting))"

lemma failed_answers [simp]: "gate_answer opened (transition_failed cfg k c m) r"
  by (simp add: gate_answer_def transition_failed_def)

lemma waits_answer: "gst_Phase g = GateNodePhaseExecuting \<Longrightarrow> returns (gate_waits E g) r (gate_answer False)"
  by (auto simp: returns_def gate_answer_def gate_waits_def run_bind_def put_manager_def run_ok_def PutGateNodeState_def)

lemma outputs_answer: "returns (gate_outputs E nCtx m f) r (gate_answer True)"
  by (auto simp: gate_outputs_def returns_def run_bind_Ok run_ok_def gate_answer_def transition_failed_def Let_def split: option.splits)

lemma signal_returns:
  "returns (get_signal E nCtx i typ) r (\<lambda>v r'. v = signal_of E nCtx i typ (nr_w r))"
  by (cases "sig_GetOrCreateSignal (ne_signals E) \<lparr>srq_ExecutionId = xc_ExecutionID (nc_ic nCtx), srq_SignalId = i, srq_Type = typ\<rparr> (nr_w r)")
    (auto simp: returns_def get_signal_def world_get_def run_bind_Ok on_world_def signal_of_def run_ok_def run_err_def split: sum.splits)

lemma getBoolean_value: "lit_GetValue v = None \<Longrightarrow> getBoolean v = None"
  by (simp add: getBoolean_def GetPrimitive_def GetScalar_def split: option.splits)

lemma approve_answer:
  assumes "gst_Phase g = GateNodePhaseExecuting"
  shows "returns (handle_approve E nCtx g c) r
    (gate_answer (getBoolean (signal_of E nCtx (apc_SignalId c) (lt_of (LT_Simple BOOLEAN)) (nr_w r)) = Some True))"
proof -
  have approve: "returns (approve_inputs E nCtx) r (gate_answer True)" for r
    using outputs_answer [of E nCtx, unfolded returns_def, rule_format]
    by (auto simp: returns_def approve_inputs_def split: prod.splits go.splits)
  show ?thesis
    unfolding handle_approve_def
    by (rule returns_bind, rule returns_mono [OF signal_returns])
      (auto simp: getBoolean_value waits_answer assms approve split: option.split bool.split)
qed

lemma signal_answer:
  assumes "gst_Phase g = GateNodePhaseExecuting"
  shows "returns (handle_signal E nCtx g c) r (gate_answer (lit_GetValue (signal_of E nCtx (sgc_SignalId c) (sgc_Type c) (nr_w r)) \<noteq> None))"
  unfolding handle_signal_def
  by (rule returns_bind, rule returns_mono [OF signal_returns]) (auto simp: waits_answer assms outputs_answer)

lemma sleep_answer:
  assumes "gst_Phase g = GateNodePhaseExecuting" "fst (nl_status (nc_nl nCtx) (nc_id nCtx) (nr_s r)) = Some st"
  shows "returns (handle_sleep E nCtx g c) r
    (gate_answer (case ns_LastAttemptStartedAt (ns st) of None \<Rightarrow> False | Some t \<Rightarrow> slc_Duration c \<le> int (cfg_now (ne_cfg E)) - int t))"
proof -
  have "returns (handle_sleep E nCtx g c) r Q = returns (case ns_LastAttemptStartedAt (ns st) of
      Some t \<Rightarrow>
        if slc_Duration c \<le> int (cfg_now (ne_cfg E)) - int t
        then run_ok (DoTransition TransitionTypeEphemeral (PhaseInfoSuccess (cfg_now (ne_cfg E)) (Some empty_info)))
        else gate_waits E g
    | None \<Rightarrow> gate_waits E g) r Q" for Q
    using assms(2) by (simp add: returns_def handle_sleep_def run_bind_def read_status_def)
  then show ?thesis
    using waits_answer [OF assms(1)] by (auto simp: gate_answer_def [of True] split: option.split)
qed

lemma condition_answer:
  assumes "\<And>x. c = Some (Some x) \<Longrightarrow> returns (f x) r (gate_answer opened)"
  shows "returns (run_bind (gate_condition c) (\<lambda>c. case c of None \<Rightarrow> run_ok (nil_condition cfg k) | Some c \<Rightarrow> f c)) r (gate_answer opened)"
  using assms by (auto simp: gate_condition_def nil_condition_def intro!: returns_bind split: option.split)

lemma handle_answer:
  assumes "gst_Phase g = GateNodePhaseExecuting" "fst (nl_status (nc_nl nCtx) (nc_id nCtx) (nr_s r)) = Some st"
  shows "returns (handle_condition E nCtx g) r (gate_answer (gate_open E nCtx st (nr_w r)))"
proof (cases "en_GateNode (nc_node nCtx)")
  case (Some n)
  consider "gate_Kind n = ''approve''" | "gate_Kind n = ''signal''" | "gate_Kind n = ''sleep''" | "gate_Kind n \<notin> {''approve'', ''signal'', ''sleep''}"
    by blast
  then show ?thesis
  proof cases
    case 1
    with Some show ?thesis
      using approve_answer [OF assms(1)] by (auto simp: handle_condition_def ConditionKindApprove_def gate_open_def intro!: condition_answer)
  next
    case 2
    with Some show ?thesis
      using signal_answer [OF assms(1)]
      by (auto simp: handle_condition_def ConditionKindApprove_def ConditionKindSignal_def gate_open_def intro!: condition_answer)
  next
    case 3
    with Some show ?thesis
      using sleep_answer [OF assms]
      by (auto simp: handle_condition_def ConditionKindApprove_def ConditionKindSignal_def ConditionKindSleep_def gate_open_def intro!: condition_answer)
  qed (use Some in \<open>auto simp: handle_condition_def ConditionKindApprove_def ConditionKindSignal_def ConditionKindSleep_def\<close>)
qed (simp add: handle_condition_def)

text \<open>
  Property C31. A gate opens when its condition holds. A round of a gate that returns ends in success only if the gate is open: the signal that
  approves the inputs is true, the signal that the gate waits for has a value, or the time to sleep has passed since the attempt started. A gate
  that is open does not go on waiting, and a gate that waits stores that it executes.
\<close>

theorem gate_opens:
  fixes E :: "'w node_env" and nCtx :: "'s NodeExecContext"
  assumes "gate_Handle E nCtx r = (Go_Ok t, r')" "fst (nl_status (nc_nl nCtx) (nc_id nCtx) (nr_s r)) = Some st"
  shows "pi_p (tr_info t) \<in> {EPhaseSuccess, EPhaseRunning, EPhaseFailed} \<and>
    (pi_p (tr_info t) = EPhaseSuccess \<longrightarrow> gate_open E nCtx st (nr_w r)) \<and>
    (pi_p (tr_info t) = EPhaseRunning \<longrightarrow>
       \<not> gate_open E nCtx st (nr_w r) \<and> (\<exists>g. nsm_g (nr_nsm r') = Some g \<and> gst_Phase g = GateNodePhaseExecuting))"
proof -
  have "get_manager nCtx r = (Go_Ok ((nr_nsm r)\<lparr>nsm_nodeStatus := st\<rparr>), r)"
    using assms(2) by (simp add: get_manager_def run_bind_def read_status_def get_run_def)
  moreover define g where "g = (let st = GetGateNodeState ((nr_nsm r)\<lparr>nsm_nodeStatus := st\<rparr>)
    in if gst_Phase st = GateNodePhaseUndefined then st\<lparr>gst_Phase := GateNodePhaseExecuting\<rparr> else st)"
  ultimately have "handle_condition E nCtx g r = (Go_Ok t, r')"
    using assms(1) by (simp add: gate_Handle_def run_bind_def Let_def)
  moreover have "gst_Phase g = GateNodePhaseExecuting"
    by (cases "gst_Phase (GetGateNodeState ((nr_nsm r)\<lparr>nsm_nodeStatus := st\<rparr>))") (simp_all add: g_def Let_def)
  ultimately show ?thesis
    using handle_answer [OF _ assms(2), of g E] by (simp add: returns_def gate_answer_def)
qed

definition true_literal :: lit_ptr where
  "true_literal = Some (Literal (Some (Literal_Scalar (Some (Scalar (Some (Scalar_Primitive (Some (Some (Primitive_Boolean True))))))))))"

definition signalled :: "unit node_env" where
  "signalled = sample_services\<lparr>ne_signals := \<lparr>sig_GetOrCreateSignal = (\<lambda>q w. (Inr true_literal, w)), sig_literal_text = (\<lambda>l. [])\<rparr>\<rparr>"

definition signal_gate :: "WorkflowStatus NodeExecContext" where
  "signal_gate = sample_context\<lparr>nc_node := (plain_node ''b'')\<lparr>en_GateNode := Some \<lparr>gate_Kind = ''signal'', gate_Approve = None,
     gate_Signal = Some (Some \<lparr>sgc_SignalId = ''s'', sgc_Type = None, sgc_OutputVariableName = ''o''\<rparr>), gate_Sleep = None\<rparr>\<rparr>\<rparr>"

theorem gate_opens_witness:
  "\<exists>t r' st. gate_Handle signalled signal_gate (node_round sample_status) = (Go_Ok t, r') \<and> pi_p (tr_info t) = EPhaseSuccess \<and>
     gate_open signalled signal_gate st ()"
proof -
  obtain st s where st: "nl_status sample_lookup ''b'' sample_status = (Some st, s)"
    using sample_fresh(1) [of "''b''"] by (cases "nl_status sample_lookup ''b'' sample_status") (auto simp: seen_def)
  have own: "own_status signal_gate (node_round sample_status) = (Go_Ok st, node_round sample_status)"
    using st by (simp add: signal_gate_def read_status_def)
  have "\<exists>t. handle_condition signalled signal_gate g (node_round sample_status) = (Go_Ok t, node_round sample_status) \<and> pi_p (tr_info t) = EPhaseSuccess" for g
  proof -
    have "get_signal signalled signal_gate i lt r = (Go_Ok true_literal, r)" for i lt and r :: "(WorkflowStatus, unit) nrun"
      by (simp add: get_signal_def signalled_def world_get_def on_world_def run_bind_def run_ok_def)
    moreover have "\<exists>t. gate_outputs signalled signal_gate m f (node_round sample_status) = (Go_Ok t, node_round sample_status) \<and> pi_p (tr_info t) = EPhaseSuccess" for m f
      using own by (simp add: gate_outputs_def run_bind_def on_world_def run_ok_def Let_def signalled_def sample_services_def)
    ultimately show ?thesis
      by (simp add: handle_condition_def handle_signal_def gate_condition_def signal_gate_def [THEN arg_cong [of _ _ nc_node]]
          ConditionKindApprove_def ConditionKindSignal_def run_bind_def run_ok_def true_literal_def lit_GetValue_def)
  qed
  then obtain t r' where r': "gate_Handle signalled signal_gate (node_round sample_status) = (Go_Ok t, r')" "pi_p (tr_info t) = EPhaseSuccess"
    using own by (simp add: gate_Handle_def get_manager_def get_run_def run_bind_def Let_def) metis
  have "fst (nl_status (nc_nl signal_gate) (nc_id signal_gate) (nr_s (node_round sample_status))) = Some st"
    using st by (simp add: signal_gate_def)
  from gate_opens [OF r'(1) this] r' show ?thesis by (auto simp: node_round_def)
qed

end
