(* ===== verification/Node_Walk.thy ===== *)
theory Node_Walk
  imports Gate_Handler
begin

section \<open>Walks with all handlers\<close>

text \<open>
  The factory of handlers (nodes/factory/handler\_factory.go) with the handlers that are modelled; those of the other kinds are a
  parameter. It keeps the contracts of the walk.
\<close>

definition node_handlers :: "'w node_env \<Rightarrow> ('s, 'w) handlers \<Rightarrow> ('s, 'w) NodeExecutor \<Rightarrow> ('s, 'w) handlers" where
  "node_handlers E other c kind =
     (case kind of
        NodeKindBranch \<Rightarrow> Some (branchHandler E c)
      | NodeKindStart \<Rightarrow> Some (startHandler E)
      | NodeKindEnd \<Rightarrow> Some (endHandler E)
      | NodeKindGate \<Rightarrow> Some (gateHandler E)
      | _ \<Rightarrow> other kind)"

subsection \<open>Choices are kept\<close>

lemma no_choiceD: "no_choice f \<Longrightarrow> choice_of (f n) = Some j \<Longrightarrow> choice_of n = Some j"
  unfolding no_choice_def by (metis option.distinct(1))

lemma right_choice_tame: "tame f \<Longrightarrow> right_choice nCtx m \<Longrightarrow> right_choice nCtx (f m)"
  unfolding tame_def right_choice_def by (metis option.distinct(1))

lemma manager_read:
  assumes "get_manager nCtx r = (Go_Ok m, r')"
  shows "r' = r \<and> (\<exists>st. fst (nl_status (nc_nl nCtx) (nc_id nCtx) (nr_s r)) = Some st \<and> m = (nr_nsm r)\<lparr>nsm_nodeStatus := st\<rparr>)"
  using assms by (cases "fst (nl_status (nc_nl nCtx) (nc_id nCtx) (nr_s r))") (auto simp: get_manager_def run_bind_def read_status_def get_run_def)

locale id_lookup = node_lookup nl "\<lambda>i. i" for nl :: "'s NodeLookup"
begin

lemma right_executor_steps:
  assumes "nc_nl nCtx = nl"
  shows "executor_steps (chooses_right nCtx :: ('s, 'w) nrun \<Rightarrow> _) nCtx"
proof (unfold_locales, goal_cases)
  case (6 f r)
  then show ?case by (simp add: holds_def right_choice_tame)
next
  case (7 i r x s)
  then show ?case using sane_read assms by (auto simp: holds_def)
qed (auto simp: holds_def)

lemma right_changed:
  assumes "nc_nl nCtx = nl" "no_choice f"
  shows "keeps (chooses_right nCtx) (change_status (nc_nl nCtx) j f) UNIV"
proof (rule keeps_all, rule impI)
  fix r r' :: "('s, 'w) nrun" and x
  assume c: "change_status (nc_nl nCtx) j f r = (x, r')" and r: "holds (sane (nc_nl nCtx)) right_choice nCtx r"
  obtain n s where n: "nl_status nl j (nr_s r) = (n, s)" by force
  show "holds (sane (nc_nl nCtx)) right_choice nCtx r'"
  proof (cases n)
    case (Some st)
    have "sane nl (nl_write nl j (f st) s)"
      using r n Some assms by (intro sane_write [of "nr_s r"]) (auto simp: holds_def dest: no_choiceD)
    with c r n Some assms(1) show ?thesis by (auto simp: change_status_def holds_def)
  qed (use c r n assms in \<open>auto simp: change_status_def\<close>)
qed

lemma right_updated:
  fixes E :: "'w node_env"
  assumes "context_in nl nCtx"
  shows "keeps (chooses_right nCtx) (update_node E nCtx np p) UNIV"
proof (rule keeps_all, rule impI)
  fix r r' :: "('s, 'w) nrun" and x
  assume c: "update_node E nCtx np p r = (x, r')" and r: "holds (sane (nc_nl nCtx)) right_choice nCtx r"
  have ctx: "nc_nl nCtx = nl" "nl_GetNode nl (nc_id nCtx) = Some (nc_node nCtx)" using assms by (auto simp: context_in_def)
  obtain n s where n: "nl_status nl (nc_id nCtx) (nr_s r) = (n, s)" by force
  show "holds (sane (nc_nl nCtx)) right_choice nCtx r'"
  proof (cases n)
    case (Some st)
    have "sane nl (nl_write nl (nc_id nCtx) (UpdateNodeStatus (cfg_now (ne_cfg E)) np p (nr_nsm r) (cfg_enableCRDebugMetadata (ne_cfg E)) st) s)"
      using r n Some ctx
      by (intro sane_write [of "nr_s r"]) (auto simp: holds_def right_choice_def dest!: choice_of_UpdateNodeStatus)
    with c r n Some ctx show ?thesis
      by (auto simp: update_node_def run_bind_def get_run_def change_status_def holds_def)
  qed (use c r n ctx in \<open>auto simp: update_node_def run_bind_def get_run_def change_status_def\<close>)
qed

lemma right_changing:
  fixes h :: "('s, 'w) NodeHandler"
  assumes "context_in nl nCtx" "handler_steps (chooses_right nCtx) nCtx h"
  shows "changing_steps (chooses_right nCtx) nCtx h"
  using assms(1) by (intro changing_steps.intro assms(2) changing_steps_axioms.intro right_changed right_updated) (auto simp: context_in_def)

lemma right_modest:
  fixes h :: "('s, 'w) NodeHandler"
  assumes "context_in nl nCtx" "modest nCtx h"
  shows "changing_steps (chooses_right nCtx) nCtx h"
  using assms right_executor_steps modest_right [OF assms(1)] unfolding modest_def
  by (intro right_changing handler_keeps_steps) (auto simp: context_in_def intro: handler_keeps_weaken)

lemma right_branch:
  fixes c :: "('s, 'w) NodeExecutor"
  assumes "context_in nl nCtx" "walks_keep (outer (\<lambda>r r'. sane nl (nr_s r) \<longrightarrow> sane nl (nr_s r'))) nl c"
  shows "branch_steps (chooses_right nCtx) nCtx c"
proof (rule branch_steps.intro [OF right_executor_steps], goal_cases)
  case 2
  have nl: "nc_nl nCtx = nl" using assms(1) by (simp add: context_in_def)
  have "walks_keep (chooses_right nCtx) (nc_nl nCtx) c"
    unfolding nl by (rule walks_keep_weaken [OF assms(2)]) (simp add: outer_def holds_def)
  then show ?case
    by (intro branch_steps_axioms.intro right_changed) (simp_all add: nl holds_def right_choice_def PutBranchNode_def)
qed (use assms in \<open>simp add: context_in_def\<close>)

text \<open>On states with right choices the branch handler calls the executor on nodes of the branch only.\<close>

lemma stored_choice:
  assumes "context_in nl nCtx" "holds (sane nl) right_choice nCtx r" "get_manager nCtx r = (Go_Ok m, r')"
    "bst_FinalizedNodeID (GetBranchNodeState m) = Some j" "en_BranchNode (nc_node nCtx) = Some b"
  shows "r' = r \<and> j \<in> branch_targets b"
proof -
  have nl: "nc_nl nCtx = nl" using assms(1) by (simp add: context_in_def)
  obtain st where st: "fst (nl_status nl (nc_id nCtx) (nr_s r)) = Some st" "m = (nr_nsm r)\<lparr>nsm_nodeStatus := st\<rparr>" "r' = r"
    using manager_read [OF assms(3)] nl by metis
  show ?thesis
  proof (cases "nsm_b (nr_nsm r)")
    case None
    with assms(4) st have "choice_of (clean st) = Some j"
      by (auto simp: GetBranchNodeState_def choice_of_def [of st] split: option.splits)
    moreover have "seen nl (nc_id nCtx) (nr_s r) = Some (clean st, IsDirty st)" using st by (simp add: seen_def obs_def)
    moreover have "nl_GetNode nl (nc_id nCtx) = Some (nc_node nCtx)" using assms(1) by (simp add: context_in_def)
    ultimately show ?thesis using assms(2,5) st(3) unfolding holds_def sane_def by blast
  next
    case (Some x)
    with assms(2,4,5) st show ?thesis by (auto simp: GetBranchNodeState_def holds_def right_choice_def)
  qed
qed

end

locale branch_walk = id_lookup nl
  for nl :: "'s NodeLookup" +
  fixes rank :: "string \<Rightarrow> nat" and nCtx :: "'s NodeExecContext" and b :: BranchNodeSpec
    and x y :: "('s, 'w) NodeExecutor" and E :: "'w node_env"
  assumes ctx: "context_in nl nCtx" and is_branch: "en_BranchNode (nc_node nCtx) = Some b"
    and targets_below: "j \<in> branch_targets b \<Longrightarrow> nl_GetNode nl j = Some m \<Longrightarrow> rank (en_ID m) < rank (nc_id nCtx)"
    and executors: "agree (sane nl) nl rank (rank (nc_id nCtx)) x y"
    and walked_y: "walks_keep (outer (\<lambda>r r'. sane nl (nr_s r) \<longrightarrow> sane nl (nr_s r'))) nl y"
begin

sublocale steps: branch_steps "chooses_right nCtx" nCtx y
  by (rule right_branch [OF ctx walked_y])

lemma own_lookup: "nc_nl nCtx = nl"
  using ctx by (simp add: context_in_def)

abbreviation right :: "('s, 'w) nrun \<Rightarrow> bool" where
  "right r \<equiv> holds (sane (nc_nl nCtx)) right_choice nCtx r"

lemma bind_kept:
  fixes m :: "('a, ('s, 'w) nrun) grun"
  assumes "keeps (chooses_right nCtx) m S" "right r" "\<And>v r'. m r = (Go_Ok v, r') \<Longrightarrow> right r' \<Longrightarrow> f v r' = g v r'"
  shows "run_bind m f r = run_bind m g r"
  using assms keeps_result [OF assms(1)] by (intro run_bind_cong) auto

lemma run_bind_put: "run_bind (put_manager f) k r = k () (r\<lparr>nr_nsm := f (nr_nsm r)\<rparr>)"
  by (simp add: run_bind_def put_manager_def)

lemma leaf_ranked: "leaf_of nCtx n r = (Go_Ok dag, r') \<Longrightarrow> ranked dag (nc_nl nCtx) rank"
  by (auto simp: leaf_of_def run_bind_Ok run_ok_def ranked_def NewLeafNodeDAGStructure_def)

lemma same_nested:
  assumes "right r" "ranked dag (nc_nl nCtx) rank" "j \<in> branch_targets b" "nl_GetNode (nc_nl nCtx) j = Some n"
  shows "nx_RecursiveNodeHandler x xc dag (nc_nl nCtx) n r = nx_RecursiveNodeHandler y xc dag (nc_nl nCtx) n r"
    "nx_FinalizeHandler x xc dag (nc_nl nCtx) n r = nx_FinalizeHandler y xc dag (nc_nl nCtx) n r"
    "nx_AbortHandler x xc dag (nc_nl nCtx) n reason r = nx_AbortHandler y xc dag (nc_nl nCtx) n reason r"
  using executors assms targets_below [OF assms(3) assms(4) [unfolded own_lookup]] unfolding agree_def holds_def own_lookup by blast+

lemma same_recurse:
  assumes "right r" "j \<in> branch_targets b" "nl_GetNode (nc_nl nCtx) j = Some n"
  shows "recurseDownstream E x nCtx n r = recurseDownstream E y nCtx n r"
proof -
  have "run_bind (nx_RecursiveNodeHandler x xc dag (nc_nl nCtx) n) k r' = run_bind (nx_RecursiveNodeHandler y xc dag (nc_nl nCtx) n) k r'"
    if "right r'" "ranked dag (nc_nl nCtx) rank" for xc dag r' and k :: "ExecStatus \<Rightarrow> (Transition, ('s, 'w) nrun) grun"
    using same_nested(1) [OF that assms(2,3)] by (simp add: run_bind_def)
  then show ?thesis
    unfolding recurseDownstream_def
    by (intro bind_kept [OF steps.keeps_downstream(3) assms(1)])
      (auto intro!: bind_kept [OF steps.any_changed [OF no_choice_child(2)]] bind_kept [OF steps.keeps_downstream(2)]
        bind_kept [OF steps.keeps_downstream(1)] dest: leaf_ranked split: prod.split)
qed

lemma same_take:
  assumes "right r" "j \<in> branch_targets b"
  shows "take_branch E x nCtx j r = take_branch E y nCtx j r"
proof -
  have "right (r\<lparr>nr_nsm := PutBranchNode \<lparr>bst_FinalizedNodeID = Some j, bst_Phase = BranchNodeSuccess\<rparr> (nr_nsm r)\<rparr>)"
    using steps.chosen [OF is_branch assms(2), of r] assms(1) by simp
  then show ?thesis
    unfolding take_branch_def run_bind_put
    by (auto intro!: bind_kept [OF steps.any_changed [OF no_choice_child(1)]] same_recurse assms(2) split: option.split)
qed

lemma same_branch_Handle:
  assumes "right r"
  shows "branch_Handle E x nCtx r = branch_Handle E y nCtx r"
proof -
  have decide: "decide_branch E x b nCtx r1 = decide_branch E y b nCtx r1" if "right r1" for r1
  proof -
    have inputs: "keeps (chooses_right nCtx) (read_inputs E nCtx) UNIV" unfolding read_inputs_def Let_def by (rule steps.keeps_world)
    have "take_branch E x nCtx j r3 = take_branch E y nCtx j r3"
      if "read_inputs E nCtx r1 = (Go_Ok m, r2)" "on_lookup (DecideBranch now (nc_nl nCtx) b m) r2 = (Go_Ok j, r3)" for m r2 j r3 now
      using keeps_result [OF inputs that(1)] keeps_result [OF steps.keeps_DecideBranch that(2)] \<open>right r1\<close>
      by (intro same_take) auto
    then show ?thesis
      unfolding decide_branch_def by (auto split: prod.split go.split)
  qed
  show ?thesis
    unfolding branch_Handle_def HandleBranchNode_def is_branch option.case
  proof (rule run_bind_cong)
    fix m r'
    assume m: "get_manager nCtx r = (Go_Ok m, r')"
    then have "right r'" using keeps_result [OF steps.keeps_manager m] assms by simp
    with decide same_recurse stored_choice [OF ctx assms [unfolded own_lookup] m _ is_branch]
    show "(case bst_FinalizedNodeID (GetBranchNodeState m) of None \<Rightarrow> decide_branch E x b nCtx
        | Some i \<Rightarrow> (case nl_GetNode (nc_nl nCtx) i of
            None \<Rightarrow> run_ok (transition_failed (ne_cfg E) Kind_SYSTEM ''DownstreamNodeNotFound'' (''Downstream node ['' @ i @ ''] not found''))
          | Some n \<Rightarrow> recurseDownstream E x nCtx n)) r' =
      (case bst_FinalizedNodeID (GetBranchNodeState m) of None \<Rightarrow> decide_branch E y b nCtx
        | Some i \<Rightarrow> (case nl_GetNode (nc_nl nCtx) i of
            None \<Rightarrow> run_ok (transition_failed (ne_cfg E) Kind_SYSTEM ''DownstreamNodeNotFound'' (''Downstream node ['' @ i @ ''] not found''))
          | Some n \<Rightarrow> recurseDownstream E y nCtx n)) r'"
      by (auto split: option.split)
  qed
qed

lemma same_on_branch_taken:
  assumes "right r" "\<And>xc dag j n r. right r \<Longrightarrow> ranked dag (nc_nl nCtx) rank \<Longrightarrow> j \<in> branch_targets b \<Longrightarrow> nl_GetNode (nc_nl nCtx) j = Some n \<Longrightarrow>
    act xc dag (nc_nl nCtx) n r = act' xc dag (nc_nl nCtx) n r"
  shows "on_branch_taken nCtx act r = on_branch_taken nCtx act' r"
  unfolding on_branch_taken_def is_branch
proof (simp, rule run_bind_cong)
  fix m r'
  assume m: "get_manager nCtx r = (Go_Ok m, r')"
  then have r': "right r'" using keeps_result [OF steps.keeps_manager m] assms by simp
  have "run_bind (leaf_of nCtx n) (\<lambda>dag. run_bind (getExecutionContextForDownstream nCtx) (\<lambda>xc. act xc dag (nc_nl nCtx) n)) r' =
      run_bind (leaf_of nCtx n) (\<lambda>dag. run_bind (getExecutionContextForDownstream nCtx) (\<lambda>xc. act' xc dag (nc_nl nCtx) n)) r'"
    if "j \<in> branch_targets b" "nl_GetNode (nc_nl nCtx) j = Some n" for j n
    using that by (intro bind_kept [OF steps.keeps_downstream(2) r'] bind_kept [OF steps.keeps_downstream(1)]) (auto dest: leaf_ranked intro: assms(2))
  with stored_choice [OF ctx assms(1) [unfolded own_lookup] m _ is_branch]
  show "(if bst_Phase (GetBranchNodeState m) = BranchNodeNotYetEvaluated \<or> bst_Phase (GetBranchNodeState m) = BranchNodeError then run_ok ()
      else case bst_FinalizedNodeID (GetBranchNodeState m) of None \<Rightarrow> run_panic
        | Some i \<Rightarrow> (case nl_GetNode (nc_nl nCtx) i of None \<Rightarrow> run_ok ()
          | Some n \<Rightarrow> run_bind (leaf_of nCtx n) (\<lambda>dag. run_bind (getExecutionContextForDownstream nCtx) (\<lambda>xc. act xc dag (nc_nl nCtx) n)))) r' =
    (if bst_Phase (GetBranchNodeState m) = BranchNodeNotYetEvaluated \<or> bst_Phase (GetBranchNodeState m) = BranchNodeError then run_ok ()
      else case bst_FinalizedNodeID (GetBranchNodeState m) of None \<Rightarrow> run_panic
        | Some i \<Rightarrow> (case nl_GetNode (nc_nl nCtx) i of None \<Rightarrow> run_ok ()
          | Some n \<Rightarrow> run_bind (leaf_of nCtx n) (\<lambda>dag. run_bind (getExecutionContextForDownstream nCtx) (\<lambda>xc. act' xc dag (nc_nl nCtx) n)))) r'"
    by (auto split: option.split)
qed

lemma same_branchHandler: "same_handler right nCtx (branchHandler E x) (branchHandler E y)"
  unfolding same_handler_def branchHandler_def
  by (auto intro!: same_branch_Handle same_on_branch_taken same_nested)

end

subsection \<open>The contract of the walk\<close>

context run_steps
begin

lemma plain_handlers: "handler_keeps R nCtx (startHandler E)" "handler_keeps R nCtx (endHandler E)"
  by (auto simp: handler_keeps_def startHandler_def endHandler_def endHandler_Handle_def read_inputs_def Let_def intro!: keeps_intros)

end

lemma modest_step_trans: "modest_step nCtx a b \<Longrightarrow> modest_step nCtx b c \<Longrightarrow> modest_step nCtx a c"
  unfolding modest_step_def by metis

interpretation modest: run_steps "modest_step nCtx" for nCtx :: "'s NodeExecContext"
  by unfold_locales (auto simp: modest_step_def tame_def intro: modest_step_trans)

lemma modest_handlers: "modest nCtx (startHandler E)" "modest nCtx (endHandler E)"
  unfolding modest_def by (rule modest.plain_handlers)+

locale workflow_walk = id_lookup nl
  for nl :: "'s NodeLookup" +
  fixes E :: "'w node_env" and other :: "('s, 'w) handlers" and rank :: "string \<Rightarrow> nat"
  assumes others: "context_in nl nCtx \<Longrightarrow> other kind = Some h \<Longrightarrow> modest nCtx h"
    and targets_below: "nl_GetNode nl i = Some n \<Longrightarrow> en_BranchNode n = Some b \<Longrightarrow> j \<in> branch_targets b \<Longrightarrow> nl_GetNode nl j = Some m \<Longrightarrow>
      rank (en_ID m) < rank i"
begin

lemma modest_gate: "nc_nl nCtx = nl \<Longrightarrow> modest nCtx (gateHandler E)"
proof (unfold modest_def, rule executor_steps.gate_kept, unfold_locales)
  fix i x s and r :: "('s, 'w) nrun"
  assume "nc_nl nCtx = nl" "nl_status (nc_nl nCtx) i (nr_s r) = (x, s)"
  moreover from this have "seen nl j s = seen nl j (nr_s r)" for j using seen_status [of j i "nr_s r"] by simp
  ultimately show "modest_step nCtx r (r\<lparr>nr_s := s\<rparr>)" by (simp add: modest_step_def)
qed

lemma modest_kind: "context_in nl nCtx \<Longrightarrow> node_handlers E other c kind = Some h \<Longrightarrow> kind = NodeKindBranch \<or> modest nCtx h"
  using others modest_handlers modest_gate by (auto simp: node_handlers_def context_in_def split: NodeKind.splits)

lemma right_handlers:
  assumes "walks_keep (outer (\<lambda>r r'. sane nl (nr_s r) \<longrightarrow> sane nl (nr_s r'))) nl c" "context_in nl nCtx" "node_handlers E other c kind = Some h"
  shows "changing_steps (chooses_right nCtx) nCtx h"
proof (cases "kind = NodeKindBranch")
  case True
  have "handler_steps (chooses_right nCtx) nCtx (branchHandler E c)"
    by (rule branch_steps.branch_handled [OF right_branch [OF assms(2,1)]])
  with True assms show ?thesis by (auto simp: node_handlers_def intro: right_changing)
next
  case False
  with modest_kind [OF assms(2,3)] assms(2) show ?thesis by (auto intro: right_modest)
qed

lemma family: "handler_family nl (node_handlers E other) (sane nl) right_choice rank"
proof (rule handler_family.intro, goal_cases)
  case (1 s i st' s')
  then show ?case by (rule sane_read)
next
  case (2 nCtx st)
  show ?case by (simp add: right_choice_def newNodeStateManager_def)
next
  case (3 c nCtx kind h)
  then have "nc_nl nCtx = nl" by (simp add: context_in_def)
  with right_handlers [OF 3] show ?case by simp
next
  case (4 nCtx x y kind)
  have branch: "same_handler (holds (sane nl) right_choice nCtx) nCtx (branchHandler E x) (branchHandler E y)"
  proof (cases "en_BranchNode (nc_node nCtx)")
    case None
    then show ?thesis by (simp add: same_handler_def branchHandler_def branch_Handle_def on_branch_taken_def)
  next
    case (Some b)
    have "branch_walk nl rank nCtx b x y"
      using 4 Some targets_below by unfold_locales (auto simp: context_in_def)
    from branch_walk.same_branchHandler [OF this, of E] 4(1) show ?thesis by (simp add: context_in_def)
  qed
  show ?case
    using branch by (simp add: node_handlers_def option.rel_refl split: NodeKind.split)
next
  case (5 x kind y)
  show ?case by (simp add: node_handlers_def split: NodeKind.split)
qed

sublocale handler_family nl E "node_handlers E other" "sane nl" right_choice rank
  by (rule family)

end

end
