(* ===== verification/Walk_Results.thy ===== *)
theory Walk_Results
  imports Node_Walk
begin

section \<open>What a walk over a workflow does\<close>

text \<open>
  Three properties of the executor on the nodes of a workflow: a walk ends, it answers that the workflow is complete exactly if every node
  that can be reached has ended well, and it keeps the choices of the branches. The first two hold for arbitrary handlers of
  tasks, gates, arrays and sub-workflows, as long as these leave the other nodes alone.
\<close>

subsection \<open>Complete workflows\<close>

definition ended_well :: "NodePhase \<Rightarrow> bool" where
  "ended_well p \<longleftrightarrow> p = NodePhaseSucceeded \<or> p = NodePhaseSkipped \<or> p = NodePhaseRecovered"

inductive complete_below :: "DAGStructure \<Rightarrow> 's NodeLookup \<Rightarrow> 's \<Rightarrow> NodeSpec \<Rightarrow> bool"
  for dag nl s where
  complete_belowI: "seen nl (en_ID n) s = Some (st, d) \<Longrightarrow> ended_well (ns_Phase (ns st)) \<Longrightarrow> dag_FromNode dag (en_ID n) = Go_Ok ds \<Longrightarrow>
    (\<And>j. j \<in> set ds \<Longrightarrow> \<exists>m. nl_GetNode nl j = Some m \<and> complete_below dag nl s m) \<Longrightarrow> complete_below dag nl s n"

inductive_cases complete_belowE: "complete_below dag nl s n"

definition same_seen :: "'s NodeLookup \<Rightarrow> 's \<Rightarrow> 's \<Rightarrow> bool" where
  "same_seen nl s s' \<longleftrightarrow> (\<forall>i. seen nl i s' = seen nl i s)"

lemma same_seen_simps [simp]: "same_seen nl s s"
  by (simp add: same_seen_def)

lemma same_seen_trans [trans]: "same_seen nl a b \<Longrightarrow> same_seen nl b c \<Longrightarrow> same_seen nl a c"
  by (simp add: same_seen_def)

lemma complete_below_seen: "complete_below dag nl s n \<Longrightarrow> same_seen nl s s' \<Longrightarrow> complete_below dag nl s' n"
proof (induction rule: complete_below.induct)
  case (complete_belowI n st d ds)
  show ?case
    using complete_belowI by (intro complete_below.complete_belowI [of nl n s' st d dag ds]) (auto simp: same_seen_def)
qed

lemma count_execution_state: "count_execution n p r = (x, r') \<Longrightarrow> x = Go_Ok () \<and> nr_s r' = nr_s r"
  by (auto simp: count_execution_def run_bind_def change_flow_def run_ok_def split: if_splits)

text \<open>Whatever the handlers do, a node that is worked on does not make its round complete.\<close>

lemma handled_not_complete:
  fixes h :: "('s, 'w) NodeHandler"
  shows "keeps (\<lambda>_ _. True) (HandleNode E dag nCtx h) {x. \<not> IsComplete x}"
proof -
  have "changing_steps (\<lambda>_ _. True) nCtx h" by unfold_locales (simp_all add: keeps_def)
  then show ?thesis by (rule changing_steps.keeps_HandleNode)
qed

interpretation any: walk_steps "\<lambda>_ _. True" nl E F
  for nl :: "'s NodeLookup" and E :: "'w node_env" and F :: "('s, 'w) NodeExecutor \<Rightarrow> ('s, 'w) handlers"
  by unfold_locales (simp_all add: keeps_fresh_keeps [OF handled_not_complete], simp_all add: keeps_fresh_def)

context node_lookup
begin

lemma found_seen:
  assumes "find_status nl i r = (Go_Ok st, r')"
  shows "seen nl i (nr_s r) = Some (obs st) \<and> same_seen nl (nr_s r) (nr_s r')"
  using assms seen_status [of _ i "nr_s r"]
  by (cases "nl_status nl i (nr_s r)") (auto simp: find_status_def seen_def same_seen_def split: option.splits)

lemma loop_complete:
  assumes "\<And>m r st r'. f m r = (Go_Ok st, r') \<Longrightarrow> IsComplete st \<Longrightarrow> complete_below dag nl (nr_s r) m \<and> same_seen nl (nr_s r) (nr_s r')"
    and "downstream_loop cfg f xc nl i ds c p x r = (Go_Ok st, r')" "IsComplete st"
  shows "c \<and> IsComplete x \<and> (\<forall>j \<in> set ds. \<exists>m. nl_GetNode nl j = Some m \<and> complete_below dag nl (nr_s r) m) \<and> same_seen nl (nr_s r) (nr_s r')"
  using assms(2)
proof (induction ds arbitrary: c p x r)
  case Nil
  with assms(3) show ?case by (auto simp: run_ok_def exec_statuses IsComplete_def split: if_splits)
next
  case (Cons d ds)
  show ?case
  proof (cases "nl_GetNode nl d")
    case None
    with Cons.prems assms(3) show ?thesis by (auto simp: run_ok_def bad_specification_def exec_statuses IsComplete_def)
  next
    case (Some m)
    with Cons.prems obtain y r1 where y: "f m r = (Go_Ok y, r1)" by (auto simp: run_bind_Ok)
    show ?thesis
    proof (cases "HasFailed y \<or> HasTimedOut y")
      case True
      then have "\<not> IsComplete y" by (auto simp: HasFailed_def HasTimedOut_def IsComplete_def)
      with True Cons Some y assms(3) show ?thesis by (auto simp: run_bind_def run_ok_def split: if_splits)
    next
      case False
      with Cons.prems Some y
      have "downstream_loop cfg f xc nl i ds (c \<and> IsComplete y) (p \<or> PartiallyComplete y) x r1 = (Go_Ok st, r')"
        by (simp add: run_bind_def)
      from Cons.IH [OF this] have rest: "c" "IsComplete y" "IsComplete x" "same_seen nl (nr_s r1) (nr_s r')"
        "\<forall>j \<in> set ds. \<exists>m. nl_GetNode nl j = Some m \<and> complete_below dag nl (nr_s r1) m" by auto
      from assms(1) [OF y rest(2)] have first: "complete_below dag nl (nr_s r) m" "same_seen nl (nr_s r) (nr_s r1)" by auto
      moreover have "same_seen nl (nr_s r1) (nr_s r)" using first(2) by (simp add: same_seen_def)
      ultimately show ?thesis using rest Some by (auto intro: same_seen_trans complete_below_seen)
    qed
  qed
qed

lemma complete_step:
  assumes "RecursiveNodeHandler E (F c) c xc dag nl n r = (Go_Ok st, r')" "IsComplete st" "walks_keep (outer (\<lambda>_ _. True)) nl c"
  obtains st0 r2 where "seen nl (en_ID n) (nr_s r) = Some (obs st0)" "ended_well (ns_Phase (ns st0))" "same_seen nl (nr_s r) (nr_s r2)"
    "handleDownstream (ne_cfg E) (nx_RecursiveNodeHandler c xc dag nl) xc dag nl n r2 = (Go_Ok st, r')"
proof -
  from assms(1) obtain st0 r1 where found: "find_status nl (en_ID n) r = (Go_Ok st0, r1)"
    by (auto simp: RecursiveNodeHandler_def run_bind_Ok)
  define p where "p = ns_Phase (ns st0)"
  obtain r2 where count: "count_execution n p r1 = (Go_Ok (), r2)" and r2: "nr_s r2 = nr_s r1"
    using count_execution_state [of n p r1] by (metis prod.collapse)
  have visit: "\<not> IsComplete y" if "visit_node E (F c) xc dag nl n st0 r2 = (Go_Ok y, r3)" for y r3
    using that keeps_result [OF any.keeps_handle_current [OF assms(3)]]
    by (auto simp: visit_node_def run_bind_Ok run_ok_def exec_statuses IsComplete_def split: if_splits)
  have not_yet: "\<not> IsComplete (NodeStatusFailed e)" "\<not> IsComplete NodeStatusTimedOut" for e
    by (simp_all add: exec_statuses IsComplete_def)
  have "ended_well p \<and> handleDownstream (ne_cfg E) (nx_RecursiveNodeHandler c xc dag nl) xc dag nl n r2 = (Go_Ok st, r')"
    using assms(1,2) found count visit not_yet
    by (auto simp: Let_def RecursiveNodeHandler_def run_bind_def [of "find_status nl (en_ID n)"] p_def [symmetric] run_bind_def [of "count_execution n p"]
        run_bind_Ok run_ok_def run_err_def ended_well_def split: if_splits)
  with found_seen [OF found] r2 show thesis by (intro that [of st0 r2]) (auto simp: p_def)
qed

lemma walk_complete:
  "nx_RecursiveNodeHandler (executor E F stack_overflow k) xc dag nl n r = (Go_Ok st, r') \<Longrightarrow> IsComplete st \<Longrightarrow>
     complete_below dag nl (nr_s r) n \<and> same_seen nl (nr_s r) (nr_s r')"
proof (induction k arbitrary: n r st r')
  case 0
  then show ?case by (simp add: stack_overflow_def run_panic_def)
next
  case (Suc k)
  let ?c = "executor E F stack_overflow k"
  obtain st0 r2 where st0: "seen nl (en_ID n) (nr_s r) = Some (obs st0)" "ended_well (ns_Phase (ns st0))" "same_seen nl (nr_s r) (nr_s r2)"
    and down: "handleDownstream (ne_cfg E) (nx_RecursiveNodeHandler ?c xc dag nl) xc dag nl n r2 = (Go_Ok st, r')"
    using Suc.prems any.executor_keeps [OF any.overflow_keeps] by (auto simp: Let_def elim!: complete_step)
  obtain ds where ds: "dag_FromNode dag (en_ID n) = Go_Ok ds"
    using down Suc.prems(2) by (auto simp: handleDownstream_def bad_specification_def run_ok_def run_panic_def exec_statuses IsComplete_def split: go.splits)
  have "(\<forall>j \<in> set ds. \<exists>m. nl_GetNode nl j = Some m \<and> complete_below dag nl (nr_s r2) m) \<and> same_seen nl (nr_s r2) (nr_s r')"
  proof (cases "ds = []")
    case True
    with down ds show ?thesis by (simp add: handleDownstream_def run_ok_def)
  next
    case False
    with down ds have "downstream_loop (ne_cfg E) (nx_RecursiveNodeHandler ?c xc dag nl) xc nl (en_ID n) ds True False NodeStatusComplete r2 = (Go_Ok st, r')"
      by (simp add: handleDownstream_def)
    from loop_complete [OF _ this Suc.prems(2), of dag] Suc.IH show ?thesis by blast
  qed
  moreover have "same_seen nl (nr_s r2) (nr_s r)" using st0(3) by (simp add: same_seen_def)
  ultimately have "\<forall>j \<in> set ds. \<exists>m. nl_GetNode nl j = Some m \<and> complete_below dag nl (nr_s r) m" "same_seen nl (nr_s r) (nr_s r')"
    using st0(3) by (meson complete_below_seen same_seen_trans)+
  with st0(1,2) ds show ?case by (auto intro!: complete_belowI simp: obs_def skip_phase)
qed

lemma complete_loop:
  assumes "\<And>m r. m \<in> S \<Longrightarrow> same_seen nl s (nr_s r) \<Longrightarrow> \<exists>r'. f m r = (Go_Ok NodeStatusComplete, r') \<and> same_seen nl s (nr_s r')"
    "\<And>j. j \<in> set ds \<Longrightarrow> \<exists>m. nl_GetNode nl j = Some m \<and> m \<in> S" "same_seen nl s (nr_s r)"
  shows "\<exists>r'. downstream_loop cfg f xc nl i ds True False NodeStatusComplete r = (Go_Ok NodeStatusComplete, r') \<and> same_seen nl s (nr_s r')"
  using assms(2,3)
proof (induction ds arbitrary: r)
  case (Cons d ds)
  then obtain m where m: "nl_GetNode nl d = Some m" "m \<in> S" by auto
  from assms(1) [OF m(2) Cons.prems(2)] obtain r1 where "f m r = (Go_Ok NodeStatusComplete, r1)" "same_seen nl s (nr_s r1)" by blast
  with Cons.IH [of r1] Cons.prems(1) m(1) show ?case
    by (simp add: run_bind_def HasFailed_def HasTimedOut_def IsComplete_def PartiallyComplete_def exec_statuses)
qed (simp add: run_ok_def)

lemma complete_walk:
  fixes E :: "'w node_env"
  shows "complete_below dag nl s n \<Longrightarrow> ranked dag nl rank \<Longrightarrow> rank (en_ID n) < k \<Longrightarrow> same_seen nl s (nr_s r) \<Longrightarrow>
     \<exists>r'. nx_RecursiveNodeHandler (executor E F c k) xc dag nl n r = (Go_Ok NodeStatusComplete, r') \<and> same_seen nl s (nr_s r')"
proof (induction arbitrary: k r rule: complete_below.induct)
  case (complete_belowI n st d ds)
  obtain l where k: "k = Suc l" using complete_belowI.prems(2) by (cases k) auto
  obtain x s1 where x: "nl_status nl (en_ID n) (nr_s r) = (x, s1)" by force
  have seen_n: "seen nl (en_ID n) (nr_s r) = Some (st, d)" using complete_belowI.prems(3) complete_belowI.hyps(1) by (simp add: same_seen_def)
  then obtain st0 where st0: "x = Some st0" "st = clean st0" using x by (auto simp: seen_def obs_def)
  then have found: "find_status nl (en_ID n) r = (Go_Ok st0, r\<lparr>nr_s := s1\<rparr>)" using x by (simp add: find_status_def)
  obtain r2 where count: "count_execution n (ns_Phase (ns st0)) (r\<lparr>nr_s := s1\<rparr>) = (Go_Ok (), r2)" and r2: "nr_s r2 = s1"
    using count_execution_state [of n "ns_Phase (ns st0)" "r\<lparr>nr_s := s1\<rparr>"] by (metis nrun.select_convs(1) nrun.update_convs(1) nrun.surjective prod.collapse)
  have ended: "ended_well (ns_Phase (ns st0))" using complete_belowI.hyps(2) st0 by (simp add: skip_phase)
  have s2: "same_seen nl s (nr_s r2)" using found_seen [OF found] complete_belowI.prems(3) r2 by (simp add: same_seen_def)
  let ?f = "nx_RecursiveNodeHandler (executor E F c l) xc dag nl"
  have "\<exists>r'. downstream_loop (ne_cfg E) ?f xc nl (en_ID n) ds True False NodeStatusComplete r2 = (Go_Ok NodeStatusComplete, r') \<and> same_seen nl s (nr_s r')"
  proof (rule complete_loop [OF _ _ s2, of "{m. \<exists>j \<in> set ds. nl_GetNode nl j = Some m}"])
    fix m and r :: "('s, 'w) nrun"
    assume m: "m \<in> {m. \<exists>j \<in> set ds. nl_GetNode nl j = Some m}" and r: "same_seen nl s (nr_s r)"
    then obtain j where j: "j \<in> set ds" "nl_GetNode nl j = Some m" by blast
    moreover have "rank (en_ID m) < l"
      using complete_belowI.prems(1,2) complete_belowI.hyps(3) j k unfolding ranked_def by (meson less_Suc_eq_le less_le_trans)
    ultimately show "\<exists>r'. ?f m r = (Go_Ok NodeStatusComplete, r') \<and> same_seen nl s (nr_s r')"
      using complete_belowI.IH [OF j(1)] complete_belowI.prems(1) r by auto
  qed (use complete_belowI.IH in blast)
  with found count ended complete_belowI.hyps(3) show ?case
    by (auto simp: k Let_def RecursiveNodeHandler_def run_bind_def handleDownstream_def ended_well_def run_ok_def canHandleNode_def s2)
qed

end

subsection \<open>Workflows without cycles\<close>

text \<open>A walk goes along the edges of the workflow, and from a branch node to the nodes of its branches.\<close>

definition walk_edges :: "WorkflowSpec \<Rightarrow> (string \<times> string) set" where
  "walk_edges w = {(i, en_ID m) | i j m. spec_GetNode w j = Some m \<and>
     ((\<exists>ds. spec_FromNode w i = Go_Ok ds \<and> j \<in> set ds) \<or>
      (\<exists>n b. spec_GetNode w i = Some n \<and> en_BranchNode n = Some b \<and> j \<in> branch_targets b))}"

abbreviation walk_rank :: "WorkflowSpec \<Rightarrow> string \<Rightarrow> nat" where
  "walk_rank w \<equiv> reach_rank (walk_edges w)"

definition walk_ids :: "WorkflowSpec \<Rightarrow> string set" where
  "walk_ids w = set (map fst (spec_Nodes w)) \<union> set (map (en_ID \<circ> snd) (spec_Nodes w))"

lemma walk_edgesI:
  "spec_FromNode w i = Go_Ok ds \<Longrightarrow> j \<in> set ds \<Longrightarrow> spec_GetNode w j = Some m \<Longrightarrow> (i, en_ID m) \<in> walk_edges w"
  "spec_GetNode w i = Some n \<Longrightarrow> en_BranchNode n = Some b \<Longrightarrow> j \<in> branch_targets b \<Longrightarrow> spec_GetNode w j = Some m \<Longrightarrow>
     (i, en_ID m) \<in> walk_edges w"
  by (auto simp: walk_edges_def)

lemma walk_edges_ids: "walk_edges w \<subseteq> walk_ids w \<times> walk_ids w"
proof -
  have node: "i \<in> walk_ids w" "en_ID n \<in> walk_ids w" if "spec_GetNode w i = Some n" for i n
    using map_of_SomeD [OF that [unfolded spec_GetNode_def]] unfolding walk_ids_def by force+
  moreover have "spec_GetNode w i \<noteq> None" if "spec_FromNode w i = Go_Ok ds" for i ds
    using that by (simp add: spec_FromNode_def spec_GetNode_def split: if_splits)
  ultimately show ?thesis unfolding walk_edges_def by fastforce
qed

lemma walk_rank_bound: "walk_rank w i \<le> 2 * length (spec_Nodes w)"
proof -
  have "walk_rank w i \<le> card (walk_ids w)"
    by (intro reach_rank_bound walk_edges_ids) (simp add: walk_ids_def)
  also have "\<dots> \<le> card (set (map fst (spec_Nodes w))) + card (set (map (en_ID \<circ> snd) (spec_Nodes w)))"
    unfolding walk_ids_def by (rule card_Un_le)
  also have "\<dots> \<le> length (spec_Nodes w) + length (spec_Nodes w)"
    by (intro add_mono order_trans [OF card_length]) simp_all
  finally show ?thesis by simp
qed

locale acyclic_workflow =
  fixes w :: WorkflowSpec
  assumes no_cycle: "acyclic (walk_edges w)"
begin

lemma rank_falls: "(i, j) \<in> walk_edges w \<Longrightarrow> walk_rank w j < walk_rank w i"
  using walk_edges_ids [of w] by (intro reach_rank_less no_cycle) (auto simp: walk_ids_def intro: finite_subset)

lemma spec_ranked: "ranked (spec_dag w) (workflow_lookup refs fmt w) (walk_rank w)"
  unfolding ranked_def by (auto intro: rank_falls [OF walk_edgesI(1)])

lemma targets_ranked:
  "spec_GetNode w i = Some n \<Longrightarrow> en_BranchNode n = Some b \<Longrightarrow> j \<in> branch_targets b \<Longrightarrow> spec_GetNode w j = Some m \<Longrightarrow>
     walk_rank w (en_ID m) < walk_rank w i"
  by (rule rank_falls [OF walk_edgesI(2)])

lemma complete_iff:
  fixes E :: "'w node_env"
  assumes "2 * length (spec_Nodes w) < k"
    and "nx_RecursiveNodeHandler (executor E F stack_overflow k) xc (spec_dag w) (workflow_lookup refs fmt w) n r = (Go_Ok st, r')"
  shows "IsComplete st \<longleftrightarrow> complete_below (spec_dag w) (workflow_lookup refs fmt w) (nr_s r) n"
proof
  assume "complete_below (spec_dag w) (workflow_lookup refs fmt w) (nr_s r) n"
  moreover have "walk_rank w (en_ID n) < k" using walk_rank_bound [of w "en_ID n"] assms(1) by simp
  ultimately have "st = NodeStatusComplete"
    using workflow.complete_walk [OF _ spec_ranked _ same_seen_simps, of refs fmt r n k E F stack_overflow xc] assms(2) by auto
  then show "IsComplete st" by (simp add: IsComplete_def exec_statuses)
qed (use workflow.walk_complete [OF assms(2)] in blast)

lemma walks:
  fixes other :: "(WorkflowStatus, 'w) handlers"
  assumes "\<And>nCtx kind h. context_in (workflow_lookup refs fmt w) nCtx \<Longrightarrow> other kind = Some h \<Longrightarrow> modest nCtx h"
  shows "workflow_walk (workflow_lookup refs fmt w) other (walk_rank w)"
  using assms targets_ranked by unfold_locales auto

end


text \<open>
  Property C8. A branch that has been decided stays so: if every stored choice of a branch node is one of the nodes of its branches, then
  so it is after a walk, however the walk ends, and likewise after finalizing and after aborting.
\<close>

theorem choices_stay_targets:
  fixes E :: "'w node_env"
  assumes "acyclic (walk_edges w)"
    and "\<And>nCtx kind h. context_in (workflow_lookup refs fmt w) nCtx \<Longrightarrow> other kind = Some h \<Longrightarrow> modest nCtx h"
    and "sane (workflow_lookup refs fmt w) (nr_s r)"
    and "x = executor E (node_handlers E other) stack_overflow k"
  shows "sane (workflow_lookup refs fmt w) (nr_s (snd (nx_RecursiveNodeHandler x xc dag (workflow_lookup refs fmt w) n r))) \<and>
    sane (workflow_lookup refs fmt w) (nr_s (snd (nx_FinalizeHandler x xc dag (workflow_lookup refs fmt w) n r))) \<and>
    sane (workflow_lookup refs fmt w) (nr_s (snd (nx_AbortHandler x xc dag (workflow_lookup refs fmt w) n reason r)))"
proof -
  have ac: "acyclic_workflow w" using assms(1) by unfold_locales
  note walk = acyclic_workflow.walks [OF ac assms(2)]
  have "walks_keep (outer (\<lambda>r r'. sane (workflow_lookup refs fmt w) (nr_s r) \<longrightarrow> sane (workflow_lookup refs fmt w) (nr_s r')))
      (workflow_lookup refs fmt w) x"
    unfolding assms(4) by (rule handler_family.walk_keeps [OF workflow_walk.family [OF walk]])
  with assms(3) show ?thesis unfolding walks_keep_def keeps_def outer_def by blast
qed

text \<open>
  Property C6. What a complete workflow is. For arbitrary handlers, a walk over a workflow without cycles that returns answers \<open>Complete\<close>
  exactly if the node and every node that can be reached from it has succeeded, was skipped or was recovered; and then the walk
  changed nothing of the statuses.
\<close>

theorem complete_walks:
  fixes E :: "'w node_env"
  assumes "acyclic (walk_edges w)" "2 * length (spec_Nodes w) < k"
    and "nx_RecursiveNodeHandler (executor E F stack_overflow k) xc (spec_dag w) (workflow_lookup refs fmt w) n r = (Go_Ok st, r')"
  shows "(IsComplete st \<longleftrightarrow> complete_below (spec_dag w) (workflow_lookup refs fmt w) (nr_s r) n) \<and>
    (IsComplete st \<longrightarrow> (\<forall>i. seen (workflow_lookup refs fmt w) i (nr_s r') = seen (workflow_lookup refs fmt w) i (nr_s r)))"
proof -
  have "acyclic_workflow w" using assms(1) by unfold_locales
  from acyclic_workflow.complete_iff [OF this assms(2,3)] workflow.walk_complete [OF assms(3)] show ?thesis
    by (auto simp: same_seen_def)
qed

subsection \<open>An example\<close>

definition branching_start :: NodeSpec where
  "branching_start = (plain_node exec_StartNodeID)\<lparr>en_Kind := NodeKindStart\<rparr>"

definition branching_node :: NodeSpec where
  "branching_node = (plain_node ''b'')\<lparr>en_Kind := NodeKindBranch, en_BranchNode := Some
     \<lparr>br_If = \<lparr>if_Condition = None, if_ThenNode = Some ''c''\<rparr>, br_ElseIf = [], br_Else = None, br_ElseFail = None\<rparr>\<rparr>"

definition branching_spec :: WorkflowSpec where
  "branching_spec =
     \<lparr>spec_ID = ''w'',
      spec_Nodes = [(exec_StartNodeID, branching_start),
        (''b'', branching_node),
        (''c'', plain_node ''c'')],
      spec_DeprecatedConnections = UnmarshalDeprecated [(exec_StartNodeID, [''b''])],
      spec_Connections = \<lparr>con_Downstream = [], con_Upstream = []\<rparr>, spec_OnFailure = None, spec_OutputBindings = []\<rparr>"

abbreviation "branching_lookup \<equiv> workflow_lookup sample_refs (itoa \<circ> unat) branching_spec"

definition branching_status :: WorkflowStatus where
  "branching_status =
     wf_put exec_StartNodeID (NodeStatus (new_NodeFields\<lparr>ns_Phase := NodePhaseSucceeded\<rparr>) None)
       (wf_put ''b'' (NodeStatus (new_NodeFields\<lparr>ns_Phase := NodePhaseSucceeded,
          ns_BranchStatus := Some (new_BranchNodeStatus\<lparr>br_FinalizedNodeID := Some ''c''\<rparr>)\<rparr>) None) sample_status)"

definition copying_tasks :: "('s, unit) handlers" where
  "copying_tasks kind = (if kind = NodeKindTask then Some (endHandler sample_services) else None)"

lemma branching_acyclic: "acyclic (walk_edges branching_spec)"
proof (rule acyclicI_order [where f = "\<lambda>i. if i = ''b'' then 1 else if i = ''c'' then 0 else (2 :: nat)"])
  fix i j
  assume "(i, j) \<in> walk_edges branching_spec"
  then show "(if j = ''b'' then 1 else if j = ''c'' then 0 else 2) < (if i = ''b'' then 1 else if i = ''c'' then 0 else (2 :: nat))"
    by (auto simp: walk_edges_def branching_spec_def spec_GetNode_def spec_FromNode_def GetConnections_def UnmarshalDeprecated_def edges_at_def
        branch_targets_def exec_StartNodeID_def plain_node_def branching_node_def branching_start_def split: if_splits)
qed

lemma branching_seen:
  "seen branching_lookup i branching_status =
     (if i = exec_StartNodeID then Some (obs (NodeStatus (new_NodeFields\<lparr>ns_Phase := NodePhaseSucceeded\<rparr>) None))
      else if i = ''b'' then Some (obs (NodeStatus (new_NodeFields\<lparr>ns_Phase := NodePhaseSucceeded,
          ns_BranchStatus := Some (new_BranchNodeStatus\<lparr>br_FinalizedNodeID := Some ''c''\<rparr>)\<rparr>) None))
      else seen branching_lookup i sample_status)"
  unfolding branching_status_def by (simp add: wf_seen exec_StartNodeID_def split: option.split)

lemma branching_fresh: "seen branching_lookup i sample_status = Some (obs new_NodeStatus)"
  using wf_seen_some [OF sample_upstream(3), of "itoa \<circ> unat" branching_spec i sample_status]
  by (auto simp: wf_seen sample_status_def)

lemma branching_nodes:
  "spec_GetNode branching_spec exec_StartNodeID = Some branching_start"
  "spec_GetNode branching_spec ''b'' = Some branching_node" "en_ID branching_node = ''b''" "en_ID branching_start = exec_StartNodeID"
  "spec_GetNode branching_spec i = Some n \<Longrightarrow> en_BranchNode n = Some b \<Longrightarrow> i = ''b'' \<and> branch_targets b = {''c''}"
  "spec_FromNode branching_spec exec_StartNodeID = Go_Ok [''b'']" "spec_FromNode branching_spec ''b'' = Go_Ok []"
  by (auto simp: branching_spec_def branching_start_def branching_node_def spec_GetNode_def spec_FromNode_def GetConnections_def
      UnmarshalDeprecated_def edges_at_def exec_StartNodeID_def branch_targets_def split: if_splits)

lemma branching_length: "length (spec_Nodes branching_spec) = 3"
  by (simp add: branching_spec_def)

lemma branching_sane: "sane branching_lookup branching_status"
  unfolding sane_def
proof (intro allI impI, unfold nl_workflow)
  fix i n b st d j
  assume n: "spec_GetNode branching_spec i = Some n" "en_BranchNode n = Some b" "seen branching_lookup i branching_status = Some (st, d)"
    "choice_of st = Some j"
  have i: "i = ''b''" "branch_targets b = {''c''}" using branching_nodes(5) [OF n(1,2)] by simp_all
  have "st = clean (NodeStatus (new_NodeFields\<lparr>ns_Phase := NodePhaseSucceeded,
      ns_BranchStatus := Some (new_BranchNodeStatus\<lparr>br_FinalizedNodeID := Some ''c''\<rparr>)\<rparr>) None)"
    using n(3) unfolding i branching_seen obs_def by (simp add: exec_StartNodeID_def)
  with n(4) i(2) show "j \<in> branch_targets b" by (simp add: choice_of_def clean_fields_def)
qed

lemma branching_complete: "complete_below (spec_dag branching_spec) branching_lookup branching_status branching_start"
proof -
  have "complete_below (spec_dag branching_spec) branching_lookup branching_status branching_node"
    by (rule complete_belowI [where ds = "[]"]) (auto simp: branching_nodes branching_seen obs_def ended_well_def clean_fields_def exec_StartNodeID_def)
  then show ?thesis
    by (intro complete_belowI [where n = branching_start and ds = "[''b'']"])
      (auto simp: branching_nodes branching_seen obs_def ended_well_def clean_fields_def)
qed

lemma copying_modest: "copying_tasks kind = Some h \<Longrightarrow> modest nCtx h"
  by (auto simp: copying_tasks_def modest_handlers split: if_splits)


theorem choices_stay_targets_witness:
  "sane branching_lookup (nr_s (snd (nx_RecursiveNodeHandler (executor sample_services (node_handlers sample_services copying_tasks) stack_overflow 7)
      sample_execution (spec_dag branching_spec) branching_lookup branching_start (node_round branching_status))))"
  by (rule choices_stay_targets [OF branching_acyclic copying_modest _ refl, THEN conjunct1]) (simp_all add: branching_sane)

theorem complete_walks_witness:
  "\<exists>st r'. nx_RecursiveNodeHandler (executor sample_services (node_handlers sample_services copying_tasks) stack_overflow 7) sample_execution
      (spec_dag branching_spec) branching_lookup branching_start (node_round branching_status) = (Go_Ok st, r') \<and> IsComplete st \<and>
    (\<forall>i. seen branching_lookup i (nr_s r') = seen branching_lookup i branching_status)"
proof -
  have ac: "acyclic_workflow branching_spec" using branching_acyclic by unfold_locales
  have "walk_rank branching_spec (en_ID branching_start) < 7"
    using walk_rank_bound [of branching_spec "en_ID branching_start"] by (simp add: branching_length)
  then obtain r' where run: "nx_RecursiveNodeHandler (executor sample_services (node_handlers sample_services copying_tasks) stack_overflow 7)
      sample_execution (spec_dag branching_spec) branching_lookup branching_start (node_round branching_status) = (Go_Ok NodeStatusComplete, r')"
    using workflow.complete_walk [OF branching_complete acyclic_workflow.spec_ranked [OF ac], of 7 "node_round branching_status" sample_services
        "node_handlers sample_services copying_tasks" stack_overflow sample_execution] by auto
  have "2 * length (spec_Nodes branching_spec) < 7" by (simp add: branching_length)
  from complete_walks [OF branching_acyclic this run] branching_complete run show ?thesis by auto
qed

end
