(* ===== verification/Workflow_Handler.thy ===== *)
theory Workflow_Handler
  imports Walk_Results
begin

section \<open>The handler of workflow nodes (nodes/subworkflow)\<close>

text \<open>
  A workflow node runs a sub-workflow of the same execution, whose nodes have their statuses below the status of the node, or it launches
  another execution and waits for it. The launcher is among the services that the node executor is given.
\<close>

subsection \<open>Launch plans (launchplan.go, util.go)\<close>

definition maxLengthForSubWorkflow :: int where "maxLengthForSubWorkflow = 20"

definition child_execution ::
    "Algorithm list \<Rightarrow> (string \<times> string \<times> string) option \<times> string \<Rightarrow> uint32 \<Rightarrow> go_error + string \<times> string \<times> string" where
  "child_execution opts nodeExecID attempt =
     (case (case fst nodeExecID of None \<Rightarrow> ([], [], []) | Some i \<Rightarrow> i) of (project, domain, parent) \<Rightarrow>
        (case FixedLengthUniqueIDForParts maxLengthForSubWorkflow [parent, snd nodeExecID, itoa (unat attempt)] opts of
           (_, Some err) \<Rightarrow> Inl err
         | (name, None) \<Rightarrow> Inr (project, domain, name)))"

definition GetChildWorkflowExecutionID ::
    "(string \<times> string \<times> string) option \<times> string \<Rightarrow> uint32 \<Rightarrow> go_error + string \<times> string \<times> string" where
  "GetChildWorkflowExecutionID = child_execution []"

definition GetChildWorkflowExecutionIDV2 ::
    "(string \<times> string \<times> string) option \<times> string \<Rightarrow> uint32 \<Rightarrow> go_error + string \<times> string \<times> string" where
  "GetChildWorkflowExecutionIDV2 = child_execution [Algorithm64]"

definition GetChildWorkflowExecutionIDForExecution ::
    "(string \<times> string \<times> string) option \<times> string \<Rightarrow> 's NodeExecContext \<Rightarrow> uint32 \<Rightarrow> go_error + string \<times> string \<times> string" where
  "GetChildWorkflowExecutionIDForExecution nodeExecID nCtx attempt =
     (if xc_DefinitionVersion (nc_ic nCtx) = 0 then GetChildWorkflowExecutionID nodeExecID attempt
      else GetChildWorkflowExecutionIDV2 nodeExecID attempt)"

definition getParentNodeExecutionID :: "'s NodeExecContext \<Rightarrow> go_error + (string \<times> string \<times> string) option \<times> string" where
  "getParentNodeExecutionID nCtx = map_sum (\<lambda>e. e) (Pair (xc_ExecutionID (nc_ic nCtx))) (event_node_id nCtx)"

text \<open>The execution that belongs to the current attempt of the node.\<close>

definition child_of :: "'s NodeExecContext \<Rightarrow> (go_error + string \<times> string \<times> string, ('s, 'w) nrun) grun" where
  "child_of nCtx =
     (case getParentNodeExecutionID nCtx of
        Inl e \<Rightarrow> run_err e
      | Inr nodeExecID \<Rightarrow>
          run_bind (own_status nCtx) (\<lambda>st. run_ok (GetChildWorkflowExecutionIDForExecution nodeExecID nCtx (ns_Attempts (ns st)))))"

definition RemoteErrorAlreadyExists :: string where "RemoteErrorAlreadyExists = ''AlreadyExists''"
definition RemoteErrorNotFound :: string where "RemoteErrorNotFound = ''NotFound''"
definition RemoteErrorUser :: string where "RemoteErrorUser = ''UserError''"

definition no_unique_ID :: "node_config \<Rightarrow> Transition" where
  "no_unique_ID cfg = transition_failed cfg Kind_SYSTEM ''RuntimeExecutionError'' ''failed to create unique ID''"

definition launched :: "string \<times> string \<times> string \<Rightarrow> ExecutionInfo" where
  "launched childID = empty_info\<lparr>ei_WorkflowNodeInfo := Some (Some childID)\<rparr>"

text \<open>An execution that recovers another one lets the child recover the child of that one. Errors of the recovery service are only logged.\<close>

definition recovered_child :: "'w node_env \<Rightarrow> 's NodeExecContext \<Rightarrow> ((string \<times> string \<times> string) option, ('s, 'w) nrun) grun" where
  "recovered_child E nCtx =
     (case xc_RecoveryExecution (nc_ic nCtx) of
        None \<Rightarrow> run_ok None
      | Some ex \<Rightarrow>
          (case event_node_id nCtx of
             Inl e \<Rightarrow> run_err e
           | Inr fullyQualifiedNodeID \<Rightarrow>
               run_bind (on_world (ne_RecoverNodeExecution E ex fullyQualifiedNodeID)) (\<lambda>res.
                 run_ok (case res of
                    Inr (Some recovered) \<Rightarrow>
                      (case rno_Closure recovered of
                         Some closure \<Rightarrow>
                           if rcl_Phase closure = Event_SUCCEEDED
                           then (case rcl_TargetMetadata closure of Event_WorkflowNodeMetadata i \<Rightarrow> Some i | _ \<Rightarrow> None)
                           else None
                       | None \<Rightarrow> None)
                  | _ \<Rightarrow> None))))"

definition launch_child ::
    "'w node_env \<Rightarrow> 's NodeExecContext \<Rightarrow> literal_map \<Rightarrow> (string \<times> string \<times> string) option \<times> string \<Rightarrow> string \<times> string \<times> string \<Rightarrow>
     (Transition, ('s, 'w) nrun) grun" where
  "launch_child E nCtx nodeInputs parent childID =
     run_bind (recovered_child E nCtx) (\<lambda>recovery.
       case Option.bind (en_WorkflowNode (nc_node nCtx)) wfn_LaunchPlanRefID of
         None \<Rightarrow> run_panic
       | Some launchPlan \<Rightarrow>
           run_bind (on_world (lp_Launch (ne_launcher E)
             \<lparr>lcx_ParentNodeExecution = parent, lcx_RecoveryExecution = recovery, lcx_MaxParallelism = xc_MaxParallelism (nc_ic nCtx),
              lcx_OverwriteCache = xc_OverwriteCache (nc_ic nCtx), lcx_Labels = xc_Labels (nc_ic nCtx), lcx_Settings = xc_Settings (nc_ic nCtx)\<rparr>
             childID launchPlan nodeInputs (set_OwnerID (xc_Settings (nc_ic nCtx))))) (\<lambda>res.
             let running = DoTransition TransitionTypeEphemeral (PhaseInfoRunning (cfg_now (ne_cfg E)) (Some (launched childID)))
             in case res of
                  None \<Rightarrow> run_bind (change_flow IncrementParallelism) (\<lambda>_. run_ok running)
                | Some err \<Rightarrow>
                    if IsCausedBy (Some err) RemoteErrorAlreadyExists then run_ok running
                    else if IsCausedBy (Some err) RemoteErrorUser
                    then run_ok (transition_failed (ne_cfg E) Kind_USER ''RuntimeExecutionError'' (Error err))
                    else run_err err))"

definition StartLaunchPlan :: "'w node_env \<Rightarrow> 's NodeExecContext \<Rightarrow> (Transition, ('s, 'w) nrun) grun" where
  "StartLaunchPlan E nCtx = (\<lambda>r.
     case read_inputs E nCtx r of
       (Go_Panic, r1) \<Rightarrow> (Go_Panic, r1)
     | (Go_Err err, r1) \<Rightarrow>
         (Go_Ok (transition_failed (ne_cfg E) Kind_SYSTEM ''RuntimeExecutionError'' (''Failed to read input. Error ['' @ Error err @ '']'')), r1)
     | (Go_Ok nodeInputs, r1) \<Rightarrow>
         (case getParentNodeExecutionID nCtx of
            Inl e \<Rightarrow> run_err e
          | Inr parent \<Rightarrow>
              run_bind (child_of nCtx) (\<lambda>child.
                case child of
                  Inl e \<Rightarrow> run_ok (no_unique_ID (ne_cfg E))
                | Inr childID \<Rightarrow> launch_child E nCtx nodeInputs parent childID)) r1)"

definition child_failed :: "node_config \<Rightarrow> string \<times> string \<times> string \<Rightarrow> ExecutionError option \<Rightarrow> Transition" where
  "child_failed cfg childID err =
     DoTransition TransitionTypeEphemeral (PhaseInfoFailureErr (cfg_now cfg) (cfg_alloc cfg) err (Some (launched childID)))"

text \<open>A status that is not found fails the node. The code of the error is the one of a node error, or empty.\<close>

definition child_missing :: "node_config \<Rightarrow> 's NodeExecContext \<Rightarrow> string \<times> string \<times> string \<Rightarrow> go_error \<Rightarrow> Transition" where
  "child_missing cfg nCtx childID err =
     (let errorCode = (case node_GetErrorCode (Some err) of None \<Rightarrow> [] | Some c \<Rightarrow> c)
      in child_failed cfg childID (Some (new_error (cfg_alloc cfg) Kind_SYSTEM errorCode
           (Error (node_Wrapf errorCode (node_of nCtx) (Some err) ''launch-plan not found'')))))"

definition child_succeeded ::
    "'w node_env \<Rightarrow> 's NodeExecContext \<Rightarrow> string \<times> string \<times> string \<Rightarrow> literal_map \<Rightarrow> (Transition, ('s, 'w) nrun) grun" where
  "child_succeeded E nCtx childID outputs =
     (let success = (\<lambda>oInfo. DoTransition TransitionTypeEphemeral
            (PhaseInfoSuccess (cfg_now (ne_cfg E)) (Some ((launched childID)\<lparr>ei_OutputInfo := oInfo\<rparr>))))
      in if outputs = None then run_ok (success None)
         else run_bind (own_status nCtx) (\<lambda>st.
           let outputFile = GetOutputsFile (ns_OutputDir (ns st))
           in run_bind (world_or (\<lambda>e. node_Wrapf ''CausedByError'' (node_of nCtx) (Some e) ''failed to copy outputs for child workflow'')
                (ne_WriteProtobuf E outputFile outputs)) (\<lambda>_.
                run_ok (success (Some \<lparr>OutputURI = outputFile, DeckURI = None\<rparr>)))))"

definition child_outcome ::
    "'w node_env \<Rightarrow> 's NodeExecContext \<Rightarrow> string \<times> string \<times> string \<Rightarrow> execution_closure \<Rightarrow> literal_map \<Rightarrow> (Transition, ('s, 'w) nrun) grun" where
  "child_outcome E nCtx childID closure outputs =
     (case ecl_Phase closure of
        Execution_ABORTED \<Rightarrow>
          run_ok (child_failed (ne_cfg E) childID (Some (new_error (cfg_alloc (ne_cfg E)) Kind_USER ''RemoteChildWorkflowExecutionFailed''
            (Error (node_Wrapf ''RemoteChildWorkflowExecutionFailed'' (node_of nCtx) (Some (Plain_Error ''launchplan execution aborted''))
               (''launchplan ['' @ snd (snd childID) @ ''] aborted''))))))
      | Execution_FAILED \<Rightarrow>
          run_ok (child_failed (ne_cfg E) childID (case ecl_Error closure of
             None \<Rightarrow> Some (new_error (cfg_alloc (ne_cfg E)) Kind_UNKNOWN ''LaunchPlanExecutionFailed'' ''Unknown Error'') | Some e \<Rightarrow> Some e))
      | Execution_SUCCEEDED \<Rightarrow> child_succeeded E nCtx childID outputs
      | _ \<Rightarrow> run_bind (change_flow IncrementParallelism) (\<lambda>_.
               run_ok (DoTransition TransitionTypeEphemeral (PhaseInfoRunning (cfg_now (ne_cfg E)) None))))"

definition CheckLaunchPlanStatus :: "'w node_env \<Rightarrow> 's NodeExecContext \<Rightarrow> (Transition, ('s, 'w) nrun) grun" where
  "CheckLaunchPlanStatus E nCtx =
     run_bind (child_of nCtx) (\<lambda>child.
       case child of
         Inl e \<Rightarrow> run_ok (no_unique_ID (ne_cfg E))
       | Inr childID \<Rightarrow>
           run_bind (on_world (lp_GetStatus (ne_launcher E) childID)) (\<lambda>res.
             case res of
               Inl err \<Rightarrow> if IsCausedBy (Some err) RemoteErrorNotFound then run_ok (child_missing (ne_cfg E) nCtx childID err) else run_err err
             | Inr (None, outputs) \<Rightarrow>
                 run_bind (change_flow IncrementParallelism) (\<lambda>_.
                   run_ok (DoTransition TransitionTypeEphemeral (PhaseInfoRunning (cfg_now (ne_cfg E)) (Some (launched childID)))))
             | Inr (Some closure, outputs) \<Rightarrow> child_outcome E nCtx childID closure outputs))"

definition abort_launch_plan :: "'w node_env \<Rightarrow> 's NodeExecContext \<Rightarrow> string \<Rightarrow> (unit, ('s, 'w) nrun) grun" where
  "abort_launch_plan E nCtx reason =
     run_bind (child_of nCtx) (\<lambda>child.
       case child of
         Inl e \<Rightarrow> run_err e
       | Inr childID \<Rightarrow> world_or (\<lambda>e. e) (lp_Kill (ne_launcher E) childID
           (''cascading abort as parent execution id ['' @ xc_Name (nc_ic nCtx) @ ''] aborted, reason ['' @ reason @ '']'')))"

subsection \<open>Sub-workflows (subworkflow.go)\<close>

text \<open>
  The statuses of the nodes of a sub-workflow are stored below the status of its node, which is itself found through the lookup of the node.
\<close>

definition nested_lookup :: "'s NodeLookup \<Rightarrow> string \<Rightarrow> NodeStatus NodeLookup \<Rightarrow> 's NodeLookup" where
  "nested_lookup nl own sub =
     \<lparr>nl_GetNode = nl_GetNode sub,
      nl_status = (\<lambda>i s. case nl_status nl own s of
         (None, s1) \<Rightarrow> (None, s1)
       | (Some p, s1) \<Rightarrow> (case nl_status sub i p of (n, p1) \<Rightarrow> (n, nl_write nl own p1 s1))),
      nl_write = (\<lambda>i n s. case nl_status nl own s of (None, s1) \<Rightarrow> s1 | (Some p, s1) \<Rightarrow> nl_write nl own (nl_write sub i n p) s1),
      nl_ToNode = nl_ToNode sub, nl_FromNode = nl_FromNode sub, nl_OriginalError = nl_OriginalError sub\<rparr>"

definition subworkflow_nodes :: "'w node_env \<Rightarrow> 's NodeExecContext \<Rightarrow> WorkflowSpec \<Rightarrow> 's NodeLookup" where
  "subworkflow_nodes E nCtx sp =
     nested_lookup (nc_nl nCtx) (nc_id nCtx) (subworkflow_lookup (cfg_refs (ne_cfg E)) (itoa \<circ> unat) sp)"

text \<open>The failure node of a sub-workflow has its status beside those of the other nodes.\<close>

definition nested_failure_lookup :: "'s NodeLookup \<Rightarrow> NodeSpec \<Rightarrow> ExecutionError option \<Rightarrow> 's NodeLookup" where
  "nested_failure_lookup nl failureNode originalError =
     (let target = (\<lambda>i. if i = exec_StartNodeID then i else en_ID failureNode)
      in \<lparr>nl_GetNode = (\<lambda>i. if i = exec_StartNodeID then nl_GetNode nl i else Some failureNode),
          nl_status = (\<lambda>i. nl_status nl (target i)), nl_write = (\<lambda>i. nl_write nl (target i)),
          nl_ToNode = (\<lambda>i. Go_Ok [exec_StartNodeID]), nl_FromNode = (\<lambda>i. Go_Ok []), nl_OriginalError = Some originalError\<rparr>)"

definition GetSubWorkflow :: "'s NodeExecContext \<Rightarrow> (go_error + WorkflowSpec) go" where
  "GetSubWorkflow nCtx =
     (case Option.bind (en_WorkflowNode (nc_node nCtx)) wfn_SubWorkflowReference of
        None \<Rightarrow> Go_Panic
      | Some subID \<Rightarrow>
          (case xc_FindSubWorkflow (nc_ic nCtx) subID of
             None \<Rightarrow> Go_Ok (Inl (Plain_Error (''failed to find sub workflow with ID ['' @ subID @ '']'')))
           | Some sp \<Rightarrow> Go_Ok (Inr sp)))"

definition SubWorkflowExecutionFailed :: string where "SubWorkflowExecutionFailed = ''SubWorkflowExecutionFailed''"

definition with_subworkflow ::
    "'w node_env \<Rightarrow> 's NodeExecContext \<Rightarrow> (WorkflowSpec \<Rightarrow> (Transition, ('s, 'w) nrun) grun) \<Rightarrow> (Transition, ('s, 'w) nrun) grun" where
  "with_subworkflow E nCtx f =
     run_bind (of_go (GetSubWorkflow nCtx)) (\<lambda>res.
       case res of
         Inl err \<Rightarrow> run_ok (transition_failed (ne_cfg E) Kind_SYSTEM SubWorkflowExecutionFailed (Error err))
       | Inr sp \<Rightarrow> f sp)"

definition still_running :: "node_config \<Rightarrow> Transition" where
  "still_running cfg = DoTransition TransitionTypeEphemeral (PhaseInfoRunning (cfg_now cfg) None)"

definition enqueue_and_run :: "'w node_env \<Rightarrow> (Transition, ('s, 'w) nrun) grun" where
  "enqueue_and_run E = run_bind (world_or (\<lambda>e. e) (ne_EnqueueOwner E)) (\<lambda>_. run_ok (still_running (ne_cfg E)))"

definition put_failing :: "'w node_env \<Rightarrow> ExecutionError option \<Rightarrow> (Transition, ('s, 'w) nrun) grun" where
  "put_failing E err =
     run_bind (put_manager (PutWorkflowNodeState \<lparr>wst_Phase = WorkflowNodePhaseFailing, wst_Error = err\<rparr>)) (\<lambda>_. run_ok (still_running (ne_cfg E)))"

definition copy_outputs :: "'w node_env \<Rightarrow> 's NodeExecContext \<Rightarrow> string \<Rightarrow> (Transition, ('s, 'w) nrun) grun" where
  "copy_outputs E nCtx sourcePath =
     run_bind (on_world (ne_Head E sourcePath)) (\<lambda>res.
       case res of
         Inl e \<Rightarrow> run_ok (DoTransition TransitionTypeEphemeral PhaseInfoUndefined)
       | Inr False \<Rightarrow> run_ok (transition_failed (ne_cfg E) Kind_SYSTEM SubWorkflowExecutionFailed
             (''Subworkflow is expected to produce outputs but no outputs file was written to '' @ sourcePath @ ''.''))
       | Inr True \<Rightarrow>
           run_bind (own_status nCtx) (\<lambda>st.
             let destinationPath = GetOutputsFile (ns_OutputDir (ns st))
             in run_bind (on_world (ne_CopyRaw E sourcePath destinationPath)) (\<lambda>err.
                  run_ok (if err \<noteq> None then transition_failed (ne_cfg E) Kind_SYSTEM SubWorkflowExecutionFailed
                      (''Failed to copy subworkflow outputs from ['' @ sourcePath @ ''] to ['' @ destinationPath @ '']'')
                    else DoTransition TransitionTypeEphemeral (PhaseInfoSuccess (cfg_now (ne_cfg E))
                      (Some (empty_info\<lparr>ei_OutputInfo := Some \<lparr>OutputURI = destinationPath, DeckURI = None\<rparr>\<rparr>)))))))"

definition subworkflow_outputs :: "'w node_env \<Rightarrow> 's NodeExecContext \<Rightarrow> WorkflowSpec \<Rightarrow> 's NodeLookup \<Rightarrow> (Transition, ('s, 'w) nrun) grun" where
  "subworkflow_outputs E nCtx sp nl =
     (if spec_OutputBindings sp = [] then
        run_ok (DoTransition TransitionTypeEphemeral (PhaseInfoSuccess (cfg_now (ne_cfg E)) (Some empty_info)))
      else (\<lambda>r. case nl_status nl EndNodeID (nr_s r) of
          (None, s) \<Rightarrow> (Go_Ok (transition_failed (ne_cfg E) Kind_SYSTEM SubWorkflowExecutionFailed ''No end node found in subworkflow.''), r\<lparr>nr_s := s\<rparr>)
        | (Some endNodeStatus, s) \<Rightarrow> copy_outputs E nCtx (GetOutputsFile (ns_OutputDir (ns endNodeStatus))) (r\<lparr>nr_s := s\<rparr>)))"

definition subworkflow_outcome ::
    "'w node_env \<Rightarrow> 's NodeExecContext \<Rightarrow> WorkflowSpec \<Rightarrow> 's NodeLookup \<Rightarrow> ExecStatus \<Rightarrow> (Transition, ('s, 'w) nrun) grun" where
  "subworkflow_outcome E nCtx sp nl state =
     (if HasFailed state then put_failing E (xs_Err state)
      else if HasTimedOut state then
        put_failing E (Some (new_error (cfg_alloc (ne_cfg E)) Kind_USER ''Timeout'' ''Timeout in node''))
      else if IsComplete state then subworkflow_outputs E nCtx sp nl
      else if PartiallyComplete state then enqueue_and_run E
      else run_ok (still_running (ne_cfg E)))"

definition handleSubWorkflow ::
    "'w node_env \<Rightarrow> ('s, 'w) NodeExecutor \<Rightarrow> 's NodeExecContext \<Rightarrow> WorkflowSpec \<Rightarrow> 's NodeLookup \<Rightarrow> (Transition, ('s, 'w) nrun) grun" where
  "handleSubWorkflow E c nCtx sp nl =
     run_bind (getExecutionContextForDownstream nCtx) (\<lambda>xc.
       case StartNode sp of
         None \<Rightarrow> run_panic
       | Some startNode \<Rightarrow> run_bind (nx_RecursiveNodeHandler c xc (spec_dag sp) nl startNode) (subworkflow_outcome E nCtx sp nl))"

definition startAndHandleSubWorkflow ::
    "'w node_env \<Rightarrow> ('s, 'w) NodeExecutor \<Rightarrow> 's NodeExecContext \<Rightarrow> WorkflowSpec \<Rightarrow> 's NodeLookup \<Rightarrow> (Transition, ('s, 'w) nrun) grun" where
  "startAndHandleSubWorkflow E c nCtx sp nl = (\<lambda>r.
     case read_inputs E nCtx r of
       (Go_Panic, r1) \<Rightarrow> (Go_Panic, r1)
     | (Go_Err err, r1) \<Rightarrow>
         (Go_Ok (transition_failed (ne_cfg E) Kind_SYSTEM ''RuntimeExecutionError'' (''Failed to read input. Error ['' @ Error err @ '']'')), r1)
     | (Go_Ok nodeInputs, r1) \<Rightarrow>
         run_bind (getExecutionContextForDownstream nCtx) (\<lambda>_.
         run_bind (SetInputsForStartNode E nl (StartNode sp) nodeInputs) (\<lambda>startStatus.
           if HasFailed startStatus then
             run_ok (DoTransition TransitionTypeEphemeral
               (PhaseInfoFailureErr (cfg_now (ne_cfg E)) (cfg_alloc (ne_cfg E)) (xs_Err startStatus) None))
           else handleSubWorkflow E c nCtx sp nl)) r1)"

definition abort_subworkflow ::
    "'w node_env \<Rightarrow> ('s, 'w) NodeExecutor \<Rightarrow> 's NodeExecContext \<Rightarrow> string \<Rightarrow> (unit, ('s, 'w) nrun) grun" where
  "abort_subworkflow E c nCtx reason =
     run_bind (of_go (GetSubWorkflow nCtx)) (\<lambda>res.
       case res of
         Inl err \<Rightarrow> run_err err
       | Inr sp \<Rightarrow>
           run_bind (getExecutionContextForDownstream nCtx) (\<lambda>xc.
             case StartNode sp of
               None \<Rightarrow> run_panic
             | Some startNode \<Rightarrow> nx_AbortHandler c xc (spec_dag sp) (subworkflow_nodes E nCtx sp) startNode reason))"

definition original_failure :: "node_config \<Rightarrow> ExecutionError option \<Rightarrow> Transition" where
  "original_failure cfg err = DoTransition TransitionTypeEphemeral (PhaseInfoFailureErr (cfg_now cfg) (cfg_alloc cfg) err None)"

definition failure_node_outcome :: "'w node_env \<Rightarrow> ExecutionError option \<Rightarrow> ExecStatus \<Rightarrow> (Transition, ('s, 'w) nrun) grun" where
  "failure_node_outcome E originalError state =
     (if xs_NodePhase state = ExecPhaseQueued \<or> xs_NodePhase state = ExecPhaseRunning then run_ok (still_running (ne_cfg E))
      else if HasFailed state then run_ok (original_failure (ne_cfg E) (xs_Err state))
      else if PartiallyComplete state then enqueue_and_run E
      else run_ok (original_failure (ne_cfg E) originalError))"

definition HandleFailureNodeOfSubWorkflow ::
    "'w node_env \<Rightarrow> ('s, 'w) NodeExecutor \<Rightarrow> 's NodeExecContext \<Rightarrow> WorkflowSpec \<Rightarrow> (Transition, ('s, 'w) nrun) grun" where
  "HandleFailureNodeOfSubWorkflow E c nCtx sp =
     run_bind (get_manager nCtx) (\<lambda>nsm.
       let originalError = wst_Error (GetWorkflowNodeState nsm)
       in case GetOnFailureNode sp of
            None \<Rightarrow> run_ok (original_failure (ne_cfg E) originalError)
          | Some failureNode \<Rightarrow>
              run_bind (getExecutionContextForDownstream nCtx) (\<lambda>xc.
              run_bind (find_status (subworkflow_nodes E nCtx sp) (en_ID failureNode)) (\<lambda>_.
                let nl = nested_failure_lookup (subworkflow_nodes E nCtx sp) failureNode originalError
                in run_bind (nx_RecursiveNodeHandler c xc \<lparr>dag_ToNode = nl_ToNode nl, dag_FromNode = nl_FromNode nl\<rparr> nl failureNode)
                     (failure_node_outcome E originalError))))"

definition HandleFailingSubWorkflow ::
    "'w node_env \<Rightarrow> ('s, 'w) NodeExecutor \<Rightarrow> 's NodeExecContext \<Rightarrow> (Transition, ('s, 'w) nrun) grun" where
  "HandleFailingSubWorkflow E c nCtx =
     with_subworkflow E nCtx (\<lambda>sp.
       run_bind (abort_subworkflow E c nCtx ''subworkflow failed'') (\<lambda>_.
         if GetOnFailureNode sp = None then
           run_bind (get_manager nCtx) (\<lambda>nsm.
             run_ok (case wst_Error (GetWorkflowNodeState nsm) of
                Some err \<Rightarrow> original_failure (ne_cfg E) (Some err)
              | None \<Rightarrow> transition_failed (ne_cfg E) Kind_UNKNOWN ''SubworkflowNodeFailing'' []))
         else HandleFailureNodeOfSubWorkflow E c nCtx sp))"

definition StartSubWorkflow :: "'w node_env \<Rightarrow> ('s, 'w) NodeExecutor \<Rightarrow> 's NodeExecContext \<Rightarrow> (Transition, ('s, 'w) nrun) grun" where
  "StartSubWorkflow E c nCtx = with_subworkflow E nCtx (\<lambda>sp. startAndHandleSubWorkflow E c nCtx sp (subworkflow_nodes E nCtx sp))"

definition CheckSubWorkflowStatus :: "'w node_env \<Rightarrow> ('s, 'w) NodeExecutor \<Rightarrow> 's NodeExecContext \<Rightarrow> (Transition, ('s, 'w) nrun) grun" where
  "CheckSubWorkflowStatus E c nCtx = with_subworkflow E nCtx (\<lambda>sp. handleSubWorkflow E c nCtx sp (subworkflow_nodes E nCtx sp))"

subsection \<open>The handler (handler.go)\<close>

definition update_node_state ::
    "(Transition, ('s, 'w) nrun) grun \<Rightarrow> WorkflowNodeState \<Rightarrow> (Transition, ('s, 'w) nrun) grun" where
  "update_node_state m workflowNodeState =
     run_bind m (\<lambda>transition. run_bind (put_manager (PutWorkflowNodeState workflowNodeState)) (\<lambda>_. run_ok transition))"

definition invalidWFNodeError :: "node_config \<Rightarrow> Transition" where
  "invalidWFNodeError cfg = transition_failed cfg Kind_SYSTEM BadSpecificationError
     ''workflow wfNode does not have a subworkflow or child workflow reference''"

definition not_a_workflow_node :: "node_config \<Rightarrow> Transition" where
  "not_a_workflow_node cfg = transition_failed cfg Kind_SYSTEM ''RuntimeExecutionError'' ''Invoked workflow handler, for a non workflow Node.''"

definition workflow_Handle :: "'w node_env \<Rightarrow> ('s, 'w) NodeExecutor \<Rightarrow> 's NodeExecContext \<Rightarrow> (Transition, ('s, 'w) nrun) grun" where
  "workflow_Handle E c nCtx =
     run_bind (get_manager nCtx) (\<lambda>nsm.
       let state = GetWorkflowNodeState nsm; executing = \<lparr>wst_Phase = WorkflowNodePhaseExecuting, wst_Error = None\<rparr>
       in case wst_Phase state of
            WorkflowNodePhaseUndefined \<Rightarrow>
              (case en_WorkflowNode (nc_node nCtx) of
                 None \<Rightarrow> run_ok (not_a_workflow_node (ne_cfg E))
               | Some wfNode \<Rightarrow>
                   if wfn_SubWorkflowReference wfNode \<noteq> None then update_node_state (StartSubWorkflow E c nCtx) executing
                   else if wfn_LaunchPlanRefID wfNode \<noteq> None then update_node_state (StartLaunchPlan E nCtx) executing
                   else run_ok (invalidWFNodeError (ne_cfg E)))
          | WorkflowNodePhaseExecuting \<Rightarrow>
              (case en_WorkflowNode (nc_node nCtx) of
                 None \<Rightarrow> run_panic
               | Some wfNode \<Rightarrow>
                   if wfn_SubWorkflowReference wfNode \<noteq> None then CheckSubWorkflowStatus E c nCtx
                   else if wfn_LaunchPlanRefID wfNode \<noteq> None then CheckLaunchPlanStatus E nCtx
                   else run_ok (invalidWFNodeError (ne_cfg E)))
          | WorkflowNodePhaseFailing \<Rightarrow>
              (case en_WorkflowNode (nc_node nCtx) of
                 None \<Rightarrow> run_ok (not_a_workflow_node (ne_cfg E))
               | Some wfNode \<Rightarrow>
                   if wfn_SubWorkflowReference wfNode \<noteq> None then
                     update_node_state (HandleFailingSubWorkflow E c nCtx) \<lparr>wst_Phase = WorkflowNodePhaseFailing, wst_Error = wst_Error state\<rparr>
                   else if wfn_LaunchPlanRefID wfNode \<noteq> None then run_ok (original_failure (ne_cfg E) (wst_Error state))
                   else run_ok (invalidWFNodeError (ne_cfg E))))"

definition workflow_Abort :: "'w node_env \<Rightarrow> ('s, 'w) NodeExecutor \<Rightarrow> 's NodeExecContext \<Rightarrow> string \<Rightarrow> (unit, ('s, 'w) nrun) grun" where
  "workflow_Abort E c nCtx reason =
     (case en_WorkflowNode (nc_node nCtx) of
        None \<Rightarrow> run_panic
      | Some wfNode \<Rightarrow>
          if wfn_SubWorkflowReference wfNode \<noteq> None then abort_subworkflow E c nCtx reason
          else if wfn_LaunchPlanRefID wfNode \<noteq> None then abort_launch_plan E nCtx reason
          else run_ok ())"

definition workflowNodeHandler :: "'w node_env \<Rightarrow> ('s, 'w) NodeExecutor \<Rightarrow> ('s, 'w) NodeHandler" where
  "workflowNodeHandler E c =
     \<lparr>h_FinalizeRequired = False, h_Handle = workflow_Handle E c, h_Abort = workflow_Abort E c, h_Finalize = (\<lambda>nCtx. run_ok ()),
      h_Cacheable = None\<rparr>"

subsection \<open>What the handler keeps\<close>

lemma tame_workflow [simp]: "tame (PutWorkflowNodeState st)"
  by (simp add: tame_def PutWorkflowNodeState_def)

locale workflow_steps = executor_steps R nCtx
  for R :: "('s, 'w) nrun \<Rightarrow> ('s, 'w) nrun \<Rightarrow> bool" and nCtx :: "'s NodeExecContext" +
  fixes E :: "'w node_env" and c :: "('s, 'w) NodeExecutor"
  assumes nested_walks: "walks_keep R (subworkflow_nodes E nCtx sp) c"
    and failure_walks: "walks_keep R (nested_failure_lookup (subworkflow_nodes E nCtx sp) f e) c"
    and nested_read: "nl_status (subworkflow_nodes E nCtx sp) i (nr_s r) = (x, s) \<Longrightarrow> R r (r\<lparr>nr_s := s\<rparr>)"
begin

lemma keeps_inputs [keeps_intros]: "keeps R (read_inputs E nCtx) UNIV"
  unfolding read_inputs_def Let_def by (rule keeps_world)

lemma keeps_downstream_context [keeps_intros]: "keeps R (getExecutionContextForDownstream nCtx) UNIV"
  by (auto simp: getExecutionContextForDownstream_def intro!: keeps_intros split: sum.split)

lemma keeps_launch_plan:
  "keeps R (StartLaunchPlan E nCtx) UNIV" "keeps R (CheckLaunchPlanStatus E nCtx) UNIV" "keeps R (abort_launch_plan E nCtx reason) UNIV"
proof -
  have child: "keeps R (child_of nCtx) UNIV"
    unfolding child_of_def by (auto intro!: keeps_intros split: sum.split)
  have "keeps R (recovered_child E nCtx) UNIV"
    unfolding recovered_child_def by (auto intro!: keeps_intros split: sum.split option.split)
  then have launch: "keeps R (launch_child E nCtx m p i) UNIV" for m p i
    unfolding launch_child_def Let_def by (auto intro!: keeps_intros split: option.split)
  show "keeps R (StartLaunchPlan E nCtx) UNIV"
    unfolding StartLaunchPlan_def
    by (auto intro!: keeps_catch [OF keeps_inputs] keeps_raw keeps_bind [OF child] launch keeps_pure split: sum.split)
  have "keeps R (child_outcome E nCtx i cl m) UNIV" for i cl m
    unfolding child_outcome_def child_succeeded_def Let_def by (auto intro!: keeps_intros split: execution_phase.split)
  then show "keeps R (CheckLaunchPlanStatus E nCtx) UNIV"
    unfolding CheckLaunchPlanStatus_def by (auto intro!: keeps_bind [OF child] keeps_intros split: sum.split option.split)
  show "keeps R (abort_launch_plan E nCtx reason) UNIV"
    unfolding abort_launch_plan_def by (auto intro!: keeps_bind [OF child] keeps_intros split: sum.split)
qed

lemma keeps_nested_find: "keeps R (find_status (subworkflow_nodes E nCtx sp) i) UNIV"
  by (auto simp: find_status_def intro!: nested_read split: prod.splits option.splits)

lemma keeps_nested_inputs [keeps_intros]: "keeps R (SetInputsForStartNode E (subworkflow_nodes E nCtx sp) n m) UNIV"
  unfolding SetInputsForStartNode_def by (auto intro!: keeps_intros keeps_nested_find split: option.split)

lemma keeps_subworkflow_outputs [keeps_intros]: "keeps R (subworkflow_outputs E nCtx sp (subworkflow_nodes E nCtx sp)) UNIV"
proof -
  have "keeps R (copy_outputs E nCtx p) UNIV" for p
    unfolding copy_outputs_def Let_def by (auto intro!: keeps_intros split: sum.split bool.split)
  then have "R r r'" if "subworkflow_outputs E nCtx sp (subworkflow_nodes E nCtx sp) r = (x, r')" for r x r'
    using that nested_read [of sp EndNodeID r]
    by (auto simp: subworkflow_outputs_def run_ok_def split: if_splits prod.splits option.splits dest: keeps_result intro: steady_trans)
  then show ?thesis by (rule keeps_all)
qed

lemma keeps_handleSubWorkflow [keeps_intros]: "keeps R (handleSubWorkflow E c nCtx sp (subworkflow_nodes E nCtx sp)) UNIV"
  using nested_walks unfolding handleSubWorkflow_def subworkflow_outcome_def put_failing_def enqueue_and_run_def walks_keep_def
  by (auto intro!: keeps_intros split: option.split)

lemma keeps_abort_subworkflow [keeps_intros]: "keeps R (abort_subworkflow E c nCtx reason) UNIV"
  using nested_walks unfolding abort_subworkflow_def walks_keep_def by (auto intro!: keeps_intros split: sum.split option.split)

lemma keeps_subworkflow:
  "keeps R (StartSubWorkflow E c nCtx) UNIV" "keeps R (CheckSubWorkflowStatus E c nCtx) UNIV" "keeps R (HandleFailingSubWorkflow E c nCtx) UNIV"
proof -
  have "keeps R (startAndHandleSubWorkflow E c nCtx sp (subworkflow_nodes E nCtx sp)) UNIV" for sp
    unfolding startAndHandleSubWorkflow_def by (auto intro!: keeps_catch [OF keeps_inputs] keeps_intros)
  then show "keeps R (StartSubWorkflow E c nCtx) UNIV" "keeps R (CheckSubWorkflowStatus E c nCtx) UNIV"
    unfolding StartSubWorkflow_def CheckSubWorkflowStatus_def with_subworkflow_def by (auto intro!: keeps_intros split: sum.split)
  have "keeps R (HandleFailureNodeOfSubWorkflow E c nCtx sp) UNIV" for sp
    using failure_walks unfolding HandleFailureNodeOfSubWorkflow_def failure_node_outcome_def enqueue_and_run_def Let_def walks_keep_def
    by (auto intro!: keeps_intros keeps_nested_find split: option.split)
  then show "keeps R (HandleFailingSubWorkflow E c nCtx) UNIV"
    unfolding HandleFailingSubWorkflow_def with_subworkflow_def by (auto intro!: keeps_intros split: sum.split)
qed

lemma workflow_kept: "handler_keeps R nCtx (workflowNodeHandler E c)"
proof -
  have "keeps R (workflow_Handle E c nCtx) UNIV"
    unfolding workflow_Handle_def update_node_state_def Let_def
    by (auto intro!: keeps_intros keeps_subworkflow keeps_launch_plan split: WorkflowNodePhase.split option.split)
  moreover have "keeps R (workflow_Abort E c nCtx reason) UNIV" for reason
    unfolding workflow_Abort_def by (auto intro!: keeps_intros keeps_launch_plan split: option.split)
  ultimately show ?thesis by (auto simp: handler_keeps_def workflowNodeHandler_def intro!: keeps_pure)
qed

end

subsection \<open>The states of a sub-workflow\<close>

text \<open>A sub-workflow starts, executes, and once it is failing can only fail.\<close>

inductive subworkflow_moves :: "WorkflowNodeState \<Rightarrow> EPhase \<Rightarrow> WorkflowNodeState \<Rightarrow> bool" where
  starts: "wst_Phase s = WorkflowNodePhaseUndefined \<Longrightarrow> subworkflow_moves s p \<lparr>wst_Phase = WorkflowNodePhaseExecuting, wst_Error = None\<rparr>"
| goes_on: "wst_Phase s = WorkflowNodePhaseExecuting \<Longrightarrow> p \<in> {EPhaseRunning, EPhaseSuccess, EPhaseFailed, EPhaseUndefined} \<Longrightarrow> subworkflow_moves s p s"
| fails: "wst_Phase s = WorkflowNodePhaseExecuting \<Longrightarrow> subworkflow_moves s EPhaseRunning \<lparr>wst_Phase = WorkflowNodePhaseFailing, wst_Error = e\<rparr>"
| stays_failing: "wst_Phase s = WorkflowNodePhaseFailing \<Longrightarrow> p \<in> {EPhaseRunning, EPhaseFailed} \<Longrightarrow> subworkflow_moves s p s"

inductive_cases subworkflow_movesE: "subworkflow_moves s p s'"

text \<open>Steps that leave the state manager of the node alone.\<close>

abbreviation quiet :: "('a, ('s, 'w) nrun) grun \<Rightarrow> bool" where
  "quiet m \<equiv> keeps (outer (\<lambda>_ _. True)) m UNIV"

lemma quiet_returns:
  "keeps (outer (\<lambda>_ _. True)) m S \<Longrightarrow> (\<And>x r'. x \<in> S \<Longrightarrow> nr_nsm r' = nr_nsm r \<Longrightarrow> Q x r') \<Longrightarrow> returns m r Q"
  using keeps_result [of "outer (\<lambda>_ _. True)" m S r] by (auto simp: returns_def outer_def)

lemma quiet_bind:
  assumes "quiet m" "\<And>x r'. m r = (Go_Ok x, r') \<Longrightarrow> nr_nsm r' = nr_nsm r \<Longrightarrow> returns (f x) r' Q"
  shows "returns (run_bind m f) r Q"
  using assms(2) keeps_result [OF assms(1)] by (auto simp: returns_def run_bind_Ok outer_def)

interpretation still: state_steps "outer (\<lambda>_ _. True) :: ('s, 'w) nrun \<Rightarrow> _"
  by unfold_locales (auto simp: outer_def)

lemma quiet_walk:
  "quiet (nx_RecursiveNodeHandler (executor E F stack_overflow k) xc dag nl n)"
  "quiet (nx_AbortHandler (executor E F stack_overflow k) xc dag nl n reason)"
  by (simp_all add: any.executor_keeps [OF any.overflow_keeps, unfolded walks_keep_def])

lemma quiet_found: "quiet (find_status nl i)"
  by (auto simp: find_status_def outer_def split: prod.splits option.splits)

lemma quiet_context: "quiet (getExecutionContextForDownstream nCtx)"
  by (auto simp: getExecutionContextForDownstream_def intro!: keeps_intros split: sum.split)

lemma quiet_inputs: "quiet (read_inputs E nCtx)" "quiet (SetInputsForStartNode E nl n m)"
  unfolding read_inputs_def SetInputsForStartNode_def Let_def by (auto intro!: keeps_intros quiet_found split: option.split)

lemma outputs_phase:
  "keeps (outer (\<lambda>_ _. True)) (subworkflow_outputs E nCtx sp nl) {t. pi_p (tr_info t) \<in> {EPhaseSuccess, EPhaseFailed, EPhaseUndefined}}"
    (is "keeps _ _ ?S")
proof -
  have phases: "pi_p PhaseInfoUndefined = EPhaseUndefined" "pi_p (PhaseInfoSuccess now i) = EPhaseSuccess"
    "pi_p (tr_info (transition_failed cfg k code msg)) = EPhaseFailed" for now i cfg k code msg
    by (simp_all add: PhaseInfoUndefined_def PhaseInfoSuccess_def phaseInfo_def transition_failed_def PhaseInfoFailure_def phaseInfoFailed_def Let_def)
  have copy: "keeps (outer (\<lambda>_ _. True)) (copy_outputs E nCtx p) ?S" for p
    unfolding copy_outputs_def Let_def by (auto intro!: keeps_intros simp: phases split: sum.split bool.split if_splits)
  have "outer (\<lambda>_ _. True) r r' \<and> (\<forall>t. x = Go_Ok t \<longrightarrow> t \<in> ?S)" if m: "subworkflow_outputs E nCtx sp nl r = (x, r')" for r x r'
  proof (cases "spec_OutputBindings sp")
    case Nil
    with m show ?thesis by (auto simp: subworkflow_outputs_def run_ok_def outer_def phases)
  next
    case (Cons b bs)
    obtain st s where st: "nl_status nl EndNodeID (nr_s r) = (st, s)" by force
    show ?thesis
    proof (cases st)
      case None
      with m Cons st show ?thesis by (auto simp: subworkflow_outputs_def outer_def phases)
    next
      case (Some n)
      with m Cons st have "copy_outputs E nCtx (GetOutputsFile (ns_OutputDir (ns n))) (r\<lparr>nr_s := s\<rparr>) = (x, r')"
        by (simp add: subworkflow_outputs_def)
      from keeps_result [OF copy this] show ?thesis by (simp add: outer_def)
    qed
  qed
  then show ?thesis unfolding keeps_def by (metis prod.collapse)
qed

text \<open>What one visit of the nodes of the sub-workflow gives.\<close>

definition visit_answer :: "bool \<Rightarrow> nodeStateManager \<Rightarrow> Transition \<Rightarrow> ('s, 'w) nrun \<Rightarrow> bool" where
  "visit_answer all_done nsm t r' \<longleftrightarrow>
     (nr_nsm r' = nsm \<and> pi_p (tr_info t) \<in> {EPhaseRunning, EPhaseSuccess, EPhaseFailed, EPhaseUndefined} \<and>
        (pi_p (tr_info t) = EPhaseSuccess \<longrightarrow> all_done)) \<or>
     (\<exists>e. nr_nsm r' = nsm\<lparr>nsm_w := Some \<lparr>wst_Phase = WorkflowNodePhaseFailing, wst_Error = e\<rparr>\<rparr> \<and> pi_p (tr_info t) = EPhaseRunning)"

lemma running_phase [simp]: "pi_p (tr_info (still_running cfg)) = EPhaseRunning"
  by (simp add: still_running_def)

lemma failure_phase [simp]:
  "pi_p (tr_info (original_failure cfg e)) = EPhaseFailed" "pi_p (tr_info (transition_failed cfg k code msg)) = EPhaseFailed"
  by (simp_all add: original_failure_def transition_failed_def PhaseInfoFailureErr_def phaseInfoFailed_def phaseInfo_def Let_def split: option.split)

lemma quiet_enqueue: "keeps (outer (\<lambda>_ _. True)) (enqueue_and_run E) {t. pi_p (tr_info t) = EPhaseRunning}"
  unfolding enqueue_and_run_def by (auto intro!: keeps_intros)

lemma put_failing_answer: "returns (put_failing E e) r (visit_answer d (nr_nsm r))"
  by (auto simp: returns_def put_failing_def run_bind_def put_manager_def run_ok_def PutWorkflowNodeState_def visit_answer_def)

lemma outcome_answer: "returns (subworkflow_outcome E nCtx sp nl x) r (visit_answer (IsComplete x) (nr_nsm r))"
proof -
  have "returns (subworkflow_outputs E nCtx sp nl) r (visit_answer True (nr_nsm r))"
    by (rule quiet_returns [OF outputs_phase]) (auto simp: visit_answer_def)
  moreover have "returns (enqueue_and_run E) r (visit_answer False (nr_nsm r))"
    by (rule quiet_returns [OF quiet_enqueue]) (auto simp: visit_answer_def)
  ultimately show ?thesis
    by (auto simp: subworkflow_outcome_def put_failing_answer visit_answer_def [of _ _ "still_running (ne_cfg E)"])
qed

definition complete_nested ::
    "'w node_env \<Rightarrow> ('s, 'w) NodeExecutor \<Rightarrow> 's NodeExecContext \<Rightarrow> WorkflowSpec \<Rightarrow> bool" where
  "complete_nested E c nCtx sp \<longleftrightarrow> (\<exists>n xc r x r'. StartNode sp = Some n \<and>
     nx_RecursiveNodeHandler c xc (spec_dag sp) (subworkflow_nodes E nCtx sp) n r = (Go_Ok x, r') \<and> IsComplete x)"

lemma visit_answer_mono: "visit_answer d nsm t r \<Longrightarrow> (d \<Longrightarrow> d') \<Longrightarrow> visit_answer d' nsm t r"
  by (auto simp: visit_answer_def)

lemma visit_answer_failed [simp]: "pi_p (tr_info t) = EPhaseFailed \<Longrightarrow> visit_answer d nsm t r = (nr_nsm r = nsm)"
  by (auto simp: visit_answer_def)

lemma handle_nested_answer:
  fixes r :: "('s, 'w) nrun"
  shows "returns (handleSubWorkflow E (executor E F stack_overflow k) nCtx sp (subworkflow_nodes E nCtx sp)) r
     (visit_answer (complete_nested E (executor E F stack_overflow k) nCtx sp) (nr_nsm r))"
  unfolding handleSubWorkflow_def
proof (rule quiet_bind [OF quiet_context])
  fix xc and r1 :: "('s, 'w) nrun"
  assume r1: "nr_nsm r1 = nr_nsm r"
  show "returns (case StartNode sp of None \<Rightarrow> run_panic
      | Some startNode \<Rightarrow> run_bind (nx_RecursiveNodeHandler (executor E F stack_overflow k) xc (spec_dag sp) (subworkflow_nodes E nCtx sp) startNode)
          (subworkflow_outcome E nCtx sp (subworkflow_nodes E nCtx sp))) r1
    (visit_answer (complete_nested E (executor E F stack_overflow k) nCtx sp) (nr_nsm r))"
  proof (cases "StartNode sp")
    case (Some n)
    have "returns (subworkflow_outcome E nCtx sp (subworkflow_nodes E nCtx sp) x) r2
        (visit_answer (complete_nested E (executor E F stack_overflow k) nCtx sp) (nr_nsm r))"
      if "nx_RecursiveNodeHandler (executor E F stack_overflow k) xc (spec_dag sp) (subworkflow_nodes E nCtx sp) n r1 = (Go_Ok x, r2)"
        "nr_nsm r2 = nr_nsm r1" for x r2
    proof -
      have "IsComplete x \<Longrightarrow> complete_nested E (executor E F stack_overflow k) nCtx sp"
        using Some that(1) by (auto simp: complete_nested_def)
      then have "visit_answer (IsComplete x) (nr_nsm r2) t r3 \<Longrightarrow>
          visit_answer (complete_nested E (executor E F stack_overflow k) nCtx sp) (nr_nsm r) t r3" for t and r3 :: "('s, 'w) nrun"
        using visit_answer_mono that(2) r1 by metis
      then show ?thesis by (rule returns_mono [OF outcome_answer])
    qed
    then show ?thesis using Some by (auto intro: quiet_bind [OF quiet_walk(1)])
  qed simp
qed

lemma start_answer:
  fixes r :: "('s, 'w) nrun"
  shows "returns (startAndHandleSubWorkflow E (executor E F stack_overflow k) nCtx sp (subworkflow_nodes E nCtx sp)) r
     (visit_answer (complete_nested E (executor E F stack_overflow k) nCtx sp) (nr_nsm r))"
proof -
  obtain x r1 where inputs: "read_inputs E nCtx r = (x, r1)" by force
  then have r1: "nr_nsm r1 = nr_nsm r" using keeps_result [OF quiet_inputs(1)] by (auto simp: outer_def)
  show ?thesis
  proof (cases x)
    case (Go_Ok m)
    have "returns (run_bind (getExecutionContextForDownstream nCtx) (\<lambda>_.
         run_bind (SetInputsForStartNode E (subworkflow_nodes E nCtx sp) (StartNode sp) m) (\<lambda>startStatus.
           if HasFailed startStatus then
             run_ok (DoTransition TransitionTypeEphemeral
               (PhaseInfoFailureErr (cfg_now (ne_cfg E)) (cfg_alloc (ne_cfg E)) (xs_Err startStatus) None))
           else handleSubWorkflow E (executor E F stack_overflow k) nCtx sp (subworkflow_nodes E nCtx sp)))) r1
       (visit_answer (complete_nested E (executor E F stack_overflow k) nCtx sp) (nr_nsm r))"
      using handle_nested_answer [of E F k nCtx sp] r1 failure_phase(1) [of "ne_cfg E", unfolded original_failure_def]
      by (intro quiet_bind [OF quiet_context] quiet_bind [OF quiet_inputs(2)]) (auto, metis)
    with inputs Go_Ok show ?thesis by (simp add: returns_def startAndHandleSubWorkflow_def)
  qed (use inputs r1 in \<open>auto simp: returns_def startAndHandleSubWorkflow_def\<close>)
qed

lemma skip: "(\<And>x r'. returns (f x) r' Q) \<Longrightarrow> returns (run_bind m f) r Q"
  by (force simp: returns_def run_bind_Ok)

lemma handed_state: "nsm_w n = Some x \<Longrightarrow> GetWorkflowNodeState n = x"
  by (simp add: GetWorkflowNodeState_def)

lemma update_answer:
  assumes "update_node_state m x r = (Go_Ok t, r')"
  shows "nsm_w (nr_nsm r') = Some x \<and> (\<exists>r1. m r = (Go_Ok t, r1))"
  using assms by (auto simp: update_node_state_def run_bind_Ok put_manager_def run_ok_def PutWorkflowNodeState_def)

lemma failing_answer:
  fixes E :: "'w node_env" and c :: "('s, 'w) NodeExecutor"
  shows "returns (HandleFailingSubWorkflow E c nCtx) r (\<lambda>t r'. pi_p (tr_info t) = EPhaseRunning \<or> pi_p (tr_info t) = EPhaseFailed)"
proof -
  have outcome: "returns (failure_node_outcome E e x) r (\<lambda>t r'. pi_p (tr_info t) = EPhaseRunning \<or> pi_p (tr_info t) = EPhaseFailed)"
    for e x and r :: "('s, 'w) nrun"
    unfolding failure_node_outcome_def enqueue_and_run_def by (auto simp: returns_def run_bind_Ok run_ok_def)
  have "returns (HandleFailureNodeOfSubWorkflow E c nCtx sp) r (\<lambda>t r'. pi_p (tr_info t) = EPhaseRunning \<or> pi_p (tr_info t) = EPhaseFailed)" for sp r
    unfolding HandleFailureNodeOfSubWorkflow_def Let_def
    by (rule skip) (auto split: option.split intro!: skip outcome)
  then show ?thesis
    unfolding HandleFailingSubWorkflow_def with_subworkflow_def
    by (intro skip) (auto split: sum.split option.split intro!: skip)
qed


text \<open>A failing sub-workflow that is not known any more.\<close>

definition orphan_node :: "WorkflowStatus NodeExecContext" where
  "orphan_node = sample_context\<lparr>nc_node := (plain_node ''b'')\<lparr>en_WorkflowNode := Some \<lparr>wfn_LaunchPlanRefID = None,
     wfn_SubWorkflowReference = Some ''s''\<rparr>\<rparr>\<rparr>"

definition failing_round :: "(WorkflowStatus, unit) nrun" where
  "failing_round = (node_round sample_status)\<lparr>nr_nsm := (newNodeStateManager new_NodeStatus)
     \<lparr>nsm_w := Some \<lparr>wst_Phase = WorkflowNodePhaseFailing, wst_Error = None\<rparr>\<rparr>\<rparr>"

abbreviation sample_executor :: "(WorkflowStatus, unit) NodeExecutor" where
  "sample_executor \<equiv> executor sample_services (node_handlers sample_services copying_tasks) stack_overflow 3"


end
