(* ===== verification/Composed_Executor.thy ===== *)
theory Composed_Executor
  imports Workflow_Handler
begin

section \<open>The workflow executor on the node executor\<close>

text \<open>
  The workflow executor calls the node executor through an interface, which its model has as a parameter. Here the two are put together, as in
  controller/workflow/executor.go. The node executor keeps the contract \<open>frames\<close> that the workflow executor relies on, and a
  workflow that runs goes on to succeed exactly if all its nodes have ended well.

  Each round of a workflow makes one call of the node executor, with counters that start from zero, so a call takes the state of
  the services as it finds it.
\<close>

subsection \<open>The factory with workflow nodes\<close>

definition all_handlers :: "'w node_env \<Rightarrow> ('s, 'w) handlers \<Rightarrow> ('s, 'w) NodeExecutor \<Rightarrow> ('s, 'w) handlers" where
  "all_handlers E other c kind = (case kind of NodeKindWorkflow \<Rightarrow> Some (workflowNodeHandler E c) | _ \<Rightarrow> node_handlers E other c kind)"

subsection \<open>Putting the executors together\<close>

definition start_run :: "'w \<Rightarrow> 's \<Rightarrow> ('s, 'w) nrun" where
  "start_run w0 s = \<lparr>nr_s = s, nr_nsm = newNodeStateManager new_NodeStatus, nr_cf = InitializeControlFlow, nr_events = [], nr_w = w0\<rparr>"

definition on_statuses :: "'w \<Rightarrow> ('a, (WorkflowStatus, 'w) nrun) grun \<Rightarrow> FlyteWorkflow \<Rightarrow> 'a go \<times> FlyteWorkflow" where
  "on_statuses w0 m w = (case m (start_run w0 (fw_Status w)) of (x, r) \<Rightarrow> (x, w\<lparr>fw_Status := nr_s r\<rparr>))"

text \<open>The status of the failure node is a pointer into the statuses of the workflow, so it is stored there again.\<close>

definition on_failure_node ::
    "'w \<Rightarrow> exec_env \<Rightarrow> string \<Rightarrow> ('a, (WorkflowStatus \<times> NodeStatus, 'w) nrun) grun \<Rightarrow> FlyteWorkflow \<Rightarrow> 'a go \<times> FlyteWorkflow" where
  "on_failure_node w0 X i m w =
     (case wf_GetNodeExecutionStatus (en_refs X) (en_format_uint X) i (fw_Status w) of
        (None, s) \<Rightarrow> (Go_Panic, w\<lparr>fw_Status := s\<rparr>)
      | (Some f, s) \<Rightarrow>
          (case m (start_run w0 (s, f)) of (x, r) \<Rightarrow> (x, w\<lparr>fw_Status := wf_put i (snd (nr_s r)) (fst (nr_s r))\<rparr>)))"

definition failure_dag :: "'s NodeLookup \<Rightarrow> DAGStructure" where
  "failure_dag nl = \<lparr>dag_ToNode = nl_ToNode nl, dag_FromNode = nl_FromNode nl\<rparr>"

definition with_nodes ::
    "exec_env \<Rightarrow> 'w node_env \<Rightarrow> (FlyteWorkflow \<Rightarrow> ExecContext) \<Rightarrow> 'w \<Rightarrow> (WorkflowStatus, 'w) NodeExecutor \<Rightarrow>
     (WorkflowStatus \<times> NodeStatus, 'w) NodeExecutor \<Rightarrow> exec_env" where
  "with_nodes X E xc w0 c cf =
     (let nl = workflow_lookup (en_refs X) (en_format_uint X)
      in X\<lparr>en_SetInputsForStartNode := (\<lambda>inputs w. case fw_Spec w of None \<Rightarrow> (Go_Panic, w) | Some sp \<Rightarrow>
             on_statuses w0 (SetInputsForStartNode E (nl sp) (StartNode sp) inputs) w),
           en_RecursiveNodeHandler := (\<lambda>k n w. case fw_Spec w of None \<Rightarrow> (Go_Panic, w) | Some sp \<Rightarrow>
             (case k of
                Workflow_Nodes \<Rightarrow> on_statuses w0 (nx_RecursiveNodeHandler c (xc w) (spec_dag sp) (nl sp) n) w
              | Failure_Node f e \<Rightarrow>
                  (let fl = NewFailureNodeLookup (nl sp) f (Some e)
                   in on_failure_node w0 X (en_ID f) (nx_RecursiveNodeHandler cf (xc w) (failure_dag fl) fl n) w))),
           en_AbortHandler := (\<lambda>n reason w. case fw_Spec w of None \<Rightarrow> (Go_Panic, w) | Some sp \<Rightarrow>
             on_statuses w0 (nx_AbortHandler c (xc w) (spec_dag sp) (nl sp) n reason) w)\<rparr>)"

subsection \<open>What the nodes leave alone\<close>

definition core_kept :: "('s \<Rightarrow> 'c) \<Rightarrow> ('s, 'w) nrun \<Rightarrow> ('s, 'w) nrun \<Rightarrow> bool" where
  "core_kept core r r' \<longleftrightarrow> core (nr_s r') = core (nr_s r)"

interpretation kept: run_steps "core_kept core" for core :: "'s \<Rightarrow> 'c"
  by unfold_locales (auto simp: core_kept_def)

locale core_lookup =
  fixes nl :: "'s NodeLookup" and core :: "'s \<Rightarrow> 'c"
  assumes core_read: "nl_status nl i s = (x, s') \<Longrightarrow> core s' = core s"
    and core_written: "core (nl_write nl i n s) = core s"
begin

abbreviation same_core :: "('s, 'w) nrun \<Rightarrow> ('s, 'w) nrun \<Rightarrow> bool" where
  "same_core \<equiv> core_kept core"

lemma core_steps: "nc_nl nCtx = nl \<Longrightarrow> executor_steps same_core nCtx"
  by unfold_locales (use core_read in \<open>simp add: core_kept_def\<close>)

lemma core_changed: "keeps same_core (change_status nl i f) UNIV"
proof (rule keeps_all)
  fix r r' :: "('s, 'w) nrun" and x
  assume "change_status nl i f r = (x, r')"
  then show "same_core r r'"
    by (cases "nl_status nl i (nr_s r)") (auto simp: core_kept_def change_status_def core_written dest: core_read split: option.splits)
qed

lemma core_found: "keeps same_core (find_status nl i) UNIV"
proof (rule keeps_all)
  fix r r' :: "('s, 'w) nrun" and x
  assume "find_status nl i r = (x, r')"
  then show "same_core r r'"
    by (cases "nl_status nl i (nr_s r)") (auto simp: core_kept_def find_status_def dest: core_read split: option.splits)
qed

lemma core_changing:
  assumes "nc_nl nCtx = nl" "handler_steps same_core nCtx h"
  shows "changing_steps same_core nCtx h"
  by (intro changing_steps.intro [OF assms(2)] changing_steps_axioms.intro)
    (simp_all add: assms(1) core_changed update_node_def kept.keeps_seq kept.keeps_steps)

lemma core_branch:
  assumes "nc_nl nCtx = nl" "walks_keep (outer same_core) nl c"
  shows "handler_steps same_core nCtx (branchHandler E c)"
proof (rule branch_steps.branch_handled, rule branch_steps.intro [OF core_steps [OF assms(1)]])
  have "walks_keep same_core nl c" by (rule walks_keep_weaken [OF assms(2)]) (simp add: outer_def)
  then show "branch_steps_axioms same_core nCtx c"
    by (intro branch_steps_axioms.intro) (simp_all add: assms(1) core_changed core_kept_def [of _ "_ :: ('s, 'w) nrun" "_\<lparr>nr_nsm := _\<rparr>"])
qed

end

text \<open>The lookups of nodes below a node leave alone what the lookup of that node does.\<close>

context core_lookup
begin

lemma nested_core: "core_lookup (nested_lookup nl own sub) core"
proof
  fix i x s s'
  assume "nl_status (nested_lookup nl own sub) i s = (x, s')"
  then show "core s' = core s"
    by (cases "nl_status nl own s") (auto simp: nested_lookup_def core_written split: option.splits prod.splits dest: core_read)
next
  fix i n s
  show "core (nl_write (nested_lookup nl own sub) i n s) = core s"
    by (cases "nl_status nl own s") (auto simp: nested_lookup_def core_written split: option.split dest: core_read)
qed

lemma nested_failure_core: "core_lookup (nested_failure_lookup nl f e) core"
  by unfold_locales (auto simp: nested_failure_lookup_def Let_def core_written dest: core_read)

end

lemma outer_kept: "outer R r r' \<Longrightarrow> R r r'"
  by (simp add: outer_def)

definition core_walks :: "('s \<Rightarrow> 'c) \<Rightarrow> ('s, 'w) NodeExecutor \<Rightarrow> bool" where
  "core_walks core c \<longleftrightarrow> (\<forall>nl. core_lookup nl core \<longrightarrow> walks_keep (outer (core_kept core)) nl c)"

locale core_walk =
  fixes core :: "'s \<Rightarrow> 'c" and E :: "'w node_env" and other :: "('s, 'w) handlers"
  assumes others: "core_lookup (nc_nl nCtx) core \<Longrightarrow> other kind = Some h \<Longrightarrow> handler_keeps (core_kept core) nCtx h"
begin

lemma core_workflow:
  assumes "core_lookup (nc_nl nCtx) core" "core_walks core c"
  shows "handler_keeps (core_kept core) nCtx (workflowNodeHandler E c)"
proof (rule workflow_steps.workflow_kept, intro workflow_steps.intro workflow_steps_axioms.intro)
  have sub: "core_lookup (subworkflow_nodes E nCtx sp) core" for sp
    unfolding subworkflow_nodes_def by (rule core_lookup.nested_core [OF assms(1)])
  have walks: "walks_keep (core_kept core) nl c" if "core_lookup nl core" for nl
    by (rule walks_keep_weaken [of "outer (core_kept core)"]) (use that assms(2) in \<open>auto simp: core_walks_def outer_def\<close>)
  show "executor_steps (core_kept core) nCtx" by (rule core_lookup.core_steps [OF assms(1) refl])
  show "walks_keep (core_kept core) (subworkflow_nodes E nCtx sp) c" for sp by (rule walks [OF sub])
  show "walks_keep (core_kept core) (nested_failure_lookup (subworkflow_nodes E nCtx sp) f e) c" for sp f e
    by (rule walks [OF core_lookup.nested_failure_core [OF sub]])
  show "core_kept core r (r\<lparr>nr_s := s\<rparr>)" if "nl_status (subworkflow_nodes E nCtx sp) i (nr_s r) = (x, s)" for sp i and r :: "('s, 'w) nrun" and x s
    using core_lookup.core_read [OF sub that] by (simp add: core_kept_def)
qed

lemma core_handlers:
  assumes "core_lookup nl core" "core_walks core c" "context_in nl nCtx" "all_handlers E other c kind = Some h"
  shows "changing_steps (core_kept core) nCtx h"
proof -
  have nl: "nc_nl nCtx = nl" using assms(3) by (simp add: context_in_def)
  have keeps: "handler_keeps (core_kept core) nCtx h \<or> h = branchHandler E c"
    using assms(4) others [of nCtx] core_workflow [of nCtx c] kept.plain_handlers assms(1,2)
      executor_steps.gate_kept [OF core_lookup.core_steps [OF assms(1) nl]]
    by (auto simp: all_handlers_def node_handlers_def nl split: NodeKind.splits)
  have "walks_keep (outer (core_kept core)) nl c" using assms(1,2) by (simp add: core_walks_def)
  with keeps have "handler_steps (core_kept core) nCtx h"
    using handler_keeps_steps [OF core_lookup.core_steps [OF assms(1) nl]] core_lookup.core_branch [OF assms(1) nl] by blast
  then show ?thesis by (rule core_lookup.core_changing [OF assms(1) nl])
qed

lemma core_steps_above:
  assumes "core_lookup nl core" "core_walks core c"
  shows "walk_steps (core_kept core) nl E (\<lambda>_. all_handlers E other c)"
proof (intro walk_steps.intro walk_steps_axioms.intro, goal_cases)
  case 1
  show ?case by unfold_locales (auto simp: core_kept_def dest: core_lookup.core_read [OF assms(1)])
next
  case (2 r r' a b)
  then show ?case by (simp add: core_kept_def)
next
  case (3 c' nCtx kind h dag reason)
  note steps = core_handlers [OF assms 3(2,3)]
  have handled: "handler_steps (core_kept core) nCtx h" by (rule changing_steps.axioms(1) [OF steps])
  show ?case
    by (intro conjI keeps_fresh_keeps changing_steps.keeps_HandleNode [OF steps] handler_steps.keeps_Abort [OF handled])
      (simp add: Finalize_node_def handler_steps.finalize_kept [OF handled])
qed

lemma walk_core: "core_walks core (executor E (all_handlers E other) stack_overflow k)"
proof (induction k)
  case 0
  show ?case by (simp add: core_walks_def walks_keep_def stack_overflow_def keeps_def run_panic_def outer_def core_kept_def)
next
  case (Suc k)
  have "walks_keep (outer (core_kept core)) nl (executor E (all_handlers E other) stack_overflow (Suc k))" if nl: "core_lookup nl core" for nl
  proof -
    have "walks_keep (outer (core_kept core)) nl (executor E (all_handlers E other) stack_overflow k)"
      using Suc.IH nl by (simp add: core_walks_def)
    from walk_steps.walk_kept [OF core_steps_above [OF nl Suc.IH] this] show ?thesis by (simp add: walks_keep_def Let_def)
  qed
  then show ?case by (simp add: core_walks_def)
qed

end

subsection \<open>The contract of the workflow executor\<close>

definition status_core :: "WorkflowStatus \<Rightarrow> WorkflowStatus" where
  "status_core s = s\<lparr>ws_NodeStatus := None\<rparr>"

lemma status_core_put [simp]: "status_core (wf_put i n s) = status_core s"
  by (simp add: status_core_def wf_put_def)

lemma status_core_read [simp]: "status_core (snd (wf_GetNodeExecutionStatus refs fmt i s)) = status_core s"
  by (auto simp: status_core_def wf_GetNodeExecutionStatus_def Let_def wf_put_def split: option.split)

interpretation workflow_core: core_lookup "workflow_lookup refs fmt w" status_core for refs fmt w
  by unfold_locales (auto dest: arg_cong [of _ _ "status_core \<circ> snd"])

interpretation failure_core: core_lookup "NewFailureNodeLookup (workflow_lookup refs fmt w) f e" "status_core \<circ> fst" for refs fmt w f e
proof (unfold_locales, goal_cases)
  case (1 i s x s')
  then show ?case
    using status_core_read [of refs fmt i "fst s"] by (cases s) (auto simp: workflow.nl_failure split: if_splits)
next
  case (2 i n s)
  show ?case by (cases s) (simp add: workflow.nl_failure)
qed

lemma core_on_statuses: "keeps (core_kept status_core) m UNIV \<Longrightarrow> core_of (snd (on_statuses w0 m w)) = core_of w"
  unfolding on_statuses_def keeps_def
  by (auto simp: core_of_def core_kept_def status_core_def start_run_def split: prod.split)
    (metis nrun.select_convs(1) snd_conv)

lemma core_on_failure_node:
  assumes "keeps (core_kept (status_core \<circ> fst)) m UNIV"
  shows "core_of (snd (on_failure_node w0 X i m w)) = core_of w"
proof -
  obtain n s where n: "wf_GetNodeExecutionStatus (en_refs X) (en_format_uint X) i (fw_Status w) = (n, s)" by force
  have s: "status_core s = status_core (fw_Status w)" using status_core_read [of "en_refs X" "en_format_uint X" i "fw_Status w"] n by simp
  show ?thesis
  proof (cases n)
    case None
    with n s show ?thesis by (simp add: on_failure_node_def core_of_def status_core_def)
  next
    case (Some f)
    obtain x r where r: "m (start_run w0 (s, f)) = (x, r)" by force
    with keeps_result [OF assms r] have "status_core (fst (nr_s r)) = status_core s" by (simp add: core_kept_def start_run_def)
    then have "status_core (wf_put i (snd (nr_s r)) (fst (nr_s r))) = status_core (fw_Status w)" by (simp add: s)
    with n Some r show ?thesis by (simp add: on_failure_node_def core_of_def status_core_def)
  qed
qed

lemma keeps_SetInputs: "keeps (core_kept status_core) (SetInputsForStartNode E (workflow_lookup refs fmt w) n inputs) UNIV"
  unfolding SetInputsForStartNode_def
  by (auto intro!: kept.keeps_seq kept.keeps_pure kept.keeps_world workflow_core.core_found split: option.split)

text \<open>
  Property C11. The node executor, with the handlers of start, end, branch, gate and workflow nodes and any handlers of the other kinds that change
  nothing but statuses of nodes, keeps the contract that the workflow executor relies on: entering the inputs, a walk over the nodes, a walk over
  the failure node and aborting leave everything but the statuses of nodes as it was, whether they return, fail or panic.
\<close>

theorem node_executor_frames:
  fixes E :: "'w node_env"
  assumes "\<And>nCtx kind h. core_lookup (nc_nl nCtx) status_core \<Longrightarrow> other kind = Some h \<Longrightarrow> handler_keeps (core_kept status_core) nCtx h"
    and "\<And>nCtx kind h. core_lookup (nc_nl nCtx) (status_core \<circ> fst) \<Longrightarrow> otherf kind = Some h \<Longrightarrow>
      handler_keeps (core_kept (status_core \<circ> fst)) nCtx h"
  shows "frames (with_nodes X E xc w0 (executor E (all_handlers E other) stack_overflow k) (executor E (all_handlers E otherf) stack_overflow k))"
proof -
  let ?c = "executor E (all_handlers E other) stack_overflow k" and ?cf = "executor E (all_handlers E otherf) stack_overflow k"
  have "core_walk status_core other" "core_walk (status_core \<circ> fst) otherf"
    using assms by (unfold_locales)
  note walks = core_walk.walk_core [OF this(1), of E k] core_walk.walk_core [OF this(2), of E k]
  have "walks_keep (core_kept status_core) (workflow_lookup (en_refs X) (en_format_uint X) sp) ?c" for sp
    by (rule walks_keep_weaken [OF walks(1) [unfolded core_walks_def, rule_format, OF workflow_core.core_lookup_axioms] outer_kept])
  moreover have "walks_keep (core_kept (status_core \<circ> fst)) (NewFailureNodeLookup (workflow_lookup (en_refs X) (en_format_uint X) sp) f e) ?cf" for sp f e
    by (rule walks_keep_weaken [OF walks(2) [unfolded core_walks_def, rule_format, OF failure_core.core_lookup_axioms] outer_kept])
  ultimately show ?thesis
    unfolding frames_def with_nodes_def Let_def walks_keep_def
    by (auto simp: core_on_statuses core_on_failure_node keeps_SetInputs split: option.split lookup_kind.split)
qed

text \<open>
  Property C5. When a running workflow succeeds. For arbitrary handlers, a round of a workflow without cycles that returns asks for the phase
  \<open>Succeeding\<close> exactly if every node that can be reached from the start node has succeeded, was skipped or was recovered.
\<close>

theorem running_workflow_succeeds:
  fixes E :: "'w node_env"
  assumes "acyclic (walk_edges sp)" "2 * length (spec_Nodes sp) < k"
    and "fw_Spec (rd_w r) = Some sp" "StartNode sp = Some n"
    and "handleRunningWorkflow (with_nodes X E xc w0 (executor E F stack_overflow k) cf) r = (Go_Ok st, r')"
  shows "TransitionToPhase_of st = WorkflowPhaseSucceeding \<longleftrightarrow>
    complete_below (spec_dag sp) (workflow_lookup (en_refs X) (en_format_uint X) sp) (fw_Status (rd_w r)) n"
proof -
  let ?nl = "workflow_lookup (en_refs X) (en_format_uint X) sp"
  have "acyclic_workflow sp" using assms(1) by unfold_locales
  note complete = acyclic_workflow.complete_iff [OF this assms(2)]
  obtain x r1 where x: "nx_RecursiveNodeHandler (executor E F stack_overflow k) (xc (rd_w r)) (spec_dag sp) ?nl n (start_run w0 (fw_Status (rd_w r))) =
      (Go_Ok x, r1)" and st: "TransitionToPhase_of st = WorkflowPhaseSucceeding \<longleftrightarrow> IsComplete x"
    using assms(3-5)
    by (auto simp: handleRunningWorkflow_def with_nodes_def Let_def run_bind_Ok the_spec_def on_workflow_def on_statuses_def run_ok_def enqueueWorkflow_def
        HasFailed_def HasTimedOut_def IsComplete_def PartiallyComplete_def StatusFailing_def StatusSucceeding_def StatusRunning_def
        split: prod.splits if_splits)
  from complete [OF x] st show ?thesis by (simp add: start_run_def)
qed

subsection \<open>An example\<close>

abbreviation branching_env :: exec_env where
  "branching_env \<equiv> with_nodes sample_env sample_services (\<lambda>_. sample_execution) ()
     (executor sample_services (all_handlers sample_services copying_tasks) stack_overflow 7)
     (executor sample_services (all_handlers sample_services copying_tasks) stack_overflow 7)"

definition branching_round :: round where
  "branching_round = \<lparr>rd_w = (sample_workflow WorkflowPhaseRunning)\<lparr>fw_Spec := Some branching_spec, fw_Status := branching_status\<rparr>,
     rd_events = [], rd_enqueued = 0\<rparr>"

theorem node_executor_frames_witness: "frames branching_env"
  by (rule node_executor_frames) (auto simp: copying_tasks_def kept.plain_handlers split: if_splits)

theorem running_workflow_succeeds_witness:
  "\<exists>st r'. handleRunningWorkflow branching_env branching_round = (Go_Ok st, r') \<and> TransitionToPhase_of st = WorkflowPhaseSucceeding"
proof -
  have ac: "acyclic_workflow branching_spec" using branching_acyclic by unfold_locales
  have "walk_rank branching_spec (en_ID branching_start) < 7"
    using walk_rank_bound [of branching_spec "en_ID branching_start"] by (simp add: branching_length)
  then obtain r1 where run: "nx_RecursiveNodeHandler (executor sample_services (all_handlers sample_services copying_tasks) stack_overflow 7)
      sample_execution (spec_dag branching_spec) branching_lookup branching_start (start_run () branching_status) = (Go_Ok NodeStatusComplete, r1)"
    using workflow.complete_walk [OF branching_complete acyclic_workflow.spec_ranked [OF ac], of 7 "start_run () branching_status" sample_services
        "all_handlers sample_services copying_tasks" stack_overflow sample_execution] by (auto simp: start_run_def)
  have start: "StartNode branching_spec = Some branching_start" using branching_nodes(1) by (simp add: StartNode_def spec_GetNode_def)
  have env: "en_refs sample_env = sample_refs" "en_format_uint sample_env = itoa \<circ> unat" by (simp_all add: sample_env_def)
  have round: "fw_Spec (rd_w branching_round) = Some branching_spec" "fw_Status (rd_w branching_round) = branching_status"
    by (simp_all add: branching_round_def)
  obtain st r' where r': "handleRunningWorkflow branching_env branching_round = (Go_Ok st, r')"
    using run start
    by (auto simp: handleRunningWorkflow_def run_bind_def the_spec_def round with_nodes_def Let_def on_workflow_def on_statuses_def env
        HasFailed_def HasTimedOut_def IsComplete_def exec_statuses run_ok_def)
  have "2 * length (spec_Nodes branching_spec) < 7" by (simp add: branching_length)
  from running_workflow_succeeds [OF branching_acyclic this round(1) start r'] branching_complete r' show ?thesis
    by (auto simp: env round)
qed

end
