(* ===== verification/Failure_Retry.thy ===== *)
theory Failure_Retry
  imports Composed_Executor
begin

section \<open>Retries of failure nodes\<close>

text \<open>
  A node that failed but may be retried goes through a round of its own, in which it is aborted and set running again; this round answers
  that the node is pending. The workflow executor (controller/workflow/executor.go) takes this answer of the failure node for its end.
\<close>

subsection \<open>The round between two attempts\<close>

lemma retry_phase: "ns_Phase (ns (retry_status cfg st)) = NodePhaseRunning"
proof -
  have "changes (retry_status cfg) (\<lambda>(_, a, s). (NodePhaseRunning, a + 1, s))"
    unfolding changes_def by (simp add: retry_status_def flag_setters vital_UpdatePhase upd_def vital_def)
  then show ?thesis by (auto simp: changes_def vital_def split: prod.splits)
qed

context node_lookup
begin

lemma changed_status:
  assumes "change_status nl i f r = (Go_Ok (), r')"
  shows "\<exists>n. seen nl i (nr_s r') = Some (obs (f n))"
  using assms seen_modify [of i "nr_s r" _ _ i f] by (auto simp: change_status_def split: prod.splits option.splits)

lemma read_phase:
  assumes "seen nl i (nr_s r) = Some (obs st)"
  shows "\<exists>st'. read_status nl i r = (Go_Ok st', r) \<and> ns_Phase (ns st') = ns_Phase (ns st)"
proof -
  from assms obtain st' where "fst (nl_status nl i (nr_s r)) = Some st'" "obs st' = obs st" by (auto simp: seen_def)
  then show ?thesis using obs_reads(2) [of st] obs_reads(2) [of st'] by (simp add: read_status_def)
qed

lemma retry_handled:
  assumes "HandleNode E dag nCtx h r = (Go_Ok x, r')" "nc_nl nCtx = nl" "nc_id nCtx = i"
    "seen nl i (nr_s r) = Some (obs st)" "ns_Phase (ns st) = NodePhaseRetryableFailure"
  shows "x = NodeStatusPending \<and> phase_at i (nr_s r') = Some NodePhaseRunning"
proof -
  obtain st' where "own_status nCtx r = (Go_Ok st', r)" "ns_Phase (ns st') = NodePhaseRetryableFailure"
    using read_phase [OF assms(4)] assms(2,3,5) by auto
  then have "handleRetryableFailure E nCtx h r = (Go_Ok x, r')"
    using assms(1) by (simp add: HandleNode_def run_bind_def)
  then obtain r1 where "x = NodeStatusPending" "change_status nl i (retry_status (ne_cfg E)) r1 = (Go_Ok (), r')"
    using assms(2,3) by (auto simp: handleRetryableFailure_def run_bind_Ok run_ok_def)
  moreover from changed_status [OF this(2)] obtain m where "seen nl i (nr_s r') = Some (obs (retry_status (ne_cfg E) m))" by blast
  then have "phase_at i (nr_s r') = Some NodePhaseRunning"
    by (simp add: phase_at_def case_prod_beta obs_reads(2) retry_phase)
  ultimately show ?thesis by simp
qed

lemma retry_walk:
  assumes "nx_RecursiveNodeHandler (executor E F c (Suc k)) xc dag nl n r = (Go_Ok x, r')"
    "seen nl (en_ID n) (nr_s r) = Some (st, False)" "ns_Phase (ns st) = NodePhaseRetryableFailure" "cf_parallelism (nr_cf r) = 0"
    "nl_GetNode nl (en_ID n) = Some n" "task_reader xc n = Inr tr"
  shows "x = NodeStatusPending \<and> phase_at (en_ID n) (nr_s r') = Some NodePhaseRunning"
proof -
  obtain n1 s1 where n1: "nl_status nl (en_ID n) (nr_s r) = (Some n1, s1)" "obs n1 = (st, False)"
    using assms(2) by (cases "nl_status nl (en_ID n) (nr_s r)") (auto simp: seen_def)
  have phase: "ns_Phase (ns n1) = NodePhaseRetryableFailure" "\<not> IsDirty n1"
    using n1(2) assms(3) obs_reads(1,2) [of n1] by auto
  have seen1: "seen nl (en_ID n) s1 = Some (obs n1)"
    using seen_status [of "en_ID n" "en_ID n" "nr_s r"] n1 by (simp add: seen_def)
  have "visit_node E (F (executor E F c k)) xc dag nl n n1 (r\<lparr>nr_s := s1\<rparr>) = (Go_Ok x, r')"
    using assms(1) n1(1) phase
    by (auto simp: RecursiveNodeHandler_def Let_def run_bind_Ok find_status_def count_execution_def run_ok_def canHandleNode_def)
  then have "handle_current E (F (executor E F c k)) xc dag nl n (r\<lparr>nr_s := s1\<rparr>) = (Go_Ok x, r')"
    using phase(2) assms(4) by (auto simp: visit_node_def run_bind_def get_run_def IsMaxParallelismAchieved_def split: if_splits)
  moreover obtain n2 s2 where n2: "nl_status nl (en_ID n) s1 = (Some n2, s2)"
    using seen1 by (cases "nl_status nl (en_ID n) s1") (auto simp: seen_def)
  then obtain nCtx r2 where b: "BuildNodeExecutionContext (ne_cfg E) xc nl (en_ID n) (r\<lparr>nr_s := s1\<rparr>) = (Go_Ok nCtx, r2)"
      "nr_s r2 = s2" "nc_nl nCtx = nl" "nc_id nCtx = en_ID n"
    using assms(5,6) by (auto simp: BuildNodeExecutionContext_def Let_def newNodeExecContext_def)
  ultimately obtain h r3 where "HandleNode E dag nCtx h r2 = (Go_Ok x, r3)" "nr_s r' = nr_s r3"
    by (auto simp: handle_current_def own_manager_def run_bind_Ok GetHandler_def run_ok_def run_err_def split: prod.splits option.splits)
  moreover have "seen nl (en_ID n) (nr_s r2) = Some (obs n1)"
    using seen_status [of "en_ID n" "en_ID n" s1] n2 seen1 b(2) by simp
  ultimately show ?thesis using retry_handled [OF _ b(3,4)] phase(1) by metis
qed

end

subsection \<open>The round of the workflow\<close>

lemma wf_seen_put: "seen (workflow_lookup refs fmt sp) i (wf_put i n s) = Some (obs n)"
  by (simp add: wf_seen)

lemma failure_phase_at:
  "i \<noteq> exec_StartNodeID \<Longrightarrow>
     node_lookup.phase_at (NewFailureNodeLookup (workflow_lookup refs fmt sp) f e) i s = Some (ns_Phase (ns (snd s)))"
  by (cases s) (simp add: failure.phase_at_def workflow.failure_seen obs_reads(2) case_prod_beta)

text \<open>
  Property C10. A failure node is not retried. In a round of a workflow that handles its failure node, whose status says that it failed but may be
  retried, the node executor sets the node running again for its next attempt, and the workflow fails all the same: the answer that the node
  is pending is taken for its end. This holds for arbitrary handlers.
\<close>

theorem failure_node_not_retried:
  fixes E :: "'w node_env"
  assumes "fw_Spec (rd_w r) = Some sp" "GetOnFailureNode sp = Some f" "en_ID f \<noteq> exec_StartNodeID"
    and "seen (workflow_lookup (en_refs X) (en_format_uint X) sp) (en_ID f) (fw_Status (rd_w r)) = Some (st, False)"
    and "ns_Phase (ns st) = NodePhaseRetryableFailure" "\<And>w. \<exists>tr. task_reader (xc w) f = Inr tr" "0 < k"
    and "handleFailureNode (with_nodes X E xc w0 c (executor E F stack_overflow k)) r = (Go_Ok s, r')"
  shows "TransitionToPhase_of s = WorkflowPhaseFailed \<and>
    (\<exists>st' d. seen (workflow_lookup (en_refs X) (en_format_uint X) sp) (en_ID f) (fw_Status (rd_w r')) = Some (st', d) \<and> ns_Phase (ns st') = NodePhaseRunning)"
proof -
  let ?nl = "workflow_lookup (en_refs X) (en_format_uint X) sp" and ?X = "with_nodes X E xc w0 c (executor E F stack_overflow k)"
  define w1 where "w1 = (rd_w r)\<lparr>fw_Status := snd (nl_status ?nl (en_ID f) (fw_Status (rd_w r)))\<rparr>"
  have env: "en_refs ?X = en_refs X" "en_format_uint ?X = en_format_uint X" by (simp_all add: with_nodes_def Let_def)
  have status: "nl_status ?nl = wf_GetNodeExecutionStatus (en_refs X) (en_format_uint X)" by (simp add: workflow_lookup_def NewNodeLookup_def)
  have read: "rd_w (snd (node_status ?X (en_ID f) r)) = w1"
    by (simp add: node_status_def env status w1_def split: prod.split option.split)
  have "seen ?nl (en_ID f) (snd (nl_status ?nl (en_ID f) (fw_Status (rd_w r)))) = seen ?nl (en_ID f) (fw_Status (rd_w r))"
    by (rule workflow.seen_status)
  with assms(4) have "seen ?nl (en_ID f) (fw_Status w1) = Some (st, False)" by (simp add: w1_def)
  then obtain f1 s2 where f1: "wf_GetNodeExecutionStatus (en_refs X) (en_format_uint X) (en_ID f) (fw_Status w1) = (Some f1, s2)" "obs f1 = (st, False)"
    by (cases "wf_GetNodeExecutionStatus (en_refs X) (en_format_uint X) (en_ID f) (fw_Status w1)") (auto simp: seen_def status)
  define e where "e = last_execution_error ?X (rd_w r)"
  define fl where "fl = NewFailureNodeLookup ?nl f (Some e)"
  obtain x r1 where run: "nx_RecursiveNodeHandler (executor E F stack_overflow k) (xc w1) (failure_dag fl) fl f (start_run w0 (s2, f1)) = (x, r1)"
    by force
  have call: "en_RecursiveNodeHandler ?X (Failure_Node f e) f w1 = (x, w1\<lparr>fw_Status := wf_put (en_ID f) (snd (nr_s r1)) (fst (nr_s r1))\<rparr>)"
    using f1(1) run assms(1) by (simp add: with_nodes_def Let_def on_failure_node_def fl_def w1_def)
  obtain y where y: "x = Go_Ok y"
    using assms(8) call by (cases x) (simp_all add: handleFailureNode_def run_bind_def get_w_def the_spec_def assms(1,2) Let_def on_workflow_def read flip: e_def)
  obtain tr where tr: "task_reader (xc w1) f = Inr tr" using assms(6) by blast
  obtain j where j: "k = Suc j" using assms(7) by (cases k) auto
  have "y = NodeStatusPending \<and> node_lookup.phase_at fl (en_ID f) (nr_s r1) = Some NodePhaseRunning"
    unfolding fl_def
    by (rule failure.retry_walk [OF run [unfolded y j fl_def]])
      (use f1(2) assms(3,5) tr in \<open>simp_all add: start_run_def workflow.failure_seen InitializeControlFlow_def NewFailureNodeLookup_def [THEN arg_cong [of _ _ nl_GetNode]]\<close>)
  then have pending: "y = NodeStatusPending" and running: "ns_Phase (ns (snd (nr_s r1))) = NodePhaseRunning"
    using assms(3) by (simp_all add: fl_def failure_phase_at)
  have "rd_w r' = w1\<lparr>fw_Status := wf_put (en_ID f) (snd (nr_s r1)) (fst (nr_s r1))\<rparr> \<and> TransitionToPhase_of s = WorkflowPhaseFailed"
    using assms(8) call y pending
    by (auto simp: handleFailureNode_def run_bind_def get_w_def the_spec_def assms(1,2) Let_def on_workflow_def read run_ok_def exec_statuses StatusFailed_def
        simp flip: e_def)
  then show ?thesis
    using running obs_reads(2) [of "snd (nr_s r1)"] by (cases "obs (snd (nr_s r1))") (simp add: wf_seen_put)
qed

subsection \<open>An example\<close>

definition cleanup_node :: NodeSpec where
  "cleanup_node = (plain_node ''f'')\<lparr>en_Kind := NodeKindGate\<rparr>"

definition cleanup_spec :: WorkflowSpec where
  "cleanup_spec = sample_spec\<lparr>spec_OnFailure := Some cleanup_node\<rparr>"

definition retried_once :: NodeStatus where
  "retried_once = NodeStatus (new_NodeFields\<lparr>ns_Phase := NodePhaseRetryableFailure\<rparr>) None"

definition cleanup_round :: round where
  "cleanup_round = \<lparr>rd_w = (sample_workflow WorkflowPhaseHandlingFailureNode)\<lparr>fw_Spec := Some cleanup_spec,
     fw_Status := wf_put ''f'' retried_once sample_status\<rparr>, rd_events = [], rd_enqueued = 0\<rparr>"

abbreviation cleanup_executor :: "(WorkflowStatus \<times> NodeStatus, unit) NodeExecutor" where
  "cleanup_executor \<equiv> executor sample_services (all_handlers sample_services copying_tasks) stack_overflow 1"

abbreviation cleanup_env :: exec_env where
  "cleanup_env \<equiv> with_nodes sample_env sample_services (\<lambda>_. sample_execution) () stack_overflow cleanup_executor"

lemma cleanup_walk:
  assumes "ns_Phase (ns g) = NodePhaseRetryableFailure" "\<not> IsDirty g"
  shows "\<exists>r'. nx_RecursiveNodeHandler cleanup_executor sample_execution dag (NewFailureNodeLookup nl cleanup_node e) cleanup_node
    (start_run () (s, g)) = (Go_Ok NodeStatusPending, r')"
proof -
  let ?fl = "NewFailureNodeLookup nl cleanup_node e"
  have fl: "nl_status ?fl ''f'' (s, g) = (Some g, s, g)" "nl_GetNode ?fl ''f'' = Some cleanup_node" for s g
    by (simp_all add: NewFailureNodeLookup_def exec_StartNodeID_def)
  have node: "en_ID cleanup_node = ''f''" "en_Kind cleanup_node = NodeKindGate" "task_reader sample_execution cleanup_node = Inr None"
    by (simp_all add: cleanup_node_def task_reader_def)
  have gate: "all_handlers sample_services copying_tasks c NodeKindGate = Some (gateHandler sample_services)" for c :: "(WorkflowStatus \<times> NodeStatus, unit) NodeExecutor"
    by (simp add: all_handlers_def node_handlers_def)
  have handled: "\<exists>r'. HandleNode sample_services dag nCtx (gateHandler sample_services) r = (Go_Ok NodeStatusPending, r')"
    if "nc_nl nCtx = ?fl" "nc_id nCtx = ''f''" "nr_s r = (s, g)" for nCtx and r :: "(_, unit) nrun"
  proof -
    have "own_status nCtx r = (Go_Ok g, r)" using that fl by (simp add: read_status_def)
    then show ?thesis
      using that fl assms(1)
      by (simp add: HandleNode_def handleRetryableFailure_def Abort_node_def gateHandler_def run_bind_def run_ok_def change_status_def)
  qed
  obtain nCtx where build: "BuildNodeExecutionContext (ne_cfg sample_services) sample_execution ?fl ''f'' (start_run () (s, g)) =
      (Go_Ok nCtx, (start_run () (s, g))\<lparr>nr_s := (s, g), nr_nsm := newNodeStateManager g\<rparr>)"
    and ctx: "nc_nl nCtx = ?fl" "nc_id nCtx = ''f''" "nc_node nCtx = cleanup_node"
    using fl node by (auto simp: BuildNodeExecutionContext_def Let_def newNodeExecContext_def start_run_def)
  obtain r1 where r1: "HandleNode sample_services dag nCtx (gateHandler sample_services)
      ((start_run () (s, g))\<lparr>nr_s := (s, g), nr_nsm := newNodeStateManager g\<rparr>) = (Go_Ok NodeStatusPending, r1)"
    using handled [OF ctx(1,2), of "(start_run () (s, g))\<lparr>nr_s := (s, g), nr_nsm := newNodeStateManager g\<rparr>"] by auto
  have "handle_current sample_services (all_handlers sample_services copying_tasks stack_overflow) sample_execution dag ?fl cleanup_node (start_run () (s, g)) =
      (Go_Ok NodeStatusPending, r1\<lparr>nr_nsm := nr_nsm (start_run () (s, g))\<rparr>)"
    using build r1 ctx(3) node by (simp add: handle_current_def own_manager_def GetHandler_def gate run_bind_def run_ok_def)
  then show ?thesis
    using assms fl node
    by (simp add: RecursiveNodeHandler_def run_bind_def find_status_def count_execution_def canHandleNode_def visit_node_def get_run_def Let_def
        IsMaxParallelismAchieved_def InitializeControlFlow_def sample_execution_def run_ok_def start_run_def)
qed

theorem failure_node_not_retried_witness:
  "\<exists>s r' st d. handleFailureNode cleanup_env cleanup_round = (Go_Ok s, r') \<and> TransitionToPhase_of s = WorkflowPhaseFailed \<and>
     seen (workflow_lookup sample_refs (itoa \<circ> unat) cleanup_spec) ''f'' (fw_Status (rd_w r')) = Some (st, d) \<and> ns_Phase (ns st) = NodePhaseRunning"
proof -
  let ?nl = "workflow_lookup (en_refs sample_env) (en_format_uint sample_env) cleanup_spec"
  have env: "en_refs sample_env = sample_refs" "en_format_uint sample_env = itoa \<circ> unat" by (simp_all add: sample_env_def)
  have round: "fw_Spec (rd_w cleanup_round) = Some cleanup_spec" "fw_Status (rd_w cleanup_round) = wf_put ''f'' retried_once sample_status"
    "GetOnFailureNode cleanup_spec = Some cleanup_node" "en_ID cleanup_node = ''f''"
    by (simp_all add: cleanup_round_def GetOnFailureNode_def cleanup_spec_def cleanup_node_def)
  have fresh: "obs retried_once = (clean retried_once, False)" "ns_Phase (ns (clean retried_once)) = NodePhaseRetryableFailure"
    by (simp_all add: obs_def retried_once_def IsDirty_iff fields_dirty_def new_NodeFields_def clean_iff clean_fields_def)
  have seen: "seen ?nl ''f'' (fw_Status (rd_w cleanup_round)) = Some (clean retried_once, False)"
    by (simp add: round wf_seen_put fresh)
  have reader: "\<exists>tr. task_reader sample_execution cleanup_node = Inr tr" by (simp add: cleanup_node_def task_reader_def)
  have found: "\<exists>g s'. wf_GetNodeExecutionStatus sample_refs (itoa \<circ> unat) ''f'' s = (Some g, s') \<and> obs g = obs n"
    if "seen ?nl ''f'' s = Some (obs n)" for s n
    using that by (cases "wf_GetNodeExecutionStatus sample_refs (itoa \<circ> unat) ''f'' s") (auto simp: seen_def env workflow_lookup_def NewNodeLookup_def)
  obtain g1 s1 where g1: "wf_GetNodeExecutionStatus sample_refs (itoa \<circ> unat) ''f'' (fw_Status (rd_w cleanup_round)) = (Some g1, s1)"
    using found [of "fw_Status (rd_w cleanup_round)" retried_once] seen fresh(1) by auto
  have "seen ?nl ''f'' (snd (nl_status ?nl ''f'' (fw_Status (rd_w cleanup_round)))) = seen ?nl ''f'' (fw_Status (rd_w cleanup_round))"
    by (rule workflow.seen_status)
  then have "seen ?nl ''f'' s1 = Some (obs retried_once)" using seen fresh(1) g1 by (simp add: env workflow_lookup_def NewNodeLookup_def)
  with found obtain g2 s2 where g2: "wf_GetNodeExecutionStatus sample_refs (itoa \<circ> unat) ''f'' s1 = (Some g2, s2)" "obs g2 = obs retried_once" by blast
  have "ns_Phase (ns g2) = NodePhaseRetryableFailure" "\<not> IsDirty g2"
    using g2(2) fresh obs_reads(1,2) [of g2] by auto
  note walk = cleanup_walk [OF this]
  define X where "X = cleanup_env"
  define e where "e = last_execution_error X (rd_w cleanup_round)"
  obtain r1 where r1: "nx_RecursiveNodeHandler cleanup_executor sample_execution (failure_dag (NewFailureNodeLookup ?nl cleanup_node (Some e)))
      (NewFailureNodeLookup ?nl cleanup_node (Some e)) cleanup_node (start_run () (s2, g2)) = (Go_Ok NodeStatusPending, r1)"
    using walk by blast
  have call: "en_RecursiveNodeHandler X (Failure_Node cleanup_node e) cleanup_node ((rd_w cleanup_round)\<lparr>fw_Status := s1\<rparr>) =
      (Go_Ok NodeStatusPending, (rd_w cleanup_round)\<lparr>fw_Status := wf_put ''f'' (snd (nr_s r1)) (fst (nr_s r1))\<rparr>)"
    using r1 g2(1) by (simp add: X_def with_nodes_def Let_def on_failure_node_def round env)
  have cenv: "en_refs X = sample_refs" "en_format_uint X = itoa \<circ> unat" by (simp_all add: X_def with_nodes_def Let_def env)
  have "\<exists>s r'. handleFailureNode X cleanup_round = (Go_Ok s, r')"
    using call g1 by (simp add: handleFailureNode_def run_bind_def get_w_def the_spec_def round Let_def on_workflow_def node_status_def cenv exec_statuses
        run_ok_def flip: e_def)
  then obtain s r' where r': "handleFailureNode cleanup_env cleanup_round = (Go_Ok s, r')" unfolding X_def by blast
  show ?thesis
    using failure_node_not_retried [where xc = "\<lambda>_. sample_execution", OF round(1,3) _ _ fresh(2) reader _ r'] seen r'
    by (auto simp: round(4) exec_StartNodeID_def env)
qed

end
