(* ===== verification/Spec2Isabelle.thy ===== *)
theory Spec2Isabelle
  imports Compact_Array Literal_Types Bindings Node_State Branch_Evaluation Conditions Predicates Propeller Failure_Retry
begin

text \<open>
  A verification of the core of Flyte, a platform that compiles and runs workflows on Kubernetes. A workflow is a graph of
  nodes. The \<^emph>\<open>compiler\<close> (src/flytepropeller/pkg/compiler) checks it: types of bindings, conditions of branches,
  cycles and reachability. The \<^emph>\<open>propeller\<close> (src/flytepropeller/pkg/controller) runs it: a reconciler reads the workflow
  resource from a store, an executor moves the workflow from phase to phase and walks over its nodes, and every change of
  phase is announced by an event. The state of a run is the status of the resource
  (src/flytepropeller/pkg/apis/flyteworkflow/v1alpha1). Both rest on a small library (src/flytestdlib).

  \<^bold>\<open>Library.\<close> \<open>Flyte_Prelude\<close> has the machine integers, strings and powers of two that the theories share.
  \<open>Bit_Set\<close> and \<open>Compact_Array\<close> model flytestdlib/bitarray: a bit set is a list of 32-bit blocks and refines
  a set of indices; a compact array packs items of equal width into it and refines a list. \<open>Fastcheck\<close> models
  flytestdlib/fastcheck: filters of seen keys, with the interface as the locale \<open>seen_filter\<close>. \<open>Exec_Errors\<close>
  models the errors of flytestdlib/errors, controller/nodes/errors, controller/workflow/errors and events/errors as one datatype,
  with the search along chains of causes; it also has the type \<open>go\<close> of results: a value, an error or a panic.

  \<^bold>\<open>Compiler.\<close> \<open>Core_Model\<close> has the messages of the interface definitions (types, literals, bindings) as
  datatypes, with nil pointers where the code can meet them. \<open>Literal_Types\<close> models validators/typing.go, the casts between
  types; \<open>Literal_Inference\<close> models validators/utils.go, the types of literals; \<open>Var_Names\<close> the two parsers of
  variable names; \<open>Compile_Errors\<close> the errors, their set and the tree of scopes (compiler/errors); \<open>Cycle_Detection\<close>
  detectCycle of compiler/utils.go; \<open>Workflow_Graph\<close> the edges and the reachability check of workflow_compiler.go;
  \<open>Bindings\<close> validators/bindings.go and vars.go; \<open>Conditions\<close> validators/condition.go. The properties: what is accepted (a cast, a binding, a
  graph) is characterised, the checks return on every well-formed input, their verdicts do not depend on the iteration
  order of maps, and a condition that was accepted evaluates at run time.

  \<^bold>\<open>State of a run.\<close> \<open>Node_Substatus\<close>, \<open>Node_Status\<close> and \<open>Workflow_Status\<close> model
  node_status.go and workflow_status.go: records with their setters and dirty flags. Nodes nest, so a \<open>NodeStatus\<close> is a datatype over a
  record. Pointers are values together with an address where the code compares them. \<open>Node_State\<close> models what handlers hand back
  (nodes/handler) and how it is written into the status (nodes/transformers.go, node_state_manager.go): what a handler puts is what the
  next round reads. \<open>Node_Lookup\<close> models the workflow specification and the lookups of controller/executors, with
  the locales \<open>node_lookup\<close> and \<open>workflow\<close> as their contract.

  \<^bold>\<open>Execution.\<close> \<open>Branch_Evaluation\<close> models nodes/branch: comparators, conditions and DecideBranch.
  \<open>Predicates\<close> models nodes/predicate.go: whether a node can run. \<open>Workflow_Executor\<close> models
  controller/workflow/executor.go: one round on a workflow as a state-passing function over the record \<open>round\<close> (resource,
  events sent, requests to queue), and proves that its phases follow the documented state machine, here the inductive relation
  \<open>wf_step\<close>. \<open>Workflow_Store\<close> models controller/workflowstore, stores in layers; \<open>Completed_Workflows\<close>
  the labels and the garbage collector; \<open>Propeller\<close> models controller/handler.go, the reconciler, with the locale
  \<open>accepting_store\<close> for stores that take every write, which the in-memory store provides. There the properties are about many
  rounds: retries are counted and end, and there is a case in which they do not.

  \<^bold>\<open>Nodes.\<close> \<open>Unique_Id\<close> models the identifiers of nodes in events (pluginmachinery/encoding, nodes/common).
  \<open>Input_Resolution\<close> models nodes/resolve.go and attr_path_resolver.go: the value that a binding gets. \<open>Node_Context\<close> models the
  contexts of an execution and of a node and the events (executors/execution_context.go, node_exec_context.go, transformers.go). The state of a
  round on nodes is the record \<open>nrun\<close>: the statuses, the state manager of the current node, the counters of the control flow,
  the events, and the outside world, of which nothing is assumed. Services are the record \<open>node_env\<close>. \<open>Node_Cache\<close> and \<open>Node_Recovery\<close> model
  nodes/cache.go and the recovery of nodes, \<open>Node_Executor\<close> one round of one node (nodes/executor.go). \<open>Node_Steps\<close> has
  the predicate \<open>keeps\<close> (a step keeps a relation, however it ends) and its rules as locales; \<open>Node_Phases\<close> and \<open>Node_Handlers\<close> prove
  that a round moves a node along the inductive relation \<open>node_moves\<close> if its handler keeps the contract \<open>handled_node\<close>, which the modelled handlers do.
  \<open>Node_Traversal\<close> models the walk over the nodes of a graph; handlers call the walk again, and this recursion
  is closed by \<open>executor\<close> with fuel. \<open>Branch_Handler\<close>, \<open>Gate_Handler\<close> and \<open>Workflow_Handler\<close> model nodes/branch, nodes/gate and
  nodes/subworkflow. \<open>Node_Walk\<close> puts the handlers into the factory; \<open>Walk_Results\<close> proves that on a workflow without cycles more fuel than
  twice the number of nodes changes nothing, that a walk answers that it is complete exactly if all reachable nodes ended well, and that stored choices of branches stay choices.
  \<open>Composed_Executor\<close> runs the workflow executor on the node executor and proves the contract \<open>frames\<close> between them;
  \<open>Failure_Retry\<close> shows that a failure node is not retried.

  \<^bold>\<open>Parameters.\<close> What is not in the repository is an argument with named hypotheses: text forms of messages, JSON and JSON schemas
  (\<open>typing_lib\<close>), the storage and the event sink (\<open>exec_env\<close>, \<open>node_env\<close>), the catalog, the recovery and signal services and the launcher of
  executions (\<open>node_env\<close>), Kubernetes (\<open>kube\<close>), the LRU cache, finalizers, MD5 and
  the format of times. So are parts of the repository that the modelled code calls through an interface: the handlers of task and array
  nodes, with the hypothesis that they keep a relation on the state that each property names. Times are arguments and count nanoseconds. Logs, metrics and traces
  are left out everywhere, but for the places where producing them can panic.

  \<^bold>\<open>Loops.\<close> Recursion is structural wherever the code walks over data. \<open>detectCycle\<close> has fuel, and it is shown that
  the number of nodes suffices. The walk over nodes has fuel for its depth; \<open>stack_overflow\<close>, which panics, is below it. On graphs without cycles
  twice the number of nodes is shown to suffice, once for the node and once for the branch node that leads to it; sub-workflows that
  contain themselves do not end in the code either. \<open>NodeErrorWithCause_Is\<close> is a partial function that never returns, as the code.
  Integers are words where they can wrap (bit indices, attempts, counters, hashes) and exact elsewhere.

  \<^bold>\<open>Not modelled.\<close> The handlers of task and array nodes, which drive plugins, and dynamic nodes below them; the driver of the compiler, whose parts are
  modelled; the translation of a compiled workflow into the resource; event recording, workers and queues. Of the other programs of the
  repository (admin service, data catalog, command line client, copilot, plugins) nothing: they are applications around a
  database, gRPC and Kubernetes objects.
\<close>

end
